(* ===== verification/Prelude.thy ===== *)
theory Prelude
  imports Main "HOL-Library.Finite_Map" "HOL-Library.Char_ord" "HOL-Library.List_Lexorder"
    "HOL-Library.Sublist" "HOL-Library.Multiset"
begin

text \<open>
  Shared vocabulary of the development: Go's basic types, results of fallible
  functions, decimal formatting of counters, and finite maps with the two ways
  the code walks over them (sorted keys, and the unspecified order of
  \<open>range\<close>). The collection \<open>go_eval\<close> holds the equations that evaluate
  closed instances.
\<close>

named_theorems go_eval \<open>equations that evaluate closed instances of the model\<close>

section \<open>Basic types\<close>

text \<open>
  A \<open>time.Time\<close> is the number of nanoseconds since the zero time, so \<open>IsZero\<close> is
  comparison with 0; \<open>time.Duration\<close> and the int64 counters are unbounded
  integers (sequence numbers and versions grow by one per stored record).
\<close>

type_synonym gotime = int
type_synonym duration = int

abbreviation (input) is_zero_time :: "gotime \<Rightarrow> bool" where
  "is_zero_time t \<equiv> t = 0"

abbreviation (input) zero_time :: gotime where
  "zero_time \<equiv> 0"

section \<open>Fallible results\<close>

text \<open>A pair \<open>(value, error)\<close> of the code is \<open>Inr value\<close> or \<open>Inl error\<close>.\<close>

definition andthen :: "'e + 'a \<Rightarrow> ('a \<Rightarrow> 'e + 'b) \<Rightarrow> 'e + 'b" where
  "andthen m f = (case m of Inl e \<Rightarrow> Inl e | Inr x \<Rightarrow> f x)"

lemma andthen_simps [simp, go_eval]:
  "andthen (Inl e) f = Inl e"
  "andthen (Inr x) f = f x"
  by (simp_all add: andthen_def)

lemma andthen_Inr_iff [simp]:
  "andthen m f = Inr y \<longleftrightarrow> (\<exists>x. m = Inr x \<and> f x = Inr y)"
  by (cases m) auto

lemma andthen_Inl_iff:
  "andthen m f = Inl e \<longleftrightarrow> m = Inl e \<or> (\<exists>x. m = Inr x \<and> f x = Inl e)"
  by (cases m) auto

lemma andthen_InrE:
  assumes "andthen m f = Inr y"
  obtains x where "m = Inr x" and "f x = Inr y"
  using assms by auto

section \<open>Decimal formatting\<close>

text \<open>\<open>fmt.Sprintf("%d")\<close> of a counter.\<close>

definition digit :: "nat \<Rightarrow> char" where
  "digit d = char_of (48 + d)"

fun nat_string :: "nat \<Rightarrow> string" where
  "nat_string n = (if n < 10 then [digit n] else nat_string (n div 10) @ [digit (n mod 10)])"

declare nat_string.simps [simp del]

definition int_string :: "int \<Rightarrow> string" where
  "int_string i = (if i < 0 then ''-'' @ nat_string (nat (- i)) else nat_string (nat i))"

definition digits_value :: "string \<Rightarrow> nat" where
  "digits_value cs = foldl (\<lambda>a c. 10 * a + (of_char c - 48)) 0 cs"

lemma of_char_digit: "d < 10 \<Longrightarrow> of_char (digit d) = 48 + d"
  by (simp add: digit_def)

lemma digits_value_nat_string: "digits_value (nat_string n) = n"
proof (induction n rule: nat_string.induct)
  case (1 n)
  show ?case
  proof (cases "n < 10")
    case True
    then show ?thesis
      by (simp add: nat_string.simps [of n] digits_value_def of_char_digit)
  next
    case False
    with "1.IH" show ?thesis
      by (simp add: nat_string.simps [of n] digits_value_def of_char_digit)
  qed
qed

lemma nat_string_inject [simp]: "nat_string m = nat_string n \<longleftrightarrow> m = n"
  by (metis digits_value_nat_string)

lemma nat_string_chars: "c \<in> set (nat_string n) \<Longrightarrow> \<exists>d<10. c = digit d"
proof (induction n rule: nat_string.induct)
  case (1 n)
  show ?case
  proof (cases "n < 10")
    case True
    with "1.prems" show ?thesis by (auto simp: nat_string.simps [of n])
  next
    case False
    with "1.prems" "1.IH" show ?thesis
      by (auto simp: nat_string.simps [of n] intro: exI [of _ "n mod 10"])
  qed
qed

lemma nat_string_no_char:
  assumes "(of_char c :: nat) < 48 \<or> 57 < (of_char c :: nat)"
  shows "c \<notin> set (nat_string n)"
proof
  assume "c \<in> set (nat_string n)"
  then obtain d where "d < 10" "c = digit d" using nat_string_chars by blast
  with assms show False by (simp add: of_char_digit)
qed

lemma nat_string_nonempty [simp]: "nat_string n \<noteq> []"
  by (simp add: nat_string.simps [of n])

lemma nat_string_not_minus: "nat_string n \<noteq> CHR ''-'' # cs"
proof
  assume "nat_string n = CHR ''-'' # cs"
  then have "CHR ''-'' \<in> set (nat_string n)" by simp
  then show False using nat_string_no_char [of "CHR ''-''" n] by simp
qed

lemma int_string_inject [simp]: "int_string i = int_string j \<longleftrightarrow> i = j"
  using nat_string_not_minus [of "nat i"] nat_string_not_minus [of "nat j"]
    nat_string_not_minus [symmetric]
  by (auto simp: int_string_def)

lemma int_string_no_char:
  assumes "(of_char c :: nat) < 45 \<or> 57 < (of_char c :: nat)"
  shows "c \<notin> set (int_string i)"
proof -
  have "c \<noteq> CHR ''-''" using assms by auto
  moreover have "c \<notin> set (nat_string n)" for n
    using assms by (intro nat_string_no_char) auto
  ultimately show ?thesis by (simp add: int_string_def)
qed

section \<open>Finite maps\<close>

text \<open>
  A Go map is a finite map. Where the code sorts the keys before it walks over
  them the order is \<open>sorted_keys\<close>; a plain \<open>range\<close> visits every key once, in an order the
  language leaves open: the model takes that order as an argument \<open>ord\<close>, and
  \<open>range_order ord\<close> says that it is a reordering.
\<close>

definition sorted_keys :: "('k::linorder, 'v) fmap \<Rightarrow> 'k list" where
  "sorted_keys m = sorted_list_of_fset (fmdom m)"

type_synonym 'k order = "'k list \<Rightarrow> 'k list"

definition range_order :: "'k order \<Rightarrow> bool" where
  "range_order ord \<longleftrightarrow> (\<forall>ks. mset (ord ks) = mset ks)"

definition range_keys :: "'k::linorder order \<Rightarrow> ('k, 'v) fmap \<Rightarrow> 'k list" where
  "range_keys ord m = ord (sorted_keys m)"

lemma set_sorted_keys [simp]: "set (sorted_keys m) = fmdom' m"
  by (simp add: sorted_keys_def fmdom'_alt_def)

lemma sorted_sorted_keys [simp]: "sorted (sorted_keys m)"
  by (simp add: sorted_keys_def sorted_list_of_fset.rep_eq)

lemma distinct_sorted_keys [simp]: "distinct (sorted_keys m)"
  by (simp add: sorted_keys_def sorted_list_of_fset.rep_eq)

lemma sorted_keys_empty [simp, go_eval]: "sorted_keys fmempty = []"
  by (simp add: sorted_keys_def sorted_list_of_fset.rep_eq)

lemma sorted_keys_upd [go_eval]:
  "sorted_keys (fmupd k v m) = insort k (sorted_keys (fmdrop k m))"
  by (simp add: sorted_keys_def sorted_list_of_fset.rep_eq fmdom'_alt_def [symmetric]
      sorted_list_of_set_insert_remove)

lemma sorted_keys_drop: "sorted_keys (fmdrop k m) = remove1 k (sorted_keys m)"
  by (simp add: sorted_keys_def sorted_list_of_fset.rep_eq sorted_list_of_set.sorted_key_list_of_set_remove)

lemma mset_range_keys: "range_order ord \<Longrightarrow> mset (range_keys ord m) = mset (sorted_keys m)"
  by (simp add: range_order_def range_keys_def)

lemma set_range_keys [simp]: "range_order ord \<Longrightarrow> set (range_keys ord m) = fmdom' m"
  by (metis mset_eq_setD mset_range_keys set_sorted_keys)

lemma distinct_range_keys [simp]: "range_order ord \<Longrightarrow> distinct (range_keys ord m)"
  by (metis distinct_sorted_keys mset_eq_imp_distinct_iff mset_range_keys)

lemma range_order_id [simp]: "range_order (\<lambda>ks. ks)"
  by (simp add: range_order_def)

lemma range_order_rev [simp]: "range_order rev"
  by (simp add: range_order_def)

lemma fmlookup_some_dom' [simp]: "fmlookup m k = Some v \<Longrightarrow> k \<in> fmdom' m"
  by (rule fmdom'I)

text \<open>Writing a map out as the list of its values in key order and reading it back.\<close>

definition fmap_values :: "('k::linorder, 'v) fmap \<Rightarrow> 'v list" where
  "fmap_values m = map (\<lambda>k. the (fmlookup m k)) (sorted_keys m)"

definition fmap_by :: "('v \<Rightarrow> 'k) \<Rightarrow> 'v list \<Rightarrow> ('k, 'v) fmap" where
  "fmap_by key vs = foldl (\<lambda>m v. fmupd (key v) v m) fmempty vs"

lemma fmlookup_foldl_other:
  "k \<notin> key ` set vs \<Longrightarrow>
   fmlookup (foldl (\<lambda>m v. fmupd (key v) (f v) m) m0 vs) k = fmlookup m0 k"
  by (induction vs arbitrary: m0) auto

lemma fmlookup_foldl_in:
  "distinct (map key vs) \<Longrightarrow> v \<in> set vs \<Longrightarrow>
   fmlookup (foldl (\<lambda>m v. fmupd (key v) (f v) m) m0 vs) (key v) = Some (f v)"
  by (induction vs arbitrary: m0) (auto simp: fmlookup_foldl_other)

lemma map_key_values:
  assumes "\<And>k v. fmlookup m k = Some v \<Longrightarrow> key v = k"
  shows "map key (fmap_values m) = sorted_keys m"
  unfolding fmap_values_def map_map
proof (rule map_idI)
  fix k assume "k \<in> set (sorted_keys m)"
  then obtain v where "fmlookup m k = Some v" by (auto simp: fmlookup_dom'_iff)
  with assms show "(key \<circ> (\<lambda>k. the (fmlookup m k))) k = k" by simp
qed

lemma set_fmap_values: "set (fmap_values m) = {v. \<exists>k. fmlookup m k = Some v}"
  by (force simp: fmap_values_def fmlookup_dom'_iff)

lemma fmlookup_foldl_values:
  assumes "\<And>k v. fmlookup m k = Some v \<Longrightarrow> key v = k"
  shows "fmlookup (foldl (\<lambda>m v. fmupd (key v) (f v) m) m0 (fmap_values m)) k =
    (case fmlookup m k of Some v \<Rightarrow> Some (f v) | None \<Rightarrow> fmlookup m0 k)"
proof (cases "fmlookup m k")
  case None
  then have "k \<notin> key ` set (fmap_values m)"
    using assms by (auto simp: set_fmap_values)
  with None show ?thesis by (simp add: fmlookup_foldl_other)
next
  case (Some v)
  then have "key v = k" "v \<in> set (fmap_values m)"
    using assms by (auto simp: set_fmap_values)
  moreover have "distinct (map key (fmap_values m))"
    using map_key_values [of m key] assms by simp
  ultimately show ?thesis
    using fmlookup_foldl_in [of key "fmap_values m" v f m0] Some by simp
qed

lemma fmap_by_fmap_values:
  assumes "\<And>k v. fmlookup m k = Some v \<Longrightarrow> key v = k"
  shows "fmap_by key (fmap_values m) = m"
  unfolding fmap_by_def
  by (rule fmap_ext, subst fmlookup_foldl_values [of m key "\<lambda>v. v"])
     (auto simp: assms split: option.split)

section \<open>Lists\<close>

text \<open>\<open>appendStringOnce\<close>: a slice used as a set that keeps the order of insertion.\<close>

definition append_once :: "'a list \<Rightarrow> 'a \<Rightarrow> 'a list" where
  "append_once values v = (if v \<in> set values then values else values @ [v])"

lemma set_append_once [simp]: "set (append_once vs v) = insert v (set vs)"
  by (auto simp: append_once_def)

lemma distinct_append_once [simp]: "distinct (append_once vs v) = distinct vs"
  by (auto simp: append_once_def)

lemma count_list_distinct: "distinct xs \<Longrightarrow> x \<in> set xs \<Longrightarrow> count_list xs x = 1"
  by (induction xs) auto

lemma sorted_le_last:
  fixes xs :: "'a::linorder list"
  shows "sorted xs \<Longrightarrow> x \<in> set xs \<Longrightarrow> x \<le> last xs"
  by (cases xs rule: rev_cases) (auto simp: sorted_append)

lemma list_all_butlast_last:
  "xs \<noteq> [] \<Longrightarrow> list_all P xs \<longleftrightarrow> list_all P (butlast xs) \<and> P (last xs)"
  by (cases xs rule: rev_cases) auto

lemma sorted_wrt_snoc:
  "sorted_wrt R (xs @ [x]) \<longleftrightarrow> sorted_wrt R xs \<and> (\<forall>y \<in> set xs. R y x)"
  by (simp add: sorted_wrt_append)

end
