(* ===== verification/Values.thy ===== *)
theory Values
  imports Prelude
begin

text \<open>
  Dynamically typed Go values as the workflow runtime sees them, the small
  structs shared by its components, and errors.

  A value that travels through the scheduler has static type \<open>any\<close>: the
  runtime only copies it, asks for its dynamic type and hands it to callbacks. A value
  is therefore nil, an opaque datum tagged with its dynamic type, or the
  \<open>Inputs\<close> struct that a join builds. Errors keep what \<open>errors.Is\<close> and
  \<open>errors.As\<close> can see (sentinels, wrapping, joining, the runtime's own error
  types) and the constant part of their message.
\<close>

section \<open>Types and values\<close>

text \<open>
  A \<open>reflect.Type\<close> carries its name and the names of the interfaces it
  implements; \<open>any\<close> is implemented by every type.
\<close>

datatype gotype =
    TConcrete (tname: string) (timplements: "string list")
  | TInterface (tname: string) (timplements: "string list")

definition type_any :: gotype where
  "type_any = TInterface ''any'' []"

definition type_Inputs :: gotype where
  "type_Inputs = TConcrete ''workflow.Inputs'' []"

fun is_interface :: "gotype \<Rightarrow> bool" where
  "is_interface (TInterface n ifs) = True"
| "is_interface (TConcrete n ifs) = False"

text \<open>\<open>reflect.Type.AssignableTo\<close>\<close>

definition assignable_to :: "gotype \<Rightarrow> gotype \<Rightarrow> bool" where
  "assignable_to s t \<longleftrightarrow>
     s = t \<or> (is_interface t \<and> (tname t = ''any'' \<or> tname t \<in> set (timplements s)))"

datatype govalue =
    VNil
  | VData gotype string
  | VInputs "(string, govalue list) fmap"

fun dyn_type :: "govalue \<Rightarrow> gotype option" where
  "dyn_type VNil = None"
| "dyn_type (VData t d) = Some t"
| "dyn_type (VInputs c) = Some type_Inputs"

text \<open>The type assertion \<open>v.(T)\<close> succeeds.\<close>

definition has_type :: "govalue \<Rightarrow> gotype \<Rightarrow> bool" where
  "has_type v t = (case dyn_type v of None \<Rightarrow> False | Some d \<Rightarrow> assignable_to d t)"

definition zero_value :: "gotype \<Rightarrow> govalue" where
  "zero_value t =
     (if is_interface t then VNil else if t = type_Inputs then VInputs fmempty else VData t [])"

lemma assignable_to_refl [simp]: "assignable_to t t"
  by (simp add: assignable_to_def)

lemma assignable_to_any [simp]: "assignable_to t type_any"
  by (simp add: assignable_to_def type_any_def)

lemma assignable_to_concrete: "\<not> is_interface t \<Longrightarrow> assignable_to s t \<longleftrightarrow> s = t"
  by (auto simp: assignable_to_def)

section \<open>Correlation keys\<close>

text \<open>
  \<open>CorrelationKey\<close> and \<open>joinBucketKey\<close> are compared field by field when checkpoints list
  buckets; their order is the one of \<open>joinBucketLess\<close>.
\<close>

datatype CorrelationKey = CorrelationKey (corr_id: string) (corr_epoch: int)

instantiation CorrelationKey :: linorder
begin

definition less_CorrelationKey :: "CorrelationKey \<Rightarrow> CorrelationKey \<Rightarrow> bool" where
  "less_CorrelationKey l r \<longleftrightarrow>
     (if corr_id l \<noteq> corr_id r then corr_id l < corr_id r else corr_epoch l < corr_epoch r)"

definition less_eq_CorrelationKey :: "CorrelationKey \<Rightarrow> CorrelationKey \<Rightarrow> bool" where
  "less_eq_CorrelationKey l r \<longleftrightarrow> l < r \<or> l = r"

instance
proof
  fix x y z :: CorrelationKey
  show "(x < y) = (x \<le> y \<and> \<not> y \<le> x)"
    by (auto simp: less_eq_CorrelationKey_def less_CorrelationKey_def split: if_splits)
  show "x \<le> x" by (simp add: less_eq_CorrelationKey_def)
  show "x \<le> y \<Longrightarrow> y \<le> z \<Longrightarrow> x \<le> z"
    by (auto simp: less_eq_CorrelationKey_def less_CorrelationKey_def split: if_splits)
  show "x \<le> y \<Longrightarrow> y \<le> x \<Longrightarrow> x = y"
    by (auto simp: less_eq_CorrelationKey_def less_CorrelationKey_def split: if_splits)
  show "x \<le> y \<or> y \<le> x"
    by (cases x; cases y)
       (auto simp: less_eq_CorrelationKey_def less_CorrelationKey_def split: if_splits)
qed

end

datatype joinBucketKey = BucketKey (bk_target: string) (bk_corr: CorrelationKey)

instantiation joinBucketKey :: linorder
begin

definition less_joinBucketKey :: "joinBucketKey \<Rightarrow> joinBucketKey \<Rightarrow> bool" where
  "less_joinBucketKey l r \<longleftrightarrow>
     (if corr_id (bk_corr l) \<noteq> corr_id (bk_corr r) then corr_id (bk_corr l) < corr_id (bk_corr r)
      else if corr_epoch (bk_corr l) \<noteq> corr_epoch (bk_corr r)
        then corr_epoch (bk_corr l) < corr_epoch (bk_corr r)
      else bk_target l < bk_target r)"

definition less_eq_joinBucketKey :: "joinBucketKey \<Rightarrow> joinBucketKey \<Rightarrow> bool" where
  "less_eq_joinBucketKey l r \<longleftrightarrow> l < r \<or> l = r"

instance
proof
  fix x y z :: joinBucketKey
  show "(x < y) = (x \<le> y \<and> \<not> y \<le> x)"
    by (auto simp: less_eq_joinBucketKey_def less_joinBucketKey_def split: if_splits)
  show "x \<le> x" by (simp add: less_eq_joinBucketKey_def)
  show "x \<le> y \<Longrightarrow> y \<le> z \<Longrightarrow> x \<le> z"
    by (auto simp: less_eq_joinBucketKey_def less_joinBucketKey_def split: if_splits)
  show "x \<le> y \<Longrightarrow> y \<le> x \<Longrightarrow> x = y"
    by (auto simp: less_eq_joinBucketKey_def less_joinBucketKey_def split: if_splits)
  show "x \<le> y \<or> y \<le> x"
    by (cases x; cases y; cases "bk_corr x"; cases "bk_corr y")
       (auto simp: less_eq_joinBucketKey_def less_joinBucketKey_def split: if_splits)
qed

end

section \<open>Interrupts and rejections\<close>

text \<open>A guard phase is a string type of the code; other strings are possible values.\<close>

datatype GuardPhase = GuardBeforeRun | GuardBeforeCommit | GuardPhaseOther string

record InterruptRequest =
  ir_ID :: string
  ir_Subject :: string
  ir_ResolutionSchemaRef :: string

record InterruptErrorRec =
  ie_Request :: InterruptRequest
  ie_Requests :: "InterruptRequest list"
  ie_RunID :: string
  ie_CheckpointID :: string
  ie_GuardName :: string
  ie_Phase :: GuardPhase
  ie_candidateOutput :: govalue
  ie_hasCandidateOutput :: bool

record RetryHint =
  rh_Retryable :: bool
  rh_Message :: string

record GuardRejection =
  gr_ID :: string
  gr_GuardName :: string
  gr_Phase :: string
  gr_Reason :: string
  gr_Message :: string
  gr_SubjectRef :: string
  gr_RetryHint :: "RetryHint option"

section \<open>Errors\<close>

datatype sentinel =
    ErrCheckpointExists | ErrCheckpointNotFound | ErrCheckpointConflict
  | ErrInvalidCheckpoint | ErrCheckpointMismatch | ErrCheckpointLeaseLost
  | ErrCheckpointTypeConflict | ErrHistoryLimitExceeded
  | ErrRunTerminated | ErrRunNotActive | ErrRunActive
  | ErrNilLog | ErrInvalidRecord | ErrInvalidQuery | ErrHistoryCompacted | ErrConflict
  | ErrRunConfig | ErrInvalidIdentity | ErrDuplicateAgent
  | ErrToolOutcomeNotObservable | ErrInvalidObservation
  | ErrNilWorkflow | ErrNilCompiled | ErrInconsistentRunLifecycle | ErrSettleSatisfied
  | ContextCanceled | DeadlineExceeded

datatype goerr =
    Sentinel sentinel
  | Msg string
  | Wrap string "goerr list"
  | Joined "goerr list"
  | LeaseError goerr string string int
  | Preserved goerr
  | Interrupted InterruptErrorRec
  | Rejected GuardRejection

text \<open>\<open>errors.Is\<close> against a sentinel: the tree of wrapped errors is searched.\<close>

fun errors_is :: "goerr \<Rightarrow> sentinel \<Rightarrow> bool" where
  "errors_is (Sentinel s) t = (s = t)"
| "errors_is (Msg m) t = False"
| "errors_is (Wrap p es) t = (\<exists>e \<in> set es. errors_is e t)"
| "errors_is (Joined es) t = (\<exists>e \<in> set es. errors_is e t)"
| "errors_is (LeaseError e r ow c) t = errors_is e t"
| "errors_is (Preserved e) t = errors_is e t"
| "errors_is (Interrupted i) t = False"
| "errors_is (Rejected r) t = False"

text \<open>\<open>errors.As\<close>: the first match of a depth-first search.\<close>

fun first_some :: "'a option list \<Rightarrow> 'a option" where
  "first_some [] = None"
| "first_some (Some x # xs) = Some x"
| "first_some (None # xs) = first_some xs"

fun as_interrupt :: "goerr \<Rightarrow> InterruptErrorRec option" where
  "as_interrupt (Interrupted i) = Some i"
| "as_interrupt (Wrap p es) = first_some (map as_interrupt es)"
| "as_interrupt (Joined es) = first_some (map as_interrupt es)"
| "as_interrupt (LeaseError e r ow c) = as_interrupt e"
| "as_interrupt (Preserved e) = as_interrupt e"
| "as_interrupt (Sentinel s) = None"
| "as_interrupt (Msg m) = None"
| "as_interrupt (Rejected r) = None"

fun as_rejection :: "goerr \<Rightarrow> GuardRejection option" where
  "as_rejection (Rejected r) = Some r"
| "as_rejection (Wrap p es) = first_some (map as_rejection es)"
| "as_rejection (Joined es) = first_some (map as_rejection es)"
| "as_rejection (LeaseError e r ow c) = as_rejection e"
| "as_rejection (Preserved e) = as_rejection e"
| "as_rejection (Sentinel s) = None"
| "as_rejection (Msg m) = None"
| "as_rejection (Interrupted i) = None"

fun as_lease_error :: "goerr \<Rightarrow> (string \<times> string \<times> int) option" where
  "as_lease_error (LeaseError e r ow c) = Some (r, ow, c)"
| "as_lease_error (Wrap p es) = first_some (map as_lease_error es)"
| "as_lease_error (Joined es) = first_some (map as_lease_error es)"
| "as_lease_error (Preserved e) = as_lease_error e"
| "as_lease_error (Sentinel s) = None"
| "as_lease_error (Msg m) = None"
| "as_lease_error (Interrupted i) = None"
| "as_lease_error (Rejected r) = None"

definition is_canceled :: "goerr \<Rightarrow> bool" where
  "is_canceled e \<longleftrightarrow> errors_is e ContextCanceled \<or> errors_is e DeadlineExceeded"

text \<open>\<open>Error()\<close>: a sentinel's text is its name; formatted arguments are left out.\<close>

fun sentinel_text :: "sentinel \<Rightarrow> string" where
  "sentinel_text ContextCanceled = ''context canceled''"
| "sentinel_text DeadlineExceeded = ''context deadline exceeded''"
| "sentinel_text ErrCheckpointLeaseLost = ''workflow: checkpoint lease lost''"
| "sentinel_text ErrSettleSatisfied = ''workflow: source set satisfied''"
| "sentinel_text _ = ''error''"

fun err_text :: "goerr \<Rightarrow> string" where
  "err_text (Sentinel s) = sentinel_text s"
| "err_text (Msg m) = m"
| "err_text (Wrap p es) = p @ concat (map (\<lambda>e. '': '' @ err_text e) es)"
| "err_text (Joined es) = concat (map (\<lambda>e. err_text e @ [CHR 0x0A]) es)"
| "err_text (LeaseError e r ow c) = err_text e"
| "err_text (Preserved e) = err_text e"
| "err_text (Interrupted i) =
     (if ir_ID (ie_Request i) = [] then ''workflow: guard interrupted''
      else ''workflow: guard interrupted: '' @ ir_ID (ie_Request i))"
| "err_text (Rejected r) =
     (if gr_Reason r = [] then ''gopact: guard rejected''
      else ''gopact: guard rejected: '' @ gr_Reason r)"

text \<open>\<open>errors.Join\<close> drops nil errors and is nil when nothing is left.\<close>

definition errors_join :: "goerr option list \<Rightarrow> goerr option" where
  "errors_join es =
     (let ks = List.map_filter id es in if ks = [] then None else Some (Joined ks))"

lemma errors_join_None [simp]: "errors_join es = None \<longleftrightarrow> set es \<subseteq> {None}"
proof -
  have "List.map_filter id es = [] \<longleftrightarrow> set es \<subseteq> {None}"
    by (induction es) (auto simp: map_filter_simps split: option.split)
  then show ?thesis by (auto simp: errors_join_def Let_def)
qed

section \<open>Callbacks\<close>

text \<open>
  A user callback returns a value, returns an error, or panics with an error or another
  value. \<open>invokeCallback\<close> turns a panic into an error.
\<close>

datatype 'a callback = Return 'a | Fails goerr | PanicsErr goerr | PanicsWith string

definition callbackPanicError :: "string \<Rightarrow> string \<Rightarrow> goerr + string \<Rightarrow> goerr" where
  "callbackPanicError kind name recovered =
     (let what = (if name \<noteq> [] then kind @ '' '' @ name else kind) in
      case recovered of
        Inl cause \<Rightarrow> Wrap (''workflow: '' @ what @ '' panic'') [cause]
      | Inr text \<Rightarrow> Msg (''workflow: '' @ what @ '' panic: '' @ text))"

definition invokeCallback :: "string \<Rightarrow> string \<Rightarrow> 'a callback \<Rightarrow> goerr + 'a" where
  "invokeCallback kind name callback =
     (case callback of
        Return v \<Rightarrow> Inr v
      | Fails e \<Rightarrow> Inl e
      | PanicsErr e \<Rightarrow> Inl (callbackPanicError kind name (Inl e))
      | PanicsWith s \<Rightarrow> Inl (callbackPanicError kind name (Inr s)))"

lemma invokeCallback_Inr [simp]: "invokeCallback k n cb = Inr v \<longleftrightarrow> cb = Return v"
  by (cases cb) (auto simp: invokeCallback_def)

lemma errors_is_callbackPanicError [simp]:
  "errors_is (callbackPanicError k n (Inl e)) s = errors_is e s"
  "errors_is (callbackPanicError k n (Inr m)) s = False"
  by (auto simp: callbackPanicError_def Let_def)

end
