(* ===== verification/Events.thy ===== *)
theory Events
  imports Values
begin

text \<open>
  The process event envelope (\<open>runtime.go\<close>), the runtime's reserved event types,
  the admission of custom events (\<open>Emit\<close>, \<open>validateCustomEvent\<close>), the node events
  an activation produces (\<open>node_event.go\<close>) and the delivery of one event to the sinks
  of a run.
\<close>

section \<open>Phases\<close>

datatype activationPhase =
    activationReady | activationRunning | activationCompleted | activationFailed
  | activationCanceled | activationInterrupted | activationSkipped
  | ActivationPhaseOther string

datatype branchPhase =
    branchRunning | branchCompleted | branchFailed | branchSkipped | branchCanceled
  | branchSuperseded | BranchPhaseOther string

abbreviation branchUnset :: branchPhase where
  "branchUnset \<equiv> BranchPhaseOther []"

fun activationPhase_string :: "activationPhase \<Rightarrow> string" where
  "activationPhase_string activationReady = ''ready''"
| "activationPhase_string activationRunning = ''running''"
| "activationPhase_string activationCompleted = ''completed''"
| "activationPhase_string activationFailed = ''failed''"
| "activationPhase_string activationCanceled = ''canceled''"
| "activationPhase_string activationInterrupted = ''interrupted''"
| "activationPhase_string activationSkipped = ''skipped''"
| "activationPhase_string (ActivationPhaseOther s) = s"

section \<open>Events\<close>

record NodeEventPayload =
  ne_NodeName :: string
  ne_ActivationID :: string
  ne_Attempt :: int
  ne_NodeExecutionVersion :: int
  ne_ActivationPhase :: activationPhase
  ne_SourceSetID :: string
  ne_BranchIndex :: int
  ne_BranchPhase :: branchPhase
  ne_Correlation :: CorrelationKey
  ne_ContextRevision :: int
  ne_Status :: string
  ne_Error :: string

record IterEventPayload =
  ip_IteratorID :: string
  ip_SourceActivation :: string
  ip_SourceSetID :: string
  ip_Target :: string
  ip_ItemIndex :: int
  ip_Correlation :: CorrelationKey

text \<open>
  A payload is raw JSON. What the runtime itself marshals is kept as the value that was
  marshalled, one constructor per Go type; raw bytes supplied by users are \<open>PRaw\<close>.
\<close>

datatype payload =
    PEmpty
  | PRaw string
  | PNode NodeEventPayload
  | PIter IterEventPayload
  | PInterrupt InterruptRequest
  | PReject GuardRejection

record Event =
  ev_DefinitionID :: string
  ev_DefinitionVersion :: string
  ev_SessionID :: string
  ev_RunID :: string
  ev_NodeID :: string
  ev_ActivationID :: string
  ev_AttemptID :: string
  ev_RevisionID :: string
  ev_ParentRunID :: string
  ev_NodeExecutionVersion :: int
  ev_ExecutionEpoch :: int
  ev_SourceRevisionID :: string
  ev_Sequence :: int
  ev_Type :: string
  ev_Source :: string
  ev_Origin :: string
  ev_Timestamp :: gotime
  ev_Summary :: string
  ev_Payload :: payload
  ev_PayloadRef :: string

definition zero_Event :: Event where
  "zero_Event =
     \<lparr>ev_DefinitionID = [], ev_DefinitionVersion = [], ev_SessionID = [], ev_RunID = [],
      ev_NodeID = [], ev_ActivationID = [], ev_AttemptID = [], ev_RevisionID = [],
      ev_ParentRunID = [], ev_NodeExecutionVersion = 0, ev_ExecutionEpoch = 0,
      ev_SourceRevisionID = [], ev_Sequence = 0, ev_Type = [], ev_Source = [], ev_Origin = [],
      ev_Timestamp = 0, ev_Summary = [], ev_Payload = PEmpty, ev_PayloadRef = []\<rparr>"

section \<open>Reserved event types\<close>

abbreviation "EventWorkflowStarted \<equiv> ''workflow.started''"
abbreviation "EventWorkflowResumed \<equiv> ''workflow.resumed''"
abbreviation "EventWorkflowRetryStarted \<equiv> ''workflow.retry_started''"
abbreviation "EventWorkflowJumpStarted \<equiv> ''workflow.jump_started''"
abbreviation "EventWorkflowCompleted \<equiv> ''workflow.completed''"
abbreviation "EventWorkflowFailed \<equiv> ''workflow.failed''"
abbreviation "EventWorkflowCanceled \<equiv> ''workflow.canceled''"
abbreviation "EventWorkflowTerminated \<equiv> ''workflow.terminated''"
abbreviation "EventWorkflowInterrupted \<equiv> ''workflow.interrupted''"
abbreviation "EventNodeStarted \<equiv> ''node.started''"
abbreviation "EventNodeRetrying \<equiv> ''node.retrying''"
abbreviation "EventNodeCompleted \<equiv> ''node.completed''"
abbreviation "EventNodeCanceled \<equiv> ''node.canceled''"
abbreviation "EventNodeSuperseded \<equiv> ''node.superseded''"
abbreviation "EventNodeOutputCommitted \<equiv> ''node.output_committed''"
abbreviation "EventNodeSkipped \<equiv> ''node.skipped''"
abbreviation "EventNodeFailed \<equiv> ''node.failed''"
abbreviation "EventGuardRejected \<equiv> ''guard.rejected''"
abbreviation "EventGuardInterrupted \<equiv> ''guard.interrupted''"
abbreviation "EventCheckpointLoaded \<equiv> ''checkpoint.loaded''"
abbreviation "EventWorkflowCustomEvent \<equiv> ''workflow.event''"
abbreviation "EventLifecycleHookStarted \<equiv> ''lifecycle.hook_started''"
abbreviation "EventLifecycleHookCompleted \<equiv> ''lifecycle.hook_completed''"
abbreviation "EventLifecycleHookFailed \<equiv> ''lifecycle.hook_failed''"
abbreviation "EventIterItemPulled \<equiv> ''route.iter_item_pulled''"
abbreviation "EventIterClosed \<equiv> ''route.iter_closed''"
abbreviation "EventIterFailed \<equiv> ''route.iter_failed''"

definition runtime_event_types :: "string list" where
  "runtime_event_types =
    [EventWorkflowStarted, EventWorkflowResumed, EventWorkflowRetryStarted,
     EventWorkflowJumpStarted, EventWorkflowCompleted, EventWorkflowFailed,
     EventWorkflowCanceled, EventWorkflowTerminated, EventWorkflowInterrupted,
     EventNodeStarted, EventNodeRetrying, EventNodeCompleted, EventNodeCanceled,
     EventNodeSuperseded, EventNodeOutputCommitted, EventNodeSkipped, EventNodeFailed,
     EventGuardRejected, EventGuardInterrupted, EventCheckpointLoaded,
     EventLifecycleHookStarted, EventLifecycleHookCompleted, EventLifecycleHookFailed,
     EventIterItemPulled, EventIterClosed, EventIterFailed]"

definition isRuntimeEventType :: "string \<Rightarrow> bool" where
  "isRuntimeEventType eventType = List.member runtime_event_types eventType"

lemma isRuntimeEventType_iff: "isRuntimeEventType t \<longleftrightarrow> t \<in> set runtime_event_types"
  by (simp add: isRuntimeEventType_def)

lemma isRuntimeEventType_unset [simp]: "\<not> isRuntimeEventType []"
  by (simp add: isRuntimeEventType_iff runtime_event_types_def)

section \<open>Custom events\<close>

text \<open>
  \<open>encoding/json\<close> as the code uses it on raw bytes: whether a document is valid, and
  the length of what \<open>json.Marshal\<close> writes.
\<close>

record json_lib =
  js_valid :: "string \<Rightarrow> bool"
  js_size :: "payload \<Rightarrow> nat"

definition payload_len :: "json_lib \<Rightarrow> payload \<Rightarrow> nat" where
  "payload_len js p = (case p of PEmpty \<Rightarrow> 0 | PRaw s \<Rightarrow> length s | _ \<Rightarrow> js_size js p)"

definition payload_valid :: "json_lib \<Rightarrow> payload \<Rightarrow> bool" where
  "payload_valid js p = (case p of PEmpty \<Rightarrow> False | PRaw s \<Rightarrow> js_valid js s | _ \<Rightarrow> True)"

definition maxWorkflowEventPayloadBytes :: nat where
  "maxWorkflowEventPayloadBytes = 64 * 1024"

text \<open>A registered validator is a user callback that may return an error.\<close>

type_synonym EventTypeValidator = "Event \<Rightarrow> goerr option"

definition validateCustomEvent ::
  "json_lib \<Rightarrow> (string \<rightharpoonup> EventTypeValidator) \<Rightarrow> Event \<Rightarrow> goerr option" where
  "validateCustomEvent js types event =
     (if ev_Type event = [] then Some (Msg ''workflow: event type is required'')
      else if isRuntimeEventType (ev_Type event)
        then Some (Msg ''workflow: event type is reserved for the runtime'')
      else if payload_len js (ev_Payload event) > maxWorkflowEventPayloadBytes
        then Some (Msg ''workflow: event payload is too large'')
      else if payload_len js (ev_Payload event) > 0 \<and> \<not> payload_valid js (ev_Payload event)
        then Some (Msg ''workflow: event payload is invalid JSON'')
      else (case types (ev_Type event) of
              None \<Rightarrow> None
            | Some validator \<Rightarrow>
                (case validator event of
                   None \<Rightarrow> None
                 | Some err \<Rightarrow> Some (Wrap ''workflow: validate event'' [err]))))"

text \<open>
  \<open>Emit\<close>: the fields the runtime owns must be unset; the emitter of the run, when
  the context carries one, gets the event.
\<close>

definition sets_runtime_identity :: "Event \<Rightarrow> bool" where
  "sets_runtime_identity event \<longleftrightarrow>
     ev_DefinitionID event \<noteq> [] \<or> ev_DefinitionVersion event \<noteq> [] \<or> ev_SessionID event \<noteq> [] \<or>
     ev_RunID event \<noteq> [] \<or> ev_NodeID event \<noteq> [] \<or> ev_ActivationID event \<noteq> [] \<or>
     ev_AttemptID event \<noteq> [] \<or> ev_RevisionID event \<noteq> [] \<or> ev_ParentRunID event \<noteq> [] \<or>
     ev_NodeExecutionVersion event \<noteq> 0 \<or> ev_ExecutionEpoch event \<noteq> 0 \<or>
     ev_SourceRevisionID event \<noteq> [] \<or> ev_Sequence event \<noteq> 0 \<or>
     \<not> is_zero_time (ev_Timestamp event) \<or> ev_Source event \<noteq> [] \<or> ev_Origin event \<noteq> []"

definition Emit ::
  "(Event \<Rightarrow> 's \<Rightarrow> goerr option \<times> 's) option \<Rightarrow> Event \<Rightarrow> 's \<Rightarrow> goerr option \<times> 's" where
  "Emit emitter event s =
     (if sets_runtime_identity event
        then (Some (Msg ''workflow: emitted event must not set runtime identity''), s)
      else (case emitter of
              None \<Rightarrow> (Some (Msg ''workflow: event emitter is not available''), s)
            | Some emit \<Rightarrow> emit event s))"

definition emitRuntimeEvent ::
  "(Event \<Rightarrow> 's \<Rightarrow> goerr option \<times> 's) option \<Rightarrow> Event \<Rightarrow> 's \<Rightarrow> goerr option \<times> 's" where
  "emitRuntimeEvent emitter event s =
     (case emitter of
        None \<Rightarrow> (Some (Msg ''workflow: runtime event emitter is not available''), s)
      | Some emit \<Rightarrow> emit event s)"

lemma validateCustomEvent_None_iff:
  "validateCustomEvent js types event = None \<longleftrightarrow>
     ev_Type event \<noteq> [] \<and> \<not> isRuntimeEventType (ev_Type event) \<and>
     payload_len js (ev_Payload event) \<le> maxWorkflowEventPayloadBytes \<and>
     (payload_len js (ev_Payload event) = 0 \<or> payload_valid js (ev_Payload event)) \<and>
     (\<forall>validator. types (ev_Type event) = Some validator \<longrightarrow> validator event = None)"
  by (auto simp: validateCustomEvent_def not_less split: option.splits)

section \<open>Node events\<close>

definition nodeEventStatus :: "string \<Rightarrow> activationPhase \<Rightarrow> string" where
  "nodeEventStatus eventType phase =
     (if eventType = EventNodeRetrying then ''retrying''
      else if eventType = EventNodeSuperseded then ''superseded''
      else activationPhase_string phase)"

definition nodeErrorClass :: "goerr option \<Rightarrow> string" where
  "nodeErrorClass err =
     (case err of
        None \<Rightarrow> []
      | Some e \<Rightarrow> if errors_is e DeadlineExceeded then ''deadline_exceeded''
                  else if errors_is e ContextCanceled then ''canceled''
                  else ''failed'')"

section \<open>Sinks\<close>

text \<open>
  A sink is called with the event and may change the world \<open>'s\<close>; a panic becomes an
  error. Sink failures stop delivery only for strict sinks. A sink may also observe model
  and tool events (\<open>component_event.go\<close>), here of type \<open>'m\<close>.
\<close>

record ('s, 'm) EventSink =
  es_Emit :: "Event \<Rightarrow> 's \<Rightarrow> unit callback \<times> 's"
  es_strict :: bool
  es_EmitComponent :: "('m \<Rightarrow> 's \<Rightarrow> unit callback \<times> 's) option"

definition IsStrictEventSink :: "('s, 'm) EventSink \<Rightarrow> bool" where
  "IsStrictEventSink sink = es_strict sink"

definition recovered_error :: "string \<Rightarrow> unit callback \<Rightarrow> goerr option" where
  "recovered_error text result =
     (case result of
        Return u \<Rightarrow> None
      | Fails e \<Rightarrow> Some e
      | PanicsErr e \<Rightarrow> Some (Msg text)
      | PanicsWith s \<Rightarrow> Some (Msg text))"

definition emitEventSink :: "('s, 'm) EventSink \<Rightarrow> Event \<Rightarrow> 's \<Rightarrow> goerr option \<times> 's" where
  "emitEventSink sink event s =
     (let (result, s1) = es_Emit sink event s
      in (recovered_error ''event sink panic'' result, s1))"

fun eventDelivery_emit ::
  "('s, 'm) EventSink option list \<Rightarrow> Event \<Rightarrow> 's \<Rightarrow> goerr option \<times> 's" where
  "eventDelivery_emit [] event s = (None, s)"
| "eventDelivery_emit (None # sinks) event s = eventDelivery_emit sinks event s"
| "eventDelivery_emit (Some sink # sinks) event s =
     (case emitEventSink sink event s of
        (Some err, s1) \<Rightarrow>
          if IsStrictEventSink sink then (Some (Wrap ''workflow: emit event'' [err]), s1)
          else eventDelivery_emit sinks event s1
      | (None, s1) \<Rightarrow> eventDelivery_emit sinks event s1)"

fun emit_component ::
  "string \<Rightarrow> string \<Rightarrow> ('s, 'm) EventSink list \<Rightarrow> 'm \<Rightarrow> 's \<Rightarrow> goerr option \<times> 's" where
  "emit_component what panic [] event s = (None, s)"
| "emit_component what panic (sink # sinks) event s =
     (case es_EmitComponent sink of
        None \<Rightarrow> emit_component what panic sinks event s
      | Some target \<Rightarrow>
          (case target event s of
             (result, s1) \<Rightarrow>
               (case recovered_error panic result of
                  Some err \<Rightarrow>
                    if IsStrictEventSink sink then (Some (Wrap what [err]), s1)
                    else emit_component what panic sinks event s1
                | None \<Rightarrow> emit_component what panic sinks event s1)))"

definition emitModel :: "('s, 'm) EventSink list \<Rightarrow> 'm \<Rightarrow> 's \<Rightarrow> goerr option \<times> 's" where
  "emitModel = emit_component ''workflow: emit model event'' ''model event sink panic''"

definition emitTool :: "('s, 'm) EventSink list \<Rightarrow> 'm \<Rightarrow> 's \<Rightarrow> goerr option \<times> 's" where
  "emitTool = emit_component ''workflow: emit tool event'' ''tool event sink panic''"

text \<open>
  \<open>applyEventSinkWrappers\<close>: plugins wrap a sink, the first wrapper outermost; the
  strictness of the original sink is kept by \<open>strictWorkflowEventSink\<close>, which embeds
  the interface \<open>EventSink\<close> only and so hides the component events.
\<close>

definition strictWorkflowEventSink :: "('s, 'm) EventSink \<Rightarrow> ('s, 'm) EventSink" where
  "strictWorkflowEventSink sink = sink\<lparr>es_strict := True, es_EmitComponent := None\<rparr>"

definition applyEventSinkWrappers ::
  "('s, 'm) EventSink list \<Rightarrow> (('s, 'm) EventSink \<Rightarrow> ('s, 'm) EventSink) list
   \<Rightarrow> ('s, 'm) EventSink list" where
  "applyEventSinkWrappers sinks wrappers =
     (if sinks = [] \<or> wrappers = [] then sinks
      else map (\<lambda>sink.
        let wrapped = foldr (\<lambda>wrap inner. wrap inner) wrappers sink
        in if IsStrictEventSink sink then strictWorkflowEventSink wrapped else wrapped) sinks)"

text \<open>What delivery guarantees: the specification visits the sinks in order.\<close>

fun deliver_all :: "('s, 'm) EventSink option list \<Rightarrow> Event \<Rightarrow> 's \<Rightarrow> 's" where
  "deliver_all [] event s = s"
| "deliver_all (None # sinks) event s = deliver_all sinks event s"
| "deliver_all (Some sink # sinks) event s = deliver_all sinks event (snd (es_Emit sink event s))"

lemma eventDelivery_emit_Some:
  "eventDelivery_emit (Some sink # sinks) event s =
     (if fst (emitEventSink sink event s) = None \<or> \<not> es_strict sink
      then eventDelivery_emit sinks event (snd (es_Emit sink event s))
      else (Some (Wrap ''workflow: emit event'' [the (fst (emitEventSink sink event s))]),
            snd (es_Emit sink event s)))"
  by (simp add: emitEventSink_def IsStrictEventSink_def case_prod_beta Let_def split: option.split)

declare eventDelivery_emit.simps(3) [simp del]

lemmas eventDelivery_simps = eventDelivery_emit.simps(1,2) eventDelivery_emit_Some

lemma eventDelivery_no_strict:
  "list_all (\<lambda>sink. case sink of None \<Rightarrow> True | Some k \<Rightarrow> \<not> es_strict k) sinks \<Longrightarrow>
   eventDelivery_emit sinks event s = (None, deliver_all sinks event s)"
proof (induction sinks arbitrary: s)
  case (Cons a sinks)
  then show ?case by (cases a) (simp_all add: eventDelivery_emit_Some)
qed simp

lemma eventDelivery_None:
  assumes "fst (eventDelivery_emit sinks event s) = None"
  shows "snd (eventDelivery_emit sinks event s) = deliver_all sinks event s"
  using assms
proof (induction sinks arbitrary: s)
  case (Cons a sinks)
  show ?case
  proof (cases a)
    case None
    with Cons show ?thesis by simp
  next
    case (Some sink)
    with Cons.prems have "fst (emitEventSink sink event s) = None \<or> \<not> es_strict sink"
      and "fst (eventDelivery_emit sinks event (snd (es_Emit sink event s))) = None"
      by (simp_all add: eventDelivery_emit_Some split: if_splits)
    with Cons.IH [of "snd (es_Emit sink event s)"] Some show ?thesis
      by (auto simp: eventDelivery_emit_Some)
  qed
qed simp

lemma applyEventSinkWrappers_length [simp]:
  "length (applyEventSinkWrappers sinks ws) = length sinks"
  by (simp add: applyEventSinkWrappers_def)

lemma applyEventSinkWrappers_strict:
  assumes "i < length sinks" and "IsStrictEventSink (sinks ! i)"
  shows "IsStrictEventSink (applyEventSinkWrappers sinks ws ! i)"
  using assms
  by (auto simp: applyEventSinkWrappers_def IsStrictEventSink_def strictWorkflowEventSink_def Let_def)

end
