(* ===== verification/Runlog.thy ===== *)
theory Runlog
  imports Events
begin

text \<open>
  The append-only execution log of package \<open>runlog\<close>: records, queries, the in-memory
  log with its idempotent \<open>Append\<close> and filtering \<open>List\<close>, and the sink that projects
  events into a log. The locale \<open>run_log\<close> is the interface \<open>Log\<close>: what a client
  that pages through one run's records relies on.
\<close>

section \<open>Records and queries\<close>

record Association =
  as_SourceRunID :: string
  as_SourceEventSeq :: int

record Fence =
  fn_OwnerID :: string
  fn_ClaimSequence :: int

record Record =
  rl_DefinitionID :: string
  rl_DefinitionVersion :: string
  rl_SessionID :: string
  rl_RunID :: string
  rl_NodeID :: string
  rl_ActivationID :: string
  rl_AttemptID :: string
  rl_RevisionID :: string
  rl_ParentRunID :: string
  rl_SourceRunID :: string
  rl_SourceEventSeq :: int
  rl_Sequence :: int
  rl_NodeExecutionVersion :: int
  rl_ExecutionEpoch :: int
  rl_SourceRevisionID :: string
  rl_EventType :: string
  rl_Phase :: string
  rl_Source :: string
  rl_Origin :: string
  rl_Summary :: string
  rl_Payload :: payload
  rl_PayloadRef :: string
  rl_CheckpointID :: string
  rl_ErrorKind :: string
  rl_ErrorMessage :: string
  rl_Timestamp :: gotime
  rl_Metadata :: "(string, string) fmap option"

record Query =
  q_SessionID :: string
  q_RunID :: string
  q_After :: int
  q_Limit :: int

definition RecordFromEvent :: "Event \<Rightarrow> Record" where
  "RecordFromEvent event =
     \<lparr>rl_DefinitionID = ev_DefinitionID event,
      rl_DefinitionVersion = ev_DefinitionVersion event,
      rl_SessionID = ev_SessionID event,
      rl_RunID = ev_RunID event,
      rl_NodeID = ev_NodeID event,
      rl_ActivationID = ev_ActivationID event,
      rl_AttemptID = ev_AttemptID event,
      rl_RevisionID = ev_RevisionID event,
      rl_ParentRunID = ev_ParentRunID event,
      rl_SourceRunID = [],
      rl_SourceEventSeq = 0,
      rl_Sequence = ev_Sequence event,
      rl_NodeExecutionVersion = ev_NodeExecutionVersion event,
      rl_ExecutionEpoch = ev_ExecutionEpoch event,
      rl_SourceRevisionID = ev_SourceRevisionID event,
      rl_EventType = ev_Type event,
      rl_Phase = [],
      rl_Source = ev_Source event,
      rl_Origin = ev_Origin event,
      rl_Summary = ev_Summary event,
      rl_Payload = ev_Payload event,
      rl_PayloadRef = ev_PayloadRef event,
      rl_CheckpointID = [],
      rl_ErrorKind = [],
      rl_ErrorMessage = [],
      rl_Timestamp = ev_Timestamp event,
      rl_Metadata = None\<rparr>"

definition eventFromRunLogRecord :: "Record \<Rightarrow> Event" where
  "eventFromRunLogRecord record =
     \<lparr>ev_DefinitionID = rl_DefinitionID record,
      ev_DefinitionVersion = rl_DefinitionVersion record,
      ev_SessionID = rl_SessionID record,
      ev_RunID = rl_RunID record,
      ev_NodeID = rl_NodeID record,
      ev_ActivationID = rl_ActivationID record,
      ev_AttemptID = rl_AttemptID record,
      ev_RevisionID = rl_RevisionID record,
      ev_ParentRunID = rl_ParentRunID record,
      ev_NodeExecutionVersion = rl_NodeExecutionVersion record,
      ev_ExecutionEpoch = rl_ExecutionEpoch record,
      ev_SourceRevisionID = rl_SourceRevisionID record,
      ev_Sequence = rl_Sequence record,
      ev_Type = rl_EventType record,
      ev_Source = rl_Source record,
      ev_Origin = rl_Origin record,
      ev_Timestamp = rl_Timestamp record,
      ev_Summary = rl_Summary record,
      ev_Payload = rl_Payload record,
      ev_PayloadRef = rl_PayloadRef record\<rparr>"

definition validateRecord :: "Record \<Rightarrow> goerr option" where
  "validateRecord record =
     (let invalid = (\<lambda>text. Some (Wrap text [Sentinel ErrInvalidRecord])) in
      if rl_SessionID record = [] then invalid ''session id is required''
      else if rl_RunID record = [] then invalid ''run id is required''
      else if rl_Sequence record \<le> 0 then invalid ''sequence must be positive''
      else if rl_EventType record = [] then invalid ''event type is required''
      else if rl_Source record = [] then invalid ''source is required''
      else if is_zero_time (rl_Timestamp record) then invalid ''timestamp is required''
      else if (rl_SourceRunID record = []) \<noteq> (rl_SourceEventSeq record = 0)
        then invalid ''fork source run and event sequence must be set together''
      else if rl_SourceEventSeq record < 0
        then invalid ''source event sequence must not be negative''
      else if rl_SourceRunID record = [] \<and> rl_SourceRevisionID record \<noteq> []
        then invalid ''source revision requires a source run''
      else None)"

text \<open>\<open>cloneRecord\<close> copies the payload and the metadata: the value is unchanged.\<close>

definition cloneRecord :: "Record \<Rightarrow> Record" where
  "cloneRecord record =
     record\<lparr>rl_Payload := rl_Payload record, rl_Metadata := map_option (\<lambda>m. m) (rl_Metadata record)\<rparr>"

lemma cloneRecord_eq [simp, go_eval]: "cloneRecord record = record"
  by (simp add: cloneRecord_def option.map_ident)

lemma eventFromRunLogRecord_RecordFromEvent [simp]:
  "eventFromRunLogRecord (RecordFromEvent event) = event"
  by (simp add: eventFromRunLogRecord_def RecordFromEvent_def)

lemma validateRecord_source_irrelevant:
  "validateRecord (r\<lparr>rl_Payload := p, rl_Summary := sm\<rparr>) = validateRecord r"
  by (simp add: validateRecord_def Let_def)

section \<open>The in-memory log\<close>

type_synonym recordKey = "string \<times> int"

definition record_key :: "Record \<Rightarrow> recordKey" where
  "record_key record = (rl_RunID record, rl_Sequence record)"

record MemoryLog =
  ml_records :: "Record list"
  ml_byKey :: "recordKey \<rightharpoonup> Record"

definition NewMemoryLog :: MemoryLog where
  "NewMemoryLog = \<lparr>ml_records = [], ml_byKey = Map.empty\<rparr>"

definition MemoryLog_Append ::
  "goerr option \<Rightarrow> Record \<Rightarrow> MemoryLog \<Rightarrow> goerr option \<times> MemoryLog" where
  "MemoryLog_Append ctxErr record l =
     (case ctxErr of
        Some err \<Rightarrow> (Some err, l)
      | None \<Rightarrow>
          (case validateRecord record of
             Some err \<Rightarrow> (Some err, l)
           | None \<Rightarrow>
               (let stored = cloneRecord record;
                    key = record_key stored in
                case ml_byKey l key of
                  Some existing \<Rightarrow>
                    if existing = stored then (None, l)
                    else (Some (Wrap ''record conflict'' [Sentinel ErrConflict]), l)
                | None \<Rightarrow>
                    (None, l\<lparr>ml_byKey := (ml_byKey l)(key \<mapsto> stored),
                             ml_records := ml_records l @ [stored]\<rparr>))))"

definition query_error :: "Query \<Rightarrow> goerr option" where
  "query_error query =
     (if q_After query < 0 \<or> q_Limit query < 0
        then Some (Wrap ''after and limit must not be negative'' [Sentinel ErrInvalidQuery])
      else if q_SessionID query \<noteq> [] \<and> q_RunID query = [] \<and> q_After query \<noteq> 0
        then Some (Wrap ''after requires a run id for session queries'' [Sentinel ErrInvalidQuery])
      else None)"

text \<open>The loop of \<open>List\<close>, with \<open>out\<close> built in order and left when the limit is reached.\<close>

fun list_loop :: "Query \<Rightarrow> Record list \<Rightarrow> Record list \<Rightarrow> Record list" where
  "list_loop query [] out = out"
| "list_loop query (record # records) out =
     (if q_SessionID query \<noteq> [] \<and> rl_SessionID record \<noteq> q_SessionID query
        then list_loop query records out
      else if q_RunID query \<noteq> [] \<and> rl_RunID record \<noteq> q_RunID query
        then list_loop query records out
      else if rl_Sequence record \<le> q_After query then list_loop query records out
      else (let out1 = out @ [cloneRecord record] in
            if q_Limit query > 0 \<and> int (length out1) = q_Limit query then out1
            else list_loop query records out1))"

definition MemoryLog_List ::
  "goerr option \<Rightarrow> Query \<Rightarrow> MemoryLog \<Rightarrow> goerr + Record list" where
  "MemoryLog_List ctxErr query l =
     (case ctxErr of
        Some err \<Rightarrow> Inl err
      | None \<Rightarrow>
          (case query_error query of
             Some err \<Rightarrow> Inl err
           | None \<Rightarrow> Inr (list_loop query (ml_records l) [])))"

section \<open>The sink\<close>

definition Sink_Emit ::
  "Association \<Rightarrow> (Record \<Rightarrow> 'l \<Rightarrow> goerr option \<times> 'l) option \<Rightarrow> Event \<Rightarrow> 'l
   \<Rightarrow> goerr option \<times> 'l" where
  "Sink_Emit association log event l =
     (case log of
        None \<Rightarrow> (Some (Sentinel ErrNilLog), l)
      | Some append_log \<Rightarrow>
          append_log ((RecordFromEvent event)
            \<lparr>rl_SourceRunID := as_SourceRunID association,
             rl_SourceEventSeq := as_SourceEventSeq association\<rparr>) l)"

section \<open>What a query returns\<close>

definition query_matches :: "Query \<Rightarrow> Record \<Rightarrow> bool" where
  "query_matches query record \<longleftrightarrow>
     (q_SessionID query = [] \<or> rl_SessionID record = q_SessionID query) \<and>
     (q_RunID query = [] \<or> rl_RunID record = q_RunID query) \<and>
     q_After query < rl_Sequence record"

definition query_result :: "Query \<Rightarrow> Record list \<Rightarrow> Record list" where
  "query_result query records =
     (let matching = filter (query_matches query) records in
      if q_Limit query > 0 then take (nat (q_Limit query)) matching else matching)"

lemma list_loop_unlimited:
  "q_Limit query \<le> 0 \<Longrightarrow>
   list_loop query records out = out @ filter (query_matches query) records"
  by (induction query records out rule: list_loop.induct) (auto simp: query_matches_def Let_def)

lemma list_loop_limited:
  "q_Limit query > 0 \<Longrightarrow> int (length out) < q_Limit query \<Longrightarrow>
   list_loop query records out =
     out @ take (nat (q_Limit query) - length out) (filter (query_matches query) records)"
proof (induction query records out rule: list_loop.induct)
  case (2 query r rs out)
  show ?case
  proof (cases "query_matches query r")
    case False
    with 2 show ?thesis by (auto simp: query_matches_def)
  next
    case True
    have n: "nat (q_Limit query) - length out = Suc (nat (q_Limit query) - Suc (length out))"
      using 2 by simp
    show ?thesis
    proof (cases "int (length out) + 1 = q_Limit query")
      case True
      then have "nat (q_Limit query) - Suc (length out) = 0" by simp
      with n 2 \<open>query_matches query r\<close> True show ?thesis
        by (auto simp: query_matches_def)
    next
      case False
      with n 2 \<open>query_matches query r\<close> show ?thesis
        by (auto simp: query_matches_def Let_def)
    qed
  qed
qed simp

lemma list_loop_spec:
  "list_loop query records [] = query_result query records"
  by (simp add: query_result_def Let_def list_loop_limited list_loop_unlimited)

lemma MemoryLog_List_spec:
  "query_error query = None \<Longrightarrow>
   MemoryLog_List None query l = Inr (query_result query (ml_records l))"
  by (simp add: MemoryLog_List_def list_loop_spec)

section \<open>The log invariant\<close>

definition log_inv :: "MemoryLog \<Rightarrow> bool" where
  "log_inv l \<longleftrightarrow>
     distinct (map record_key (ml_records l)) \<and>
     (\<forall>r \<in> set (ml_records l). validateRecord r = None) \<and>
     (\<forall>k r. ml_byKey l k = Some r \<longleftrightarrow> r \<in> set (ml_records l) \<and> record_key r = k)"

lemma log_inv_distinct: "log_inv l \<Longrightarrow> distinct (map record_key (ml_records l))"
  by (simp add: log_inv_def)

lemma log_inv_lookup:
  "log_inv l \<Longrightarrow> ml_byKey l k = Some r \<longleftrightarrow> r \<in> set (ml_records l) \<and> record_key r = k"
  unfolding log_inv_def by blast

lemma log_inv_absent:
  assumes "log_inv l" and "ml_byKey l k = None"
  shows "r \<in> set (ml_records l) \<Longrightarrow> record_key r \<noteq> k"
  using log_inv_lookup [OF assms(1), of k r] assms(2) by auto

lemma log_inv_New [simp]: "log_inv NewMemoryLog"
  by (simp add: log_inv_def NewMemoryLog_def)

lemma MemoryLog_Append_cases:
  assumes "MemoryLog_Append ctxErr record l = (err, l')"
  obtains (rejected) e where "err = Some e" "l' = l"
    | (known) "err = None" "l' = l" "ctxErr = None" "ml_byKey l (record_key record) = Some record"
    | (appended) "err = None" "ctxErr = None" "validateRecord record = None"
        "ml_byKey l (record_key record) = None"
        "ml_records l' = ml_records l @ [record]"
        "ml_byKey l' = (ml_byKey l)(record_key record \<mapsto> record)"
proof (cases ctxErr)
  case None
  show thesis
  proof (cases "validateRecord record")
    case None
    with \<open>ctxErr = None\<close> assms that show thesis
      by (cases "ml_byKey l (record_key record)")
         (auto simp: MemoryLog_Append_def Let_def split: if_splits)
  next
    case (Some e)
    with \<open>ctxErr = None\<close> assms have "(Some e, l) = (err, l')"
      by (simp add: MemoryLog_Append_def)
    then show thesis by (intro that(1)) auto
  qed
next
  case (Some e)
  with assms that(1) show thesis by (auto simp: MemoryLog_Append_def)
qed

lemma MemoryLog_Append_inv:
  assumes "log_inv l" and "MemoryLog_Append ctxErr record l = (err, l')"
  shows "log_inv l'"
  using assms(2)
proof (cases rule: MemoryLog_Append_cases)
  case appended
  have "record_key record \<notin> record_key ` set (ml_records l)"
    using log_inv_absent [OF assms(1) appended(4)] by (metis imageE)
  then have "distinct (map record_key (ml_records l'))"
    using log_inv_distinct [OF assms(1)] appended(5) by simp
  moreover have "ml_byKey l' k = Some r \<longleftrightarrow> r \<in> set (ml_records l') \<and> record_key r = k" for k r
    using log_inv_lookup [OF assms(1), of k r] log_inv_absent [OF assms(1) appended(4), of r]
      appended(5,6) by auto
  moreover have "\<forall>r \<in> set (ml_records l'). validateRecord r = None"
    using appended assms(1) by (simp add: log_inv_def)
  ultimately show ?thesis unfolding log_inv_def by blast
qed (use assms in auto)

lemma MemoryLog_Append_conflict_iff:
  assumes "log_inv l" and "validateRecord record = None"
  shows "fst (MemoryLog_Append None record l) = None \<longleftrightarrow>
    (\<forall>r \<in> set (ml_records l). record_key r = record_key record \<longrightarrow> r = record)"
proof (cases "ml_byKey l (record_key record)")
  case None
  then have "\<forall>r \<in> set (ml_records l). record_key r \<noteq> record_key record"
    using log_inv_absent [OF assms(1) None] by blast
  with None assms(2) show ?thesis by (simp add: MemoryLog_Append_def Let_def)
next
  case (Some r)
  then have "r \<in> set (ml_records l) \<and> record_key r = record_key record"
    using log_inv_lookup [OF assms(1)] by blast
  moreover have "r' = r" if "r' \<in> set (ml_records l)" "record_key r' = record_key record" for r'
    using log_inv_lookup [OF assms(1), of "record_key record" r'] that Some by simp
  ultimately have "(\<forall>r \<in> set (ml_records l). record_key r = record_key record \<longrightarrow> r = record)
      \<longleftrightarrow> r = record" by blast
  with Some assms(2) show ?thesis by (simp add: MemoryLog_Append_def Let_def)
qed

section \<open>The interface of a log\<close>

text \<open>
  A log keeps its entries in append order, under unique keys; an append that succeeds
  makes the record an entry and keeps the entries before it; an append that fails changes
  nothing; a valid query returns the matching entries.
\<close>

locale run_log =
  fixes inv :: "'l \<Rightarrow> bool"
    and entries :: "'l \<Rightarrow> Record list"
    and append_record :: "Record \<Rightarrow> 'l \<Rightarrow> goerr option \<times> 'l"
    and list_records :: "Query \<Rightarrow> 'l \<Rightarrow> goerr + Record list"
  assumes append_inv: "inv l \<Longrightarrow> append_record r l = (err, l') \<Longrightarrow> inv l'"
    and append_ok: "inv l \<Longrightarrow> append_record r l = (None, l') \<Longrightarrow>
      entries l' = (if r \<in> set (entries l) then entries l else entries l @ [r])"
    and append_failed: "append_record r l = (Some e, l') \<Longrightarrow> l' = l"
    and entries_unique: "inv l \<Longrightarrow> distinct (map record_key (entries l))"
    and list_ok: "inv l \<Longrightarrow> query_error q = None \<Longrightarrow>
      list_records q l = Inr (query_result q (entries l))"
begin

text \<open>The entries of one run; a run is contiguous when its sequences are 1, 2, 3, \<dots>\<close>

definition run_entries :: "string \<Rightarrow> 'l \<Rightarrow> Record list" where
  "run_entries run l = filter (\<lambda>r. rl_RunID r = run) (entries l)"

definition contiguous :: "string \<Rightarrow> 'l \<Rightarrow> bool" where
  "contiguous run l \<longleftrightarrow> map rl_Sequence (run_entries run l) = [1..int (length (run_entries run l))]"

lemma append_twice:
  assumes "inv l" "append_record r l = (None, l')" "append_record r l' = (None, l'')"
  shows "entries l'' = entries l'"
  using assms append_inv [OF assms(1,2)] by (auto simp: append_ok split: if_splits)

lemma append_prefix:
  assumes "inv l" "append_record r l = (err, l')"
  shows "prefix (entries l) (entries l')"
  using assms append_failed by (cases err) (auto simp: append_ok)

lemma append_contiguous:
  assumes "inv l" "contiguous run l" "append_record r l = (None, l')" "rl_RunID r = run"
    and "rl_Sequence r = int (length (run_entries run l)) + 1"
  shows "contiguous run l' \<and> run_entries run l' = run_entries run l @ [r]"
proof -
  have "r \<notin> set (entries l)"
  proof
    assume "r \<in> set (entries l)"
    then have "rl_Sequence r \<in> set (map rl_Sequence (run_entries run l))"
      using assms(4) by (auto simp: run_entries_def)
    then show False using assms(2,5) by (simp add: contiguous_def del: set_map)
  qed
  then have e: "run_entries run l' = run_entries run l @ [r]"
    using assms by (simp add: append_ok run_entries_def)
  moreover have "[1..int (length (run_entries run l)) + 1] =
      [1..int (length (run_entries run l))] @ [int (length (run_entries run l)) + 1]"
    by (simp add: upto_rec2)
  ultimately show ?thesis using assms(2,5) by (simp add: contiguous_def add.commute)
qed

lemma page:
  assumes "inv l" "contiguous run l" "run \<noteq> []" "0 < m"
  shows "list_records \<lparr>q_SessionID = [], q_RunID = run, q_After = int k, q_Limit = int m\<rparr> l =
    Inr (take m (drop k (run_entries run l)))"
proof -
  let ?q = "\<lparr>q_SessionID = [], q_RunID = run, q_After = int k, q_Limit = int m\<rparr>"
  let ?es = "run_entries run l"
  have "filter (query_matches ?q) (entries l) = filter (\<lambda>r. int k < rl_Sequence r) ?es"
    using assms(3) by (auto simp: run_entries_def query_matches_def intro: filter_cong)
  also have "\<dots> = drop k ?es"
  proof -
    have s: "rl_Sequence (?es ! i) = int i + 1" if "i < length ?es" for i
    proof -
      have "map rl_Sequence ?es ! i = [1..int (length ?es)] ! i"
        using assms(2) by (simp add: contiguous_def)
      with that show ?thesis by (simp add: nth_upto)
    qed
    have "filter (\<lambda>r. int k < rl_Sequence r) (take k ?es) = []"
      by (auto simp: filter_empty_conv in_set_conv_nth s)
    moreover have "filter (\<lambda>r. int k < rl_Sequence r) (drop k ?es) = drop k ?es"
      by (rule filter_True) (auto simp: in_set_conv_nth s)
    ultimately show ?thesis
      by (metis append_Nil append_take_drop_id filter_append)
  qed
  finally show ?thesis
    using assms(1,4) by (simp add: list_ok query_error_def query_result_def)
qed

end

interpretation memory_log:
  run_log log_inv ml_records "MemoryLog_Append None" "MemoryLog_List None"
proof
  fix l :: MemoryLog and r l' err q e
  show "log_inv l \<Longrightarrow> MemoryLog_Append None r l = (err, l') \<Longrightarrow> log_inv l'"
    by (rule MemoryLog_Append_inv)
  show "log_inv l \<Longrightarrow> MemoryLog_Append None r l = (None, l') \<Longrightarrow>
      ml_records l' = (if r \<in> set (ml_records l) then ml_records l else ml_records l @ [r])"
    by (erule MemoryLog_Append_cases) (auto simp: log_inv_lookup dest: log_inv_absent)
  show "MemoryLog_Append None r l = (Some e, l') \<Longrightarrow> l' = l"
    by (erule MemoryLog_Append_cases) auto
  show "log_inv l \<Longrightarrow> distinct (map record_key (ml_records l))"
    by (simp add: log_inv_def)
  show "query_error q = None \<Longrightarrow>
      MemoryLog_List None q l = Inr (query_result q (ml_records l))"
    by (rule MemoryLog_List_spec)
qed

section \<open>Properties\<close>

definition append_all :: "(goerr option \<times> Record) list \<Rightarrow> MemoryLog \<Rightarrow> MemoryLog" where
  "append_all requests l = foldl (\<lambda>l (c, r). snd (MemoryLog_Append c r l)) l requests"

lemma append_all_simps:
  "append_all [] l = l"
  "append_all ((c, r) # rs) l = append_all rs (snd (MemoryLog_Append c r l))"
  by (simp_all add: append_all_def)

lemma append_all_inv:
  assumes "log_inv l"
  shows "log_inv (append_all requests l)"
  using assms
proof (induction requests arbitrary: l)
  case (Cons a requests)
  obtain c r where a: "a = (c, r)" by (cases a)
  have "log_inv (snd (MemoryLog_Append c r l))"
    by (rule MemoryLog_Append_inv [OF Cons.prems surjective_pairing])
  with Cons.IH a show ?case by (simp add: append_all_simps)
qed (simp add: append_all_simps)

lemma append_all_prefix: "prefix (ml_records l) (ml_records (append_all requests l))"
proof (induction requests arbitrary: l)
  case (Cons a requests)
  obtain c r where a: "a = (c, r)" by (cases a)
  have "prefix (ml_records l) (ml_records (snd (MemoryLog_Append c r l)))"
    by (rule MemoryLog_Append_cases [of c r l, OF surjective_pairing]) simp_all
  with Cons.IH [of "snd (MemoryLog_Append c r l)"] a show ?case
    using prefix_order.trans by (auto simp: append_all_simps)
qed (simp add: append_all_simps)

text \<open>
  Append-only, unique keys. Whatever records are appended to a log in a reachable
  state, and whichever of the calls fail: the records stored before stay stored in the same order,
  no two stored records share run and sequence, and every stored record is valid.
\<close>

theorem memory_log_append_only:
  "let l = append_all before NewMemoryLog; l' = append_all after l in
   prefix (ml_records l) (ml_records l') \<and>
   distinct (map record_key (ml_records l')) \<and>
   set (ml_records l') \<subseteq> {r. validateRecord r = None}"
proof -
  define l l' where "l = append_all before NewMemoryLog" and "l' = append_all after l"
  have "log_inv l'" unfolding l_def l'_def by (intro append_all_inv log_inv_New)
  moreover have "prefix (ml_records l) (ml_records l')"
    unfolding l'_def by (rule append_all_prefix)
  ultimately show ?thesis
    unfolding Let_def l_def [symmetric] l'_def [symmetric] by (auto simp: log_inv_def)
qed

text \<open>
  C14 (idempotence and conflicts). In every reachable log an append of a valid
  record succeeds exactly when no different record is stored under its run and sequence; after a
  success the record is stored, once, and appending it again changes nothing; a refused
  append leaves the log as it was.
\<close>

theorem memory_log_append_idempotent:
  assumes "validateRecord record = None"
  shows "let l = append_all requests NewMemoryLog; (err, l') = MemoryLog_Append None record l in
    (err = None \<longleftrightarrow>
      set (ml_records l) \<inter> {r. record_key r = record_key record} \<subseteq> {record}) \<and>
    (if err = None
     then count_list (ml_records l') record = 1 \<and> MemoryLog_Append None record l' = (None, l')
     else l' = l)"
proof -
  define l where "l = append_all requests NewMemoryLog"
  obtain err l' where a: "MemoryLog_Append None record l = (err, l')" by fastforce
  have i: "log_inv l" unfolding l_def by (intro append_all_inv log_inv_New)
  then have i': "log_inv l'" using MemoryLog_Append_inv a by blast
  have iff: "err = None \<longleftrightarrow>
      set (ml_records l) \<inter> {r. record_key r = record_key record} \<subseteq> {record}"
    using MemoryLog_Append_conflict_iff [OF i assms] a by auto
  have "count_list (ml_records l') record = 1 \<and> MemoryLog_Append None record l' = (None, l')"
    if "err = None"
  proof -
    have m: "record \<in> set (ml_records l')"
      using memory_log.append_ok [OF i] a that by (simp split: if_splits)
    moreover have "distinct (ml_records l')"
      using log_inv_distinct [OF i'] by (simp add: distinct_map)
    moreover have "ml_byKey l' (record_key record) = Some record"
      using m log_inv_lookup [OF i'] by blast
    ultimately show ?thesis
      using assms by (simp add: count_list_distinct MemoryLog_Append_def Let_def)
  qed
  moreover have "l' = l" if "err \<noteq> None"
    using memory_log.append_failed a that by blast
  ultimately show ?thesis
    unfolding Let_def l_def [symmetric] a using iff by simp
qed

definition sample_record :: "int \<Rightarrow> Record" where
  "sample_record n =
     (RecordFromEvent (zero_Event
        \<lparr>ev_SessionID := ''s'', ev_RunID := ''r'', ev_Sequence := n, ev_Type := ''node.started'',
         ev_Source := ''workflow'', ev_Timestamp := 7\<rparr>))"

lemma sample_record_valid: "0 < n \<Longrightarrow> validateRecord (sample_record n) = None"
  by (simp add: sample_record_def RecordFromEvent_def zero_Event_def validateRecord_def)

lemma sample_record_simps [simp]:
  "rl_RunID (sample_record n) = ''r''" "rl_Sequence (sample_record n) = n"
  by (simp_all add: sample_record_def RecordFromEvent_def)

theorem memory_log_append_idempotent_witness:
  "let l = append_all [(None, sample_record 1)] NewMemoryLog;
     (err, l') = MemoryLog_Append None (sample_record 2) l in
    (err = None \<longleftrightarrow>
      set (ml_records l) \<inter> {r. record_key r = record_key (sample_record 2)} \<subseteq> {sample_record 2}) \<and>
    (if err = None
     then count_list (ml_records l') (sample_record 2) = 1 \<and>
          MemoryLog_Append None (sample_record 2) l' = (None, l')
     else l' = l)"
  by (rule memory_log_append_idempotent) (simp add: sample_record_valid)

text \<open>
  Paging. When the records of a run have sequences 1 to n, reading the run with
  \<open>After\<close> = k and \<open>Limit\<close> = m > 0 returns exactly the records numbered k + 1 to
  min (k + m) n, in order: pages that continue after the last sequence seen miss and repeat nothing.
\<close>

theorem memory_log_page:
  assumes "log_inv l" "run \<noteq> []" "0 < m"
    and "map rl_Sequence [r \<leftarrow> ml_records l. rl_RunID r = run] =
      [1..int (length [r \<leftarrow> ml_records l. rl_RunID r = run])]"
  shows "MemoryLog_List None
      \<lparr>q_SessionID = [], q_RunID = run, q_After = int k, q_Limit = int m\<rparr> l =
    Inr (take m (drop k [r \<leftarrow> ml_records l. rl_RunID r = run]))"
  using memory_log.page [of l run m k] assms
  by (simp add: memory_log.contiguous_def memory_log.run_entries_def)

theorem memory_log_page_witness:
  "MemoryLog_List None
      \<lparr>q_SessionID = [], q_RunID = ''r'', q_After = int 1, q_Limit = int 5\<rparr>
      (append_all [(None, sample_record 1), (None, sample_record 2)] NewMemoryLog) =
    Inr [sample_record 2]"
proof -
  let ?l = "append_all [(None, sample_record 1), (None, sample_record 2)] NewMemoryLog"
  have r: "ml_records ?l = [sample_record 1, sample_record 2]"
    by (simp add: append_all_simps NewMemoryLog_def MemoryLog_Append_def sample_record_valid record_key_def Let_def)
  have i: "log_inv ?l" by (intro append_all_inv log_inv_New)
  have "MemoryLog_List None
      \<lparr>q_SessionID = [], q_RunID = ''r'', q_After = int 1, q_Limit = int 5\<rparr> ?l =
    Inr (take 5 (drop 1 [r \<leftarrow> ml_records ?l. rl_RunID r = ''r'']))"
    by (rule memory_log_page [OF i]) (simp_all add: r upto.simps)
  then show ?thesis by (simp add: r)
qed

end
