(* ===== verification/Store.thy ===== *)
theory Store
  imports Runlog
begin

text \<open>
  The authoritative checkpoint store (\<open>checkpoint_store.go\<close>): versioned checkpoint
  records per run, guarded by compare-and-swap on the version and by an ownership claim with a
  lease, and the combined store that appends to the run log under a fence. Every operation
  reads the clock at most once: \<open>now\<close> is what \<open>time.Now()\<close> returns, \<open>ctxErr\<close> what
  \<open>ctx.Err()\<close> returns. The mutex makes an operation one step.
\<close>

section \<open>Checkpoint records\<close>

datatype CheckpointStatus =
    CheckpointRunning | CheckpointInterrupted | CheckpointCompleted | CheckpointFailed
  | CheckpointCanceled | CheckpointTerminated | CheckpointStatusOther string

abbreviation CheckpointUnset :: CheckpointStatus where
  "CheckpointUnset \<equiv> CheckpointStatusOther []"

datatype ReplayStatus = ReplayUnknown | ReplaySafe | ReplayUnsafe | ReplayStatusOther string

text \<open>
  Payload bytes as the code sees them: a length, and the value that decoding finds
  (none for bytes that are not an encoding).
\<close>

datatype 'p gobbytes = Gob (blen: nat) (bcontent: "'p option")

record 'p CheckpointRecord =
  cp_ID :: string
  cp_SessionID :: string
  cp_RunID :: string
  cp_SourceRunID :: string
  cp_SourceEventSeq :: int
  cp_SourceRevisionID :: string
  cp_WorkflowName :: string
  cp_TopologyVersion :: string
  cp_SchemaVersion :: int
  cp_Version :: int
  cp_Status :: CheckpointStatus
  cp_Payload :: "'p gobbytes"
  cp_ConfirmedSequence :: int
  cp_PendingSequence :: int
  cp_ReplayStatus :: ReplayStatus
  cp_OwnerID :: string
  cp_LeaseExpiresAt :: gotime
  cp_LeaseDuration :: duration
  cp_ClaimSequence :: int
  cp_CreatedAt :: gotime
  cp_UpdatedAt :: gotime

record CheckpointLease =
  cl_RunID :: string
  cl_OwnerID :: string
  cl_ClaimSequence :: int
  cl_ExpiresAt :: gotime
  cl_Duration :: duration

record CheckpointHistoryRequest =
  hr_RunID :: string
  hr_AfterVersion :: int
  hr_Limit :: int

definition checkpointSchemaVersion :: int where "checkpointSchemaVersion = 2"
definition maxWorkflowCheckpointPayloadBytes :: nat where
  "maxWorkflowCheckpointPayloadBytes = 4 * 1024 * 1024"

definition checkpointTerminal :: "CheckpointStatus \<Rightarrow> bool" where
  "checkpointTerminal status \<longleftrightarrow>
     status = CheckpointCompleted \<or> status = CheckpointFailed \<or> status = CheckpointCanceled \<or>
     status = CheckpointTerminated"

definition validSourceLineage :: "string \<Rightarrow> int \<Rightarrow> string \<Rightarrow> bool" where
  "validSourceLineage sourceRunID srcSeq srcRevision \<longleftrightarrow>
     srcSeq \<ge> 0 \<and> (sourceRunID = []) = (srcSeq = 0) \<and> (sourceRunID \<noteq> [] \<or> srcRevision = [])"

definition validateCheckpointRecord :: "'p CheckpointRecord \<Rightarrow> goerr option" where
  "validateCheckpointRecord r =
     (let invalid = (\<lambda>text. Some (Wrap text [Sentinel ErrInvalidCheckpoint])) in
      if cp_ID r = [] \<or> cp_SessionID r = [] \<or> cp_RunID r = [] \<or> cp_WorkflowName r = [] \<or>
         cp_TopologyVersion r = [] \<or> cp_SchemaVersion r \<noteq> checkpointSchemaVersion
        then invalid ''checkpoint identity is incomplete''
      else if cp_ConfirmedSequence r < 0 \<or> cp_PendingSequence r < 0
        then invalid ''checkpoint sequence must not be negative''
      else if \<not> validSourceLineage (cp_SourceRunID r) (cp_SourceEventSeq r) (cp_SourceRevisionID r)
        then invalid ''checkpoint source lineage is incomplete''
      else if cp_LeaseDuration r < 0
        then invalid ''checkpoint lease duration must not be negative''
      else if cp_ReplayStatus r \<noteq> ReplayUnknown \<and> cp_ReplayStatus r \<noteq> ReplaySafe \<and>
              cp_ReplayStatus r \<noteq> ReplayUnsafe
        then invalid ''replay status''
      else if blen (cp_Payload r) = 0 \<or> blen (cp_Payload r) > maxWorkflowCheckpointPayloadBytes
        then invalid ''checkpoint payload size is invalid''
      else if is_zero_time (cp_CreatedAt r) \<or> is_zero_time (cp_UpdatedAt r)
        then invalid ''checkpoint timestamps are required''
      else None)"

definition leaseExpiry :: "gotime \<Rightarrow> gotime \<Rightarrow> duration \<Rightarrow> gotime" where
  "leaseExpiry now expiresAt d = (if d > 0 then now + d else expiresAt)"

definition sameCheckpointIdentity :: "'p CheckpointRecord \<Rightarrow> 'p CheckpointRecord \<Rightarrow> bool" where
  "sameCheckpointIdentity l r \<longleftrightarrow>
     cp_ID l = cp_ID r \<and> cp_SessionID l = cp_SessionID r \<and> cp_RunID l = cp_RunID r \<and>
     cp_SourceRunID l = cp_SourceRunID r \<and> cp_SourceEventSeq l = cp_SourceEventSeq r \<and>
     cp_SourceRevisionID l = cp_SourceRevisionID r \<and> cp_WorkflowName l = cp_WorkflowName r \<and>
     cp_TopologyVersion l = cp_TopologyVersion r \<and> cp_SchemaVersion l = cp_SchemaVersion r"

definition cloneCheckpointRecord :: "'p CheckpointRecord \<Rightarrow> 'p CheckpointRecord" where
  "cloneCheckpointRecord r = r\<lparr>cp_LeaseDuration := 0\<rparr>"

section \<open>Operations\<close>

record 'p MemoryCheckpointer =
  mc_records :: "string \<rightharpoonup> 'p CheckpointRecord"
  mc_history :: "string \<rightharpoonup> 'p CheckpointRecord list"

definition NewMemoryCheckpointer :: "'p MemoryCheckpointer" where
  "NewMemoryCheckpointer = \<lparr>mc_records = Map.empty, mc_history = Map.empty\<rparr>"

text \<open>What every successful write does: the clone becomes the head and joins the history.\<close>

definition restore_record ::
  "'p CheckpointRecord \<Rightarrow> 'p MemoryCheckpointer \<Rightarrow> 'p MemoryCheckpointer" where
  "restore_record r s =
     (let stored = cloneCheckpointRecord r;
          old = (case mc_history s (cp_RunID stored) of None \<Rightarrow> [] | Some h \<Rightarrow> h) in
      s\<lparr>mc_records := (mc_records s)(cp_RunID stored \<mapsto> stored),
        mc_history := (mc_history s)(cp_RunID stored \<mapsto> old @ [cloneCheckpointRecord stored])\<rparr>)"

definition Create ::
  "goerr option \<Rightarrow> gotime \<Rightarrow> 'p CheckpointRecord \<Rightarrow> 'p MemoryCheckpointer
   \<Rightarrow> goerr option \<times> 'p MemoryCheckpointer" where
  "Create ctxErr now r s =
     (case ctxErr of
        Some err \<Rightarrow> (Some err, s)
      | None \<Rightarrow>
          if cp_Version r \<noteq> 1 \<or> cp_Status r \<noteq> CheckpointRunning
            then (Some (Wrap ''new checkpoint must be running at version one''
                          [Sentinel ErrInvalidCheckpoint]), s)
          else (case validateCheckpointRecord r of
              Some err \<Rightarrow> (Some err, s)
            | None \<Rightarrow>
                if mc_records s (cp_RunID r) \<noteq> None then (Some (Sentinel ErrCheckpointExists), s)
                else (None, restore_record
                       (if cp_LeaseDuration r > 0
                        then r\<lparr>cp_LeaseExpiresAt := now + cp_LeaseDuration r\<rparr> else r) s)))"

definition Load ::
  "goerr option \<Rightarrow> string \<Rightarrow> 'p MemoryCheckpointer \<Rightarrow> goerr + 'p CheckpointRecord" where
  "Load ctxErr runID s =
     (case ctxErr of
        Some err \<Rightarrow> Inl err
      | None \<Rightarrow>
          if runID = [] then Inl (Wrap ''run id is required'' [Sentinel ErrInvalidCheckpoint])
          else (case mc_records s runID of
                  None \<Rightarrow> Inl (Sentinel ErrCheckpointNotFound)
                | Some r \<Rightarrow> Inr (cloneCheckpointRecord r)))"

definition Claim ::
  "goerr option \<Rightarrow> gotime \<Rightarrow> 'p CheckpointRecord \<Rightarrow> int \<Rightarrow> 'p MemoryCheckpointer
   \<Rightarrow> goerr option \<times> 'p MemoryCheckpointer" where
  "Claim ctxErr now candidate version s =
     (case ctxErr of
        Some err \<Rightarrow> (Some err, s)
      | None \<Rightarrow>
          if version \<le> 0 \<or> cp_Version candidate \<noteq> version \<or>
             cp_Status candidate \<noteq> CheckpointRunning \<or> cp_OwnerID candidate = [] \<or>
             cp_ClaimSequence candidate \<le> 0 \<or>
             (cp_LeaseDuration candidate = 0 \<and> is_zero_time (cp_LeaseExpiresAt candidate))
            then (Some (Wrap ''invalid checkpoint claim'' [Sentinel ErrInvalidCheckpoint]), s)
          else (case validateCheckpointRecord candidate of
              Some err \<Rightarrow> (Some err, s)
            | None \<Rightarrow>
                (let expires = leaseExpiry now (cp_LeaseExpiresAt candidate)
                                 (cp_LeaseDuration candidate) in
                 if \<not> expires > now
                   then (Some (Wrap ''checkpoint claim lease must be in the future''
                                 [Sentinel ErrInvalidCheckpoint]), s)
                 else (case mc_records s (cp_RunID candidate) of
                     None \<Rightarrow> (Some (Sentinel ErrCheckpointNotFound), s)
                   | Some current \<Rightarrow>
                       if cp_Version current \<noteq> version \<or>
                          (cp_Status current \<noteq> CheckpointRunning \<and>
                           cp_Status current \<noteq> CheckpointInterrupted)
                         then (Some (Sentinel ErrCheckpointConflict), s)
                       else if \<not> sameCheckpointIdentity current candidate
                         then (Some (Sentinel ErrCheckpointMismatch), s)
                       else if cp_LeaseExpiresAt current > now \<or>
                               cp_ClaimSequence candidate \<noteq> cp_ClaimSequence current + 1
                         then (Some (Sentinel ErrCheckpointConflict), s)
                       else (None, restore_record
                              (candidate\<lparr>cp_LeaseExpiresAt := expires,
                                         cp_Version := version + 1\<rparr>) s)))))"

definition RenewLease ::
  "goerr option \<Rightarrow> gotime \<Rightarrow> CheckpointLease \<Rightarrow> 'p MemoryCheckpointer
   \<Rightarrow> goerr option \<times> 'p MemoryCheckpointer" where
  "RenewLease ctxErr now lease s =
     (case ctxErr of
        Some err \<Rightarrow> (Some err, s)
      | None \<Rightarrow>
          if cl_RunID lease = [] \<or> cl_OwnerID lease = [] \<or> cl_ClaimSequence lease \<le> 0 \<or>
             cl_Duration lease < 0 \<or> (cl_Duration lease = 0 \<and> is_zero_time (cl_ExpiresAt lease))
            then (Some (Wrap ''invalid checkpoint lease'' [Sentinel ErrInvalidCheckpoint]), s)
          else (case mc_records s (cl_RunID lease) of
              None \<Rightarrow> (Some (Sentinel ErrCheckpointLeaseLost), s)
            | Some current \<Rightarrow>
                if cp_Status current \<noteq> CheckpointRunning \<or>
                   cp_OwnerID current \<noteq> cl_OwnerID lease \<or>
                   cp_ClaimSequence current \<noteq> cl_ClaimSequence lease
                  then (Some (Sentinel ErrCheckpointLeaseLost), s)
                else if \<not> cp_LeaseExpiresAt current > now
                  then (Some (Sentinel ErrCheckpointLeaseLost), s)
                else (let expiresAt = leaseExpiry now (cl_ExpiresAt lease) (cl_Duration lease) in
                  if \<not> expiresAt > now
                    then (Some (Wrap ''renewed lease must expire in the future''
                                  [Sentinel ErrInvalidCheckpoint]), s)
                  else if \<not> expiresAt > cp_LeaseExpiresAt current then (None, s)
                  else (None, s\<lparr>mc_records := (mc_records s)(cl_RunID lease \<mapsto>
                         cloneCheckpointRecord (current\<lparr>cp_LeaseExpiresAt := expiresAt\<rparr>))\<rparr>))))"

definition store_write ::
  "goerr option \<Rightarrow> gotime \<Rightarrow> 'p CheckpointRecord \<Rightarrow> int \<Rightarrow> bool \<Rightarrow> 'p MemoryCheckpointer
   \<Rightarrow> goerr option \<times> 'p MemoryCheckpointer" where
  "store_write ctxErr now r version terminal s =
     (case ctxErr of
        Some err \<Rightarrow> (Some err, s)
      | None \<Rightarrow>
          if version \<le> 0 \<or> cp_Version r \<noteq> version
            then (Some (Wrap ''snapshot version'' [Sentinel ErrCheckpointConflict]), s)
          else if terminal \<noteq> checkpointTerminal (cp_Status r)
            then (Some (Wrap ''status does not match write operation''
                          [Sentinel ErrInvalidCheckpoint]), s)
          else (case validateCheckpointRecord r of
              Some err \<Rightarrow> (Some err, s)
            | None \<Rightarrow>
                (case mc_records s (cp_RunID r) of
                   None \<Rightarrow> (Some (Sentinel ErrCheckpointNotFound), s)
                 | Some current \<Rightarrow>
                     if \<not> sameCheckpointIdentity current r
                       then (Some (Sentinel ErrCheckpointMismatch), s)
                     else if cp_ClaimSequence r \<noteq> cp_ClaimSequence current \<or>
                             (cp_OwnerID r \<noteq> [] \<and> cp_OwnerID r \<noteq> cp_OwnerID current)
                       then (Some (Sentinel ErrCheckpointLeaseLost), s)
                     else if cp_OwnerID current \<noteq> [] \<and> \<not> cp_LeaseExpiresAt current > now
                       then (Some (Sentinel ErrCheckpointLeaseLost), s)
                     else if checkpointTerminal (cp_Status current)
                       then (Some (Wrap ''checkpoint is terminal''
                                     [Sentinel ErrCheckpointConflict]), s)
                     else if cp_Version current \<noteq> version
                       then (Some (Wrap ''stored version'' [Sentinel ErrCheckpointConflict]), s)
                     else
                       (let leased =
                          (if cp_OwnerID r = []
                           then r\<lparr>cp_LeaseExpiresAt := zero_time, cp_LeaseDuration := 0\<rparr>
                           else (let expiresAt = leaseExpiry now zero_time (cp_LeaseDuration r) in
                                 r\<lparr>cp_LeaseExpiresAt :=
                                    (if expiresAt > cp_LeaseExpiresAt current then expiresAt
                                     else cp_LeaseExpiresAt current)\<rparr>))
                        in (None, restore_record (leased\<lparr>cp_Version := version + 1\<rparr>) s)))))"

definition Save ::
  "goerr option \<Rightarrow> gotime \<Rightarrow> 'p CheckpointRecord \<Rightarrow> int \<Rightarrow> 'p MemoryCheckpointer
   \<Rightarrow> goerr option \<times> 'p MemoryCheckpointer" where
  "Save ctxErr now r version s = store_write ctxErr now r version False s"

definition Finish ::
  "goerr option \<Rightarrow> gotime \<Rightarrow> 'p CheckpointRecord \<Rightarrow> int \<Rightarrow> 'p MemoryCheckpointer
   \<Rightarrow> goerr option \<times> 'p MemoryCheckpointer" where
  "Finish ctxErr now r version s = store_write ctxErr now r version True s"

fun history_loop ::
  "CheckpointHistoryRequest \<Rightarrow> 'p CheckpointRecord list \<Rightarrow> 'p CheckpointRecord list
   \<Rightarrow> 'p CheckpointRecord list" where
  "history_loop req [] result = result"
| "history_loop req (r # rs) result =
     (if cp_Version r \<le> hr_AfterVersion req then history_loop req rs result
      else (let result1 = result @ [cloneCheckpointRecord r] in
            if hr_Limit req > 0 \<and> int (length result1) = hr_Limit req then result1
            else history_loop req rs result1))"

definition ListCheckpoints ::
  "goerr option \<Rightarrow> CheckpointHistoryRequest \<Rightarrow> 'p MemoryCheckpointer
   \<Rightarrow> goerr + 'p CheckpointRecord list" where
  "ListCheckpoints ctxErr req s =
     (case ctxErr of
        Some err \<Rightarrow> Inl err
      | None \<Rightarrow>
          if hr_RunID req = [] \<or> hr_AfterVersion req < 0 \<or> hr_Limit req < 0
            then Inl (Wrap ''invalid checkpoint history request'' [Sentinel ErrInvalidCheckpoint])
          else (case mc_history s (hr_RunID req) of
                  None \<Rightarrow> Inl (Sentinel ErrCheckpointNotFound)
                | Some rs \<Rightarrow> Inr (history_loop req rs [])))"

text \<open>The combined store: the fence is checked and the record appended under one lock.\<close>

record 'p MemoryStore =
  ms_checkpointer :: "'p MemoryCheckpointer"
  ms_log :: MemoryLog

definition AppendFenced ::
  "goerr option \<Rightarrow> gotime \<Rightarrow> Record \<Rightarrow> Fence \<Rightarrow> 'p MemoryStore
   \<Rightarrow> goerr option \<times> 'p MemoryStore" where
  "AppendFenced ctxErr now r fence s =
     (case ctxErr of
        Some err \<Rightarrow> (Some err, s)
      | None \<Rightarrow>
          if fn_OwnerID fence = [] \<or> fn_ClaimSequence fence \<le> 0
            then (Some (Wrap ''invalid journal fence'' [Sentinel ErrInvalidCheckpoint]), s)
          else (case mc_records (ms_checkpointer s) (rl_RunID r) of
              None \<Rightarrow> (Some (Sentinel ErrCheckpointLeaseLost), s)
            | Some current \<Rightarrow>
                if cp_Status current \<noteq> CheckpointRunning \<or>
                   cp_OwnerID current \<noteq> fn_OwnerID fence \<or>
                   cp_ClaimSequence current \<noteq> fn_ClaimSequence fence \<or>
                   \<not> cp_LeaseExpiresAt current > now
                  then (Some (Sentinel ErrCheckpointLeaseLost), s)
                else (case MemoryLog_Append ctxErr r (ms_log s) of
                        (err, log) \<Rightarrow> (err, s\<lparr>ms_log := log\<rparr>))))"

section \<open>Successful operations\<close>

lemma cloneCheckpointRecord_simps [simp]:
  "cp_RunID (cloneCheckpointRecord r) = cp_RunID r"
  "cp_Version (cloneCheckpointRecord r) = cp_Version r"
  "cp_Status (cloneCheckpointRecord r) = cp_Status r"
  "cp_ClaimSequence (cloneCheckpointRecord r) = cp_ClaimSequence r"
  "cp_OwnerID (cloneCheckpointRecord r) = cp_OwnerID r"
  "cp_LeaseExpiresAt (cloneCheckpointRecord r) = cp_LeaseExpiresAt r"
  "cp_LeaseDuration (cloneCheckpointRecord r) = 0"
  "cp_Payload (cloneCheckpointRecord r) = cp_Payload r"
  "cloneCheckpointRecord (cloneCheckpointRecord r) = cloneCheckpointRecord r"
  by (simp_all add: cloneCheckpointRecord_def)

lemma restore_record_records [simp]:
  "mc_records (restore_record r s) = (mc_records s)(cp_RunID r \<mapsto> cloneCheckpointRecord r)"
  by (simp add: restore_record_def Let_def)

lemma restore_record_history [simp]:
  "mc_history (restore_record r s) = (mc_history s)(cp_RunID r \<mapsto>
     (case mc_history s (cp_RunID r) of None \<Rightarrow> [] | Some h \<Rightarrow> h) @ [cloneCheckpointRecord r])"
  by (simp add: restore_record_def Let_def)

lemma sameCheckpointIdentity_refl [simp]: "sameCheckpointIdentity r r"
  by (simp add: sameCheckpointIdentity_def)

lemma sameCheckpointIdentity_sym: "sameCheckpointIdentity l r \<Longrightarrow> sameCheckpointIdentity r l"
  by (simp add: sameCheckpointIdentity_def)

lemma sameCheckpointIdentity_trans:
  "sameCheckpointIdentity l r \<Longrightarrow> sameCheckpointIdentity r q \<Longrightarrow> sameCheckpointIdentity l q"
  by (simp add: sameCheckpointIdentity_def)

text \<open>What a successful operation leaves of the candidate besides lease, version and clone.\<close>

definition stored_as :: "'p CheckpointRecord \<Rightarrow> 'p CheckpointRecord \<Rightarrow> bool" where
  "stored_as r r' \<longleftrightarrow>
     r' = r\<lparr>cp_LeaseExpiresAt := cp_LeaseExpiresAt r', cp_LeaseDuration := 0,
            cp_Version := cp_Version r'\<rparr>"

lemma stored_asI:
  "stored_as r (cloneCheckpointRecord (r\<lparr>cp_LeaseExpiresAt := t, cp_Version := v\<rparr>))"
  "stored_as r (cloneCheckpointRecord (r\<lparr>cp_LeaseExpiresAt := t, cp_LeaseDuration := d, cp_Version := v\<rparr>))"
  "stored_as r (cloneCheckpointRecord (r\<lparr>cp_LeaseExpiresAt := t\<rparr>))"
  "stored_as r (cloneCheckpointRecord r)"
  by (simp_all add: stored_as_def cloneCheckpointRecord_def)

lemma stored_as_simps:
  assumes "stored_as r r'"
  shows "cp_RunID r' = cp_RunID r" "cp_Status r' = cp_Status r"
    "cp_ClaimSequence r' = cp_ClaimSequence r" "cp_OwnerID r' = cp_OwnerID r"
    "cp_LeaseDuration r' = 0" "cp_Payload r' = cp_Payload r"
    "sameCheckpointIdentity c r' = sameCheckpointIdentity c r"
    "cp_ConfirmedSequence r' = cp_ConfirmedSequence r" "cp_PendingSequence r' = cp_PendingSequence r"
  by (subst (1) assms [unfolded stored_as_def], simp add: sameCheckpointIdentity_def)+

lemma stored_as_valid:
  assumes "stored_as r r'" and "validateCheckpointRecord r = None"
  shows "validateCheckpointRecord r' = None"
proof (subst assms(1) [unfolded stored_as_def])
  have "0 \<le> cp_LeaseDuration r"
    using assms(2) by (auto simp: validateCheckpointRecord_def Let_def split: if_splits)
  then show "validateCheckpointRecord (r\<lparr>cp_LeaseExpiresAt := cp_LeaseExpiresAt r',
      cp_LeaseDuration := 0, cp_Version := cp_Version r'\<rparr>) = None"
    using assms(2) by (simp add: validateCheckpointRecord_def Let_def split: if_splits)
qed

text \<open>\<open>pushed r s s'\<close>: the record became the head of its run and its newest version.\<close>

definition pushed ::
  "'p CheckpointRecord \<Rightarrow> 'p MemoryCheckpointer \<Rightarrow> 'p MemoryCheckpointer \<Rightarrow> bool" where
  "pushed r s s' \<longleftrightarrow>
     mc_records s' = (mc_records s)(cp_RunID r \<mapsto> r) \<and>
     mc_history s' = (mc_history s)(cp_RunID r \<mapsto>
       (case mc_history s (cp_RunID r) of None \<Rightarrow> [] | Some h \<Rightarrow> h) @ [r])"

lemma pushed_restore: "pushed (cloneCheckpointRecord r) s (restore_record r s)"
  by (simp add: pushed_def)

lemma Create_success:
  assumes "Create ctxErr now r s = (None, s')"
  obtains r' where "stored_as r r'" "pushed r' s s'" "cp_Version r' = 1"
    "cp_Status r = CheckpointRunning" "mc_records s (cp_RunID r) = None"
    "validateCheckpointRecord r = None"
proof -
  let ?r = "if cp_LeaseDuration r > 0 then r\<lparr>cp_LeaseExpiresAt := now + cp_LeaseDuration r\<rparr> else r"
  from assms have "s' = restore_record ?r s" "cp_Version r = 1" "cp_Status r = CheckpointRunning"
    "mc_records s (cp_RunID r) = None" "validateCheckpointRecord r = None"
    by (simp_all add: Create_def split: option.splits if_splits)
  with pushed_restore [of ?r s] show thesis
    by (intro that [of "cloneCheckpointRecord ?r"]) (auto intro: stored_asI)
qed

lemma Claim_success:
  assumes "Claim ctxErr now r version s = (None, s')"
  obtains r' current where "stored_as r r'" "pushed r' s s'"
    "mc_records s (cp_RunID r) = Some current" "cp_Version current = version"
    "cp_Version r' = version + 1" "cp_Status r = CheckpointRunning" "cp_OwnerID r \<noteq> []"
    "cp_ClaimSequence r = cp_ClaimSequence current + 1" "\<not> checkpointTerminal (cp_Status current)"
    "sameCheckpointIdentity current r" "cp_LeaseExpiresAt current \<le> now"
    "now < cp_LeaseExpiresAt r'" "validateCheckpointRecord r = None" "version > 0"
proof -
  let ?r = "r\<lparr>cp_LeaseExpiresAt := leaseExpiry now (cp_LeaseExpiresAt r) (cp_LeaseDuration r),
    cp_Version := version + 1\<rparr>"
  from assms obtain current where "s' = restore_record ?r s"
    "mc_records s (cp_RunID r) = Some current" "cp_Version current = version"
    "cp_Status r = CheckpointRunning" "cp_OwnerID r \<noteq> []"
    "cp_ClaimSequence r = cp_ClaimSequence current + 1"
    "cp_Status current = CheckpointRunning \<or> cp_Status current = CheckpointInterrupted"
    "sameCheckpointIdentity current r" "cp_LeaseExpiresAt current \<le> now"
    "now < cp_LeaseExpiresAt ?r" "validateCheckpointRecord r = None" "version > 0"
    by (auto simp: Claim_def Let_def split: option.splits if_splits)
  with pushed_restore [of ?r s] show thesis
    by (intro that [of "cloneCheckpointRecord ?r" current])
       (auto simp: checkpointTerminal_def intro: stored_asI)
qed

lemma store_write_success:
  assumes "store_write ctxErr now r version terminal s = (None, s')"
  obtains r' current where "stored_as r r'" "pushed r' s s'"
    "mc_records s (cp_RunID r) = Some current" "cp_Version current = version"
    "cp_Version r' = version + 1" "terminal = checkpointTerminal (cp_Status r)"
    "cp_ClaimSequence r = cp_ClaimSequence current" "\<not> checkpointTerminal (cp_Status current)"
    "cp_OwnerID r = [] \<or> cp_OwnerID r = cp_OwnerID current"
    "cp_OwnerID current = [] \<or> now < cp_LeaseExpiresAt current"
    "sameCheckpointIdentity current r" "validateCheckpointRecord r = None" "version > 0"
    "cp_OwnerID r \<noteq> [] \<Longrightarrow> cp_LeaseExpiresAt current \<le> cp_LeaseExpiresAt r'"
    "cp_OwnerID r = [] \<Longrightarrow> is_zero_time (cp_LeaseExpiresAt r')"
proof -
  from assms obtain current where c: "mc_records s (cp_RunID r) = Some current"
    by (auto simp: store_write_def split: option.splits if_splits)
  let ?e = "leaseExpiry now zero_time (cp_LeaseDuration r)"
  let ?l = "if cp_OwnerID r = []
     then r\<lparr>cp_LeaseExpiresAt := zero_time, cp_LeaseDuration := 0\<rparr>
     else r\<lparr>cp_LeaseExpiresAt := if ?e > cp_LeaseExpiresAt current then ?e
                                    else cp_LeaseExpiresAt current\<rparr>"
  let ?r = "?l\<lparr>cp_Version := version + 1\<rparr>"
  have "s' = restore_record ?r s" "cp_Version current = version"
    "terminal = checkpointTerminal (cp_Status r)"
    "cp_ClaimSequence r = cp_ClaimSequence current" "\<not> checkpointTerminal (cp_Status current)"
    "cp_OwnerID r = [] \<or> cp_OwnerID r = cp_OwnerID current"
    "cp_OwnerID current = [] \<or> now < cp_LeaseExpiresAt current"
    "sameCheckpointIdentity current r" "validateCheckpointRecord r = None" "version > 0"
    using assms c by (simp_all add: store_write_def Let_def split: option.splits if_splits)
  with pushed_restore [of ?r s] c show thesis
    by (intro that [of "cloneCheckpointRecord ?r" current]) (auto intro: stored_asI)
qed

section \<open>Reachable stores\<close>

text \<open>
  A step of the combined store is any call of any client, successful or not: the sequences
  of steps are the interleavings that the mutex allows.
\<close>

inductive store_step :: "'p MemoryStore \<Rightarrow> 'p MemoryStore \<Rightarrow> bool" where
  step_create: "Create c now r (ms_checkpointer s) = (err, k) \<Longrightarrow>
    store_step s (s\<lparr>ms_checkpointer := k\<rparr>)"
| step_claim: "Claim c now r v (ms_checkpointer s) = (err, k) \<Longrightarrow>
    store_step s (s\<lparr>ms_checkpointer := k\<rparr>)"
| step_renew: "RenewLease c now lease (ms_checkpointer s) = (err, k) \<Longrightarrow>
    store_step s (s\<lparr>ms_checkpointer := k\<rparr>)"
| step_save: "Save c now r v (ms_checkpointer s) = (err, k) \<Longrightarrow>
    store_step s (s\<lparr>ms_checkpointer := k\<rparr>)"
| step_finish: "Finish c now r v (ms_checkpointer s) = (err, k) \<Longrightarrow>
    store_step s (s\<lparr>ms_checkpointer := k\<rparr>)"
| step_append: "MemoryLog_Append c rec (ms_log s) = (err, l) \<Longrightarrow>
    store_step s (s\<lparr>ms_log := l\<rparr>)"
| step_append_fenced: "AppendFenced c now rec fence s = (err, s') \<Longrightarrow> store_step s s'"

inductive_cases store_stepE [elim]: "store_step s s'"

definition NewMemoryStore :: "'p MemoryStore" where
  "NewMemoryStore = \<lparr>ms_checkpointer = NewMemoryCheckpointer, ms_log = NewMemoryLog\<rparr>"

abbreviation store_steps :: "'p MemoryStore \<Rightarrow> 'p MemoryStore \<Rightarrow> bool" where
  "store_steps \<equiv> store_step\<^sup>*\<^sup>*"

text \<open>Failed operations change nothing.\<close>

lemma failed_unchanged:
  "Create c now r k = (Some e, k') \<Longrightarrow> k' = k"
  "Claim c now r v k = (Some e, k') \<Longrightarrow> k' = k"
  "RenewLease c now lease k = (Some e, k') \<Longrightarrow> k' = k"
  "store_write c now r v terminal k = (Some e, k') \<Longrightarrow> k' = k"
  by (auto simp: Create_def Claim_def RenewLease_def store_write_def Let_def
      split: option.splits if_splits)

lemma RenewLease_success:
  assumes "RenewLease c now lease k = (None, k')"
  obtains (stale) "k' = k"
    | (renewed) current t where "mc_records k (cl_RunID lease) = Some current"
        "cp_LeaseExpiresAt current < t" "now < cp_LeaseExpiresAt current"
        "cp_Status current = CheckpointRunning" "cp_OwnerID current = cl_OwnerID lease"
        "cp_ClaimSequence current = cl_ClaimSequence lease"
        "k' = k\<lparr>mc_records := (mc_records k)(cl_RunID lease \<mapsto>
           cloneCheckpointRecord (current\<lparr>cp_LeaseExpiresAt := t\<rparr>))\<rparr>"
proof (cases "k' = k")
  case False
  then obtain current where m: "mc_records k (cl_RunID lease) = Some current"
    using assms by (auto simp: RenewLease_def split: option.splits if_splits)
  let ?t = "leaseExpiry now (cl_ExpiresAt lease) (cl_Duration lease)"
  have "cp_LeaseExpiresAt current < ?t" "now < cp_LeaseExpiresAt current"
    "cp_Status current = CheckpointRunning" "cp_OwnerID current = cl_OwnerID lease"
    "cp_ClaimSequence current = cl_ClaimSequence lease"
    "k' = k\<lparr>mc_records := (mc_records k)(cl_RunID lease \<mapsto>
       cloneCheckpointRecord (current\<lparr>cp_LeaseExpiresAt := ?t\<rparr>))\<rparr>"
    using assms m False by (auto simp: RenewLease_def Let_def split: option.splits if_splits)
  with m show thesis by (rule renewed)
qed (rule stale)

text \<open>
  The change of the checkpointer in one step, as its clients see it: nothing, a
  record pushed under the guards of some operation, or a lease extended.
\<close>

definition push_guard :: "'p MemoryCheckpointer \<Rightarrow> 'p CheckpointRecord \<Rightarrow> bool" where
  "push_guard k r \<longleftrightarrow>
     validateCheckpointRecord r = None \<and> cp_LeaseDuration r = 0 \<and>
     (case mc_records k (cp_RunID r) of
        None \<Rightarrow> cp_Version r = 1 \<and> cp_Status r = CheckpointRunning
      | Some current \<Rightarrow>
          cp_Version r = cp_Version current + 1 \<and> sameCheckpointIdentity current r \<and>
          \<not> checkpointTerminal (cp_Status current) \<and>
          cp_ClaimSequence current \<le> cp_ClaimSequence r)"

inductive checkpointer_change :: "'p MemoryCheckpointer \<Rightarrow> 'p MemoryCheckpointer \<Rightarrow> bool" where
  no_change: "checkpointer_change k k"
| change_push: "push_guard k r \<Longrightarrow> pushed r k k' \<Longrightarrow> checkpointer_change k k'"
| change_renew: "mc_records k run = Some current \<Longrightarrow> cp_LeaseExpiresAt current < t \<Longrightarrow>
    cp_Status current = CheckpointRunning \<Longrightarrow>
    checkpointer_change k (k\<lparr>mc_records := (mc_records k)(run \<mapsto>
      cloneCheckpointRecord (current\<lparr>cp_LeaseExpiresAt := t\<rparr>))\<rparr>)"

lemma Create_change: "Create c now r k = (err, k') \<Longrightarrow> checkpointer_change k k'"
proof (cases err)
  case None
  assume "Create c now r k = (err, k')"
  with None have "Create c now r k = (None, k')" by simp
  then show ?thesis
    by (rule Create_success)
       (auto intro!: change_push simp: push_guard_def stored_as_simps stored_as_valid)
qed (auto dest: failed_unchanged intro: no_change)

lemma Claim_change: "Claim c now r v k = (err, k') \<Longrightarrow> checkpointer_change k k'"
proof (cases err)
  case None
  assume "Claim c now r v k = (err, k')"
  with None have "Claim c now r v k = (None, k')" by simp
  then show ?thesis
    by (rule Claim_success)
       (auto intro!: change_push simp: push_guard_def stored_as_simps stored_as_valid)
qed (auto dest: failed_unchanged intro: no_change)

lemma store_write_change: "store_write c now r v terminal k = (err, k') \<Longrightarrow> checkpointer_change k k'"
proof (cases err)
  case None
  assume "store_write c now r v terminal k = (err, k')"
  with None have "store_write c now r v terminal k = (None, k')" by simp
  then show ?thesis
    by (rule store_write_success)
       (auto intro!: change_push simp: push_guard_def stored_as_simps stored_as_valid)
qed (auto dest: failed_unchanged intro: no_change)

lemma RenewLease_change: "RenewLease c now lease k = (err, k') \<Longrightarrow> checkpointer_change k k'"
proof (cases err)
  case None
  assume "RenewLease c now lease k = (err, k')"
  with None have "RenewLease c now lease k = (None, k')" by simp
  then show ?thesis by (rule RenewLease_success) (auto intro: checkpointer_change.intros)
qed (auto dest: failed_unchanged intro: no_change)

lemma AppendFenced_checkpointer:
  "AppendFenced c now rec fence s = (err, s') \<Longrightarrow> ms_checkpointer s' = ms_checkpointer s"
  by (auto simp: AppendFenced_def split: option.splits if_splits prod.splits)

lemma AppendFenced_change:
  "AppendFenced c now rec fence s = (err, s') \<Longrightarrow>
   checkpointer_change (ms_checkpointer s) (ms_checkpointer s')"
  by (simp add: AppendFenced_checkpointer no_change)

lemma store_step_change:
  "store_step s s' \<Longrightarrow> checkpointer_change (ms_checkpointer s) (ms_checkpointer s')"
  by (erule store_stepE)
     (auto simp: Save_def Finish_def intro: Create_change Claim_change RenewLease_change
       store_write_change no_change AppendFenced_change)

section \<open>The invariant of a run's history\<close>

definition same_but_lease :: "'p CheckpointRecord \<Rightarrow> 'p CheckpointRecord \<Rightarrow> bool" where
  "same_but_lease r r' \<longleftrightarrow> r' = r\<lparr>cp_LeaseExpiresAt := cp_LeaseExpiresAt r'\<rparr>"

definition run_history_ok :: "string \<Rightarrow> 'p CheckpointRecord \<Rightarrow> 'p CheckpointRecord list \<Rightarrow> bool" where
  "run_history_ok run r h \<longleftrightarrow>
     h \<noteq> [] \<and> map cp_Version h = [1..int (length h)] \<and>
     same_but_lease (last h) r \<and> cp_LeaseExpiresAt (last h) \<le> cp_LeaseExpiresAt r \<and>
     list_all (\<lambda>x. cp_RunID x = run \<and> cp_LeaseDuration x = 0 \<and> sameCheckpointIdentity x r \<and>
                   validateCheckpointRecord x = None) h \<and>
     sorted (map cp_ClaimSequence h) \<and>
     list_all (\<lambda>x. \<not> checkpointTerminal (cp_Status x)) (butlast h)"

definition checkpointer_inv :: "'p MemoryCheckpointer \<Rightarrow> bool" where
  "checkpointer_inv k \<longleftrightarrow>
     (\<forall>run. case (mc_records k run, mc_history k run) of
        (None, None) \<Rightarrow> True
      | (Some r, Some h) \<Rightarrow> run_history_ok run r h
      | _ \<Rightarrow> False)"

lemma checkpointer_inv_None:
  "checkpointer_inv k \<Longrightarrow> mc_records k run = None \<longleftrightarrow> mc_history k run = None"
  unfolding checkpointer_inv_def by (drule spec [of _ run]) (auto split: option.splits)

lemma checkpointer_inv_Some:
  assumes "checkpointer_inv k" and "mc_records k run = Some r"
  obtains h where "mc_history k run = Some h" "run_history_ok run r h"
  using assms(1)[unfolded checkpointer_inv_def, THEN spec, of run] assms(2) that
  by (auto split: option.splits)

lemma run_history_ok_head:
  assumes "run_history_ok run r h"
  shows "cp_RunID r = run" "cp_Version r = int (length h)" "cp_Status (last h) = cp_Status r"
    "cp_ClaimSequence (last h) = cp_ClaimSequence r"
proof -
  obtain h' x where h: "h = h' @ [x]" using assms by (cases h rule: rev_cases) (auto simp: run_history_ok_def)
  then have x: "same_but_lease x r" "cp_RunID x = run" "map cp_Version h ! length h' = [1..int (length h)] ! length h'"
    using assms by (auto simp: run_history_ok_def)
  have e: "r = x\<lparr>cp_LeaseExpiresAt := cp_LeaseExpiresAt r\<rparr>" using x(1) by (simp add: same_but_lease_def)
  show "cp_RunID r = run" by (subst e) (simp add: x)
  show "cp_Version r = int (length h)" by (subst e) (use x(3) h in \<open>simp add: nth_append nth_upto\<close>)
  show "cp_Status (last h) = cp_Status r" by (subst e) (simp add: h)
  show "cp_ClaimSequence (last h) = cp_ClaimSequence r" by (subst e) (simp add: h)
qed

lemma run_history_ok_first:
  assumes "validateCheckpointRecord r = None" "cp_LeaseDuration r = 0" "cp_Version r = 1"
  shows "run_history_ok (cp_RunID r) r [r]"
  using assms by (simp add: run_history_ok_def same_but_lease_def)

lemma run_history_ok_push:
  assumes "run_history_ok run current h" "push_guard k r" "mc_records k (cp_RunID r) = Some current"
    and "cp_RunID r = run"
  shows "run_history_ok run r (h @ [r])"
proof -
  have g: "cp_Version r = int (length h) + 1" "sameCheckpointIdentity current r"
    "\<not> checkpointTerminal (cp_Status (last h))" "cp_ClaimSequence (last h) \<le> cp_ClaimSequence r"
    "validateCheckpointRecord r = None" "cp_LeaseDuration r = 0"
    using assms(2,3) run_history_ok_head [OF assms(1)] by (auto simp: push_guard_def)
  have h: "h \<noteq> []" "sorted (map cp_ClaimSequence h)" using assms(1) by (auto simp: run_history_ok_def)
  have "x \<le> cp_ClaimSequence r" if "x \<in> set (map cp_ClaimSequence h)" for x
    using sorted_le_last [OF h(2) that] g(4) h(1) by (simp add: last_map)
  then have "sorted (map cp_ClaimSequence (h @ [r]))" using h by (auto simp: sorted_append)
  moreover have "list_all (\<lambda>x. \<not> checkpointTerminal (cp_Status x)) h"
    using assms(1) g(3) list_all_butlast_last [OF h(1)] by (auto simp: run_history_ok_def)
  moreover have "[1..int (length h) + 1] = [1..int (length h)] @ [int (length h) + 1]"
    by (simp add: upto_rec2)
  moreover have "list_all (\<lambda>x. cp_RunID x = run \<and> cp_LeaseDuration x = 0 \<and>
      sameCheckpointIdentity x r \<and> validateCheckpointRecord x = None) h"
    using assms(1) g(2) by (auto simp: run_history_ok_def list_all_iff intro: sameCheckpointIdentity_trans)
  ultimately show ?thesis
    using g assms(1,4) by (simp add: run_history_ok_def same_but_lease_def add.commute)
qed

lemma checkpointer_change_inv:
  assumes "checkpointer_change k k'" and "checkpointer_inv k"
  shows "checkpointer_inv k'"
  using assms(1)
proof cases
  case no_change
  then show ?thesis using assms(2) by simp
next
  case (change_push r)
  show ?thesis
    unfolding checkpointer_inv_def
  proof
    fix run
    have inv: "case (mc_records k run, mc_history k run) of (None, None) \<Rightarrow> True
      | (Some r, Some h) \<Rightarrow> run_history_ok run r h | _ \<Rightarrow> False"
      using assms(2) by (simp add: checkpointer_inv_def)
    have rec: "mc_records k' = (mc_records k)(cp_RunID r \<mapsto> r)"
      and his: "mc_history k' = (mc_history k)(cp_RunID r \<mapsto>
         (case mc_history k (cp_RunID r) of None \<Rightarrow> [] | Some h \<Rightarrow> h) @ [r])"
      using change_push(2) by (simp_all add: pushed_def)
    show "case (mc_records k' run, mc_history k' run) of (None, None) \<Rightarrow> True
      | (Some r, Some h) \<Rightarrow> run_history_ok run r h | _ \<Rightarrow> False"
    proof (cases "run = cp_RunID r")
      case False
      with inv rec his show ?thesis by simp
    next
      case True
      show ?thesis
      proof (cases "mc_records k run")
        case None
        then have "mc_history k run = None" using assms(2) checkpointer_inv_None by blast
        moreover have "run_history_ok run r [r]"
          using change_push(1) None True by (auto simp: push_guard_def intro: run_history_ok_first)
        ultimately show ?thesis using True rec his by simp
      next
        case (Some current)
        then obtain h where "mc_history k run = Some h" "run_history_ok run current h"
          using assms(2) checkpointer_inv_Some by blast
        with change_push(1) Some True rec his show ?thesis
          by (simp add: run_history_ok_push)
      qed
    qed
  qed
next
  case (change_renew run current t)
  then obtain h where h: "mc_history k run = Some h" "run_history_ok run current h"
    using assms(2) checkpointer_inv_Some by blast
  let ?r = "cloneCheckpointRecord (current\<lparr>cp_LeaseExpiresAt := t\<rparr>)"
  have "cp_LeaseDuration (last h) = 0" "same_but_lease (last h) current"
    using h(2) list_all_butlast_last by (auto simp: run_history_ok_def list_all_iff)
  then have "cp_LeaseDuration current = 0" "same_but_lease (last h) ?r"
    by (cases "last h"; cases current; simp add: same_but_lease_def cloneCheckpointRecord_def)+
  moreover have "sameCheckpointIdentity x ?r = sameCheckpointIdentity x current" for x
    by (simp add: sameCheckpointIdentity_def cloneCheckpointRecord_def)
  ultimately have ok: "run_history_ok run ?r h"
    using h(2) change_renew(3) by (simp add: run_history_ok_def)
  show ?thesis
    unfolding checkpointer_inv_def change_renew(1)
  proof
    fix run'
    have "case (mc_records k run', mc_history k run') of (None, None) \<Rightarrow> True
      | (Some r, Some h) \<Rightarrow> run_history_ok run' r h | _ \<Rightarrow> False"
      using assms(2) by (simp add: checkpointer_inv_def)
    then show "case (mc_records (k\<lparr>mc_records := (mc_records k)(run \<mapsto> ?r)\<rparr>) run',
        mc_history (k\<lparr>mc_records := (mc_records k)(run \<mapsto> ?r)\<rparr>) run') of
      (None, None) \<Rightarrow> True | (Some r, Some h) \<Rightarrow> run_history_ok run' r h | _ \<Rightarrow> False"
      using h(1) ok by simp
  qed
qed

lemma checkpointer_inv_New [simp]: "checkpointer_inv NewMemoryCheckpointer"
  by (simp add: checkpointer_inv_def NewMemoryCheckpointer_def)

lemma store_steps_inv:
  "store_steps s s' \<Longrightarrow> checkpointer_inv (ms_checkpointer s) \<Longrightarrow> checkpointer_inv (ms_checkpointer s')"
  by (induction rule: rtranclp_induct) (auto intro: checkpointer_change_inv store_step_change)

lemma reachable_inv: "store_steps NewMemoryStore s \<Longrightarrow> checkpointer_inv (ms_checkpointer s)"
  by (erule store_steps_inv) (simp add: NewMemoryStore_def)

section \<open>What later steps keep\<close>

definition evolves ::
  "'p CheckpointRecord \<times> 'p CheckpointRecord list \<Rightarrow>
   'p CheckpointRecord \<times> 'p CheckpointRecord list \<Rightarrow> bool" where
  "evolves old new \<longleftrightarrow>
     cp_ClaimSequence (fst old) \<le> cp_ClaimSequence (fst new) \<and>
     sameCheckpointIdentity (fst old) (fst new) \<and> prefix (snd old) (snd new) \<and>
     (if checkpointTerminal (cp_Status (fst old)) then new = old
      else snd old = snd new \<longrightarrow>
        same_but_lease (fst old) (fst new) \<and>
        cp_LeaseExpiresAt (fst old) \<le> cp_LeaseExpiresAt (fst new))"

lemma evolves_refl: "evolves x x"
  by (simp add: evolves_def same_but_lease_def)

lemma same_but_lease_trans:
  assumes "same_but_lease r q" and "same_but_lease q p"
  shows "same_but_lease r p"
  unfolding same_but_lease_def
proof -
  have "p = (r\<lparr>cp_LeaseExpiresAt := cp_LeaseExpiresAt q\<rparr>)\<lparr>cp_LeaseExpiresAt := cp_LeaseExpiresAt p\<rparr>"
    using assms unfolding same_but_lease_def by metis
  then show "p = r\<lparr>cp_LeaseExpiresAt := cp_LeaseExpiresAt p\<rparr>" by simp
qed

lemma same_but_lease_status: "same_but_lease r q \<Longrightarrow> cp_Status q = cp_Status r"
  unfolding same_but_lease_def by (erule ssubst) simp

lemma evolves_trans:
  assumes "evolves x y" and "evolves y z"
  shows "evolves x z"
proof (cases "checkpointTerminal (cp_Status (fst x))")
  case True
  with assms show ?thesis by (auto simp: evolves_def)
next
  case False
  have p: "prefix (snd x) (snd y)" "prefix (snd y) (snd z)"
    using assms by (auto simp: evolves_def)
  have "same_but_lease (fst x) (fst z) \<and> cp_LeaseExpiresAt (fst x) \<le> cp_LeaseExpiresAt (fst z)"
    if e: "snd x = snd z"
  proof -
    have yz: "snd x = snd y" "snd y = snd z"
      using p e by (auto dest: prefix_order.antisym)
    then have "same_but_lease (fst x) (fst y)" "cp_LeaseExpiresAt (fst x) \<le> cp_LeaseExpiresAt (fst y)"
      using assms(1) False by (auto simp: evolves_def)
    moreover have "same_but_lease (fst y) (fst z)" "cp_LeaseExpiresAt (fst y) \<le> cp_LeaseExpiresAt (fst z)"
      using assms(2) False yz same_but_lease_status [OF calculation(1)] by (auto simp: evolves_def)
    ultimately show ?thesis using same_but_lease_trans by fastforce
  qed
  then show ?thesis
    using False assms p by (auto simp: evolves_def intro: sameCheckpointIdentity_trans)
qed

abbreviation run_state ::
  "'p MemoryCheckpointer \<Rightarrow> string \<Rightarrow> 'p CheckpointRecord \<Rightarrow> 'p CheckpointRecord list \<Rightarrow> bool" where
  "run_state k run r h \<equiv> mc_records k run = Some r \<and> mc_history k run = Some h"

lemma checkpointer_change_evolves:
  assumes "checkpointer_change k k'" and "checkpointer_inv k" and "run_state k run r h"
  obtains r' h' where "run_state k' run r' h'" "evolves (r, h) (r', h')"
  using assms(1)
proof cases
  case no_change
  with assms(3) show thesis by (intro that [of r h]) (auto intro: evolves_refl)
next
  case (change_push q)
  show thesis
  proof (cases "run = cp_RunID q")
    case False
    with change_push(2) assms(3) show thesis
      by (intro that [of r h]) (auto simp: pushed_def intro: evolves_refl)
  next
    case True
    with change_push assms(3) show thesis
      by (intro that [of q "h @ [q]"]) (auto simp: pushed_def push_guard_def evolves_def)
  qed
next
  case (change_renew run' current t)
  show thesis
  proof (cases "run = run'")
    case False
    with change_renew(1) assms(3) show thesis
      by (intro that [of r h]) (auto intro: evolves_refl)
  next
    case True
    let ?r = "cloneCheckpointRecord (current\<lparr>cp_LeaseExpiresAt := t\<rparr>)"
    have c: "current = r" using True change_renew assms(3) by simp
    have "checkpointer_inv k'" using assms(1,2) checkpointer_change_inv by blast
    moreover have k: "run_state k' run ?r h" using True change_renew assms(3) by simp
    ultimately have ok': "run_history_ok run ?r h" using checkpointer_inv_Some by fastforce
    have ok: "run_history_ok run r h" using assms(2,3) checkpointer_inv_Some by fastforce
    from ok ok' have "same_but_lease (last h) r" "same_but_lease (last h) ?r"
      by (auto simp: run_history_ok_def)
    then have "same_but_lease r ?r"
      by (cases "last h"; cases r) (simp add: same_but_lease_def cloneCheckpointRecord_def c)
    moreover have "sameCheckpointIdentity r ?r"
      by (simp add: sameCheckpointIdentity_def cloneCheckpointRecord_def c)
    ultimately have "evolves (r, h) (?r, h)"
      using change_renew(3,4) by (simp add: evolves_def c checkpointTerminal_def)
    with k show thesis by (rule that)
  qed
qed

lemma store_steps_evolves:
  assumes "store_steps s s'" "checkpointer_inv (ms_checkpointer s)"
    "run_state (ms_checkpointer s) run r h"
  shows "\<exists>r' h'. run_state (ms_checkpointer s') run r' h' \<and> evolves (r, h) (r', h')"
  using assms(1)
proof (induction rule: rtranclp_induct)
  case base
  show ?case by (intro exI conjI) (use assms(3) in \<open>auto intro: evolves_refl\<close>)
next
  case (step y z)
  then obtain r1 h1 where 1: "run_state (ms_checkpointer y) run r1 h1" "evolves (r, h) (r1, h1)"
    by auto
  have "checkpointer_inv (ms_checkpointer y)" by (rule store_steps_inv [OF step(1) assms(2)])
  then obtain r2 h2 where 2: "run_state (ms_checkpointer z) run r2 h2" "evolves (r1, h1) (r2, h2)"
    by (rule checkpointer_change_evolves [OF store_step_change [OF step(2)] _ 1(1)])
  from evolves_trans [OF 1(2) 2(2)] 2(1) show ?case by auto
qed

lemma reachable_run_state:
  assumes "store_steps NewMemoryStore s" and "mc_records (ms_checkpointer s) run = Some r"
  obtains h where "run_state (ms_checkpointer s) run r h" "run_history_ok run r h"
  using assms reachable_inv checkpointer_inv_Some by blast

lemma later_run_state:
  assumes "store_steps NewMemoryStore s" and "mc_records (ms_checkpointer s) run = Some r"
    and "store_steps s s'"
  obtains h r' h' where "run_state (ms_checkpointer s) run r h" "run_history_ok run r h"
    "run_state (ms_checkpointer s') run r' h'" "run_history_ok run r' h'" "evolves (r, h) (r', h')"
proof -
  obtain h where h: "run_state (ms_checkpointer s) run r h" "run_history_ok run r h"
    using reachable_run_state assms(1,2) .
  obtain r' h' where h': "run_state (ms_checkpointer s') run r' h'" "evolves (r, h) (r', h')"
    using store_steps_evolves [OF assms(3) reachable_inv [OF assms(1)] h(1)] by blast
  have "checkpointer_inv (ms_checkpointer s')"
    using reachable_inv assms(1,3) by (metis rtranclp_trans)
  with h' have "run_history_ok run r' h'" using checkpointer_inv_Some by fastforce
  with h h' show thesis using that by blast
qed

section \<open>History queries\<close>

definition history_result ::
  "CheckpointHistoryRequest \<Rightarrow> 'p CheckpointRecord list \<Rightarrow> 'p CheckpointRecord list" where
  "history_result req rs =
     (let newer = map cloneCheckpointRecord (filter (\<lambda>r. hr_AfterVersion req < cp_Version r) rs) in
      if hr_Limit req > 0 then take (nat (hr_Limit req)) newer else newer)"

lemma history_loop_unlimited:
  "hr_Limit req \<le> 0 \<Longrightarrow> history_loop req rs out =
     out @ map cloneCheckpointRecord (filter (\<lambda>r. hr_AfterVersion req < cp_Version r) rs)"
  by (induction req rs out rule: history_loop.induct) (auto simp: Let_def)

lemma history_loop_limited:
  "hr_Limit req > 0 \<Longrightarrow> int (length out) < hr_Limit req \<Longrightarrow> history_loop req rs out =
     out @ take (nat (hr_Limit req) - length out)
       (map cloneCheckpointRecord (filter (\<lambda>r. hr_AfterVersion req < cp_Version r) rs))"
proof (induction req rs out rule: history_loop.induct)
  case (2 req r rs out)
  show ?case
  proof (cases "cp_Version r \<le> hr_AfterVersion req")
    case False
    have n: "nat (hr_Limit req) - length out = Suc (nat (hr_Limit req) - Suc (length out))"
      using 2 by simp
    show ?thesis
    proof (cases "int (length out) + 1 = hr_Limit req")
      case True
      then have "nat (hr_Limit req) - Suc (length out) = 0" by simp
      with n 2 False True show ?thesis by (auto simp: Let_def)
    next
      case limit: False
      with n 2 False show ?thesis by (auto simp: Let_def)
    qed
  qed (use 2 in auto)
qed simp

lemma history_loop_spec: "history_loop req rs [] = history_result req rs"
  by (simp add: history_result_def Let_def history_loop_limited history_loop_unlimited)

text \<open>
  The interface \<open>CheckpointHistory\<close>: the versions of a run are listed in ascending order,
  those after a given version, at most as many as asked for.
\<close>

locale checkpoint_history =
  fixes versions :: "'s \<Rightarrow> string \<Rightarrow> 'p CheckpointRecord list option"
    and list_checkpoints :: "CheckpointHistoryRequest \<Rightarrow> 's \<Rightarrow> goerr + 'p CheckpointRecord list"
    and good :: "'s \<Rightarrow> bool"
  assumes versions_ok: "good s \<Longrightarrow> versions s run = Some h \<Longrightarrow>
      map cp_Version h = [1..int (length h)] \<and> list_all (\<lambda>r. cp_RunID r = run) h"
    and list_checkpoints_ok: "good s \<Longrightarrow> versions s run = Some h \<Longrightarrow> run \<noteq> [] \<Longrightarrow> 0 < m \<Longrightarrow>
      list_checkpoints \<lparr>hr_RunID = run, hr_AfterVersion = int k, hr_Limit = int m\<rparr> s =
      Inr (take m (filter (\<lambda>r. int k < cp_Version r) h))"
begin

lemma version_nth:
  assumes "good s" "versions s run = Some h" "i < length h"
  shows "cp_Version (h ! i) = int i + 1"
proof -
  have "map cp_Version h ! i = [1..int (length h)] ! i" using versions_ok assms by simp
  with assms(3) show ?thesis by (simp add: nth_upto)
qed

lemma history_page:
  assumes "good s" "versions s run = Some h" "run \<noteq> []" "0 < m"
  shows "list_checkpoints \<lparr>hr_RunID = run, hr_AfterVersion = int k, hr_Limit = int m\<rparr> s =
    Inr (take m (drop k h))"
proof -
  have "filter (\<lambda>r. int k < cp_Version r) (take k h) = []"
    using version_nth [OF assms(1,2)] by (auto simp: filter_empty_conv in_set_conv_nth)
  moreover have "filter (\<lambda>r. int k < cp_Version r) (drop k h) = drop k h"
    using version_nth [OF assms(1,2)] by (intro filter_True) (auto simp: in_set_conv_nth)
  ultimately have "filter (\<lambda>r. int k < cp_Version r) h = drop k h"
    by (metis append_Nil append_take_drop_id filter_append)
  then show ?thesis using list_checkpoints_ok [OF assms] by simp
qed

end

interpretation memory_history:
  checkpoint_history "mc_history" "ListCheckpoints None" checkpointer_inv
proof
  fix s :: "'a MemoryCheckpointer" and run h and m k :: nat
  assume inv: "checkpointer_inv s" and his: "mc_history s run = Some h"
  obtain r where "mc_records s run = Some r"
    using checkpointer_inv_None [OF inv, of run] his by (cases "mc_records s run") auto
  then have ok: "run_history_ok run r h"
    using checkpointer_inv_Some [OF inv] his by fastforce
  then show "map cp_Version h = [1..int (length h)] \<and> list_all (\<lambda>r. cp_RunID r = run) h"
    by (auto simp: run_history_ok_def list_all_iff)
  have "cloneCheckpointRecord x = x" if "x \<in> set h" for x
    using that ok by (simp add: run_history_ok_def list_all_iff cloneCheckpointRecord_def)
  then have "map cloneCheckpointRecord (filter (\<lambda>r. int k < cp_Version r) h) =
      filter (\<lambda>r. int k < cp_Version r) h"
    by (intro map_idI) auto
  then show "run \<noteq> [] \<Longrightarrow> 0 < m \<Longrightarrow>
      ListCheckpoints None \<lparr>hr_RunID = run, hr_AfterVersion = int k, hr_Limit = int m\<rparr> s =
      Inr (take m (filter (\<lambda>r. int k < cp_Version r) h))"
    using his by (simp add: ListCheckpoints_def history_loop_spec history_result_def)
qed

section \<open>Properties\<close>

definition sample_checkpoint :: "string \<Rightarrow> int \<Rightarrow> int \<Rightarrow> unit CheckpointRecord" where
  "sample_checkpoint owner claim version =
     \<lparr>cp_ID = ''c'', cp_SessionID = ''s'', cp_RunID = ''r'', cp_SourceRunID = [],
      cp_SourceEventSeq = 0, cp_SourceRevisionID = [], cp_WorkflowName = ''w'',
      cp_TopologyVersion = ''t'', cp_SchemaVersion = 2, cp_Version = version,
      cp_Status = CheckpointRunning, cp_Payload = Gob 1 (Some ()), cp_ConfirmedSequence = 0,
      cp_PendingSequence = 0, cp_ReplayStatus = ReplayUnknown, cp_OwnerID = owner,
      cp_LeaseExpiresAt = 0, cp_LeaseDuration = 5, cp_ClaimSequence = claim,
      cp_CreatedAt = 1, cp_UpdatedAt = 1\<rparr>"

definition sample_created :: "unit MemoryStore" where
  "sample_created = NewMemoryStore\<lparr>ms_checkpointer :=
     snd (Create None 10 (sample_checkpoint ''o1'' 1 1) NewMemoryCheckpointer)\<rparr>"

definition sample_claimed :: "unit MemoryStore" where
  "sample_claimed = sample_created\<lparr>ms_checkpointer :=
     snd (Claim None 20 (sample_checkpoint ''o2'' 2 1) 1 (ms_checkpointer sample_created))\<rparr>"

definition sample_finished :: "unit MemoryStore" where
  "sample_finished = sample_claimed\<lparr>ms_checkpointer :=
     snd (Finish None 21 ((sample_checkpoint [] 2 2)\<lparr>cp_Status := CheckpointCompleted\<rparr>) 2
       (ms_checkpointer sample_claimed))\<rparr>"

lemmas sample_store_defs =
  sample_checkpoint_def sample_created_def sample_claimed_def sample_finished_def
  NewMemoryStore_def NewMemoryCheckpointer_def Create_def Claim_def Finish_def store_write_def
  validateCheckpointRecord_def validSourceLineage_def checkpointSchemaVersion_def
  maxWorkflowCheckpointPayloadBytes_def leaseExpiry_def sameCheckpointIdentity_def
  restore_record_def cloneCheckpointRecord_def checkpointTerminal_def Let_def

lemma sample_reachable:
  "store_steps NewMemoryStore sample_created"
  "store_steps sample_created sample_claimed"
  "store_steps sample_claimed sample_finished"
proof -
  have "ms_checkpointer NewMemoryStore = (NewMemoryCheckpointer :: unit MemoryCheckpointer)"
    by (simp add: NewMemoryStore_def)
  then show "store_steps NewMemoryStore sample_created"
    unfolding sample_created_def by (metis r_into_rtranclp step_create surjective_pairing)
  show "store_steps sample_created sample_claimed"
    unfolding sample_claimed_def by (metis r_into_rtranclp step_claim surjective_pairing)
  show "store_steps sample_claimed sample_finished"
    unfolding sample_finished_def by (metis r_into_rtranclp step_finish surjective_pairing)
qed

lemma sample_heads:
  "mc_records (ms_checkpointer sample_created) ''r'' =
     Some ((sample_checkpoint ''o1'' 1 1)\<lparr>cp_LeaseExpiresAt := 15, cp_LeaseDuration := 0\<rparr>)"
  "mc_records (ms_checkpointer sample_claimed) ''r'' =
     Some ((sample_checkpoint ''o2'' 2 2)\<lparr>cp_LeaseExpiresAt := 25, cp_LeaseDuration := 0\<rparr>)"
  "mc_records (ms_checkpointer sample_finished) ''r'' =
     Some ((sample_checkpoint [] 2 3)\<lparr>cp_Status := CheckpointCompleted,
       cp_LeaseExpiresAt := 0, cp_LeaseDuration := 0\<rparr>)"
  by (simp_all add: sample_store_defs)

lemma sample_history:
  "mc_history (ms_checkpointer sample_claimed) ''r'' =
     Some [(sample_checkpoint ''o1'' 1 1)\<lparr>cp_LeaseExpiresAt := 15, cp_LeaseDuration := 0\<rparr>,
           (sample_checkpoint ''o2'' 2 2)\<lparr>cp_LeaseExpiresAt := 25, cp_LeaseDuration := 0\<rparr>]"
  by (simp add: sample_store_defs)

text \<open>
  C15 (history). Whatever clients call in whatever order, the history of every run has
  versions 1, 2, 3, \<dots> without gaps, all of one checkpoint identity, with claim
  sequences that never fall and a terminal status only in the last version; the head is
  the last version, up to a lease that was extended.
\<close>

theorem store_history:
  assumes "store_steps NewMemoryStore s" and "mc_history (ms_checkpointer s) run = Some h"
  shows "map cp_Version h = [1..int (length h)] \<and>
    list_all (sameCheckpointIdentity (last h)) h \<and>
    sorted (map cp_ClaimSequence h) \<and>
    list_all (\<lambda>r. \<not> checkpointTerminal (cp_Status r)) (butlast h) \<and>
    (case mc_records (ms_checkpointer s) run of
       None \<Rightarrow> False
     | Some r \<Rightarrow> r = (last h)\<lparr>cp_LeaseExpiresAt := cp_LeaseExpiresAt r\<rparr> \<and>
                 cp_LeaseExpiresAt (last h) \<le> cp_LeaseExpiresAt r)"
proof -
  have inv: "checkpointer_inv (ms_checkpointer s)" using assms(1) by (rule reachable_inv)
  with assms(2) obtain r where r: "mc_records (ms_checkpointer s) run = Some r"
    using checkpointer_inv_None by fastforce
  with inv assms(2) have ok: "run_history_ok run r h" using checkpointer_inv_Some by fastforce
  then have "sameCheckpointIdentity (last h) x" if "x \<in> set h" for x
  proof -
    have "sameCheckpointIdentity (last h) r" "sameCheckpointIdentity x r"
      using ok that by (auto simp: run_history_ok_def list_all_iff)
    then show ?thesis using sameCheckpointIdentity_trans sameCheckpointIdentity_sym by blast
  qed
  with ok r show ?thesis by (auto simp: run_history_ok_def list_all_iff same_but_lease_def)
qed

theorem store_history_witness:
  "map cp_Version [sample_checkpoint ''o1'' 1 1, sample_checkpoint ''o2'' 2 2] = [1..2]"
proof -
  have "store_steps NewMemoryStore sample_claimed"
    using sample_reachable(1,2) by (rule rtranclp_trans)
  from store_history [OF this sample_history] show ?thesis by (simp add: sample_checkpoint_def)
qed

text \<open>
  C10 (fencing). Once a run is at some claim sequence, no later call, in any
  interleaving, that carries a smaller one has an effect: writes, lease renewals and fenced
  journal appends of an owner that was replaced all fail and change nothing.
\<close>

theorem store_fencing:
  assumes "store_steps NewMemoryStore s" and "mc_records (ms_checkpointer s) run = Some r"
    and "store_steps s s'"
    and "cp_RunID old = run" "cp_ClaimSequence old < cp_ClaimSequence r"
    and "cl_RunID lease = run" "cl_ClaimSequence lease < cp_ClaimSequence r"
    and "rl_RunID rec = run" "fn_ClaimSequence fence < cp_ClaimSequence r"
  shows "(\<exists>e. Save c now old v (ms_checkpointer s') = (Some e, ms_checkpointer s')) \<and>
    (\<exists>e. Finish c now old v (ms_checkpointer s') = (Some e, ms_checkpointer s')) \<and>
    (\<exists>e. RenewLease c now lease (ms_checkpointer s') = (Some e, ms_checkpointer s')) \<and>
    (\<exists>e. AppendFenced c now rec fence s' = (Some e, s'))"
proof -
  let ?k = "ms_checkpointer s'"
  obtain h r' h' where "run_state ?k run r' h'" "evolves (r, h) (r', h')"
    using later_run_state [OF assms(1-3)] .
  then have head: "mc_records ?k run = Some r'" and "cp_ClaimSequence r \<le> cp_ClaimSequence r'"
    by (auto simp: evolves_def)
  then have lower: "cp_ClaimSequence old < cp_ClaimSequence r'"
    "cl_ClaimSequence lease < cp_ClaimSequence r'" "fn_ClaimSequence fence < cp_ClaimSequence r'"
    using assms by auto
  have wr: "\<exists>e. store_write c now old v terminal ?k = (Some e, ?k)" for terminal
  proof (cases "fst (store_write c now old v terminal ?k)")
    case None
    then have "store_write c now old v terminal ?k = (None, snd (store_write c now old v terminal ?k))"
      by (simp add: prod_eq_iff)
    then show ?thesis
      by (rule store_write_success) (use head lower assms(4) in auto)
  next
    case (Some e)
    then show ?thesis using failed_unchanged(4) by (metis prod.collapse)
  qed
  moreover have "\<exists>e. RenewLease c now lease ?k = (Some e, ?k)"
    using head lower(2) assms(6) by (auto simp: RenewLease_def split: option.split)
  moreover have "\<exists>e. AppendFenced c now rec fence s' = (Some e, s')"
    using head lower(3) assms(8) by (auto simp: AppendFenced_def split: option.split)
  ultimately show ?thesis by (simp add: Save_def Finish_def)
qed

theorem store_fencing_witness:
  "\<exists>e. Save None 22 (sample_checkpoint ''o1'' 1 1) 1 (ms_checkpointer sample_claimed) =
     (Some e, ms_checkpointer sample_claimed)"
proof -
  have "store_steps NewMemoryStore sample_claimed"
    using sample_reachable(1,2) by (rule rtranclp_trans)
  from store_fencing [OF this sample_heads(2) rtranclp.rtrancl_refl,
      of "sample_checkpoint ''o1'' 1 1"
        "\<lparr>cl_RunID = ''r'', cl_OwnerID = ''o1'', cl_ClaimSequence = 1, cl_ExpiresAt = 0,
          cl_Duration = 5\<rparr>"
        "(sample_record 1)" "\<lparr>fn_OwnerID = ''o1'', fn_ClaimSequence = 1\<rparr>" None 22 1]
  show ?thesis by (simp add: sample_checkpoint_def)
qed

text \<open>
  C12 (one owner at a time). While a run is running under an unexpired lease, no
  call can claim it, and no write, renewal or fenced append succeeds unless it carries the
  claim sequence of the lease, and its owner (a write may also clear the owner: a release).
\<close>

theorem store_exclusive:
  assumes "mc_records (ms_checkpointer s) run = Some r"
    and "cp_OwnerID r \<noteq> []" "now < cp_LeaseExpiresAt r"
    and "cp_RunID q = run" "cl_RunID lease = run" "rl_RunID rec = run"
  shows "fst (Claim c now q v (ms_checkpointer s)) \<noteq> None \<and>
    (fst (store_write c now q v terminal (ms_checkpointer s)) = None \<longrightarrow>
       cp_ClaimSequence q = cp_ClaimSequence r \<and> cp_OwnerID q \<in> {[], cp_OwnerID r}) \<and>
    (fst (RenewLease c now lease (ms_checkpointer s)) = None \<longrightarrow>
       cl_ClaimSequence lease = cp_ClaimSequence r \<and> cl_OwnerID lease = cp_OwnerID r) \<and>
    (fst (AppendFenced c now rec fence s) = None \<longrightarrow>
       fn_ClaimSequence fence = cp_ClaimSequence r \<and> fn_OwnerID fence = cp_OwnerID r)"
proof (intro conjI impI)
  let ?k = "ms_checkpointer s"
  show "fst (Claim c now q v ?k) \<noteq> None"
  proof
    assume "fst (Claim c now q v ?k) = None"
    then have "Claim c now q v ?k = (None, snd (Claim c now q v ?k))" by (simp add: prod_eq_iff)
    then show False by (rule Claim_success) (use assms in auto)
  qed
  assume "fst (store_write c now q v terminal ?k) = None"
  then have "store_write c now q v terminal ?k = (None, snd (store_write c now q v terminal ?k))"
    by (simp add: prod_eq_iff)
  then have "cp_ClaimSequence q = cp_ClaimSequence r \<and> cp_OwnerID q \<in> {[], cp_OwnerID r}"
    by (rule store_write_success) (use assms in auto)
  then show "cp_ClaimSequence q = cp_ClaimSequence r" "cp_OwnerID q \<in> {[], cp_OwnerID r}"
    by blast+
qed (use assms in \<open>auto simp: RenewLease_def AppendFenced_def Let_def
       split: option.splits if_splits prod.splits\<close>)

theorem store_exclusive_witness:
  "fst (Claim None 22 (sample_checkpoint ''o3'' 3 2) 2 (ms_checkpointer sample_claimed)) \<noteq> None"
  using store_exclusive [OF sample_heads(2), of 22 "sample_checkpoint ''o3'' 3 2"
      "\<lparr>cl_RunID = ''r'', cl_OwnerID = [], cl_ClaimSequence = 0, cl_ExpiresAt = 0, cl_Duration = 0\<rparr>"
      "sample_record 1" None 2]
  by (simp add: sample_checkpoint_def)

text \<open>
  C16 (terminal runs are final). When the head of a run has a terminal status, no
  sequence of calls changes the head or the history of that run.
\<close>

theorem store_terminal_final:
  assumes "store_steps NewMemoryStore s" and "mc_records (ms_checkpointer s) run = Some r"
    and "checkpointTerminal (cp_Status r)" and "store_steps s s'"
  shows "mc_records (ms_checkpointer s') run = Some r \<and>
    mc_history (ms_checkpointer s') run = mc_history (ms_checkpointer s) run"
  by (rule later_run_state [OF assms(1,2,4)]) (use assms(3) in \<open>auto simp: evolves_def\<close>)

theorem store_terminal_final_witness:
  "mc_records (ms_checkpointer sample_finished) ''r'' =
   mc_records (ms_checkpointer sample_finished) ''r''
   \<and> cp_Status (the (mc_records (ms_checkpointer sample_finished) ''r'')) = CheckpointCompleted"
proof -
  have "store_steps NewMemoryStore sample_finished"
    using sample_reachable by (meson rtranclp_trans)
  from store_terminal_final [OF this sample_heads(3) _ rtranclp.rtrancl_refl]
  show ?thesis by (simp add: checkpointTerminal_def sample_checkpoint_def)
qed

text \<open>
  C11 (compare and swap). After a write or claim at version v succeeded, no
  later write or claim of that run at version v or below succeeds, whoever makes it: a stored
  version is never replaced and no update is lost.
\<close>

theorem store_cas:
  assumes "store_steps NewMemoryStore s"
    and "store_write c now q v terminal (ms_checkpointer s) = (None, k) \<or>
         Claim c now q v (ms_checkpointer s) = (None, k)"
    and "store_steps (s\<lparr>ms_checkpointer := k\<rparr>) s'"
    and "cp_RunID q' = cp_RunID q" "v' \<le> v"
  shows "fst (store_write c' now' q' v' terminal' (ms_checkpointer s')) \<noteq> None \<and>
    fst (Claim c' now' q' v' (ms_checkpointer s')) \<noteq> None"
proof -
  let ?s1 = "s\<lparr>ms_checkpointer := k\<rparr>"
  let ?run = "cp_RunID q"
  have "store_step s ?s1"
    using assms(2)
  proof
    assume "store_write c now q v terminal (ms_checkpointer s) = (None, k)"
    then show ?thesis
      using step_save [of c now q v s None k] step_finish [of c now q v s None k]
      by (cases terminal) (simp_all add: Save_def Finish_def)
  qed (rule step_claim)
  then have r1: "store_steps NewMemoryStore ?s1" using assms(1) by simp
  obtain r1 where h1: "mc_records k ?run = Some r1" "cp_Version r1 = v + 1"
    using assms(2)
    by (elim disjE store_write_success Claim_success) (auto simp: pushed_def stored_as_simps)
  have h1': "mc_records (ms_checkpointer ?s1) ?run = Some r1" using h1(1) by simp
  obtain h r' h' where e: "run_history_ok ?run r1 h" "run_state (ms_checkpointer s') ?run r' h'"
      "run_history_ok ?run r' h'" "evolves (r1, h) (r', h')"
    using later_run_state [OF r1 h1' assms(3)] .
  then have "int (length h) \<le> int (length h')"
    by (simp add: evolves_def prefix_length_le)
  then have "cp_Version r' \<noteq> v'"
    using run_history_ok_head(2) [OF e(1)] run_history_ok_head(2) [OF e(3)] h1(2) assms(5) by simp
  have head: "mc_records (ms_checkpointer s') (cp_RunID q') = Some r'"
    using e(2) assms(4) by simp
  have "store_write c' now' q' v' terminal' (ms_checkpointer s') \<noteq> (None, k')" for k'
  proof
    assume "store_write c' now' q' v' terminal' (ms_checkpointer s') = (None, k')"
    then show False
      by (rule store_write_success) (use head \<open>cp_Version r' \<noteq> v'\<close> in auto)
  qed
  moreover have "Claim c' now' q' v' (ms_checkpointer s') \<noteq> (None, k')" for k'
  proof
    assume "Claim c' now' q' v' (ms_checkpointer s') = (None, k')"
    then show False
      by (rule Claim_success) (use head \<open>cp_Version r' \<noteq> v'\<close> in auto)
  qed
  ultimately show ?thesis by (metis prod.collapse)
qed

theorem store_cas_witness:
  "fst (Save None 23 (sample_checkpoint ''o2'' 2 1) 1 (ms_checkpointer sample_claimed)) \<noteq> None"
proof -
  have claim: "Claim None 20 (sample_checkpoint ''o2'' 2 1) 1 (ms_checkpointer sample_created) =
      (None, ms_checkpointer sample_claimed)"
    by (simp add: sample_store_defs)
  have "sample_created\<lparr>ms_checkpointer := ms_checkpointer sample_claimed\<rparr> = sample_claimed"
    by (simp add: sample_claimed_def)
  with store_cas [OF sample_reachable(1) disjI2 [OF claim], of sample_claimed
      "sample_checkpoint ''o2'' 2 1" 1 None 23 False]
  show ?thesis by (simp add: Save_def)
qed

text \<open>
  Lease renewal. A renewal that succeeds keeps the history and everything in the
  head but the expiry, never shortens the lease, and is only possible while the lease runs.
\<close>

theorem renew_lease_extends:
  assumes "RenewLease c now lease k = (None, k')"
  shows "mc_history k' = mc_history k \<and>
    (case mc_records k (cl_RunID lease) of
       None \<Rightarrow> False
     | Some r \<Rightarrow>
         now < cp_LeaseExpiresAt r \<and> cp_OwnerID r = cl_OwnerID lease \<and>
         cp_ClaimSequence r = cl_ClaimSequence lease \<and>
         (\<exists>t \<ge> cp_LeaseExpiresAt r.
            mc_records k' (cl_RunID lease) =
              Some (if t = cp_LeaseExpiresAt r then r
                    else cloneCheckpointRecord (r\<lparr>cp_LeaseExpiresAt := t\<rparr>))))"
proof -
  from assms obtain r where r: "mc_records k (cl_RunID lease) = Some r"
    "now < cp_LeaseExpiresAt r" "cp_OwnerID r = cl_OwnerID lease"
    "cp_ClaimSequence r = cl_ClaimSequence lease"
    by (auto simp: RenewLease_def split: option.splits if_splits)
  show ?thesis
    using assms
  proof (cases rule: RenewLease_success)
    case stale
    with r show ?thesis by auto
  next
    case (renewed current t)
    with r have "\<exists>t \<ge> cp_LeaseExpiresAt r.
        mc_records k' (cl_RunID lease) =
          Some (if t = cp_LeaseExpiresAt r then r
                else cloneCheckpointRecord (r\<lparr>cp_LeaseExpiresAt := t\<rparr>))"
      by (intro exI [of _ t]) simp
    with r renewed(7) show ?thesis by simp
  qed
qed

theorem renew_lease_extends_witness:
  "mc_history (snd (RenewLease None 22
      \<lparr>cl_RunID = ''r'', cl_OwnerID = ''o2'', cl_ClaimSequence = 2, cl_ExpiresAt = 0, cl_Duration = 5\<rparr>
      (ms_checkpointer sample_claimed))) = mc_history (ms_checkpointer sample_claimed)"
  (is "mc_history (snd (RenewLease None 22 ?l ?k)) = _")
proof -
  have "RenewLease None 22 ?l ?k = (None, snd (RenewLease None 22 ?l ?k))"
    by (simp add: RenewLease_def sample_heads sample_checkpoint_def leaseExpiry_def)
  from renew_lease_extends [OF this] show ?thesis by simp
qed

end
