(* ===== verification/Topology.thy ===== *)
theory Topology
  imports Values
begin

text \<open>
  The static shape of a workflow (\<open>topology.go\<close>): the depth-first scan that marks back
  edges, and the correlation key that a delivery along an edge carries. The scan recurses
  through its own visit state, so the model counts nested visits with fuel;
  \<open>findTopologyBackEdges\<close> supplies one unit per node mentioned by the graph, which the
  theory shows to be enough. The main facts: without its back edges the graph below the entry
  has no cycle, and every back edge closes one; hence every trip around a loop
  raises the correlation epoch.
\<close>

section \<open>The scan\<close>

type_synonym topologyEdge = "string \<times> string"

datatype topologyVisitState = topologyUnseen | topologyVisiting | topologyVisited

record topologyScan =
  ts_state :: "string \<Rightarrow> topologyVisitState"
  ts_back :: "topologyEdge set"

type_synonym edge_map = "(string, string list) fmap"

definition targets :: "edge_map \<Rightarrow> string \<Rightarrow> string list" where
  "targets edges source = (case fmlookup edges source of None \<Rightarrow> [] | Some ts \<Rightarrow> ts)"

definition mark :: "string \<Rightarrow> topologyVisitState \<Rightarrow> topologyScan \<Rightarrow> topologyScan" where
  "mark node v scan = scan\<lparr>ts_state := (ts_state scan)(node := v)\<rparr>"

fun visit :: "edge_map \<Rightarrow> nat \<Rightarrow> string \<Rightarrow> topologyScan \<Rightarrow> topologyScan option"
and visit_edges :: "edge_map \<Rightarrow> nat \<Rightarrow> string \<Rightarrow> string list \<Rightarrow> topologyScan \<Rightarrow> topologyScan option"
where
  "visit edges 0 node scan = None"
| "visit edges (Suc fuel) node scan =
     (case visit_edges edges fuel node (sort (targets edges node)) (mark node topologyVisiting scan) of
        None \<Rightarrow> None
      | Some scan1 \<Rightarrow> Some (mark node topologyVisited scan1))"
| "visit_edges edges fuel source [] scan = Some scan"
| "visit_edges edges fuel source (target # ts) scan =
     (if ts_state scan target = topologyVisiting
        then visit_edges edges fuel source ts
               (scan\<lparr>ts_back := insert (source, target) (ts_back scan)\<rparr>)
      else if ts_state scan target = topologyUnseen
        then (case visit edges fuel target scan of
                None \<Rightarrow> None
              | Some scan1 \<Rightarrow> visit_edges edges fuel source ts scan1)
      else visit_edges edges fuel source ts scan)"

definition graph_nodes :: "edge_map \<Rightarrow> string list" where
  "graph_nodes edges = concat (map (\<lambda>k. k # targets edges k) (sorted_keys edges))"

definition new_scan :: topologyScan where
  "new_scan = \<lparr>ts_state = (\<lambda>n. topologyUnseen), ts_back = {}\<rparr>"

definition findTopologyBackEdges :: "string \<Rightarrow> edge_map \<Rightarrow> topologyEdge set" where
  "findTopologyBackEdges entry edges =
     (case visit edges (Suc (length (graph_nodes edges))) entry new_scan of
        None \<Rightarrow> {}
      | Some scan \<Rightarrow> ts_back scan)"

definition nextCorrelation ::
  "topologyEdge set \<Rightarrow> CorrelationKey \<Rightarrow> string \<Rightarrow> string \<Rightarrow> CorrelationKey" where
  "nextCorrelation backEdges correlation source target =
     (if (source, target) \<in> backEdges
      then CorrelationKey (corr_id correlation) (corr_epoch correlation + 1)
      else correlation)"

section \<open>Enough fuel\<close>

definition unseen :: "string set \<Rightarrow> topologyScan \<Rightarrow> string set" where
  "unseen U scan = {n \<in> U. ts_state scan n = topologyUnseen}"

lemma mark_simps [simp]:
  "ts_state (mark n v scan) = (ts_state scan)(n := v)"
  "ts_back (mark n v scan) = ts_back scan"
  by (simp_all add: mark_def)

lemma unseen_mark: "v \<noteq> topologyUnseen \<Longrightarrow> unseen U (mark n v scan) = unseen U scan - {n}"
  by (auto simp: unseen_def)

lemma unseen_back [simp]: "unseen U (scan\<lparr>ts_back := b\<rparr>) = unseen U scan"
  by (simp add: unseen_def)

lemma finite_unseen [simp]: "finite U \<Longrightarrow> finite (unseen U scan)"
  by (simp add: unseen_def)

lemma visit_total:
  assumes "finite U"
  shows "\<forall>n \<in> U. set (targets edges n) \<subseteq> U \<Longrightarrow> node \<in> U \<Longrightarrow> ts_state scan node = topologyUnseen \<Longrightarrow> card (unseen U scan) \<le> fuel \<Longrightarrow>
      \<exists>scan'. visit edges fuel node scan = Some scan' \<and> unseen U scan' \<subseteq> unseen U scan"
    and "\<forall>n \<in> U. set (targets edges n) \<subseteq> U \<Longrightarrow> set ts \<subseteq> U \<Longrightarrow> card (unseen U scan) \<le> fuel \<Longrightarrow>
      \<exists>scan'. visit_edges edges fuel source ts scan = Some scan' \<and> unseen U scan' \<subseteq> unseen U scan"
proof (induction edges fuel node scan and edges fuel source ts scan rule: visit_visit_edges.induct)
  case (1 edges node scan)
  then have "unseen U scan = {}" using assms(1) by simp
  with 1 show ?case by (auto simp: unseen_def)
next
  case (2 edges fuel node scan)
  let ?m = "mark node topologyVisiting scan"
  have "node \<in> unseen U scan" using 2 by (simp add: unseen_def)
  then have "card (unseen U scan - {node}) < card (unseen U scan)"
    using assms(1) by (intro card_Diff1_less) auto
  then have "card (unseen U ?m) < card (unseen U scan)"
    unfolding unseen_mark [OF topologyVisitState.distinct(2)] .
  then have "card (unseen U ?m) \<le> fuel" using 2 by simp
  moreover have "set (sort (targets edges node)) \<subseteq> U" using 2 by simp
  ultimately obtain scan1 where "visit_edges edges fuel node (sort (targets edges node)) ?m = Some scan1"
    "unseen U scan1 \<subseteq> unseen U ?m" using 2(1) [OF 2(2)] by blast
  then show ?case by (auto simp: unseen_mark)
next
  case (4 edges fuel source target ts scan)
  show ?case
  proof (cases "ts_state scan target")
    case topologyUnseen
    with 4 obtain scan1 where s1: "visit edges fuel target scan = Some scan1"
      "unseen U scan1 \<subseteq> unseen U scan" by auto
    then have "card (unseen U scan1) \<le> fuel"
      using 4 card_mono [OF finite_unseen [OF assms(1)] s1(2)] by simp
    with 4 topologyUnseen s1 show ?thesis by fastforce
  next
    case topologyVisiting
    with 4 show ?thesis by auto
  next
    case topologyVisited
    with 4 show ?thesis by auto
  qed
qed auto

section \<open>The order of completion\<close>

definition edge_rel :: "edge_map \<Rightarrow> (string \<times> string) set" where
  "edge_rel edges = {(x, y). y \<in> set (targets edges x)}"

text \<open>
  \<open>scan_ok edges L scan\<close>: the visited nodes were completed in the order \<open>L\<close>, and an edge
  out of a completed node leads to a node completed before it unless it is a back edge.
\<close>

definition scan_ok :: "edge_map \<Rightarrow> string list \<Rightarrow> topologyScan \<Rightarrow> bool" where
  "scan_ok edges L scan \<longleftrightarrow>
     distinct L \<and> (\<forall>n. n \<in> set L \<longleftrightarrow> ts_state scan n = topologyVisited) \<and>
     (\<forall>(x, y) \<in> ts_back scan. ts_state scan y \<noteq> topologyUnseen) \<and>
     (\<forall>i < length L. \<forall>y \<in> set (targets edges (L ! i)).
        y \<in> set (take i L) \<or> (L ! i, y) \<in> ts_back scan)"

definition visiting :: "topologyScan \<Rightarrow> string set" where
  "visiting scan = {n. ts_state scan n = topologyVisiting}"

lemma scan_ok_start:
  assumes "scan_ok edges L scan" "ts_state scan node = topologyUnseen"
  shows "scan_ok edges L (mark node topologyVisiting scan)"
  using assms by (auto simp: scan_ok_def)

lemma scan_ok_back:
  assumes "scan_ok edges L scan" "ts_state scan target \<noteq> topologyUnseen"
  shows "scan_ok edges L (scan\<lparr>ts_back := insert (source, target) (ts_back scan)\<rparr>)"
  using assms by (auto simp: scan_ok_def)

lemma scan_ok_done:
  assumes "scan_ok edges L scan" "ts_state scan node = topologyVisiting"
    and "\<forall>y \<in> set (targets edges node). y \<in> set L \<or> (node, y) \<in> ts_back scan"
  shows "scan_ok edges (L @ [node]) (mark node topologyVisited scan)"
  using assms by (auto simp: scan_ok_def nth_append less_Suc_eq)

lemma visit_order:
  shows "visit edges fuel node scan = Some scan' \<Longrightarrow> scan_ok edges L scan \<Longrightarrow>
      ts_state scan node = topologyUnseen \<Longrightarrow>
      \<exists>M. scan_ok edges (L @ M) scan' \<and> node \<in> set M \<and> visiting scan' = visiting scan \<and>
          ts_back scan \<subseteq> ts_back scan'"
    and "visit_edges edges fuel source ts scan = Some scan' \<Longrightarrow> scan_ok edges L scan \<Longrightarrow>
      ts_state scan source = topologyVisiting \<Longrightarrow>
      \<exists>M. scan_ok edges (L @ M) scan' \<and> visiting scan' = visiting scan \<and>
          ts_back scan \<subseteq> ts_back scan' \<and>
          (\<forall>y \<in> set ts. y \<in> set (L @ M) \<or> (source, y) \<in> ts_back scan')"
proof (induction edges fuel node scan and edges fuel source ts scan
    arbitrary: scan' L and scan' L rule: visit_visit_edges.induct)
  case (2 edges fuel node scan)
  let ?m = "mark node topologyVisiting scan"
  from 2(2) obtain scan1 where s1:
    "visit_edges edges fuel node (sort (targets edges node)) ?m = Some scan1"
    "scan' = mark node topologyVisited scan1" by (auto split: option.splits)
  from 2(1) [OF s1(1) scan_ok_start [OF 2(3,4)]] obtain M where M:
    "scan_ok edges (L @ M) scan1" "visiting scan1 = visiting ?m" "ts_back scan \<subseteq> ts_back scan1"
    "\<forall>y \<in> set (targets edges node). y \<in> set (L @ M) \<or> (node, y) \<in> ts_back scan1"
    by auto
  have "node \<in> visiting scan1" using M(2) by (simp add: visiting_def)
  then have "scan_ok edges ((L @ M) @ [node]) scan'"
    unfolding s1(2) by (intro scan_ok_done M) (simp_all add: visiting_def)
  moreover have "visiting scan' = visiting scan"
    using M(2) 2(4) s1(2) by (auto simp: visiting_def set_eq_iff split: if_splits)
  ultimately show ?case using M(3) s1(2) by (intro exI [of _ "M @ [node]"]) simp
next
  case (4 edges fuel source target ts scan)
  show ?case
  proof (cases "ts_state scan target")
    case topologyUnseen
    with 4(5) obtain scan1 where s1: "visit edges fuel target scan = Some scan1"
      "visit_edges edges fuel source ts scan1 = Some scan'" by (auto split: option.splits)
    have nv: "ts_state scan target \<noteq> topologyVisiting" using topologyUnseen by simp
    obtain M1 where M1:
      "scan_ok edges (L @ M1) scan1" "target \<in> set M1" "visiting scan1 = visiting scan"
      "ts_back scan \<subseteq> ts_back scan1"
      using 4(2) [OF nv topologyUnseen s1(1) 4(6) topologyUnseen] by auto
    have "ts_state scan1 source = topologyVisiting"
      using M1(3) 4(7) by (auto simp: visiting_def)
    then obtain M2 where
      "scan_ok edges ((L @ M1) @ M2) scan'" "visiting scan' = visiting scan1"
      "ts_back scan1 \<subseteq> ts_back scan'"
      "\<forall>y \<in> set ts. y \<in> set ((L @ M1) @ M2) \<or> (source, y) \<in> ts_back scan'"
      using 4(3) [OF nv topologyUnseen s1(1) s1(2) M1(1)] by auto
    with M1 show ?thesis by (intro exI [of _ "M1 @ M2"]) auto
  next
    case topologyVisiting
    let ?b = "scan\<lparr>ts_back := insert (source, target) (ts_back scan)\<rparr>"
    have a: "visit_edges edges fuel source ts ?b = Some scan'" using 4(5) topologyVisiting by simp
    have b: "scan_ok edges L ?b" using 4(6) topologyVisiting by (intro scan_ok_back) simp_all
    have c: "ts_state ?b source = topologyVisiting" using 4(7) by simp
    obtain M where "scan_ok edges (L @ M) scan'" "visiting scan' = visiting ?b"
      "ts_back ?b \<subseteq> ts_back scan'" "\<forall>y \<in> set ts. y \<in> set (L @ M) \<or> (source, y) \<in> ts_back scan'"
      using 4(1) [OF topologyVisiting a b c] by blast
    then show ?thesis by (intro exI [of _ M]) (auto simp: visiting_def)
  next
    case topologyVisited
    then have "target \<in> set L" using 4(6) by (simp add: scan_ok_def)
    moreover have "visit_edges edges fuel source ts scan = Some scan'" using 4(5) topologyVisited by simp
    ultimately show ?thesis using 4(4) [OF _ _ _ 4(6,7)] topologyVisited by auto
  qed
next
  case (3 edges fuel source scan)
  then show ?case by (intro exI [of _ "[]"]) auto
qed auto

section \<open>Back edges close cycles\<close>

text \<open>Nodes under visit are on the path from the entry to the current node.\<close>

definition back_ok :: "edge_map \<Rightarrow> topologyScan \<Rightarrow> bool" where
  "back_ok edges scan \<longleftrightarrow>
     (\<forall>(x, y) \<in> ts_back scan. (x, y) \<in> edge_rel edges \<and> (y, x) \<in> (edge_rel edges)\<^sup>*)"

lemma visit_visiting:
  shows "visit edges fuel node scan = Some scan' \<Longrightarrow> ts_state scan node = topologyUnseen \<Longrightarrow>
      visiting scan' = visiting scan"
    and "visit_edges edges fuel source ts scan = Some scan' \<Longrightarrow> visiting scan' = visiting scan"
proof (induction edges fuel node scan and edges fuel source ts scan
    arbitrary: scan' and scan' rule: visit_visit_edges.induct)
  case (2 edges fuel node scan)
  then show ?case by (fastforce simp: visiting_def set_eq_iff split: option.splits if_splits)
next
  case (4 edges fuel source target ts scan)
  then show ?case
    by (cases "ts_state scan target") (auto simp: visiting_def split: option.splits if_splits)
qed auto

lemma visit_back_ok:
  shows "visit edges fuel node scan = Some scan' \<Longrightarrow> ts_state scan node = topologyUnseen \<Longrightarrow>
      back_ok edges scan \<Longrightarrow> \<forall>n \<in> visiting scan. (n, node) \<in> (edge_rel edges)\<^sup>* \<Longrightarrow>
      back_ok edges scan'"
    and "visit_edges edges fuel source ts scan = Some scan' \<Longrightarrow>
      set ts \<subseteq> set (targets edges source) \<Longrightarrow> back_ok edges scan \<Longrightarrow>
      \<forall>n \<in> visiting scan. (n, source) \<in> (edge_rel edges)\<^sup>* \<Longrightarrow> back_ok edges scan'"
proof (induction edges fuel node scan and edges fuel source ts scan
    arbitrary: scan' and scan' rule: visit_visit_edges.induct)
  case (2 edges fuel node scan)
  let ?m = "mark node topologyVisiting scan"
  obtain scan1 where s1: "visit_edges edges fuel node (sort (targets edges node)) ?m = Some scan1"
    "scan' = mark node topologyVisited scan1" using 2(2) by (auto split: option.splits)
  have "\<forall>n \<in> visiting ?m. (n, node) \<in> (edge_rel edges)\<^sup>*"
    using 2(5) by (auto simp: visiting_def)
  moreover have "back_ok edges ?m" using 2(4) by (simp add: back_ok_def)
  ultimately have "back_ok edges scan1" using 2(1) [OF s1(1)] by simp
  then show ?case by (simp add: s1(2) back_ok_def)
next
  case (4 edges fuel source target ts scan)
  have e: "(source, target) \<in> edge_rel edges" using 4(6) by (simp add: edge_rel_def)
  then have r: "(n, target) \<in> (edge_rel edges)\<^sup>*" if "n \<in> visiting scan" for n
    using 4(8) that by (meson rtrancl.rtrancl_into_rtrancl)
  show ?case
  proof (cases "ts_state scan target")
    case topologyUnseen
    then have nv: "ts_state scan target \<noteq> topologyVisiting" by simp
    obtain scan1 where s1: "visit edges fuel target scan = Some scan1"
      "visit_edges edges fuel source ts scan1 = Some scan'"
      using 4(5) topologyUnseen by (auto split: option.splits)
    have "back_ok edges scan1"
      using 4(2) [OF nv topologyUnseen s1(1) topologyUnseen 4(7)] r by blast
    moreover have "visiting scan1 = visiting scan" using visit_visiting(1) s1(1) topologyUnseen by blast
    ultimately show ?thesis
      using 4(3) [OF nv topologyUnseen s1(1) s1(2)] 4(6,8) by simp
  next
    case topologyVisiting
    then have "(target, source) \<in> (edge_rel edges)\<^sup>*" using 4(8) by (simp add: visiting_def)
    then have b: "back_ok edges (scan\<lparr>ts_back := insert (source, target) (ts_back scan)\<rparr>)"
      using 4(7) e by (simp add: back_ok_def)
    show ?thesis
      by (rule 4(1) [OF topologyVisiting _ _ b]) (use 4(5,6,8) topologyVisiting in \<open>auto simp: visiting_def\<close>)
  next
    case topologyVisited
    then show ?thesis using 4(4) [OF _ _ _ _ 4(7)] 4(5,6,8) by simp
  qed
qed auto

section \<open>The back edges of a graph\<close>

lemma targets_in_nodes: "set (targets edges x) \<subseteq> set (graph_nodes edges)"
proof (cases "fmlookup edges x")
  case (Some ts)
  then have "x \<in> set (sorted_keys edges)" by simp
  then show ?thesis by (force simp: graph_nodes_def)
qed (simp add: targets_def)

lemma findTopologyBackEdges_scan:
  obtains L scan where "findTopologyBackEdges entry edges = ts_back scan"
    "scan_ok edges L scan" "entry \<in> set L" "visiting scan = {}" "back_ok edges scan"
proof -
  let ?U = "insert entry (set (graph_nodes edges))"
  let ?fuel = "Suc (length (graph_nodes edges))"
  have "unseen ?U new_scan = ?U" by (auto simp: unseen_def new_scan_def)
  moreover have "card ?U \<le> ?fuel"
    using card_insert_if [of "set (graph_nodes edges)" entry] card_length [of "graph_nodes edges"]
    by simp
  ultimately obtain scan where v: "visit edges ?fuel entry new_scan = Some scan"
    using visit_total(1) [of ?U edges entry new_scan ?fuel] targets_in_nodes [of edges]
    by (auto simp: new_scan_def)
  have s: "scan_ok edges [] new_scan" "ts_state new_scan entry = topologyUnseen"
    "back_ok edges new_scan" "visiting new_scan = {}"
    by (simp_all add: scan_ok_def new_scan_def back_ok_def visiting_def)
  obtain M where "scan_ok edges ([] @ M) scan" "entry \<in> set M" "visiting scan = visiting new_scan"
    using visit_order(1) [OF v s(1,2)] by blast
  moreover have "back_ok edges scan" using visit_back_ok(1) [OF v s(2,3)] s(4) by simp
  moreover have "findTopologyBackEdges entry edges = ts_back scan"
    using v by (simp add: findTopologyBackEdges_def)
  ultimately show thesis using that s(4) by simp
qed

definition reachable_nodes :: "string \<Rightarrow> edge_map \<Rightarrow> string set" where
  "reachable_nodes entry edges = (edge_rel edges)\<^sup>* `` {entry}"

lemma scan_reaches:
  assumes "scan_ok edges L scan" "visiting scan = {}" "x \<in> set L" "(x, y) \<in> (edge_rel edges)\<^sup>*"
  shows "y \<in> set L"
  using assms(4)
proof (induction rule: rtrancl_induct)
  case (step y z)
  then obtain i where i: "i < length L" "L ! i = y" by (auto simp: in_set_conv_nth)
  then have "z \<in> set (take i L) \<or> (y, z) \<in> ts_back scan"
    using assms(1) step(2) by (auto simp: scan_ok_def edge_rel_def)
  moreover have "z \<in> set L" if "(y, z) \<in> ts_back scan"
  proof -
    have "ts_state scan z \<noteq> topologyUnseen" using that assms(1) by (auto simp: scan_ok_def)
    moreover have "ts_state scan z \<noteq> topologyVisiting" using assms(2) by (auto simp: visiting_def)
    ultimately have "ts_state scan z = topologyVisited" by (cases "ts_state scan z") auto
    then show ?thesis using assms(1) by (simp add: scan_ok_def)
  qed
  ultimately show ?case by (auto dest: in_set_takeD)
qed (rule assms(3))

lemma scan_descends:
  assumes "scan_ok edges L scan" "visiting scan = {}" "i < length L"
    and "(L ! i, y) \<in> (edge_rel edges - ts_back scan)\<^sup>+"
  shows "\<exists>j < i. L ! j = y"
  using assms(4)
proof (induction rule: trancl_induct)
  case (base y)
  then have "y \<in> set (take i L)" using assms(1,3) by (auto simp: scan_ok_def edge_rel_def)
  then show ?case using assms(3) by (auto simp: in_set_conv_nth)
next
  case (step y z)
  then obtain j where j: "j < i" "L ! j = y" by blast
  have "j < length L" using j(1) assms(3) by simp
  then have "z \<in> set (take j L)"
    using assms(1) step(2) unfolding scan_ok_def edge_rel_def j(2) [symmetric] by blast
  then obtain k where "k < j" "L ! k = z" by (auto simp: in_set_conv_nth)
  then show ?case using j(1) by (intro exI [of _ k]) simp
qed

lemma back_edges_cut_cycles:
  assumes "x \<in> reachable_nodes entry edges"
  shows "(x, x) \<notin> (edge_rel edges - findTopologyBackEdges entry edges)\<^sup>+"
proof -
  obtain L scan where s: "findTopologyBackEdges entry edges = ts_back scan"
    "scan_ok edges L scan" "entry \<in> set L" "visiting scan = {}"
    by (rule findTopologyBackEdges_scan)
  have "x \<in> set L" using scan_reaches s assms by (auto simp: reachable_nodes_def)
  then obtain i where i: "i < length L" "L ! i = x" by (auto simp: in_set_conv_nth)
  show ?thesis
  proof
    assume "(x, x) \<in> (edge_rel edges - findTopologyBackEdges entry edges)\<^sup>+"
    then obtain j where "j < i" "L ! j = x" using scan_descends [OF s(2,4) i(1)] i(2) s(1) by auto
    moreover have "distinct L" using s(2) by (simp add: scan_ok_def)
    ultimately show False using i nth_eq_iff_index_eq [of L j i] by simp
  qed
qed

lemma back_edges_on_cycles:
  "(x, y) \<in> findTopologyBackEdges entry edges \<Longrightarrow>
   (x, y) \<in> edge_rel edges \<and> (y, x) \<in> (edge_rel edges)\<^sup>*"
  by (rule findTopologyBackEdges_scan [of entry edges]) (auto simp: back_ok_def)

section \<open>Correlation along a walk\<close>

fun walk :: "edge_map \<Rightarrow> string list \<Rightarrow> bool" where
  "walk edges (x # y # ns) \<longleftrightarrow> y \<in> set (targets edges x) \<and> walk edges (y # ns)"
| "walk edges ns \<longleftrightarrow> True"

fun walk_correlation :: "topologyEdge set \<Rightarrow> CorrelationKey \<Rightarrow> string list \<Rightarrow> CorrelationKey" where
  "walk_correlation bk c (x # y # ns) =
     walk_correlation bk (nextCorrelation bk c x y) (y # ns)"
| "walk_correlation bk c ns = c"

lemma nextCorrelation_simps [simp]:
  "corr_id (nextCorrelation bk c x y) = corr_id c"
  "corr_epoch (nextCorrelation bk c x y) = corr_epoch c + (if (x, y) \<in> bk then 1 else 0)"
  by (simp_all add: nextCorrelation_def)

lemma walk_correlation_mono:
  "corr_id (walk_correlation bk c ns) = corr_id c \<and>
   corr_epoch c \<le> corr_epoch (walk_correlation bk c ns)"
proof (induction bk c ns rule: walk_correlation.induct)
  case (1 bk c x y ns)
  then show ?case by (auto split: if_splits)
qed auto

lemma walk_same_epoch:
  "walk edges (x # ns) \<Longrightarrow> ns \<noteq> [] \<Longrightarrow>
   corr_epoch (walk_correlation bk c (x # ns)) = corr_epoch c \<Longrightarrow>
   (x, last ns) \<in> (edge_rel edges - bk)\<^sup>+"
proof (induction ns arbitrary: x c)
  case (Cons y ns)
  have "(x, y) \<notin> bk"
    using Cons.prems(3) walk_correlation_mono [of bk "nextCorrelation bk c x y" "y # ns"]
    by (auto split: if_splits)
  then have e: "(x, y) \<in> edge_rel edges - bk" using Cons.prems(1) by (simp add: edge_rel_def)
  show ?case
  proof (cases ns)
    case Nil
    with e show ?thesis by auto
  next
    case (Cons z zs)
    have "nextCorrelation bk c x y = c" using \<open>(x, y) \<notin> bk\<close> by (simp add: nextCorrelation_def)
    then have "(y, last ns) \<in> (edge_rel edges - bk)\<^sup>+"
      using Cons.IH Cons.prems Cons by auto
    with e Cons show ?thesis by (simp add: trancl_into_trancl2)
  qed
qed simp

text \<open>
  Loops advance the correlation. On every walk along the edges of the workflow that
  starts below the entry and comes back to its first node, the correlation epoch strictly grows,
  while the correlation id stays; so contributions of different iterations of a loop never
  meet in one join bucket.
\<close>

theorem loop_advances_epoch:
  assumes "x \<in> reachable_nodes entry edges" "walk edges (x # ns)" "ns \<noteq> []" "last ns = x"
  shows "let c' = walk_correlation (findTopologyBackEdges entry edges) c (x # ns) in
    corr_id c' = corr_id c \<and> corr_epoch c < corr_epoch c'"
proof -
  let ?b = "findTopologyBackEdges entry edges"
  have "corr_epoch (walk_correlation ?b c (x # ns)) \<noteq> corr_epoch c"
    using walk_same_epoch [OF assms(2,3)] back_edges_cut_cycles [OF assms(1)] assms(4) by blast
  with walk_correlation_mono [of ?b c "x # ns"] show ?thesis by (simp add: Let_def)
qed

definition sample_edges :: edge_map where
  "sample_edges = fmap_of_list [(''a'', [''b'']), (''b'', [''a'', ''c''])]"

theorem loop_advances_epoch_witness:
  "corr_epoch (CorrelationKey ''r'' 1) < corr_epoch (walk_correlation
     (findTopologyBackEdges ''a'' sample_edges) (CorrelationKey ''r'' 1) [''a'', ''b'', ''a''])"
proof -
  have "''a'' \<in> reachable_nodes ''a'' sample_edges" by (simp add: reachable_nodes_def)
  moreover have "walk sample_edges [''a'', ''b'', ''a'']"
    by (simp add: sample_edges_def targets_def fmlookup_of_list)
  ultimately show ?thesis
    using loop_advances_epoch [of "''a''" "''a''" sample_edges "[''b'', ''a'']"] by (simp add: Let_def)
qed

text \<open>
  Every edge the scan marks is an edge of the graph, and
  the graph has a walk from its target back to its source: an edge that is on no cycle never
  starts a new correlation epoch.
\<close>

theorem back_edges_close_cycles:
  "findTopologyBackEdges entry edges \<subseteq> {(x, y). y \<in> set (targets edges x) \<and>
     (\<exists>ns. walk edges (y # ns) \<and> last (y # ns) = x)}"
proof clarify
  fix x y assume b: "(x, y) \<in> findTopologyBackEdges entry edges"
  have "\<exists>ns. walk edges (y # ns) \<and> last (y # ns) = x" if "(y, x) \<in> (edge_rel edges)\<^sup>*"
    using that
  proof (induction rule: converse_rtrancl_induct)
    case base
    show ?case by (rule exI [of _ "[]"]) simp
  next
    case (step u v)
    then obtain ns where "walk edges (v # ns)" "last (v # ns) = x" by blast
    with step(1) show ?case by (intro exI [of _ "v # ns"]) (simp add: edge_rel_def)
  qed
  with back_edges_on_cycles [OF b] show "y \<in> set (targets edges x) \<and>
      (\<exists>ns. walk edges (y # ns) \<and> last (y # ns) = x)"
    by (simp add: edge_rel_def)
qed

end
