(* ===== verification/RunState.thy ===== *)
theory RunState
  imports Events Topology
begin

text \<open>
  The scheduler's state of one run (\<open>runState\<close> and what it holds) and the life of an activation
  (\<open>activation.go\<close>): tracked, started, finished, interrupted, cancelled, retried, and
  prepared for resumption. An operation that fails returns its error and leaves the state alone.
\<close>

section \<open>Activations and results\<close>

record activation =
  ac_id :: string
  ac_node :: string
  ac_input :: govalue
  ac_sourceSet :: string
  ac_branchIndex :: int
  ac_correlation :: CorrelationKey

record nodeRunResult =
  nr_input :: govalue
  nr_hasInput :: bool
  nr_output :: govalue
  nr_skipped :: bool
  nr_retry :: bool
  nr_retryInput :: govalue
  nr_contextValue :: govalue
  nr_contextChanged :: bool
  nr_contextBaseRevision :: int

definition zero_result :: nodeRunResult where
  "zero_result =
     \<lparr>nr_input = VNil, nr_hasInput = False, nr_output = VNil, nr_skipped = False, nr_retry = False,
      nr_retryInput = VNil, nr_contextValue = VNil, nr_contextChanged = False,
      nr_contextBaseRevision = 0\<rparr>"

record activationRecord =
  ar_activation :: activation
  ar_phase :: activationPhase
  ar_attempt :: int
  ar_nodeExecutionVersion :: int
  ar_origin :: string
  ar_contextRevision :: int
  ar_result :: nodeRunResult
  ar_hasResult :: bool
  ar_cause :: "goerr option"

section \<open>Source sets, joins and iterators\<close>

record SettlePolicy =
  sp_mode :: string
  sp_quorum :: int

record branchOutcome =
  bo_activation :: activation
  bo_result :: nodeRunResult
  bo_cause :: "goerr option"
  bo_phase :: branchPhase
  bo_completion :: int
  bo_committed :: bool

record sourceSet =
  ss_id :: string
  ss_policy :: SettlePolicy
  ss_expected :: int
  ss_branches :: "string list"
  ss_outcomes :: "(string, branchOutcome) fmap"
  ss_selected :: "string list"
  ss_decided :: bool
  ss_settled :: bool
  ss_failed :: bool
  ss_openSources :: int
  ss_cause :: "goerr option"

record joinBucket =
  jb_contributions :: "(string, govalue list) fmap"
  jb_expectations :: "(string, (string, int) fmap) fmap"

record iterSource =
  is_id :: string
  is_sourceID :: string
  is_target :: string
  is_sourceSet :: string
  is_deliveryIndex :: int
  is_pulled :: int
  is_cursor :: govalue
  is_hasCursor :: bool
  is_replay :: bool
  is_open :: bool
  is_cause :: "goerr option"

text \<open>
  A live iterator: what its sequence yields at each position, where it is, and the cursor
  callback of a replayable source.
\<close>

datatype pulled = PullValue govalue | PullCause goerr | PullPanic string | PullEnd

record liveIterator =
  li_sequence :: "nat \<Rightarrow> pulled"
  li_position :: nat
  li_checkpoint :: "(nat \<Rightarrow> govalue callback) option"

section \<open>The run state\<close>

record runState =
  rs_queue :: "activation list"
  rs_activations :: "(string, activationRecord) fmap"
  rs_nextActSeq :: int
  rs_nextSetSeq :: int
  rs_nextCompletion :: int
  rs_scheduled :: "(string, int) fmap"
  rs_completed :: "(string, int) fmap"
  rs_nodeVersions :: "(string, int) fmap"
  rs_buckets :: "(joinBucketKey, joinBucket) fmap"
  rs_correlations :: "(CorrelationKey, (string, int) fmap) fmap"
  rs_sourceSets :: "(string, sourceSet) fmap"
  rs_iterSources :: "(string, iterSource) fmap"
  rs_liveIters :: "(string, liveIterator) fmap"
  rs_nextIterSeq :: int
  rs_workflowContext :: govalue
  rs_hasContext :: bool
  rs_contextRevision :: int

definition zero_state :: runState where
  "zero_state =
     \<lparr>rs_queue = [], rs_activations = fmempty, rs_nextActSeq = 0, rs_nextSetSeq = 0,
      rs_nextCompletion = 0, rs_scheduled = fmempty, rs_completed = fmempty,
      rs_nodeVersions = fmempty, rs_buckets = fmempty, rs_correlations = fmempty,
      rs_sourceSets = fmempty, rs_iterSources = fmempty, rs_liveIters = fmempty,
      rs_nextIterSeq = 0, rs_workflowContext = VNil, rs_hasContext = False,
      rs_contextRevision = 0\<rparr>"

text \<open>A map read with its zero value, and a counter in a map.\<close>

definition count_of :: "('k, int) fmap \<Rightarrow> 'k \<Rightarrow> int" where
  "count_of m k = (case fmlookup m k of None \<Rightarrow> 0 | Some n \<Rightarrow> n)"

definition bump :: "'k \<Rightarrow> ('k, int) fmap \<Rightarrow> ('k, int) fmap" where
  "bump k m = fmupd k (count_of m k + 1) m"

lemma count_of_bump [simp, go_eval]:
  "count_of (bump k m) k' = count_of m k' + (if k' = k then 1 else 0)"
  by (simp add: count_of_def bump_def)

lemma count_of_empty [simp, go_eval]: "count_of fmempty k = 0"
  by (simp add: count_of_def)

section \<open>Queue operations\<close>

definition removeReady :: "string \<Rightarrow> runState \<Rightarrow> goerr + runState" where
  "removeReady aid state =
     (case rs_queue state of
        [] \<Rightarrow> Inl (Msg ''workflow: activation is not the next ready activation'')
      | item # rest \<Rightarrow>
          if ac_id item \<noteq> aid
            then Inl (Msg ''workflow: activation is not the next ready activation'')
          else Inr (state\<lparr>rs_queue := rest\<rparr>))"

definition prioritize :: "activation \<Rightarrow> runState \<Rightarrow> runState" where
  "prioritize current state =
     state\<lparr>rs_queue := current # filter (\<lambda>item. ac_id item \<noteq> ac_id current) (rs_queue state)\<rparr>"

section \<open>The life of an activation\<close>

definition new_record :: "activation \<Rightarrow> activationRecord" where
  "new_record item =
     \<lparr>ar_activation = item, ar_phase = activationReady, ar_attempt = 0,
      ar_nodeExecutionVersion = 0, ar_origin = ''natural'', ar_contextRevision = 0,
      ar_result = zero_result, ar_hasResult = False, ar_cause = None\<rparr>"

definition trackActivation :: "activation \<Rightarrow> runState \<Rightarrow> runState" where
  "trackActivation item state =
     (if fmlookup (rs_activations state) (ac_id item) \<noteq> None then state
      else state\<lparr>rs_activations := fmupd (ac_id item) (new_record item) (rs_activations state)\<rparr>)"

definition activation_record :: "string \<Rightarrow> runState \<Rightarrow> goerr + activationRecord" where
  "activation_record aid state =
     (case fmlookup (rs_activations state) aid of
        None \<Rightarrow> Inl (Msg ''workflow: activation is not tracked'')
      | Some r \<Rightarrow> Inr r)"

definition put_record :: "string \<Rightarrow> activationRecord \<Rightarrow> runState \<Rightarrow> runState" where
  "put_record aid r state = state\<lparr>rs_activations := fmupd aid r (rs_activations state)\<rparr>"

definition retryActivation :: "string \<Rightarrow> govalue \<Rightarrow> runState \<Rightarrow> goerr + runState" where
  "retryActivation aid input state =
     andthen (activation_record aid state) (\<lambda>r.
       if ar_phase r \<noteq> activationRunning then Inl (Msg ''workflow: activation phase cannot retry'')
       else andthen (removeReady aid state) (\<lambda>state1.
         let r1 = r\<lparr>ar_phase := activationReady,
                    ar_activation := (ar_activation r)\<lparr>ac_input := input\<rparr>,
                    ar_origin := ''guard_retry'', ar_result := zero_result,
                    ar_hasResult := False, ar_cause := None\<rparr>
         in Inr ((put_record aid r1 state1)
              \<lparr>rs_queue := rs_queue state1 @ [ar_activation r1]\<rparr>)))"

definition startActivation :: "string \<Rightarrow> runState \<Rightarrow> goerr + runState" where
  "startActivation aid state =
     andthen (activation_record aid state) (\<lambda>r.
       if ar_phase r \<noteq> activationReady then Inl (Msg ''workflow: activation phase cannot start'')
       else (let node = ac_node (ar_activation r);
                 versions = bump node (rs_nodeVersions state);
                 r1 = r\<lparr>ar_phase := activationRunning, ar_attempt := ar_attempt r + 1,
                        ar_nodeExecutionVersion := count_of versions node,
                        ar_contextRevision := rs_contextRevision state\<rparr>
             in Inr ((put_record aid r1 state)\<lparr>rs_nodeVersions := versions\<rparr>)))"

definition completedActivationPhase :: "nodeRunResult \<Rightarrow> goerr option \<Rightarrow> activationPhase" where
  "completedActivationPhase result cause =
     (case cause of
        Some e \<Rightarrow> if is_canceled e then activationCanceled else activationFailed
      | None \<Rightarrow> if nr_skipped result then activationSkipped else activationCompleted)"

definition finishActivation ::
  "string \<Rightarrow> nodeRunResult \<Rightarrow> goerr option \<Rightarrow> runState \<Rightarrow> goerr + runState" where
  "finishActivation aid result cause state =
     andthen (activation_record aid state) (\<lambda>r.
       if ar_phase r \<noteq> activationRunning then Inl (Msg ''workflow: activation phase cannot finish'')
       else Inr (put_record aid
              (r\<lparr>ar_phase := completedActivationPhase result cause, ar_result := result,
                 ar_hasResult := (cause = None), ar_cause := cause\<rparr>) state))"

definition cancelActivation :: "string \<Rightarrow> goerr option \<Rightarrow> runState \<Rightarrow> goerr + runState" where
  "cancelActivation aid cause state =
     andthen (activation_record aid state) (\<lambda>r.
       if ar_phase r \<noteq> activationReady then Inl (Msg ''workflow: activation phase cannot cancel'')
       else Inr (put_record aid
              (r\<lparr>ar_phase := activationCanceled, ar_cause := cause\<rparr>) state))"

definition interruptActivation :: "string \<Rightarrow> runState \<Rightarrow> goerr + runState" where
  "interruptActivation aid state =
     andthen (activation_record aid state) (\<lambda>r.
       if ar_phase r \<noteq> activationRunning
         then Inl (Msg ''workflow: activation phase cannot interrupt'')
       else Inr (put_record aid (r\<lparr>ar_phase := activationInterrupted\<rparr>) state))"

definition prepareResume_record :: "bool \<Rightarrow> activationRecord \<Rightarrow> activationRecord" where
  "prepareResume_record resolved r =
     (let r1 = (if ar_origin r = [] then r\<lparr>ar_origin := ''natural''\<rparr> else r) in
      if ar_phase r1 = activationRunning then r1\<lparr>ar_phase := activationReady\<rparr>
      else if resolved \<and> ar_phase r1 = activationInterrupted
        then r1\<lparr>ar_phase := activationReady\<rparr>
      else r1)"

definition prepareResume :: "bool \<Rightarrow> runState \<Rightarrow> runState" where
  "prepareResume resolved state =
     state\<lparr>rs_activations := fmmap (prepareResume_record resolved) (rs_activations state)\<rparr>"

text \<open>The workflow context is replaced only by an attempt that saw its current revision.\<close>

definition commitContext :: "nodeRunResult \<Rightarrow> runState \<Rightarrow> goerr + runState" where
  "commitContext result state =
     (if \<not> nr_contextChanged result then Inr state
      else if nr_contextBaseRevision result \<noteq> rs_contextRevision state
        then Inl (Msg ''workflow: context revision conflict'')
      else Inr (state\<lparr>rs_workflowContext := nr_contextValue result, rs_hasContext := True,
                      rs_contextRevision := rs_contextRevision state + 1\<rparr>))"

section \<open>Node events\<close>

definition record_nodeEvent :: "activationRecord \<Rightarrow> string \<Rightarrow> branchPhase \<Rightarrow> Event" where
  "record_nodeEvent r eventType branch =
     (let item = ar_activation r;
          branch1 = (if branch = branchUnset \<and> ac_sourceSet item \<noteq> [] then branchRunning else branch);
          attemptID = (if ar_attempt r > 0
                       then ac_id item @ ''/attempt-'' @ int_string (ar_attempt r) else []);
          origin = (if ar_origin r = [] then ''natural'' else ar_origin r);
          facts = \<lparr>ne_NodeName = ac_node item, ne_ActivationID = ac_id item,
                   ne_Attempt = ar_attempt r, ne_NodeExecutionVersion = ar_nodeExecutionVersion r,
                   ne_ActivationPhase = ar_phase r, ne_SourceSetID = ac_sourceSet item,
                   ne_BranchIndex = ac_branchIndex item, ne_BranchPhase = branch1,
                   ne_Correlation = ac_correlation item, ne_ContextRevision = ar_contextRevision r,
                   ne_Status = nodeEventStatus eventType (ar_phase r),
                   ne_Error = nodeErrorClass (ar_cause r)\<rparr>
      in zero_Event\<lparr>ev_Type := eventType, ev_Source := ''workflow.node'', ev_Origin := origin,
           ev_Summary := ac_node item, ev_NodeID := ac_node item, ev_ActivationID := ac_id item,
           ev_AttemptID := attemptID, ev_NodeExecutionVersion := ar_nodeExecutionVersion r,
           ev_Payload := PNode facts\<rparr>)"

definition nodeEvent :: "string \<Rightarrow> string \<Rightarrow> branchPhase \<Rightarrow> runState \<Rightarrow> goerr + Event" where
  "nodeEvent aid eventType branch state =
     andthen (activation_record aid state) (\<lambda>r. Inr (record_nodeEvent r eventType branch))"

section \<open>The phase machine\<close>

text \<open>
  A step is any operation that touches activations, or any change elsewhere in the state.
\<close>

inductive act_step :: "runState \<Rightarrow> runState \<Rightarrow> bool" where
  act_track: "act_step s (trackActivation item s)"
| act_start: "startActivation aid s = Inr s' \<Longrightarrow> act_step s s'"
| act_finish: "finishActivation aid result cause s = Inr s' \<Longrightarrow> act_step s s'"
| act_cancel: "cancelActivation aid cause s = Inr s' \<Longrightarrow> act_step s s'"
| act_interrupt: "interruptActivation aid s = Inr s' \<Longrightarrow> act_step s s'"
| act_retry: "retryActivation aid input s = Inr s' \<Longrightarrow> act_step s s'"
| act_resume: "act_step s (prepareResume resolved s)"
| act_other: "rs_activations s' = rs_activations s \<Longrightarrow> rs_nodeVersions s' = rs_nodeVersions s \<Longrightarrow>
    act_step s s'"

inductive_cases act_stepE: "act_step s s'"

fun phase_edge :: "activationPhase \<Rightarrow> activationPhase \<Rightarrow> bool" where
  "phase_edge activationReady q = (q \<in> {activationRunning, activationCanceled})"
| "phase_edge activationRunning q =
     (q \<in> {activationCompleted, activationFailed, activationCanceled, activationSkipped,
           activationInterrupted, activationReady})"
| "phase_edge activationInterrupted q = (q = activationReady)"
| "phase_edge p q = False"

lemma activation_record_Inr [simp]:
  "activation_record aid s = Inr r \<longleftrightarrow> fmlookup (rs_activations s) aid = Some r"
  by (simp add: activation_record_def split: option.split)

lemma put_record_simps [simp]:
  "rs_activations (put_record aid r s) = fmupd aid r (rs_activations s)"
  "rs_nodeVersions (put_record aid r s) = rs_nodeVersions s"
  "rs_queue (put_record aid r s) = rs_queue s"
  by (simp_all add: put_record_def)

lemma removeReady_Inr:
  "removeReady aid s = Inr s' \<longleftrightarrow>
   (\<exists>item. rs_queue s = item # rs_queue s' \<and> ac_id item = aid \<and> s' = s\<lparr>rs_queue := rs_queue s'\<rparr>)"
  by (auto simp: removeReady_def split: list.split)

lemma completedActivationPhase_edge: "phase_edge activationRunning (completedActivationPhase r c)"
  by (simp add: completedActivationPhase_def split: option.split)

text \<open>What one step does to the record of one activation.\<close>

definition record_step :: "activationRecord \<Rightarrow> activationRecord \<Rightarrow> bool" where
  "record_step r r' \<longleftrightarrow>
     (ar_phase r' = ar_phase r \<or> phase_edge (ar_phase r) (ar_phase r')) \<and>
     ac_id (ar_activation r') = ac_id (ar_activation r) \<and>
     ac_node (ar_activation r') = ac_node (ar_activation r) \<and>
     ar_attempt r \<le> ar_attempt r' \<and>
     (ar_phase r' = ar_phase r \<longrightarrow> r' = r\<lparr>ar_origin := ar_origin r'\<rparr>)"

lemma record_step_refl [simp]: "record_step r r"
  by (simp add: record_step_def)

lemma prepareResume_record_step: "record_step r (prepareResume_record resolved r)"
  by (auto simp: record_step_def prepareResume_record_def Let_def)

lemma act_step_record:
  assumes "act_step s s'" and "fmlookup (rs_activations s) aid = Some r"
  shows "\<exists>r'. fmlookup (rs_activations s') aid = Some r' \<and> record_step r r'"
  using assms(1)
proof cases
  case (act_track item)
  then show ?thesis using assms(2) by (auto simp: trackActivation_def)
next
  case (act_start a)
  then show ?thesis
    using assms(2) by (auto simp: startActivation_def record_step_def Let_def split: if_splits)
next
  case (act_finish a result cause)
  then obtain q where q: "fmlookup (rs_activations s) a = Some q" "ar_phase q = activationRunning"
    "s' = put_record a (q\<lparr>ar_phase := completedActivationPhase result cause, ar_result := result,
       ar_hasResult := (cause = None), ar_cause := cause\<rparr>) s"
    by (auto simp: finishActivation_def split: if_splits)
  have "completedActivationPhase result cause \<noteq> activationRunning"
    by (simp add: completedActivationPhase_def split: option.split)
  then have "record_step q (q\<lparr>ar_phase := completedActivationPhase result cause,
      ar_result := result, ar_hasResult := (cause = None), ar_cause := cause\<rparr>)"
    using q(2) completedActivationPhase_edge [of result cause] by (simp add: record_step_def)
  then show ?thesis using assms(2) q by (cases "a = aid") simp_all
next
  case (act_cancel a cause)
  then show ?thesis
    using assms(2) by (auto simp: cancelActivation_def record_step_def split: if_splits)
next
  case (act_interrupt a)
  then show ?thesis
    using assms(2) by (auto simp: interruptActivation_def record_step_def split: if_splits)
next
  case (act_retry a input)
  then obtain q s1 where q: "fmlookup (rs_activations s) a = Some q" "ar_phase q = activationRunning"
    "removeReady a s = Inr s1" and
    s': "rs_activations s' = fmupd a (q\<lparr>ar_phase := activationReady,
        ar_activation := (ar_activation q)\<lparr>ac_input := input\<rparr>, ar_origin := ''guard_retry'',
        ar_result := zero_result, ar_hasResult := False, ar_cause := None\<rparr>) (rs_activations s1)"
    by (auto simp: retryActivation_def Let_def split: if_splits)
  have "rs_activations s1 = rs_activations s" using q(3) by (auto simp: removeReady_def split: list.splits if_splits)
  with q s' assms(2) show ?thesis by (cases "a = aid") (simp_all add: record_step_def)
next
  case (act_resume resolved)
  then show ?thesis using assms(2) prepareResume_record_step by (auto simp: prepareResume_def)
next
  case act_other
  then show ?thesis using assms(2) by simp
qed

definition final_phase :: "activationPhase \<Rightarrow> bool" where
  "final_phase p \<longleftrightarrow> p \<in> {activationCompleted, activationFailed, activationCanceled, activationSkipped}"

lemma final_phase_no_edge: "final_phase p \<Longrightarrow> \<not> phase_edge p q"
  by (cases p) (auto simp: final_phase_def)

text \<open>
  C17 (activations run once). In every sequence of scheduler steps an activation keeps
  its id and node, its attempt counter never falls, and once it completed, failed, was
  skipped or was cancelled its record stays as it is (a missing origin may be filled in).
\<close>

theorem activation_final:
  assumes "act_step\<^sup>*\<^sup>* s s'" and "fmlookup (rs_activations s) aid = Some r"
  shows "\<exists>r'. fmlookup (rs_activations s') aid = Some r' \<and>
    ac_id (ar_activation r') = ac_id (ar_activation r) \<and>
    ac_node (ar_activation r') = ac_node (ar_activation r) \<and>
    ar_attempt r \<le> ar_attempt r' \<and>
    (if final_phase (ar_phase r) then r' = r\<lparr>ar_origin := ar_origin r'\<rparr> else True)"
  using assms(1)
proof (induction rule: rtranclp_induct)
  case base
  then show ?case using assms(2) by simp
next
  case (step y z)
  then obtain r1 where r1: "fmlookup (rs_activations y) aid = Some r1"
    "ac_id (ar_activation r1) = ac_id (ar_activation r)"
    "ac_node (ar_activation r1) = ac_node (ar_activation r)" "ar_attempt r \<le> ar_attempt r1"
    "if final_phase (ar_phase r) then r1 = r\<lparr>ar_origin := ar_origin r1\<rparr> else True"
    by blast
  from act_step_record [OF step(2) r1(1)] obtain r2 where
    r2: "fmlookup (rs_activations z) aid = Some r2" "record_step r1 r2" by blast
  have "r2 = r\<lparr>ar_origin := ar_origin r2\<rparr>" if f: "final_phase (ar_phase r)"
  proof -
    have e: "r1 = r\<lparr>ar_origin := ar_origin r1\<rparr>" using r1(5) f by simp
    then have "ar_phase r1 = ar_phase r" by (metis activationRecord.select_convs(2)
        activationRecord.surjective activationRecord.update_convs(5))
    with f r2(2) final_phase_no_edge have "r2 = r1\<lparr>ar_origin := ar_origin r2\<rparr>"
      by (auto simp: record_step_def)
    then have "r2 = (r\<lparr>ar_origin := ar_origin r1\<rparr>)\<lparr>ar_origin := ar_origin r2\<rparr>" using e by simp
    then show ?thesis by simp
  qed
  with r1 r2 show ?case by (auto simp: record_step_def)
qed

definition sample_activation :: "string \<Rightarrow> activation" where
  "sample_activation aid =
     \<lparr>ac_id = aid, ac_node = ''n'', ac_input = VNil, ac_sourceSet = [], ac_branchIndex = 0,
      ac_correlation = CorrelationKey ''r'' 1\<rparr>"

definition sample_done :: runState where
  "sample_done = zero_state\<lparr>rs_activations := fmupd ''act-1''
     ((new_record (sample_activation ''act-1''))\<lparr>ar_phase := activationCompleted\<rparr>) fmempty\<rparr>"

theorem activation_final_witness:
  "\<exists>r'. fmlookup (rs_activations (prepareResume True sample_done)) ''act-1'' = Some r' \<and>
     ar_phase r' = activationCompleted"
proof -
  let ?r = "(new_record (sample_activation ''act-1''))\<lparr>ar_phase := activationCompleted\<rparr>"
  have l: "fmlookup (rs_activations sample_done) ''act-1'' = Some ?r" by (simp add: sample_done_def)
  have "act_step\<^sup>*\<^sup>* sample_done (prepareResume True sample_done)"
    using act_resume by (rule r_into_rtranclp)
  from activation_final [OF this l] obtain r' where
    "fmlookup (rs_activations (prepareResume True sample_done)) ''act-1'' = Some r'"
    "r' = ?r\<lparr>ar_origin := ar_origin r'\<rparr>" by (auto simp: final_phase_def)
  then show ?thesis by (metis (no_types, lifting) activationRecord.select_convs(2)
        activationRecord.surjective activationRecord.update_convs(2,5))
qed

section \<open>Execution versions\<close>

definition versions_ok :: "runState \<Rightarrow> bool" where
  "versions_ok s \<longleftrightarrow>
     (\<forall>a r. fmlookup (rs_activations s) a = Some r \<longrightarrow>
        0 \<le> ar_nodeExecutionVersion r \<and>
        ar_nodeExecutionVersion r \<le> count_of (rs_nodeVersions s) (ac_node (ar_activation r))) \<and>
     (\<forall>a b r q. a \<noteq> b \<longrightarrow> fmlookup (rs_activations s) a = Some r \<longrightarrow>
        fmlookup (rs_activations s) b = Some q \<longrightarrow>
        ac_node (ar_activation r) = ac_node (ar_activation q) \<longrightarrow> 0 < ar_nodeExecutionVersion r \<longrightarrow>
        ar_nodeExecutionVersion r \<noteq> ar_nodeExecutionVersion q) \<and>
     (\<forall>n. 0 \<le> count_of (rs_nodeVersions s) n)"

lemma versions_ok_zero [simp]: "versions_ok zero_state"
  by (simp add: versions_ok_def zero_state_def)

text \<open>Steps other than a start keep node and version of every record; a new record has version 0.\<close>

lemma versions_ok_same:
  assumes "versions_ok s" "rs_nodeVersions s' = rs_nodeVersions s"
    and "\<And>a r'. fmlookup (rs_activations s') a = Some r' \<Longrightarrow>
      ar_nodeExecutionVersion r' = 0 \<or>
      (\<exists>r. fmlookup (rs_activations s) a = Some r \<and>
         ac_node (ar_activation r') = ac_node (ar_activation r) \<and>
         ar_nodeExecutionVersion r' = ar_nodeExecutionVersion r)"
  shows "versions_ok s'"
proof -
  note ok = assms(1)[unfolded versions_ok_def]
  have "0 \<le> ar_nodeExecutionVersion r \<and>
      ar_nodeExecutionVersion r \<le> count_of (rs_nodeVersions s') (ac_node (ar_activation r))"
    if "fmlookup (rs_activations s') a = Some r" for a r
    using assms(3) [OF that] ok assms(2) by (auto; metis)
  moreover have "ar_nodeExecutionVersion r \<noteq> ar_nodeExecutionVersion q"
    if "a \<noteq> b" "fmlookup (rs_activations s') a = Some r" "fmlookup (rs_activations s') b = Some q"
      "ac_node (ar_activation r) = ac_node (ar_activation q)" "0 < ar_nodeExecutionVersion r"
    for a b r q
    using assms(3) [OF that(2)] assms(3) [OF that(3)] ok that(1,4,5) by (metis order_less_irrefl)
  moreover have "\<forall>n. 0 \<le> count_of (rs_nodeVersions s') n" using ok assms(2) by simp
  ultimately show ?thesis unfolding versions_ok_def by blast
qed

lemma versions_ok_start:
  assumes "versions_ok s" "startActivation a s = Inr s'"
  shows "versions_ok s'"
proof -
  from assms(2) obtain r where r: "fmlookup (rs_activations s) a = Some r" and
    s': "rs_nodeVersions s' = bump (ac_node (ar_activation r)) (rs_nodeVersions s)"
    "rs_activations s' = fmupd a (r\<lparr>ar_phase := activationRunning, ar_attempt := ar_attempt r + 1,
       ar_nodeExecutionVersion := count_of (rs_nodeVersions s) (ac_node (ar_activation r)) + 1,
       ar_contextRevision := rs_contextRevision s\<rparr>) (rs_activations s)"
    by (auto simp: startActivation_def Let_def split: if_splits)
  note ok = assms(1)[unfolded versions_ok_def]
  have le: "0 \<le> ar_nodeExecutionVersion q \<and>
      ar_nodeExecutionVersion q \<le> count_of (rs_nodeVersions s) (ac_node (ar_activation q))"
    if "fmlookup (rs_activations s) b = Some q" for b q
    using ok that by blast
  have neq: "ar_nodeExecutionVersion p \<noteq> ar_nodeExecutionVersion q"
    if "b \<noteq> c" "fmlookup (rs_activations s) b = Some p" "fmlookup (rs_activations s) c = Some q"
      "ac_node (ar_activation p) = ac_node (ar_activation q)" "0 < ar_nodeExecutionVersion p"
    for b c p q using ok that by blast
  have nn: "0 \<le> count_of (rs_nodeVersions s) n" for n using ok by blast
  show ?thesis
    unfolding versions_ok_def
  proof (intro conjI allI impI)
    fix b q assume q: "fmlookup (rs_activations s') b = Some q"
    show "0 \<le> ar_nodeExecutionVersion q"
      using q le nn by (cases "b = a") (auto simp: s')
    show "ar_nodeExecutionVersion q \<le> count_of (rs_nodeVersions s') (ac_node (ar_activation q))"
      using q le [of b q] by (cases "b = a") (auto simp: s')
  next
    fix b c p q
    assume "b \<noteq> c" "fmlookup (rs_activations s') b = Some p" "fmlookup (rs_activations s') c = Some q"
      "ac_node (ar_activation p) = ac_node (ar_activation q)" "0 < ar_nodeExecutionVersion p"
    then show "ar_nodeExecutionVersion p \<noteq> ar_nodeExecutionVersion q"
      using neq [of b c p q] le [of b p] le [of c q]
      by (cases "b = a"; cases "c = a") (auto simp: s')
  next
    fix n show "0 \<le> count_of (rs_nodeVersions s') n" using nn by (simp add: s')
  qed
qed

lemma act_step_versions:
  assumes "act_step s s'" "versions_ok s"
  shows "versions_ok s'"
  using assms(1)
proof cases
  case (act_start a)
  then show ?thesis using assms(2) versions_ok_start by blast
next
  case (act_track item)
  with assms(2) show ?thesis
    by (intro versions_ok_same [OF assms(2)])
       (auto simp: trackActivation_def new_record_def split: if_splits)
next
  case (act_finish a result cause)
  then show ?thesis
    by (intro versions_ok_same [OF assms(2)]) (auto simp: finishActivation_def split: if_splits)
next
  case (act_cancel a cause)
  then show ?thesis
    by (intro versions_ok_same [OF assms(2)]) (auto simp: cancelActivation_def split: if_splits)
next
  case (act_interrupt a)
  then show ?thesis
    by (intro versions_ok_same [OF assms(2)]) (auto simp: interruptActivation_def split: if_splits)
next
  case (act_retry a input)
  then show ?thesis
    by (intro versions_ok_same [OF assms(2)])
       (auto simp: retryActivation_def removeReady_def Let_def split: if_splits list.splits)
next
  case (act_resume resolved)
  then show ?thesis
    by (intro versions_ok_same [OF assms(2)])
       (auto simp: prepareResume_def prepareResume_record_def Let_def split: if_splits)
next
  case act_other
  then show ?thesis by (intro versions_ok_same [OF assms(2)]) auto
qed

text \<open>
  Execution versions name one attempt. In every state reached from an empty one, two
  different activations of one node that were started carry different execution versions, and
  the next start of that node gets a version above all of them: node and version select at
  most one activation, which is what a retry request relies on.
\<close>

theorem execution_versions_unique:
  assumes "act_step\<^sup>*\<^sup>* zero_state s"
    and "fmlookup (rs_activations s) a = Some r" "fmlookup (rs_activations s) b = Some q" "a \<noteq> b"
    and "ac_node (ar_activation r) = ac_node (ar_activation q)" "0 < ar_nodeExecutionVersion r"
    and "startActivation c s = Inr s'" "fmlookup (rs_activations s') c = Some p"
    and "ac_node (ar_activation p) = ac_node (ar_activation r)"
  shows "ar_nodeExecutionVersion r \<noteq> ar_nodeExecutionVersion q \<and>
    ar_nodeExecutionVersion r < ar_nodeExecutionVersion p"
proof -
  have ok: "versions_ok s"
    using assms(1) by (induction rule: rtranclp_induct) (auto intro: act_step_versions)
  then have "ar_nodeExecutionVersion r \<noteq> ar_nodeExecutionVersion q"
    using assms(2-6) unfolding versions_ok_def by blast
  moreover have "ar_nodeExecutionVersion r \<le> count_of (rs_nodeVersions s) (ac_node (ar_activation r))"
    using ok assms(2) unfolding versions_ok_def by blast
  moreover have "ar_nodeExecutionVersion p = count_of (rs_nodeVersions s) (ac_node (ar_activation p)) + 1"
    using assms(7,8) by (auto simp: startActivation_def Let_def split: if_splits)
  ultimately show ?thesis using assms(9) by simp
qed

definition sample_started :: "nat \<Rightarrow> runState" where
  "sample_started n =
     (case foldl (\<lambda>m a. andthen m (startActivation a))
        (Inr (foldl (\<lambda>s a. trackActivation (sample_activation a) s) zero_state
           [''act-1'', ''act-2'', ''act-3'']))
        (take n [''act-1'', ''act-2'', ''act-3'']) of
      Inl e \<Rightarrow> zero_state | Inr s \<Rightarrow> s)"

lemmas sample_started_defs =
  sample_started_def trackActivation_def zero_state_def startActivation_def activation_record_def
  put_record_def new_record_def sample_activation_def bump_def count_of_def

lemma act_steps_snoc: "act_step\<^sup>*\<^sup>* s s1 \<Longrightarrow> act_step s1 s2 \<Longrightarrow> act_step\<^sup>*\<^sup>* s s2"
  by (rule rtranclp.rtrancl_into_rtrancl)

lemma sample_started_steps: "act_step\<^sup>*\<^sup>* zero_state (sample_started 2)"
proof -
  define t1 where "t1 = trackActivation (sample_activation ''act-1'') zero_state"
  define t2 where "t2 = trackActivation (sample_activation ''act-2'') t1"
  define t3 where "t3 = trackActivation (sample_activation ''act-3'') t2"
  have "act_step zero_state t1" unfolding t1_def by (rule act_track)
  moreover have "act_step t1 t2" unfolding t2_def by (rule act_track)
  moreover have "act_step t2 t3" unfolding t3_def by (rule act_track)
  ultimately have t: "act_step\<^sup>*\<^sup>* zero_state t3" by simp
  have "startActivation ''act-1'' t3 \<noteq> Inl e" for e
    by (simp add: sample_started_defs t3_def t2_def t1_def Let_def)
  then obtain s1 where s1: "startActivation ''act-1'' t3 = Inr s1"
    by (cases "startActivation ''act-1'' t3") auto
  have "startActivation ''act-2'' s1 \<noteq> Inl e" for e
    using s1 by (auto simp: sample_started_defs t3_def t2_def t1_def Let_def)
  then obtain s2 where s2: "startActivation ''act-2'' s1 = Inr s2"
    by (cases "startActivation ''act-2'' s1") auto
  have "sample_started 2 = s2"
    using s1 s2 by (simp add: sample_started_def t3_def t2_def t1_def)
  moreover have "act_step\<^sup>*\<^sup>* zero_state s2"
    using act_steps_snoc [OF act_steps_snoc [OF t act_start [OF s1]] act_start [OF s2]] .
  ultimately show ?thesis by simp
qed

theorem execution_versions_unique_witness:
  "ar_nodeExecutionVersion (the (fmlookup (rs_activations (sample_started 2)) ''act-1'')) \<noteq>
   ar_nodeExecutionVersion (the (fmlookup (rs_activations (sample_started 2)) ''act-2''))"
proof -
  obtain s' where s': "startActivation ''act-3'' (sample_started 2) = Inr s'"
    "fmlookup (rs_activations s') ''act-3'' \<noteq> None"
    "ac_node (ar_activation (the (fmlookup (rs_activations s') ''act-3''))) = ''n''"
    by (simp add: sample_started_defs Let_def numeral_2_eq_2)
  have l: "fmlookup (rs_activations (sample_started 2)) ''act-1'' =
      Some (the (fmlookup (rs_activations (sample_started 2)) ''act-1''))"
    "fmlookup (rs_activations (sample_started 2)) ''act-2'' =
      Some (the (fmlookup (rs_activations (sample_started 2)) ''act-2''))"
    "ac_node (ar_activation (the (fmlookup (rs_activations (sample_started 2)) ''act-1''))) = ''n''"
    "ac_node (ar_activation (the (fmlookup (rs_activations (sample_started 2)) ''act-2''))) = ''n''"
    "0 < ar_nodeExecutionVersion (the (fmlookup (rs_activations (sample_started 2)) ''act-1''))"
    by (simp_all add: sample_started_defs Let_def numeral_2_eq_2)
  have "fmlookup (rs_activations s') ''act-3'' = Some (the (fmlookup (rs_activations s') ''act-3''))"
    using s'(2) by auto
  then show ?thesis
    using execution_versions_unique [OF sample_started_steps l(1,2) _ _ l(5) s'(1)] l(3,4) s'(3) by simp
qed

end
