(* ===== verification/Settle.thy ===== *)
theory Settle
  imports RunState "HOL-Library.Product_Lexorder"
begin

text \<open>
  Source sets (\<open>settle.go\<close> and the policies of \<open>workflow.go\<close>): the branches one
  dispatch started, their outcomes, and the decision when a policy (all, any, a quorum) is
  satisfied or out of reach. A \<open>range\<close> over the outcomes takes its order as the argument \<open>ord\<close>;
  \<open>sort.Slice\<close> is a sort by completion and branch index.
\<close>

section \<open>Policies\<close>

definition SettleAll :: SettlePolicy where
  "SettleAll = \<lparr>sp_mode = ''all'', sp_quorum = 0\<rparr>"

definition SettleAny :: SettlePolicy where
  "SettleAny = \<lparr>sp_mode = ''any'', sp_quorum = 0\<rparr>"

definition SettleQuorum :: "int \<Rightarrow> SettlePolicy" where
  "SettleQuorum m = \<lparr>sp_mode = ''quorum'', sp_quorum = m\<rparr>"

definition policy_validate :: "SettlePolicy \<Rightarrow> goerr option" where
  "policy_validate policy =
     (if sp_mode policy \<in> {[], ''all'', ''any''} then None
      else if sp_mode policy = ''quorum''
        then (if sp_quorum policy \<le> 0 then Some (Msg ''workflow: settle quorum must be positive'')
              else None)
      else Some (Msg ''workflow: unknown settle policy''))"

definition normalized :: "SettlePolicy \<Rightarrow> SettlePolicy" where
  "normalized policy = (if sp_mode policy = [] then SettleAll else policy)"

definition required :: "SettlePolicy \<Rightarrow> int \<Rightarrow> goerr + int" where
  "required policy branches =
     (let p = normalized policy in
      if sp_mode p = ''all'' then Inr branches
      else if sp_mode p = ''any'' then Inr 1
      else if sp_mode p = ''quorum''
        then (if sp_quorum p > branches then Inl (Msg ''workflow: settle quorum exceeds branch count'')
              else Inr (sp_quorum p))
      else Inl (Msg ''workflow: unknown settle policy''))"

definition threshold :: "SettlePolicy \<Rightarrow> goerr + int" where
  "threshold policy =
     (let p = normalized policy in
      if sp_mode p = ''all'' then Inr 0
      else if sp_mode p = ''any'' then Inr 1
      else if sp_mode p = ''quorum'' then Inr (sp_quorum p)
      else Inl (Msg ''workflow: unknown settle policy''))"

definition is_all :: "SettlePolicy \<Rightarrow> bool" where
  "is_all policy \<longleftrightarrow> sp_mode (normalized policy) = ''all''"

section \<open>Source sets\<close>

definition newSourceSet :: "activation \<Rightarrow> SettlePolicy \<Rightarrow> int \<Rightarrow> runState \<Rightarrow> sourceSet \<times> runState" where
  "newSourceSet source policy expected state =
     (let sid = ''set-'' @ int_string (rs_nextSetSeq state) @ ''-'' @ ac_id source;
          sset = \<lparr>ss_id = sid, ss_policy = policy, ss_expected = expected, ss_branches = [],
                 ss_outcomes = fmempty, ss_selected = [], ss_decided = False, ss_settled = False,
                 ss_failed = False, ss_openSources = 0, ss_cause = None\<rparr>
      in (sset, state\<lparr>rs_nextSetSeq := rs_nextSetSeq state + 1,
                     rs_sourceSets := fmupd sid sset (rs_sourceSets state)\<rparr>))"

definition addExpectedBranch :: "sourceSet \<Rightarrow> sourceSet" where
  "addExpectedBranch sset = sset\<lparr>ss_expected := ss_expected sset + 1\<rparr>"

definition closeSource :: "sourceSet \<Rightarrow> goerr + sourceSet" where
  "closeSource sset =
     (if ss_openSources sset \<le> 0 then Inl (Msg ''workflow: source set has no open iterator'')
      else Inr (sset\<lparr>ss_openSources := ss_openSources sset - 1\<rparr>))"

definition closeAllSources :: "sourceSet \<Rightarrow> sourceSet" where
  "closeAllSources sset = sset\<lparr>ss_openSources := 0\<rparr>"

definition successCount :: "string order \<Rightarrow> sourceSet \<Rightarrow> int" where
  "successCount ord sset =
     int (length (filter (\<lambda>k. bo_phase (the (fmlookup (ss_outcomes sset) k)) = branchCompleted)
       (range_keys ord (ss_outcomes sset))))"

definition singleBranchSourceSet :: "string \<Rightarrow> runState \<Rightarrow> bool" where
  "singleBranchSourceSet sid state =
     (case fmlookup (rs_sourceSets state) sid of
        None \<Rightarrow> False
      | Some sset \<Rightarrow> ss_expected sset = 1 \<and> length (ss_branches sset) = 1 \<and> ss_openSources sset = 0)"

definition branchOutcomePhase :: "nodeRunResult \<Rightarrow> goerr option \<Rightarrow> branchPhase" where
  "branchOutcomePhase result err =
     (case err of
        Some e \<Rightarrow> if is_canceled e then branchCanceled else branchFailed
      | None \<Rightarrow> if nr_skipped result then branchSkipped else branchCompleted)"

definition outcome_eventType :: "branchOutcome \<Rightarrow> string" where
  "outcome_eventType outcome =
     (if bo_phase outcome = branchCompleted then EventNodeCompleted
      else if bo_phase outcome = branchSkipped then EventNodeSkipped
      else if bo_phase outcome = branchCanceled then EventNodeCanceled
      else EventNodeFailed)"

section \<open>The decision\<close>

record settleDecision =
  sd_selected :: "string list"
  sd_failed :: bool
  sd_ready :: bool

definition no_decision :: settleDecision where
  "no_decision = \<lparr>sd_selected = [], sd_failed = False, sd_ready = False\<rparr>"

definition phase_of :: "sourceSet \<Rightarrow> string \<Rightarrow> branchPhase" where
  "phase_of sset bid =
     (case fmlookup (ss_outcomes sset) bid of None \<Rightarrow> branchUnset | Some out \<Rightarrow> bo_phase out)"

definition hasFailure :: "string order \<Rightarrow> sourceSet \<Rightarrow> bool" where
  "hasFailure ord sset =
     list_ex (\<lambda>k. phase_of sset k = branchFailed \<or> phase_of sset k = branchCanceled)
       (range_keys ord (ss_outcomes sset))"

definition successesInBranchOrder :: "sourceSet \<Rightarrow> string list" where
  "successesInBranchOrder sset =
     filter (\<lambda>bid. phase_of sset bid = branchCompleted) (ss_branches sset)"

definition outcome_rank :: "branchOutcome \<Rightarrow> int \<times> int" where
  "outcome_rank out = (bo_completion out, ac_branchIndex (bo_activation out))"

definition successes :: "string order \<Rightarrow> sourceSet \<Rightarrow> string list" where
  "successes ord sset =
     (if is_all (ss_policy sset) then successesInBranchOrder sset
      else (let values = filter (\<lambda>out. bo_phase out = branchCompleted)
                  (map (\<lambda>k. the (fmlookup (ss_outcomes sset) k)) (range_keys ord (ss_outcomes sset)))
            in map (\<lambda>out. ac_id (bo_activation out)) (sort_key outcome_rank values)))"

definition decideAll :: "string order \<Rightarrow> sourceSet \<Rightarrow> string list \<Rightarrow> int \<Rightarrow> settleDecision" where
  "decideAll ord sset succ terminal =
     (if hasFailure ord sset then no_decision\<lparr>sd_failed := True, sd_ready := True\<rparr>
      else if terminal < ss_expected sset then no_decision
      else no_decision\<lparr>sd_selected := succ, sd_ready := True\<rparr>)"

definition decideOpen :: "string order \<Rightarrow> sourceSet \<Rightarrow> string list \<Rightarrow> goerr + settleDecision" where
  "decideOpen ord sset succ =
     (if is_all (ss_policy sset)
        then (let failed = hasFailure ord sset
              in Inr (no_decision\<lparr>sd_failed := failed, sd_ready := failed\<rparr>))
      else andthen (threshold (ss_policy sset)) (\<lambda>n.
        if int (length succ) \<ge> n
          then Inr (no_decision\<lparr>sd_selected := take (nat n) succ, sd_ready := True\<rparr>)
        else Inr no_decision))"

definition terminal_count :: "sourceSet \<Rightarrow> int" where
  "terminal_count sset = int (fcard (fmdom (ss_outcomes sset)))"

definition decide :: "string order \<Rightarrow> sourceSet \<Rightarrow> goerr + settleDecision" where
  "decide ord sset =
     (let succ = successes ord sset in
      if ss_openSources sset > 0 then decideOpen ord sset succ
      else andthen (required (ss_policy sset) (ss_expected sset)) (\<lambda>n.
        let terminal = terminal_count sset in
        if is_all (ss_policy sset) then Inr (decideAll ord sset succ terminal)
        else if int (length succ) \<ge> n
          then Inr (no_decision\<lparr>sd_selected := take (nat n) succ, sd_ready := True\<rparr>)
        else (let possible = int (length succ) + ss_expected sset - terminal in
              if possible < n then Inr (no_decision\<lparr>sd_failed := True, sd_ready := True\<rparr>)
              else Inr no_decision)))"

definition firstNonNil :: "goerr option \<Rightarrow> goerr option \<Rightarrow> goerr option" where
  "firstNonNil a b = (if a \<noteq> None then a else b)"

fun first_failure_loop :: "sourceSet \<Rightarrow> string list \<Rightarrow> goerr option \<Rightarrow> goerr option" where
  "first_failure_loop sset [] canceled = canceled"
| "first_failure_loop sset (bid # bids) canceled =
     (case (case fmlookup (ss_outcomes sset) bid of None \<Rightarrow> None | Some out \<Rightarrow> bo_cause out) of
        None \<Rightarrow> first_failure_loop sset bids canceled
      | Some cause \<Rightarrow>
          if is_canceled cause
            then first_failure_loop sset bids (firstNonNil canceled (Some cause))
          else Some cause)"

definition firstFailure :: "sourceSet \<Rightarrow> goerr option" where
  "firstFailure sset =
     (if ss_cause sset \<noteq> None then ss_cause sset
      else first_failure_loop sset (ss_branches sset) None)"

definition completedButUnselected :: "string list \<Rightarrow> branchOutcome \<Rightarrow> bool" where
  "completedButUnselected selected out \<longleftrightarrow>
     bo_phase out = branchCompleted \<and> ac_id (bo_activation out) \<notin> set selected"

section \<open>Outcomes in any order\<close>

definition outcomes_in :: "string order \<Rightarrow> sourceSet \<Rightarrow> branchOutcome list" where
  "outcomes_in ord sset =
     map (\<lambda>k. the (fmlookup (ss_outcomes sset) k)) (range_keys ord (ss_outcomes sset))"

definition completed_in :: "string order \<Rightarrow> sourceSet \<Rightarrow> branchOutcome list" where
  "completed_in ord sset = filter (\<lambda>out. bo_phase out = branchCompleted) (outcomes_in ord sset)"

lemma successes_completed:
  "\<not> is_all (ss_policy sset) \<Longrightarrow>
   successes ord sset = map (\<lambda>out. ac_id (bo_activation out)) (sort_key outcome_rank (completed_in ord sset))"
  by (simp add: successes_def completed_in_def outcomes_in_def)

lemma mset_outcomes_in:
  "range_order ord \<Longrightarrow> mset (outcomes_in ord sset) = mset (outcomes_in (\<lambda>ks. ks) sset)"
  by (simp add: outcomes_in_def mset_range_keys)

lemma mset_completed_in:
  assumes "range_order ord"
  shows "mset (completed_in ord sset) = mset (completed_in (\<lambda>ks. ks) sset)"
  using mset_outcomes_in [OF assms, of sset] by (simp add: completed_in_def)

lemma length_completed_in:
  "range_order ord \<Longrightarrow> length (completed_in ord sset) = length (completed_in (\<lambda>ks. ks) sset)"
  by (metis mset_completed_in size_mset)

lemma outcomes_in_id: "outcomes_in (\<lambda>ks. ks) sset = fmap_values (ss_outcomes sset)"
  by (simp add: outcomes_in_def range_keys_def fmap_values_def)

lemma set_outcomes_in:
  assumes "range_order ord"
  shows "set (outcomes_in ord sset) = {out. \<exists>k. fmlookup (ss_outcomes sset) k = Some out}"
  using mset_eq_setD [OF mset_outcomes_in [OF assms, of sset]]
  unfolding outcomes_in_id set_fmap_values .

lemma set_completed_in:
  "range_order ord \<Longrightarrow> set (completed_in ord sset) =
     {out. (\<exists>k. fmlookup (ss_outcomes sset) k = Some out) \<and> bo_phase out = branchCompleted}"
  by (auto simp: completed_in_def set_outcomes_in)

lemma hasFailure_iff:
  assumes "range_order ord"
  shows "hasFailure ord sset \<longleftrightarrow>
   (\<exists>k out. fmlookup (ss_outcomes sset) k = Some out \<and> bo_phase out \<in> {branchFailed, branchCanceled})"
proof
  assume "hasFailure ord sset"
  then obtain k where k: "k \<in> fmdom' (ss_outcomes sset)"
    "phase_of sset k = branchFailed \<or> phase_of sset k = branchCanceled"
    using assms by (auto simp: hasFailure_def list_ex_iff)
  then obtain out where "fmlookup (ss_outcomes sset) k = Some out" by (auto simp: fmlookup_dom'_iff)
  with k(2) show "\<exists>k out. fmlookup (ss_outcomes sset) k = Some out \<and>
      bo_phase out \<in> {branchFailed, branchCanceled}"
    by (intro exI [of _ k] exI [of _ out]) (simp add: phase_of_def)
next
  assume "\<exists>k out. fmlookup (ss_outcomes sset) k = Some out \<and>
      bo_phase out \<in> {branchFailed, branchCanceled}"
  then obtain k out where k: "fmlookup (ss_outcomes sset) k = Some out"
    "bo_phase out = branchFailed \<or> bo_phase out = branchCanceled" by auto
  then have "k \<in> set (range_keys ord (ss_outcomes sset))" using assms by simp
  with k show "hasFailure ord sset"
    unfolding hasFailure_def list_ex_iff by (intro bexI [of _ k]) (simp_all add: phase_of_def)
qed

lemma length_successes:
  assumes "range_order ord" "\<not> is_all (ss_policy sset)"
  shows "length (successes ord sset) = length (completed_in (\<lambda>ks. ks) sset)"
  using assms(2) length_completed_in [OF assms(1), of sset] by (simp add: successes_completed)

lemma length_outcomes_in [simp]: "length (outcomes_in (\<lambda>ks. ks) sset) = nat (terminal_count sset)"
  by (simp add: outcomes_in_def range_keys_def terminal_count_def sorted_keys_def
      sorted_list_of_fset.rep_eq fcard.rep_eq)

lemma completed_le_terminal: "int (length (completed_in (\<lambda>ks. ks) sset)) \<le> terminal_count sset"
proof -
  have "length (completed_in (\<lambda>ks. ks) sset) \<le> length (outcomes_in (\<lambda>ks. ks) sset)"
    by (simp add: completed_in_def del: length_outcomes_in)
  then show ?thesis by (simp add: terminal_count_def)
qed

definition distinct_ranks :: "sourceSet \<Rightarrow> bool" where
  "distinct_ranks sset \<longleftrightarrow> inj_on outcome_rank (set (outcomes_in (\<lambda>ks. ks) sset))"

lemma successes_order_irrelevant:
  assumes "range_order ord" "distinct_ranks sset"
  shows "successes ord sset = successes (\<lambda>ks. ks) sset"
proof (cases "is_all (ss_policy sset)")
  case False
  let ?xs = "completed_in ord sset" and ?ys = "completed_in (\<lambda>ks. ks) sset"
  have "set ?ys \<subseteq> set (outcomes_in (\<lambda>ks. ks) sset)" by (auto simp: completed_in_def)
  then have "inj_on outcome_rank (set ?ys)"
    using assms(2) by (auto simp: distinct_ranks_def intro: inj_on_subset)
  moreover have "mset ?xs = mset (sort_key outcome_rank ?ys)" "set ?xs = set ?ys"
    using mset_completed_in [OF assms(1)] by (simp_all, metis mset_eq_setD)
  ultimately have "sort_key outcome_rank ?xs = sort_key outcome_rank ?ys"
    by (intro sort_key_inj_key_eq) simp_all
  with False show ?thesis by (simp add: successes_completed)
qed (simp add: successes_def)

text \<open>
  Determinism. When no two outcomes of a source set share completion number and
  branch index, the decision does not depend on the order in which the runtime iterates over its
  outcome map.
\<close>

theorem settle_deterministic:
  assumes "range_order ord" "range_order ord'" "distinct_ranks sset"
  shows "decide ord sset = decide ord' sset"
proof -
  have "successes ord sset = successes ord' sset"
    using assms successes_order_irrelevant by metis
  moreover have "hasFailure ord sset = hasFailure ord' sset"
    using assms by (simp add: hasFailure_iff)
  ultimately show ?thesis by (simp add: decide_def decideOpen_def decideAll_def Let_def)
qed

section \<open>What the decision means\<close>

lemma decide_ready_cases:
  assumes "decide ord sset = Inr d" "sd_ready d"
  obtains (all_failed) "is_all (ss_policy sset)" "sd_failed d" "hasFailure ord sset" "sd_selected d = []"
    | (all_done) "is_all (ss_policy sset)" "\<not> sd_failed d" "\<not> hasFailure ord sset"
        "ss_openSources sset \<le> 0" "ss_expected sset \<le> terminal_count sset"
        "sd_selected d = successes ord sset"
    | (reached) n where "\<not> is_all (ss_policy sset)" "\<not> sd_failed d"
        "threshold (ss_policy sset) = Inr n" "n \<le> int (length (successes ord sset))"
        "sd_selected d = take (nat n) (successes ord sset)"
    | (missed) n where "\<not> is_all (ss_policy sset)" "sd_failed d" "ss_openSources sset \<le> 0"
        "threshold (ss_policy sset) = Inr n" "n \<le> ss_expected sset \<or> sp_mode (normalized (ss_policy sset)) = ''any''"
        "int (length (successes ord sset)) + ss_expected sset - terminal_count sset < n"
        "sd_selected d = []"
proof (cases "is_all (ss_policy sset)")
  case True
  then have "required (ss_policy sset) (ss_expected sset) = Inr (ss_expected sset)"
    by (simp add: required_def is_all_def Let_def)
  with True assms all_failed all_done show thesis
    by (auto simp: decide_def decideOpen_def decideAll_def no_decision_def Let_def split: if_splits)
next
  case False
  show thesis
  proof (cases "ss_openSources sset > 0")
    case True
    with False assms reached show thesis
      by (auto simp: decide_def decideOpen_def no_decision_def Let_def split: if_splits)
  next
    case closed: False
    with False assms obtain n where n: "required (ss_policy sset) (ss_expected sset) = Inr n"
      by (auto simp: decide_def Let_def)
    then have t: "threshold (ss_policy sset) = Inr n \<and>
        (n \<le> ss_expected sset \<or> sp_mode (normalized (ss_policy sset)) = ''any'')"
      using False by (auto simp: required_def threshold_def is_all_def Let_def split: if_splits)
    show thesis
    proof (cases "int (length (successes ord sset)) \<ge> n")
      case True
      then have "d = no_decision\<lparr>sd_selected := take (nat n) (successes ord sset), sd_ready := True\<rparr>"
        using False closed n assms by (simp add: decide_def Let_def)
      with False t True show thesis by (intro reached [of n]) (simp_all add: no_decision_def)
    next
      case less: False
      then have "d = no_decision\<lparr>sd_failed := True, sd_ready := True\<rparr>"
        "int (length (successes ord sset)) + ss_expected sset - terminal_count sset < n"
        using False closed n assms by (auto simp: decide_def no_decision_def Let_def split: if_splits)
      with False t closed show thesis by (intro missed [of n]) (simp_all add: no_decision_def)
    qed
  qed
qed

text \<open>Sorting splits a list into its n first values and the rest, none of which comes before them.\<close>

lemma first_ranked:
  fixes rank :: "'a \<Rightarrow> 'b :: linorder"
  assumes "n \<le> length xs"
  obtains rest where "length (take n (sort_key rank xs)) = n" "mset (take n (sort_key rank xs) @ rest) = mset xs"
    "list_all (\<lambda>c. list_all (\<lambda>r. rank c \<le> rank r) rest) (take n (sort_key rank xs))"
proof (rule that [of "drop n (sort_key rank xs)"])
  have "sorted (map rank (take n (sort_key rank xs) @ drop n (sort_key rank xs)))" by simp
  then show "list_all (\<lambda>c. list_all (\<lambda>r. rank c \<le> rank r) (drop n (sort_key rank xs))) (take n (sort_key rank xs))"
    unfolding map_append sorted_append by (auto simp: list_all_iff)
qed (use assms in simp_all)

text \<open>
  C18 (what is selected). When the decision is a success: under the policy \<open>all\<close> no
  branch failed and every expected branch is terminal, and exactly the completed branches are
  selected, in branch order; under \<open>any\<close> or a quorum of n > 0, n completed branches are
  selected and no completed branch that was left out finished before a selected one.
\<close>

theorem settle_selection:
  assumes "range_order ord" "decide ord sset = Inr d" "sd_ready d" "\<not> sd_failed d"
  shows "if is_all (ss_policy sset)
     then \<not> hasFailure ord sset \<and> ss_expected sset \<le> terminal_count sset \<and>
          sd_selected d = filter (\<lambda>bid. phase_of sset bid = branchCompleted) (ss_branches sset)
     else (\<exists>n chosen rest. threshold (ss_policy sset) = Inr n \<and> length chosen = nat n \<and>
            mset (chosen @ rest) = mset (completed_in ord sset) \<and>
            sd_selected d = map (\<lambda>out. ac_id (bo_activation out)) chosen \<and>
            list_all (\<lambda>c. list_all (\<lambda>r. outcome_rank c \<le> outcome_rank r) rest) chosen)"
  using assms(2,3)
proof (cases rule: decide_ready_cases)
  case all_done
  then show ?thesis by (simp add: successes_def successesInBranchOrder_def)
next
  case (reached n)
  from reached have "nat n \<le> length (completed_in ord sset)" by (simp add: successes_completed)
  then obtain rest where "length (take (nat n) (sort_key outcome_rank (completed_in ord sset))) = nat n"
    "mset (take (nat n) (sort_key outcome_rank (completed_in ord sset)) @ rest) = mset (completed_in ord sset)"
    "list_all (\<lambda>c. list_all (\<lambda>r. outcome_rank c \<le> outcome_rank r) rest)
       (take (nat n) (sort_key outcome_rank (completed_in ord sset)))"
    by (rule first_ranked)
  moreover have "sd_selected d =
      map (\<lambda>out. ac_id (bo_activation out)) (take (nat n) (sort_key outcome_rank (completed_in ord sset)))"
    using reached by (simp add: successes_completed take_map)
  ultimately show ?thesis using reached(1,3) by metis
qed (use assms in simp_all)

lemma required_closed:
  assumes "policy_validate policy = None" "\<not> is_all policy"
  obtains (ok) n where "required policy branches = Inr n" "0 < n"
    | (exceeds) e where "required policy branches = Inl e" "branches < sp_quorum policy"
      "sp_mode policy = ''quorum''"
proof (cases "sp_mode policy = ''any''")
  case True
  then show thesis by (intro ok [of 1]) (simp_all add: required_def normalized_def)
next
  case False
  then have q: "sp_mode policy = ''quorum''" "0 < sp_quorum policy"
    using assms by (auto simp: policy_validate_def is_all_def normalized_def SettleAll_def split: if_splits)
  show thesis
  proof (cases "branches < sp_quorum policy")
    case True
    with q show thesis by (intro exceeds) (auto simp: required_def normalized_def)
  next
    case False
    with q show thesis by (intro ok [of "sp_quorum policy"]) (simp_all add: required_def normalized_def)
  qed
qed

lemma required_threshold:
  assumes "threshold policy = Inr n" "\<not> is_all policy"
    and "n \<le> branches \<or> sp_mode (normalized policy) = ''any''"
  shows "required policy branches = Inr n"
  using assms by (auto simp: required_def threshold_def is_all_def Let_def split: if_splits)

text \<open>
  No branch is waited for in vain. Once no iterator is open and every expected branch
  has an outcome, a valid policy always decides, or reports that the quorum exceeds the number
  of branches.
\<close>

theorem settle_progress:
  assumes "range_order ord" "policy_validate (ss_policy sset) = None"
    and "ss_openSources sset \<le> 0" "ss_expected sset \<le> terminal_count sset"
  shows "case decide ord sset of
      Inr d \<Rightarrow> sd_ready d
    | Inl e \<Rightarrow> sp_mode (ss_policy sset) = ''quorum'' \<and> ss_expected sset < sp_quorum (ss_policy sset)"
proof (cases "is_all (ss_policy sset)")
  case True
  then have "required (ss_policy sset) (ss_expected sset) = Inr (ss_expected sset)"
    by (simp add: required_def is_all_def Let_def)
  with True assms(3,4) show ?thesis
    by (simp add: decide_def decideAll_def no_decision_def Let_def)
next
  case False
  from assms(2) False show ?thesis
  proof (cases rule: required_closed [of _ "ss_expected sset"])
    case (ok n)
    with False assms(3,4) show ?thesis by (simp add: decide_def no_decision_def Let_def)
  next
    case (exceeds e)
    with False assms(3) show ?thesis by (simp add: decide_def Let_def)
  qed
qed

section \<open>A failed decision is final\<close>

definition completed_keys :: "sourceSet \<Rightarrow> string set" where
  "completed_keys sset = {k. \<exists>out. fmlookup (ss_outcomes sset) k = Some out \<and> bo_phase out = branchCompleted}"

lemma length_completed_keys: "length (completed_in (\<lambda>ks. ks) sset) = card (completed_keys sset)"
proof -
  let ?m = "ss_outcomes sset"
  let ?P = "\<lambda>k. bo_phase (the (fmlookup ?m k)) = branchCompleted"
  have "length (completed_in (\<lambda>ks. ks) sset) = length (filter ?P (sorted_keys ?m))"
    by (simp add: completed_in_def outcomes_in_def range_keys_def filter_map o_def)
  also have "\<dots> = card (set (filter ?P (sorted_keys ?m)))"
    by (rule distinct_card [symmetric]) simp
  also have "set (filter ?P (sorted_keys ?m)) = completed_keys sset"
    by (auto simp: completed_keys_def fmlookup_dom'_iff)
  finally show ?thesis .
qed

lemma terminal_count_card: "terminal_count sset = int (card (fmdom' (ss_outcomes sset)))"
  by (simp add: terminal_count_def fcard.rep_eq fmdom'_alt_def)

definition later_outcomes :: "sourceSet \<Rightarrow> sourceSet \<Rightarrow> bool" where
  "later_outcomes sset sset' \<longleftrightarrow>
     ss_outcomes sset \<subseteq>\<^sub>f ss_outcomes sset' \<and> ss_policy sset' = ss_policy sset \<and>
     ss_expected sset' = ss_expected sset \<and> ss_openSources sset' = ss_openSources sset \<and>
     terminal_count sset' \<le> ss_expected sset'"

lemma fmsubset_lookup: "m \<subseteq>\<^sub>f m' \<Longrightarrow> fmlookup m k = Some v \<Longrightarrow> fmlookup m' k = Some v"
  by (metis fmsubset.rep_eq map_le_def domI)

lemma later_completed:
  assumes "ss_outcomes sset \<subseteq>\<^sub>f ss_outcomes sset'"
  shows "int (card (completed_keys sset')) - int (card (completed_keys sset)) \<le>
    terminal_count sset' - terminal_count sset"
proof -
  let ?d = "fmdom' (ss_outcomes sset)" and ?d' = "fmdom' (ss_outcomes sset')"
  have sub: "?d \<subseteq> ?d'" using fmsubset_lookup [OF assms] by (fastforce simp: fmlookup_dom'_iff)
  have "completed_keys sset' \<subseteq> completed_keys sset \<union> (?d' - ?d)"
  proof
    fix k assume "k \<in> completed_keys sset'"
    then obtain out where o: "fmlookup (ss_outcomes sset') k = Some out" "bo_phase out = branchCompleted"
      by (auto simp: completed_keys_def)
    show "k \<in> completed_keys sset \<union> (?d' - ?d)"
    proof (cases "fmlookup (ss_outcomes sset) k")
      case None
      with o show ?thesis by (auto simp: fmlookup_dom'_iff)
    next
      case (Some q)
      with fmsubset_lookup [OF assms Some] o show ?thesis by (simp add: completed_keys_def)
    qed
  qed
  moreover have fin: "finite (completed_keys sset)"
    by (rule finite_subset [of _ ?d]) (auto simp: completed_keys_def)
  ultimately have "card (completed_keys sset') \<le> card (completed_keys sset \<union> (?d' - ?d))"
    by (intro card_mono) auto
  also have "\<dots> \<le> card (completed_keys sset) + card (?d' - ?d)" by (rule card_Un_le)
  also have "card (?d' - ?d) = card ?d' - card ?d" using sub by (intro card_Diff_subset) auto
  finally show ?thesis using card_mono [OF _ sub] by (simp add: terminal_count_card)
qed

text \<open>
  Failure is final. When the decision is a failure, it stays a failure whatever
  outcomes the branches that were still missing bring.
\<close>

theorem settle_failure_final:
  assumes "range_order ord" "decide ord sset = Inr d" "sd_ready d" "sd_failed d"
    and "later_outcomes sset sset'"
  shows "\<exists>d'. decide ord sset' = Inr d' \<and> sd_ready d' \<and> sd_failed d'"
proof -
  note l = assms(5)[unfolded later_outcomes_def]
  from assms(2,3) show ?thesis
  proof (cases rule: decide_ready_cases)
    case all_failed
    obtain k out where k: "fmlookup (ss_outcomes sset) k = Some out"
      "bo_phase out \<in> {branchFailed, branchCanceled}"
      using all_failed(3) unfolding hasFailure_iff [OF assms(1)] by (elim exE conjE)
    have "hasFailure ord sset'"
      unfolding hasFailure_iff [OF assms(1)]
      by (intro exI [of _ k] exI [of _ out] conjI k(2) fmsubset_lookup [OF conjunct1 [OF l] k(1)])
    moreover have "required (ss_policy sset) (ss_expected sset) = Inr (ss_expected sset)"
      using all_failed by (simp add: required_def is_all_def Let_def)
    ultimately show ?thesis
      using all_failed l by (simp add: decide_def decideOpen_def decideAll_def no_decision_def Let_def)
  next
    case (missed n)
    have r: "required (ss_policy sset') (ss_expected sset') = Inr n"
      using required_threshold [OF missed(4,1,5)] l by simp
    have "int (length (successes ord sset')) + ss_expected sset' - terminal_count sset' < n"
    proof -
      have "length (successes ord sset') = card (completed_keys sset')"
        "length (successes ord sset) = card (completed_keys sset)"
        using missed(1) l length_successes [OF assms(1)] length_completed_keys by metis+
      then show ?thesis using missed(6) later_completed [of sset sset'] l by linarith
    qed
    moreover have "int (length (successes ord sset')) < n" using calculation l by linarith
    moreover have "\<not> is_all (ss_policy sset')" "\<not> ss_openSources sset' > 0"
      using missed(1,3) l by simp_all
    ultimately show ?thesis
      using r by (simp add: decide_def no_decision_def Let_def)
  qed (use assms(4) in simp_all)
qed

section \<open>Concrete source sets\<close>

definition sample_outcome :: "string \<Rightarrow> int \<Rightarrow> branchPhase \<Rightarrow> branchOutcome" where
  "sample_outcome aid n phase =
     \<lparr>bo_activation = (sample_activation aid)\<lparr>ac_branchIndex := n\<rparr>, bo_result = zero_result,
      bo_cause = None, bo_phase = phase, bo_completion = 10 - n, bo_committed = False\<rparr>"

definition sample_set :: "SettlePolicy \<Rightarrow> sourceSet" where
  "sample_set policy =
     \<lparr>ss_id = ''s'', ss_policy = policy, ss_expected = 3, ss_branches = [''a'', ''b'', ''c''],
      ss_outcomes = fmupd ''a'' (sample_outcome ''a'' 0 branchCompleted)
        (fmupd ''b'' (sample_outcome ''b'' 1 branchCompleted)
        (fmupd ''c'' (sample_outcome ''c'' 2 branchFailed) fmempty)),
      ss_selected = [], ss_decided = False, ss_settled = False, ss_failed = False,
      ss_openSources = 0, ss_cause = None\<rparr>"

lemma sample_keys: "sorted_keys (ss_outcomes (sample_set policy)) = [''a'', ''b'', ''c'']"
  by (simp add: sample_set_def sorted_keys_upd fmdrop_fmupd less_char_def less_eq_char_def)

lemma sample_terminal: "terminal_count (sample_set policy) = 3"
  by (simp add: terminal_count_def sample_set_def fcard_finsert_if)

theorem settle_deterministic_witness:
  "decide rev (sample_set SettleAny) = decide (\<lambda>ks. ks) (sample_set SettleAny)"
proof -
  have "distinct_ranks (sample_set SettleAny)"
    unfolding distinct_ranks_def outcomes_in_def range_keys_def sample_keys
    by (simp add: sample_set_def sample_outcome_def outcome_rank_def)
  then show ?thesis by (intro settle_deterministic) simp_all
qed

lemma sample_decides:
  "decide (\<lambda>ks. ks) (sample_set (SettleQuorum 2)) =
     Inr \<lparr>sd_selected = [''b'', ''a''], sd_failed = False, sd_ready = True\<rparr>"
  unfolding decide_def successes_def range_keys_def sample_keys
  by (simp add: sample_set_def sample_outcome_def outcome_rank_def SettleQuorum_def is_all_def
      normalized_def required_def no_decision_def sample_activation_def Let_def)

theorem settle_selection_witness:
  "\<exists>n chosen rest. threshold (SettleQuorum 2) = Inr n \<and> length chosen = nat n \<and>
     mset (chosen @ rest) = mset (completed_in (\<lambda>ks. ks) (sample_set (SettleQuorum 2))) \<and>
     [''b'', ''a''] = map (\<lambda>out. ac_id (bo_activation out)) chosen \<and>
     list_all (\<lambda>c. list_all (\<lambda>r. outcome_rank c \<le> outcome_rank r) rest) chosen"
proof -
  have "\<not> is_all (ss_policy (sample_set (SettleQuorum 2)))"
    "ss_policy (sample_set (SettleQuorum 2)) = SettleQuorum 2"
    by (simp_all add: sample_set_def is_all_def normalized_def SettleQuorum_def)
  then show ?thesis using settle_selection [OF range_order_id sample_decides] by simp
qed

theorem settle_progress_witness:
  "case decide rev (sample_set SettleAll) of
      Inr d \<Rightarrow> sd_ready d
    | Inl e \<Rightarrow> sp_mode (ss_policy (sample_set SettleAll)) = ''quorum'' \<and>
        ss_expected (sample_set SettleAll) < sp_quorum (ss_policy (sample_set SettleAll))"
  by (rule settle_progress)
     (simp_all add: sample_terminal, simp_all add: sample_set_def policy_validate_def SettleAll_def)

theorem settle_failure_final_witness:
  "\<exists>d'. decide (\<lambda>ks. ks) (sample_set SettleAll) = Inr d' \<and> sd_ready d' \<and> sd_failed d'"
proof -
  have d: "decide (\<lambda>ks. ks) (sample_set SettleAll) =
      Inr (no_decision\<lparr>sd_failed := True, sd_ready := True\<rparr>)"
    unfolding decide_def decideAll_def hasFailure_def range_keys_def sample_keys sample_terminal
    by (simp add: sample_set_def sample_outcome_def SettleAll_def is_all_def normalized_def
        required_def phase_of_def Let_def)
  have "later_outcomes (sample_set SettleAll) (sample_set SettleAll)"
    by (simp add: later_outcomes_def sample_terminal) (simp add: sample_set_def fmsubset.rep_eq)
  then show ?thesis by (intro settle_failure_final [OF _ d]) (simp_all add: no_decision_def)
qed

end
