(* ===== verification/Schedule.thy ===== *)
theory Schedule
  imports Settle
begin

text \<open>
  From the output of an activation to the next activations: dispatches and their algebra, the
  compiled plan, route and join middlewares, \<open>scheduleNext\<close> with its deliveries, join
  buckets with their expectations (\<open>join_expectation.go\<close>) and the loop that materializes
  ready joins. Operations that can fail half way return their error together with the
  state as they leave it.
\<close>

section \<open>Dispatches\<close>

type_synonym Inputs = "(string, govalue list) fmap"

text \<open>What calling an iterator factory does.\<close>

datatype factory_result = Sequence "nat \<Rightarrow> pulled" | NilSequence | FactoryPanic string

record delivery =
  dl_target :: string
  dl_payload :: govalue
  dl_iter :: "factory_result option"
  dl_iterCheckpoint :: "(nat \<Rightarrow> govalue callback) option"
  dl_iterRestore :: "(govalue \<Rightarrow> factory_result) option"
  dl_iterErr :: "goerr option"
  dl_useSourceOutput :: bool

definition zero_delivery :: delivery where
  "zero_delivery =
     \<lparr>dl_target = [], dl_payload = VNil, dl_iter = None, dl_iterCheckpoint = None,
      dl_iterRestore = None, dl_iterErr = None, dl_useSourceOutput = False\<rparr>"

record Dispatch =
  dp_deliveries :: "delivery list"
  dp_stop :: bool
  dp_settle :: SettlePolicy
  dp_explicit :: bool
  dp_source :: string
  dp_nilSource :: bool
  dp_mixedSources :: bool

definition zero_Dispatch :: Dispatch where
  "zero_Dispatch =
     \<lparr>dp_deliveries = [], dp_stop = False, dp_settle = \<lparr>sp_mode = [], sp_quorum = 0\<rparr>,
      dp_explicit = False, dp_source = [], dp_nilSource = False, dp_mixedSources = False\<rparr>"

text \<open>The source node is None for a nil \<open>*Node\<close>.\<close>

definition newDispatch :: "string option \<Rightarrow> Dispatch" where
  "newDispatch source =
     (case source of
        None \<Rightarrow> zero_Dispatch\<lparr>dp_explicit := True, dp_nilSource := True\<rparr>
      | Some name \<Rightarrow> zero_Dispatch\<lparr>dp_explicit := True, dp_source := name\<rparr>)"

definition Stop :: "string option \<Rightarrow> Dispatch" where
  "Stop source = (newDispatch source)\<lparr>dp_stop := True\<rparr>"

definition To :: "string option \<Rightarrow> string option \<Rightarrow> Dispatch" where
  "To source target =
     (case target of
        None \<Rightarrow> newDispatch source
      | Some name \<Rightarrow> (newDispatch source)\<lparr>dp_deliveries :=
            [zero_delivery\<lparr>dl_target := name, dl_useSourceOutput := True\<rparr>]\<rparr>)"

definition Once :: "string option \<Rightarrow> string option \<Rightarrow> govalue \<Rightarrow> Dispatch" where
  "Once source target payload =
     (case target of
        None \<Rightarrow> newDispatch source
      | Some name \<Rightarrow> (newDispatch source)\<lparr>dp_deliveries :=
            [zero_delivery\<lparr>dl_target := name, dl_payload := payload\<rparr>]\<rparr>)"

definition Each :: "string option \<Rightarrow> string option \<Rightarrow> govalue list \<Rightarrow> Dispatch" where
  "Each source target payloads =
     (case target of
        None \<Rightarrow> newDispatch source
      | Some name \<Rightarrow> (newDispatch source)\<lparr>dp_deliveries :=
            map (\<lambda>p. zero_delivery\<lparr>dl_target := name, dl_payload := p\<rparr>) payloads\<rparr>)"

definition mergeSource :: "Dispatch \<Rightarrow> Dispatch \<Rightarrow> Dispatch" where
  "mergeSource d next =
     (let d1 = d\<lparr>dp_nilSource := dp_nilSource d \<or> dp_nilSource next,
                 dp_mixedSources := dp_mixedSources d \<or> dp_mixedSources next\<rparr> in
      if dp_source d1 = [] then d1\<lparr>dp_source := dp_source next\<rparr>
      else if dp_source next \<noteq> [] \<and> dp_source d1 \<noteq> dp_source next
        then d1\<lparr>dp_mixedSources := True\<rparr>
      else d1)"

definition And :: "Dispatch \<Rightarrow> Dispatch \<Rightarrow> Dispatch" where
  "And d next =
     (let d1 = mergeSource d next in
      d1\<lparr>dp_deliveries := dp_deliveries d1 @ dp_deliveries next,
         dp_stop := dp_stop d1 \<or> dp_stop next,
         dp_explicit := dp_explicit d1 \<or> dp_explicit next\<rparr>)"

definition WithSettle :: "Dispatch \<Rightarrow> SettlePolicy \<Rightarrow> Dispatch" where
  "WithSettle d policy = d\<lparr>dp_settle := policy\<rparr>"

definition validateSource :: "Dispatch \<Rightarrow> string \<Rightarrow> goerr option" where
  "validateSource d source =
     (if dp_nilSource d then Some (Msg ''workflow: dispatch source is nil'')
      else if dp_mixedSources d then Some (Msg ''workflow: dispatch mixes sources'')
      else if dp_source d \<noteq> [] \<and> dp_source d \<noteq> source
        then Some (Msg ''workflow: dispatch belongs to another source'')
      else None)"

section \<open>The compiled plan\<close>

record node =
  nd_name :: string
  nd_inputType :: gotype
  nd_outputType :: gotype
  nd_join :: "(Inputs \<Rightarrow> govalue callback) option"
  nd_route :: "(govalue \<Rightarrow> Dispatch callback) option"
  nd_merge :: bool

record erasedRouteMiddleware =
  rm_name :: string
  rm_run :: "node \<Rightarrow> string \<Rightarrow> govalue \<Rightarrow> Dispatch \<Rightarrow> goerr + Dispatch option"

record erasedJoinMiddleware =
  jm_name :: string
  jm_run :: "node \<Rightarrow> string \<Rightarrow> Inputs \<Rightarrow> govalue \<Rightarrow> goerr + govalue option"

record compiled =
  co_name :: string
  co_nodes :: "(string, node) fmap"
  co_edges :: edge_map
  co_predecessors :: edge_map
  co_entry :: string
  co_exits :: "string fset"
  co_maxSteps :: int
  co_maxParallelism :: int
  co_routeMiddlewares :: "erasedRouteMiddleware list"
  co_joinMiddlewares :: "erasedJoinMiddleware list"
  co_topologyVersion :: string
  co_backEdges :: "topologyEdge set"
  co_contextType :: "gotype option"
  co_inputType :: gotype
  co_outputType :: gotype

text \<open>A middleware is matched by type; its callback returns the rewritten value.\<close>

definition eraseRouteMiddleware ::
  "gotype \<Rightarrow> string \<Rightarrow> (string \<Rightarrow> govalue \<Rightarrow> Dispatch \<Rightarrow> Dispatch callback) \<Rightarrow> erasedRouteMiddleware" where
  "eraseRouteMiddleware outputType name mw =
     \<lparr>rm_name = name,
      rm_run = (\<lambda>node nodeName output dispatch.
        if nd_outputType node \<noteq> outputType then Inr None
        else if \<not> has_type output outputType
          then Inl (Msg ''workflow: route middleware output type mismatch'')
        else andthen (invokeCallback ''route middleware'' name (mw nodeName output dispatch))
               (\<lambda>d. Inr (Some d)))\<rparr>"

definition eraseJoinMiddleware ::
  "gotype \<Rightarrow> string \<Rightarrow> (string \<Rightarrow> Inputs \<Rightarrow> govalue \<Rightarrow> govalue callback) \<Rightarrow> erasedJoinMiddleware" where
  "eraseJoinMiddleware inputType name mw =
     \<lparr>jm_name = name,
      jm_run = (\<lambda>node nodeName inputs input.
        if nd_inputType node \<noteq> inputType then Inr None
        else if \<not> has_type input inputType
          then Inl (Msg ''workflow: join middleware input type mismatch'')
        else andthen (invokeCallback ''join middleware'' name (mw nodeName inputs input))
               (\<lambda>v. Inr (Some v)))\<rparr>"

fun apply_route_middlewares ::
  "erasedRouteMiddleware list \<Rightarrow> node \<Rightarrow> string \<Rightarrow> govalue \<Rightarrow> Dispatch \<Rightarrow> goerr + Dispatch" where
  "apply_route_middlewares [] node nodeName output current = Inr current"
| "apply_route_middlewares (m # ms) node nodeName output current =
     andthen (rm_run m node nodeName output current) (\<lambda>next.
       apply_route_middlewares ms node nodeName output
         (case next of None \<Rightarrow> current | Some d \<Rightarrow> d))"

fun apply_join_middlewares ::
  "erasedJoinMiddleware list \<Rightarrow> node \<Rightarrow> string \<Rightarrow> Inputs \<Rightarrow> govalue \<Rightarrow> goerr + govalue" where
  "apply_join_middlewares [] node target inputs current = Inr current"
| "apply_join_middlewares (m # ms) node target inputs current =
     andthen (jm_run m node target inputs current) (\<lambda>next.
       apply_join_middlewares ms node target inputs
         (case next of None \<Rightarrow> current | Some v \<Rightarrow> v))"

definition applyRouteMiddlewares ::
  "compiled \<Rightarrow> node \<Rightarrow> string \<Rightarrow> govalue \<Rightarrow> Dispatch \<Rightarrow> goerr + Dispatch" where
  "applyRouteMiddlewares c = apply_route_middlewares (co_routeMiddlewares c)"

definition applyJoinMiddlewares ::
  "compiled \<Rightarrow> node \<Rightarrow> string \<Rightarrow> Inputs \<Rightarrow> govalue \<Rightarrow> goerr + govalue" where
  "applyJoinMiddlewares c = apply_join_middlewares (co_joinMiddlewares c)"

definition hasJoin :: "node \<Rightarrow> bool" where "hasJoin n \<longleftrightarrow> nd_join n \<noteq> None"
definition hasMerge :: "node \<Rightarrow> bool" where "hasMerge n \<longleftrightarrow> nd_merge n"
definition hasRoute :: "node \<Rightarrow> bool" where "hasRoute n \<longleftrightarrow> nd_route n \<noteq> None"

definition isJoinTarget :: "compiled \<Rightarrow> string \<Rightarrow> bool" where
  "isJoinTarget c target =
     (case fmlookup (co_nodes c) target of None \<Rightarrow> False | Some n \<Rightarrow> hasJoin n \<or> hasMerge n)"

definition joinAny :: "node \<Rightarrow> Inputs \<Rightarrow> goerr + govalue" where
  "joinAny n inputs =
     (case nd_join n of
        None \<Rightarrow> Inr (VInputs inputs)
      | Some join \<Rightarrow> invokeCallback ''join callback'' [] (join inputs))"

definition routeAny :: "node \<Rightarrow> govalue \<Rightarrow> goerr + Dispatch" where
  "routeAny n output =
     (case nd_route n of
        None \<Rightarrow> Inr zero_Dispatch
      | Some rt \<Rightarrow>
          if \<not> has_type output (nd_outputType n) then Inl (Msg ''output type mismatch'')
          else invokeCallback ''route callback'' [] (rt output))"

section \<open>Reading join inputs\<close>

definition lookupAll :: "Inputs \<Rightarrow> string option \<Rightarrow> goerr + govalue list option" where
  "lookupAll inputs source =
     (case source of
        None \<Rightarrow> Inl (Msg ''workflow: input source is nil'')
      | Some name \<Rightarrow>
          (case fmlookup inputs name of
             None \<Rightarrow> Inr None
           | Some values \<Rightarrow> Inr (if values = [] then None else Some values)))"

definition lookup_input :: "Inputs \<Rightarrow> string option \<Rightarrow> goerr + govalue option" where
  "lookup_input inputs source =
     andthen (lookupAll inputs source) (\<lambda>found.
       case found of
         None \<Rightarrow> Inr None
       | Some values \<Rightarrow>
           if length values \<noteq> 1 then Inl (Msg ''workflow: input has several contributions, want 1'')
           else Inr (Some (hd values)))"

definition one_input :: "Inputs \<Rightarrow> string option \<Rightarrow> goerr + govalue" where
  "one_input inputs source =
     andthen (lookup_input inputs source) (\<lambda>found.
       case found of None \<Rightarrow> Inl (Msg ''workflow: input is missing'') | Some v \<Rightarrow> Inr v)"

definition all_inputs :: "Inputs \<Rightarrow> string option \<Rightarrow> goerr + govalue list" where
  "all_inputs inputs source =
     andthen (lookupAll inputs source) (\<lambda>found.
       case found of None \<Rightarrow> Inl (Msg ''workflow: input is missing'') | Some vs \<Rightarrow> Inr vs)"

section \<open>Enqueueing\<close>

record enqueueRequest =
  er_target :: string
  er_input :: govalue
  er_sourceSet :: string
  er_branchIndex :: int
  er_correlation :: CorrelationKey

definition trackCorrelation :: "activation \<Rightarrow> runState \<Rightarrow> runState" where
  "trackCorrelation item state =
     (let byNode = (case fmlookup (rs_correlations state) (ac_correlation item) of
                      None \<Rightarrow> fmempty | Some m \<Rightarrow> m)
      in state\<lparr>rs_correlations :=
           fmupd (ac_correlation item) (bump (ac_node item) byNode) (rs_correlations state)\<rparr>)"

definition activation_id :: "int \<Rightarrow> string" where
  "activation_id n = ''act-'' @ int_string n"

definition enqueue :: "enqueueRequest \<Rightarrow> runState \<Rightarrow> activation \<times> runState" where
  "enqueue req state =
     (let aid = activation_id (rs_nextActSeq state);
          item = \<lparr>ac_id = aid, ac_node = er_target req, ac_input = er_input req,
                  ac_sourceSet = er_sourceSet req, ac_branchIndex = er_branchIndex req,
                  ac_correlation = er_correlation req\<rparr>;
          s1 = state\<lparr>rs_nextActSeq := rs_nextActSeq state + 1, rs_queue := rs_queue state @ [item]\<rparr>;
          s2 = trackActivation item s1;
          s3 = s2\<lparr>rs_scheduled := bump (er_target req) (rs_scheduled s2)\<rparr>;
          s4 = trackCorrelation item s3;
          s5 = (case fmlookup (rs_sourceSets s4) (er_sourceSet req) of
                  None \<Rightarrow> s4
                | Some sset \<Rightarrow> s4\<lparr>rs_sourceSets := fmupd (er_sourceSet req)
                    (sset\<lparr>ss_branches := ss_branches sset @ [aid]\<rparr>) (rs_sourceSets s4)\<rparr>)
      in (item, s5))"

definition validateActivationPayload :: "govalue \<Rightarrow> node \<Rightarrow> goerr option" where
  "validateActivationPayload payload target =
     (case dyn_type payload of
        None \<Rightarrow> Some (Msg ''workflow: route payload is not assignable to input'')
      | Some t \<Rightarrow>
          if assignable_to t (nd_inputType target) then None
          else Some (Msg ''workflow: route payload is not assignable to input''))"

section \<open>Join buckets\<close>

definition empty_bucket :: joinBucket where
  "empty_bucket = \<lparr>jb_contributions = fmempty, jb_expectations = fmempty\<rparr>"

text \<open>\<open>joinBucket\<close> creates the bucket when it is missing; callers write the changed one back.\<close>

definition join_bucket :: "string \<Rightarrow> CorrelationKey \<Rightarrow> runState \<Rightarrow> joinBucket \<times> runState" where
  "join_bucket target correlation state =
     (let key = BucketKey target correlation in
      case fmlookup (rs_buckets state) key of
        Some bucket \<Rightarrow> (bucket, state)
      | None \<Rightarrow> (empty_bucket,
          state\<lparr>rs_buckets := fmupd key empty_bucket (rs_buckets state)\<rparr>))"

definition put_bucket :: "string \<Rightarrow> CorrelationKey \<Rightarrow> joinBucket \<Rightarrow> runState \<Rightarrow> runState" where
  "put_bucket target correlation bucket state =
     state\<lparr>rs_buckets := fmupd (BucketKey target correlation) bucket (rs_buckets state)\<rparr>"

definition bucket_close :: "activation \<Rightarrow> int \<Rightarrow> joinBucket \<Rightarrow> goerr option \<times> joinBucket" where
  "bucket_close source expected bucket =
     (let byActivation = (case fmlookup (jb_expectations bucket) (ac_node source) of
                            None \<Rightarrow> fmempty | Some m \<Rightarrow> m);
          prepared = bucket\<lparr>jb_expectations :=
            fmupd (ac_node source) byActivation (jb_expectations bucket)\<rparr> in
      case fmlookup byActivation (ac_id source) of
        Some current \<Rightarrow>
          if current \<noteq> expected
            then (Some (Msg ''workflow: join expectation for activation changed''), prepared)
          else (None, prepared\<lparr>jb_expectations := fmupd (ac_node source)
                 (fmupd (ac_id source) expected byActivation) (jb_expectations prepared)\<rparr>)
      | None \<Rightarrow> (None, prepared\<lparr>jb_expectations := fmupd (ac_node source)
                 (fmupd (ac_id source) expected byActivation) (jb_expectations prepared)\<rparr>))"

definition int_sum :: "int list \<Rightarrow> int" where
  "int_sum ns = foldl (+) 0 ns"

definition sourceReady :: "string \<Rightarrow> int \<Rightarrow> joinBucket \<Rightarrow> bool" where
  "sourceReady source pending bucket \<longleftrightarrow>
     (let byActivation = (case fmlookup (jb_expectations bucket) source of None \<Rightarrow> fmempty | Some m \<Rightarrow> m);
          values = (case fmlookup (jb_contributions bucket) source of None \<Rightarrow> [] | Some vs \<Rightarrow> vs)
      in int (fcard (fmdom byActivation)) = pending \<and>
         int (length values) = int_sum (fmap_values byActivation))"

text \<open>\<open>selectedJoinTargets\<close>: how often the source output goes to each join.\<close>

definition selectedJoinTargets :: "compiled \<Rightarrow> Dispatch \<Rightarrow> (string, int) fmap" where
  "selectedJoinTargets c dispatch =
     foldl (\<lambda>m item. if dl_useSourceOutput item \<and> isJoinTarget c (dl_target item)
                     then bump (dl_target item) m else m) fmempty (dp_deliveries dispatch)"

fun close_expectations ::
  "compiled \<Rightarrow> activation \<Rightarrow> (string, int) fmap \<Rightarrow> string list \<Rightarrow> runState \<Rightarrow> goerr option \<times> runState" where
  "close_expectations c source selected [] state = (None, state)"
| "close_expectations c source selected (target # ts) state =
     (if \<not> isJoinTarget c target then close_expectations c source selected ts state
      else (let correlation = nextCorrelation (co_backEdges c) (ac_correlation source) (ac_node source) target;
                (bucket, s1) = join_bucket target correlation state;
                (err, bucket1) = bucket_close source (count_of selected target) bucket;
                s2 = put_bucket target correlation bucket1 s1 in
            case err of
              Some e \<Rightarrow> (Some e, s2)
            | None \<Rightarrow> close_expectations c source selected ts s2))"

definition closeJoinExpectations ::
  "compiled \<Rightarrow> activation \<Rightarrow> Dispatch \<Rightarrow> runState \<Rightarrow> goerr option \<times> runState" where
  "closeJoinExpectations c source dispatch state =
     close_expectations c source (selectedJoinTargets c dispatch)
       (targets (co_edges c) (ac_node source)) state"

definition addContribution :: "activation \<Rightarrow> string \<Rightarrow> govalue \<Rightarrow> runState \<Rightarrow> runState" where
  "addContribution source target payload state =
     (let (bucket, s1) = join_bucket target (ac_correlation source) state;
          values = (case fmlookup (jb_contributions bucket) (ac_node source) of
                      None \<Rightarrow> [] | Some vs \<Rightarrow> vs)
      in put_bucket target (ac_correlation source)
           (bucket\<lparr>jb_contributions :=
              fmupd (ac_node source) (values @ [payload]) (jb_contributions bucket)\<rparr>) s1)"

section \<open>Deliveries\<close>

record deliveryRequest =
  dr_source :: activation
  dr_output :: govalue
  dr_edges :: "string list"
  dr_item :: delivery
  dr_sourceSet :: string
  dr_branchIndex :: int
  dr_deliveryIndex :: int

definition validateIterReplay :: "delivery \<Rightarrow> goerr option" where
  "validateIterReplay item =
     (if dl_iterErr item \<noteq> None then dl_iterErr item
      else if (dl_iterCheckpoint item = None) \<noteq> (dl_iterRestore item = None)
        then Some (Msg ''workflow: iterator checkpoint and restore must be configured together'')
      else None)"

definition callIterFactory :: "string \<Rightarrow> factory_result \<Rightarrow> goerr + (nat \<Rightarrow> pulled)" where
  "callIterFactory boundary result =
     (case result of
        Sequence f \<Rightarrow> Inr f
      | NilSequence \<Rightarrow> Inl (Msg (''workflow: iterator '' @ boundary @ '' returned nil sequence''))
      | FactoryPanic s \<Rightarrow> Inl (Msg (''workflow: iterator '' @ boundary @ '' panic: '' @ s)))"

definition bindLiveIterator ::
  "string \<Rightarrow> (nat \<Rightarrow> pulled) \<Rightarrow> (nat \<Rightarrow> govalue callback) option \<Rightarrow> runState \<Rightarrow> runState" where
  "bindLiveIterator sid f checkpoint state =
     state\<lparr>rs_liveIters := fmupd sid
       \<lparr>li_sequence = f, li_position = 0, li_checkpoint = checkpoint\<rparr> (rs_liveIters state)\<rparr>"

definition iter_id :: "int \<Rightarrow> string" where
  "iter_id n = ''iter-'' @ int_string n"

definition scheduleIter ::
  "compiled \<Rightarrow> deliveryRequest \<Rightarrow> runState \<Rightarrow> goerr option \<times> runState" where
  "scheduleIter c req state =
     (let item = dr_item req in
      if isJoinTarget c (dl_target item)
        then (Some (Msg ''workflow: route to join target cannot use each iter''), state)
      else if dr_sourceSet req = []
        then (Some (Msg ''workflow: each iter is missing source set''), state)
      else (case validateIterReplay item of
          Some e \<Rightarrow> (Some e, state)
        | None \<Rightarrow>
            (case callIterFactory ''factory'' (the (dl_iter item)) of
               Inl e \<Rightarrow> (Some e, state)
             | Inr f \<Rightarrow>
                 (let seq = (if rs_nextIterSeq state \<le> 0 then 1 else rs_nextIterSeq state);
                      sid = iter_id seq;
                      source = \<lparr>is_id = sid, is_sourceID = ac_id (dr_source req),
                        is_target = dl_target item, is_sourceSet = dr_sourceSet req,
                        is_deliveryIndex = dr_deliveryIndex req, is_pulled = 0, is_cursor = VNil,
                        is_hasCursor = False, is_replay = (dl_iterRestore item \<noteq> None),
                        is_open = True, is_cause = None\<rparr>;
                      s1 = state\<lparr>rs_nextIterSeq := seq + 1,
                        rs_iterSources := fmupd sid source (rs_iterSources state)\<rparr>
                  in (None, bindLiveIterator sid f (dl_iterCheckpoint item) s1)))))"

definition scheduleJoin ::
  "compiled \<Rightarrow> deliveryRequest \<Rightarrow> govalue \<Rightarrow> runState \<Rightarrow> goerr option \<times> runState" where
  "scheduleJoin c req payload state =
     (if \<not> dl_useSourceOutput (dr_item req)
        then (Some (Msg ''workflow: route to join target must use source output''), state)
      else (let target = dl_target (dr_item req);
                source = (dr_source req)\<lparr>ac_correlation := nextCorrelation (co_backEdges c)
                  (ac_correlation (dr_source req)) (ac_node (dr_source req)) target\<rparr>
            in (None, addContribution source target payload state)))"

definition scheduleDelivery ::
  "compiled \<Rightarrow> deliveryRequest \<Rightarrow> runState \<Rightarrow> goerr option \<times> runState" where
  "scheduleDelivery c req state =
     (let item = dr_item req; target = dl_target item in
      if target \<notin> set (dr_edges req)
        then (Some (Msg ''workflow: route selected undeclared target''), state)
      else if dl_iter item \<noteq> None then scheduleIter c req state
      else (let payload = (if dl_useSourceOutput item then dr_output req else dl_payload item) in
            if isJoinTarget c target then scheduleJoin c req payload state
            else (case fmlookup (co_nodes c) target of
                None \<Rightarrow> (Some (Msg ''nil target node''), state)
              | Some n \<Rightarrow>
                  (case validateActivationPayload payload n of
                     Some e \<Rightarrow> (Some e, state)
                   | None \<Rightarrow> (None, snd (enqueue
                       \<lparr>er_target = target, er_input = payload, er_sourceSet = dr_sourceSet req,
                        er_branchIndex = dr_branchIndex req,
                        er_correlation = nextCorrelation (co_backEdges c)
                          (ac_correlation (dr_source req)) (ac_node (dr_source req)) target\<rparr> state))))))"

definition materializesActivation :: "compiled \<Rightarrow> delivery \<Rightarrow> bool" where
  "materializesActivation c item \<longleftrightarrow> \<not> isJoinTarget c (dl_target item)"

definition activationDeliveryCount :: "compiled \<Rightarrow> delivery list \<Rightarrow> int \<times> int" where
  "activationDeliveryCount c items =
     (int (length (filter (\<lambda>i. dl_iter i = None \<and> materializesActivation c i) items)),
      int (length (filter (\<lambda>i. dl_iter i \<noteq> None) items)))"

definition prepareSourceSet ::
  "compiled \<Rightarrow> activation \<Rightarrow> Dispatch \<Rightarrow> runState \<Rightarrow> goerr + (string option \<times> runState)" where
  "prepareSourceSet c source dispatch state =
     (let (count, iterCount) = activationDeliveryCount c (dp_deliveries dispatch);
          policy = normalized (dp_settle dispatch) in
      if count = 0 \<and> iterCount = 0 then Inr (None, state)
      else andthen (if iterCount = 0 then required policy count else Inr 0) (\<lambda>n.
        let (sset, s1) = newSourceSet source policy count state;
            opened = sset\<lparr>ss_openSources := iterCount\<rparr>
        in Inr (Some (ss_id sset),
                s1\<lparr>rs_sourceSets := fmupd (ss_id sset) opened (rs_sourceSets s1)\<rparr>)))"

fun schedule_loop ::
  "compiled \<Rightarrow> activation \<Rightarrow> govalue \<Rightarrow> string list \<Rightarrow> string option \<Rightarrow> delivery list \<Rightarrow> int \<Rightarrow> int
   \<Rightarrow> runState \<Rightarrow> goerr option \<times> runState" where
  "schedule_loop c source output edges sset [] index branchIndex state = (None, state)"
| "schedule_loop c source output edges sset (item # items) index branchIndex state =
     (let branch = (sset \<noteq> None \<and> dl_iter item = None \<and> materializesActivation c item);
          sid = (if sset \<noteq> None \<and> (dl_iter item \<noteq> None \<or> branch) then the sset else []);
          req = \<lparr>dr_source = source, dr_output = output, dr_edges = edges, dr_item = item,
                 dr_sourceSet = sid, dr_branchIndex = (if branch then branchIndex else 0),
                 dr_deliveryIndex = index\<rparr> in
      case scheduleDelivery c req state of
        (Some e, s1) \<Rightarrow> (Some e, s1)
      | (None, s1) \<Rightarrow> schedule_loop c source output edges sset items (index + 1)
                       (if branch then branchIndex + 1 else branchIndex) s1)"

definition with_default_deliveries :: "compiled \<Rightarrow> activation \<Rightarrow> Dispatch \<Rightarrow> Dispatch" where
  "with_default_deliveries c source dispatch =
     (if dp_explicit dispatch then dispatch
      else dispatch\<lparr>dp_deliveries := dp_deliveries dispatch @
             map (\<lambda>t. zero_delivery\<lparr>dl_target := t, dl_useSourceOutput := True\<rparr>)
               (targets (co_edges c) (ac_node source))\<rparr>)"

definition scheduleNext ::
  "compiled \<Rightarrow> activation \<Rightarrow> govalue \<Rightarrow> Dispatch \<Rightarrow> runState \<Rightarrow> goerr option \<times> runState" where
  "scheduleNext c source output dispatch state =
     (case validateSource dispatch (ac_node source) of
        Some e \<Rightarrow> (Some e, state)
      | None \<Rightarrow>
     (case policy_validate (dp_settle dispatch) of
        Some e \<Rightarrow> (Some e, state)
      | None \<Rightarrow>
          if dp_stop dispatch
            then (if ac_node source |\<notin>| co_exits c
                    then (Some (Msg ''workflow: non-exit node returned stop''), state)
                  else closeJoinExpectations c source dispatch state)
          else (let d = with_default_deliveries c source dispatch in
            case prepareSourceSet c source d state of
              Inl e \<Rightarrow> (Some e, state)
            | Inr (sset, s1) \<Rightarrow>
                (case schedule_loop c source output (targets (co_edges c) (ac_node source)) sset
                        (dp_deliveries d) 0 0 s1 of
                   (Some e, s2) \<Rightarrow> (Some e, s2)
                 | (None, s2) \<Rightarrow> closeJoinExpectations c source d s2))))"

section \<open>Materializing joins\<close>

definition pendingJoinActivations :: "compiled \<Rightarrow> joinBucketKey \<Rightarrow> string \<Rightarrow> runState \<Rightarrow> int" where
  "pendingJoinActivations c key source state =
     (let k = bk_corr key;
          correlation = (if (source, bk_target key) \<in> co_backEdges c
                         then CorrelationKey (corr_id k) (corr_epoch k - 1) else k)
      in case fmlookup (rs_correlations state) correlation of
           None \<Rightarrow> 0 | Some m \<Rightarrow> count_of m source)"

definition joinReady :: "compiled \<Rightarrow> runState \<Rightarrow> joinBucketKey \<Rightarrow> joinBucket \<Rightarrow> bool" where
  "joinReady c state key bucket \<longleftrightarrow>
     (let preds = targets (co_predecessors c) (bk_target key) in
      preds \<noteq> [] \<and> fcard (fmdom (jb_contributions bucket)) \<noteq> 0 \<and>
      list_all (\<lambda>pred. sourceReady pred (pendingJoinActivations c key pred state) bucket) preds)"

definition joinInput :: "compiled \<Rightarrow> string \<Rightarrow> Inputs \<Rightarrow> goerr + govalue" where
  "joinInput c target inputs =
     (case fmlookup (co_nodes c) target of
        None \<Rightarrow> Inr (VInputs inputs)
      | Some n \<Rightarrow>
          if hasJoin n
            then (case joinAny n inputs of
                    Inl e \<Rightarrow> Inl (Wrap ''workflow: join target'' [e]) | Inr v \<Rightarrow> Inr v)
          else Inr (VInputs inputs))"

definition materializeJoin ::
  "compiled \<Rightarrow> joinBucketKey \<Rightarrow> joinBucket \<Rightarrow> runState \<Rightarrow> goerr + runState" where
  "materializeJoin c key bucket state =
     (let inputs = jb_contributions bucket in
      andthen (joinInput c (bk_target key) inputs) (\<lambda>input.
      andthen (applyJoinMiddlewares c (the (fmlookup (co_nodes c) (bk_target key)))
                 (bk_target key) inputs input) (\<lambda>final.
      let s1 = snd (enqueue \<lparr>er_target = bk_target key, er_input = final, er_sourceSet = [],
                             er_branchIndex = 0, er_correlation = bk_corr key\<rparr> state)
      in Inr (s1\<lparr>rs_buckets := fmdrop key (rs_buckets s1)\<rparr>))))"

fun materialize_keys ::
  "compiled \<Rightarrow> joinBucketKey list \<Rightarrow> bool \<Rightarrow> runState \<Rightarrow> (goerr option \<times> bool) \<times> runState" where
  "materialize_keys c [] done state = ((None, done), state)"
| "materialize_keys c (key # keys) done state =
     (case fmlookup (rs_buckets state) key of
        None \<Rightarrow> materialize_keys c keys done state
      | Some bucket \<Rightarrow>
          if \<not> joinReady c state key bucket then materialize_keys c keys done state
          else (case materializeJoin c key bucket state of
                  Inl e \<Rightarrow> ((Some e, False), state)
                | Inr s1 \<Rightarrow> materialize_keys c keys True s1))"

definition materializeJoinPass ::
  "joinBucketKey order \<Rightarrow> compiled \<Rightarrow> runState \<Rightarrow> (goerr option \<times> bool) \<times> runState" where
  "materializeJoinPass ord c state = materialize_keys c (range_keys ord (rs_buckets state)) False state"

lemma enqueue_simps [simp]:
  "rs_buckets (snd (enqueue req s)) = rs_buckets s"
  "rs_queue (snd (enqueue req s)) = rs_queue s @ [fst (enqueue req s)]"
  "rs_nextActSeq (snd (enqueue req s)) = rs_nextActSeq s + 1"
  "ac_id (fst (enqueue req s)) = activation_id (rs_nextActSeq s)"
  "ac_node (fst (enqueue req s)) = er_target req"
  "ac_input (fst (enqueue req s)) = er_input req"
  "ac_sourceSet (fst (enqueue req s)) = er_sourceSet req"
  "ac_branchIndex (fst (enqueue req s)) = er_branchIndex req"
  "ac_correlation (fst (enqueue req s)) = er_correlation req"
  by (auto simp: enqueue_def Let_def trackActivation_def trackCorrelation_def split: option.split)

lemma materializeJoin_Inr:
  assumes "materializeJoin c key bucket s = Inr s'"
  obtains item where "rs_buckets s' = fmdrop key (rs_buckets s)" "rs_queue s' = rs_queue s @ [item]"
    "ac_node item = bk_target key" "ac_correlation item = bk_corr key" "ac_sourceSet item = []"
    "ac_id item = activation_id (rs_nextActSeq s)" "rs_nextActSeq s' = rs_nextActSeq s + 1"
  using assms by (auto simp: materializeJoin_def Let_def)

text \<open>
  The queue grows by one activation for each bucket that disappears, in the order in which
  the buckets were visited.
\<close>

definition joins_taken :: "joinBucketKey list \<Rightarrow> runState \<Rightarrow> runState \<Rightarrow> bool" where
  "joins_taken keys s s' \<longleftrightarrow>
     rs_buckets s' = foldl (\<lambda>m k. fmdrop k m) (rs_buckets s) keys \<and> distinct keys \<and>
     set keys \<subseteq> fmdom' (rs_buckets s) \<and>
     (\<exists>new. rs_queue s' = rs_queue s @ new \<and>
        map (\<lambda>a. BucketKey (ac_node a) (ac_correlation a)) new = keys \<and>
        map ac_id new = map (\<lambda>i. activation_id (rs_nextActSeq s + int i)) [0..<length keys] \<and>
        list_all (\<lambda>a. ac_sourceSet a = []) new) \<and>
     rs_nextActSeq s' = rs_nextActSeq s + int (length keys)"

lemma joins_taken_refl [simp]: "joins_taken [] s s"
  by (simp add: joins_taken_def)

lemma dom_foldl_fmdrop: "fmdom' (foldl (\<lambda>m k. fmdrop k m) m keys) = fmdom' m - set keys"
  by (induction keys arbitrary: m) auto

lemma joins_taken_step:
  assumes "joins_taken keys s s1" "materializeJoin c key bucket s1 = Inr s2"
    and "fmlookup (rs_buckets s1) key = Some bucket"
  shows "joins_taken (keys @ [key]) s s2"
proof -
  from assms(2) obtain item where i: "rs_buckets s2 = fmdrop key (rs_buckets s1)"
    "rs_queue s2 = rs_queue s1 @ [item]" "ac_node item = bk_target key"
    "ac_correlation item = bk_corr key" "ac_sourceSet item = []"
    "ac_id item = activation_id (rs_nextActSeq s1)" "rs_nextActSeq s2 = rs_nextActSeq s1 + 1"
    by (rule materializeJoin_Inr)
  have "key \<in> fmdom' (rs_buckets s1)" using assms(3) by simp
  then have k: "key \<notin> set keys" "key \<in> fmdom' (rs_buckets s)"
    using assms(1) by (auto simp: joins_taken_def dom_foldl_fmdrop)
  obtain new where new: "rs_queue s1 = rs_queue s @ new"
    "map (\<lambda>a. BucketKey (ac_node a) (ac_correlation a)) new = keys"
    "map ac_id new = map (\<lambda>i. activation_id (rs_nextActSeq s + int i)) [0..<length keys]"
    "list_all (\<lambda>a. ac_sourceSet a = []) new"
    and s1: "rs_buckets s1 = foldl (\<lambda>m k. fmdrop k m) (rs_buckets s) keys" "distinct keys"
    "set keys \<subseteq> fmdom' (rs_buckets s)" "rs_nextActSeq s1 = rs_nextActSeq s + int (length keys)"
    using assms(1) unfolding joins_taken_def by blast
  show ?thesis
    unfolding joins_taken_def using i k s1 new by (auto intro!: exI [of _ "new @ [item]"])
qed

lemma materialize_keys_taken:
  assumes "materialize_keys c keys done s1 = ((None, d), s2)" "joins_taken taken s s1"
  shows "\<exists>more. joins_taken (taken @ more) s s2 \<and> (d \<longleftrightarrow> done \<or> more \<noteq> [])"
  using assms
proof (induction keys arbitrary: "done" s1 taken)
  case Nil
  then show ?case by (auto intro!: exI [of _ "[]"])
next
  case (Cons key keys)
  show ?case
  proof (cases "\<exists>bucket. fmlookup (rs_buckets s1) key = Some bucket \<and> joinReady c s1 key bucket")
    case False
    then have "materialize_keys c keys done s1 = ((None, d), s2)"
      using Cons.prems(1) by (auto split: option.splits)
    with Cons show ?thesis by blast
  next
    case True
    then obtain bucket s1' where b: "fmlookup (rs_buckets s1) key = Some bucket"
      "materializeJoin c key bucket s1 = Inr s1'" "materialize_keys c keys True s1' = ((None, d), s2)"
      using Cons.prems(1) by (auto split: option.splits sum.splits)
    from joins_taken_step [OF Cons.prems(2) b(2,1)] Cons.IH [OF b(3)]
    obtain more where "joins_taken ((taken @ [key]) @ more) s s2" "d" by blast
    then show ?thesis by (auto intro!: exI [of _ "key # more"])
  qed
qed

lemma materialize_keys_none_ready:
  assumes "materialize_keys c keys done s = ((None, False), s2)"
  shows "s2 = s \<and> \<not> done \<and> (\<forall>k b. k \<in> set keys \<longrightarrow> fmlookup (rs_buckets s) k = Some b \<longrightarrow> \<not> joinReady c s k b)"
  using assms
proof (induction keys arbitrary: "done" s)
  case Nil
  then show ?case by auto
next
  case (Cons key keys)
  have tt: "materialize_keys c ks True t \<noteq> ((None, False), s2)" for ks t
    using materialize_keys_taken [of c ks True t False s2 "[]" t] by auto
  show ?case
    using Cons.prems tt Cons.IH by (auto split: option.splits if_splits sum.splits)
qed

lemma joins_taken_card:
  assumes "joins_taken keys s s'"
  shows "card (fmdom' (rs_buckets s')) + length keys = card (fmdom' (rs_buckets s))"
proof -
  have k: "distinct keys" "set keys \<subseteq> fmdom' (rs_buckets s)"
    "fmdom' (rs_buckets s') = fmdom' (rs_buckets s) - set keys"
    using assms by (auto simp: joins_taken_def dom_foldl_fmdrop)
  then have "length keys \<le> card (fmdom' (rs_buckets s))"
    using card_mono [of "fmdom' (rs_buckets s)" "set keys"] by (simp add: distinct_card)
  with k show ?thesis by (simp add: card_Diff_subset distinct_card)
qed

lemma joins_taken_trans:
  assumes "joins_taken xs s s1" "joins_taken ys s1 s2"
  shows "joins_taken (xs @ ys) s s2"
proof -
  have f: "map (\<lambda>i. activation_id (rs_nextActSeq s + int i)) [0..<length xs] @
      map (\<lambda>i. activation_id (rs_nextActSeq s + int (length xs) + int i)) [0..<length ys] =
      map (\<lambda>i. activation_id (rs_nextActSeq s + int i)) [0..<length xs + length ys]"
    by (rule nth_equalityI) (auto simp: nth_append)
  obtain new1 where n1: "rs_queue s1 = rs_queue s @ new1"
    "map (\<lambda>a. BucketKey (ac_node a) (ac_correlation a)) new1 = xs"
    "map ac_id new1 = map (\<lambda>i. activation_id (rs_nextActSeq s + int i)) [0..<length xs]"
    "list_all (\<lambda>a. ac_sourceSet a = []) new1"
    using assms(1) unfolding joins_taken_def by blast
  obtain new2 where n2: "rs_queue s2 = rs_queue s1 @ new2"
    "map (\<lambda>a. BucketKey (ac_node a) (ac_correlation a)) new2 = ys"
    "map ac_id new2 = map (\<lambda>i. activation_id (rs_nextActSeq s1 + int i)) [0..<length ys]"
    "list_all (\<lambda>a. ac_sourceSet a = []) new2"
    using assms(2) unfolding joins_taken_def by blast
  have s: "rs_buckets s1 = foldl (\<lambda>m k. fmdrop k m) (rs_buckets s) xs"
    "rs_buckets s2 = foldl (\<lambda>m k. fmdrop k m) (rs_buckets s1) ys" "distinct xs" "distinct ys"
    "set xs \<subseteq> fmdom' (rs_buckets s)" "set ys \<subseteq> fmdom' (rs_buckets s1)"
    "rs_nextActSeq s1 = rs_nextActSeq s + int (length xs)"
    "rs_nextActSeq s2 = rs_nextActSeq s1 + int (length ys)"
    using assms unfolding joins_taken_def by auto
  show ?thesis
    unfolding joins_taken_def
  proof (intro conjI exI [of _ "new1 @ new2"])
    show "map ac_id (new1 @ new2) =
        map (\<lambda>i. activation_id (rs_nextActSeq s + int i)) [0..<length (xs @ ys)]"
      using n1(3) n2(3) s(7) f by simp
  qed (use n1 n2 s in \<open>auto simp: dom_foldl_fmdrop\<close>)
qed

lemma materializeJoinPass_taken:
  assumes "materializeJoinPass ord c s = ((None, d), s')"
  shows "\<exists>keys. joins_taken keys s s' \<and> (d \<longleftrightarrow> keys \<noteq> [])"
  using materialize_keys_taken [OF assms [unfolded materializeJoinPass_def] joins_taken_refl] by simp

text \<open>
  A pass that materialized something left fewer buckets, so the loop ends; and because the
  set of keys changes with every repetition, one order argument covers any iteration order.
\<close>

function materializeReadyJoins ::
  "joinBucketKey order \<Rightarrow> compiled \<Rightarrow> runState \<Rightarrow> goerr option \<times> runState" where
  "materializeReadyJoins ord c state =
     (case materializeJoinPass ord c state of
        ((Some e, _), s1) \<Rightarrow> (Some e, s1)
      | ((None, materialized), s1) \<Rightarrow>
          if materialized then materializeReadyJoins ord c s1 else (None, s1))"
  by pat_completeness auto

termination
proof (relation "measure (\<lambda>(ord, c, s). card (fmdom' (rs_buckets s)))", goal_cases)
  case 1
  then show ?case by simp
next
  case (2 ord c s r s1 e d)
  then have "materializeJoinPass ord c s = ((None, True), s1)" by (cases r) auto
  then obtain keys where "joins_taken keys s s1" "keys \<noteq> []"
    using materializeJoinPass_taken by blast
  then show ?case using joins_taken_card [of keys s s1] by (cases keys) auto
qed

declare materializeReadyJoins.simps [simp del]

lemma materializeReadyJoins_taken:
  assumes "materializeReadyJoins ord c s = (None, s')"
  shows "\<exists>keys. joins_taken keys s s' \<and> materializeJoinPass ord c s' = ((None, False), s')"
  using assms
proof (induction ord c s rule: materializeReadyJoins.induct)
  case (1 ord c s)
  obtain o1 d s1 where p: "materializeJoinPass ord c s = ((o1, d), s1)" by (metis prod.exhaust)
  with "1.prems" have n: "o1 = None" by (auto simp: materializeReadyJoins.simps [of ord c s] split: option.splits)
  with p obtain keys where k: "joins_taken keys s s1" "d \<longleftrightarrow> keys \<noteq> []"
    using materializeJoinPass_taken by blast
  show ?case
  proof (cases d)
    case True
    with "1.prems" p n have "materializeReadyJoins ord c s1 = (None, s')"
      by (simp add: materializeReadyJoins.simps [of ord c s])
    from "1.IH" [OF p [symmetric] refl n True this] joins_taken_trans [OF k(1)] show ?thesis by blast
  next
    case False
    with "1.prems" p n have "s' = s1" by (simp add: materializeReadyJoins.simps [of ord c s])
    moreover have "materialize_keys c (range_keys ord (rs_buckets s)) False s = ((None, False), s1)"
      using p n False by (simp add: materializeJoinPass_def)
    then have "s1 = s" using materialize_keys_none_ready by blast
    ultimately show ?thesis using p n False by (auto intro!: exI [of _ "[]"])
  qed
qed

section \<open>A plan with a late predecessor\<close>

text \<open>
  \<open>e\<close> fans out to \<open>a\<close> and \<open>b\<close>; \<open>m\<close> joins \<open>a\<close> with the end of the chain \<open>b, c, d\<close>.
\<close>

definition plain_node :: "string \<Rightarrow> bool \<Rightarrow> node" where
  "plain_node name merge =
     \<lparr>nd_name = name, nd_inputType = (if merge then type_Inputs else type_any),
      nd_outputType = type_any, nd_join = None, nd_route = None, nd_merge = merge\<rparr>"

definition late_edges :: edge_map where
  "late_edges = fmap_of_list [(''e'', [''a'', ''b'']), (''a'', [''m'']), (''b'', [''c'']),
     (''c'', [''d'']), (''d'', [''m''])]"

definition late_plan :: compiled where
  "late_plan =
     \<lparr>co_name = ''late'',
      co_nodes = fmap_of_list (map (\<lambda>n. (n, plain_node n (n = ''m'')))
        [''e'', ''a'', ''b'', ''c'', ''d'', ''m'']),
      co_edges = late_edges,
      co_predecessors = fmap_of_list [(''a'', [''e'']), (''b'', [''e'']), (''c'', [''b'']),
        (''d'', [''c'']), (''m'', [''a'', ''d''])],
      co_entry = ''e'', co_exits = {|''m''|}, co_maxSteps = 100, co_maxParallelism = 2,
      co_routeMiddlewares = [], co_joinMiddlewares = [], co_topologyVersion = [],
      co_backEdges = {}, co_contextType = None, co_inputType = type_any,
      co_outputType = type_any\<rparr>"

definition plain_value :: govalue where
  "plain_value = VData (TConcrete ''int'' []) ''1''"

lemma dyn_plain [simp]: "dyn_type plain_value = Some (TConcrete ''int'' [])"
  by (simp add: plain_value_def)

lemma zero_state_queue [simp]: "rs_queue zero_state = []"
  by (simp add: zero_state_def)

lemma int_sum_simps [simp]: "int_sum [] = 0" "int_sum [n] = n"
  by (simp_all add: int_sum_def)

lemma fmap_values_single [simp]: "fmap_values fmempty = []" "fmap_values (fmupd k v fmempty) = [v]"
  by (simp_all add: fmap_values_def sorted_keys_upd)

text \<open>
  A join does not wait for a predecessor that is still to come. Let a node route its
  output to the join \<open>t\<close> alone, where no other predecessor of \<open>t\<close> has been scheduled yet in
  that correlation. After its successors are scheduled the join is ready, with its contribution only:
  a predecessor counts only from the moment at which one of its activations is queued.
\<close>

theorem join_ignores_late_predecessor:
  fixes c :: compiled and s :: runState and source :: activation and t :: string
  defines "k \<equiv> nextCorrelation (co_backEdges c) (ac_correlation source) (ac_node source) t"
  assumes "targets (co_edges c) (ac_node source) = [t]" "isJoinTarget c t"
    and "targets (co_predecessors c) t \<noteq> []"
    and "fmlookup (rs_buckets s) (BucketKey t k) = None"
    and "pendingJoinActivations c (BucketKey t k) (ac_node source) s = 1"
    and "list_all (\<lambda>p. p = ac_node source \<or> pendingJoinActivations c (BucketKey t k) p s = 0)
           (targets (co_predecessors c) t)"
  shows "case scheduleNext c source output zero_Dispatch s of (err, s') \<Rightarrow>
     err = None \<and> (\<exists>b. fmlookup (rs_buckets s') (BucketKey t k) = Some b \<and>
       jb_contributions b = fmupd (ac_node source) [output] fmempty \<and>
       joinReady c s' (BucketKey t k) b)"
proof -
  define b0 where "b0 = \<lparr>jb_contributions = fmupd (ac_node source) [output] fmempty,
    jb_expectations = fmempty :: (string, (string, int) fmap) fmap\<rparr>"
  define b where "b = \<lparr>jb_contributions = fmupd (ac_node source) [output] fmempty,
    jb_expectations = fmupd (ac_node source) (fmupd (ac_id source) (1 :: int) fmempty) fmempty\<rparr>"
  have v: "validateSource zero_Dispatch (ac_node source) = None" "policy_validate (dp_settle zero_Dispatch) = None"
    "\<not> dp_stop zero_Dispatch"
    "with_default_deliveries c source zero_Dispatch = zero_Dispatch\<lparr>dp_deliveries :=
       [zero_delivery\<lparr>dl_target := t, dl_useSourceOutput := True\<rparr>]\<rparr>"
    using assms(2) by (simp_all add: validateSource_def policy_validate_def zero_Dispatch_def with_default_deliveries_def)
  have p: "prepareSourceSet c source (zero_Dispatch\<lparr>dp_deliveries :=
       [zero_delivery\<lparr>dl_target := t, dl_useSourceOutput := True\<rparr>]\<rparr>) s = Inr (None, s)"
    using assms(3) by (simp add: prepareSourceSet_def activationDeliveryCount_def materializesActivation_def zero_delivery_def)
  define s1 where "s1 = put_bucket t k b0 (s\<lparr>rs_buckets := fmupd (BucketKey t k) empty_bucket (rs_buckets s)\<rparr>)"
  have l: "schedule_loop c source output [t] None [zero_delivery\<lparr>dl_target := t, dl_useSourceOutput := True\<rparr>] 0 0 s
      = (None, s1)"
    using assms(2-5) by (simp add: scheduleDelivery_def scheduleJoin_def addContribution_def zero_delivery_def
        join_bucket_def k_def [symmetric] s1_def b0_def empty_bucket_def)
  have sel: "selectedJoinTargets c (zero_Dispatch\<lparr>dp_deliveries :=
      [zero_delivery\<lparr>dl_target := t, dl_useSourceOutput := True\<rparr>]\<rparr>) = fmupd t 1 fmempty"
    using assms(3) by (simp add: selectedJoinTargets_def zero_delivery_def bump_def)
  have e: "closeJoinExpectations c source (zero_Dispatch\<lparr>dp_deliveries :=
      [zero_delivery\<lparr>dl_target := t, dl_useSourceOutput := True\<rparr>]\<rparr>) s1 = (None, put_bucket t k b s1)"
    using assms(2,3) by (simp add: closeJoinExpectations_def sel join_bucket_def k_def [symmetric]
        s1_def put_bucket_def b0_def b_def bucket_close_def Let_def count_of_def)
  have n: "scheduleNext c source output zero_Dispatch s = (None, put_bucket t k b s1)"
    using v p l e assms(2) by (simp add: scheduleNext_def Let_def del: schedule_loop.simps)
  have pend: "pendingJoinActivations c key p (put_bucket t k b' s1) = pendingJoinActivations c key p s" for key p b'
    by (simp add: pendingJoinActivations_def put_bucket_def s1_def)
  have "sourceReady p (pendingJoinActivations c (BucketKey t k) p s) b"
    if "p \<in> set (targets (co_predecessors c) t)" for p
    using that assms(6,7) by (cases "p = ac_node source") (auto simp: sourceReady_def b_def list_all_iff fcard_finsert_if)
  then have "joinReady c (put_bucket t k b s1) (BucketKey t k) b"
    using assms(4) by (simp add: joinReady_def pend list_all_iff b_def)
  then show ?thesis by (simp add: n put_bucket_def b_def)
qed

definition late_start :: "string \<Rightarrow> runState" where
  "late_start name = snd (enqueue \<lparr>er_target = name, er_input = plain_value, er_sourceSet = [],
     er_branchIndex = 0, er_correlation = CorrelationKey ''r'' 1\<rparr> zero_state)"

lemmas late_defs = late_plan_def late_edges_def late_start_def enqueue_def trackActivation_def
  trackCorrelation_def zero_state_def pendingJoinActivations_def nextCorrelation_def targets_def
  isJoinTarget_def hasMerge_def plain_node_def Let_def

theorem join_ignores_late_predecessor_witness:
  "targets (co_predecessors late_plan) ''m'' = [''a'', ''d''] \<and>
   (case scheduleNext late_plan (hd (rs_queue (late_start ''a''))) plain_value zero_Dispatch (late_start ''a'') of
     (err, s') \<Rightarrow> err = None \<and> (\<exists>b. fmlookup (rs_buckets s') (BucketKey ''m'' (CorrelationKey ''r'' 1)) = Some b \<and>
       jb_contributions b = fmupd ''a'' [plain_value] fmempty \<and>
       joinReady late_plan s' (BucketKey ''m'' (CorrelationKey ''r'' 1)) b))"
  using join_ignores_late_predecessor [of late_plan "hd (rs_queue (late_start ''a''))" "''m''" "late_start ''a''" plain_value]
  by (simp add: late_defs)


lemma enqueue_sourceSets:
  "rs_sourceSets (snd (enqueue req s)) =
     (case fmlookup (rs_sourceSets s) (er_sourceSet req) of
        None \<Rightarrow> rs_sourceSets s
      | Some sset \<Rightarrow> fmupd (er_sourceSet req)
          (sset\<lparr>ss_branches := ss_branches sset @ [activation_id (rs_nextActSeq s)]\<rparr>) (rs_sourceSets s))"
  by (simp add: enqueue_def Let_def trackActivation_def trackCorrelation_def split: option.split)

lemma join_bucket_simps [simp]:
  "join_bucket t k s = (b, s1) \<Longrightarrow> rs_queue s1 = rs_queue s"
  "join_bucket t k s = (b, s1) \<Longrightarrow> rs_sourceSets s1 = rs_sourceSets s"
  "join_bucket t k s = (b, s1) \<Longrightarrow> rs_nextActSeq s1 = rs_nextActSeq s"
  by (auto simp: join_bucket_def Let_def split: option.splits)

lemma put_bucket_simps [simp]:
  "rs_queue (put_bucket t k b s) = rs_queue s"
  "rs_sourceSets (put_bucket t k b s) = rs_sourceSets s"
  "rs_nextActSeq (put_bucket t k b s) = rs_nextActSeq s"
  by (simp_all add: put_bucket_def)

lemma close_expectations_frame:
  assumes "close_expectations c source sel ts s = (e, s')"
  shows "rs_queue s' = rs_queue s \<and> rs_sourceSets s' = rs_sourceSets s \<and> rs_nextActSeq s' = rs_nextActSeq s"
  using assms
  by (induction c source sel ts s rule: close_expectations.induct)
     (auto simp: Let_def split: if_splits prod.splits option.splits)

text \<open>What a delivery puts into the queue.\<close>

definition direct :: "compiled \<Rightarrow> delivery \<Rightarrow> bool" where
  "direct c d \<longleftrightarrow> dl_iter d = None \<and> materializesActivation c d"

definition delivered :: "govalue \<Rightarrow> delivery \<Rightarrow> govalue" where
  "delivered output d = (if dl_useSourceOutput d then output else dl_payload d)"

lemma scheduleDelivery_None:
  assumes "scheduleDelivery c req s = (None, s')"
  shows "dl_target (dr_item req) \<in> set (dr_edges req) \<and>
    (if direct c (dr_item req)
     then \<exists>r. s' = snd (enqueue r s) \<and> er_target r = dl_target (dr_item req) \<and>
       er_input r = delivered (dr_output req) (dr_item req) \<and>
       er_sourceSet r = dr_sourceSet req \<and> er_branchIndex r = dr_branchIndex req
     else rs_queue s' = rs_queue s \<and> rs_sourceSets s' = rs_sourceSets s \<and>
       rs_nextActSeq s' = rs_nextActSeq s)"
proof (cases "direct c (dr_item req)")
  case True
  then show ?thesis using assms
    by (force simp: scheduleDelivery_def direct_def materializesActivation_def delivered_def Let_def
        split: if_splits option.splits)
next
  case False
  then show ?thesis using assms
    by (auto simp: scheduleDelivery_def direct_def materializesActivation_def Let_def scheduleJoin_def
        addContribution_def scheduleIter_def bindLiveIterator_def
        split: if_splits option.splits sum.splits prod.splits)
qed

lemma schedule_loop_None:
  assumes "schedule_loop c source output edges (Some sid) items index bi s = (None, s')"
    and "fmlookup (rs_sourceSets s) sid = Some g"
  shows "set (map dl_target items) \<subseteq> set edges \<and>
    (\<exists>new. rs_queue s' = rs_queue s @ new \<and>
       map ac_node new = map dl_target (filter (direct c) items) \<and>
       map ac_input new = map (delivered output) (filter (direct c) items) \<and>
       map ac_id new = map (\<lambda>i. activation_id (rs_nextActSeq s + int i)) [0..<length new] \<and>
       map ac_branchIndex new = map (\<lambda>i. bi + int i) [0..<length new] \<and>
       list_all (\<lambda>a. ac_sourceSet a = sid) new \<and>
       rs_nextActSeq s' = rs_nextActSeq s + int (length new) \<and>
       rs_sourceSets s' = fmupd sid (g\<lparr>ss_branches := ss_branches g @ map ac_id new\<rparr>) (rs_sourceSets s))"
  using assms
proof (induction items arbitrary: index bi s g)
  case Nil
  have "rs_sourceSets s = fmupd sid g (rs_sourceSets s)"
    using Nil.prems(2) by (auto intro!: fmap_ext)
  with Nil show ?case by (auto intro!: exI [of _ "[]"])
next
  case (Cons item items)
  define req where "req = \<lparr>dr_source = source, dr_output = output, dr_edges = edges, dr_item = item,
    dr_sourceSet = (if dl_iter item \<noteq> None \<or> direct c item then sid else []),
    dr_branchIndex = (if direct c item then bi else 0), dr_deliveryIndex = index\<rparr>"
  obtain s1 where d: "scheduleDelivery c req s = (None, s1)"
    and l: "schedule_loop c source output edges (Some sid) items (index + 1)
      (if direct c item then bi + 1 else bi) s1 = (None, s')"
    using Cons.prems(1) by (auto simp: req_def direct_def Let_def cong: if_cong split: prod.splits option.splits)
  note sd = scheduleDelivery_None [OF d]
  show ?case
  proof (cases "direct c item")
    case False
    with sd have "rs_queue s1 = rs_queue s" "rs_sourceSets s1 = rs_sourceSets s"
      "rs_nextActSeq s1 = rs_nextActSeq s" "dl_target item \<in> set edges"
      by (simp_all add: req_def)
    with Cons.IH [OF l] Cons.prems(2) False show ?thesis by simp
  next
    case True
    with sd obtain r where r: "s1 = snd (enqueue r s)" "er_target r = dl_target item"
      "er_input r = delivered output item" "er_sourceSet r = sid" "er_branchIndex r = bi"
      "dl_target item \<in> set edges" by (auto simp: req_def)
    define g1 where "g1 = g\<lparr>ss_branches := ss_branches g @ [activation_id (rs_nextActSeq s)]\<rparr>"
    have s1: "rs_sourceSets s1 = fmupd sid g1 (rs_sourceSets s)"
      using r Cons.prems(2) by (simp add: enqueue_sourceSets g1_def)
    then have "fmlookup (rs_sourceSets s1) sid = Some g1" by simp
    from Cons.IH [OF l this] obtain new where n: "set (map dl_target items) \<subseteq> set edges"
      "rs_queue s' = rs_queue s1 @ new" "map ac_node new = map dl_target (filter (direct c) items)"
      "map ac_input new = map (delivered output) (filter (direct c) items)"
      "map ac_id new = map (\<lambda>i. activation_id (rs_nextActSeq s1 + int i)) [0..<length new]"
      "map ac_branchIndex new = map (\<lambda>i. bi + 1 + int i) [0..<length new]"
      "list_all (\<lambda>a. ac_sourceSet a = sid) new" "rs_nextActSeq s' = rs_nextActSeq s1 + int (length new)"
      "rs_sourceSets s' = fmupd sid (g1\<lparr>ss_branches := ss_branches g1 @ map ac_id new\<rparr>) (rs_sourceSets s1)"
      using True by auto
    have up: "map f [0..<Suc m] = f 0 # map (\<lambda>i. f (Suc i)) [0..<m]" for f :: "nat \<Rightarrow> 'z" and m
      by (simp add: upt_conv_Cons map_Suc_upt [symmetric] del: upt_Suc)
    show ?thesis
      using n r True s1 by (auto intro!: exI [of _ "fst (enqueue r s) # new"]
          simp: up g1_def add.assoc simp del: upt_Suc)
  qed
qed


lemma schedule_loop_no_set:
  assumes "schedule_loop c source output edges None items index bi s = (None, s')"
    and "filter (direct c) items = []"
  shows "set (map dl_target items) \<subseteq> set edges \<and> rs_queue s' = rs_queue s \<and>
    rs_sourceSets s' = rs_sourceSets s \<and> rs_nextActSeq s' = rs_nextActSeq s"
  using assms
proof (induction items arbitrary: index bi s)
  case Nil
  then show ?case by simp
next
  case (Cons item items)
  have nd: "\<not> direct c item" "filter (direct c) items = []" using Cons.prems(2) by (auto split: if_splits)
  from Cons.prems(1) obtain s1 where "scheduleDelivery c \<lparr>dr_source = source, dr_output = output,
      dr_edges = edges, dr_item = item, dr_sourceSet = [], dr_branchIndex = 0, dr_deliveryIndex = index\<rparr> s
      = (None, s1)" "schedule_loop c source output edges None items (index + 1) bi s1 = (None, s')"
    by (auto simp: Let_def split: prod.splits option.splits)
  with scheduleDelivery_None [OF this(1)] Cons.IH [OF this(2)] nd show ?case by auto
qed

text \<open>
  C19 (a dispatch is scheduled as written). When \<open>scheduleNext\<close> succeeds without a stop, every
  target is a declared edge; the queue grows by exactly one activation per plain delivery to
  an ordinary node, in the order of the deliveries, with consecutive new ids, their payloads, and
  the branch indices 0, 1, ...; these activations are the branches of one source set, which
  expects exactly them and one open source per iterator. Without such deliveries there is no
  source set.
\<close>

theorem dispatch_scheduled:
  assumes "scheduleNext c source output dispatch s = (None, s')" "\<not> dp_stop dispatch"
  shows "let ds = dp_deliveries (with_default_deliveries c source dispatch);
             plain = filter (direct c) ds;
             iters = filter (\<lambda>d. dl_iter d \<noteq> None) ds;
             sid = ''set-'' @ int_string (rs_nextSetSeq s) @ ''-'' @ ac_id source in
    set (map dl_target ds) \<subseteq> set (targets (co_edges c) (ac_node source)) \<and>
    (\<exists>new. rs_queue s' = rs_queue s @ new \<and>
       map ac_node new = map dl_target plain \<and>
       map ac_input new = map (delivered output) plain \<and>
       map ac_id new = map (\<lambda>i. activation_id (rs_nextActSeq s + int i)) [0..<length new] \<and>
       map ac_branchIndex new = map int [0..<length new] \<and>
       list_all (\<lambda>a. ac_sourceSet a = sid) new \<and>
       (if plain = [] \<and> iters = [] then rs_sourceSets s' = rs_sourceSets s
        else \<exists>g. rs_sourceSets s' = fmupd sid g (rs_sourceSets s) \<and>
          ss_branches g = map ac_id new \<and> ss_expected g = int (length new) \<and>
          ss_openSources g = int (length iters) \<and> ss_policy g = normalized (dp_settle dispatch) \<and>
          ss_outcomes g = fmempty \<and> \<not> ss_decided g \<and> \<not> ss_settled g))"
proof -
  define d where "d = with_default_deliveries c source dispatch"
  define plain where "plain = filter (direct c) (dp_deliveries d)"
  define iters where "iters = filter (\<lambda>d. dl_iter d \<noteq> None) (dp_deliveries d)"
  define sid where "sid = ''set-'' @ int_string (rs_nextSetSeq s) @ ''-'' @ ac_id source"
  have settle: "dp_settle d = dp_settle dispatch"
    by (simp add: d_def with_default_deliveries_def)
  from assms obtain sset s1 s2 where p: "prepareSourceSet c source d s = Inr (sset, s1)"
    and l: "schedule_loop c source output (targets (co_edges c) (ac_node source)) sset (dp_deliveries d) 0 0 s1 = (None, s2)"
    and e: "closeJoinExpectations c source d s2 = (None, s')"
    by (auto simp: scheduleNext_def d_def Let_def split: option.splits if_splits sum.splits prod.splits)
  have f: "rs_queue s' = rs_queue s2" "rs_sourceSets s' = rs_sourceSets s2"
    using close_expectations_frame [OF e [unfolded closeJoinExpectations_def]] by auto
  have cnt: "activationDeliveryCount c (dp_deliveries d) = (int (length plain), int (length iters))"
    by (simp add: activationDeliveryCount_def plain_def iters_def direct_def [abs_def])
  show ?thesis
  proof (cases "plain = [] \<and> iters = []")
    case True
    then have "sset = None" "s1 = s" using p cnt by (auto simp: prepareSourceSet_def)
    with schedule_loop_no_set [OF l [unfolded \<open>sset = None\<close>]] True f show ?thesis
      unfolding Let_def d_def [symmetric] plain_def [symmetric] iters_def [symmetric]
      by (intro conjI exI [of _ "[]"]) (auto simp: plain_def)
  next
    case False
    define g0 where "g0 = \<lparr>ss_id = sid, ss_policy = normalized (dp_settle d), ss_expected = int (length plain),
      ss_branches = [], ss_outcomes = fmempty, ss_selected = [], ss_decided = False, ss_settled = False,
      ss_failed = False, ss_openSources = int (length iters), ss_cause = None\<rparr>"
    have s1: "sset = Some sid" "rs_queue s1 = rs_queue s" "rs_nextActSeq s1 = rs_nextActSeq s"
      "rs_sourceSets s1 = fmupd sid g0 (rs_sourceSets s)"
      using p False cnt by (auto simp: prepareSourceSet_def newSourceSet_def sid_def g0_def Let_def)
    then have "fmlookup (rs_sourceSets s1) sid = Some g0" by simp
    from schedule_loop_None [OF l [unfolded s1(1)] this] obtain new where n:
      "set (map dl_target (dp_deliveries d)) \<subseteq> set (targets (co_edges c) (ac_node source))"
      "rs_queue s2 = rs_queue s @ new" "map ac_node new = map dl_target plain"
      "map ac_input new = map (delivered output) plain"
      "map ac_id new = map (\<lambda>i. activation_id (rs_nextActSeq s + int i)) [0..<length new]"
      "map ac_branchIndex new = map int [0..<length new]" "list_all (\<lambda>a. ac_sourceSet a = sid) new"
      "rs_sourceSets s2 = fmupd sid (g0\<lparr>ss_branches := map ac_id new\<rparr>) (rs_sourceSets s)"
      by (auto simp: s1 plain_def g0_def)
    have len: "length plain = length new" using n(3) by (metis length_map)
    show ?thesis
      unfolding Let_def d_def [symmetric] plain_def [symmetric] iters_def [symmetric] sid_def [symmetric]
      using n f False len settle
      by (intro conjI exI [of _ new]) (auto simp: g0_def intro!: exI [of _ "g0\<lparr>ss_branches := map ac_id new\<rparr>"])
  qed
qed

theorem dispatch_scheduled_witness:
  "\<exists>new. rs_queue (snd (scheduleNext late_plan (hd (rs_queue (late_start ''b''))) plain_value
       zero_Dispatch (late_start ''b''))) = rs_queue (late_start ''b'') @ new \<and>
     map ac_node new = [''c''] \<and> map ac_input new = [plain_value] \<and>
     map ac_branchIndex new = map int [0..<length new]"
proof -
  define b where "b = hd (rs_queue (late_start ''b''))"
  define s where "s = late_start ''b''"
  have b: "ac_node b = ''b''" by (simp add: b_def late_start_def)
  have d: "dp_deliveries (with_default_deliveries late_plan b zero_Dispatch) =
      [zero_delivery\<lparr>dl_target := ''c'', dl_useSourceOutput := True\<rparr>]"
    by (simp add: with_default_deliveries_def zero_Dispatch_def b targets_def late_plan_def late_edges_def)
  have j: "\<not> isJoinTarget late_plan ''c''" "fmlookup (co_nodes late_plan) ''c'' = Some (plain_node ''c'' False)"
    "targets (co_edges late_plan) ''b'' = [''c'']"
    by (simp_all add: isJoinTarget_def hasJoin_def hasMerge_def late_plan_def late_edges_def plain_node_def targets_def)
  have p: "prepareSourceSet late_plan b (with_default_deliveries late_plan b zero_Dispatch) s \<noteq> Inl e" for e
    by (simp add: prepareSourceSet_def d activationDeliveryCount_def materializesActivation_def j zero_delivery_def
        with_default_deliveries_def zero_Dispatch_def normalized_def required_def SettleAll_def newSourceSet_def Let_def)
  have "fst (schedule_loop late_plan b plain_value [''c''] sset
      [zero_delivery\<lparr>dl_target := ''c'', dl_useSourceOutput := True\<rparr>] 0 0 s1) = None" for sset s1
    by (simp add: scheduleDelivery_def j zero_delivery_def validateActivationPayload_def plain_node_def Let_def)
  moreover have "fst (closeJoinExpectations late_plan b d' s1) = None" for d' s1
    by (simp add: closeJoinExpectations_def b j)
  ultimately have lc: "\<exists>s2. schedule_loop late_plan b plain_value [''c''] sset
      [zero_delivery\<lparr>dl_target := ''c'', dl_useSourceOutput := True\<rparr>] 0 0 s1 = (None, s2)"
    "\<exists>s2. closeJoinExpectations late_plan b d' s1 = (None, s2)" for sset d' s1
    by (metis prod.collapse)+
  obtain r where r: "prepareSourceSet late_plan b (with_default_deliveries late_plan b zero_Dispatch) s = Inr r"
    using p by (cases "prepareSourceSet late_plan b (with_default_deliveries late_plan b zero_Dispatch) s") auto
  have v: "validateSource zero_Dispatch (ac_node b) = None" "policy_validate (dp_settle zero_Dispatch) = None"
    "\<not> dp_stop zero_Dispatch"
    by (simp_all add: validateSource_def policy_validate_def zero_Dispatch_def)
  obtain sset s1 where r': "r = (sset, s1)" by force
  obtain s2 where s2: "schedule_loop late_plan b plain_value [''c''] sset
      [zero_delivery\<lparr>dl_target := ''c'', dl_useSourceOutput := True\<rparr>] 0 0 s1 = (None, s2)"
    using lc(1) by blast
  obtain s3 where s3: "closeJoinExpectations late_plan b (with_default_deliveries late_plan b zero_Dispatch) s2 = (None, s3)"
    using lc(2) by blast
  have "fst (scheduleNext late_plan b plain_value zero_Dispatch s) = None"
    unfolding scheduleNext_def Let_def v d r r'
    by (simp only: option.case if_False sum.case prod.case b j(3) s2 s3 fst_conv v)
  then have "scheduleNext late_plan b plain_value zero_Dispatch s =
      (None, snd (scheduleNext late_plan b plain_value zero_Dispatch s))" by (metis prod.collapse)
  from dispatch_scheduled [OF this] obtain new where n:
    "rs_queue (snd (scheduleNext late_plan b plain_value zero_Dispatch s)) = rs_queue s @ new"
    "map ac_node new = map dl_target (filter (direct late_plan)
       [zero_delivery\<lparr>dl_target := ''c'', dl_useSourceOutput := True\<rparr>])"
    "map ac_input new = map (delivered plain_value) (filter (direct late_plan)
       [zero_delivery\<lparr>dl_target := ''c'', dl_useSourceOutput := True\<rparr>])"
    "map ac_branchIndex new = map int [0..<length new]"
    unfolding Let_def d by (auto simp: zero_Dispatch_def)
  have "direct late_plan (zero_delivery\<lparr>dl_target := ''c'', dl_useSourceOutput := True\<rparr>)"
    by (simp add: direct_def zero_delivery_def materializesActivation_def j)
  with n show ?thesis
    unfolding b_def s_def by (intro exI [of _ new]) (simp add: delivered_def)
qed


definition joined_state :: runState where
  "joined_state = zero_state\<lparr>rs_buckets := fmupd (BucketKey ''m'' (CorrelationKey ''r'' 1))
     \<lparr>jb_contributions = fmupd ''a'' [plain_value] fmempty,
      jb_expectations = fmupd ''a'' (fmupd ''act-0'' 1 fmempty) fmempty\<rparr> fmempty,
     rs_correlations := fmupd (CorrelationKey ''r'' 1) (fmupd ''a'' 1 fmempty) fmempty\<rparr>"

lemma joined_once:
  "materializeReadyJoins (\<lambda>ks. ks) late_plan joined_state =
     (None, snd (materializeReadyJoins (\<lambda>ks. ks) late_plan joined_state))"
  "rs_queue (snd (materializeReadyJoins (\<lambda>ks. ks) late_plan joined_state)) \<noteq> []"
proof -
  define m where "m = BucketKey ''m'' (CorrelationKey ''r'' 1)"
  define b where "b = \<lparr>jb_contributions = fmupd ''a'' [plain_value] fmempty,
      jb_expectations = fmupd ''a'' (fmupd ''act-0'' (1 :: int) fmempty) fmempty\<rparr>"
  have k: "range_keys (\<lambda>ks. ks) (rs_buckets joined_state) = [m]"
    by (simp add: joined_state_def range_keys_def sorted_keys_upd m_def)
  have l: "fmlookup (rs_buckets joined_state) m = Some b"
    by (simp add: joined_state_def m_def b_def)
  have r: "joinReady late_plan joined_state m b"
    by (simp add: joinReady_def b_def m_def late_plan_def targets_def sourceReady_def joined_state_def
        pendingJoinActivations_def count_of_def fcard_finsert_if)
  obtain s1 where j: "materializeJoin late_plan m b joined_state = Inr s1"
    by (simp add: materializeJoin_def m_def joinInput_def late_plan_def plain_node_def hasJoin_def applyJoinMiddlewares_def Let_def)
  obtain item where i: "rs_buckets s1 = fmdrop m (rs_buckets joined_state)" "rs_queue s1 = rs_queue joined_state @ [item]"
    using materializeJoin_Inr [OF j] by metis
  have p1: "materializeJoinPass (\<lambda>ks. ks) late_plan joined_state = ((None, True), s1)"
    by (simp add: materializeJoinPass_def k l r j)
  have "rs_buckets s1 = fmempty" using i by (simp add: joined_state_def m_def fmdrop_fmupd)
  then have p2: "materializeJoinPass (\<lambda>ks. ks) late_plan s1 = ((None, False), s1)"
    by (simp add: materializeJoinPass_def range_keys_def)
  have "materializeReadyJoins (\<lambda>ks. ks) late_plan joined_state = (None, s1)"
    by (simp add: materializeReadyJoins.simps [of "\<lambda>ks. ks" late_plan] p1 p2)
  then show "materializeReadyJoins (\<lambda>ks. ks) late_plan joined_state =
     (None, snd (materializeReadyJoins (\<lambda>ks. ks) late_plan joined_state))"
    "rs_queue (snd (materializeReadyJoins (\<lambda>ks. ks) late_plan joined_state)) \<noteq> []"
    using i by simp_all
qed


end
