(* ===== verification/Codec.thy ===== *)
theory Codec
  imports Schedule Store
begin

text \<open>
  What a checkpoint keeps of a run (\<open>activation_checkpoint.go\<close>, \<open>settle_checkpoint.go\<close>,
  \<open>join_checkpoint.go\<close>, \<open>iter_checkpoint.go\<close> and the payload of \<open>workflow.go\<close>): the encoded forms,
  the payload with its metadata, and the run state that a payload restores. The gob
  encoder is a parameter that says whether a payload can be encoded and how long it gets.
\<close>

section \<open>Values and causes\<close>

record checkpointValue =
  cv_Value :: govalue
  cv_Inputs :: Inputs
  cv_HasInputs :: bool

definition zero_checkpointValue :: checkpointValue where
  "zero_checkpointValue = \<lparr>cv_Value = VNil, cv_Inputs = fmempty, cv_HasInputs = False\<rparr>"

definition newCheckpointValue :: "govalue \<Rightarrow> checkpointValue" where
  "newCheckpointValue value =
     (case value of
        VInputs m \<Rightarrow> \<lparr>cv_Value = VNil, cv_Inputs = m, cv_HasInputs = True\<rparr>
      | v \<Rightarrow> \<lparr>cv_Value = v, cv_Inputs = fmempty, cv_HasInputs = False\<rparr>)"

definition value_runtime :: "checkpointValue \<Rightarrow> govalue" where
  "value_runtime value = (if cv_HasInputs value then VInputs (cv_Inputs value) else cv_Value value)"

text \<open>An error is stored as its text, and an empty text is no error.\<close>

definition cause_text :: "goerr option \<Rightarrow> string" where
  "cause_text cause = (case cause of None \<Rightarrow> [] | Some e \<Rightarrow> err_text e)"

definition cause_runtime :: "string \<Rightarrow> goerr option" where
  "cause_runtime text = (if text = [] then None else Some (Msg text))"

section \<open>Activations\<close>

record checkpointActivation =
  ca_ID :: string
  ca_Node :: string
  ca_Input :: govalue
  ca_SourceSet :: string
  ca_BranchIndex :: int
  ca_Correlation :: CorrelationKey
  ca_JoinInput :: Inputs
  ca_HasJoinInput :: bool

definition activation_checkpoint :: "activation \<Rightarrow> checkpointActivation" where
  "activation_checkpoint item =
     (let v = newCheckpointValue (ac_input item) in
      \<lparr>ca_ID = ac_id item, ca_Node = ac_node item, ca_Input = cv_Value v,
       ca_SourceSet = ac_sourceSet item, ca_BranchIndex = ac_branchIndex item,
       ca_Correlation = ac_correlation item, ca_JoinInput = cv_Inputs v,
       ca_HasJoinInput = cv_HasInputs v\<rparr>)"

definition activation_runtime :: "checkpointActivation \<Rightarrow> activation" where
  "activation_runtime item =
     (let v = \<lparr>cv_Value = ca_Input item, cv_Inputs = ca_JoinInput item,
               cv_HasInputs = ca_HasJoinInput item\<rparr> in
      \<lparr>ac_id = ca_ID item, ac_node = ca_Node item, ac_input = value_runtime v,
       ac_sourceSet = ca_SourceSet item, ac_branchIndex = ca_BranchIndex item,
       ac_correlation = ca_Correlation item\<rparr>)"

record checkpointActivationState =
  cs_Activation :: checkpointActivation
  cs_Phase :: activationPhase
  cs_Attempt :: int
  cs_NodeExecutionVersion :: int
  cs_Origin :: string
  cs_ContextRevision :: int
  cs_EffectiveInput :: checkpointValue
  cs_HasInput :: bool
  cs_Result :: checkpointValue
  cs_HasResult :: bool
  cs_Skipped :: bool
  cs_Cause :: string

definition record_checkpoint :: "activationRecord \<Rightarrow> checkpointActivationState" where
  "record_checkpoint r =
     \<lparr>cs_Activation = activation_checkpoint (ar_activation r), cs_Phase = ar_phase r,
      cs_Attempt = ar_attempt r, cs_NodeExecutionVersion = ar_nodeExecutionVersion r,
      cs_Origin = ar_origin r, cs_ContextRevision = ar_contextRevision r,
      cs_EffectiveInput = (if nr_hasInput (ar_result r) then newCheckpointValue (nr_input (ar_result r))
                           else zero_checkpointValue),
      cs_HasInput = nr_hasInput (ar_result r),
      cs_Result = (if ar_hasResult r then newCheckpointValue (nr_output (ar_result r))
                   else zero_checkpointValue),
      cs_HasResult = ar_hasResult r, cs_Skipped = nr_skipped (ar_result r),
      cs_Cause = cause_text (ar_cause r)\<rparr>"

definition record_runtime :: "checkpointActivationState \<Rightarrow> activationRecord" where
  "record_runtime encoded =
     \<lparr>ar_activation = activation_runtime (cs_Activation encoded), ar_phase = cs_Phase encoded,
      ar_attempt = cs_Attempt encoded, ar_nodeExecutionVersion = cs_NodeExecutionVersion encoded,
      ar_origin = (if cs_Origin encoded = [] then ''natural'' else cs_Origin encoded),
      ar_contextRevision = cs_ContextRevision encoded,
      ar_result = zero_result\<lparr>nr_input := value_runtime (cs_EffectiveInput encoded),
        nr_hasInput := cs_HasInput encoded, nr_output := value_runtime (cs_Result encoded),
        nr_skipped := cs_Skipped encoded\<rparr>,
      ar_hasResult = cs_HasResult encoded, ar_cause = cause_runtime (cs_Cause encoded)\<rparr>"

definition checkpointActivations :: "runState \<Rightarrow> checkpointActivationState list" where
  "checkpointActivations state = map record_checkpoint (fmap_values (rs_activations state))"

definition restoreActivation :: "runState \<Rightarrow> activationRecord \<Rightarrow> runState" where
  "restoreActivation state r =
     (let node = ac_node (ar_activation r) in
      state\<lparr>rs_activations := fmupd (ac_id (ar_activation r)) r (rs_activations state),
            rs_nodeVersions := fmupd node
              (max (count_of (rs_nodeVersions state) node) (ar_nodeExecutionVersion r))
              (rs_nodeVersions state)\<rparr>)"

definition restoreActivations :: "checkpointActivationState list \<Rightarrow> runState \<Rightarrow> runState" where
  "restoreActivations records state = foldl restoreActivation state (map record_runtime records)"

section \<open>Source sets\<close>

record checkpointBranchOutcome =
  co_Activation :: checkpointActivation
  co_Output :: checkpointValue
  co_Skipped :: bool
  co_Cause :: string
  co_Phase :: branchPhase
  co_Completion :: int
  co_Committed :: bool

record checkpointSourceSet =
  cset_ID :: string
  cset_PolicyMode :: string
  cset_PolicyQuorum :: int
  cset_Expected :: int
  cset_Branches :: "string list"
  cset_Outcomes :: "checkpointBranchOutcome list"
  cset_Selected :: "string list"
  cset_Decided :: bool
  cset_Settled :: bool
  cset_Failed :: bool
  cset_OpenSources :: int
  cset_Cause :: string

definition outcome_checkpoint :: "branchOutcome \<Rightarrow> checkpointBranchOutcome" where
  "outcome_checkpoint out =
     \<lparr>co_Activation = activation_checkpoint (bo_activation out),
      co_Output = newCheckpointValue (nr_output (bo_result out)),
      co_Skipped = nr_skipped (bo_result out), co_Cause = cause_text (bo_cause out),
      co_Phase = bo_phase out, co_Completion = bo_completion out, co_Committed = bo_committed out\<rparr>"

definition outcome_runtime :: "checkpointBranchOutcome \<Rightarrow> branchOutcome" where
  "outcome_runtime item =
     \<lparr>bo_activation = activation_runtime (co_Activation item),
      bo_result = zero_result\<lparr>nr_output := value_runtime (co_Output item), nr_skipped := co_Skipped item\<rparr>,
      bo_cause = cause_runtime (co_Cause item), bo_phase = co_Phase item,
      bo_completion = co_Completion item, bo_committed = co_Committed item\<rparr>"

definition set_checkpoint :: "sourceSet \<Rightarrow> checkpointSourceSet" where
  "set_checkpoint sset =
     \<lparr>cset_ID = ss_id sset, cset_PolicyMode = sp_mode (ss_policy sset),
      cset_PolicyQuorum = sp_quorum (ss_policy sset), cset_Expected = ss_expected sset,
      cset_Branches = ss_branches sset,
      cset_Outcomes = map outcome_checkpoint (fmap_values (ss_outcomes sset)),
      cset_Selected = ss_selected sset, cset_Decided = ss_decided sset,
      cset_Settled = ss_settled sset, cset_Failed = ss_failed sset,
      cset_OpenSources = ss_openSources sset, cset_Cause = cause_text (ss_cause sset)\<rparr>"

definition set_runtime :: "checkpointSourceSet \<Rightarrow> sourceSet" where
  "set_runtime item =
     \<lparr>ss_id = cset_ID item,
      ss_policy = \<lparr>sp_mode = cset_PolicyMode item, sp_quorum = cset_PolicyQuorum item\<rparr>,
      ss_expected = cset_Expected item, ss_branches = cset_Branches item,
      ss_outcomes = fmap_by (\<lambda>out. ac_id (bo_activation out)) (map outcome_runtime (cset_Outcomes item)),
      ss_selected = cset_Selected item,
      ss_decided = (cset_Decided item \<or> cset_Selected item \<noteq> []),
      ss_settled = cset_Settled item, ss_failed = cset_Failed item,
      ss_openSources = cset_OpenSources item, ss_cause = cause_runtime (cset_Cause item)\<rparr>"

definition checkpointSourceSets :: "runState \<Rightarrow> checkpointSourceSet list" where
  "checkpointSourceSets state = map set_checkpoint (fmap_values (rs_sourceSets state))"

fun activationPhaseForBranch :: "branchPhase \<Rightarrow> activationPhase" where
  "activationPhaseForBranch branchCompleted = activationCompleted"
| "activationPhaseForBranch branchSuperseded = activationCompleted"
| "activationPhaseForBranch branchFailed = activationFailed"
| "activationPhaseForBranch branchSkipped = activationSkipped"
| "activationPhaseForBranch branchCanceled = activationCanceled"
| "activationPhaseForBranch _ = activationReady"

definition branch_record :: "branchOutcome \<Rightarrow> activationRecord" where
  "branch_record out =
     \<lparr>ar_activation = bo_activation out, ar_phase = activationPhaseForBranch (bo_phase out),
      ar_attempt = 1, ar_nodeExecutionVersion = 0, ar_origin = [], ar_contextRevision = 0,
      ar_result = bo_result out, ar_hasResult = (bo_cause out = None), ar_cause = bo_cause out\<rparr>"

text \<open>Outcomes without an activation record get one; each key is handled on its own.\<close>

definition restoreBranchActivations :: "sourceSet \<Rightarrow> runState \<Rightarrow> runState" where
  "restoreBranchActivations sset state =
     state\<lparr>rs_activations := fmmap branch_record (ss_outcomes sset) ++\<^sub>f rs_activations state\<rparr>"

definition restoreSourceSet :: "runState \<Rightarrow> checkpointSourceSet \<Rightarrow> runState" where
  "restoreSourceSet state item =
     (let sset = set_runtime item in
      restoreBranchActivations sset
        (state\<lparr>rs_sourceSets := fmupd (ss_id sset) sset (rs_sourceSets state)\<rparr>))"

definition restoreSourceSets :: "checkpointSourceSet list \<Rightarrow> runState \<Rightarrow> runState" where
  "restoreSourceSets items state =
     (let s = foldl restoreSourceSet state items in
      if rs_nextSetSeq s \<le> 0 then s\<lparr>rs_nextSetSeq := 1\<rparr> else s)"

section \<open>Joins and iterators\<close>

record checkpointJoinBucket =
  cj_Target :: string
  cj_Correlation :: CorrelationKey
  cj_Contributions :: "(string, govalue list) fmap"
  cj_Expectations :: "(string, (string, int) fmap) fmap"

text \<open>The keys are listed in the order of \<open>joinBucketLess\<close>, which is their \<open>linorder\<close>.\<close>

definition checkpointJoinBuckets :: "(joinBucketKey, joinBucket) fmap \<Rightarrow> checkpointJoinBucket list" where
  "checkpointJoinBuckets m =
     map (\<lambda>key. let bucket = the (fmlookup m key) in
            \<lparr>cj_Target = bk_target key, cj_Correlation = bk_corr key,
             cj_Contributions = jb_contributions bucket, cj_Expectations = jb_expectations bucket\<rparr>)
       (sorted_keys m)"

definition restoreJoinBucket :: "runState \<Rightarrow> checkpointJoinBucket \<Rightarrow> runState" where
  "restoreJoinBucket state encoded =
     (let (bucket, s1) = join_bucket (cj_Target encoded) (cj_Correlation encoded) state in
      put_bucket (cj_Target encoded) (cj_Correlation encoded)
        (bucket\<lparr>jb_contributions := cj_Contributions encoded,
                jb_expectations := cj_Expectations encoded\<rparr>) s1)"

definition restoreJoinBuckets :: "checkpointJoinBucket list \<Rightarrow> runState \<Rightarrow> runState" where
  "restoreJoinBuckets buckets state = foldl restoreJoinBucket state buckets"

record checkpointIterSource =
  ci_ID :: string
  ci_SourceID :: string
  ci_Target :: string
  ci_SourceSet :: string
  ci_DeliveryIndex :: int
  ci_Pulled :: int
  ci_Cursor :: checkpointValue
  ci_HasCursor :: bool
  ci_Replay :: bool
  ci_Open :: bool
  ci_Cause :: string

definition iter_checkpoint :: "iterSource \<Rightarrow> checkpointIterSource" where
  "iter_checkpoint source =
     \<lparr>ci_ID = is_id source, ci_SourceID = is_sourceID source, ci_Target = is_target source,
      ci_SourceSet = is_sourceSet source, ci_DeliveryIndex = is_deliveryIndex source,
      ci_Pulled = is_pulled source, ci_Cursor = newCheckpointValue (is_cursor source),
      ci_HasCursor = is_hasCursor source, ci_Replay = is_replay source, ci_Open = is_open source,
      ci_Cause = cause_text (is_cause source)\<rparr>"

definition iter_runtime :: "checkpointIterSource \<Rightarrow> iterSource" where
  "iter_runtime encoded =
     \<lparr>is_id = ci_ID encoded, is_sourceID = ci_SourceID encoded, is_target = ci_Target encoded,
      is_sourceSet = ci_SourceSet encoded, is_deliveryIndex = ci_DeliveryIndex encoded,
      is_pulled = ci_Pulled encoded, is_cursor = value_runtime (ci_Cursor encoded),
      is_hasCursor = ci_HasCursor encoded, is_replay = ci_Replay encoded, is_open = ci_Open encoded,
      is_cause = cause_runtime (ci_Cause encoded)\<rparr>"

definition checkpointIterSources :: "runState \<Rightarrow> checkpointIterSource list" where
  "checkpointIterSources state = map iter_checkpoint (fmap_values (rs_iterSources state))"

definition restoreIterSource :: "runState \<Rightarrow> checkpointIterSource \<Rightarrow> runState" where
  "restoreIterSource state encoded =
     (let source = iter_runtime encoded in
      state\<lparr>rs_iterSources := fmupd (is_id source) source (rs_iterSources state)\<rparr>)"

definition restoreIterSources :: "checkpointIterSource list \<Rightarrow> runState \<Rightarrow> runState" where
  "restoreIterSources sources state =
     (let s = foldl restoreIterSource state sources in
      if rs_nextIterSeq s \<le> 0 then s\<lparr>rs_nextIterSeq := 1\<rparr> else s)"

section \<open>The payload\<close>

record checkpointInterrupt =
  ct_Request :: InterruptRequest
  ct_GuardName :: string
  ct_Phase :: GuardPhase
  ct_NodeName :: string
  ct_ActivationID :: string
  ct_ChildRunID :: string
  ct_ChildCheckpointID :: string
  ct_CandidateOutput :: govalue
  ct_HasCandidateOutput :: bool

record checkpointInterruptProgress =
  pr_Events :: "Event list"
  pr_Next :: int

record checkpointInterruptResolution =
  cr_InterruptID :: string
  cr_PayloadRef :: string
  cr_GuardName :: string
  cr_Phase :: GuardPhase
  cr_NodeName :: string
  cr_ActivationID :: string
  cr_ChildRunID :: string
  cr_ChildCheckpointID :: string
  cr_CandidateOutput :: govalue
  cr_HasCandidateOutput :: bool

text \<open>Go strings are used as statuses; the empty one stands for no pending terminal status.\<close>

record checkpointPayloadMeta =
  pm_SchemaVersion :: int
  pm_WorkflowName :: string
  pm_TopologyVersion :: string
  pm_OwnerID :: string
  pm_LeaseExpiresAt :: gotime
  pm_ClaimSequence :: int
  pm_EventCursor :: int
  pm_PendingEvent :: "Event option"
  pm_PendingTerm :: "CheckpointStatus option"
  pm_PendingInterrupts :: "checkpointInterrupt list"
  pm_InterruptProgress :: "checkpointInterruptProgress option"
  pm_ResolvedInterrupts :: "checkpointInterruptResolution list"
  pm_ExecutionEpoch :: int
  pm_ControlOrigin :: string
  pm_SourceRevisionID :: string
  pm_SourceRunID :: string
  pm_SourceEventSeq :: int

record checkpointPayload =
  pl_Meta :: checkpointPayloadMeta
  pl_Queue :: "checkpointActivation list"
  pl_Activations :: "checkpointActivationState list"
  pl_NextActSeq :: int
  pl_NextSetSeq :: int
  pl_NextIterSeq :: int
  pl_NextCompletion :: int
  pl_Scheduled :: "(string, int) fmap"
  pl_Completed :: "(string, int) fmap"
  pl_JoinBuckets :: "checkpointJoinBucket list"
  pl_Correlations :: "(CorrelationKey, (string, int) fmap) fmap"
  pl_SourceSets :: "checkpointSourceSet list"
  pl_IterSources :: "checkpointIterSource list"
  pl_Outputs :: "govalue list"
  pl_NextStep :: int
  pl_WorkflowContext :: checkpointValue
  pl_HasContext :: bool
  pl_ContextRevision :: int

definition make_payload ::
  "runState \<Rightarrow> govalue list \<Rightarrow> int \<Rightarrow> checkpointPayloadMeta \<Rightarrow> checkpointPayload" where
  "make_payload state outputs nextStep meta =
     \<lparr>pl_Meta = meta,
      pl_Queue = map activation_checkpoint (rs_queue state),
      pl_Activations = checkpointActivations state,
      pl_NextActSeq = rs_nextActSeq state, pl_NextSetSeq = rs_nextSetSeq state,
      pl_NextIterSeq = rs_nextIterSeq state, pl_NextCompletion = rs_nextCompletion state,
      pl_Scheduled = rs_scheduled state, pl_Completed = rs_completed state,
      pl_JoinBuckets = checkpointJoinBuckets (rs_buckets state),
      pl_Correlations = rs_correlations state,
      pl_SourceSets = checkpointSourceSets state, pl_IterSources = checkpointIterSources state,
      pl_Outputs = outputs, pl_NextStep = nextStep,
      pl_WorkflowContext = newCheckpointValue (rs_workflowContext state),
      pl_HasContext = rs_hasContext state, pl_ContextRevision = rs_contextRevision state\<rparr>"

text \<open>
  The encoder: None when gob refuses a value, otherwise the number of bytes. \<open>Gob\<close> bytes of an
  encoded payload decode to that payload.
\<close>

type_synonym gob_size = "checkpointPayload \<Rightarrow> nat option"

definition encodeCheckpointPayloadWithMeta ::
  "gob_size \<Rightarrow> runState \<Rightarrow> govalue list \<Rightarrow> int \<Rightarrow> checkpointPayloadMeta
   \<Rightarrow> goerr + checkpointPayload gobbytes" where
  "encodeCheckpointPayloadWithMeta gob state outputs nextStep meta =
     (let payload = make_payload state outputs nextStep meta in
      case gob payload of
        None \<Rightarrow> Inl (Msg ''workflow: encode checkpoint payload'')
      | Some n \<Rightarrow>
          if n > maxWorkflowCheckpointPayloadBytes
            then Inl (Msg ''workflow: checkpoint payload is too large'')
          else Inr (Gob n (Some payload)))"

definition decodeCheckpointPayload :: "checkpointPayload gobbytes \<Rightarrow> goerr + checkpointPayload" where
  "decodeCheckpointPayload payload =
     (if blen payload = 0 then Inl (Msg ''workflow: checkpoint payload is empty'')
      else if blen payload > maxWorkflowCheckpointPayloadBytes
        then Inl (Msg ''workflow: checkpoint payload is too large'')
      else (case bcontent payload of
          None \<Rightarrow> Inl (Wrap ''decode checkpoint payload'' [Sentinel ErrInvalidCheckpoint])
        | Some p \<Rightarrow> Inr p))"

definition decodeCheckpointPayloadMeta ::
  "checkpointPayload gobbytes \<Rightarrow> goerr + checkpointPayloadMeta" where
  "decodeCheckpointPayloadMeta payload =
     andthen (decodeCheckpointPayload payload) (\<lambda>p. Inr (pl_Meta p))"

section \<open>Restoring the state\<close>

definition payload_start :: "checkpointPayload \<Rightarrow> runState" where
  "payload_start p =
     (let s = zero_state
        \<lparr>rs_nextActSeq := pl_NextActSeq p, rs_nextSetSeq := pl_NextSetSeq p,
         rs_nextIterSeq := pl_NextIterSeq p, rs_nextCompletion := pl_NextCompletion p,
         rs_scheduled := pl_Scheduled p, rs_completed := pl_Completed p,
         rs_correlations := pl_Correlations p,
         rs_workflowContext := value_runtime (pl_WorkflowContext p),
         rs_hasContext := pl_HasContext p, rs_contextRevision := pl_ContextRevision p\<rparr>
      in if rs_hasContext s \<and> rs_contextRevision s \<le> 0 then s\<lparr>rs_contextRevision := 1\<rparr> else s)"

fun restore_queue :: "checkpointActivation list \<Rightarrow> int \<Rightarrow> runState \<Rightarrow> runState" where
  "restore_queue [] i state = state"
| "restore_queue (item # items) i state =
     (let current = activation_runtime item;
          named = (if ac_id current = [] then current\<lparr>ac_id := activation_id (i + 1)\<rparr> else current)
      in restore_queue items (i + 1)
           (trackActivation named (state\<lparr>rs_queue := rs_queue state @ [named]\<rparr>)))"

definition restoreReadyCorrelations :: "runState \<Rightarrow> runState" where
  "restoreReadyCorrelations state =
     (if rs_correlations state \<noteq> fmempty then state
      else foldl (\<lambda>s item. trackCorrelation item s) state (rs_queue state))"

definition payload_state :: "checkpointPayload \<Rightarrow> runState" where
  "payload_state p =
     (let s1 = restoreActivations (pl_Activations p) (payload_start p);
          s2 = restoreReadyCorrelations (restore_queue (pl_Queue p) 0 s1);
          s3 = (if rs_nextActSeq s2 \<le> 0
                then s2\<lparr>rs_nextActSeq := int (length (rs_queue s2)) + 1\<rparr> else s2)
      in restoreIterSources (pl_IterSources p)
           (restoreSourceSets (pl_SourceSets p) (restoreJoinBuckets (pl_JoinBuckets p) s3)))"

section \<open>What is lost\<close>

lemma value_runtime_new [simp]: "value_runtime (newCheckpointValue v) = v"
  by (cases v) (simp_all add: newCheckpointValue_def value_runtime_def)

lemma value_runtime_zero [simp]: "value_runtime zero_checkpointValue = VNil"
  by (simp add: zero_checkpointValue_def value_runtime_def)

lemma activation_runtime_checkpoint [simp]: "activation_runtime (activation_checkpoint a) = a"
  by (cases "ac_input a")
     (simp_all add: activation_runtime_def activation_checkpoint_def newCheckpointValue_def
       value_runtime_def Let_def)

definition forget_cause :: "goerr option \<Rightarrow> goerr option" where
  "forget_cause cause = cause_runtime (cause_text cause)"

definition forget_record :: "activationRecord \<Rightarrow> activationRecord" where
  "forget_record r = r
     \<lparr>ar_origin := (if ar_origin r = [] then ''natural'' else ar_origin r),
      ar_result := zero_result
        \<lparr>nr_input := (if nr_hasInput (ar_result r) then nr_input (ar_result r) else VNil),
         nr_hasInput := nr_hasInput (ar_result r),
         nr_output := (if ar_hasResult r then nr_output (ar_result r) else VNil),
         nr_skipped := nr_skipped (ar_result r)\<rparr>,
      ar_cause := forget_cause (ar_cause r)\<rparr>"

definition forget_outcome :: "branchOutcome \<Rightarrow> branchOutcome" where
  "forget_outcome out = out
     \<lparr>bo_result := zero_result\<lparr>nr_output := nr_output (bo_result out), nr_skipped := nr_skipped (bo_result out)\<rparr>,
      bo_cause := forget_cause (bo_cause out)\<rparr>"

definition forget_set :: "sourceSet \<Rightarrow> sourceSet" where
  "forget_set sset = sset
     \<lparr>ss_outcomes := fmmap forget_outcome (ss_outcomes sset),
      ss_decided := (ss_decided sset \<or> ss_selected sset \<noteq> []),
      ss_cause := forget_cause (ss_cause sset)\<rparr>"

definition forget_iter :: "iterSource \<Rightarrow> iterSource" where
  "forget_iter source = source\<lparr>is_cause := forget_cause (is_cause source)\<rparr>"

lemma record_roundtrip: "record_runtime (record_checkpoint r) = forget_record r"
  by (simp add: record_runtime_def record_checkpoint_def forget_record_def forget_cause_def)

lemma outcome_roundtrip: "outcome_runtime (outcome_checkpoint out) = forget_outcome out"
  by (simp add: outcome_runtime_def outcome_checkpoint_def forget_outcome_def forget_cause_def)

lemma iter_roundtrip: "iter_runtime (iter_checkpoint i) = forget_iter i"
  by (simp add: iter_runtime_def iter_checkpoint_def forget_iter_def forget_cause_def)

definition outcomes_keyed :: "sourceSet \<Rightarrow> bool" where
  "outcomes_keyed sset \<longleftrightarrow> fmpred (\<lambda>k out. ac_id (bo_activation out) = k) (ss_outcomes sset)"

lemma forget_outcome_id [simp]: "bo_activation (forget_outcome out) = bo_activation out"
  by (simp add: forget_outcome_def)

lemma fmap_by_map:
  assumes "\<And>k v. fmlookup m k = Some v \<Longrightarrow> key (f v) = k"
  shows "fmap_by key (map f (fmap_values m)) = fmmap f m"
  unfolding fmap_by_def foldl_map
proof (rule fmap_ext)
  fix k
  have "\<And>k v. fmlookup m k = Some v \<Longrightarrow> (key \<circ> f) v = k" using assms by simp
  from fmlookup_foldl_values [OF this, where f = f and ?m0.0 = fmempty and k = k]
  show "fmlookup (foldl (\<lambda>a x. fmupd (key (f x)) (f x) a) fmempty (fmap_values m)) k = fmlookup (fmmap f m) k"
    by (simp add: split: option.split)
qed

lemma set_roundtrip:
  assumes "outcomes_keyed sset"
  shows "set_runtime (set_checkpoint sset) = forget_set sset"
proof -
  have "fmap_by (\<lambda>out. ac_id (bo_activation out)) (map forget_outcome (fmap_values (ss_outcomes sset)))
      = fmmap forget_outcome (ss_outcomes sset)"
    using assms by (intro fmap_by_map) (auto simp: outcomes_keyed_def dest: fmpredD)
  then show ?thesis
    by (simp add: set_runtime_def set_checkpoint_def forget_set_def forget_cause_def
        outcome_roundtrip comp_def)
qed

lemma fmupd_twice [simp]: "fmupd k v (fmupd k w m) = fmupd k v m"
  by (rule fmap_ext) simp

lemma fmupd_lookup_same: "fmlookup m k = Some v \<Longrightarrow> fmupd k v m = m"
  by (rule fmap_ext) auto

lemma fmadd_covered:
  assumes "fmdom' m \<subseteq> fmdom' n"
  shows "m ++\<^sub>f n = n"
  using assms by (intro fmap_ext) (auto simp: fmlookup_dom'_iff subset_iff fmdom_notD)

definition restored_versions :: "activationRecord list \<Rightarrow> (string, int) fmap \<Rightarrow> (string, int) fmap" where
  "restored_versions rs m = foldl (\<lambda>m r. fmupd (ac_node (ar_activation r))
     (max (count_of m (ac_node (ar_activation r))) (ar_nodeExecutionVersion r)) m) m rs"

lemma foldl_restoreActivation:
  "foldl restoreActivation s rs = s
     \<lparr>rs_activations := foldl (\<lambda>m r. fmupd (ac_id (ar_activation r)) r m) (rs_activations s) rs,
      rs_nodeVersions := restored_versions rs (rs_nodeVersions s)\<rparr>"
  by (induction rs arbitrary: s) (simp_all add: restoreActivation_def restored_versions_def Let_def)

lemma count_restored_versions:
  "count_of (restored_versions rs m) n =
     foldl max (count_of m n) (map ar_nodeExecutionVersion (filter (\<lambda>r. ac_node (ar_activation r) = n) rs))"
proof (induction rs arbitrary: m)
  case (Cons r rs)
  have "restored_versions (r # rs) m = restored_versions rs (fmupd (ac_node (ar_activation r))
      (max (count_of m (ac_node (ar_activation r))) (ar_nodeExecutionVersion r)) m)"
    by (simp add: restored_versions_def)
  with Cons.IH show ?case by (simp add: count_of_def)
qed (simp add: restored_versions_def)

lemma foldl_max_eq:
  fixes x :: int
  assumes "\<forall>y \<in> set ys. y \<le> b" "x \<le> b" "b = x \<or> b \<in> set ys"
  shows "foldl max x ys = b"
  using assms
proof (induction ys arbitrary: x)
  case (Cons y ys)
  then show ?case
  proof (cases "b \<in> set ys")
    case False
    with Cons.prems have "max x y = b" by (auto simp: max_def)
    moreover have "foldl max b ys = b" using Cons.IH [of b] Cons.prems by simp
    ultimately show ?thesis by simp
  qed (use Cons in auto)
qed simp

lemma restore_queue_tracked:
  assumes "list_all (\<lambda>a. ac_id a \<noteq> [] \<and> fmlookup (rs_activations s) (ac_id a) \<noteq> None) q"
  shows "restore_queue (map activation_checkpoint q) i s = s\<lparr>rs_queue := rs_queue s @ q\<rparr>"
  using assms
proof (induction q arbitrary: i s)
  case (Cons a q)
  then have "trackActivation a (s\<lparr>rs_queue := rs_queue s @ [a]\<rparr>) = s\<lparr>rs_queue := rs_queue s @ [a]\<rparr>"
    by (simp add: trackActivation_def)
  with Cons show ?case by simp
qed simp

lemma joinBucket_eta:
  "b\<lparr>jb_contributions := x, jb_expectations := y\<rparr> = \<lparr>jb_contributions = x, jb_expectations = y\<rparr>"
  "\<lparr>jb_contributions = jb_contributions b, jb_expectations = jb_expectations b\<rparr> = b"
  by (cases b; simp)+

lemma restoreJoinBucket_eq:
  "restoreJoinBucket s e = s\<lparr>rs_buckets := fmupd (BucketKey (cj_Target e) (cj_Correlation e))
     \<lparr>jb_contributions = cj_Contributions e, jb_expectations = cj_Expectations e\<rparr> (rs_buckets s)\<rparr>"
  by (cases "fmlookup (rs_buckets s) (BucketKey (cj_Target e) (cj_Correlation e))")
     (simp_all only: restoreJoinBucket_def join_bucket_def put_bucket_def Let_def option.case prod.case
       joinBucket_eta, simp_all)

lemma restoreJoinBuckets_checkpoint:
  assumes "rs_buckets s = fmempty"
  shows "restoreJoinBuckets (checkpointJoinBuckets m) s = s\<lparr>rs_buckets := m\<rparr>"
proof -
  have f: "foldl restoreJoinBucket s es = s\<lparr>rs_buckets := foldl (\<lambda>m e. fmupd
      (BucketKey (cj_Target e) (cj_Correlation e))
      \<lparr>jb_contributions = cj_Contributions e, jb_expectations = cj_Expectations e\<rparr> m) (rs_buckets s) es\<rparr>"
    for es s by (induction es arbitrary: s) (simp_all add: restoreJoinBucket_eq)
  have "foldl (\<lambda>m e. fmupd (BucketKey (cj_Target e) (cj_Correlation e))
      \<lparr>jb_contributions = cj_Contributions e, jb_expectations = cj_Expectations e\<rparr> m) fmempty
      (checkpointJoinBuckets m) = foldl (\<lambda>m' k. fmupd k (the (fmlookup m k)) m') fmempty (sorted_keys m)"
    by (simp add: checkpointJoinBuckets_def foldl_map Let_def joinBucket_eta)
  also have "\<dots> = m"
  proof (rule fmap_ext)
    fix k
    have n: "fmlookup (foldl (\<lambda>m' k. fmupd k (the (fmlookup m k)) m') m0 ks) k =
        (if k \<in> set ks then Some (the (fmlookup m k)) else fmlookup m0 k)" for ks m0
      by (induction ks arbitrary: m0) auto
    show "fmlookup (foldl (\<lambda>m' k. fmupd k (the (fmlookup m k)) m') fmempty (sorted_keys m)) k = fmlookup m k"
      by (auto simp: n fmlookup_dom'_iff)
  qed
  finally show ?thesis by (simp add: restoreJoinBuckets_def f assms)
qed

lemma foldl_restoreSourceSet:
  assumes "list_all (\<lambda>i. fmdom' (ss_outcomes (set_runtime i)) \<subseteq> fmdom' (rs_activations s)) items"
  shows "foldl restoreSourceSet s items = s\<lparr>rs_sourceSets :=
     foldl (\<lambda>m i. fmupd (ss_id (set_runtime i)) (set_runtime i) m) (rs_sourceSets s) items\<rparr>"
  using assms
proof (induction items arbitrary: s)
  case (Cons i items)
  then have "restoreSourceSet s i =
      s\<lparr>rs_sourceSets := fmupd (ss_id (set_runtime i)) (set_runtime i) (rs_sourceSets s)\<rparr>"
    by (simp add: restoreSourceSet_def restoreBranchActivations_def Let_def fmadd_covered)
  with Cons show ?case by simp
qed simp

lemma foldl_restoreIterSource:
  "foldl restoreIterSource s es = s\<lparr>rs_iterSources :=
     foldl (\<lambda>m e. fmupd (is_id (iter_runtime e)) (iter_runtime e) m) (rs_iterSources s) es\<rparr>"
  by (induction es arbitrary: s) (simp_all add: restoreIterSource_def Let_def)

text \<open>The states that checkpoints are written of.\<close>

definition versions_tight :: "runState \<Rightarrow> bool" where
  "versions_tight s \<longleftrightarrow>
     (\<forall>n. count_of (rs_nodeVersions s) n = 0 \<or>
        (\<exists>a r. fmlookup (rs_activations s) a = Some r \<and> ac_node (ar_activation r) = n \<and>
           ar_nodeExecutionVersion r = count_of (rs_nodeVersions s) n))"

definition checkpoint_ok :: "runState \<Rightarrow> bool" where
  "checkpoint_ok s \<longleftrightarrow>
     fmpred (\<lambda>k r. ac_id (ar_activation r) = k) (rs_activations s) \<and>
     fmpred (\<lambda>k sset. ss_id sset = k \<and> outcomes_keyed sset \<and>
       fmdom' (ss_outcomes sset) \<subseteq> fmdom' (rs_activations s)) (rs_sourceSets s) \<and>
     fmpred (\<lambda>k source. is_id source = k) (rs_iterSources s) \<and>
     list_all (\<lambda>a. ac_id a \<noteq> [] \<and> fmlookup (rs_activations s) (ac_id a) \<noteq> None) (rs_queue s) \<and>
     (rs_queue s = [] \<or> rs_correlations s \<noteq> fmempty) \<and>
     0 < rs_nextActSeq s \<and> 0 < rs_nextSetSeq s \<and> 0 < rs_nextIterSeq s \<and>
     (rs_hasContext s \<longrightarrow> 0 < rs_contextRevision s) \<and> versions_ok s \<and> versions_tight s"

definition forget_state :: "runState \<Rightarrow> runState" where
  "forget_state s = s
     \<lparr>rs_activations := fmmap forget_record (rs_activations s),
      rs_sourceSets := fmmap forget_set (rs_sourceSets s),
      rs_iterSources := fmmap forget_iter (rs_iterSources s),
      rs_liveIters := fmempty\<rparr>"

lemma payload_fields [simp]:
  "pl_Activations (make_payload s outs n meta) = checkpointActivations s"
  "pl_Queue (make_payload s outs n meta) = map activation_checkpoint (rs_queue s)"
  "pl_JoinBuckets (make_payload s outs n meta) = checkpointJoinBuckets (rs_buckets s)"
  "pl_SourceSets (make_payload s outs n meta) = checkpointSourceSets s"
  "pl_IterSources (make_payload s outs n meta) = checkpointIterSources s"
  "pl_Meta (make_payload s outs n meta) = meta"
  "pl_Outputs (make_payload s outs n meta) = outs"
  "pl_NextStep (make_payload s outs n meta) = n"
  by (simp_all add: make_payload_def)

lemma payload_start_make:
  "rs_hasContext s \<longrightarrow> 0 < rs_contextRevision s \<Longrightarrow>
   payload_start (make_payload s outs n meta) = s
     \<lparr>rs_queue := [], rs_activations := fmempty, rs_nodeVersions := fmempty, rs_buckets := fmempty,
      rs_sourceSets := fmempty, rs_iterSources := fmempty, rs_liveIters := fmempty\<rparr>"
  by (rule runState.equality) (auto simp: payload_start_def make_payload_def zero_state_def Let_def)

lemma forget_record_id [simp]:
  "ar_activation (forget_record r) = ar_activation r"
  "ar_nodeExecutionVersion (forget_record r) = ar_nodeExecutionVersion r"
  by (simp_all add: forget_record_def)

lemma restored_activations:
  assumes "fmpred (\<lambda>k r. ac_id (ar_activation r) = k) m"
  shows "foldl (\<lambda>m r. fmupd (ac_id (ar_activation r)) r m) fmempty (map forget_record (fmap_values m)) =
    fmmap forget_record m"
  using fmap_by_map [of m "\<lambda>r. ac_id (ar_activation r)" forget_record] assms
  by (auto simp: fmap_by_def dest: fmpredD)

lemma restored_sets:
  assumes "fmpred (\<lambda>k sset. ss_id sset = k \<and> outcomes_keyed sset \<and>
      fmdom' (ss_outcomes sset) \<subseteq> fmdom' acts) m"
  shows "list_all (\<lambda>i. fmdom' (ss_outcomes (set_runtime i)) \<subseteq> fmdom' acts) (map set_checkpoint (fmap_values m))"
    "foldl (\<lambda>m' i. fmupd (ss_id (set_runtime i)) (set_runtime i) m') fmempty (map set_checkpoint (fmap_values m))
      = fmmap forget_set m"
proof -
  have k: "outcomes_keyed sset \<and> fmdom' (ss_outcomes sset) \<subseteq> fmdom' acts" if "sset \<in> set (fmap_values m)" for sset
    using assms that by (force simp: set_fmap_values dest: fmpredD)
  then show "list_all (\<lambda>i. fmdom' (ss_outcomes (set_runtime i)) \<subseteq> fmdom' acts) (map set_checkpoint (fmap_values m))"
    by (auto simp: list_all_iff set_roundtrip forget_set_def)
  have c: "foldl (\<lambda>m' x. fmupd (ss_id (set_runtime (set_checkpoint x))) (set_runtime (set_checkpoint x)) m') m0 xs =
      foldl (\<lambda>m' x. fmupd (ss_id (forget_set x)) (forget_set x) m') m0 xs"
    if "\<forall>x \<in> set xs. outcomes_keyed x" for m0 :: "(string, sourceSet) fmap" and xs
    using that by (induction xs arbitrary: m0) (simp_all add: set_roundtrip)
  have "foldl (\<lambda>m' x. fmupd (ss_id (forget_set x)) (forget_set x) m') fmempty (fmap_values m) = fmmap forget_set m"
    using fmap_by_map [of m ss_id forget_set] assms
    by (auto simp: fmap_by_def foldl_map forget_set_def dest: fmpredD)
  with c [of "fmap_values m" fmempty] k
  show "foldl (\<lambda>m' i. fmupd (ss_id (set_runtime i)) (set_runtime i) m') fmempty (map set_checkpoint (fmap_values m))
      = fmmap forget_set m" by (simp add: foldl_map)
qed

lemma restored_iters:
  assumes "fmpred (\<lambda>k source. is_id source = k) m"
  shows "foldl (\<lambda>m' e. fmupd (is_id (iter_runtime e)) (iter_runtime e) m') fmempty (map iter_checkpoint (fmap_values m))
      = fmmap forget_iter m"
  using fmap_by_map [of m is_id forget_iter] assms
  by (auto simp: fmap_by_def foldl_map iter_roundtrip forget_iter_def dest: fmpredD)

lemma restored_versions_tight:
  assumes "versions_ok s" "versions_tight s"
  shows "count_of (restored_versions (map forget_record (fmap_values (rs_activations s))) fmempty) n =
    count_of (rs_nodeVersions s) n"
proof -
  let ?ys = "map ar_nodeExecutionVersion (filter (\<lambda>r. ac_node (ar_activation r) = n)
    (map forget_record (fmap_values (rs_activations s))))"
  have "\<forall>y \<in> set ?ys. y \<le> count_of (rs_nodeVersions s) n" "0 \<le> count_of (rs_nodeVersions s) n"
    using assms(1) by (auto simp: versions_ok_def set_fmap_values)
  moreover have "count_of (rs_nodeVersions s) n = 0 \<or> count_of (rs_nodeVersions s) n \<in> set ?ys"
    using assms(2) [unfolded versions_tight_def, rule_format, of n]
  proof (elim disjE exE conjE)
    fix a r
    assume "fmlookup (rs_activations s) a = Some r" "ac_node (ar_activation r) = n"
      "ar_nodeExecutionVersion r = count_of (rs_nodeVersions s) n"
    moreover from this have "r \<in> set (fmap_values (rs_activations s))" by (auto simp: set_fmap_values)
    ultimately show ?thesis by (auto simp: image_iff intro!: bexI [of _ r])
  qed simp
  ultimately have "foldl max 0 ?ys = count_of (rs_nodeVersions s) n" by (intro foldl_max_eq) auto
  then show ?thesis by (simp add: count_restored_versions)
qed

lemma payload_state_make:
  assumes "checkpoint_ok s"
  shows "payload_state (make_payload s outs n meta) = (forget_state s)\<lparr>rs_nodeVersions :=
    restored_versions (map forget_record (fmap_values (rs_activations s))) fmempty\<rparr>"
proof -
  note ok = assms [unfolded checkpoint_ok_def]
  let ?rs = "map forget_record (fmap_values (rs_activations s))"
  let ?nv = "restored_versions ?rs fmempty"
  define s0 where "s0 = s\<lparr>rs_activations := fmmap forget_record (rs_activations s), rs_nodeVersions := ?nv,
     rs_buckets := fmempty, rs_sourceSets := fmempty, rs_iterSources := fmempty, rs_liveIters := fmempty\<rparr>"
  have "map record_runtime (checkpointActivations s) = ?rs"
    by (simp add: checkpointActivations_def record_roundtrip comp_def)
  then have "restoreActivations (checkpointActivations s) (payload_start (make_payload s outs n meta)) =
      s0\<lparr>rs_queue := []\<rparr>"
    using ok by (simp add: restoreActivations_def foldl_restoreActivation payload_start_make
        restored_activations s0_def)
  moreover have "restore_queue (map activation_checkpoint (rs_queue s)) 0 (s0\<lparr>rs_queue := []\<rparr>) = s0"
    using ok restore_queue_tracked [of "s0\<lparr>rs_queue := []\<rparr>" "rs_queue s" 0]
    by (auto simp: s0_def list_all_iff)
  moreover have "restoreReadyCorrelations s0 = s0" "\<not> rs_nextActSeq s0 \<le> 0"
    using ok by (auto simp: restoreReadyCorrelations_def s0_def)
  moreover have "restoreJoinBuckets (checkpointJoinBuckets (rs_buckets s)) s0 = s0\<lparr>rs_buckets := rs_buckets s\<rparr>"
    by (rule restoreJoinBuckets_checkpoint) (simp add: s0_def)
  moreover have "restoreSourceSets (checkpointSourceSets s) (s0\<lparr>rs_buckets := rs_buckets s\<rparr>) =
      s0\<lparr>rs_buckets := rs_buckets s, rs_sourceSets := fmmap forget_set (rs_sourceSets s)\<rparr>"
    using ok restored_sets [of "rs_activations s" "rs_sourceSets s"]
    by (simp add: restoreSourceSets_def checkpointSourceSets_def foldl_restoreSourceSet s0_def)
  moreover have "restoreIterSources (checkpointIterSources s)
      (s0\<lparr>rs_buckets := rs_buckets s, rs_sourceSets := fmmap forget_set (rs_sourceSets s)\<rparr>) =
      s0\<lparr>rs_buckets := rs_buckets s, rs_sourceSets := fmmap forget_set (rs_sourceSets s),
         rs_iterSources := fmmap forget_iter (rs_iterSources s)\<rparr>"
    using ok restored_iters [of "rs_iterSources s"]
    by (simp add: restoreIterSources_def checkpointIterSources_def foldl_restoreIterSource s0_def)
  ultimately have "payload_state (make_payload s outs n meta) =
      s0\<lparr>rs_buckets := rs_buckets s, rs_sourceSets := fmmap forget_set (rs_sourceSets s),
         rs_iterSources := fmmap forget_iter (rs_iterSources s)\<rparr>"
    by (simp add: payload_state_def Let_def)
  then show ?thesis by (simp add: s0_def forget_state_def)
qed


definition saved_state :: runState where
  "saved_state = snd (enqueue \<lparr>er_target = ''a'', er_input = plain_value, er_sourceSet = [],
     er_branchIndex = 0, er_correlation = CorrelationKey ''r'' 1\<rparr>
     (zero_state\<lparr>rs_nextActSeq := 1, rs_nextSetSeq := 1, rs_nextIterSeq := 1\<rparr>))"

lemma saved_state_ok: "checkpoint_ok saved_state"
  by (simp add: checkpoint_ok_def saved_state_def enqueue_def trackActivation_def zero_state_def
      trackCorrelation_def new_record_def versions_ok_def versions_tight_def activation_id_def Let_def fmpred_iff)

definition sample_meta :: checkpointPayloadMeta where
  "sample_meta =
     \<lparr>pm_SchemaVersion = 1, pm_WorkflowName = ''w'', pm_TopologyVersion = ''t'', pm_OwnerID = ''o'',
      pm_LeaseExpiresAt = 0, pm_ClaimSequence = 1, pm_EventCursor = 0, pm_PendingEvent = None,
      pm_PendingTerm = None, pm_PendingInterrupts = [], pm_InterruptProgress = None,
      pm_ResolvedInterrupts = [], pm_ExecutionEpoch = 1, pm_ControlOrigin = ''natural'',
      pm_SourceRevisionID = [], pm_SourceRunID = [], pm_SourceEventSeq = 0\<rparr>"


section \<open>Decisions and failures of restored source sets\<close>

lemma sort_key_map_same:
  assumes "\<And>x. k (f x) = k x"
  shows "sort_key k (map f xs) = map f (sort_key k xs)"
proof (induction xs)
  case (Cons x xs)
  have "insort_key k (f x) (map f ys) = map f (insort_key k x ys)" for ys
    by (induction ys) (simp_all add: assms)
  with Cons show ?case by simp
qed simp

lemma forget_outcome_simps [simp]:
  "bo_phase (forget_outcome out) = bo_phase out"
  "outcome_rank (forget_outcome out) = outcome_rank out"
  by (simp_all add: forget_outcome_def outcome_rank_def)

lemma sorted_keys_fmmap [simp]: "sorted_keys (fmmap f m) = sorted_keys m"
  by (simp add: sorted_keys_def)

lemma forget_set_simps [simp]:
  "ss_policy (forget_set sset) = ss_policy sset"
  "ss_expected (forget_set sset) = ss_expected sset"
  "ss_openSources (forget_set sset) = ss_openSources sset"
  "ss_branches (forget_set sset) = ss_branches sset"
  "fmdom (ss_outcomes (forget_set sset)) = fmdom (ss_outcomes sset)"
  by (simp_all add: forget_set_def)

lemma forget_set_phase [simp]: "phase_of (forget_set sset) b = phase_of sset b"
  by (simp add: phase_of_def forget_set_def split: option.split)

text \<open>
  Restarts do not change decisions. A source set that went through a checkpoint
  decides exactly as the original: its policy, expected branches, open sources and the phases
  and completion numbers of its outcomes survive.
\<close>

theorem decision_survives_restart:
  assumes "outcomes_keyed sset" "range_order ord"
  shows "decide ord (set_runtime (set_checkpoint sset)) = decide ord sset"
proof -
  let ?out = "\<lambda>k. the (fmlookup (ss_outcomes sset) k)"
  have f: "the (fmlookup (ss_outcomes (forget_set sset)) k) = forget_outcome (?out k)"
    if "k \<in> set (range_keys ord (ss_outcomes sset))" for k
    using that assms(2) by (auto simp: forget_set_def fmlookup_dom'_iff)
  have rk: "range_keys ord (ss_outcomes (forget_set sset)) = range_keys ord (ss_outcomes sset)"
    by (simp add: range_keys_def forget_set_def)
  have vals: "filter (\<lambda>out. bo_phase out = branchCompleted)
      (map (\<lambda>k. the (fmlookup (ss_outcomes (forget_set sset)) k)) (range_keys ord (ss_outcomes (forget_set sset)))) =
    map forget_outcome (filter (\<lambda>out. bo_phase out = branchCompleted)
      (map ?out (range_keys ord (ss_outcomes sset))))"
    using f by (simp add: rk filter_map comp_def cong: map_cong)
  have s: "successes ord (forget_set sset) = successes ord sset"
    unfolding successes_def Let_def vals
    by (simp add: sort_key_map_same comp_def successesInBranchOrder_def)
  have h: "hasFailure ord (forget_set sset) = hasFailure ord sset"
    unfolding hasFailure_def rk by simp
  have "decide ord (forget_set sset) = decide ord sset"
    unfolding decide_def s decideOpen_def decideAll_def h terminal_count_def forget_set_simps ..
  then show ?thesis by (simp add: set_roundtrip [OF assms(1)])
qed

theorem decision_survives_restart_witness:
  "decide rev (set_runtime (set_checkpoint (sample_set SettleAny))) = decide rev (sample_set SettleAny)"
  by (rule decision_survives_restart)
     (auto simp: outcomes_keyed_def sample_set_def sample_outcome_def sample_activation_def fmpred_iff)

definition canceled_and_failed :: sourceSet where
  "canceled_and_failed =
     \<lparr>ss_id = ''s'', ss_policy = SettleAll, ss_expected = 2, ss_branches = [''b1'', ''b2''],
      ss_outcomes = fmap_of_list
        [(''b1'', \<lparr>bo_activation = sample_activation ''b1'', bo_result = zero_result,
            bo_cause = Some (Sentinel ContextCanceled), bo_phase = branchCanceled,
            bo_completion = 2, bo_committed = False\<rparr>),
         (''b2'', \<lparr>bo_activation = sample_activation ''b2'', bo_result = zero_result,
            bo_cause = Some (Msg ''boom''), bo_phase = branchFailed,
            bo_completion = 1, bo_committed = False\<rparr>)],
      ss_selected = [], ss_decided = False, ss_settled = False, ss_failed = True,
      ss_openSources = 0, ss_cause = None\<rparr>"

text \<open>
  Restarts may change the reported failure. In the source set below one branch was
  cancelled and the other failed; the failure is what the run reports, but after a
  checkpoint the cancellation has become an ordinary error text, so the run reports
  "context canceled" instead of the failure.
\<close>

theorem restart_changes_failure:
  "firstFailure canceled_and_failed = Some (Msg ''boom'') \<and>
   firstFailure (set_runtime (set_checkpoint canceled_and_failed)) = Some (Msg ''context canceled'')"
proof -
  have "outcomes_keyed canceled_and_failed"
    by (auto simp: outcomes_keyed_def canceled_and_failed_def fmap_of_list_simps sample_activation_def fmpred_iff)
  then show ?thesis
    by (simp add: set_roundtrip) (simp add: firstFailure_def canceled_and_failed_def forget_set_def
        forget_outcome_def forget_cause_def cause_runtime_def cause_text_def fmap_of_list_simps
        is_canceled_def firstNonNil_def)
qed

end
