(* ===== verification/Interrupts.thy ===== *)
theory Interrupts
  imports Codec
begin

text \<open>
  Interrupt resolution: the resolutions a resume request must bring for the pending
  interrupts of a checkpoint (\<open>resolvePendingInterrupts\<close>), the check of a repeated request against
  the resolutions already stored (\<open>validateResolvedInterruptReplay\<close>), and the consistency check of a
  half-written interrupt batch (\<open>validateCheckpointInterruptProgress\<close>).
\<close>

section \<open>Resolving pending interrupts\<close>

record InterruptResolution =
  rn_InterruptID :: string
  rn_PayloadRef :: string

abbreviation (input) interrupt_id :: "checkpointInterrupt \<Rightarrow> string" where
  "interrupt_id i \<equiv> ir_ID (ct_Request i)"

fun pending_ids :: "checkpointInterrupt list \<Rightarrow> string list \<Rightarrow> goerr + string list" where
  "pending_ids [] seen = Inr seen"
| "pending_ids (i # is) seen =
     (if interrupt_id i = []
        then Inl (Wrap ''pending interrupt id is required'' [Sentinel ErrInvalidCheckpoint])
      else if interrupt_id i \<in> set seen
        then Inl (Wrap ''duplicate pending interrupt id'' [Sentinel ErrInvalidCheckpoint])
      else pending_ids is (seen @ [interrupt_id i]))"

fun resolutions_by_id ::
  "string list \<Rightarrow> InterruptResolution list \<Rightarrow> (string, InterruptResolution) fmap
   \<Rightarrow> goerr + (string, InterruptResolution) fmap" where
  "resolutions_by_id pending [] byID = Inr byID"
| "resolutions_by_id pending (r # rs) byID =
     (if rn_InterruptID r = []
        then Inl (Msg ''workflow: interrupt resolution id is required'')
      else if fmlookup byID (rn_InterruptID r) \<noteq> None
        then Inl (Msg ''workflow: duplicate interrupt resolution'')
      else if rn_InterruptID r \<notin> set pending
        then Inl (Msg ''workflow: interrupt resolution is unexpected'')
      else if rn_PayloadRef r = []
        then Inl (Msg ''workflow: interrupt resolution payload ref is required'')
      else resolutions_by_id pending rs (fmupd (rn_InterruptID r) r byID))"

definition resolve_one :: "checkpointInterrupt \<Rightarrow> InterruptResolution \<Rightarrow> checkpointInterruptResolution" where
  "resolve_one i r =
     \<lparr>cr_InterruptID = rn_InterruptID r, cr_PayloadRef = rn_PayloadRef r,
      cr_GuardName = ct_GuardName i, cr_Phase = ct_Phase i, cr_NodeName = ct_NodeName i,
      cr_ActivationID = ct_ActivationID i, cr_ChildRunID = ct_ChildRunID i,
      cr_ChildCheckpointID = ct_ChildCheckpointID i, cr_CandidateOutput = ct_CandidateOutput i,
      cr_HasCandidateOutput = ct_HasCandidateOutput i\<rparr>"

fun resolve_all ::
  "checkpointInterrupt list \<Rightarrow> (string, InterruptResolution) fmap
   \<Rightarrow> goerr + checkpointInterruptResolution list" where
  "resolve_all [] byID = Inr []"
| "resolve_all (i # is) byID =
     (case fmlookup byID (interrupt_id i) of
        None \<Rightarrow> Inl (Msg ''workflow: interrupt resolution is required'')
      | Some r \<Rightarrow> andthen (resolve_all is byID) (\<lambda>rs. Inr (resolve_one i r # rs)))"

definition resolvePendingInterrupts ::
  "checkpointInterrupt list \<Rightarrow> InterruptResolution list \<Rightarrow> goerr + checkpointInterruptResolution list" where
  "resolvePendingInterrupts pending resolutions =
     (if pending = []
        then Inl (Wrap ''interrupted checkpoint is missing interrupt state'' [Sentinel ErrInvalidCheckpoint])
      else andthen (pending_ids pending []) (\<lambda>ids.
        andthen (resolutions_by_id ids resolutions fmempty) (\<lambda>byID.
          resolve_all pending byID)))"

section \<open>Repeated resolutions\<close>

fun resolved_by_id ::
  "checkpointInterruptResolution list \<Rightarrow> (string, string) fmap \<Rightarrow> goerr + (string, string) fmap" where
  "resolved_by_id [] byID = Inr byID"
| "resolved_by_id (r # rs) byID =
     (if cr_InterruptID r = []
        then Inl (Wrap ''resolved interrupt id is required'' [Sentinel ErrInvalidCheckpoint])
      else if cr_PayloadRef r = []
        then Inl (Wrap ''resolved interrupt payload ref is required'' [Sentinel ErrInvalidCheckpoint])
      else if fmlookup byID (cr_InterruptID r) \<noteq> None
        then Inl (Wrap ''duplicate resolved interrupt id'' [Sentinel ErrInvalidCheckpoint])
      else resolved_by_id rs (fmupd (cr_InterruptID r) (cr_PayloadRef r) byID))"

fun replayed_ids ::
  "(string, string) fmap \<Rightarrow> InterruptResolution list \<Rightarrow> string list \<Rightarrow> goerr + string list" where
  "replayed_ids byID [] seen = Inr seen"
| "replayed_ids byID (r # rs) seen =
     (if rn_InterruptID r = []
        then Inl (Msg ''workflow: interrupt resolution id is required'')
      else if rn_InterruptID r \<in> set seen
        then Inl (Msg ''workflow: duplicate interrupt resolution'')
      else (case fmlookup byID (rn_InterruptID r) of
          None \<Rightarrow> Inl (Msg ''workflow: interrupt resolution is unexpected'')
        | Some durable \<Rightarrow>
            if rn_PayloadRef r = []
              then Inl (Msg ''workflow: interrupt resolution payload ref is required'')
            else if rn_PayloadRef r \<noteq> durable
              then Inl (Msg ''workflow: interrupt resolution payload ref does not match checkpoint'')
            else replayed_ids byID rs (seen @ [rn_InterruptID r])))"

definition validateResolvedInterruptReplay ::
  "checkpointInterruptResolution list \<Rightarrow> InterruptResolution list \<Rightarrow> goerr option" where
  "validateResolvedInterruptReplay resolved replay =
     (case resolved_by_id resolved fmempty of
        Inl e \<Rightarrow> Some e
      | Inr byID \<Rightarrow>
          if replay = [] then None
          else (case replayed_ids byID replay [] of
              Inl e \<Rightarrow> Some e
            | Inr seen \<Rightarrow>
                if list_all (\<lambda>r. cr_InterruptID r \<in> set seen) resolved then None
                else Some (Msg ''workflow: interrupt resolution is required'')))"

section \<open>What is accepted\<close>

lemma pending_ids_Inr:
  "pending_ids is seen = Inr ids \<longleftrightarrow>
     ids = seen @ map interrupt_id is \<and> [] \<notin> set (map interrupt_id is) \<and>
     distinct (map interrupt_id is) \<and> set seen \<inter> set (map interrupt_id is) = {}"
  by (induction "is" seen rule: pending_ids.induct) (auto split: if_splits)

lemma resolutions_by_id_Inr:
  "resolutions_by_id pending rs byID = Inr m \<longleftrightarrow>
     m = foldl (\<lambda>m r. fmupd (rn_InterruptID r) r m) byID rs \<and>
     [] \<notin> set (map rn_InterruptID rs) \<and> [] \<notin> set (map rn_PayloadRef rs) \<and>
     distinct (map rn_InterruptID rs) \<and> set (map rn_InterruptID rs) \<inter> fmdom' byID = {} \<and>
     set (map rn_InterruptID rs) \<subseteq> set pending"
  by (induction pending rs byID rule: resolutions_by_id.induct) (auto split: if_splits simp: fmlookup_dom'_iff)

lemma resolve_all_Inr:
  "resolve_all is byID = Inr out \<longleftrightarrow>
     (\<forall>i \<in> set is. fmlookup byID (interrupt_id i) \<noteq> None) \<and>
     out = map (\<lambda>i. resolve_one i (the (fmlookup byID (interrupt_id i)))) is"
  by (induction "is" arbitrary: out) (auto split: option.splits)

lemma foldl_fmupd_by_key:
  assumes "distinct (map k xs)"
  shows "fmlookup (foldl (\<lambda>m x. fmupd (k x) x m) fmempty xs) i = find (\<lambda>x. k x = i) xs"
proof (cases "find (\<lambda>x. k x = i) xs")
  case None
  then have "i \<notin> k ` set xs" by (auto simp: find_None_iff)
  with fmlookup_foldl_other [of i k xs "\<lambda>x. x" fmempty] None
  show ?thesis by simp
next
  case (Some x)
  then have "x \<in> set xs" "k x = i" by (auto simp: find_Some_iff)
  with fmlookup_foldl_in [OF assms, of x "\<lambda>x. x" fmempty] Some show ?thesis by simp
qed

lemma set_eq_mset_eq: "distinct xs \<Longrightarrow> distinct ys \<Longrightarrow> set xs = set ys \<longleftrightarrow> mset xs = mset ys"
  by (simp add: set_eq_iff_mset_eq_distinct)

text \<open>Each pending interrupt needs exactly one resolution.\<close>

definition resolutions_fit :: "checkpointInterrupt list \<Rightarrow> InterruptResolution list \<Rightarrow> bool" where
  "resolutions_fit pending rs \<longleftrightarrow>
     pending \<noteq> [] \<and> distinct (map interrupt_id pending) \<and> [] \<notin> set (map interrupt_id pending) \<and>
     mset (map rn_InterruptID rs) = mset (map interrupt_id pending) \<and> [] \<notin> set (map rn_PayloadRef rs)"

definition resolution_for :: "InterruptResolution list \<Rightarrow> checkpointInterrupt \<Rightarrow> checkpointInterruptResolution" where
  "resolution_for rs i = resolve_one i (the (find (\<lambda>r. rn_InterruptID r = interrupt_id i) rs))"

lemma resolve_iff:
  "resolvePendingInterrupts pending rs = Inr out \<longleftrightarrow>
     resolutions_fit pending rs \<and> out = map (resolution_for rs) pending"
proof (cases "pending = [] \<or> \<not> distinct (map rn_InterruptID rs)")
  case True
  have "\<not> resolutions_fit pending rs"
    using True mset_eq_imp_distinct_iff [of "map rn_InterruptID rs" "map interrupt_id pending"]
    unfolding resolutions_fit_def by blast
  with True show ?thesis by (auto simp: resolvePendingInterrupts_def resolutions_by_id_Inr)
next
  case False
  have look: "fmlookup (foldl (\<lambda>m r. fmupd (rn_InterruptID r) r m) fmempty rs) i =
      find (\<lambda>r. rn_InterruptID r = i) rs" for i
    using False by (simp add: foldl_fmupd_by_key)
  have cov: "(\<forall>i \<in> set pending. find (\<lambda>r. rn_InterruptID r = interrupt_id i) rs \<noteq> None) \<longleftrightarrow>
      set (map interrupt_id pending) \<subseteq> set (map rn_InterruptID rs)"
    by (force simp: find_None_iff)
  have sub: "distinct (map interrupt_id pending) \<Longrightarrow>
      set (map rn_InterruptID rs) \<subseteq> set (map interrupt_id pending) \<and>
      set (map interrupt_id pending) \<subseteq> set (map rn_InterruptID rs) \<longleftrightarrow>
      mset (map rn_InterruptID rs) = mset (map interrupt_id pending)"
    using False set_eq_iff_mset_eq_distinct [of "map rn_InterruptID rs" "map interrupt_id pending"] by auto
  have "resolvePendingInterrupts pending rs = Inr out \<longleftrightarrow> (\<exists>ids m. pending_ids pending [] = Inr ids \<and>
      resolutions_by_id ids rs fmempty = Inr m \<and> resolve_all pending m = Inr out)"
    using False by (auto simp: resolvePendingInterrupts_def)
  also have "\<dots> \<longleftrightarrow> ([] \<notin> set (map interrupt_id pending) \<and> distinct (map interrupt_id pending)) \<and>
      ([] \<notin> set (map rn_InterruptID rs) \<and> [] \<notin> set (map rn_PayloadRef rs) \<and>
      set (map rn_InterruptID rs) \<subseteq> set (map interrupt_id pending)) \<and>
      set (map interrupt_id pending) \<subseteq> set (map rn_InterruptID rs) \<and>
      out = map (resolution_for rs) pending"
    unfolding pending_ids_Inr resolutions_by_id_Inr resolve_all_Inr
    using False cov by (simp add: look resolution_for_def [abs_def])
  also have "\<dots> \<longleftrightarrow> resolutions_fit pending rs \<and> out = map (resolution_for rs) pending" (is "?a = ?b")
  proof
    assume ?a
    then show ?b using False sub by (simp add: resolutions_fit_def)
  next
    assume b: ?b
    then have "mset (map rn_InterruptID rs) = mset (map interrupt_id pending)"
      by (simp add: resolutions_fit_def)
    then have "set (map rn_InterruptID rs) = set (map interrupt_id pending)" by (rule mset_eq_setD)
    with b show ?a unfolding resolutions_fit_def by simp
  qed
  finally show ?thesis .
qed

text \<open>
  C13 (interrupts are resolved one to one). A resume request is accepted exactly when
  the pending interrupts have distinct, non-empty ids and the resolutions name each of them once and nothing
  else, with a payload reference; the stored resolutions then follow the order of the
  pending interrupts, whatever the order of the request was.
\<close>

theorem interrupts_resolved_one_to_one:
  "case resolvePendingInterrupts pending rs of
     Inr out \<Rightarrow> resolutions_fit pending rs \<and> out = map (resolution_for rs) pending
   | Inl e \<Rightarrow> \<not> resolutions_fit pending rs"
  using resolve_iff [of pending rs]
  by (cases "resolvePendingInterrupts pending rs") auto

lemma resolve_one_simps [simp]:
  "cr_InterruptID (resolve_one i r) = rn_InterruptID r"
  "cr_PayloadRef (resolve_one i r) = rn_PayloadRef r"
  by (simp_all add: resolve_one_def)

lemma resolved_by_id_Inr:
  "resolved_by_id rs byID = Inr m \<longleftrightarrow>
     m = foldl (\<lambda>m r. fmupd (cr_InterruptID r) (cr_PayloadRef r) m) byID rs \<and>
     [] \<notin> set (map cr_InterruptID rs) \<and> [] \<notin> set (map cr_PayloadRef rs) \<and>
     distinct (map cr_InterruptID rs) \<and> set (map cr_InterruptID rs) \<inter> fmdom' byID = {}"
  by (induction rs byID rule: resolved_by_id.induct) (auto split: if_splits simp: fmlookup_dom'_iff)

lemma replayed_ids_Inr:
  "replayed_ids byID rs seen = Inr ids \<longleftrightarrow>
     ids = seen @ map rn_InterruptID rs \<and> [] \<notin> set (map rn_InterruptID rs) \<and>
     [] \<notin> set (map rn_PayloadRef rs) \<and> distinct (map rn_InterruptID rs) \<and>
     set seen \<inter> set (map rn_InterruptID rs) = {} \<and>
     (\<forall>r \<in> set rs. fmlookup byID (rn_InterruptID r) = Some (rn_PayloadRef r))"
  by (induction byID rs seen rule: replayed_ids.induct) (auto split: if_splits option.splits)

definition resolution_pair :: "checkpointInterruptResolution \<Rightarrow> string \<times> string" where
  "resolution_pair r = (cr_InterruptID r, cr_PayloadRef r)"

definition request_pair :: "InterruptResolution \<Rightarrow> string \<times> string" where
  "request_pair r = (rn_InterruptID r, rn_PayloadRef r)"

definition resolutions_stored :: "checkpointInterruptResolution list \<Rightarrow> bool" where
  "resolutions_stored resolved \<longleftrightarrow>
     distinct (map cr_InterruptID resolved) \<and> [] \<notin> set (map cr_InterruptID resolved) \<and>
     [] \<notin> set (map cr_PayloadRef resolved)"

lemma replay_accepted:
  assumes "resolutions_stored resolved"
  shows "validateResolvedInterruptReplay resolved replay = None \<longleftrightarrow>
    replay = [] \<or> mset (map request_pair replay) = mset (map resolution_pair resolved)"
proof -
  define m where "m = foldl (\<lambda>m r. fmupd (cr_InterruptID r) (cr_PayloadRef r) m) fmempty resolved"
  have m: "resolved_by_id resolved fmempty = Inr m"
    using assms by (simp add: resolved_by_id_Inr m_def resolutions_stored_def)
  have in_m: "fmlookup m i = Some p \<longleftrightarrow> (i, p) \<in> set (map resolution_pair resolved)" for i p
  proof (cases "i \<in> set (map cr_InterruptID resolved)")
    case False
    then show ?thesis
      using fmlookup_foldl_other [of i cr_InterruptID resolved cr_PayloadRef fmempty]
      by (auto simp: m_def resolution_pair_def)
  next
    case True
    then obtain r where r: "r \<in> set resolved" "cr_InterruptID r = i" by auto
    have d: "distinct (map cr_InterruptID resolved)" using assms by (simp add: resolutions_stored_def)
    have l: "fmlookup m i = Some (cr_PayloadRef r)"
      using fmlookup_foldl_in [OF d r(1), of cr_PayloadRef fmempty] r(2) by (simp add: m_def)
    have u: "r' = r" if "r' \<in> set resolved" "cr_InterruptID r' = i" for r'
      using d r that by (auto simp: distinct_map inj_on_def)
    have "p = cr_PayloadRef r" if "(i, p) \<in> set (map resolution_pair resolved)"
      using that u by (auto simp: resolution_pair_def)
    moreover have "(i, cr_PayloadRef r) \<in> set (map resolution_pair resolved)"
      using r by (force simp: resolution_pair_def)
    ultimately have "fmlookup m i = Some p \<longleftrightarrow> (i, p) \<in> set (map resolution_pair resolved)"
      using l by auto
    then show ?thesis by simp
  qed
  have fst_pairs: "map fst (map request_pair replay) = map rn_InterruptID replay"
    "map fst (map resolution_pair resolved) = map cr_InterruptID resolved"
    by (simp_all add: request_pair_def resolution_pair_def comp_def)
  have dist: "distinct (map resolution_pair resolved)"
    using assms fst_pairs(2) by (metis distinct_map resolutions_stored_def)
  have "validateResolvedInterruptReplay resolved replay = None \<longleftrightarrow> replay = [] \<or>
      ([] \<notin> set (map rn_InterruptID replay) \<and> [] \<notin> set (map rn_PayloadRef replay) \<and>
       distinct (map rn_InterruptID replay) \<and>
       set (map request_pair replay) \<subseteq> set (map resolution_pair resolved) \<and>
       set (map cr_InterruptID resolved) \<subseteq> set (map rn_InterruptID replay))"
  proof (cases "replay = []")
    case False
    have "(\<forall>r \<in> set replay. fmlookup m (rn_InterruptID r) = Some (rn_PayloadRef r)) \<longleftrightarrow>
        set (map request_pair replay) \<subseteq> set (map resolution_pair resolved)"
      unfolding in_m by (auto simp: request_pair_def)
    then have ids: "replayed_ids m replay [] = Inr ids \<longleftrightarrow> ids = map rn_InterruptID replay \<and>
        [] \<notin> set (map rn_InterruptID replay) \<and> [] \<notin> set (map rn_PayloadRef replay) \<and>
        distinct (map rn_InterruptID replay) \<and>
        set (map request_pair replay) \<subseteq> set (map resolution_pair resolved)" for ids
      by (simp only: replayed_ids_Inr) (simp only: append.simps list.set Int_empty_left simp_thms)
    have all: "list_all (\<lambda>r. cr_InterruptID r \<in> set xs) resolved \<longleftrightarrow>
        set (map cr_InterruptID resolved) \<subseteq> set xs" for xs
      by (auto simp: list_all_iff)
    have v: "validateResolvedInterruptReplay resolved replay = None \<longleftrightarrow>
        (\<exists>ids. replayed_ids m replay [] = Inr ids \<and> set (map cr_InterruptID resolved) \<subseteq> set ids)"
      using False unfolding validateResolvedInterruptReplay_def m
      by (cases "replayed_ids m replay []") (simp_all add: all)
    show ?thesis using False unfolding v ids by blast
  qed (simp add: validateResolvedInterruptReplay_def m)
  also have "\<dots> \<longleftrightarrow> replay = [] \<or> mset (map request_pair replay) = mset (map resolution_pair resolved)"
  proof -
    have "distinct (map rn_InterruptID replay) \<and>
       set (map request_pair replay) \<subseteq> set (map resolution_pair resolved) \<and>
       set (map cr_InterruptID resolved) \<subseteq> set (map rn_InterruptID replay) \<and>
       [] \<notin> set (map rn_InterruptID replay) \<and> [] \<notin> set (map rn_PayloadRef replay) \<longleftrightarrow>
       mset (map request_pair replay) = mset (map resolution_pair resolved)" (is "?l \<longleftrightarrow> ?r")
    proof
      assume l: ?l
      then have dr: "distinct (map request_pair replay)" using fst_pairs(1) by (metis distinct_map)
      have "set (map resolution_pair resolved) \<subseteq> set (map request_pair replay)"
      proof
        fix x assume x: "x \<in> set (map resolution_pair resolved)"
        then have "fst x \<in> set (map rn_InterruptID replay)" using l by (auto simp: resolution_pair_def)
        then obtain y where y: "y \<in> set (map request_pair replay)" "fst y = fst x"
          by (force simp: request_pair_def)
        then have y2: "y \<in> set (map resolution_pair resolved)" using l by blast
        have "inj_on fst (set (map resolution_pair resolved))"
          using assms fst_pairs(2) distinct_map [of fst "map resolution_pair resolved"]
          unfolding resolutions_stored_def by metis
        then have "y = x" using y(2) y2 x by (rule inj_onD)
        with y show "x \<in> set (map request_pair replay)" by simp
      qed
      with l dr dist show ?r using set_eq_iff_mset_eq_distinct [of "map request_pair replay" "map resolution_pair resolved"] by blast
    next
      assume r: ?r
      have "distinct (map rn_InterruptID replay)"
      proof -
        have "mset (map fst (map request_pair replay)) = mset (map fst (map resolution_pair resolved))"
          using r by (metis mset_map)
        then show ?thesis
          using assms fst_pairs mset_eq_imp_distinct_iff unfolding resolutions_stored_def by metis
      qed
      moreover have s: "set (map request_pair replay) = set (map resolution_pair resolved)"
        using r mset_eq_setD by blast
      moreover have "set (map rn_InterruptID replay) = set (map cr_InterruptID resolved)"
        using s fst_pairs by (metis set_map)
      moreover have "set (map rn_PayloadRef replay) = set (map cr_PayloadRef resolved)"
      proof -
        have "snd ` set (map request_pair replay) = snd ` set (map resolution_pair resolved)" using s by simp
        then show ?thesis by (simp add: request_pair_def resolution_pair_def image_image)
      qed
      ultimately show ?l using assms by (simp add: resolutions_stored_def)
    qed
    then show ?thesis by blast
  qed
  finally show ?thesis .
qed

text \<open>
  A resume can be repeated. After a request was accepted, a further resume that
  brings no resolutions, or exactly the same ones in any order, is accepted, and any other
  list of resolutions is refused: a durable resolution cannot be changed by replaying it.
\<close>

theorem resolved_interrupts_replay:
  assumes "resolvePendingInterrupts pending rs = Inr resolved"
  shows "validateResolvedInterruptReplay resolved replay = None \<longleftrightarrow>
    replay = [] \<or> mset (map request_pair replay) = mset (map request_pair rs)"
proof -
  have fit: "resolutions_fit pending rs" and res: "resolved = map (resolution_for rs) pending"
    using assms resolve_iff by blast+
  note f = fit [unfolded resolutions_fit_def]
  have ids: "set (map interrupt_id pending) = set (map rn_InterruptID rs)" "distinct (map rn_InterruptID rs)"
    using f mset_eq_setD mset_eq_imp_distinct_iff by metis+
  have found: "\<exists>r. find (\<lambda>r. rn_InterruptID r = interrupt_id i) rs = Some r \<and> r \<in> set rs \<and>
      rn_InterruptID r = interrupt_id i" if "i \<in> set pending" for i
  proof -
    have "interrupt_id i \<in> rn_InterruptID ` set rs" using that ids(1) by auto
    then have "find (\<lambda>r. rn_InterruptID r = interrupt_id i) rs \<noteq> None" by (auto simp: find_None_iff)
    then show ?thesis by (auto simp: find_Some_iff)
  qed
  have rf: "\<exists>r \<in> set rs. resolution_for rs i = resolve_one i r \<and> rn_InterruptID r = interrupt_id i"
    if "i \<in> set pending" for i
    using found [OF that] unfolding resolution_for_def by fastforce
  have cr: "map cr_InterruptID resolved = map interrupt_id pending"
    unfolding res map_map
  proof (rule map_cong [OF refl])
    fix i assume "i \<in> set pending"
    then show "(cr_InterruptID \<circ> resolution_for rs) i = interrupt_id i" using rf by fastforce
  qed
  have pr: "resolution_pair x \<in> set (map request_pair rs)" if "x \<in> set resolved" for x
  proof -
    from that obtain i where i: "i \<in> set pending" "x = resolution_for rs i" unfolding res by auto
    then obtain r where "r \<in> set rs" "x = resolve_one i r" using rf by blast
    then show ?thesis by (auto simp: resolution_pair_def request_pair_def)
  qed
  have stored: "resolutions_stored resolved"
  proof -
    have "[] \<notin> set (map cr_PayloadRef resolved)"
    proof
      assume "[] \<in> set (map cr_PayloadRef resolved)"
      then obtain x where "x \<in> set resolved" "cr_PayloadRef x = []" by auto
      with pr [of x] f show False by (auto simp: resolution_pair_def request_pair_def)
    qed
    with f cr show ?thesis by (simp add: resolutions_stored_def)
  qed
  have "distinct (map resolution_pair resolved)"
    using stored by (auto simp: resolutions_stored_def resolution_pair_def distinct_map inj_on_def)
  moreover have "distinct (map request_pair rs)"
    using ids(2) by (auto simp: request_pair_def distinct_map inj_on_def)
  moreover have sub: "set (map resolution_pair resolved) \<subseteq> set (map request_pair rs)" using pr by auto
  moreover have "length (map resolution_pair resolved) = length (map request_pair rs)"
    using f res by (metis length_map size_mset)
  ultimately have "mset (map resolution_pair resolved) = mset (map request_pair rs)"
    by (metis card_subset_eq distinct_card finite_set set_eq_iff_mset_eq_distinct)
  with replay_accepted [OF stored, of replay] show ?thesis by simp
qed

definition sample_interrupt :: "string \<Rightarrow> checkpointInterrupt" where
  "sample_interrupt n =
     \<lparr>ct_Request = \<lparr>ir_ID = n, ir_Subject = ''s'', ir_ResolutionSchemaRef = []\<rparr>, ct_GuardName = ''g'',
      ct_Phase = GuardBeforeRun, ct_NodeName = ''n'', ct_ActivationID = ''act-1'', ct_ChildRunID = [],
      ct_ChildCheckpointID = [], ct_CandidateOutput = VNil, ct_HasCandidateOutput = False\<rparr>"

definition sample_resolution :: "string \<Rightarrow> string \<Rightarrow> InterruptResolution" where
  "sample_resolution n p = \<lparr>rn_InterruptID = n, rn_PayloadRef = p\<rparr>"

theorem resolved_interrupts_replay_witness:
  "\<exists>resolved. resolvePendingInterrupts [sample_interrupt ''i1'', sample_interrupt ''i2'']
       [sample_resolution ''i2'' ''p2'', sample_resolution ''i1'' ''p1''] = Inr resolved \<and>
     validateResolvedInterruptReplay resolved
       [sample_resolution ''i1'' ''p1'', sample_resolution ''i2'' ''p2''] = None \<and>
     validateResolvedInterruptReplay resolved [sample_resolution ''i1'' ''p2''] \<noteq> None"
proof -
  obtain resolved where r: "resolvePendingInterrupts [sample_interrupt ''i1'', sample_interrupt ''i2'']
       [sample_resolution ''i2'' ''p2'', sample_resolution ''i1'' ''p1''] = Inr resolved"
    by (simp add: resolvePendingInterrupts_def sample_interrupt_def sample_resolution_def)
  show ?thesis
    using r resolved_interrupts_replay [OF r, of "[sample_resolution ''i1'' ''p1'', sample_resolution ''i2'' ''p2'']"]
      resolved_interrupts_replay [OF r, of "[sample_resolution ''i1'' ''p2'']"]
    by (auto simp: request_pair_def sample_resolution_def)
qed

end
