(* ===== verification/Execution.thy ===== *)
theory Execution
  imports Interrupts
begin

text \<open>
  One run being executed: its state (\<open>workflowExecution\<close>), the services it calls (the
  store, the clock and the event sinks, whose behaviour is an argument), the stamping and
  emission of events, and the writing of checkpoints (\<open>saveCheckpoint\<close>,
  \<open>interruptCheckpoint\<close>, \<open>finishCheckpoint\<close>). Every call names the error of its context.
\<close>

section \<open>Services\<close>

type_synonym cprecord = "checkpointPayload CheckpointRecord"

record 'w services =
  sv_Create :: "goerr option \<Rightarrow> cprecord \<Rightarrow> 'w \<Rightarrow> goerr option \<times> 'w"
  sv_Load :: "goerr option \<Rightarrow> string \<Rightarrow> 'w \<Rightarrow> (goerr + cprecord) \<times> 'w"
  sv_Claim :: "goerr option \<Rightarrow> cprecord \<Rightarrow> int \<Rightarrow> 'w \<Rightarrow> goerr option \<times> 'w"
  sv_Save :: "goerr option \<Rightarrow> cprecord \<Rightarrow> int \<Rightarrow> 'w \<Rightarrow> goerr option \<times> 'w"
  sv_Finish :: "goerr option \<Rightarrow> cprecord \<Rightarrow> int \<Rightarrow> 'w \<Rightarrow> goerr option \<times> 'w"
  sv_Append :: "goerr option \<Rightarrow> Record \<Rightarrow> 'w \<Rightarrow> goerr option \<times> 'w"
  sv_AppendFenced :: "goerr option \<Rightarrow> Record \<Rightarrow> Fence \<Rightarrow> 'w \<Rightarrow> goerr option \<times> 'w"
  sv_List :: "goerr option \<Rightarrow> Query \<Rightarrow> 'w \<Rightarrow> (goerr + Record list) \<times> 'w"
  sv_now :: "'w \<Rightarrow> gotime \<times> 'w"
  sv_sinks :: "Association option \<Rightarrow> ('w, unit) EventSink option list"
  sv_gob :: gob_size
  sv_leaseDuration :: duration

section \<open>The execution\<close>

text \<open>
  \<open>ex_cause\<close> is the cause of the cancelled run context, \<open>ex_leaseCause\<close> that of the lease
  context, \<open>ex_heartbeat\<close> what the heartbeat reports when it is stopped, \<open>ex_resolved\<close> the
  resolutions a resumed run carries in its context.
\<close>

record execution =
  ex_compiled :: compiled
  ex_sessionID :: string
  ex_runID :: string
  ex_parentRunID :: string
  ex_ownerID :: string
  ex_associated :: "Association option"
  ex_sequence :: int
  ex_eventCursor :: int
  ex_replayStatus :: ReplayStatus
  ex_executionEpoch :: int
  ex_controlOrigin :: string
  ex_sourceRevision :: string
  ex_sourceRunID :: string
  ex_sourceEventSeq :: int
  ex_state :: runState
  ex_outputs :: "govalue list"
  ex_outputIndex :: int
  ex_step :: int
  ex_checkpoint :: cprecord
  ex_cause :: "goerr option"
  ex_leaseCause :: "goerr option"
  ex_heartbeat :: "goerr option"
  ex_sinkFailure :: "goerr option"
  ex_interrupts :: "checkpointInterrupt list"
  ex_interruptProgress :: "checkpointInterruptProgress option"
  ex_resolved :: "checkpointInterruptResolution list"

text \<open>The first cancellation of a context fixes its cause.\<close>

definition cancel_run :: "goerr \<Rightarrow> execution \<Rightarrow> execution" where
  "cancel_run cause ex = (if ex_cause ex = None then ex\<lparr>ex_cause := Some cause\<rparr> else ex)"

definition run_ctx :: "execution \<Rightarrow> goerr option" where
  "run_ctx ex = (if ex_cause ex = None then None else Some (Sentinel ContextCanceled))"

definition final_ctx :: "execution \<Rightarrow> goerr option" where
  "final_ctx ex = (if ex_leaseCause ex = None then None else Some (Sentinel ContextCanceled))"

definition stopCheckpointLeaseHeartbeat :: "execution \<Rightarrow> goerr option" where
  "stopCheckpointLeaseHeartbeat ex = ex_heartbeat ex"

section \<open>Lease errors\<close>

definition markCheckpointLeaseError :: "goerr \<Rightarrow> cprecord \<Rightarrow> goerr" where
  "markCheckpointLeaseError err record =
     (if \<not> errors_is err ErrCheckpointLeaseLost then err
      else LeaseError err (cp_RunID record) (cp_OwnerID record) (cp_ClaimSequence record))"

definition matchesCheckpointLeaseError :: "execution \<Rightarrow> goerr option \<Rightarrow> bool" where
  "matchesCheckpointLeaseError ex cause =
     (case cause of
        None \<Rightarrow> False
      | Some e \<Rightarrow>
          (case as_lease_error e of
             None \<Rightarrow> False
           | Some (runID, ownerID, claim) \<Rightarrow>
               runID = ex_runID ex \<and> ownerID = cp_OwnerID (ex_checkpoint ex) \<and>
               claim = cp_ClaimSequence (ex_checkpoint ex)))"

section \<open>Events of the run\<close>

definition revision_id :: "string \<Rightarrow> int \<Rightarrow> string" where
  "revision_id run sequence = run @ ''/revision-'' @ int_string sequence"

definition runtimeEvent :: "gotime \<Rightarrow> execution \<Rightarrow> Event \<Rightarrow> int \<Rightarrow> Event" where
  "runtimeEvent now ex event sequence =
     (let e1 = (if ev_RunID event = []
                then event\<lparr>ev_ActivationID := (if ev_ActivationID event \<noteq> []
                                                 then ex_runID ex @ ''/'' @ ev_ActivationID event
                                                 else ev_ActivationID event),
                           ev_AttemptID := (if ev_AttemptID event \<noteq> []
                                              then ex_runID ex @ ''/'' @ ev_AttemptID event
                                              else ev_AttemptID event)\<rparr>
                else event);
          e2 = e1\<lparr>ev_DefinitionID := co_name (ex_compiled ex),
                  ev_DefinitionVersion := co_topologyVersion (ex_compiled ex),
                  ev_SessionID := ex_sessionID ex, ev_RunID := ex_runID ex,
                  ev_ParentRunID := ex_parentRunID ex, ev_ExecutionEpoch := ex_executionEpoch ex,
                  ev_SourceRevisionID := ex_sourceRevision ex, ev_Sequence := sequence\<rparr>
      in e2\<lparr>ev_RevisionID := (if ev_RevisionID e2 = [] then revision_id (ex_runID ex) sequence
                              else ev_RevisionID e2),
            ev_Timestamp := (if is_zero_time (ev_Timestamp e2) then now else ev_Timestamp e2),
            ev_Source := (if ev_Source e2 = [] then ''workflow'' else ev_Source e2),
            ev_Origin := (if ev_Origin e2 = []
                          then (if ex_controlOrigin ex = [] then ''runtime'' else ex_controlOrigin ex)
                          else ev_Origin e2)\<rparr>)"

text \<open>\<open>time.Now()\<close> is read only for an event without a timestamp.\<close>

definition stamp :: "'w services \<Rightarrow> execution \<Rightarrow> Event \<Rightarrow> int \<Rightarrow> 'w \<Rightarrow> Event \<times> 'w" where
  "stamp sv ex event sequence w =
     (if is_zero_time (ev_Timestamp event)
      then (let (now, w1) = sv_now sv w in (runtimeEvent now ex event sequence, w1))
      else (runtimeEvent zero_time ex event sequence, w))"

definition recordSinkFailure :: "goerr \<Rightarrow> execution \<Rightarrow> execution" where
  "recordSinkFailure err ex = cancel_run err (ex\<lparr>ex_sinkFailure := Some err\<rparr>)"

definition journal_record :: "execution \<Rightarrow> Event \<Rightarrow> Record" where
  "journal_record ex event =
     (RecordFromEvent event)\<lparr>rl_SourceRunID := ex_sourceRunID ex, rl_SourceEventSeq := ex_sourceEventSeq ex\<rparr>"

type_synonym 'w outcome = "goerr option \<times> execution \<times> 'w"

definition observe :: "'w services \<Rightarrow> Event \<Rightarrow> execution \<Rightarrow> 'w \<Rightarrow> 'w outcome" where
  "observe sv event ex w =
     (case eventDelivery_emit (sv_sinks sv (ex_associated ex)) event w of
        (Some err, w1) \<Rightarrow> (Some err, recordSinkFailure err ex, w1)
      | (None, w1) \<Rightarrow> (None, ex\<lparr>ex_eventCursor := ex_sequence ex\<rparr>, w1))"

definition appendFencedEventWithObserver ::
  "'w services \<Rightarrow> goerr option \<Rightarrow> Event \<Rightarrow> execution \<Rightarrow> 'w \<Rightarrow> 'w outcome" where
  "appendFencedEventWithObserver sv storeCtx event ex w =
     (case sv_AppendFenced sv storeCtx (journal_record ex event)
             \<lparr>fn_OwnerID = cp_OwnerID (ex_checkpoint ex),
              fn_ClaimSequence = cp_ClaimSequence (ex_checkpoint ex)\<rparr> w of
        (Some err, w1) \<Rightarrow>
          if errors_is err ErrCheckpointLeaseLost
            then (let leaseError = markCheckpointLeaseError err (ex_checkpoint ex) in
                  (Some leaseError, cancel_run (Joined [Sentinel ContextCanceled, leaseError]) ex, w1))
          else (Some err, recordSinkFailure err ex, w1)
      | (None, w1) \<Rightarrow> observe sv event ex w1)"

definition emitLockedWithContexts ::
  "'w services \<Rightarrow> goerr option \<Rightarrow> Event \<Rightarrow> execution \<Rightarrow> 'w \<Rightarrow> 'w outcome" where
  "emitLockedWithContexts sv storeCtx event ex w =
     (if ex_sinkFailure ex \<noteq> None then (ex_sinkFailure ex, ex, w)
      else (let ex1 = ex\<lparr>ex_sequence := ex_sequence ex + 1\<rparr>;
                (stamped, w1) = stamp sv ex1 event (ex_sequence ex1) w in
        if cp_ID (ex_checkpoint ex1) \<noteq> []
          then appendFencedEventWithObserver sv storeCtx stamped ex1 w1
        else (case sv_Append sv storeCtx (journal_record ex1 stamped) w1 of
            (Some err, w2) \<Rightarrow> (Some err, recordSinkFailure err ex1, w2)
          | (None, w2) \<Rightarrow> observe sv stamped ex1 w2)))"

text \<open>The context of a detached write is not cancelled with the run.\<close>

definition emitLocked :: "'w services \<Rightarrow> Event \<Rightarrow> execution \<Rightarrow> 'w \<Rightarrow> 'w outcome" where
  "emitLocked sv = emitLockedWithContexts sv None"

definition emit_event :: "'w services \<Rightarrow> Event \<Rightarrow> execution \<Rightarrow> 'w \<Rightarrow> 'w outcome" where
  "emit_event sv event ex w =
     (if cp_ID (ex_checkpoint ex) = [] then emitLocked sv event ex w
      else if ex_sinkFailure ex \<noteq> None then (ex_sinkFailure ex, ex, w)
      else if matchesCheckpointLeaseError ex (ex_cause ex) then (ex_cause ex, ex, w)
      else emitLocked sv event ex w)"

definition emitCustom ::
  "'w services \<Rightarrow> json_lib \<Rightarrow> (string \<rightharpoonup> EventTypeValidator) \<Rightarrow> Event \<Rightarrow> execution \<Rightarrow> 'w \<Rightarrow> 'w outcome" where
  "emitCustom sv js types event ex w =
     (case validateCustomEvent js types event of
        Some err \<Rightarrow> (Some err, ex, w)
      | None \<Rightarrow> emit_event sv event ex w)"

section \<open>Writing checkpoints\<close>

record checkpointWriteRequest =
  wr_Record :: cprecord
  wr_State :: runState
  wr_Outputs :: "govalue list"
  wr_NextStep :: int
  wr_EventCursor :: int
  wr_PendingEvent :: "Event option"
  wr_PendingTerm :: "CheckpointStatus option"
  wr_ReplayStatus :: ReplayStatus
  wr_PendingInterrupts :: "checkpointInterrupt list"
  wr_InterruptProgress :: "checkpointInterruptProgress option"

definition writeRequest :: "int \<Rightarrow> Event option \<Rightarrow> execution \<Rightarrow> checkpointWriteRequest" where
  "writeRequest nextStep pending ex =
     \<lparr>wr_Record = ex_checkpoint ex, wr_State = ex_state ex, wr_Outputs = ex_outputs ex,
      wr_NextStep = nextStep, wr_EventCursor = ex_eventCursor ex, wr_PendingEvent = pending,
      wr_PendingTerm = None, wr_ReplayStatus = ex_replayStatus ex,
      wr_PendingInterrupts = ex_interrupts ex, wr_InterruptProgress = ex_interruptProgress ex\<rparr>"

definition pendingEventSequence :: "Event option \<Rightarrow> int" where
  "pendingEventSequence event = (case event of None \<Rightarrow> 0 | Some e \<Rightarrow> ev_Sequence e)"

definition write_meta :: "checkpointWriteRequest \<Rightarrow> checkpointPayloadMeta \<Rightarrow> checkpointPayloadMeta" where
  "write_meta req meta = meta
     \<lparr>pm_EventCursor := wr_EventCursor req, pm_PendingEvent := wr_PendingEvent req,
      pm_PendingTerm := wr_PendingTerm req, pm_PendingInterrupts := wr_PendingInterrupts req,
      pm_InterruptProgress := wr_InterruptProgress req\<rparr>"

definition write_record :: "checkpointWriteRequest \<Rightarrow> cprecord \<Rightarrow> cprecord" where
  "write_record req rec = rec
     \<lparr>cp_ConfirmedSequence := wr_EventCursor req,
      cp_PendingSequence := pendingEventSequence (wr_PendingEvent req),
      cp_ReplayStatus := wr_ReplayStatus req\<rparr>"

definition saveCheckpoint ::
  "'w services \<Rightarrow> goerr option \<Rightarrow> checkpointWriteRequest \<Rightarrow> 'w \<Rightarrow> (goerr + cprecord) \<times> 'w" where
  "saveCheckpoint sv ctx req w =
     (if cp_ID (wr_Record req) = [] then (Inr (wr_Record req), w)
      else (case decodeCheckpointPayloadMeta (cp_Payload (wr_Record req)) of
          Inl e \<Rightarrow> (Inl e, w)
        | Inr meta0 \<Rightarrow>
            (let (now, w1) = sv_now sv w;
                 rec = wr_Record req;
                 expires = now + sv_leaseDuration sv;
                 meta = write_meta req (meta0\<lparr>pm_OwnerID := cp_OwnerID rec,
                          pm_ClaimSequence := cp_ClaimSequence rec, pm_LeaseExpiresAt := expires\<rparr>) in
             case encodeCheckpointPayloadWithMeta (sv_gob sv) (wr_State req) (wr_Outputs req)
                    (wr_NextStep req) meta of
               Inl e \<Rightarrow> (Inl e, w1)
             | Inr payload \<Rightarrow>
                 (let next = write_record req (rec
                        \<lparr>cp_Payload := payload, cp_Status := CheckpointRunning,
                         cp_LeaseExpiresAt := expires, cp_LeaseDuration := sv_leaseDuration sv,
                         cp_UpdatedAt := now\<rparr>) in
                  case sv_Save sv ctx next (cp_Version rec) w1 of
                    (Some err, w2) \<Rightarrow> (Inl (markCheckpointLeaseError err rec), w2)
                  | (None, w2) \<Rightarrow> (Inr (next\<lparr>cp_Version := cp_Version next + 1\<rparr>), w2)))))"

definition interruptCheckpoint ::
  "'w services \<Rightarrow> goerr option \<Rightarrow> checkpointWriteRequest \<Rightarrow> checkpointInterrupt list \<Rightarrow> 'w
   \<Rightarrow> (goerr + cprecord) \<times> 'w" where
  "interruptCheckpoint sv ctx req interrupts w =
     (if cp_ID (wr_Record req) = [] then (Inr (wr_Record req), w)
      else (case decodeCheckpointPayloadMeta (cp_Payload (wr_Record req)) of
          Inl e \<Rightarrow> (Inl e, w)
        | Inr meta0 \<Rightarrow>
            (let (now, w1) = sv_now sv w;
                 rec = wr_Record req;
                 pending = (wr_PendingEvent req \<noteq> None);
                 meta = (write_meta req (if pending
                          then meta0\<lparr>pm_OwnerID := cp_OwnerID rec,
                                     pm_LeaseExpiresAt := now + sv_leaseDuration sv\<rparr>
                          else meta0\<lparr>pm_OwnerID := [], pm_LeaseExpiresAt := zero_time\<rparr>))
                        \<lparr>pm_PendingInterrupts := interrupts\<rparr> in
             case encodeCheckpointPayloadWithMeta (sv_gob sv) (wr_State req) (wr_Outputs req)
                    (wr_NextStep req) meta of
               Inl e \<Rightarrow> (Inl e, w1)
             | Inr payload \<Rightarrow>
                 (let base = rec\<lparr>cp_Payload := payload\<rparr>;
                      held = (if pending
                        then base\<lparr>cp_Status := CheckpointRunning, cp_OwnerID := pm_OwnerID meta,
                                  cp_LeaseExpiresAt := pm_LeaseExpiresAt meta,
                                  cp_LeaseDuration := sv_leaseDuration sv\<rparr>
                        else base\<lparr>cp_Status := CheckpointInterrupted, cp_OwnerID := [],
                                  cp_LeaseExpiresAt := zero_time, cp_LeaseDuration := 0\<rparr>);
                      next = write_record req (held\<lparr>cp_UpdatedAt := now\<rparr>) in
                  case sv_Save sv ctx next (cp_Version rec) w1 of
                    (Some err, w2) \<Rightarrow> (Inl (markCheckpointLeaseError err rec), w2)
                  | (None, w2) \<Rightarrow> (Inr (next\<lparr>cp_Version := cp_Version next + 1\<rparr>), w2)))))"

definition finishCheckpoint ::
  "'w services \<Rightarrow> goerr option \<Rightarrow> CheckpointStatus \<Rightarrow> checkpointWriteRequest \<Rightarrow> 'w
   \<Rightarrow> goerr option \<times> 'w" where
  "finishCheckpoint sv ctx status req w =
     (if cp_ID (wr_Record req) = [] then (None, w)
      else (case decodeCheckpointPayloadMeta (cp_Payload (wr_Record req)) of
          Inl e \<Rightarrow> (Some e, w)
        | Inr meta0 \<Rightarrow>
            (let meta = write_meta req (meta0\<lparr>pm_OwnerID := [], pm_LeaseExpiresAt := zero_time\<rparr>) in
             case encodeCheckpointPayloadWithMeta (sv_gob sv) (wr_State req) (wr_Outputs req)
                    (wr_NextStep req) meta of
               Inl e \<Rightarrow> (Some e, w)
             | Inr payload \<Rightarrow>
                 (let (now, w1) = sv_now sv w;
                      rec = wr_Record req;
                      next = write_record req (rec
                        \<lparr>cp_Payload := payload, cp_Status := status, cp_OwnerID := [],
                         cp_LeaseExpiresAt := zero_time, cp_LeaseDuration := 0, cp_UpdatedAt := now\<rparr>)
                  in sv_Finish sv ctx next (cp_Version rec) w1))))"

end
