(* ===== verification/Journal.thy ===== *)
theory Journal
  imports Execution
begin

text \<open>
  The durability protocol of a run. An event is committed in three writes: a checkpoint
  that announces it as pending, the fenced append to the journal, and a checkpoint that confirms it
  (\<open>commitRunningEvent\<close>, \<open>commitTerminalEvent\<close>); terminal and interrupted runs end with a last write.
  Starting, claiming and restoring a run read this protocol back (\<open>prepareCheckpoint\<close>,
  \<open>claimCheckpoint\<close>, \<open>replayPending\<close>, \<open>reconcileJournal\<close>, \<open>restore\<close>).
\<close>

section \<open>Committing events\<close>

definition replayStatusForEvent :: "string \<Rightarrow> ReplayStatus" where
  "replayStatusForEvent eventType =
     (if eventType = EventWorkflowStarted then ReplaySafe else ReplayUnknown)"

definition commitRunningEvent ::
  "'w services \<Rightarrow> Event \<Rightarrow> int \<Rightarrow> execution \<Rightarrow> 'w \<Rightarrow> 'w outcome" where
  "commitRunningEvent sv event nextStep ex w =
     (if cp_ID (ex_checkpoint ex) = [] then emitLocked sv event ex w
      else if ex_sinkFailure ex \<noteq> None then (ex_sinkFailure ex, ex, w)
      else (let (pending, w1) = stamp sv ex event (ex_sequence ex + 1) w;
                replayStatus = replayStatusForEvent (ev_Type event);
                announce = (writeRequest nextStep (Some pending) ex)\<lparr>wr_ReplayStatus := replayStatus\<rparr> in
        case saveCheckpoint sv (run_ctx ex) announce w1 of
          (Inl err, w2) \<Rightarrow> (Some err, ex, w2)
        | (Inr saved, w2) \<Rightarrow>
            (case emitLocked sv pending (ex\<lparr>ex_checkpoint := saved\<rparr>) w2 of
               (Some err, ex3, w3) \<Rightarrow> (Some err, ex3, w3)
             | (None, ex3, w3) \<Rightarrow>
                 (let confirm = (writeRequest nextStep None ex3)\<lparr>wr_ReplayStatus := replayStatus\<rparr> in
                  case saveCheckpoint sv (run_ctx ex3) confirm w3 of
                    (Inl err, w4) \<Rightarrow> (Some err, ex3, w4)
                  | (Inr saved2, w4) \<Rightarrow>
                      (None, ex3\<lparr>ex_checkpoint := saved2, ex_replayStatus := replayStatus\<rparr>, w4)))))"

definition commitTerminalEvent ::
  "'w services \<Rightarrow> CheckpointStatus \<Rightarrow> Event \<Rightarrow> execution \<Rightarrow> 'w \<Rightarrow> 'w outcome" where
  "commitTerminalEvent sv status event ex w =
     (if cp_ID (ex_checkpoint ex) = [] then emitLocked sv event ex w
      else if ex_sinkFailure ex \<noteq> None then (ex_sinkFailure ex, ex, w)
      else (let (pending, w1) = stamp sv ex event (ex_sequence ex + 1) w;
                announce = (writeRequest (ex_step ex) (Some pending) ex)\<lparr>wr_PendingTerm := Some status\<rparr> in
        case saveCheckpoint sv (final_ctx ex) announce w1 of
          (Inl err, w2) \<Rightarrow> (Some err, ex, w2)
        | (Inr saved, w2) \<Rightarrow>
            (case emitLockedWithContexts sv (final_ctx ex) pending (ex\<lparr>ex_checkpoint := saved\<rparr>) w2 of
               (Some err, ex3, w3) \<Rightarrow> (Some err, ex3, w3)
             | (None, ex3, w3) \<Rightarrow>
                 (case stopCheckpointLeaseHeartbeat ex3 of
                    Some err \<Rightarrow> (Some err, ex3, w3)
                  | None \<Rightarrow>
                      (case finishCheckpoint sv (final_ctx ex3) status
                              (writeRequest (ex_step ex3) None ex3) w3 of
                         (err, w4) \<Rightarrow> (err, ex3, w4))))))"

definition commitTerminalError ::
  "'w services \<Rightarrow> CheckpointStatus \<Rightarrow> Event \<Rightarrow> goerr \<Rightarrow> execution \<Rightarrow> 'w \<Rightarrow> 'w outcome" where
  "commitTerminalError sv status event cause ex w =
     (case commitTerminalEvent sv status event ex w of
        (Some err, ex1, w1) \<Rightarrow> (Some err, ex1, w1)
      | (None, ex1, w1) \<Rightarrow> (Some cause, ex1, w1))"

definition fail_run :: "'w services \<Rightarrow> goerr \<Rightarrow> execution \<Rightarrow> 'w \<Rightarrow> 'w outcome" where
  "fail_run sv cause = commitTerminalError sv CheckpointFailed (zero_Event\<lparr>ev_Type := EventWorkflowFailed\<rparr>) cause"

definition cancelRun :: "'w services \<Rightarrow> goerr \<Rightarrow> execution \<Rightarrow> 'w \<Rightarrow> 'w outcome" where
  "cancelRun sv cause =
     (if errors_is cause ErrRunTerminated
      then commitTerminalError sv CheckpointTerminated
             (zero_Event\<lparr>ev_Type := EventWorkflowTerminated, ev_Origin := ''external_terminate''\<rparr>) cause
      else commitTerminalError sv CheckpointCanceled (zero_Event\<lparr>ev_Type := EventWorkflowCanceled\<rparr>) cause)"

definition finish_run :: "'w services \<Rightarrow> execution \<Rightarrow> 'w \<Rightarrow> 'w outcome" where
  "finish_run sv = commitTerminalEvent sv CheckpointCompleted (zero_Event\<lparr>ev_Type := EventWorkflowCompleted\<rparr>)"

definition preserveExecutionError :: "goerr option \<Rightarrow> goerr option" where
  "preserveExecutionError err = map_option Preserved err"

text \<open>How a run ends on an error: lost lease, cancellation, an error kept as it is, or failure.\<close>

definition handleError :: "'w services \<Rightarrow> goerr \<Rightarrow> execution \<Rightarrow> 'w \<Rightarrow> 'w outcome" where
  "handleError sv cause ex w =
     (if matchesCheckpointLeaseError ex (ex_cause ex) then (ex_cause ex, ex, w)
      else if matchesCheckpointLeaseError ex (Some cause)
        then (Some cause, cancel_run (Joined [Sentinel ContextCanceled, cause]) ex, w)
      else (case ex_cause ex of
          Some canceled \<Rightarrow> cancelRun sv canceled ex w
        | None \<Rightarrow>
            (case cause of
               Preserved c \<Rightarrow> (Some c, ex, w)
             | _ \<Rightarrow> fail_run sv cause ex w)))"

definition startAttempt :: "'w services \<Rightarrow> bool \<Rightarrow> execution \<Rightarrow> 'w \<Rightarrow> 'w outcome" where
  "startAttempt sv resume ex w =
     (let t1 = (if resume then EventWorkflowResumed else EventWorkflowStarted);
          t2 = (if ex_controlOrigin ex = ''external_retry'' then EventWorkflowRetryStarted else t1);
          t3 = (if ex_controlOrigin ex = ''external_jump'' then EventWorkflowJumpStarted else t2)
      in commitRunningEvent sv (zero_Event\<lparr>ev_Type := t3\<rparr>) (ex_step ex) ex w)"

section \<open>Interrupt batches\<close>

definition commitInterruptBatchEvent ::
  "'w services \<Rightarrow> Event \<Rightarrow> execution \<Rightarrow> 'w \<Rightarrow> 'w outcome" where
  "commitInterruptBatchEvent sv event ex w =
     (if ex_sinkFailure ex \<noteq> None then (ex_sinkFailure ex, ex, w)
      else (case saveCheckpoint sv (final_ctx ex) (writeRequest (ex_step ex) (Some event) ex) w of
          (Inl err, w1) \<Rightarrow> (Some err, ex, w1)
        | (Inr saved, w1) \<Rightarrow>
            (case emitLockedWithContexts sv (final_ctx ex) event (ex\<lparr>ex_checkpoint := saved\<rparr>) w1 of
               (Some err, ex2, w2) \<Rightarrow> (Some err, ex2, w2)
             | (None, ex2, w2) \<Rightarrow>
                 (let ex3 = ex2\<lparr>ex_interruptProgress :=
                        map_option (\<lambda>p. p\<lparr>pr_Next := pr_Next p + 1\<rparr>) (ex_interruptProgress ex2)\<rparr> in
                  case saveCheckpoint sv (final_ctx ex3) (writeRequest (ex_step ex3) None ex3) w2 of
                    (Inl err, w3) \<Rightarrow> (Some err, ex3, w3)
                  | (Inr saved2, w3) \<Rightarrow> (None, ex3\<lparr>ex_checkpoint := saved2\<rparr>, w3)))))"

fun commit_interrupt_events ::
  "'w services \<Rightarrow> Event list \<Rightarrow> execution \<Rightarrow> 'w \<Rightarrow> 'w outcome" where
  "commit_interrupt_events sv [] ex w = (None, ex, w)"
| "commit_interrupt_events sv (event # events) ex w =
     (case commitInterruptBatchEvent sv event ex w of
        (Some err, ex1, w1) \<Rightarrow> (Some err, ex1, w1)
      | (None, ex1, w1) \<Rightarrow> commit_interrupt_events sv events ex1 w1)"

text \<open>The loop runs over the events from \<open>Next\<close> on, each committed event moving \<open>Next\<close> by one.\<close>

definition remaining_events :: "checkpointInterruptProgress option \<Rightarrow> Event list" where
  "remaining_events progress =
     (case progress of None \<Rightarrow> [] | Some p \<Rightarrow> drop (nat (pr_Next p)) (pr_Events p))"

definition continueInterruptBatch :: "'w services \<Rightarrow> execution \<Rightarrow> 'w \<Rightarrow> 'w outcome" where
  "continueInterruptBatch sv ex w =
     (case commit_interrupt_events sv (remaining_events (ex_interruptProgress ex)) ex w of
        (Some err, ex1, w1) \<Rightarrow> (Some err, ex1, w1)
      | (None, ex1, w1) \<Rightarrow>
          (case stopCheckpointLeaseHeartbeat ex1 of
             Some err \<Rightarrow> (Some err, ex1, w1)
           | None \<Rightarrow>
               (let ex2 = ex1\<lparr>ex_interruptProgress := None\<rparr> in
                case interruptCheckpoint sv (final_ctx ex2) (writeRequest (ex_step ex2) None ex2)
                       (ex_interrupts ex2) w1 of
                  (Inl err, w2) \<Rightarrow> (Some err, ex1, w2)
                | (Inr saved, w2) \<Rightarrow> (None, ex2\<lparr>ex_checkpoint := saved\<rparr>, w2))))"

definition interruptError :: "execution \<Rightarrow> InterruptErrorRec" where
  "interruptError ex =
     (case ex_interrupts ex of
        [] \<Rightarrow> \<lparr>ie_Request = \<lparr>ir_ID = [], ir_Subject = [], ir_ResolutionSchemaRef = []\<rparr>,
               ie_Requests = [], ie_RunID = ex_runID ex, ie_CheckpointID = cp_ID (ex_checkpoint ex),
               ie_GuardName = [], ie_Phase = GuardPhaseOther [], ie_candidateOutput = VNil,
               ie_hasCandidateOutput = False\<rparr>
      | i # _ \<Rightarrow> \<lparr>ie_Request = ct_Request i, ie_Requests = map ct_Request (ex_interrupts ex),
               ie_RunID = ex_runID ex, ie_CheckpointID = cp_ID (ex_checkpoint ex),
               ie_GuardName = ct_GuardName i, ie_Phase = ct_Phase i,
               ie_candidateOutput = ct_CandidateOutput i,
               ie_hasCandidateOutput = ct_HasCandidateOutput i\<rparr>)"

definition interruptRequests :: "InterruptErrorRec \<Rightarrow> InterruptRequest list" where
  "interruptRequests i = (if ie_Requests i \<noteq> [] then ie_Requests i else [ie_Request i])"

definition checkpointInterruptsForActivation ::
  "activation \<Rightarrow> InterruptErrorRec \<Rightarrow> InterruptRequest list \<Rightarrow> checkpointInterrupt list" where
  "checkpointInterruptsForActivation current i requests =
     map (\<lambda>request.
       \<lparr>ct_Request = request, ct_GuardName = (if ie_RunID i \<noteq> [] then [] else ie_GuardName i),
        ct_Phase = ie_Phase i, ct_NodeName = ac_node current, ct_ActivationID = ac_id current,
        ct_ChildRunID = ie_RunID i, ct_ChildCheckpointID = ie_CheckpointID i,
        ct_CandidateOutput = (if ie_hasCandidateOutput i then ie_candidateOutput i else VNil),
        ct_HasCandidateOutput = ie_hasCandidateOutput i\<rparr>) requests"

fun interrupt_events ::
  "'w services \<Rightarrow> execution \<Rightarrow> InterruptRequest list \<Rightarrow> string list \<Rightarrow> Event list \<Rightarrow> 'w
   \<Rightarrow> (goerr + Event list) \<times> 'w" where
  "interrupt_events sv ex [] seen events w = (Inr events, w)"
| "interrupt_events sv ex (request # requests) seen events w =
     (if ir_ID request = [] then (Inl (Msg ''workflow: interrupt id is required''), w)
      else if ir_ID request \<in> set seen
        then (Inl (Msg ''workflow: duplicate pending interrupt id''), w)
      else (let (event, w1) = stamp sv ex
                  (zero_Event\<lparr>ev_Type := EventGuardInterrupted, ev_Source := ''workflow.guard'',
                     ev_Summary := ir_Subject request, ev_Payload := PInterrupt request\<rparr>)
                  (ex_sequence ex + int (length events) + 1) w
            in interrupt_events sv ex requests (seen @ [ir_ID request]) (events @ [event]) w1))"

definition finishInterrupt ::
  "'w services \<Rightarrow> runState \<Rightarrow> checkpointInterrupt list \<Rightarrow> InterruptErrorRec \<Rightarrow> InterruptRequest list
   \<Rightarrow> execution \<Rightarrow> 'w \<Rightarrow> 'w outcome" where
  "finishInterrupt sv state waits first requests ex w =
     (case interrupt_events sv ex requests [] [] w of
        (Inl err, w1) \<Rightarrow> (Some err, ex, w1)
      | (Inr events, w1) \<Rightarrow>
          (let (last_event, w2) = stamp sv ex
                 (zero_Event\<lparr>ev_Type := EventWorkflowInterrupted, ev_Source := ''workflow'',
                    ev_Summary := ir_Subject (ie_Request first)\<rparr>)
                 (ex_sequence ex + int (length events) + 1) w1;
               ex1 = ex\<lparr>ex_state := state, ex_interrupts := waits,
                 ex_interruptProgress := Some \<lparr>pr_Events = events @ [last_event], pr_Next = 0\<rparr>\<rparr> in
           case continueInterruptBatch sv ex1 w2 of
             (Some err, ex2, w3) \<Rightarrow> (Some (Preserved err), ex2, w3)
           | (None, ex2, w3) \<Rightarrow> (Some (Preserved (Interrupted (interruptError ex2))), ex2, w3)))"

section \<open>Starting and claiming\<close>

record ResumeRequest =
  rq_RunID :: string
  rq_CheckpointID :: string
  rq_Resolutions :: "InterruptResolution list"

record checkpointPrepareRequest =
  pq_SessionID :: string
  pq_RunID :: string
  pq_OwnerID :: string
  pq_Resume :: ResumeRequest
  pq_IsResume :: bool
  pq_State :: runState
  pq_Outputs :: "govalue list"
  pq_NextStep :: int
  pq_ControlOrigin :: string
  pq_SourceRevisionID :: string
  pq_Association :: "Association option"

definition checkpointMeta :: "compiled \<Rightarrow> checkpointPayloadMeta \<Rightarrow> checkpointPayloadMeta" where
  "checkpointMeta c meta = meta
     \<lparr>pm_SchemaVersion := checkpointSchemaVersion, pm_WorkflowName := co_name c,
      pm_TopologyVersion := co_topologyVersion c,
      pm_ExecutionEpoch := (if pm_ExecutionEpoch meta \<le> 0 then 1 else pm_ExecutionEpoch meta),
      pm_ControlOrigin := (if pm_ControlOrigin meta = [] then ''natural'' else pm_ControlOrigin meta)\<rparr>"

definition mismatch :: "string \<Rightarrow> goerr option" where
  "mismatch text = Some (Wrap text [Sentinel ErrCheckpointMismatch])"

definition validateCheckpointIdentity :: "compiled \<Rightarrow> checkpointPayloadMeta \<Rightarrow> goerr option" where
  "validateCheckpointIdentity c payload =
     (if pm_SchemaVersion payload \<noteq> checkpointSchemaVersion
        then mismatch ''checkpoint schema version is incompatible''
      else if pm_WorkflowName payload \<noteq> co_name c
        then mismatch ''checkpoint workflow does not match''
      else if pm_TopologyVersion payload \<noteq> co_topologyVersion c
        then mismatch ''checkpoint topology version does not match''
      else None)"

definition validateCheckpointRecordIdentity :: "compiled \<Rightarrow> cprecord \<Rightarrow> goerr option" where
  "validateCheckpointRecordIdentity c rec =
     (if cp_SchemaVersion rec \<noteq> checkpointSchemaVersion
        then mismatch ''checkpoint schema version is incompatible''
      else if cp_SessionID rec = [] then mismatch ''checkpoint session is missing''
      else if cp_WorkflowName rec \<noteq> co_name c
        then mismatch ''checkpoint workflow does not match''
      else if cp_TopologyVersion rec \<noteq> co_topologyVersion c
        then mismatch ''checkpoint topology version does not match''
      else None)"

definition validateCheckpointSourceIdentity :: "cprecord \<Rightarrow> checkpointPayloadMeta \<Rightarrow> goerr option" where
  "validateCheckpointSourceIdentity rec meta =
     (if \<not> validSourceLineage (cp_SourceRunID rec) (cp_SourceEventSeq rec) (cp_SourceRevisionID rec) \<or>
         \<not> validSourceLineage (pm_SourceRunID meta) (pm_SourceEventSeq meta) (pm_SourceRevisionID meta) \<or>
         cp_SourceRunID rec \<noteq> pm_SourceRunID meta \<or> cp_SourceEventSeq rec \<noteq> pm_SourceEventSeq meta \<or>
         cp_SourceRevisionID rec \<noteq> pm_SourceRevisionID meta
        then mismatch ''checkpoint source lineage is inconsistent'' else None)"

definition terminalResumeCheckpoint :: "cprecord \<Rightarrow> goerr + cprecord" where
  "terminalResumeCheckpoint rec =
     Inl (Wrap ''workflow checkpoint status cannot resume'' [Sentinel ErrCheckpointConflict])"

definition new_meta :: checkpointPayloadMeta where
  "new_meta =
     \<lparr>pm_SchemaVersion = 0, pm_WorkflowName = [], pm_TopologyVersion = [], pm_OwnerID = [],
      pm_LeaseExpiresAt = 0, pm_ClaimSequence = 0, pm_EventCursor = 0, pm_PendingEvent = None,
      pm_PendingTerm = None, pm_PendingInterrupts = [], pm_InterruptProgress = None,
      pm_ResolvedInterrupts = [], pm_ExecutionEpoch = 0, pm_ControlOrigin = [],
      pm_SourceRevisionID = [], pm_SourceRunID = [], pm_SourceEventSeq = 0\<rparr>"

definition create_meta :: "compiled \<Rightarrow> duration \<Rightarrow> gotime \<Rightarrow> checkpointPrepareRequest \<Rightarrow> checkpointPayloadMeta" where
  "create_meta c lease now req =
     (let m0 = checkpointMeta c (new_meta\<lparr>pm_OwnerID := pq_OwnerID req,
                 pm_LeaseExpiresAt := now + lease, pm_ClaimSequence := 1\<rparr>);
          m1 = (case pq_Association req of
                  None \<Rightarrow> m0
                | Some a \<Rightarrow> m0\<lparr>pm_SourceRunID := as_SourceRunID a, pm_SourceEventSeq := as_SourceEventSeq a\<rparr>)
      in if pq_SourceRevisionID req \<noteq> []
         then m1\<lparr>pm_ControlOrigin := pq_ControlOrigin req, pm_SourceRevisionID := pq_SourceRevisionID req\<rparr>
         else m1)"

definition create_checkpoint ::
  "'w services \<Rightarrow> goerr option \<Rightarrow> compiled \<Rightarrow> checkpointPrepareRequest \<Rightarrow> 'w \<Rightarrow> (goerr + cprecord) \<times> 'w" where
  "create_checkpoint sv ctx c req w =
     (let (now, w1) = sv_now sv w;
          meta = create_meta c (sv_leaseDuration sv) now req in
      case encodeCheckpointPayloadWithMeta (sv_gob sv) (pq_State req) (pq_Outputs req) (pq_NextStep req) meta of
        Inl e \<Rightarrow> (Inl e, w1)
      | Inr payload \<Rightarrow>
          (let rec = \<lparr>cp_ID = ''checkpoint:'' @ pq_RunID req, cp_SessionID = pq_SessionID req,
                 cp_RunID = pq_RunID req, cp_SourceRunID = pm_SourceRunID meta,
                 cp_SourceEventSeq = pm_SourceEventSeq meta,
                 cp_SourceRevisionID = pm_SourceRevisionID meta, cp_WorkflowName = co_name c,
                 cp_TopologyVersion = co_topologyVersion c,
                 cp_SchemaVersion = checkpointSchemaVersion, cp_Version = 1,
                 cp_Status = CheckpointRunning, cp_Payload = payload, cp_ConfirmedSequence = 0,
                 cp_PendingSequence = 0, cp_ReplayStatus = ReplayUnknown,
                 cp_OwnerID = pm_OwnerID meta, cp_LeaseExpiresAt = pm_LeaseExpiresAt meta,
                 cp_LeaseDuration = sv_leaseDuration sv, cp_ClaimSequence = pm_ClaimSequence meta,
                 cp_CreatedAt = now, cp_UpdatedAt = now\<rparr> in
           case sv_Create sv ctx rec w1 of
             (Some err, w2) \<Rightarrow> (Inl err, w2)
           | (None, w2) \<Rightarrow> (Inr rec, w2)))"

definition claim_payload ::
  "CheckpointStatus \<Rightarrow> InterruptResolution list \<Rightarrow> checkpointPayloadMeta \<Rightarrow> goerr + checkpointPayloadMeta" where
  "claim_payload status resolutions meta =
     (if status = CheckpointInterrupted
      then andthen (resolvePendingInterrupts (pm_PendingInterrupts meta) resolutions) (\<lambda>resolved.
             Inr (meta\<lparr>pm_ResolvedInterrupts := resolved, pm_PendingInterrupts := []\<rparr>))
      else (case validateResolvedInterruptReplay (pm_ResolvedInterrupts meta) resolutions of
              Some err \<Rightarrow> Inl err
            | None \<Rightarrow> Inr meta))"

definition claimCheckpoint ::
  "'w services \<Rightarrow> goerr option \<Rightarrow> compiled \<Rightarrow> cprecord \<Rightarrow> string \<Rightarrow> ResumeRequest \<Rightarrow> 'w
   \<Rightarrow> (goerr + cprecord) \<times> 'w" where
  "claimCheckpoint sv ctx c rec ownerID req w =
     (case decodeCheckpointPayload (cp_Payload rec) of
        Inl e \<Rightarrow> (Inl e, w)
      | Inr payload \<Rightarrow>
     (case validateCheckpointIdentity c (pl_Meta payload) of
        Some e \<Rightarrow> (Inl e, w)
      | None \<Rightarrow>
          (let (now, w1) = sv_now sv w;
               claimSequence = (if cp_ClaimSequence rec = 0 then pm_ClaimSequence (pl_Meta payload)
                                else cp_ClaimSequence rec) in
           case claim_payload (cp_Status rec) (rq_Resolutions req) (pl_Meta payload) of
             Inl e \<Rightarrow> (Inl e, w1)
           | Inr meta0 \<Rightarrow>
               (let meta = meta0\<lparr>pm_OwnerID := ownerID, pm_LeaseExpiresAt := now + sv_leaseDuration sv,
                                 pm_ClaimSequence := claimSequence + 1\<rparr> in
                case encodeCheckpointPayloadWithMeta (sv_gob sv) (payload_state payload)
                       (pl_Outputs payload) (pl_NextStep payload) meta of
                  Inl e \<Rightarrow> (Inl e, w1)
                | Inr claimed \<Rightarrow>
                    (let next = rec\<lparr>cp_Payload := claimed, cp_Status := CheckpointRunning,
                           cp_OwnerID := ownerID, cp_LeaseExpiresAt := now + sv_leaseDuration sv,
                           cp_LeaseDuration := sv_leaseDuration sv,
                           cp_ClaimSequence := claimSequence + 1, cp_UpdatedAt := now\<rparr> in
                     case sv_Claim sv ctx next (cp_Version rec) w1 of
                       (Some err, w2) \<Rightarrow> (Inl err, w2)
                     | (None, w2) \<Rightarrow> (Inr (next\<lparr>cp_Version := cp_Version next + 1\<rparr>), w2))))))"

section \<open>Half-written interrupt batches\<close>

definition interruptEventType :: "string \<Rightarrow> bool" where
  "interruptEventType eventType \<longleftrightarrow>
     eventType = EventGuardInterrupted \<or> eventType = EventWorkflowInterrupted"

definition checkpointInterruptEventIdentityMatches ::
  "cprecord \<Rightarrow> checkpointPayloadMeta \<Rightarrow> Event \<Rightarrow> bool" where
  "checkpointInterruptEventIdentityMatches rec payload event \<longleftrightarrow>
     ev_RunID event = cp_RunID rec \<and> ev_SessionID event = cp_SessionID rec \<and>
     ev_DefinitionID event = cp_WorkflowName rec \<and> ev_DefinitionVersion event = cp_TopologyVersion rec \<and>
     ev_ExecutionEpoch event = pm_ExecutionEpoch payload \<and>
     ev_SourceRevisionID event = pm_SourceRevisionID payload \<and>
     ev_RevisionID event = revision_id (cp_RunID rec) (ev_Sequence event) \<and>
     ev_Origin event = pm_ControlOrigin payload \<and> \<not> is_zero_time (ev_Timestamp event)"

definition checkpointInterruptRequestMatches :: "Event \<Rightarrow> InterruptRequest \<Rightarrow> bool" where
  "checkpointInterruptRequestMatches event request \<longleftrightarrow>
     ev_Source event = ''workflow.guard'' \<and> ev_Summary event = ir_Subject request \<and>
     ev_Payload event = PInterrupt request"

definition checkpointWorkflowInterruptEventMatches :: "Event \<Rightarrow> InterruptRequest \<Rightarrow> bool" where
  "checkpointWorkflowInterruptEventMatches event first \<longleftrightarrow>
     ev_Source event = ''workflow'' \<and> ev_Summary event = ir_Subject first \<and>
     ev_Payload event \<in> {PEmpty, PRaw []}"

definition invalid_checkpoint :: "string \<Rightarrow> goerr option" where
  "invalid_checkpoint text = Some (Wrap text [Sentinel ErrInvalidCheckpoint])"

definition progress_event_check ::
  "cprecord \<Rightarrow> checkpointPayloadMeta \<Rightarrow> checkpointInterruptProgress \<Rightarrow> nat \<Rightarrow> goerr option" where
  "progress_event_check rec payload progress index =
     (let events = pr_Events progress; event = events ! index;
          pending = pm_PendingInterrupts payload in
      if \<not> checkpointInterruptEventIdentityMatches rec payload event \<or>
         ev_Sequence event \<noteq> ev_Sequence (events ! 0) + int index
        then invalid_checkpoint ''checkpoint interrupt event sequence is inconsistent''
      else if ev_Type event \<noteq> (if index = length events - 1 then EventWorkflowInterrupted
                              else EventGuardInterrupted)
        then invalid_checkpoint ''checkpoint interrupt event type is inconsistent''
      else if index < length pending \<and>
              \<not> checkpointInterruptRequestMatches event (ct_Request (pending ! index))
        then invalid_checkpoint ''checkpoint interrupt request is inconsistent''
      else if index = length events - 1 \<and>
              \<not> checkpointWorkflowInterruptEventMatches event (ct_Request (pending ! 0))
        then invalid_checkpoint ''checkpoint workflow interrupt event is inconsistent''
      else None)"

definition validateCheckpointInterruptProgress :: "cprecord \<Rightarrow> checkpointPayloadMeta \<Rightarrow> goerr option" where
  "validateCheckpointInterruptProgress rec payload =
     (case pm_InterruptProgress payload of
        None \<Rightarrow>
          if (case pm_PendingEvent payload of None \<Rightarrow> False | Some e \<Rightarrow> interruptEventType (ev_Type e)) \<or>
             (cp_Status rec = CheckpointRunning \<and> pm_PendingInterrupts payload \<noteq> [])
            then invalid_checkpoint ''checkpoint interrupt progress is missing'' else None
      | Some progress \<Rightarrow>
          (let events = pr_Events progress; pending = pm_PendingInterrupts payload in
           if cp_Status rec \<noteq> CheckpointRunning \<or> pending = [] \<or>
              length events \<noteq> length pending + 1 \<or> pr_Next progress < 0 \<or>
              pr_Next progress > int (length events)
             then invalid_checkpoint ''checkpoint interrupt progress is inconsistent''
           else (case first_some (map (progress_event_check rec payload progress) [0..<length events]) of
               Some err \<Rightarrow> Some err
             | None \<Rightarrow>
                 (let confirmed = ev_Sequence (events ! 0) + pr_Next progress - 1 in
                  if pm_EventCursor payload \<noteq> confirmed \<or> cp_ConfirmedSequence rec \<noteq> confirmed
                    then invalid_checkpoint ''checkpoint interrupt cursor is inconsistent''
                  else (case pm_PendingEvent payload of
                      None \<Rightarrow>
                        if pr_Next progress = 0 \<or> cp_PendingSequence rec \<noteq> 0
                          then invalid_checkpoint ''checkpoint pending interrupt sequence is inconsistent''
                        else None
                    | Some event \<Rightarrow>
                        if pr_Next progress \<ge> int (length events) \<or>
                           cp_PendingSequence rec \<noteq> ev_Sequence event \<or>
                           event \<noteq> events ! nat (pr_Next progress)
                          then invalid_checkpoint ''checkpoint pending interrupt event is inconsistent''
                        else None)))))"

section \<open>Resuming\<close>

definition activeResumeCheckpoint ::
  "'w services \<Rightarrow> goerr option \<Rightarrow> compiled \<Rightarrow> cprecord \<Rightarrow> checkpointPrepareRequest \<Rightarrow> 'w
   \<Rightarrow> (goerr + cprecord) \<times> 'w" where
  "activeResumeCheckpoint sv ctx c rec req w =
     (case decodeCheckpointPayload (cp_Payload rec) of
        Inl e \<Rightarrow> (Inl e, w)
      | Inr payload \<Rightarrow>
          (case first_some [validateCheckpointIdentity c (pl_Meta payload),
                            validateCheckpointSourceIdentity rec (pl_Meta payload),
                            validateCheckpointInterruptProgress rec (pl_Meta payload)] of
             Some e \<Rightarrow> (Inl e, w)
           | None \<Rightarrow> claimCheckpoint sv ctx c rec (pq_OwnerID req) (pq_Resume req) w))"

definition prepareResumeCheckpoint ::
  "'w services \<Rightarrow> goerr option \<Rightarrow> compiled \<Rightarrow> checkpointPrepareRequest \<Rightarrow> 'w \<Rightarrow> (goerr + cprecord) \<times> 'w" where
  "prepareResumeCheckpoint sv ctx c req w =
     (case sv_Load sv ctx (rq_RunID (pq_Resume req)) w of
        (Inl e, w1) \<Rightarrow> (Inl e, w1)
      | (Inr rec, w1) \<Rightarrow>
          if rq_CheckpointID (pq_Resume req) \<noteq> [] \<and> cp_ID rec \<noteq> rq_CheckpointID (pq_Resume req)
            then (Inl (Msg ''workflow: checkpoint id does not match resume checkpoint''), w1)
          else (case validateCheckpointRecordIdentity c rec of
              Some e \<Rightarrow> (Inl e, w1)
            | None \<Rightarrow>
                if pq_SessionID req \<noteq> [] \<and> cp_SessionID rec \<noteq> pq_SessionID req
                  then (Inl (Wrap ''checkpoint session does not match'' [Sentinel ErrCheckpointMismatch]), w1)
                else if cp_Status rec \<in> {CheckpointRunning, CheckpointInterrupted}
                  then activeResumeCheckpoint sv ctx c rec req w1
                else if checkpointTerminal (cp_Status rec) then (terminalResumeCheckpoint rec, w1)
                else (Inl (Msg ''workflow: checkpoint status cannot resume''), w1)))"

definition prepareCheckpoint ::
  "'w services \<Rightarrow> goerr option \<Rightarrow> compiled \<Rightarrow> checkpointPrepareRequest \<Rightarrow> 'w \<Rightarrow> (goerr + cprecord) \<times> 'w" where
  "prepareCheckpoint sv ctx c req w =
     (if pq_IsResume req then prepareResumeCheckpoint sv ctx c req w
      else create_checkpoint sv ctx c req w)"

section \<open>Restoring\<close>

definition applyResumePayload :: "checkpointPayload \<Rightarrow> execution \<Rightarrow> execution" where
  "applyResumePayload payload ex =
     (let meta = pl_Meta payload in
      ex\<lparr>ex_state := prepareResume (pm_ResolvedInterrupts meta \<noteq> []) (payload_state payload),
         ex_outputs := pl_Outputs payload,
         ex_step := (if pl_NextStep payload \<le> 0 then 1 else pl_NextStep payload),
         ex_sequence := pm_EventCursor meta, ex_eventCursor := pm_EventCursor meta,
         ex_replayStatus := cp_ReplayStatus (ex_checkpoint ex),
         ex_executionEpoch := (if pm_ExecutionEpoch meta \<le> 0 then 1 else pm_ExecutionEpoch meta),
         ex_controlOrigin := pm_ControlOrigin meta, ex_sourceRevision := pm_SourceRevisionID meta,
         ex_sourceRunID := pm_SourceRunID meta, ex_sourceEventSeq := pm_SourceEventSeq meta,
         ex_interrupts := pm_PendingInterrupts meta,
         ex_interruptProgress := pm_InterruptProgress meta,
         ex_associated := (if pm_SourceRunID meta \<noteq> []
           then Some \<lparr>as_SourceRunID = pm_SourceRunID meta, as_SourceEventSeq = pm_SourceEventSeq meta\<rparr>
           else ex_associated ex),
         ex_resolved := (if pm_ResolvedInterrupts meta \<noteq> [] then pm_ResolvedInterrupts meta
                         else ex_resolved ex)\<rparr>)"

definition advance_progress :: "int \<Rightarrow> checkpointInterruptProgress option \<Rightarrow> checkpointInterruptProgress option" where
  "advance_progress sequence progress =
     (case progress of
        None \<Rightarrow> None
      | Some p \<Rightarrow>
          if pr_Next p < int (length (pr_Events p)) \<and>
             ev_Sequence (pr_Events p ! nat (pr_Next p)) = sequence
          then Some (p\<lparr>pr_Next := pr_Next p + 1\<rparr>) else Some p)"

definition replayPending ::
  "'w services \<Rightarrow> CheckpointStatus \<Rightarrow> CheckpointStatus option \<Rightarrow> Event \<Rightarrow> execution \<Rightarrow> 'w \<Rightarrow> 'w outcome" where
  "replayPending sv status pendingTerm pending0 ex w =
     (if ev_Sequence pending0 \<noteq> ex_sequence ex + 1
        then (Some (Msg ''workflow: pending event sequence does not follow''), ex, w)
      else (let (pending, w1) = stamp sv ex pending0 (ev_Sequence pending0) w in
        case emitLockedWithContexts sv (final_ctx ex) pending ex w1 of
          (Some err, ex1, w2) \<Rightarrow> (Some err, ex1, w2)
        | (None, ex1, w2) \<Rightarrow>
            (let ex2 = ex1\<lparr>ex_interruptProgress :=
                   advance_progress (ev_Sequence pending) (ex_interruptProgress ex1)\<rparr>;
                 terminal = (if pendingTerm = None \<and> checkpointTerminal status
                             then Some status else pendingTerm) in
             case terminal of
               Some term \<Rightarrow>
                 (case stopCheckpointLeaseHeartbeat ex2 of
                    Some err \<Rightarrow> (Some err, ex2, w2)
                  | None \<Rightarrow>
                      (case finishCheckpoint sv (final_ctx ex2) term (writeRequest (ex_step ex2) None ex2) w2 of
                         (Some err, w3) \<Rightarrow> (Some err, ex2, w3)
                       | (None, w3) \<Rightarrow>
                           (None, ex2\<lparr>ex_checkpoint := (ex_checkpoint ex2)\<lparr>cp_Status := term\<rparr>\<rparr>, w3)))
             | None \<Rightarrow>
                 (case saveCheckpoint sv (run_ctx ex2) (writeRequest (ex_step ex2) None ex2) w2 of
                    (Inl err, w3) \<Rightarrow> (Some err, ex2, w3)
                  | (Inr saved, w3) \<Rightarrow> (None, ex2\<lparr>ex_checkpoint := saved\<rparr>, w3)))))"

definition validateJournalRecord :: "execution \<Rightarrow> Record \<Rightarrow> int \<Rightarrow> goerr option" where
  "validateJournalRecord ex rec sequence =
     (if rl_Sequence rec \<noteq> sequence
        then Some (Msg ''workflow: reconcile journal: sequence does not follow'')
      else if rl_SessionID rec \<noteq> ex_sessionID ex \<or> rl_RunID rec \<noteq> ex_runID ex
        then Some (Msg ''workflow: reconcile journal: inconsistent session or run identity'')
      else if rl_DefinitionID rec \<noteq> co_name (ex_compiled ex) \<or>
              rl_DefinitionVersion rec \<noteq> co_topologyVersion (ex_compiled ex)
        then Some (Msg ''workflow: reconcile journal: inconsistent workflow identity'')
      else if rl_ParentRunID rec \<noteq> ex_parentRunID ex \<or> rl_ExecutionEpoch rec \<noteq> ex_executionEpoch ex \<or>
              rl_SourceRunID rec \<noteq> ex_sourceRunID ex \<or> rl_SourceEventSeq rec \<noteq> ex_sourceEventSeq ex \<or>
              rl_SourceRevisionID rec \<noteq> ex_sourceRevision ex
        then Some (Msg ''workflow: reconcile journal: inconsistent execution identity'')
      else if rl_RevisionID rec = [] \<or> rl_EventType rec = [] \<or> rl_Source rec = [] \<or>
              is_zero_time (rl_Timestamp rec)
        then Some (Msg ''workflow: reconcile journal: record is incomplete'')
      else None)"

fun replayJournalPage :: "'w services \<Rightarrow> Record list \<Rightarrow> execution \<Rightarrow> 'w \<Rightarrow> 'w outcome" where
  "replayJournalPage sv [] ex w = (None, ex, w)"
| "replayJournalPage sv (rec # recs) ex w =
     (case validateJournalRecord ex rec (ex_eventCursor ex + 1) of
        Some err \<Rightarrow> (Some err, ex, w)
      | None \<Rightarrow>
          (case eventDelivery_emit (sv_sinks sv (ex_associated ex)) (eventFromRunLogRecord rec) w of
             (Some err, w1) \<Rightarrow> (Some err, recordSinkFailure err ex, w1)
           | (None, w1) \<Rightarrow> replayJournalPage sv recs
               (ex\<lparr>ex_sequence := rl_Sequence rec, ex_eventCursor := rl_Sequence rec\<rparr>) w1))"

definition journalReconcilePageSize :: nat where
  "journalReconcilePageSize = 256"

definition reconcile_query :: "execution \<Rightarrow> Query" where
  "reconcile_query ex =
     \<lparr>q_SessionID = [], q_RunID = ex_runID ex, q_After = ex_eventCursor ex,
      q_Limit = int journalReconcilePageSize\<rparr>"

text \<open>
  The loop ends when a page is not full. A log that grows while it is read could keep it
  going, so the model bounds the number of pages; None means that the bound was reached.
\<close>

fun reconcileJournal :: "'w services \<Rightarrow> nat \<Rightarrow> execution \<Rightarrow> 'w \<Rightarrow> 'w outcome option" where
  "reconcileJournal sv 0 ex w = None"
| "reconcileJournal sv (Suc pages) ex w =
     (case sv_List sv (run_ctx ex) (reconcile_query ex) w of
        (Inl err, w1) \<Rightarrow> Some (Some (Wrap ''workflow: reconcile journal'' [err]), ex, w1)
      | (Inr records, w1) \<Rightarrow>
          if records = [] then Some (None, ex, w1)
          else (case replayJournalPage sv records ex w1 of
              (Some err, ex1, w2) \<Rightarrow> Some (Some err, ex1, w2)
            | (None, ex1, w2) \<Rightarrow>
                (case saveCheckpoint sv (run_ctx ex1) (writeRequest (ex_step ex1) None ex1) w2 of
                   (Inl err, w3) \<Rightarrow>
                     Some (Some (Wrap ''workflow: confirm reconciled journal cursor'' [err]), ex1, w3)
                 | (Inr saved, w3) \<Rightarrow>
                     (let ex2 = ex1\<lparr>ex_checkpoint := saved\<rparr> in
                      if length records < journalReconcilePageSize then Some (None, ex2, w3)
                      else reconcileJournal sv pages ex2 w3))))"

definition resumedCheckpointResult :: "CheckpointStatus \<Rightarrow> goerr + bool" where
  "resumedCheckpointResult status =
     (if \<not> checkpointTerminal status then Inr False
      else if status = CheckpointCompleted then Inr True
      else Inl (Wrap ''workflow checkpoint status cannot resume'' [Sentinel ErrCheckpointConflict]))"

text \<open>\<open>restore\<close>: an error or whether the run is already complete.\<close>

definition restore_run ::
  "'w services \<Rightarrow> nat \<Rightarrow> execution \<Rightarrow> 'w \<Rightarrow> ((goerr + bool) \<times> execution \<times> 'w) option" where
  "restore_run sv pages ex w =
     (case decodeCheckpointPayload (cp_Payload (ex_checkpoint ex)) of
        Inl err \<Rightarrow> Some (Inl err, ex, w)
      | Inr payload \<Rightarrow>
     (case validateCheckpointInterruptProgress (ex_checkpoint ex) (pl_Meta payload) of
        Some err \<Rightarrow> Some (Inl err, ex, w)
      | None \<Rightarrow>
          (let ex1 = applyResumePayload payload ex;
               status = cp_Status (ex_checkpoint ex) in
           case (case pm_PendingEvent (pl_Meta payload) of
                   None \<Rightarrow> (None, ex1, w)
                 | Some pending \<Rightarrow> replayPending sv status (pm_PendingTerm (pl_Meta payload)) pending ex1 w) of
             (Some err, ex2, w2) \<Rightarrow> Some (Inl err, ex2, w2)
           | (None, ex2, w2) \<Rightarrow>
               (case resumedCheckpointResult (cp_Status (ex_checkpoint ex2)) of
                  Inl err \<Rightarrow> Some (Inl err, ex2, w2)
                | Inr True \<Rightarrow> Some (Inr True, ex2, w2)
                | Inr False \<Rightarrow>
                    (case reconcileJournal sv pages ex2 w2 of
                       None \<Rightarrow> None
                     | Some (Some err, ex3, w3) \<Rightarrow> Some (Inl err, ex3, w3)
                     | Some (None, ex3, w3) \<Rightarrow>
                         if ex_interruptProgress ex3 \<noteq> None
                           then (case continueInterruptBatch sv ex3 w3 of
                               (Some err, ex4, w4) \<Rightarrow> Some (Inl err, ex4, w4)
                             | (None, ex4, w4) \<Rightarrow> Some (Inl (Interrupted (interruptError ex4)), ex4, w4))
                         else (case emit_event sv (zero_Event\<lparr>ev_Type := EventCheckpointLoaded\<rparr>) ex3 w3 of
                               (Some err, ex4, w4) \<Rightarrow> Some (Inl err, ex4, w4)
                             | (None, ex4, w4) \<Rightarrow> Some (Inr False, ex4, w4)))))))"

definition releaseCheckpointLease :: "'w services \<Rightarrow> execution \<Rightarrow> 'w \<Rightarrow> 'w outcome" where
  "releaseCheckpointLease sv ex w =
     (case stopCheckpointLeaseHeartbeat ex of
        Some err \<Rightarrow> (Some err, ex, w)
      | None \<Rightarrow>
          (let rec = ex_checkpoint ex in
           if cp_ID rec = [] \<or> checkpointTerminal (cp_Status rec) then (None, ex, w)
           else (case decodeCheckpointPayload (cp_Payload rec) of
               Inl err \<Rightarrow> (Some err, ex, w)
             | Inr payload \<Rightarrow>
                 if cp_OwnerID rec = [] \<and> is_zero_time (cp_LeaseExpiresAt rec) \<and> cp_LeaseDuration rec = 0 \<and>
                    pm_OwnerID (pl_Meta payload) = [] \<and> is_zero_time (pm_LeaseExpiresAt (pl_Meta payload))
                   then (None, ex, w)
                 else (case encodeCheckpointPayloadWithMeta (sv_gob sv) (payload_state payload)
                         (pl_Outputs payload) (pl_NextStep payload)
                         ((pl_Meta payload)\<lparr>pm_OwnerID := [], pm_LeaseExpiresAt := zero_time\<rparr>) of
                     Inl err \<Rightarrow> (Some err, ex, w)
                   | Inr encoded \<Rightarrow>
                       (let (now, w1) = sv_now sv w;
                            next = rec\<lparr>cp_Payload := encoded, cp_OwnerID := [],
                              cp_LeaseExpiresAt := zero_time, cp_LeaseDuration := 0, cp_UpdatedAt := now\<rparr> in
                        case sv_Save sv (final_ctx ex) next (cp_Version rec) w1 of
                          (Some err, w2) \<Rightarrow> (Some err, ex, w2)
                        | (None, w2) \<Rightarrow>
                            (None, ex\<lparr>ex_checkpoint := next\<lparr>cp_Version := cp_Version next + 1\<rparr>\<rparr>, w2))))))"

end
