(* ===== verification/Durability.thy ===== *)
theory Durability
  imports Journal
begin

text \<open>
  What the durability protocol relies on and what it achieves. The locale \<open>durable_store\<close>
  states the contract of the store towards a run: a checkpoint write replaces the head of the run
  and nothing else, an append adds one record under its key, failed calls change nothing.
  The protocol is proved over that contract and the in-memory store is shown to keep it, with clock
  readings, context errors and observers left open.
\<close>

section \<open>The contract\<close>

locale durable_store =
  fixes sv :: "'w services"
    and head :: "'w \<Rightarrow> string \<rightharpoonup> cprecord"
    and journal :: "'w \<Rightarrow> recordKey \<rightharpoonup> Record"
  assumes save_ok: "sv_Save sv ctx r v w = (None, w') \<Longrightarrow> journal w' = journal w \<and>
      (\<exists>e d. head w' = (head w)(cp_RunID r \<mapsto>
         r\<lparr>cp_Version := v + 1, cp_LeaseExpiresAt := e, cp_LeaseDuration := d\<rparr>))"
    and save_fail: "sv_Save sv ctx r v w = (Some err, w') \<Longrightarrow> journal w' = journal w \<and> head w' = head w"
    and finish_ok: "sv_Finish sv ctx r v w = (None, w') \<Longrightarrow> journal w' = journal w \<and>
      (\<exists>e d. head w' = (head w)(cp_RunID r \<mapsto>
         r\<lparr>cp_Version := v + 1, cp_LeaseExpiresAt := e, cp_LeaseDuration := d\<rparr>))"
    and finish_fail: "sv_Finish sv ctx r v w = (Some err, w') \<Longrightarrow> journal w' = journal w \<and> head w' = head w"
    and claim_ok: "sv_Claim sv ctx r v w = (None, w') \<Longrightarrow> journal w' = journal w \<and>
      (\<exists>e d. head w' = (head w)(cp_RunID r \<mapsto>
         r\<lparr>cp_Version := v + 1, cp_LeaseExpiresAt := e, cp_LeaseDuration := d\<rparr>))"
    and load_ok: "sv_Load sv ctx run w = (Inr r, w') \<Longrightarrow> journal w' = journal w \<and> head w' = head w \<and>
      (\<exists>e d. map_option (\<lambda>h. h\<lparr>cp_LeaseExpiresAt := e, cp_LeaseDuration := d\<rparr>) (head w run) =
         Some (r\<lparr>cp_LeaseExpiresAt := e, cp_LeaseDuration := d\<rparr>))"
    and append_ok: "sv_AppendFenced sv ctx rec f w = (None, w') \<Longrightarrow> head w' = head w \<and>
      journal w (record_key rec) \<in> {None, Some rec} \<and>
      journal w' = (journal w)(record_key rec \<mapsto> rec)"
    and append_fail: "sv_AppendFenced sv ctx rec f w = (Some err, w') \<Longrightarrow>
      head w' = head w \<and> journal w' = journal w"
    and now_frame: "sv_now sv w = (t, w') \<Longrightarrow> head w' = head w \<and> journal w' = journal w \<and> t \<noteq> 0"
    and observe_frame: "eventDelivery_emit (sv_sinks sv a) event w = (res, w') \<Longrightarrow>
      head w' = head w \<and> journal w' = journal w"

text \<open>The head of a run carries this pending event and terminal status (or none) and this cursor.\<close>

definition head_shows ::
  "('w \<Rightarrow> string \<rightharpoonup> cprecord) \<Rightarrow> 'w \<Rightarrow> string \<Rightarrow> Event option \<Rightarrow>
   CheckpointStatus option \<Rightarrow> int \<Rightarrow> bool" where
  "head_shows head w run pending term cursor \<longleftrightarrow>
     (\<exists>r p. head w run = Some r \<and> bcontent (cp_Payload r) = Some p \<and>
        pm_PendingEvent (pl_Meta p) = pending \<and>
        pm_PendingTerm (pl_Meta p) = term \<and> pm_EventCursor (pl_Meta p) = cursor)"

text \<open>Everything a run stamps into its events is equal.\<close>

definition same_run :: "execution \<Rightarrow> execution \<Rightarrow> bool" where
  "same_run a b \<longleftrightarrow>
     co_name (ex_compiled a) = co_name (ex_compiled b) \<and>
     co_topologyVersion (ex_compiled a) = co_topologyVersion (ex_compiled b) \<and>
     ex_sessionID a = ex_sessionID b \<and> ex_runID a = ex_runID b \<and>
     ex_parentRunID a = ex_parentRunID b \<and> ex_executionEpoch a = ex_executionEpoch b \<and>
     ex_sourceRevision a = ex_sourceRevision b \<and> ex_sourceRunID a = ex_sourceRunID b \<and>
     ex_sourceEventSeq a = ex_sourceEventSeq b"

lemma runtimeEvent_sequence [simp]: "ev_Sequence (runtimeEvent now ex event n) = n"
  by (simp add: runtimeEvent_def Let_def)

lemma runtimeEvent_run [simp]: "ev_RunID (runtimeEvent now ex event n) = ex_runID ex"
  by (simp add: runtimeEvent_def Let_def)

lemma runtimeEvent_time: "now \<noteq> 0 \<Longrightarrow> ev_Timestamp (runtimeEvent now ex event n) \<noteq> 0"
  by (simp add: runtimeEvent_def Let_def)

text \<open>Stamping a stamped event again changes nothing.\<close>

lemma runtimeEvent_again:
  assumes "same_run ex ex'" "ex_runID ex \<noteq> []" "now \<noteq> 0 \<or> ev_Timestamp event \<noteq> 0"
  shows "runtimeEvent now' ex' (runtimeEvent now ex event n) n = runtimeEvent now ex event n"
  using assms
  by (intro Event.equality) (simp_all add: runtimeEvent_def same_run_def revision_id_def Let_def)

lemma journal_record_same: "same_run a b \<Longrightarrow> journal_record a event = journal_record b event"
  by (simp add: journal_record_def same_run_def)

lemma same_run_updates [simp]:
  "same_run a (ex\<lparr>ex_checkpoint := c\<rparr>) = same_run a ex"
  "same_run a (ex\<lparr>ex_sequence := n\<rparr>) = same_run a ex"
  "same_run (ex\<lparr>ex_checkpoint := c\<rparr>) a = same_run ex a"
  "same_run (ex\<lparr>ex_sequence := n\<rparr>) a = same_run ex a"
  by (simp_all add: same_run_def)

lemma same_run_refl [simp]: "same_run ex ex"
  by (simp add: same_run_def)

lemma journal_record_key:
  "record_key (journal_record ex event) = (ev_RunID event, ev_Sequence event)"
  by (simp add: record_key_def journal_record_def RecordFromEvent_def)

lemma encode_content:
  "encodeCheckpointPayloadWithMeta gob s outs n meta = Inr bytes \<Longrightarrow>
   bcontent bytes = Some (make_payload s outs n meta)"
  by (auto simp: encodeCheckpointPayloadWithMeta_def Let_def split: option.splits if_splits)

text \<open>\<open>e\<close> is the event as the run stamps it, with the next sequence number.\<close>

definition stamped_as :: "execution \<Rightarrow> Event \<Rightarrow> Event \<Rightarrow> bool" where
  "stamped_as ex event e \<longleftrightarrow>
     (\<exists>now. e = runtimeEvent now ex event (ex_sequence ex + 1) \<and> (now \<noteq> 0 \<or> ev_Timestamp event \<noteq> 0))"

text \<open>The record is in the journal: it was absent, or already there as it is.\<close>

definition recorded :: "('w \<Rightarrow> recordKey \<rightharpoonup> Record) \<Rightarrow> Record \<Rightarrow> 'w \<Rightarrow> 'w \<Rightarrow> bool" where
  "recorded journal rec w w' \<longleftrightarrow>
     journal w (record_key rec) \<in> {None, Some rec} \<and> journal w' = (journal w)(record_key rec \<mapsto> rec)"

definition committed ::
  "('w \<Rightarrow> string \<rightharpoonup> cprecord) \<Rightarrow> ('w \<Rightarrow> recordKey \<rightharpoonup> Record) \<Rightarrow> execution \<Rightarrow> Event \<Rightarrow> 'w \<Rightarrow> 'w \<Rightarrow> bool" where
  "committed head journal ex e w w' \<longleftrightarrow>
     recorded journal (journal_record ex e) w w' \<and>
     head_shows head w' (ex_runID ex) None None (ex_sequence ex + 1)"

definition announced ::
  "('w \<Rightarrow> string \<rightharpoonup> cprecord) \<Rightarrow> ('w \<Rightarrow> recordKey \<rightharpoonup> Record) \<Rightarrow> execution \<Rightarrow> Event \<Rightarrow>
   CheckpointStatus option \<Rightarrow> 'w \<Rightarrow> 'w \<Rightarrow> bool" where
  "announced head journal ex e term w w' \<longleftrightarrow>
     head_shows head w' (ex_runID ex) (Some e) term (ex_eventCursor ex) \<and>
     (journal w' = journal w \<or> recorded journal (journal_record ex e) w w')"

lemma recorded_from: "journal v = journal w \<Longrightarrow> recorded journal rec v w' = recorded journal rec w w'"
  by (simp add: recorded_def)

lemma recorded_to: "journal v = journal w' \<Longrightarrow> recorded journal rec w v = recorded journal rec w w'"
  by (simp add: recorded_def)

lemma head_shows_cong: "head v = head w \<Longrightarrow> head_shows head v = head_shows head w"
  by (simp add: head_shows_def fun_eq_iff)

text \<open>The run has ended in this status, with nothing pending and no owner.\<close>

definition ended_as ::
  "('w \<Rightarrow> string \<rightharpoonup> cprecord) \<Rightarrow> 'w \<Rightarrow> string \<Rightarrow> CheckpointStatus \<Rightarrow> int \<Rightarrow> bool" where
  "ended_as head w run status cursor \<longleftrightarrow>
     (\<exists>r p. head w run = Some r \<and> cp_Status r = status \<and> cp_OwnerID r = [] \<and>
        bcontent (cp_Payload r) = Some p \<and> pm_PendingEvent (pl_Meta p) = None \<and>
        pm_EventCursor (pl_Meta p) = cursor)"

text \<open>An execution that resumes the run of \<open>ex\<close> where \<open>ex\<close> stood before the event.\<close>

definition recovers :: "execution \<Rightarrow> execution \<Rightarrow> bool" where
  "recovers ex ex2 \<longleftrightarrow>
     same_run ex ex2 \<and> ex_sequence ex2 = ex_sequence ex \<and> cp_ID (ex_checkpoint ex2) \<noteq> [] \<and>
     cp_RunID (ex_checkpoint ex2) = ex_runID ex"

definition replay_terminal :: "CheckpointStatus \<Rightarrow> CheckpointStatus option \<Rightarrow> CheckpointStatus option" where
  "replay_terminal status term =
     (if term = None \<and> checkpointTerminal status then Some status else term)"

text \<open>What a completed recovery leaves behind.\<close>

definition settled ::
  "('w \<Rightarrow> string \<rightharpoonup> cprecord) \<Rightarrow> execution \<Rightarrow> CheckpointStatus option \<Rightarrow> 'w \<Rightarrow> bool" where
  "settled head ex term w \<longleftrightarrow>
     (case term of
        None \<Rightarrow> head_shows head w (ex_runID ex) None None (ex_sequence ex + 1)
      | Some status \<Rightarrow> ended_as head w (ex_runID ex) status (ex_sequence ex + 1))"

text \<open>Recovery is tried until an attempt succeeds; every attempt may fail at any point.\<close>

fun replay_attempts ::
  "'w services \<Rightarrow> CheckpointStatus \<Rightarrow> CheckpointStatus option \<Rightarrow> Event \<Rightarrow> execution list \<Rightarrow> 'w \<Rightarrow> bool \<times> 'w" where
  "replay_attempts sv status term e [] w = (False, w)"
| "replay_attempts sv status term e (ex # exs) w =
     (case replayPending sv status term e ex w of
        (None, ex1, w1) \<Rightarrow> (True, w1)
      | (Some err, ex1, w1) \<Rightarrow> replay_attempts sv status term e exs w1)"

lemma decode_content:
  "decodeCheckpointPayload bytes = Inr p \<Longrightarrow> bcontent bytes = Some p"
  by (auto simp: decodeCheckpointPayload_def split: if_splits option.splits)

lemma claim_payload_pending:
  "claim_payload status resolutions meta = Inr meta' \<Longrightarrow>
   pm_PendingEvent meta' = pm_PendingEvent meta \<and> pm_PendingTerm meta' = pm_PendingTerm meta \<and>
   pm_EventCursor meta' = pm_EventCursor meta"
  by (auto simp: claim_payload_def andthen_def split: if_splits sum.splits option.splits)

text \<open>A record that carries this pending event, terminal status and cursor.\<close>

definition record_shows :: "cprecord \<Rightarrow> Event option \<Rightarrow> CheckpointStatus option \<Rightarrow> int \<Rightarrow> bool" where
  "record_shows r pending term cursor \<longleftrightarrow>
     (\<exists>p. bcontent (cp_Payload r) = Some p \<and> pm_PendingEvent (pl_Meta p) = pending \<and>
        pm_PendingTerm (pl_Meta p) = term \<and> pm_EventCursor (pl_Meta p) = cursor)"

section \<open>The protocol over the contract\<close>

context durable_store
begin

lemma stamp_frame:
  assumes "stamp sv ex event n w = (e, w')"
  shows "head w' = head w" "journal w' = journal w"
    "\<exists>now. e = runtimeEvent now ex event n \<and> (now \<noteq> 0 \<or> ev_Timestamp event \<noteq> 0)"
proof -
  obtain now w1 where n: "sv_now sv w = (now, w1)" by force
  note f = now_frame [OF n]
  from assms n f show "head w' = head w" "journal w' = journal w"
    "\<exists>now. e = runtimeEvent now ex event n \<and> (now \<noteq> 0 \<or> ev_Timestamp event \<noteq> 0)"
    by (auto simp: stamp_def split: if_splits)
qed

lemma stamp_stamped:
  assumes "e = runtimeEvent now ex event n" "now \<noteq> 0 \<or> ev_Timestamp event \<noteq> 0"
    and "same_run ex ex'" "ex_runID ex \<noteq> []"
  shows "stamp sv ex' e n w = (e, w)"
proof -
  have "ev_Timestamp e \<noteq> 0" using assms(1,2) by (auto simp: runtimeEvent_def Let_def)
  then show ?thesis
    using runtimeEvent_again [OF assms(3,4,2), of 0 n] assms(1) by (simp add: stamp_def)
qed

lemma saveCheckpoint_ok:
  assumes "saveCheckpoint sv ctx req w = (Inr saved, w')" "cp_ID (wr_Record req) \<noteq> []"
  shows "journal w' = journal w"
    "head_shows head w' (cp_RunID (wr_Record req)) (wr_PendingEvent req) (wr_PendingTerm req)
      (wr_EventCursor req)"
    "cp_ID saved = cp_ID (wr_Record req)" "cp_RunID saved = cp_RunID (wr_Record req)"
    "cp_OwnerID saved = cp_OwnerID (wr_Record req)"
proof -
  from assms obtain meta0 now w1 payload rec' where
    n: "sv_now sv w = (now, w1)"
    and e: "encodeCheckpointPayloadWithMeta (sv_gob sv) (wr_State req) (wr_Outputs req) (wr_NextStep req)
        (write_meta req (meta0\<lparr>pm_OwnerID := cp_OwnerID (wr_Record req),
           pm_ClaimSequence := cp_ClaimSequence (wr_Record req),
           pm_LeaseExpiresAt := now + sv_leaseDuration sv\<rparr>)) = Inr payload"
    and nx: "rec' = write_record req ((wr_Record req)\<lparr>cp_Payload := payload, cp_Status := CheckpointRunning,
        cp_LeaseExpiresAt := now + sv_leaseDuration sv, cp_LeaseDuration := sv_leaseDuration sv,
        cp_UpdatedAt := now\<rparr>)"
    and s: "sv_Save sv ctx rec' (cp_Version (wr_Record req)) w1 = (None, w')"
      "saved = rec'\<lparr>cp_Version := cp_Version rec' + 1\<rparr>"
    by (auto simp: saveCheckpoint_def Let_def split: sum.splits prod.splits option.splits if_splits)
  note h = save_ok [OF s(1)] now_frame [OF n]
  show "journal w' = journal w" using h by auto
  show "cp_ID saved = cp_ID (wr_Record req)" "cp_RunID saved = cp_RunID (wr_Record req)"
    "cp_OwnerID saved = cp_OwnerID (wr_Record req)"
    by (simp_all add: s nx write_record_def)
  have "cp_RunID rec' = cp_RunID (wr_Record req)" "cp_Payload rec' = payload"
    by (simp_all add: nx write_record_def)
  then show "head_shows head w' (cp_RunID (wr_Record req)) (wr_PendingEvent req) (wr_PendingTerm req)
      (wr_EventCursor req)"
    using h encode_content [OF e] by (auto simp: head_shows_def write_meta_def)
qed

lemma saveCheckpoint_fail:
  assumes "saveCheckpoint sv ctx req w = (Inl err, w')"
  shows "journal w' = journal w" "head w' = head w"
  using assms save_fail now_frame
  by (fastforce simp: saveCheckpoint_def Let_def split: sum.splits prod.splits option.splits if_splits)+

lemma observe_views:
  assumes "observe sv event ex w = (err, ex', w')"
  shows "journal w' = journal w" "head w' = head w" "ex_checkpoint ex' = ex_checkpoint ex"
    "err = None \<Longrightarrow> ex' = ex\<lparr>ex_eventCursor := ex_sequence ex\<rparr>"
  using assms observe_frame
  by (auto simp: observe_def recordSinkFailure_def cancel_run_def split: prod.splits option.splits if_splits)

lemma emit_stamped:
  assumes "emitLockedWithContexts sv ctx e ex w = (err, ex', w')"
    and "ex_sinkFailure ex = None" "cp_ID (ex_checkpoint ex) \<noteq> []"
    and "\<And>ex' w. same_run ex ex' \<Longrightarrow> stamp sv ex' e (ex_sequence ex + 1) w = (e, w)"
  shows "head w' = head w"
    "journal w' = journal w \<or> recorded journal (journal_record ex e) w w'"
    "err = None \<Longrightarrow> recorded journal (journal_record ex e) w w' \<and>
       ex' = ex\<lparr>ex_sequence := ex_sequence ex + 1, ex_eventCursor := ex_sequence ex + 1\<rparr>"
proof -
  define ex1 where "ex1 = ex\<lparr>ex_sequence := ex_sequence ex + 1\<rparr>"
  have st: "stamp sv ex1 e (ex_sequence ex1) w = (e, w)" using assms(4) [of ex1 w] by (simp add: ex1_def)
  have jr: "journal_record ex1 e = journal_record ex e" by (simp add: journal_record_def ex1_def)
  have a: "appendFencedEventWithObserver sv ctx e ex1 w = (err, ex', w')"
    using assms(1-3) st by (simp add: emitLockedWithContexts_def ex1_def [symmetric] Let_def)
      (simp add: ex1_def)
  define f where "f = \<lparr>fn_OwnerID = cp_OwnerID (ex_checkpoint ex1), fn_ClaimSequence = cp_ClaimSequence (ex_checkpoint ex1)\<rparr>"
  obtain err1 w1 where ap: "sv_AppendFenced sv ctx (journal_record ex e) f w = (err1, w1)" by force
  have all: "head w' = head w \<and>
    (journal w' = journal w \<or> recorded journal (journal_record ex e) w w') \<and>
    (err = None \<longrightarrow> recorded journal (journal_record ex e) w w' \<and>
       ex' = ex\<lparr>ex_sequence := ex_sequence ex + 1, ex_eventCursor := ex_sequence ex + 1\<rparr>)"
  proof (cases err1)
    case (Some x)
    with ap a append_fail [of ctx "journal_record ex e" f w x w1] show ?thesis
      by (auto simp: appendFencedEventWithObserver_def jr f_def Let_def split: if_splits)
  next
    case None
    with ap a have o: "observe sv e ex1 w1 = (err, ex', w')"
      by (simp add: appendFencedEventWithObserver_def jr f_def)
    from None ap append_ok [of ctx "journal_record ex e" f w w1]
    show ?thesis using observe_views [OF o] by (auto simp: ex1_def recorded_def)
  qed
  then show "head w' = head w"
    "journal w' = journal w \<or> recorded journal (journal_record ex e) w w'"
    "err = None \<Longrightarrow> recorded journal (journal_record ex e) w w' \<and>
       ex' = ex\<lparr>ex_sequence := ex_sequence ex + 1, ex_eventCursor := ex_sequence ex + 1\<rparr>"
    by auto
qed

lemma emitLocked_stamped:
  assumes "emitLockedWithContexts sv ctx e (ex\<lparr>ex_checkpoint := saved\<rparr>) w = (err, ex', w')"
    and "e = runtimeEvent now ex event (ex_sequence ex + 1)" "now \<noteq> 0 \<or> ev_Timestamp event \<noteq> 0"
    and "ex_runID ex \<noteq> []" "ex_sinkFailure ex = None" "cp_ID saved \<noteq> []"
  shows "head w' = head w"
    "journal w' = journal w \<or> recorded journal (journal_record ex e) w w'"
    "err = None \<Longrightarrow> recorded journal (journal_record ex e) w w' \<and>
       ex' = ex\<lparr>ex_checkpoint := saved, ex_sequence := ex_sequence ex + 1, ex_eventCursor := ex_sequence ex + 1\<rparr>"
proof -
  have st: "same_run (ex\<lparr>ex_checkpoint := saved\<rparr>) ex' \<Longrightarrow>
      stamp sv ex' e (ex_sequence (ex\<lparr>ex_checkpoint := saved\<rparr>) + 1) w = (e, w)" for ex' w
    using stamp_stamped [OF assms(2,3), of ex' w] assms(4) by simp
  have jr: "journal_record (ex\<lparr>ex_checkpoint := saved\<rparr>) e = journal_record ex e"
    by (simp add: journal_record_def)
  note s = emit_stamped [OF assms(1) _ _ st, unfolded jr]
  show "head w' = head w"
    "journal w' = journal w \<or> recorded journal (journal_record ex e) w w'"
    using s(1,2) assms(5,6) by simp_all
  show "err = None \<Longrightarrow> recorded journal (journal_record ex e) w w' \<and>
       ex' = ex\<lparr>ex_checkpoint := saved, ex_sequence := ex_sequence ex + 1, ex_eventCursor := ex_sequence ex + 1\<rparr>"
    using s(3) assms(5,6) by simp
qed

lemma writeRequest_term [simp]:
  "(writeRequest n pending ex)\<lparr>wr_PendingTerm := None\<rparr> = writeRequest n pending ex"
  by (simp add: writeRequest_def)

lemma writeRequest_replay [simp]:
  "(writeRequest n pending ex)\<lparr>wr_ReplayStatus := ex_replayStatus ex\<rparr> = writeRequest n pending ex"
  by (simp add: writeRequest_def)

lemma saveCheckpoint_running_ok:
  assumes "saveCheckpoint sv ctx ((writeRequest n pending ex)
      \<lparr>wr_PendingTerm := term, wr_ReplayStatus := rs\<rparr>) w = (Inr saved, w')"
    "cp_ID (ex_checkpoint ex) \<noteq> []"
  shows "journal w' = journal w"
    "head_shows head w' (cp_RunID (ex_checkpoint ex)) pending term (ex_eventCursor ex)"
    "cp_ID saved \<noteq> []" "cp_RunID saved = cp_RunID (ex_checkpoint ex)"
  using saveCheckpoint_ok [OF assms(1)] assms(2) by (simp_all add: writeRequest_def)

text \<open>
  However far a commit gets, the world is in one of three places: untouched, announced (with the
  record appended or not), or confirmed; and it reports success exactly in the last one.
\<close>

lemma commit_running:
  assumes c: "commitRunningEvent sv event n ex w = (err, ex', w')"
    and ok: "cp_ID (ex_checkpoint ex) \<noteq> []" "ex_runID ex \<noteq> []" "cp_RunID (ex_checkpoint ex) = ex_runID ex"
  shows "(err \<noteq> None \<and> head w' = head w \<and> journal w' = journal w) \<or>
    (\<exists>e. stamped_as ex event e \<and>
      (if err = None then committed head journal ex e w w' \<and>
         ex_sequence ex' = ex_sequence ex + 1 \<and> ex_eventCursor ex' = ex_sequence ex + 1
       else announced head journal ex e None w w'))"
proof (cases "ex_sinkFailure ex")
  case (Some x)
  with c ok show ?thesis by (auto simp: commitRunningEvent_def)
next
  case sf: None
  obtain e w1 where st: "stamp sv ex event (ex_sequence ex + 1) w = (e, w1)" by force
  define rs where "rs = replayStatusForEvent (ev_Type event)"
  note f = stamp_frame [OF st]
  then obtain now where e: "e = runtimeEvent now ex event (ex_sequence ex + 1)" "now \<noteq> 0 \<or> ev_Timestamp event \<noteq> 0"
    by blast
  then have se: "stamped_as ex event e" by (auto simp: stamped_as_def)
  let ?req = "(writeRequest n (Some e) ex)\<lparr>wr_PendingTerm := None, wr_ReplayStatus := rs\<rparr>"
  obtain r w2 where sv1: "saveCheckpoint sv (run_ctx ex) ?req w1 = (r, w2)" by force
  show ?thesis
  proof (cases r)
    case (Inl x)
    with c sf ok st sv1 saveCheckpoint_fail [of "run_ctx ex" ?req w1 x w2] f show ?thesis
      by (auto simp: commitRunningEvent_def rs_def)
  next
    case (Inr saved)
    note a = saveCheckpoint_running_ok [OF sv1 [unfolded Inr] ok(1)]
    obtain err2 ex2 w3 where em:
      "emitLockedWithContexts sv None e (ex\<lparr>ex_checkpoint := saved\<rparr>) w2 = (err2, ex2, w3)"
      using prod_cases3 by blast
    note b = emitLocked_stamped [OF em e ok(2) sf a(3)]
    show ?thesis
    proof (cases err2)
      case (Some x)
      with c sf ok st sv1 Inr em have "err = Some x" "w' = w3"
        by (auto simp: commitRunningEvent_def rs_def emitLocked_def)
      then have "announced head journal ex e None w w'" "err \<noteq> None"
        using a b(1,2) f ok recorded_from [of journal w2 w] head_shows_cong [of head w3 w2]
        by (auto simp: announced_def)
      with se show ?thesis by auto
    next
      case None
      let ?req2 = "(writeRequest n None ex2)\<lparr>wr_PendingTerm := None, wr_ReplayStatus := rs\<rparr>"
      obtain r2 w4 where sv2: "saveCheckpoint sv (run_ctx ex2) ?req2 w3 = (r2, w4)" by force
      note b3 = b(3) [OF None]
      show ?thesis
      proof (cases r2)
        case (Inl x)
        with c sf ok st sv1 \<open>r = Inr saved\<close> em None sv2 have "err = Some x" "w' = w4"
          by (auto simp: commitRunningEvent_def rs_def emitLocked_def)
        then have "announced head journal ex e None w w'" "err \<noteq> None"
          using a b(1,2) f ok saveCheckpoint_fail [OF sv2 [unfolded Inl]]
            recorded_from [of journal w2 w] recorded_to [of journal w4 w3] head_shows_cong [of head w4 w2]
          by (auto simp: announced_def)
        with se show ?thesis by auto
      next
        case (Inr saved2)
        with c sf ok st sv1 \<open>r = Inr saved\<close> em None sv2 have "err = None" "w' = w4"
          "ex' = ex2\<lparr>ex_checkpoint := saved2, ex_replayStatus := rs\<rparr>"
          by (auto simp: commitRunningEvent_def rs_def emitLocked_def)
        moreover have "committed head journal ex e w w'"
          using saveCheckpoint_running_ok [OF sv2 [unfolded Inr]] a b3 f ok \<open>w' = w4\<close>
            recorded_from [of journal w2 w] recorded_to [of journal w4 w3]
          by (auto simp: committed_def)
        ultimately show ?thesis using se b3 by auto
      qed
    qed
  qed
qed

lemma finishCheckpoint_ok:
  assumes "finishCheckpoint sv ctx status req w = (None, w')" "cp_ID (wr_Record req) \<noteq> []"
    "wr_PendingEvent req = None"
  shows "journal w' = journal w" "ended_as head w' (cp_RunID (wr_Record req)) status (wr_EventCursor req)"
proof -
  from assms obtain meta0 now w1 payload where
    e: "encodeCheckpointPayloadWithMeta (sv_gob sv) (wr_State req) (wr_Outputs req) (wr_NextStep req)
        (write_meta req (meta0\<lparr>pm_OwnerID := [], pm_LeaseExpiresAt := zero_time\<rparr>)) = Inr payload"
    and n: "sv_now sv w = (now, w1)"
    and s: "sv_Finish sv ctx (write_record req ((wr_Record req)\<lparr>cp_Payload := payload, cp_Status := status,
        cp_OwnerID := [], cp_LeaseExpiresAt := zero_time, cp_LeaseDuration := 0, cp_UpdatedAt := now\<rparr>))
        (cp_Version (wr_Record req)) w1 = (None, w')"
    by (auto simp: finishCheckpoint_def Let_def split: sum.splits prod.splits)
  note h = finish_ok [OF s] now_frame [OF n]
  show "journal w' = journal w" using h by simp
  show "ended_as head w' (cp_RunID (wr_Record req)) status (wr_EventCursor req)"
    using h encode_content [OF e] assms(3) by (auto simp: ended_as_def write_meta_def write_record_def)
qed

lemma finishCheckpoint_fail:
  assumes "finishCheckpoint sv ctx status req w = (Some err, w')"
  shows "journal w' = journal w" "head w' = head w"
  using assms finish_fail now_frame
  by (fastforce simp: finishCheckpoint_def Let_def split: sum.splits prod.splits if_splits)+

lemma commit_terminal:
  assumes c: "commitTerminalEvent sv status event ex w = (err, ex', w')"
    and ok: "cp_ID (ex_checkpoint ex) \<noteq> []" "ex_runID ex \<noteq> []" "cp_RunID (ex_checkpoint ex) = ex_runID ex"
  shows "(err \<noteq> None \<and> head w' = head w \<and> journal w' = journal w) \<or>
    (\<exists>e. stamped_as ex event e \<and>
      (if err = None then recorded journal (journal_record ex e) w w' \<and>
         ended_as head w' (ex_runID ex) status (ex_sequence ex + 1)
       else announced head journal ex e (Some status) w w'))"
proof (cases "ex_sinkFailure ex")
  case (Some x)
  with c ok show ?thesis by (auto simp: commitTerminalEvent_def)
next
  case sf: None
  obtain e w1 where st: "stamp sv ex event (ex_sequence ex + 1) w = (e, w1)" by force
  note f = stamp_frame [OF st]
  then obtain now where e: "e = runtimeEvent now ex event (ex_sequence ex + 1)" "now \<noteq> 0 \<or> ev_Timestamp event \<noteq> 0"
    by blast
  then have se: "stamped_as ex event e" by (auto simp: stamped_as_def)
  let ?req = "(writeRequest (ex_step ex) (Some e) ex)
    \<lparr>wr_PendingTerm := Some status, wr_ReplayStatus := ex_replayStatus ex\<rparr>"
  have req: "(writeRequest (ex_step ex) (Some e) ex)\<lparr>wr_PendingTerm := Some status\<rparr> = ?req"
    by (simp add: writeRequest_def)
  obtain r w2 where sv1: "saveCheckpoint sv (final_ctx ex) ?req w1 = (r, w2)" by force
  show ?thesis
  proof (cases r)
    case (Inl x)
    with c sf ok st sv1 [folded req] saveCheckpoint_fail [of "final_ctx ex" ?req w1 x w2, folded req] f
    show ?thesis
      by (auto simp: commitTerminalEvent_def)
  next
    case (Inr saved)
    note a = saveCheckpoint_running_ok [OF sv1 [unfolded Inr] ok(1)]
    obtain err2 ex2 w3 where em:
      "emitLockedWithContexts sv (final_ctx ex) e (ex\<lparr>ex_checkpoint := saved\<rparr>) w2 = (err2, ex2, w3)"
      using prod_cases3 by blast
    note b = emitLocked_stamped [OF em e ok(2) sf a(3)]
    note sv1' = sv1 [unfolded Inr, folded req]
    have ann: "announced head journal ex e (Some status) w w3"
      using a b(1,2) f ok recorded_from [of journal w2 w] head_shows_cong [of head w3 w2]
      by (auto simp: announced_def)
    show ?thesis
    proof (cases err2)
      case (Some x)
      with c sf ok st sv1' em have "err = Some x" "w' = w3" by (auto simp: commitTerminalEvent_def)
      with ann se show ?thesis by auto
    next
      case None
      note b3 = b(3) [OF None]
      show ?thesis
      proof (cases "ex_heartbeat ex2")
        case (Some x)
        with c sf ok st sv1' em None have "err = Some x" "w' = w3"
          by (auto simp: commitTerminalEvent_def stopCheckpointLeaseHeartbeat_def)
        with ann se show ?thesis by auto
      next
        case hb: None
        obtain err4 w4 where fi: "finishCheckpoint sv (final_ctx ex2) status (writeRequest (ex_step ex2) None ex2) w3 = (err4, w4)"
          by force
        with c sf ok st sv1' em None hb have r: "err = err4" "w' = w4"
          by (auto simp: commitTerminalEvent_def stopCheckpointLeaseHeartbeat_def)
        show ?thesis
        proof (cases err4)
          case (Some x)
          note ff = finishCheckpoint_fail [OF fi [unfolded Some]]
          have "announced head journal ex e (Some status) w w'"
            using ann ff r recorded_to [of journal w4 w3] head_shows_cong [of head w4 w3]
            by (auto simp: announced_def)
          with se r Some show ?thesis by auto
        next
          case fin: None
          have "cp_ID (ex_checkpoint ex2) \<noteq> []" "cp_RunID (ex_checkpoint ex2) = ex_runID ex"
            "ex_eventCursor ex2 = ex_sequence ex + 1"
            using b3 a ok by simp_all
          then have "ended_as head w' (ex_runID ex) status (ex_sequence ex + 1)" "journal w' = journal w3"
            using finishCheckpoint_ok [OF fi [unfolded fin]] r by (simp_all add: writeRequest_def)
          moreover have "recorded journal (journal_record ex e) w w3"
            using b3 a f recorded_from [of journal w2 w] by simp
          ultimately show ?thesis using se r fin by (auto simp: recorded_def)
        qed
      qed
    qed
  qed
qed

lemma emit_recovered:
  assumes "emitLockedWithContexts sv ctx e ex2 w = (err, ex', w')" "recovers ex ex2"
    "stamped_as ex event e" "ex_runID ex \<noteq> []"
  shows "head w' = head w" "journal w' = journal w \<or> recorded journal (journal_record ex e) w w'"
    "err = None \<Longrightarrow> recorded journal (journal_record ex e) w w' \<and>
       ex' = ex2\<lparr>ex_sequence := ex_sequence ex + 1, ex_eventCursor := ex_sequence ex + 1\<rparr>"
proof -
  have *: "head w' = head w \<and> (journal w' = journal w \<or> recorded journal (journal_record ex e) w w') \<and>
    (err = None \<longrightarrow> recorded journal (journal_record ex e) w w' \<and>
       ex' = ex2\<lparr>ex_sequence := ex_sequence ex + 1, ex_eventCursor := ex_sequence ex + 1\<rparr>)"
  proof (cases "ex_sinkFailure ex2")
    case (Some x)
    with assms(1) show ?thesis by (auto simp: emitLockedWithContexts_def)
  next
    case None
    have r: "same_run ex ex2" "ex_sequence ex2 = ex_sequence ex" "cp_ID (ex_checkpoint ex2) \<noteq> []"
      using assms(2) by (simp_all add: recovers_def)
    from assms(3) obtain now where
      e: "e = runtimeEvent now ex event (ex_sequence ex + 1)" "now \<noteq> 0 \<or> ev_Timestamp event \<noteq> 0"
      by (auto simp: stamped_as_def)
    have st: "same_run ex2 ex' \<Longrightarrow> stamp sv ex' e (ex_sequence ex2 + 1) w = (e, w)" for ex' w
      using stamp_stamped [OF e, of ex' w] assms(4) r by (auto simp: same_run_def)
    have jr: "journal_record ex2 e = journal_record ex e"
      using journal_record_same [OF r(1)] by simp
    show ?thesis using emit_stamped [OF assms(1) None r(3) st] by (auto simp: jr r(2))
  qed
  then show "head w' = head w" "journal w' = journal w \<or> recorded journal (journal_record ex e) w w'"
    "err = None \<Longrightarrow> recorded journal (journal_record ex e) w w' \<and>
       ex' = ex2\<lparr>ex_sequence := ex_sequence ex + 1, ex_eventCursor := ex_sequence ex + 1\<rparr>"
    by auto
qed

text \<open>One recovery attempt.\<close>

lemma replay_once:
  assumes p: "replayPending sv status term e ex2 w = (err, ex', w')"
    and h: "recovers ex ex2" "stamped_as ex event e" "ex_runID ex \<noteq> []"
  shows "if err = None
     then recorded journal (journal_record ex e) w w' \<and> settled head ex (replay_terminal status term) w'
     else head w' = head w \<and> (journal w' = journal w \<or> recorded journal (journal_record ex e) w w')"
proof -
  have r: "same_run ex ex2" "ex_sequence ex2 = ex_sequence ex" "cp_ID (ex_checkpoint ex2) \<noteq> []"
    "cp_RunID (ex_checkpoint ex2) = ex_runID ex"
    using h(1) by (simp_all add: recovers_def)
  from h(2) obtain now where
    e: "e = runtimeEvent now ex event (ex_sequence ex + 1)" "now \<noteq> 0 \<or> ev_Timestamp event \<noteq> 0"
    by (auto simp: stamped_as_def)
  have seq: "ev_Sequence e = ex_sequence ex2 + 1" by (simp add: e(1) r)
  have st: "stamp sv ex2 e (ev_Sequence e) w = (e, w)"
    using stamp_stamped [OF e r(1) h(3)] by (simp add: seq r(2))
  obtain err1 ex1 w1 where em: "emitLockedWithContexts sv (final_ctx ex2) e ex2 w = (err1, ex1, w1)"
    using prod_cases3 by blast
  note b = emit_recovered [OF em h]
  show ?thesis
  proof (cases err1)
    case (Some x)
    with p seq st em have "err = Some x" "w' = w1" by (simp_all add: replayPending_def)
    with b(1,2) show ?thesis by auto
  next
    case None
    note b3 = b(3) [OF None]
    define ex3 where "ex3 = ex1\<lparr>ex_interruptProgress :=
      advance_progress (ev_Sequence e) (ex_interruptProgress ex1)\<rparr>"
    have x3: "cp_ID (ex_checkpoint ex3) \<noteq> []" "cp_RunID (ex_checkpoint ex3) = ex_runID ex"
      "ex_eventCursor ex3 = ex_sequence ex + 1"
      using b3 r by (simp_all add: ex3_def)
    note p' = p [unfolded replayPending_def Let_def, folded replay_terminal_def]
    show ?thesis
    proof (cases "replay_terminal status term")
      case tm: None
      obtain r2 w4 where sv2: "saveCheckpoint sv (run_ctx ex3) (writeRequest (ex_step ex3) None ex3) w1 = (r2, w4)"
        by force
      then have sv3: "saveCheckpoint sv (run_ctx ex3) ((writeRequest (ex_step ex3) None ex3)
          \<lparr>wr_PendingTerm := None, wr_ReplayStatus := ex_replayStatus ex3\<rparr>) w1 = (r2, w4)"
        by simp
      show ?thesis
      proof (cases r2)
        case (Inl x)
        with p' seq st em None sv2 tm have "err = Some x" "w' = w4" by (simp_all add: ex3_def)
        with b(1,2) saveCheckpoint_fail [OF sv2 [unfolded Inl]] recorded_to [of journal w4 w1]
        show ?thesis by auto
      next
        case (Inr saved)
        with p' seq st em None sv2 tm have "err = None" "w' = w4" by (simp_all add: ex3_def)
        with b3 saveCheckpoint_running_ok [OF sv3 [unfolded Inr] x3(1)] x3 tm recorded_to [of journal w4 w1]
        show ?thesis by (auto simp: settled_def)
      qed
    next
      case tm: (Some t)
      show ?thesis
      proof (cases "ex_heartbeat ex3")
        case (Some x)
        with p' seq st em None tm have "err = Some x" "w' = w1"
          by (simp_all add: ex3_def stopCheckpointLeaseHeartbeat_def)
        with b(1,2) show ?thesis by auto
      next
        case hb: None
        obtain err4 w4 where fi: "finishCheckpoint sv (final_ctx ex3) t (writeRequest (ex_step ex3) None ex3) w1 = (err4, w4)"
          by force
        show ?thesis
        proof (cases err4)
          case (Some x)
          with p' seq st em None tm hb fi have "err = Some x" "w' = w4"
            by (simp_all add: ex3_def stopCheckpointLeaseHeartbeat_def)
          with b(1,2) finishCheckpoint_fail [OF fi [unfolded Some]] recorded_to [of journal w4 w1]
          show ?thesis by auto
        next
          case fin: None
          with p' seq st em None tm hb fi have "err = None" "w' = w4"
            by (simp_all add: ex3_def stopCheckpointLeaseHeartbeat_def)
          with b3 finishCheckpoint_ok [OF fi [unfolded fin]] x3 tm recorded_to [of journal w4 w1]
          show ?thesis by (auto simp: settled_def writeRequest_def)
        qed
      qed
    qed
  qed
qed

lemma recorded_trans:
  "recorded journal rec w w1 \<Longrightarrow> recorded journal rec w1 w' \<Longrightarrow> recorded journal rec w w'"
  by (auto simp: recorded_def)

lemma replay_many:
  assumes "replay_attempts sv status term e exs w = (fin, w')" "\<forall>ex2 \<in> set exs. recovers ex ex2"
    "stamped_as ex event e" "ex_runID ex \<noteq> []"
  shows "if fin
     then recorded journal (journal_record ex e) w w' \<and> settled head ex (replay_terminal status term) w'
     else head w' = head w \<and> (journal w' = journal w \<or> recorded journal (journal_record ex e) w w')"
  using assms(1,2)
proof (induction exs arbitrary: w)
  case (Cons x xs)
  obtain err ex1 w1 where p: "replayPending sv status term e x w = (err, ex1, w1)"
    using prod_cases3 by blast
  note o = replay_once [OF p _ assms(3,4)]
  show ?case
  proof (cases err)
    case None
    with Cons.prems p o show ?thesis by simp
  next
    case (Some y)
    with Cons.prems p have "replay_attempts sv status term e xs w1 = (fin, w')" by simp
    note i = Cons.IH [OF this]
    from Some o Cons.prems have "head w1 = head w"
      "journal w1 = journal w \<or> recorded journal (journal_record ex e) w w1" by simp_all
    with i Cons.prems(2) recorded_from [of journal w1 w] recorded_to [of journal w' w1]
      recorded_trans [of "journal_record ex e" w w1 w']
    show ?thesis by (cases fin) auto
  qed
qed simp

text \<open>Claiming a run for its recovery keeps what was announced.\<close>

lemma claim_keeps:
  assumes "claimCheckpoint sv ctx c r owner rq w = (Inr saved, w')" "record_shows r pending term cursor"
  shows "journal w' = journal w" "record_shows saved pending term cursor"
proof -
  from assms(1) obtain payload now w1 meta0 claimed n rec' where
    d: "decodeCheckpointPayload (cp_Payload r) = Inr payload" and nw: "sv_now sv w = (now, w1)"
    and m: "claim_payload (cp_Status r) (rq_Resolutions rq) (pl_Meta payload) = Inr meta0"
    and e: "encodeCheckpointPayloadWithMeta (sv_gob sv) (payload_state payload) (pl_Outputs payload)
       (pl_NextStep payload) (meta0\<lparr>pm_OwnerID := owner, pm_LeaseExpiresAt := now + sv_leaseDuration sv,
         pm_ClaimSequence := n\<rparr>) = Inr claimed"
    and s: "sv_Claim sv ctx rec' (cp_Version r) w1 = (None, w')" "saved = rec'\<lparr>cp_Version := cp_Version rec' + 1\<rparr>"
      "cp_Payload rec' = claimed"
    by (auto simp: claimCheckpoint_def Let_def split: sum.splits option.splits prod.splits)
  show "journal w' = journal w" using claim_ok [OF s(1)] now_frame [OF nw] by simp
  show "record_shows saved pending term cursor"
    using assms(2) decode_content [OF d] claim_payload_pending [OF m] encode_content [OF e] s
    by (simp add: record_shows_def)
qed

lemma resume_keeps:
  assumes "prepareResumeCheckpoint sv ctx c req w = (Inr saved, w')"
    "head_shows head w (rq_RunID (pq_Resume req)) pending term cursor"
  shows "journal w' = journal w" "record_shows saved pending term cursor"
proof -
  from assms(1) obtain r w1 where l: "sv_Load sv ctx (rq_RunID (pq_Resume req)) w = (Inr r, w1)"
    and cont: "activeResumeCheckpoint sv ctx c r req w1 = (Inr saved, w') \<or> (Inr saved, w') = (terminalResumeCheckpoint r, w1)"
    by (auto simp: prepareResumeCheckpoint_def split: sum.splits prod.splits option.splits if_splits)
  from load_ok [OF l] have j: "journal w1 = journal w"
    and "\<exists>e d. map_option (\<lambda>h. h\<lparr>cp_LeaseExpiresAt := e, cp_LeaseDuration := d\<rparr>) (head w (rq_RunID (pq_Resume req))) =
         Some (r\<lparr>cp_LeaseExpiresAt := e, cp_LeaseDuration := d\<rparr>)" by auto
  then obtain e d h where hd: "head w (rq_RunID (pq_Resume req)) = Some h"
    "h\<lparr>cp_LeaseExpiresAt := e, cp_LeaseDuration := d\<rparr> = r\<lparr>cp_LeaseExpiresAt := e, cp_LeaseDuration := d\<rparr>"
    by (auto simp: map_option_case split: option.splits)
  then have "cp_Payload h = cp_Payload r"
    by (metis CheckpointRecord.select_convs(12) CheckpointRecord.surjective CheckpointRecord.update_convs(17,18))
  with assms(2) hd have rs: "record_shows r pending term cursor"
    by (auto simp: head_shows_def record_shows_def)
  from cont show "journal w' = journal w" "record_shows saved pending term cursor"
    using claim_keeps [OF _ rs] j rs
    by (auto simp: activeResumeCheckpoint_def terminalResumeCheckpoint_def
        split: sum.splits option.splits if_splits)
qed

end

end
