(* ===== verification/World.thy ===== *)
theory World
  imports Durability
begin

text \<open>
  The in-memory store as the services of a run. The world holds the store, the events that
  the observers have seen and the number of calls made so far; the clock, the context error
  of each call, the size of an encoded payload and the observers are arguments, so every
  statement ranges over all failures and delays. The contract of the durability protocol
  is interpreted on it and the guarantees of the protocol are stated over it.
\<close>

section \<open>The world\<close>

record world =
  wd_store :: "checkpointPayload MemoryStore"
  wd_calls :: nat
  wd_seen :: "Event list"

definition tick :: "world \<Rightarrow> world" where
  "tick w = w\<lparr>wd_calls := wd_calls w + 1\<rparr>"

text \<open>The context error of a call: the one it is given, or a failure at this call.\<close>

definition call_error :: "(nat \<Rightarrow> goerr option) \<Rightarrow> goerr option \<Rightarrow> world \<Rightarrow> goerr option" where
  "call_error fails ctx w = (if ctx \<noteq> None then ctx else fails (wd_calls w))"

text \<open>Times are positive: the zero time is no clock reading.\<close>

definition read_clock :: "(nat \<Rightarrow> nat) \<Rightarrow> world \<Rightarrow> gotime" where
  "read_clock clock w = int (clock (wd_calls w)) + 1"

definition on_checkpoints ::
  "(checkpointPayload MemoryCheckpointer \<Rightarrow> goerr option \<times> checkpointPayload MemoryCheckpointer)
   \<Rightarrow> world \<Rightarrow> goerr option \<times> world" where
  "on_checkpoints f w =
     (let (err, k) = f (ms_checkpointer (wd_store w))
      in (err, tick (w\<lparr>wd_store := (wd_store w)\<lparr>ms_checkpointer := k\<rparr>\<rparr>)))"

definition on_log ::
  "(MemoryLog \<Rightarrow> goerr option \<times> MemoryLog) \<Rightarrow> world \<Rightarrow> goerr option \<times> world" where
  "on_log f w = (let (err, l) = f (ms_log (wd_store w)) in (err, tick (w\<lparr>wd_store := (wd_store w)\<lparr>ms_log := l\<rparr>\<rparr>)))"

definition world_sink :: "(Event list, unit) EventSink \<Rightarrow> (world, unit) EventSink" where
  "world_sink sink =
     \<lparr>es_Emit = (\<lambda>event w. let (r, seen) = es_Emit sink event (wd_seen w) in (r, w\<lparr>wd_seen := seen\<rparr>)),
      es_strict = es_strict sink, es_EmitComponent = None\<rparr>"

definition memory_services ::
  "(nat \<Rightarrow> nat) \<Rightarrow> (nat \<Rightarrow> goerr option) \<Rightarrow> gob_size \<Rightarrow> duration
   \<Rightarrow> (Event list, unit) EventSink option list \<Rightarrow> world services" where
  "memory_services clock fails gob lease observers =
     \<lparr>sv_Create = (\<lambda>ctx r w. on_checkpoints (Create (call_error fails ctx w) (read_clock clock w) r) w),
      sv_Load = (\<lambda>ctx run w. (Load (call_error fails ctx w) run (ms_checkpointer (wd_store w)), tick w)),
      sv_Claim = (\<lambda>ctx r v w. on_checkpoints (Claim (call_error fails ctx w) (read_clock clock w) r v) w),
      sv_Save = (\<lambda>ctx r v w. on_checkpoints (Save (call_error fails ctx w) (read_clock clock w) r v) w),
      sv_Finish = (\<lambda>ctx r v w. on_checkpoints (Finish (call_error fails ctx w) (read_clock clock w) r v) w),
      sv_Append = (\<lambda>ctx r w. on_log (MemoryLog_Append (call_error fails ctx w) r) w),
      sv_AppendFenced = (\<lambda>ctx r fence w.
         let (err, s) = AppendFenced (call_error fails ctx w) (read_clock clock w) r fence (wd_store w)
         in (err, tick (w\<lparr>wd_store := s\<rparr>))),
      sv_List = (\<lambda>ctx q w. (MemoryLog_List (call_error fails ctx w) q (ms_log (wd_store w)), tick w)),
      sv_now = (\<lambda>w. (read_clock clock w, tick w)),
      sv_sinks = (\<lambda>a. map (map_option world_sink) observers),
      sv_gob = gob, sv_leaseDuration = lease\<rparr>"

abbreviation heads :: "world \<Rightarrow> string \<rightharpoonup> cprecord" where
  "heads w \<equiv> mc_records (ms_checkpointer (wd_store w))"

abbreviation journal_of :: "world \<Rightarrow> recordKey \<rightharpoonup> Record" where
  "journal_of w \<equiv> ml_byKey (ms_log (wd_store w))"

section \<open>The contract holds\<close>

lemma tick_store [simp]: "wd_store (tick w) = wd_store w"
  by (simp add: tick_def)

lemma stored_as_head:
  assumes "stored_as r r'" "cp_Version r' = v + 1"
  shows "\<exists>e d. r' = r\<lparr>cp_Version := v + 1, cp_LeaseExpiresAt := e, cp_LeaseDuration := d\<rparr>"
proof -
  have "r' = r\<lparr>cp_Version := v + 1, cp_LeaseExpiresAt := cp_LeaseExpiresAt r', cp_LeaseDuration := 0\<rparr>"
    by (rule trans [OF assms(1) [unfolded stored_as_def assms(2)]]) simp
  then show ?thesis by blast
qed

lemma store_write_head:
  assumes "store_write c now r v terminal k = (None, k')"
  shows "\<exists>e d. mc_records k' = (mc_records k)(cp_RunID r \<mapsto>
    r\<lparr>cp_Version := v + 1, cp_LeaseExpiresAt := e, cp_LeaseDuration := d\<rparr>)"
proof -
  from store_write_success [OF assms] obtain r' where
    r: "stored_as r r'" "pushed r' k k'" "cp_Version r' = v + 1" by metis
  then show ?thesis using stored_as_head [OF r(1,3)] by (auto simp: pushed_def stored_as_simps [OF r(1)])
qed

lemma Claim_head:
  assumes "Claim c now r v k = (None, k')"
  shows "\<exists>e d. mc_records k' = (mc_records k)(cp_RunID r \<mapsto>
    r\<lparr>cp_Version := v + 1, cp_LeaseExpiresAt := e, cp_LeaseDuration := d\<rparr>)"
proof -
  from Claim_success [OF assms] obtain r' where
    r: "stored_as r r'" "pushed r' k k'" "cp_Version r' = v + 1" by metis
  then show ?thesis using stored_as_head [OF r(1,3)] by (auto simp: pushed_def stored_as_simps [OF r(1)])
qed

lemma MemoryLog_Append_view:
  assumes "MemoryLog_Append c rec l = (err, l')"
  shows "if err = None then ml_byKey l (record_key rec) \<in> {None, Some rec} \<and>
      ml_byKey l' = (ml_byKey l)(record_key rec \<mapsto> rec) else l' = l"
  using assms
proof (cases rule: MemoryLog_Append_cases)
  case known
  then show ?thesis by (simp add: map_upd_triv)
qed auto

lemma AppendFenced_view:
  assumes "AppendFenced c now rec f s = (err, s')"
  shows "ms_checkpointer s' = ms_checkpointer s"
    "if err = None then ml_byKey (ms_log s) (record_key rec) \<in> {None, Some rec} \<and>
      ml_byKey (ms_log s') = (ml_byKey (ms_log s))(record_key rec \<mapsto> rec) else s' = s"
proof -
  have "ms_checkpointer s' = ms_checkpointer s \<and> (if err = None then ml_byKey (ms_log s) (record_key rec) \<in> {None, Some rec} \<and>
      ml_byKey (ms_log s') = (ml_byKey (ms_log s))(record_key rec \<mapsto> rec) else s' = s)"
  proof (cases "(err, s') = (case MemoryLog_Append c rec (ms_log s) of (err, log) \<Rightarrow> (err, s\<lparr>ms_log := log\<rparr>))")
    case True
    then obtain l where l: "MemoryLog_Append c rec (ms_log s) = (err, l)" "s' = s\<lparr>ms_log := l\<rparr>"
      by (auto split: prod.splits)
    with MemoryLog_Append_view [OF l(1)] show ?thesis by auto
  next
    case False
    with assms have "err \<noteq> None \<and> s' = s"
      by (auto simp: AppendFenced_def split: option.splits if_splits)
    then show ?thesis by (cases err) simp_all
  qed
  then show "ms_checkpointer s' = ms_checkpointer s"
    "if err = None then ml_byKey (ms_log s) (record_key rec) \<in> {None, Some rec} \<and>
      ml_byKey (ms_log s') = (ml_byKey (ms_log s))(record_key rec \<mapsto> rec) else s' = s"
    by auto
qed

lemma world_sinks_frame:
  assumes "eventDelivery_emit (map (map_option world_sink) observers) event w = (res, w')"
  shows "wd_store w' = wd_store w"
proof -
  have "wd_store (snd (eventDelivery_emit (map (map_option world_sink) observers) event w)) = wd_store w"
  proof (induction observers arbitrary: w)
    case (Cons a observers)
    then show ?case
      by (cases a) (simp_all add: eventDelivery_emit_Some world_sink_def case_prod_beta)
  qed simp
  with assms show ?thesis by simp
qed

interpretation mem: durable_store "memory_services clock fails gob lease observers" heads journal_of
  for clock fails gob lease observers
proof (unfold_locales, goal_cases)
  case (1 ctx r v w w')
  then show ?case
    using store_write_head by (fastforce simp: memory_services_def on_checkpoints_def Save_def split: prod.splits)
next
  case (2 ctx r v w err w')
  then show ?case
    using failed_unchanged by (fastforce simp: memory_services_def on_checkpoints_def Save_def split: prod.splits)
next
  case (3 ctx r v w w')
  then show ?case
    using store_write_head by (fastforce simp: memory_services_def on_checkpoints_def Finish_def split: prod.splits)
next
  case (4 ctx r v w err w')
  then show ?case
    using failed_unchanged by (fastforce simp: memory_services_def on_checkpoints_def Finish_def split: prod.splits)
next
  case (5 ctx r v w w')
  then show ?case
    using Claim_head by (fastforce simp: memory_services_def on_checkpoints_def split: prod.splits)
next
  case (6 ctx run w r w')
  then show ?case
    by (auto simp: memory_services_def Load_def cloneCheckpointRecord_def split: option.splits if_splits)
next
  case (7 ctx rec f w w')
  then show ?case
    using AppendFenced_view by (fastforce simp: memory_services_def split: prod.splits)
next
  case (8 ctx rec f w err w')
  then show ?case
    using AppendFenced_view by (fastforce simp: memory_services_def split: prod.splits)
next
  case (9 w t w')
  then show ?case by (auto simp: memory_services_def read_clock_def)
next
  case (10 a event w res w')
  then show ?case using world_sinks_frame by (auto simp: memory_services_def)
qed

section \<open>What the protocol guarantees\<close>

text \<open>An announced event stays announced while recovery fails, and is settled when it succeeds.\<close>

definition recovery_outcome ::
  "execution \<Rightarrow> Event \<Rightarrow> CheckpointStatus option \<Rightarrow> world \<Rightarrow> bool \<times> world \<Rightarrow> bool" where
  "recovery_outcome ex e term w outcome \<longleftrightarrow>
     (case outcome of (fin, w2) \<Rightarrow>
        if fin then recorded journal_of (journal_record ex e) w w2 \<and> settled heads ex term w2
        else announced heads journal_of ex e term w w2)"

lemma recovery_of_announced:
  assumes "announced heads journal_of ex e term w w1" "\<forall>ex2 \<in> set exs. recovers ex ex2"
    "stamped_as ex event e" "ex_runID ex \<noteq> []" "replay_terminal status term = term"
  shows "recovery_outcome ex e term w
    (replay_attempts (memory_services clock fails gob lease observers) status term e exs w1)"
proof -
  obtain fin w2 where r: "replay_attempts (memory_services clock fails gob lease observers) status term e exs w1 = (fin, w2)"
    by force
  note m = mem.replay_many [OF r assms(2-4)]
  show ?thesis
  proof (cases fin)
    case True
    with m assms(1,5) recorded_from [of journal_of w1 w]
      mem.recorded_trans [of "journal_record ex e" w w1 w2]
    show ?thesis by (auto simp: recovery_outcome_def r announced_def)
  next
    case False
    with m assms(1) recorded_from [of journal_of w1 w] recorded_to [of journal_of w2 w1]
      mem.recorded_trans [of "journal_record ex e" w w1 w2] head_shows_cong [of heads w2 w1]
    show ?thesis by (auto simp: recovery_outcome_def r announced_def)
  qed
qed

text \<open>
  C1 (an event is committed exactly once). Whatever calls of the store, the clock or the
  observers fail or delay, committing an event of a durable run leaves the store untouched
  and reports an error, or commits the event (its record is in the journal under the next sequence
  number, no other record is added or changed, and the head confirms it), or leaves it announced
  in the head. An announced event survives any number of failed recoveries, and the first one
  that succeeds leaves exactly what an undisturbed commit leaves: the record once, never
  another event under its number.
\<close>

theorem event_committed_exactly_once:
  assumes "cp_ID (ex_checkpoint ex) \<noteq> []" "ex_runID ex \<noteq> []" "cp_RunID (ex_checkpoint ex) = ex_runID ex"
    and "commitRunningEvent (memory_services clock fails gob lease observers) event n ex w = (err, ex', w1)"
    and "\<forall>ex2 \<in> set exs. recovers ex ex2"
  shows "(err \<noteq> None \<and> heads w1 = heads w \<and> journal_of w1 = journal_of w) \<or>
    (\<exists>e. stamped_as ex event e \<and>
      (if err = None then committed heads journal_of ex e w w1
       else announced heads journal_of ex e None w w1 \<and>
         recovery_outcome ex e None w
           (replay_attempts (memory_services clock fails gob lease observers) CheckpointRunning None e exs w1)))"
proof -
  have t: "replay_terminal CheckpointRunning None = None"
    by (simp add: replay_terminal_def checkpointTerminal_def)
  from mem.commit_running [OF assms(4) assms(1-3)] show ?thesis
    using recovery_of_announced [OF _ assms(5) _ assms(2) t] by (auto split: if_splits)
qed

text \<open>
  C2 (a run ends exactly once). The same for the last event of a run: after any failures, an
  announced end keeps its terminal status and the recovery that succeeds records the event once and
  leaves the run ended in that status with no owner and nothing pending.
\<close>

theorem terminal_event_committed_exactly_once:
  assumes "cp_ID (ex_checkpoint ex) \<noteq> []" "ex_runID ex \<noteq> []" "cp_RunID (ex_checkpoint ex) = ex_runID ex"
    and "commitTerminalEvent (memory_services clock fails gob lease observers) status event ex w = (err, ex', w1)"
    and "\<forall>ex2 \<in> set exs. recovers ex ex2"
  shows "(err \<noteq> None \<and> heads w1 = heads w \<and> journal_of w1 = journal_of w) \<or>
    (\<exists>e. stamped_as ex event e \<and>
      (if err = None then recorded journal_of (journal_record ex e) w w1 \<and>
         ended_as heads w1 (ex_runID ex) status (ex_sequence ex + 1)
       else announced heads journal_of ex e (Some status) w w1 \<and>
         recovery_outcome ex e (Some status) w
           (replay_attempts (memory_services clock fails gob lease observers) CheckpointRunning (Some status) e exs w1)))"
proof -
  have t: "replay_terminal CheckpointRunning (Some status) = Some status"
    by (simp add: replay_terminal_def)
  from mem.commit_terminal [OF assms(4) assms(1-3)] show ?thesis
    using recovery_of_announced [OF _ assms(5) _ assms(2) t] by (auto split: if_splits)
qed

text \<open>
  C3 (resuming keeps the announcement). Claiming a run for a resume changes no journal record,
  and the claimed checkpoint still carries the announced event, its terminal status and the confirmed
  cursor, from which the resumed execution numbers its next event.
\<close>

theorem resume_keeps_announcement:
  assumes "prepareResumeCheckpoint (memory_services clock fails gob lease observers) ctx c req w = (Inr saved, w1)"
    and "head_shows heads w (rq_RunID (pq_Resume req)) pending term cursor"
  shows "journal_of w1 = journal_of w \<and> record_shows saved pending term cursor \<and>
    ex_sequence (applyResumePayload (the (bcontent (cp_Payload saved))) ex) = cursor"
  using mem.resume_keeps [OF assms]
  by (auto simp: record_shows_def applyResumePayload_def Let_def)

section \<open>A run to try it on\<close>

definition world_meta :: checkpointPayloadMeta where
  "world_meta = new_meta\<lparr>pm_SchemaVersion := 2, pm_WorkflowName := ''late'', pm_TopologyVersion := ''t'',
     pm_OwnerID := ''o'', pm_LeaseExpiresAt := 100, pm_ClaimSequence := 1, pm_ExecutionEpoch := 1\<rparr>"

definition sample_head :: cprecord where
  "sample_head =
     \<lparr>cp_ID = ''c'', cp_SessionID = ''s'', cp_RunID = ''r'', cp_SourceRunID = [],
      cp_SourceEventSeq = 0, cp_SourceRevisionID = [], cp_WorkflowName = ''late'',
      cp_TopologyVersion = ''t'', cp_SchemaVersion = 2, cp_Version = 1,
      cp_Status = CheckpointRunning, cp_Payload = Gob 1 (Some (make_payload zero_state [] 1 world_meta)),
      cp_ConfirmedSequence = 0, cp_PendingSequence = 0, cp_ReplayStatus = ReplayUnknown, cp_OwnerID = ''o'',
      cp_LeaseExpiresAt = 100, cp_LeaseDuration = 0, cp_ClaimSequence = 1,
      cp_CreatedAt = 1, cp_UpdatedAt = 1\<rparr>"

definition sample_world :: world where
  "sample_world = \<lparr>wd_store = NewMemoryStore\<lparr>ms_checkpointer := restore_record sample_head NewMemoryCheckpointer\<rparr>,
     wd_calls = 0, wd_seen = []\<rparr>"

definition sample_run :: execution where
  "sample_run =
     \<lparr>ex_compiled = late_plan\<lparr>co_topologyVersion := ''t''\<rparr>, ex_sessionID = ''s'', ex_runID = ''r'', ex_parentRunID = [],
      ex_ownerID = ''o'', ex_associated = None, ex_sequence = 0, ex_eventCursor = 0,
      ex_replayStatus = ReplayUnknown, ex_executionEpoch = 1, ex_controlOrigin = [],
      ex_sourceRevision = [], ex_sourceRunID = [], ex_sourceEventSeq = 0, ex_state = zero_state,
      ex_outputs = [], ex_outputIndex = -1, ex_step = 1, ex_checkpoint = sample_head, ex_cause = None,
      ex_leaseCause = None, ex_heartbeat = None, ex_sinkFailure = None, ex_interrupts = [],
      ex_interruptProgress = None, ex_resolved = []\<rparr>"

definition sample_services :: "nat \<Rightarrow> world services" where
  "sample_services failing = memory_services (\<lambda>n. n)
     (\<lambda>n. if n = failing then Some (Msg ''down'') else None) (\<lambda>p. Some 1) 50 []"

definition sample_event :: Event where
  "sample_event = zero_Event\<lparr>ev_Type := EventWorkflowStarted\<rparr>"

lemmas sample_run_defs = sample_services_def memory_services_def sample_event_def sample_run_def sample_world_def
     sample_head_def world_meta_def new_meta_def late_plan_def commitRunningEvent_def emitLocked_def
     emitLockedWithContexts_def appendFencedEventWithObserver_def stamp_def runtimeEvent_def
     saveCheckpoint_def writeRequest_def write_meta_def write_record_def pendingEventSequence_def
     decodeCheckpointPayloadMeta_def decodeCheckpointPayload_def encodeCheckpointPayloadWithMeta_def
     make_payload_def on_checkpoints_def Save_def store_write_def AppendFenced_def Let_def
     call_error_def read_clock_def tick_def NewMemoryStore_def NewMemoryCheckpointer_def
     NewMemoryLog_def run_ctx_def final_ctx_def restore_record_def cloneCheckpointRecord_def zero_Event_def
     validateCheckpointRecord_def validSourceLineage_def checkpointSchemaVersion_def
     maxWorkflowCheckpointPayloadBytes_def leaseExpiry_def sameCheckpointIdentity_def
     checkpointTerminal_def andthen_def recordSinkFailure_def cancel_run_def replayStatusForEvent_def

text \<open>The append fails after the announcement.\<close>

lemma sample_announced:
  "case commitRunningEvent (sample_services 3) sample_event 1 sample_run sample_world of
      (err, ex', w1) \<Rightarrow> err = Some (Msg ''down'') \<and> ml_records (ms_log (wd_store w1)) = [] \<and>
        cp_PendingSequence (the (heads w1 ''r'')) = 1 \<and> cp_ID (the (heads w1 ''r'')) = ''c'' \<and>
        cp_RunID (the (heads w1 ''r'')) = ''r''"
  by (simp add: sample_run_defs)

lemma sample_world_head: "heads sample_world ''r'' = Some sample_head"
  by (simp add: sample_world_def restore_record_def cloneCheckpointRecord_def sample_head_def Let_def
      NewMemoryStore_def NewMemoryCheckpointer_def)

theorem event_committed_exactly_once_witness:
  "case commitRunningEvent (sample_services 3) sample_event 1 sample_run sample_world of
      (err, ex', w1) \<Rightarrow> err = Some (Msg ''down'') \<and> ml_records (ms_log (wd_store w1)) = [] \<and>
       (\<exists>e. stamped_as sample_run sample_event e \<and> announced heads journal_of sample_run e None sample_world w1 \<and>
          recovery_outcome sample_run e None sample_world (replay_attempts (sample_services 3) CheckpointRunning
            None e [sample_run\<lparr>ex_checkpoint := the (heads w1 ''r'')\<rparr>] w1))"
proof -
  obtain err ex' w1 where c: "commitRunningEvent (sample_services 3) sample_event 1 sample_run sample_world = (err, ex', w1)"
    using prod_cases3 by blast
  have f: "err = Some (Msg ''down'')" "ml_records (ms_log (wd_store w1)) = []"
    "cp_PendingSequence (the (heads w1 ''r'')) = 1" "cp_ID (the (heads w1 ''r'')) = ''c''"
    "cp_RunID (the (heads w1 ''r'')) = ''r''"
    using sample_announced by (simp_all add: c)
  have "heads w1 \<noteq> heads sample_world"
  proof
    assume "heads w1 = heads sample_world"
    then show False using f(3) sample_world_head by (simp add: sample_head_def)
  qed
  moreover have "cp_ID (ex_checkpoint sample_run) \<noteq> []" "ex_runID sample_run \<noteq> []"
    "cp_RunID (ex_checkpoint sample_run) = ex_runID sample_run"
    "\<forall>ex2 \<in> set [sample_run\<lparr>ex_checkpoint := the (heads w1 ''r'')\<rparr>]. recovers sample_run ex2"
    using f by (simp_all add: recovers_def) (simp_all add: sample_run_def sample_head_def)
  ultimately show ?thesis
    using event_committed_exactly_once [OF _ _ _ c [unfolded sample_services_def]] f c
    by (fastforce simp: sample_services_def)
qed

lemma sample_ends:
  "fst (commitTerminalEvent (sample_services 100) CheckpointCompleted
     (zero_Event\<lparr>ev_Type := EventWorkflowCompleted\<rparr>) sample_run sample_world) = None"
  by (simp add: sample_run_defs commitTerminalEvent_def finishCheckpoint_def Finish_def MemoryLog_Append_def
     observe_def validateRecord_def journal_record_def RecordFromEvent_def stopCheckpointLeaseHeartbeat_def
     cloneRecord_def record_key_def revision_id_def)

theorem terminal_event_committed_exactly_once_witness:
  "case commitTerminalEvent (sample_services 100) CheckpointCompleted
      (zero_Event\<lparr>ev_Type := EventWorkflowCompleted\<rparr>) sample_run sample_world of
      (err, ex', w1) \<Rightarrow> err = None \<and> ended_as heads w1 ''r'' CheckpointCompleted 1"
proof -
  obtain err ex' w1 where c: "commitTerminalEvent (sample_services 100) CheckpointCompleted
      (zero_Event\<lparr>ev_Type := EventWorkflowCompleted\<rparr>) sample_run sample_world = (err, ex', w1)"
    using prod_cases3 by blast
  have r: "cp_ID (ex_checkpoint sample_run) \<noteq> []" "ex_runID sample_run = ''r''" "ex_sequence sample_run = 0"
    "cp_RunID (ex_checkpoint sample_run) = ''r''"
    by (simp_all add: sample_run_def sample_head_def)
  have "err = None" using sample_ends by (simp add: c)
  then show ?thesis
    using terminal_event_committed_exactly_once [OF r(1) _ _ c [unfolded sample_services_def], of "[]"] r
    by (auto simp: c)
qed

definition sample_resume :: checkpointPrepareRequest where
  "sample_resume =
     \<lparr>pq_SessionID = ''s'', pq_RunID = ''r'', pq_OwnerID = ''o2'',
      pq_Resume = \<lparr>rq_RunID = ''r'', rq_CheckpointID = ''c'', rq_Resolutions = []\<rparr>, pq_IsResume = True,
      pq_State = zero_state, pq_Outputs = [], pq_NextStep = 1, pq_ControlOrigin = [],
      pq_SourceRevisionID = [], pq_Association = None\<rparr>"

text \<open>The owner died: its lease runs out at 100 and the clock starts at 200.\<close>

abbreviation late_services :: "world services" where
  "late_services \<equiv> memory_services (\<lambda>n. n + 200) (\<lambda>n. None) (\<lambda>p. Some 1) 50 []"

lemma sample_resumed:
  "\<exists>saved. fst (prepareResumeCheckpoint late_services None (late_plan\<lparr>co_topologyVersion := ''t''\<rparr>)
     sample_resume sample_world) = Inr saved"
  by (simp add: sample_run_defs prepareResumeCheckpoint_def sample_resume_def Load_def
     validateCheckpointRecordIdentity_def activeResumeCheckpoint_def validateCheckpointIdentity_def
     validateCheckpointSourceIdentity_def validateCheckpointInterruptProgress_def claimCheckpoint_def
     claim_payload_def validateResolvedInterruptReplay_def Claim_def)

theorem resume_keeps_announcement_witness:
  "case prepareResumeCheckpoint late_services None (late_plan\<lparr>co_topologyVersion := ''t''\<rparr>) sample_resume sample_world of
      (r, w1) \<Rightarrow> \<exists>saved. r = Inr saved \<and> record_shows saved None None 0"
proof -
  obtain saved w1 where p: "prepareResumeCheckpoint late_services None (late_plan\<lparr>co_topologyVersion := ''t''\<rparr>)
      sample_resume sample_world = (Inr saved, w1)"
    using sample_resumed by (metis prod.collapse)
  have "head_shows heads sample_world (rq_RunID (pq_Resume sample_resume)) None None 0"
    unfolding head_shows_def by (simp add: sample_resume_def sample_world_head)
      (simp add: sample_head_def world_meta_def new_meta_def make_payload_def)
  from resume_keeps_announcement [OF p this] p show ?thesis by simp
qed

end
