(* ===== verification/Guards.thy ===== *)
theory Guards
  imports Schedule
begin

text \<open>
  What happens inside one activation (\<open>guard.go\<close>, \<open>lifecycle.go\<close>, \<open>middleware.go\<close>): guards before the
  run and before the commit, lifecycle hooks around the body, node middlewares, and the resumption
  of an interrupted activation. User code is an argument: a callback gets the state of the
  world and returns, fails or panics; a panic leaves the activation and is caught at its boundary.
\<close>

section \<open>Guard decisions\<close>

text \<open>A value of the decision interface may be nil or of a foreign type.\<close>

datatype GuardDecision =
    GuardNil
  | GuardAllow
  | GuardRewriteInput govalue
  | GuardRewriteOutput govalue
  | GuardRetry govalue
  | GuardSkip
  | GuardSkipOutput govalue
  | GuardFail "goerr option"
  | GuardInterrupt InterruptRequest
  | GuardReject GuardRejection
  | GuardForeign string

record guardMetaContext =
  gm_runID :: string
  gm_workflowName :: string
  gm_activationID :: string
  gm_attempt :: int

record GuardMeta =
  gt_RunID :: string
  gt_WorkflowName :: string
  gt_NodeName :: string
  gt_ActivationID :: string
  gt_Attempt :: int

record GuardContext =
  gc_Phase :: GuardPhase
  gc_Input :: govalue
  gc_CandidateOutput :: govalue
  gc_Meta :: GuardMeta

record 's GuardBinding =
  gb_phase :: GuardPhase
  gb_name :: string
  gb_evaluator :: "(GuardContext \<Rightarrow> 's \<Rightarrow> GuardDecision callback \<times> 's) option"

text \<open>The result of applying guards, and of an attempt.\<close>

record guardResult =
  gg_input :: govalue
  gg_retryInput :: govalue
  gg_output :: govalue
  gg_skipBody :: bool
  gg_skipped :: bool
  gg_retry :: bool

definition guard_result :: "gotype \<Rightarrow> govalue \<Rightarrow> govalue \<Rightarrow> guardResult" where
  "guard_result inT input output =
     \<lparr>gg_input = input, gg_retryInput = zero_value inT, gg_output = output, gg_skipBody = False,
      gg_skipped = False, gg_retry = False\<rparr>"

record resumedInterrupt =
  ri_id :: string
  ri_payloadRef :: string
  ri_guardName :: string
  ri_phase :: GuardPhase
  ri_nodeName :: string
  ri_activationID :: string
  ri_childRunID :: string
  ri_childCheckpointID :: string
  ri_candidateOutput :: govalue
  ri_hasCandidateOutput :: bool

definition phase_string :: "GuardPhase \<Rightarrow> string" where
  "phase_string phase =
     (case phase of
        GuardBeforeRun \<Rightarrow> ''before_run''
      | GuardBeforeCommit \<Rightarrow> ''before_commit''
      | GuardPhaseOther s \<Rightarrow> s)"

section \<open>Applying a decision\<close>

definition rewriteInput :: "GuardPhase \<Rightarrow> govalue \<Rightarrow> guardResult \<Rightarrow> goerr option \<times> guardResult" where
  "rewriteInput phase input result =
     (if phase \<noteq> GuardBeforeRun
        then (Some (Msg ''workflow: guard rewrote input outside before_run''), result)
      else (None, result\<lparr>gg_input := input\<rparr>))"

definition rewriteOutput :: "GuardPhase \<Rightarrow> govalue \<Rightarrow> guardResult \<Rightarrow> goerr option \<times> guardResult" where
  "rewriteOutput phase out result =
     (if phase \<noteq> GuardBeforeCommit
        then (Some (Msg ''workflow: guard rewrote output outside before_commit''), result)
      else (None, result\<lparr>gg_output := out\<rparr>))"

definition skipOutput :: "govalue \<Rightarrow> guardResult \<Rightarrow> guardResult" where
  "skipOutput out result = result\<lparr>gg_output := out, gg_skipBody := True\<rparr>"

definition guard_skip :: "guardResult \<Rightarrow> guardResult" where
  "guard_skip result = result\<lparr>gg_skipBody := True, gg_skipped := True\<rparr>"

definition guard_retry :: "GuardPhase \<Rightarrow> govalue \<Rightarrow> guardResult \<Rightarrow> goerr option \<times> guardResult" where
  "guard_retry phase input result =
     (if phase \<noteq> GuardBeforeCommit
        then (Some (Msg ''workflow: guard retried outside before_commit''), result)
      else (None, result\<lparr>gg_retryInput := input, gg_retry := True\<rparr>))"

definition guard_fail :: "goerr option \<Rightarrow> goerr" where
  "guard_fail err = (case err of None \<Rightarrow> Msg ''workflow: guard failed'' | Some e \<Rightarrow> e)"

definition guard_reject :: "string \<Rightarrow> GuardPhase \<Rightarrow> GuardRejection \<Rightarrow> goerr" where
  "guard_reject name phase rejection =
     (let r1 = (if gr_GuardName rejection = [] then rejection\<lparr>gr_GuardName := name\<rparr> else rejection);
          r2 = (if gr_Phase r1 = [] then r1\<lparr>gr_Phase := phase_string phase\<rparr> else r1)
      in Rejected r2)"

definition guard_interrupt :: "string \<Rightarrow> GuardPhase \<Rightarrow> InterruptRequest \<Rightarrow> govalue \<Rightarrow> goerr" where
  "guard_interrupt name phase request out =
     (if ir_ID request = [] then Msg ''workflow: guard interrupt id is required''
      else Interrupted
        \<lparr>ie_Request = request, ie_Requests = [], ie_RunID = [], ie_CheckpointID = [],
         ie_GuardName = name, ie_Phase = phase, ie_candidateOutput = out,
         ie_hasCandidateOutput = (phase = GuardBeforeCommit)\<rparr>)"

text \<open>The error, whether the guards are done, and the result as the decision leaves it.\<close>

definition guard_apply ::
  "string \<Rightarrow> GuardPhase \<Rightarrow> GuardDecision \<Rightarrow> guardResult \<Rightarrow> goerr option \<times> bool \<times> guardResult" where
  "guard_apply name phase decision result =
     (case decision of
        GuardNil \<Rightarrow> (None, False, result)
      | GuardAllow \<Rightarrow> (None, False, result)
      | GuardRewriteInput v \<Rightarrow> (let (err, r) = rewriteInput phase v result in (err, False, r))
      | GuardRewriteOutput v \<Rightarrow> (let (err, r) = rewriteOutput phase v result in (err, False, r))
      | GuardSkipOutput v \<Rightarrow> (None, True, skipOutput v result)
      | GuardSkip \<Rightarrow> (None, True, guard_skip result)
      | GuardRetry v \<Rightarrow> (let (err, r) = guard_retry phase v result in (err, True, r))
      | GuardFail e \<Rightarrow> (Some (guard_fail e), True, result)
      | GuardReject r \<Rightarrow> (Some (guard_reject name phase r), True, result)
      | GuardInterrupt req \<Rightarrow> (Some (guard_interrupt name phase req (gg_output result)), True, result)
      | GuardForeign t \<Rightarrow> (Some (Msg ''workflow: unknown guard decision''), True, result))"

section \<open>Running the guards of a phase\<close>

text \<open>The values the context of an activation carries.\<close>

record nodeCtx =
  nx_meta :: "guardMetaContext option"
  nx_resumed :: "resumedInterrupt option"
  nx_childOptions :: bool

definition shouldRun :: "nodeCtx \<Rightarrow> GuardPhase \<Rightarrow> 's GuardBinding \<Rightarrow> bool" where
  "shouldRun ctx phase binding \<longleftrightarrow>
     gb_phase binding = phase \<and>
     (case nx_resumed ctx of
        None \<Rightarrow> True
      | Some r \<Rightarrow> ri_id r = [] \<or> ri_guardName r \<noteq> gb_name binding \<or> ri_phase r \<noteq> phase)"

definition guard_meta :: "nodeCtx \<Rightarrow> string \<Rightarrow> int \<Rightarrow> GuardMeta" where
  "guard_meta ctx nodeName attempt =
     (case nx_meta ctx of
        None \<Rightarrow> \<lparr>gt_RunID = [], gt_WorkflowName = [], gt_NodeName = nodeName, gt_ActivationID = [],
                 gt_Attempt = attempt\<rparr>
      | Some m \<Rightarrow> \<lparr>gt_RunID = gm_runID m, gt_WorkflowName = gm_workflowName m,
                 gt_NodeName = nodeName, gt_ActivationID = gm_activationID m, gt_Attempt = attempt\<rparr>)"

text \<open>A computation that returns an error and a result, or panics.\<close>

type_synonym 's attempt = "(goerr option \<times> guardResult) callback \<times> 's"

fun apply_guards ::
  "nodeCtx \<Rightarrow> string \<Rightarrow> int \<Rightarrow> GuardPhase \<Rightarrow> 's GuardBinding list \<Rightarrow> guardResult \<Rightarrow> 's \<Rightarrow> 's attempt" where
  "apply_guards ctx nodeName attempt phase [] result s = (Return (None, result), s)"
| "apply_guards ctx nodeName attempt phase (binding # bindings) result s =
     (if \<not> shouldRun ctx phase binding
        then apply_guards ctx nodeName attempt phase bindings result s
      else (case the (gb_evaluator binding)
               \<lparr>gc_Phase = phase, gc_Input = gg_input result, gc_CandidateOutput = gg_output result,
                gc_Meta = guard_meta ctx nodeName attempt\<rparr> s of
          (PanicsErr e, s1) \<Rightarrow> (PanicsErr e, s1)
        | (PanicsWith t, s1) \<Rightarrow> (PanicsWith t, s1)
        | (Fails e, s1) \<Rightarrow> (Return (Some e, result), s1)
        | (Return decision, s1) \<Rightarrow>
            (case guard_apply (gb_name binding) phase decision result of
               (Some e, stop, result1) \<Rightarrow> (Return (Some e, result1), s1)
             | (None, stop, result1) \<Rightarrow>
                 if stop then (Return (None, result1), s1)
                 else apply_guards ctx nodeName attempt phase bindings result1 s1)))"

section \<open>Lifecycle hooks\<close>

record ('c, 's) LifecycleHook =
  lh_Name :: string
  lh_Fn :: "('c \<Rightarrow> 's \<Rightarrow> 'c callback \<times> 's) option"

text \<open>\<open>emitRuntimeEvent\<close> of a type and a summary.\<close>

type_synonym 's emitter = "string \<Rightarrow> string \<Rightarrow> 's \<Rightarrow> goerr option \<times> 's"

definition hook_run ::
  "'s emitter \<Rightarrow> ('c, 's) LifecycleHook \<Rightarrow> 'c \<Rightarrow> 's \<Rightarrow> (goerr option \<times> 'c) \<times> 's" where
  "hook_run emit hook c s =
     (case emit EventLifecycleHookStarted (lh_Name hook) s of
        (Some err, s1) \<Rightarrow> ((Some err, c), s1)
      | (None, s1) \<Rightarrow>
          (let (result, s2) = the (lh_Fn hook) c s1 in
           case invokeCallback ''lifecycle hook'' (lh_Name hook) result of
             Inl err \<Rightarrow>
               (case emit EventLifecycleHookFailed (lh_Name hook) s2 of
                  (Some emitErr, s3) \<Rightarrow> ((Some emitErr, c), s3)
                | (None, s3) \<Rightarrow> ((Some err, c), s3))
           | Inr c1 \<Rightarrow>
               (let (err, s3) = emit EventLifecycleHookCompleted (lh_Name hook) s2 in ((err, c1), s3))))"

fun runLifecycleHooks ::
  "'s emitter \<Rightarrow> ('c, 's) LifecycleHook list \<Rightarrow> 'c \<Rightarrow> 's \<Rightarrow> (goerr option \<times> 'c) \<times> 's" where
  "runLifecycleHooks emit [] c s = ((None, c), s)"
| "runLifecycleHooks emit (hook # hooks) c s =
     (case hook_run emit hook c s of
        ((Some err, c1), s1) \<Rightarrow> ((Some err, c1), s1)
      | ((None, c1), s1) \<Rightarrow> runLifecycleHooks emit hooks c1 s1)"

fun hooks_valid :: "('c, 's) LifecycleHook list \<Rightarrow> string list \<Rightarrow> goerr option" where
  "hooks_valid [] seen = None"
| "hooks_valid (hook # hooks) seen =
     (if lh_Name hook = [] then Some (Msg ''workflow: hook has empty name'')
      else if lh_Fn hook = None then Some (Msg ''workflow: hook has nil function'')
      else if lh_Name hook \<in> set seen then Some (Msg ''workflow: duplicate hook'')
      else hooks_valid hooks (lh_Name hook # seen))"

definition validateLifecycleHooks :: "('c, 's) LifecycleHook list \<Rightarrow> goerr option" where
  "validateLifecycleHooks hooks = hooks_valid hooks []"

section \<open>Node middlewares\<close>

text \<open>
  What a middleware does: it returns the output it leaves in its context, fails, panics, or
  calls \<open>next\<close> with the input it leaves in its context and goes on with the answer (the error
  of \<open>next\<close> and the output in the context).
\<close>

datatype mwscript =
    MwReturn govalue
  | MwFail goerr
  | MwPanic string
  | MwNext govalue "goerr option \<times> govalue \<Rightarrow> mwscript"

record erasedNodeMiddleware =
  em_name :: string
  em_inputType :: gotype
  em_outputType :: gotype
  em_script :: "govalue \<Rightarrow> mwscript"

type_synonym 's invoker = "govalue \<Rightarrow> 's \<Rightarrow> govalue callback \<times> 's"

primrec run_script ::
  "gotype \<Rightarrow> 's invoker \<Rightarrow> mwscript \<Rightarrow> bool \<Rightarrow> govalue \<Rightarrow> 's \<Rightarrow> govalue callback \<times> 's" where
  "run_script outT invoke (MwReturn out) called current s =
     (if \<not> called then (Fails (Msg ''workflow: node middleware did not call next''), s)
      else (Return out, s))"
| "run_script outT invoke (MwFail e) called current s = (Fails e, s)"
| "run_script outT invoke (MwPanic t) called current s = (PanicsWith t, s)"
| "run_script outT invoke (MwNext input k) called current s =
     (if called
        then run_script outT invoke
          (k (Some (Msg ''workflow: node middleware called next more than once''), current)) True current s
      else (case invoke input s of
          (PanicsErr e, s1) \<Rightarrow> (PanicsErr e, s1)
        | (PanicsWith t, s1) \<Rightarrow> (PanicsWith t, s1)
        | (Fails e, s1) \<Rightarrow> run_script outT invoke (k (Some e, current)) True current s1
        | (Return out, s1) \<Rightarrow>
            if \<not> has_type out outT
              then run_script outT invoke
                (k (Some (Msg ''workflow: middleware output type mismatch''), current)) True current s1
            else run_script outT invoke (k (None, out)) True out s1))"

definition run_middleware ::
  "gotype \<Rightarrow> gotype \<Rightarrow> erasedNodeMiddleware \<Rightarrow> 's invoker \<Rightarrow> 's invoker" where
  "run_middleware inT outT mw invoke input s =
     (if inT \<noteq> em_inputType mw \<or> outT \<noteq> em_outputType mw then invoke input s
      else if \<not> has_type input (em_inputType mw)
        then (Fails (Msg ''workflow: middleware input type mismatch''), s)
      else run_script (em_outputType mw) invoke (em_script mw input) False
             (zero_value (em_outputType mw)) s)"

section \<open>The node\<close>

record 's nodeBody =
  nb_name :: string
  nb_inputType :: gotype
  nb_outputType :: gotype
  nb_guards :: "'s GuardBinding list"
  nb_before :: "(govalue \<times> govalue, 's) LifecycleHook list"
  nb_after :: "(govalue \<times> govalue, 's) LifecycleHook list"
  nb_run :: "('s invoker) option"
  nb_invokable :: bool
  nb_merge :: bool
  nb_join :: bool
  nb_joinTwice :: bool
  nb_routeTwice :: bool

fun guards_valid :: "'s GuardBinding list \<Rightarrow> (GuardPhase \<times> string) list \<Rightarrow> goerr option" where
  "guards_valid [] seen = None"
| "guards_valid (binding # bindings) seen =
     (if gb_name binding = [] then Some (Msg ''workflow: guard has empty name'')
      else if gb_evaluator binding = None then Some (Msg ''workflow: guard has nil evaluator'')
      else if (gb_phase binding, gb_name binding) \<in> set seen then Some (Msg ''workflow: duplicate guard'')
      else guards_valid bindings ((gb_phase binding, gb_name binding) # seen))"

definition validateGuards :: "'s nodeBody \<Rightarrow> goerr option" where
  "validateGuards n = guards_valid (nb_guards n) []"

definition validateLifecycle :: "'s nodeBody \<Rightarrow> goerr option" where
  "validateLifecycle n =
     (case validateLifecycleHooks (nb_before n) of
        Some e \<Rightarrow> Some e
      | None \<Rightarrow> validateLifecycleHooks (nb_after n))"

definition validateBindings :: "'s nodeBody \<Rightarrow> goerr option" where
  "validateBindings n =
     (if nb_name n = [] then Some (Msg ''workflow: node name is required'')
      else if nb_joinTwice n then Some (Msg ''workflow: node has multiple join bindings'')
      else if nb_routeTwice n then Some (Msg ''workflow: node has multiple route bindings'')
      else if nb_merge n \<and> nb_join n then Some (Msg ''workflow: merge node cannot bind join'')
      else if nb_run n = None then Some (Msg ''workflow: node run function is nil'')
      else None)"

text \<open>
  The innermost invoker remembers the input the body got (\<open>bodyInput\<close>), next to the state.
\<close>

definition base_invoker :: "'s nodeBody \<Rightarrow> ('s \<times> govalue) invoker" where
  "base_invoker n input st =
     (if \<not> has_type input (nb_inputType n) then (Fails (Msg ''input type mismatch''), st)
      else (let (result, s1) = the (nb_run n) input (fst st) in (result, (s1, input))))"

definition wrapped_invoker ::
  "'s nodeBody \<Rightarrow> erasedNodeMiddleware list \<Rightarrow> ('s \<times> govalue) invoker" where
  "wrapped_invoker n mws =
     foldr (\<lambda>mw invoke. run_middleware (nb_inputType n) (nb_outputType n) mw invoke) mws (base_invoker n)"

text \<open>The output (or the error), the input the body saw, and the state.\<close>

definition runBody ::
  "'s nodeBody \<Rightarrow> nodeCtx \<Rightarrow> erasedNodeMiddleware list \<Rightarrow> govalue \<Rightarrow> 's
   \<Rightarrow> (govalue callback \<times> govalue) \<times> 's" where
  "runBody n ctx mws input s =
     (if nb_invokable n \<and> \<not> nx_childOptions ctx
        then ((Fails (Msg ''workflow: child invocation options are unavailable''), input), s)
      else if mws = []
        then (let (result, s1) = the (nb_run n) input s in ((result, input), s1))
      else (let (result, s1, bodyInput) = wrapped_invoker n mws input (s, input) in
        case result of
          Return out \<Rightarrow>
            if \<not> has_type out (nb_outputType n)
              then ((Fails (Msg ''output type mismatch''), bodyInput), s1)
            else ((Return out, bodyInput), s1)
        | _ \<Rightarrow> ((result, bodyInput), s1)))"

text \<open>What the guards before the commit leave is the result of the attempt.\<close>

definition attempt_result :: "guardResult \<Rightarrow> guardResult" where
  "attempt_result r = r\<lparr>gg_skipBody := False\<rparr>"

definition commit_guards ::
  "'s nodeBody \<Rightarrow> nodeCtx \<Rightarrow> govalue \<Rightarrow> govalue \<Rightarrow> int \<Rightarrow> 's \<Rightarrow> 's attempt" where
  "commit_guards n ctx input out attempt s =
     (case apply_guards ctx (nb_name n) attempt GuardBeforeCommit (nb_guards n) (guard_result (nb_inputType n) input out) s of
        (Return (Some e, r), s1) \<Rightarrow> (Return (Some e, guard_result (nb_inputType n) (gg_input r) (gg_output r)), s1)
      | (Return (None, r), s1) \<Rightarrow> (Return (None, attempt_result r), s1)
      | (other, s1) \<Rightarrow> (other, s1))"

definition run_hooked_body ::
  "'s emitter \<Rightarrow> 's nodeBody \<Rightarrow> nodeCtx \<Rightarrow> erasedNodeMiddleware list \<Rightarrow> govalue \<Rightarrow> 's \<Rightarrow> 's attempt" where
  "run_hooked_body emit n ctx mws input s =
     (case runLifecycleHooks emit (nb_before n) (input, zero_value (nb_outputType n)) s of
        ((Some e, c), s1) \<Rightarrow>
          (Return (Some (Wrap ''workflow: before node'' [e]), guard_result (nb_inputType n) input (zero_value (nb_outputType n))), s1)
      | ((None, c), s1) \<Rightarrow>
          (case runBody n ctx mws (fst c) s1 of
             ((PanicsErr e, bodyInput), s2) \<Rightarrow> (PanicsErr e, s2)
           | ((PanicsWith t, bodyInput), s2) \<Rightarrow> (PanicsWith t, s2)
           | ((Fails e, bodyInput), s2) \<Rightarrow>
               (Return (Some e, guard_result (nb_inputType n) bodyInput (zero_value (nb_outputType n))), s2)
           | ((Return out, bodyInput), s2) \<Rightarrow>
               (case runLifecycleHooks emit (nb_after n) (bodyInput, out) s2 of
                  ((Some e, c2), s3) \<Rightarrow>
                    (Return (Some (Wrap ''workflow: after node'' [e]), guard_result (nb_inputType n) bodyInput out), s3)
                | ((None, c2), s3) \<Rightarrow> (Return (None, guard_result (nb_inputType n) bodyInput (snd c2)), s3))))"

definition fresh_attempt ::
  "'s emitter \<Rightarrow> 's nodeBody \<Rightarrow> nodeCtx \<Rightarrow> erasedNodeMiddleware list \<Rightarrow> govalue \<Rightarrow> int \<Rightarrow> 's \<Rightarrow> 's attempt" where
  "fresh_attempt emit n ctx mws input attempt s =
     (case apply_guards ctx (nb_name n) attempt GuardBeforeRun (nb_guards n)
             (guard_result (nb_inputType n) input (zero_value (nb_outputType n))) s of
        (PanicsErr e, s1) \<Rightarrow> (PanicsErr e, s1)
      | (PanicsWith t, s1) \<Rightarrow> (PanicsWith t, s1)
      | (Fails e, s1) \<Rightarrow> (Fails e, s1)
      | (Return (Some e, r), s1) \<Rightarrow>
          (Return (Some e, guard_result (nb_inputType n) (gg_input r) (zero_value (nb_outputType n))), s1)
      | (Return (None, r), s1) \<Rightarrow>
          if gg_skipped r
            then (Return (None, (guard_result (nb_inputType n) (gg_input r) (zero_value (nb_outputType n)))
                    \<lparr>gg_skipped := True\<rparr>), s1)
          else if gg_skipBody r then commit_guards n ctx (gg_input r) (gg_output r) attempt s1
          else (case run_hooked_body emit n ctx mws (gg_input r) s1 of
              (Return (None, r2), s2) \<Rightarrow> commit_guards n ctx (gg_input r2) (gg_output r2) attempt s2
            | (other, s2) \<Rightarrow> (other, s2)))"

definition runAttempt ::
  "'s emitter \<Rightarrow> 's nodeBody \<Rightarrow> nodeCtx \<Rightarrow> erasedNodeMiddleware list \<Rightarrow> govalue \<Rightarrow> int \<Rightarrow> 's \<Rightarrow> 's attempt" where
  "runAttempt emit n ctx mws input attempt s =
     (case nx_resumed ctx of
        Some r \<Rightarrow>
          if ri_phase r = GuardBeforeCommit \<and> ri_hasCandidateOutput r
          then (if \<not> has_type (ri_candidateOutput r) (nb_outputType n)
                  then (Return (Some (Msg ''workflow: resumed interrupt candidate output is not assignable''),
                    guard_result (nb_inputType n) input (zero_value (nb_outputType n))), s)
                else commit_guards n ctx input (ri_candidateOutput r) attempt s)
          else fresh_attempt emit n ctx mws input attempt s
      | None \<Rightarrow> fresh_attempt emit n ctx mws input attempt s)"

definition runGuardedResult ::
  "'s emitter \<Rightarrow> 's nodeBody \<Rightarrow> nodeCtx \<Rightarrow> erasedNodeMiddleware list \<Rightarrow> govalue \<Rightarrow> 's
   \<Rightarrow> (goerr option \<times> nodeRunResult) callback \<times> 's" where
  "runGuardedResult emit n ctx mws input s =
     (let attempt = (case nx_meta ctx of None \<Rightarrow> 1 | Some m \<Rightarrow> if gm_attempt m > 0 then gm_attempt m else 1) in
      case runAttempt emit n ctx mws input attempt s of
        (PanicsErr e, s1) \<Rightarrow> (PanicsErr e, s1)
      | (PanicsWith t, s1) \<Rightarrow> (PanicsWith t, s1)
      | (Fails e, s1) \<Rightarrow> (Fails e, s1)
      | (Return (Some e, r), s1) \<Rightarrow>
          (Return (Some e, zero_result\<lparr>nr_input := gg_input r, nr_hasInput := True, nr_output := gg_output r\<rparr>), s1)
      | (Return (None, r), s1) \<Rightarrow>
          if gg_retry r \<and> gg_skipped r
            then (Return (Some (Msg ''workflow: skipped guard cannot retry''), zero_result), s1)
          else (Return (None, zero_result\<lparr>nr_input := gg_input r, nr_hasInput := True,
                  nr_output := gg_output r, nr_skipped := gg_skipped r, nr_retry := gg_retry r,
                  nr_retryInput := gg_retryInput r\<rparr>), s1))"

definition runAny ::
  "'s emitter \<Rightarrow> 's nodeBody \<Rightarrow> nodeCtx \<Rightarrow> erasedNodeMiddleware list \<Rightarrow> govalue \<Rightarrow> 's
   \<Rightarrow> (goerr option \<times> nodeRunResult) callback \<times> 's" where
  "runAny emit n ctx mws input s =
     (if \<not> has_type input (nb_inputType n)
        then (Return (Some (Msg ''input type mismatch''), zero_result), s)
      else runGuardedResult emit n ctx mws input s)"

section \<open>The business context of an attempt\<close>

text \<open>
  \<open>workflowContextTxn\<close>: a snapshot that the attempt may replace; the replacement is handed to the
  scheduler with the revision it is based on. Handles are the numbers of their keys.
\<close>

record workflowContextTxn =
  tx_key :: nat
  tx_value :: govalue
  tx_revision :: int
  tx_changed :: bool

definition context_txn :: "nat option \<Rightarrow> workflowContextTxn option \<Rightarrow> goerr + workflowContextTxn" where
  "context_txn handle txn =
     (case handle of
        None \<Rightarrow> Inl (Msg ''workflow: context handle is nil'')
      | Some key \<Rightarrow>
          (case txn of
             None \<Rightarrow> Inl (Msg ''workflow: context is unavailable'')
           | Some t \<Rightarrow> if tx_key t \<noteq> key then Inl (Msg ''workflow: context is unavailable'') else Inr t))"

definition context_Get :: "gotype \<Rightarrow> nat option \<Rightarrow> workflowContextTxn option \<Rightarrow> goerr + govalue" where
  "context_Get t handle txn =
     andthen (context_txn handle txn) (\<lambda>x.
       if has_type (tx_value x) t then Inr (tx_value x)
       else Inl (Msg ''workflow: context value type does not match''))"

definition context_Set ::
  "nat option \<Rightarrow> govalue \<Rightarrow> workflowContextTxn option \<Rightarrow> goerr option \<times> workflowContextTxn option" where
  "context_Set handle v txn =
     (case context_txn handle txn of
        Inl e \<Rightarrow> (Some e, txn)
      | Inr x \<Rightarrow> (None, Some (x\<lparr>tx_value := v, tx_changed := True\<rparr>)))"

text \<open>
  \<open>runActivation\<close>: a panic anywhere in the activation becomes its error, with no result; the
  transaction of a successful attempt is attached to its result.
\<close>

definition runActivation ::
  "'s emitter \<Rightarrow> 's nodeBody \<Rightarrow> nodeCtx \<Rightarrow> erasedNodeMiddleware list \<Rightarrow> activation
   \<Rightarrow> ('s \<Rightarrow> workflowContextTxn option) \<Rightarrow> 's \<Rightarrow> (goerr option \<times> nodeRunResult) \<times> 's" where
  "runActivation emit n ctx mws item txn_of s =
     (case runAny emit n ctx mws (ac_input item) s of
        (PanicsErr e, s1) \<Rightarrow> ((Some (callbackPanicError ''node'' (ac_node item) (Inl e)), zero_result), s1)
      | (PanicsWith t, s1) \<Rightarrow> ((Some (callbackPanicError ''node'' (ac_node item) (Inr t)), zero_result), s1)
      | (Fails e, s1) \<Rightarrow> ((Some e, zero_result), s1)
      | (Return (Some e, r), s1) \<Rightarrow> ((Some e, r), s1)
      | (Return (None, r), s1) \<Rightarrow>
          (case txn_of s1 of
             None \<Rightarrow> ((None, r), s1)
           | Some x \<Rightarrow>
               if tx_changed x
                 then ((None, r\<lparr>nr_contextValue := tx_value x, nr_contextChanged := True,
                                 nr_contextBaseRevision := tx_revision x\<rparr>), s1)
               else ((None, r), s1)))"

section \<open>How often the body runs\<close>

text \<open>
  An invoker that runs the body of the node at most once: either it touched nothing, or the body
  ran exactly once, on the input that is remembered.
\<close>

definition body_once :: "'s nodeBody \<Rightarrow> 's \<Rightarrow> govalue \<Rightarrow> 's \<times> govalue \<Rightarrow> bool" where
  "body_once n s b st \<longleftrightarrow> st = (s, b) \<or> snd (the (nb_run n) (snd st) s) = fst st"

definition runs_once :: "'s nodeBody \<Rightarrow> ('s \<times> govalue) invoker \<Rightarrow> bool" where
  "runs_once n invoke \<longleftrightarrow> (\<forall>x s b. body_once n s b (snd (invoke x (s, b))))"

lemma run_script_called [simp]: "snd (run_script outT invoke sc True current s) = s"
  by (induction sc arbitrary: current s) simp_all

lemma run_script_once:
  assumes "runs_once n invoke"
  shows "body_once n s b (snd (run_script outT invoke sc False current (s, b)))"
proof (cases sc)
  case (MwNext input k)
  obtain r1 st1 where i: "invoke input (s, b) = (r1, st1)" by (metis surj_pair)
  have "body_once n s b st1" using assms i unfolding runs_once_def by (metis snd_conv)
  moreover have "snd (run_script outT invoke sc False current (s, b)) = st1"
    by (cases r1) (simp_all add: MwNext i)
  ultimately show ?thesis by simp
qed (simp_all add: body_once_def)

lemma run_middleware_once: "runs_once n invoke \<Longrightarrow> runs_once n (run_middleware inT outT mw invoke)"
  unfolding runs_once_def run_middleware_def
  using run_script_once [unfolded runs_once_def, of n invoke] by (simp add: body_once_def)

lemma base_invoker_once: "runs_once n (base_invoker n)"
  by (auto simp: runs_once_def body_once_def base_invoker_def case_prod_beta Let_def)

lemma wrapped_invoker_once: "runs_once n (wrapped_invoker n mws)"
  unfolding wrapped_invoker_def
  by (induction mws) (simp_all add: base_invoker_once run_middleware_once)


section \<open>Types of what an attempt returns\<close>

text \<open>A value of static type \<open>t\<close>: an interface variable may also hold nil.\<close>

definition fits :: "gotype \<Rightarrow> govalue \<Rightarrow> bool" where
  "fits t v \<longleftrightarrow> has_type v t \<or> is_interface t \<and> v = VNil"

lemma has_type_zero: "\<not> is_interface t \<Longrightarrow> has_type (zero_value t) t"
  by (simp add: zero_value_def has_type_def type_Inputs_def)

lemma fits_zero [simp]: "fits t (zero_value t)"
  by (cases "is_interface t") (simp_all add: fits_def has_type_zero, simp add: zero_value_def)

lemma has_type_fits: "has_type v t \<Longrightarrow> fits t v"
  by (simp add: fits_def)

text \<open>
  Go's static typing of the callbacks of a \<open>Node[I, O]\<close>: decisions carry an input of type I or an
  output of type O, the body returns an O, and a hook leaves an O where it found one.
\<close>

fun decision_typed :: "gotype \<Rightarrow> gotype \<Rightarrow> GuardDecision \<Rightarrow> bool" where
  "decision_typed inT outT (GuardRewriteInput v) = fits inT v"
| "decision_typed inT outT (GuardRetry v) = fits inT v"
| "decision_typed inT outT (GuardRewriteOutput v) = fits outT v"
| "decision_typed inT outT (GuardSkipOutput v) = fits outT v"
| "decision_typed inT outT d = True"

definition hook_keeps :: "gotype \<Rightarrow> ('a \<times> govalue, 's) LifecycleHook \<Rightarrow> bool" where
  "hook_keeps t h \<longleftrightarrow> (\<forall>c s c' s'. the (lh_Fn h) c s = (Return c', s') \<and> fits t (snd c) \<longrightarrow> fits t (snd c'))"

definition node_typed :: "'s nodeBody \<Rightarrow> bool" where
  "node_typed n \<longleftrightarrow>
     (\<forall>g \<in> set (nb_guards n). \<forall>c s d s'. the (gb_evaluator g) c s = (Return d, s') \<longrightarrow>
        decision_typed (nb_inputType n) (nb_outputType n) d) \<and>
     (\<forall>x s out s'. the (nb_run n) x s = (Return out, s') \<longrightarrow> fits (nb_outputType n) out) \<and>
     (\<forall>h \<in> set (nb_after n). hook_keeps (nb_outputType n) h)"

definition result_typed :: "'s nodeBody \<Rightarrow> guardResult \<Rightarrow> bool" where
  "result_typed n r \<longleftrightarrow>
     fits (nb_outputType n) (gg_output r) \<and> fits (nb_inputType n) (gg_retryInput r) \<and>
     \<not> (gg_retry r \<and> gg_skipped r)"

lemma guard_result_typed [simp]:
  "result_typed n (guard_result (nb_inputType n) input out) = fits (nb_outputType n) out"
  by (simp add: result_typed_def guard_result_def)

lemma result_typed_skipBody [simp]: "result_typed n (r\<lparr>gg_skipBody := b\<rparr>) = result_typed n r"
  by (simp add: result_typed_def)

lemma guard_apply_typed:
  assumes "decision_typed (nb_inputType n) (nb_outputType n) d" "result_typed n r"
    "\<not> gg_retry r" "\<not> gg_skipped r" "guard_apply name phase d r = (None, stop, r')"
  shows "result_typed n r'" "\<not> stop \<Longrightarrow> \<not> gg_retry r' \<and> \<not> gg_skipped r'"
  using assms
  by (cases d; auto simp: guard_apply_def rewriteInput_def rewriteOutput_def skipOutput_def
      guard_skip_def guard_retry_def result_typed_def Let_def split: if_splits)+

lemma apply_guards_typed:
  assumes "apply_guards ctx name attempt phase bindings r s = (Return (None, r'), s')"
    "\<forall>g \<in> set bindings. \<forall>c s d s'. the (gb_evaluator g) c s = (Return d, s') \<longrightarrow>
        decision_typed (nb_inputType n) (nb_outputType n) d"
    "result_typed n r" "\<not> gg_retry r" "\<not> gg_skipped r"
  shows "result_typed n r'"
  using assms
proof (induction bindings arbitrary: r s)
  case (Cons g gs)
  let ?c = "\<lparr>gc_Phase = phase, gc_Input = gg_input r, gc_CandidateOutput = gg_output r,
    gc_Meta = guard_meta ctx name attempt\<rparr>"
  show ?case
  proof (cases "shouldRun ctx phase g")
    case False
    with Cons show ?thesis by simp
  next
    case True
    obtain o1 s1 where e: "the (gb_evaluator g) ?c s = (o1, s1)" by (metis surj_pair)
    show ?thesis
    proof (cases o1)
      case (Return d)
      obtain err stop r1 where a: "guard_apply (gb_name g) phase d r = (err, stop, r1)"
        using prod_cases3 by blast
      from Cons.prems(2) e Return have d: "decision_typed (nb_inputType n) (nb_outputType n) d"
        by (metis list.set_intros(1))
      from Cons.prems(1) True e Return a have none: "err = None"
        by (auto split: option.splits)
      note t = guard_apply_typed [OF d Cons.prems(3-5) a [unfolded none]]
      show ?thesis
      proof (cases stop)
        case True
        with Cons.prems(1) \<open>shouldRun ctx phase g\<close> e Return a none t(1) show ?thesis by simp
      next
        case False
        with Cons.prems(1) \<open>shouldRun ctx phase g\<close> e Return a none
        have "apply_guards ctx name attempt phase gs r1 s1 = (Return (None, r'), s')" by simp
        from Cons.IH [OF this _ t(1)] t(2) [OF False] Cons.prems(2) show ?thesis by simp
      qed
    qed (use Cons.prems(1) True e in simp_all)
  qed
qed simp

lemma commit_guards_typed:
  assumes "commit_guards n ctx input out attempt s = (Return (None, r), s')" "node_typed n"
    "fits (nb_outputType n) out"
  shows "result_typed n r"
proof -
  from assms(1) obtain r0 where a: "apply_guards ctx (nb_name n) attempt GuardBeforeCommit (nb_guards n)
      (guard_result (nb_inputType n) input out) s = (Return (None, r0), s')" "r = attempt_result r0"
    by (auto simp: commit_guards_def split: prod.splits callback.splits option.splits)
  have "result_typed n r0"
    by (rule apply_guards_typed [OF a(1)])
       (use assms(2,3) in \<open>auto simp: node_typed_def guard_result_def\<close>, simp add: result_typed_def)
  then show ?thesis by (simp add: a(2) attempt_result_def)
qed

lemma hooks_typed:
  assumes "runLifecycleHooks emit hooks c s = ((None, c'), s')"
    "\<forall>h \<in> set hooks. hook_keeps t h"
    "fits t (snd c)"
  shows "fits t (snd c')"
  using assms
proof (induction hooks arbitrary: c s)
  case (Cons h hs)
  from Cons.prems(1) obtain c1 s1 where h: "hook_run emit h c s = ((None, c1), s1)"
    "runLifecycleHooks emit hs c1 s1 = ((None, c'), s')"
    by (auto split: prod.splits option.splits)
  from h(1) obtain s2 s3 where "the (lh_Fn h) c s2 = (Return c1, s3)"
    by (auto simp: hook_run_def Let_def split: prod.splits option.splits sum.splits)
  moreover have "hook_keeps t h" using Cons.prems(2) by simp
  ultimately have "fits t (snd c1)" using Cons.prems(3) unfolding hook_keeps_def by blast
  with Cons.IH [OF h(2)] Cons.prems(2) show ?case by simp
qed simp

lemma runBody_typed:
  assumes "runBody n ctx mws input s = ((Return out, b), s')" "node_typed n"
  shows "fits (nb_outputType n) out"
proof (cases "mws = []")
  case True
  with assms(1) obtain s0 where "the (nb_run n) input s0 = (Return out, s')"
    by (auto simp: runBody_def Let_def split: prod.splits if_splits)
  with assms(2) show ?thesis unfolding node_typed_def by blast
next
  case False
  with assms(1) show ?thesis
    by (auto simp: runBody_def Let_def intro: has_type_fits split: prod.splits callback.splits if_splits)
qed

lemma run_hooked_body_typed:
  assumes "run_hooked_body emit n ctx mws input s = (Return (None, r), s')" "node_typed n"
  shows "fits (nb_outputType n) (gg_output r)"
proof -
  from assms(1) obtain c s1 out b s2 c2 where
    "runBody n ctx mws (fst c) s1 = ((Return out, b), s2)"
    and h: "runLifecycleHooks emit (nb_after n) (b, out) s2 = ((None, c2), s')"
    and r: "r = guard_result (nb_inputType n) b (snd c2)"
    by (auto simp: run_hooked_body_def split: prod.splits callback.splits option.splits)
  then have "fits (nb_outputType n) out" by (intro runBody_typed [OF _ assms(2)])
  then have "fits (nb_outputType n) (snd c2)"
    using hooks_typed [OF h, of "nb_outputType n"] assms(2) by (simp add: node_typed_def)
  then show ?thesis by (simp add: r guard_result_def)
qed

lemma fresh_attempt_typed:
  assumes "fresh_attempt emit n ctx mws input attempt s = (Return (None, r), s')" "node_typed n"
  shows "result_typed n r"
proof -
  obtain o1 s1 where g0: "apply_guards ctx (nb_name n) attempt GuardBeforeRun (nb_guards n)
      (guard_result (nb_inputType n) input (zero_value (nb_outputType n))) s = (o1, s1)" by (metis surj_pair)
  have "\<exists>r0. o1 = Return (None, r0)"
    using assms(1) by (auto simp: fresh_attempt_def g0 split: callback.splits option.splits)
  then obtain r0 where r0: "o1 = Return (None, r0)" by blast
  note g = g0 [unfolded r0]
  have rest: "(if gg_skipped r0
            then (Return (None, (guard_result (nb_inputType n) (gg_input r0) (zero_value (nb_outputType n)))
                    \<lparr>gg_skipped := True\<rparr>), s1)
          else if gg_skipBody r0 then commit_guards n ctx (gg_input r0) (gg_output r0) attempt s1
          else (case run_hooked_body emit n ctx mws (gg_input r0) s1 of
              (Return (None, r2), s2) \<Rightarrow> commit_guards n ctx (gg_input r2) (gg_output r2) attempt s2
            | (other, s2) \<Rightarrow> (other, s2))) = (Return (None, r), s')"
    using assms(1) by (simp add: fresh_attempt_def g)
  have t: "result_typed n r0"
    by (rule apply_guards_typed [OF g])
       (use assms(2) in \<open>auto simp: node_typed_def guard_result_def\<close>, simp add: result_typed_def)
  then have out: "fits (nb_outputType n) (gg_output r0)" by (simp add: result_typed_def)
  consider "gg_skipped r0" | "\<not> gg_skipped r0" "gg_skipBody r0" | "\<not> gg_skipped r0" "\<not> gg_skipBody r0" by blast
  then show ?thesis
  proof cases
    case 1
    with rest show ?thesis by (auto simp: result_typed_def guard_result_def)
  next
    case 2
    with rest show ?thesis using commit_guards_typed [OF _ assms(2) out] by auto
  next
    case 3
    with rest obtain r2 s2 where "run_hooked_body emit n ctx mws (gg_input r0) s1 = (Return (None, r2), s2)"
      "commit_guards n ctx (gg_input r2) (gg_output r2) attempt s2 = (Return (None, r), s')"
      by (auto split: prod.splits callback.splits option.splits)
    with run_hooked_body_typed [OF this(1) assms(2)] show ?thesis
      using commit_guards_typed [OF _ assms(2)] by blast
  qed
qed

lemma runAttempt_typed:
  assumes "runAttempt emit n ctx mws input attempt s = (Return (None, r), s')" "node_typed n"
  shows "result_typed n r"
  using assms fresh_attempt_typed commit_guards_typed [OF _ assms(2) has_type_fits]
  by (auto simp: runAttempt_def split: option.splits if_splits)

text \<open>
  C9 (typed results). When the callbacks of a node respect their static types, a successful
  activation yields an output of the node's output type and, for a retry, an input of its input type,
  and it is never both skipped and retried: the reserved error \<open>skipped guard cannot retry\<close> does
  not occur.
\<close>

theorem activation_result_typed:
  assumes "node_typed n" "runAny emit n ctx mws input s = (Return (None, r), s')"
  shows "fits (nb_outputType n) (nr_output r) \<and> fits (nb_inputType n) (nr_retryInput r) \<and>
    nr_hasInput r \<and> \<not> (nr_retry r \<and> nr_skipped r)"
proof -
  from assms(2) obtain attempt r0 where
    a: "runAttempt emit n ctx mws input attempt s = (Return (None, r0), s')"
    and r: "r = zero_result\<lparr>nr_input := gg_input r0, nr_hasInput := True,
      nr_output := gg_output r0, nr_skipped := gg_skipped r0, nr_retry := gg_retry r0,
      nr_retryInput := gg_retryInput r0\<rparr>"
    by (auto simp: runAny_def runGuardedResult_def Let_def
        split: if_splits prod.splits callback.splits option.splits)
  from runAttempt_typed [OF a assms(1)] show ?thesis by (simp add: r result_typed_def)
qed

definition type_int :: gotype where "type_int = TConcrete ''int'' []"

text \<open>A node that echoes its input under a guard that retries the input 1 as 2.\<close>

definition echo_node :: "unit nodeBody" where
  "echo_node =
     \<lparr>nb_name = ''echo'', nb_inputType = type_int, nb_outputType = type_int,
      nb_guards = [\<lparr>gb_phase = GuardBeforeCommit, gb_name = ''check'',
        gb_evaluator = Some (\<lambda>c s. (Return (if gc_CandidateOutput c = VData type_int ''1''
          then GuardRetry (VData type_int ''2'') else GuardAllow), s))\<rparr>],
      nb_before = [], nb_after = [], nb_run = Some (\<lambda>x s. (Return (VData type_int (case x of VData t d \<Rightarrow> d | _ \<Rightarrow> [])), s)),
      nb_invokable = False, nb_merge = False, nb_join = False, nb_joinTwice = False, nb_routeTwice = False\<rparr>"

definition plain_ctx :: nodeCtx where
  "plain_ctx = \<lparr>nx_meta = None, nx_resumed = None, nx_childOptions = True\<rparr>"

definition echo_retry :: nodeRunResult where
  "echo_retry = zero_result\<lparr>nr_input := VData type_int ''1'', nr_hasInput := True,
     nr_output := VData type_int ''1'', nr_retry := True, nr_retryInput := VData type_int ''2''\<rparr>"

lemmas echo_defs = runAny_def runGuardedResult_def runAttempt_def fresh_attempt_def
  run_hooked_body_def runBody_def commit_guards_def attempt_result_def guard_result_def shouldRun_def
  guard_apply_def guard_retry_def guard_reject_def guard_interrupt_def echo_node_def plain_ctx_def
  type_int_def has_type_def zero_value_def type_Inputs_def Let_def

lemma echo_typed: "node_typed echo_node"
  by (auto simp: node_typed_def echo_node_def fits_def has_type_def split: if_splits)

lemma echo_retries:
  "runAny (\<lambda>ty summary s. (None, s)) echo_node plain_ctx [] (VData type_int ''1'') () = (Return (None, echo_retry), ())"
  by (simp add: echo_defs echo_retry_def zero_result_def)

theorem activation_result_typed_witness:
  "fits type_int (nr_output echo_retry) \<and> nr_retry echo_retry \<and> fits type_int (nr_retryInput echo_retry) \<and>
   \<not> nr_skipped echo_retry"
  using activation_result_typed [OF echo_typed echo_retries]
  by (simp add: echo_node_def echo_retry_def)

section \<open>Resuming an activation\<close>

lemma apply_guards_filter:
  "apply_guards ctx name attempt phase (filter (shouldRun ctx phase) bindings) r s =
   apply_guards ctx name attempt phase bindings r s"
  by (induction bindings arbitrary: r s)
     (auto split: prod.splits callback.splits option.splits)

text \<open>
  C8 (a resumed activation repeats nothing). When an activation is resumed from an interrupt
  that a guard raised before the commit, the attempt is determined by the recorded candidate output and
  the other guards of that phase: neither the body, nor hooks, nor middlewares, nor the guards
  before the run, nor the guard that interrupted take part again.
\<close>

theorem resumed_attempt_repeats_nothing:
  assumes "nx_resumed ctx = Some r" "ri_phase r = GuardBeforeCommit" "ri_hasCandidateOutput r" "ri_id r \<noteq> []"
  shows "runAttempt emit n ctx mws input attempt s =
    runAttempt emit' (n\<lparr>nb_run := None, nb_before := [], nb_after := [],
      nb_guards := filter (\<lambda>g. gb_phase g = GuardBeforeCommit \<and> gb_name g \<noteq> ri_guardName r) (nb_guards n)\<rparr>)
      ctx [] input attempt s"
proof -
  have "shouldRun ctx GuardBeforeCommit g \<longleftrightarrow> gb_phase g = GuardBeforeCommit \<and> gb_name g \<noteq> ri_guardName r"
    for g :: "'a GuardBinding"
    using assms by (auto simp: shouldRun_def)
  then have "filter (\<lambda>g. gb_phase g = GuardBeforeCommit \<and> gb_name g \<noteq> ri_guardName r) (nb_guards n) =
      filter (shouldRun ctx GuardBeforeCommit) (nb_guards n)"
    by (intro filter_cong) simp_all
  then show ?thesis
    using assms by (simp add: runAttempt_def commit_guards_def apply_guards_filter
        split: prod.split callback.split option.split)
qed

definition check_resumed :: nodeCtx where
  "check_resumed = plain_ctx\<lparr>nx_resumed := Some
     \<lparr>ri_id = ''i'', ri_payloadRef = [], ri_guardName = ''check'', ri_phase = GuardBeforeCommit,
      ri_nodeName = ''echo'', ri_activationID = ''act-1'', ri_childRunID = [], ri_childCheckpointID = [],
      ri_candidateOutput = VData type_int ''1'', ri_hasCandidateOutput = True\<rparr>\<rparr>"

theorem resumed_attempt_repeats_nothing_witness:
  "runAttempt (\<lambda>ty summary s. (None, s)) echo_node check_resumed [] VNil 1 () =
   (Return (None, guard_result type_int VNil (VData type_int ''1'')), ())"
proof -
  have "runAttempt (\<lambda>ty summary s. (None, s)) echo_node check_resumed [] VNil 1 () =
    runAttempt (\<lambda>ty summary s. (None, s)) (echo_node\<lparr>nb_run := None, nb_before := [], nb_after := [],
      nb_guards := filter (\<lambda>g. gb_phase g = GuardBeforeCommit \<and> gb_name g \<noteq> ''check'') (nb_guards echo_node)\<rparr>)
      check_resumed [] VNil 1 ()"
    by (rule resumed_attempt_repeats_nothing [where r = "the (nx_resumed check_resumed)", simplified
          check_resumed_def plain_ctx_def, simplified, folded check_resumed_def])
       (simp_all add: check_resumed_def plain_ctx_def)
  then show ?thesis
    by (simp add: echo_defs check_resumed_def)
qed

end
