(* ===== verification/Settlement.thy ===== *)
theory Settlement
  imports Journal Guards
begin

text \<open>
  Carrying out what a source set decides (\<open>settle.go\<close>) and pulling from iterators
  (\<open>iter_source.go\<close>): branches that lost are cancelled or superseded, selected ones are routed and their
  outputs collected, each with its event; an iterator yields one activation at a time and
  closes or fails its source set.
\<close>

section \<open>The run around the state\<close>

text \<open>
  What a run uses besides its execution: the services, the orders in which its maps are ranged
  over, its input, the hooks after the workflow, and the consumer of its outputs (None without one),
  which may stop the run at some output.
\<close>

record 'w runtime =
  rt_services :: "'w services"
  rt_ord :: "string order"
  rt_bucketOrd :: "joinBucketKey order"
  rt_input :: govalue
  rt_afterWorkflow :: "(govalue \<times> govalue, execution \<times> 'w) LifecycleHook list"
  rt_outputSink :: "(int \<Rightarrow> govalue \<Rightarrow> bool) option"

definition with_state :: "runState \<Rightarrow> execution \<Rightarrow> execution" where
  "with_state s ex = ex\<lparr>ex_state := s\<rparr>"

definition run_emitter :: "'w runtime \<Rightarrow> (execution \<times> 'w) emitter" where
  "run_emitter rt eventType summary xw =
     (let (err, ex, w) = emit_event (rt_services rt)
            (zero_Event\<lparr>ev_Type := eventType, ev_Summary := summary\<rparr>) (fst xw) (snd xw)
      in (err, (ex, w)))"

text \<open>Committing an event whose failure ends the run as it is.\<close>

definition commit_preserved ::
  "'w runtime \<Rightarrow> Event \<Rightarrow> int \<Rightarrow> execution \<Rightarrow> 'w \<Rightarrow> 'w outcome" where
  "commit_preserved rt event nextStep ex w =
     (case commitRunningEvent (rt_services rt) event nextStep ex w of
        (err, ex1, w1) \<Rightarrow> (preserveExecutionError err, ex1, w1))"

definition commit_node_event ::
  "'w runtime \<Rightarrow> string \<Rightarrow> string \<Rightarrow> branchPhase \<Rightarrow> int \<Rightarrow> execution \<Rightarrow> 'w \<Rightarrow> 'w outcome" where
  "commit_node_event rt aid eventType branch nextStep ex w =
     (case nodeEvent aid eventType branch (ex_state ex) of
        Inl e \<Rightarrow> (Some e, ex, w)
      | Inr event \<Rightarrow> commit_preserved rt event nextStep ex w)"

section \<open>Events leave the scheduler state alone\<close>

lemma recordSinkFailure_state [simp]:
  "ex_state (recordSinkFailure e ex) = ex_state ex" "ex_step (recordSinkFailure e ex) = ex_step ex"
  "ex_compiled (recordSinkFailure e ex) = ex_compiled ex" "ex_outputs (recordSinkFailure e ex) = ex_outputs ex"
  by (simp_all add: recordSinkFailure_def cancel_run_def)

lemma cancel_run_state [simp]:
  "ex_state (cancel_run e ex) = ex_state ex" "ex_step (cancel_run e ex) = ex_step ex"
  "ex_compiled (cancel_run e ex) = ex_compiled ex" "ex_outputs (cancel_run e ex) = ex_outputs ex"
  by (simp_all add: cancel_run_def)

text \<open>What every step of an event leaves alone.\<close>

definition same_plan :: "execution \<Rightarrow> execution \<Rightarrow> bool" where
  "same_plan a b \<longleftrightarrow> ex_state b = ex_state a \<and> ex_step b = ex_step a \<and>
     ex_compiled b = ex_compiled a \<and> ex_outputs b = ex_outputs a"

lemma observe_plan: "observe sv e ex w = (err, ex', w') \<Longrightarrow> same_plan ex ex'"
  by (auto simp: observe_def same_plan_def split: prod.splits option.splits)

lemma appendFenced_plan:
  "appendFencedEventWithObserver sv ctx e ex w = (err, ex', w') \<Longrightarrow> same_plan ex ex'"
  by (auto simp: appendFencedEventWithObserver_def Let_def same_plan_def
      split: prod.splits option.splits if_splits dest: observe_plan [unfolded same_plan_def])

lemma emitLockedWithContexts_plan:
  "emitLockedWithContexts sv ctx e ex w = (err, ex', w') \<Longrightarrow> same_plan ex ex'"
  by (auto simp: emitLockedWithContexts_def Let_def same_plan_def
      split: prod.splits option.splits if_splits
      dest: observe_plan [unfolded same_plan_def] appendFenced_plan [unfolded same_plan_def])

lemma commitRunningEvent_plan:
  "commitRunningEvent sv e n ex w = (err, ex', w') \<Longrightarrow> same_plan ex ex'"
  by (auto simp: commitRunningEvent_def emitLocked_def Let_def same_plan_def
      split: prod.splits option.splits if_splits sum.splits
      dest!: emitLockedWithContexts_plan [unfolded same_plan_def])

lemma commit_preserved_plan:
  "commit_preserved rt e n ex w = (err, ex', w') \<Longrightarrow> same_plan ex ex'"
  by (auto simp: commit_preserved_def split: prod.splits dest: commitRunningEvent_plan)

lemma commit_node_event_plan:
  "commit_node_event rt aid ty b n ex w = (err, ex', w') \<Longrightarrow> same_plan ex ex'"
  by (auto simp: commit_node_event_def same_plan_def split: sum.splits
      dest: commit_preserved_plan [unfolded same_plan_def])

section \<open>Closing iterators\<close>

definition update_set :: "string \<Rightarrow> (sourceSet \<Rightarrow> sourceSet) \<Rightarrow> runState \<Rightarrow> runState" where
  "update_set sid f state =
     (case fmlookup (rs_sourceSets state) sid of
        None \<Rightarrow> state
      | Some sset \<Rightarrow> state\<lparr>rs_sourceSets := fmupd sid (f sset) (rs_sourceSets state)\<rparr>)"

definition update_iter :: "string \<Rightarrow> (iterSource \<Rightarrow> iterSource) \<Rightarrow> runState \<Rightarrow> runState" where
  "update_iter iid f state =
     (case fmlookup (rs_iterSources state) iid of
        None \<Rightarrow> state
      | Some source \<Rightarrow> state\<lparr>rs_iterSources := fmupd iid (f source) (rs_iterSources state)\<rparr>)"

text \<open>Stopping a live iterator runs the consumer's cleanup, whose panic is swallowed.\<close>

definition stopIterSource :: "iterSource \<Rightarrow> runState \<Rightarrow> runState" where
  "stopIterSource source state =
     (if \<not> is_open source then state
      else (let s1 = update_iter (is_id source) (\<lambda>i. i\<lparr>is_open := False\<rparr>) state
            in s1\<lparr>rs_liveIters := fmdrop (is_id source) (rs_liveIters s1)\<rparr>))"

definition closeIterSources :: "string \<Rightarrow> runState \<Rightarrow> runState" where
  "closeIterSources sid state =
     (let mine = (\<lambda>i. is_sourceSet i = sid);
          closed = state\<lparr>rs_iterSources := fmmap (\<lambda>i. if mine i then i\<lparr>is_open := False\<rparr> else i) (rs_iterSources state),
            rs_liveIters := fmfilter (\<lambda>iid. case fmlookup (rs_iterSources state) iid of
              None \<Rightarrow> True | Some i \<Rightarrow> \<not> (mine i \<and> is_open i)) (rs_liveIters state)\<rparr>
      in update_set sid closeAllSources closed)"

section \<open>Branches that lost\<close>

text \<open>
  The first queued activation of the set that is not selected leaves the queue as a cancelled
  outcome. The state is returned with the error, as the code leaves it.
\<close>

definition loses :: "string \<Rightarrow> string list \<Rightarrow> activation \<Rightarrow> bool" where
  "loses sid selected item \<longleftrightarrow> ac_sourceSet item = sid \<and> ac_id item \<notin> set selected"

fun split_first :: "('a \<Rightarrow> bool) \<Rightarrow> 'a list \<Rightarrow> ('a list \<times> 'a \<times> 'a list) option" where
  "split_first P [] = None"
| "split_first P (x # xs) =
     (if P x then Some ([], x, xs)
      else map_option (\<lambda>(ys, y, zs). (x # ys, y, zs)) (split_first P xs))"

definition cancelNextQueuedBranch ::
  "string \<Rightarrow> string list \<Rightarrow> runState \<Rightarrow> goerr option \<times> branchOutcome option \<times> runState" where
  "cancelNextQueuedBranch sid selected state =
     (case split_first (loses sid selected) (rs_queue state) of
        None \<Rightarrow> (None, None, state)
      | Some (before, item, after) \<Rightarrow>
          (let s1 = state\<lparr>rs_queue := before @ after,
                 rs_nextCompletion := rs_nextCompletion state + 1\<rparr>;
               cause = Sentinel ContextCanceled;
               out = \<lparr>bo_activation = item, bo_result = zero_result, bo_cause = Some cause,
                      bo_phase = branchCanceled, bo_completion = rs_nextCompletion s1,
                      bo_committed = False\<rparr> in
           case cancelActivation (ac_id item) (Some cause) s1 of
             Inl e \<Rightarrow> (Some e, None, s1)
           | Inr s2 \<Rightarrow>
               (let s3 = update_set sid (\<lambda>sset. sset\<lparr>ss_outcomes := fmupd (ac_id item) out (ss_outcomes sset)\<rparr>) s2
                in (None, Some out, s3\<lparr>rs_completed := bump (ac_node item) (rs_completed s3)\<rparr>))))"

lemma split_first_Some:
  "split_first P xs = Some (ys, y, zs) \<longleftrightarrow> xs = ys @ y # zs \<and> P y \<and> (\<forall>x \<in> set ys. \<not> P x)"
proof (induction xs arbitrary: ys)
  case (Cons x xs)
  then show ?case by (cases ys) (auto split: if_splits)
qed simp

lemma split_first_None: "split_first P xs = None \<longleftrightarrow> (\<forall>x \<in> set xs. \<not> P x)"
  by (induction xs) auto

lemma update_set_queue [simp]: "rs_queue (update_set sid f s) = rs_queue s"
  by (simp add: update_set_def split: option.split)

lemma cancelActivation_queue: "cancelActivation aid c s = Inr s' \<Longrightarrow> rs_queue s' = rs_queue s"
  by (auto simp: cancelActivation_def put_record_def split: if_splits)

lemma cancelNext_shorter:
  assumes "cancelNextQueuedBranch sid selected s = (None, Some out, s')"
  shows "length (rs_queue s') < length (rs_queue s)"
  using assms cancelActivation_queue
  by (auto simp: cancelNextQueuedBranch_def Let_def split_first_Some
      split: option.splits sum.splits)

function cancelQueuedBranches ::
  "'w runtime \<Rightarrow> string \<Rightarrow> string list \<Rightarrow> execution \<Rightarrow> 'w \<Rightarrow> 'w outcome" where
  "cancelQueuedBranches rt sid selected ex w =
     (case cancelNextQueuedBranch sid selected (ex_state ex) of
        (Some err, _, s) \<Rightarrow> (Some err, with_state s ex, w)
      | (None, None, s) \<Rightarrow> (None, with_state s ex, w)
      | (None, Some out, s) \<Rightarrow>
          (case commit_node_event rt (ac_id (bo_activation out)) (outcome_eventType out) (bo_phase out)
                  (ex_step ex) (with_state s ex) w of
             (Some err, ex1, w1) \<Rightarrow> (Some err, ex1, w1)
           | (None, ex1, w1) \<Rightarrow> cancelQueuedBranches rt sid selected ex1 w1))"
  by pat_completeness auto
termination
proof (relation "measure (\<lambda>(rt, sid, selected, ex, w). length (rs_queue (ex_state ex)))", goal_cases)
  case 2
  then show ?case
    by (auto simp: with_state_def same_plan_def
        dest!: cancelNext_shorter [OF sym] commit_node_event_plan [OF sym])
qed simp

text \<open>A missing outcome reads as the zero outcome.\<close>

definition zero_outcome :: branchOutcome where
  "zero_outcome =
     \<lparr>bo_activation = \<lparr>ac_id = [], ac_node = [], ac_input = VNil, ac_sourceSet = [], ac_branchIndex = 0,
        ac_correlation = CorrelationKey [] 0\<rparr>,
      bo_result = zero_result, bo_cause = None, bo_phase = branchUnset, bo_completion = 0,
      bo_committed = False\<rparr>"

definition set_outcome :: "string \<Rightarrow> string \<Rightarrow> runState \<Rightarrow> branchOutcome option" where
  "set_outcome sid bid state =
     (case fmlookup (rs_sourceSets state) sid of
        None \<Rightarrow> None
      | Some sset \<Rightarrow> fmlookup (ss_outcomes sset) bid)"

definition put_outcome :: "string \<Rightarrow> string \<Rightarrow> branchOutcome \<Rightarrow> runState \<Rightarrow> runState" where
  "put_outcome sid bid out = update_set sid (\<lambda>sset. sset\<lparr>ss_outcomes := fmupd bid out (ss_outcomes sset)\<rparr>)"

definition the_outcome :: "branchOutcome option \<Rightarrow> branchOutcome" where
  "the_outcome o' = (case o' of None \<Rightarrow> zero_outcome | Some out \<Rightarrow> out)"

fun supersedeBranches ::
  "'w runtime \<Rightarrow> string \<Rightarrow> string list \<Rightarrow> string list \<Rightarrow> execution \<Rightarrow> 'w \<Rightarrow> 'w outcome" where
  "supersedeBranches rt sid selected [] ex w = (None, ex, w)"
| "supersedeBranches rt sid selected (bid # bids) ex w =
     (let out = the_outcome (set_outcome sid bid (ex_state ex)) in
      if \<not> completedButUnselected selected out then supersedeBranches rt sid selected bids ex w
      else (let ex1 = with_state (put_outcome sid bid (out\<lparr>bo_phase := branchSuperseded\<rparr>) (ex_state ex)) ex in
        case commit_node_event rt bid EventNodeSuperseded branchSuperseded (ex_step ex1) ex1 w of
          (Some err, ex2, w2) \<Rightarrow> (Some err, ex2, w2)
        | (None, ex2, w2) \<Rightarrow> supersedeBranches rt sid selected bids ex2 w2))"

fun closeUnselectedBranchExpectations ::
  "compiled \<Rightarrow> string \<Rightarrow> string list \<Rightarrow> string list \<Rightarrow> runState \<Rightarrow> goerr option \<times> runState" where
  "closeUnselectedBranchExpectations c sid selected [] state = (None, state)"
| "closeUnselectedBranchExpectations c sid selected (bid # bids) state =
     (if bid \<in> set selected then closeUnselectedBranchExpectations c sid selected bids state
      else (case set_outcome sid bid state of
          None \<Rightarrow> (Some (Msg ''workflow: branch outcome is missing''), state)
        | Some out \<Rightarrow>
            (case closeJoinExpectations c (bo_activation out) zero_Dispatch state of
               (Some e, s1) \<Rightarrow> (Some e, s1)
             | (None, s1) \<Rightarrow> closeUnselectedBranchExpectations c sid selected bids s1)))"

definition set_branches :: "string \<Rightarrow> runState \<Rightarrow> string list" where
  "set_branches sid state =
     (case fmlookup (rs_sourceSets state) sid of None \<Rightarrow> [] | Some sset \<Rightarrow> ss_branches sset)"

section \<open>Routing and outputs\<close>

definition route_state ::
  "joinBucketKey order \<Rightarrow> compiled \<Rightarrow> activation \<Rightarrow> govalue \<Rightarrow> bool \<Rightarrow> runState \<Rightarrow> goerr option \<times> runState" where
  "route_state ord c current out materialize state =
     (case fmlookup (co_nodes c) (ac_node current) of
        None \<Rightarrow> (Some (Msg ''nil node''), state)
      | Some n \<Rightarrow>
          (case routeAny n out of
             Inl e \<Rightarrow> (Some (Wrap ''workflow: route from node'' [e]), state)
           | Inr dispatch \<Rightarrow>
               (case applyRouteMiddlewares c n (ac_node current) out dispatch of
                  Inl e \<Rightarrow> (Some (Wrap ''workflow: route middleware from node'' [e]), state)
                | Inr dispatch1 \<Rightarrow>
                    (case scheduleNext c current out dispatch1 state of
                       (Some e, s1) \<Rightarrow> (Some e, s1)
                     | (None, s1) \<Rightarrow>
                         if materialize then materializeReadyJoins ord c s1 else (None, s1)))))"

definition route_run ::
  "'w runtime \<Rightarrow> activation \<Rightarrow> govalue \<Rightarrow> bool \<Rightarrow> execution \<Rightarrow> goerr option \<times> execution" where
  "route_run rt current out materialize ex =
     (let (err, s1) = route_state (rt_bucketOrd rt) (ex_compiled ex) current out materialize (ex_state ex)
      in (err, with_state s1 ex))"

definition collectOutput :: "'w runtime \<Rightarrow> string \<Rightarrow> govalue \<Rightarrow> execution \<Rightarrow> 'w \<Rightarrow> 'w outcome" where
  "collectOutput rt nodeName out ex w =
     (if nodeName |\<notin>| co_exits (ex_compiled ex) then (None, ex, w)
      else if \<not> has_type out (co_outputType (ex_compiled ex))
        then (Some (Msg ''workflow: exit node output type mismatch''), ex, w)
      else (case runLifecycleHooks (run_emitter rt) (rt_afterWorkflow rt) (rt_input rt, out) (ex, w) of
          ((Some e, c), ex1, w1) \<Rightarrow> (Some (Wrap ''workflow: after workflow'' [e]), ex1, w1)
        | ((None, c), ex1, w1) \<Rightarrow> (None, ex1\<lparr>ex_outputs := ex_outputs ex1 @ [snd c]\<rparr>, w1)))"

fun flush_loop :: "(int \<Rightarrow> govalue \<Rightarrow> bool) \<Rightarrow> govalue list \<Rightarrow> int \<Rightarrow> bool \<times> int" where
  "flush_loop accept [] index = (True, index)"
| "flush_loop accept (out # outs) index =
     (if accept index out then flush_loop accept outs (index + 1) else (False, index + 1))"

definition flushOutputs :: "'w runtime \<Rightarrow> execution \<Rightarrow> goerr option \<times> execution" where
  "flushOutputs rt ex =
     (case rt_outputSink rt of
        None \<Rightarrow> (None, ex\<lparr>ex_outputIndex := int (length (ex_outputs ex))\<rparr>)
      | Some accept \<Rightarrow>
          (case flush_loop accept (drop (nat (ex_outputIndex ex)) (ex_outputs ex)) (ex_outputIndex ex) of
             (True, index) \<Rightarrow> (None, ex\<lparr>ex_outputIndex := index\<rparr>)
           | (False, index) \<Rightarrow>
               (Some (Sentinel ContextCanceled),
                cancel_run (Sentinel ContextCanceled) (ex\<lparr>ex_outputIndex := index\<rparr>))))"

section \<open>Releasing and failing a source set\<close>

definition releaseBranch :: "'w runtime \<Rightarrow> string \<Rightarrow> string \<Rightarrow> execution \<Rightarrow> 'w \<Rightarrow> 'w outcome" where
  "releaseBranch rt sid bid ex w =
     (let out = the_outcome (set_outcome sid bid (ex_state ex)) in
      if bo_committed out then (None, ex, w)
      else (case route_run rt (bo_activation out) (nr_output (bo_result out)) False ex of
          (Some e, ex1) \<Rightarrow> (Some e, ex1, w)
        | (None, ex1) \<Rightarrow>
            (case collectOutput rt (ac_node (bo_activation out)) (nr_output (bo_result out)) ex1 w of
               (Some e, ex2, w2) \<Rightarrow> (Some e, ex2, w2)
             | (None, ex2, w2) \<Rightarrow>
                 (let ex3 = with_state (put_outcome sid bid (out\<lparr>bo_committed := True\<rparr>) (ex_state ex2)) ex2 in
                  case commit_node_event rt bid EventNodeOutputCommitted branchCompleted (ex_step ex3) ex3 w2 of
                    (Some err, ex4, w4) \<Rightarrow> (Some err, ex4, w4)
                  | (None, ex4, w4) \<Rightarrow> (case flushOutputs rt ex4 of (err, ex5) \<Rightarrow> (err, ex5, w4))))))"

fun release_branches :: "'w runtime \<Rightarrow> string \<Rightarrow> string list \<Rightarrow> execution \<Rightarrow> 'w \<Rightarrow> 'w outcome" where
  "release_branches rt sid [] ex w = (None, ex, w)"
| "release_branches rt sid (bid # bids) ex w =
     (case releaseBranch rt sid bid ex w of
        (Some e, ex1, w1) \<Rightarrow> (Some e, ex1, w1)
      | (None, ex1, w1) \<Rightarrow> release_branches rt sid bids ex1 w1)"

text \<open>
  What release and failure share: cancel the queued branches, supersede the completed ones,
  and close the join expectations of every branch that was not selected.
\<close>

definition drop_losers :: "'w runtime \<Rightarrow> string \<Rightarrow> string list \<Rightarrow> execution \<Rightarrow> 'w \<Rightarrow> 'w outcome" where
  "drop_losers rt sid selected ex w =
     (case cancelQueuedBranches rt sid selected ex w of
        (Some e, ex1, w1) \<Rightarrow> (Some e, ex1, w1)
      | (None, ex1, w1) \<Rightarrow>
          (case supersedeBranches rt sid selected (set_branches sid (ex_state ex1)) ex1 w1 of
             (Some e, ex2, w2) \<Rightarrow> (Some e, ex2, w2)
           | (None, ex2, w2) \<Rightarrow>
               (case closeUnselectedBranchExpectations (ex_compiled ex2) sid selected
                       (set_branches sid (ex_state ex2)) (ex_state ex2) of
                  (err, s3) \<Rightarrow> (err, with_state s3 ex2, w2))))"

definition releaseSourceSet ::
  "'w runtime \<Rightarrow> string \<Rightarrow> string list \<Rightarrow> execution \<Rightarrow> 'w \<Rightarrow> 'w outcome" where
  "releaseSourceSet rt sid selected ex w =
     (let ex1 = with_state (update_set sid
            (\<lambda>sset. if ss_decided sset then sset else sset\<lparr>ss_decided := True, ss_selected := selected\<rparr>)
            (closeIterSources sid (ex_state ex))) ex;
          chosen = (case fmlookup (rs_sourceSets (ex_state ex1)) sid of
                      None \<Rightarrow> [] | Some sset \<Rightarrow> ss_selected sset) in
      case drop_losers rt sid chosen ex1 w of
        (Some e, ex2, w2) \<Rightarrow> (Some e, ex2, w2)
      | (None, ex2, w2) \<Rightarrow>
          (case release_branches rt sid chosen ex2 w2 of
             (Some e, ex3, w3) \<Rightarrow> (Some e, ex3, w3)
           | (None, ex3, w3) \<Rightarrow>
               (case materializeReadyJoins (rt_bucketOrd rt) (ex_compiled ex3) (ex_state ex3) of
                  (Some e, s4) \<Rightarrow> (Some e, with_state s4 ex3, w3)
                | (None, s4) \<Rightarrow>
                    (None, with_state (update_set sid (\<lambda>sset. sset\<lparr>ss_settled := True\<rparr>) s4) ex3, w3))))"

definition failSourceSet :: "'w runtime \<Rightarrow> string \<Rightarrow> execution \<Rightarrow> 'w \<Rightarrow> 'w outcome" where
  "failSourceSet rt sid ex w =
     (let ex1 = with_state (closeIterSources sid
            (update_set sid (\<lambda>sset. sset\<lparr>ss_failed := True\<rparr>) (ex_state ex))) ex in
      case drop_losers rt sid [] ex1 w of
        (Some e, ex2, w2) \<Rightarrow> (Some e, ex2, w2)
      | (None, ex2, w2) \<Rightarrow>
          (let cause = (case fmlookup (rs_sourceSets (ex_state ex2)) sid of
                          None \<Rightarrow> None | Some sset \<Rightarrow> firstFailure sset)
           in (Some (Wrap ''workflow: source set failed''
                 [case cause of None \<Rightarrow> Msg ''no branch satisfied settle policy'' | Some e \<Rightarrow> e]), ex2, w2)))"

definition settleSourceSet :: "'w runtime \<Rightarrow> string \<Rightarrow> execution \<Rightarrow> 'w \<Rightarrow> 'w outcome" where
  "settleSourceSet rt sid ex w =
     (case fmlookup (rs_sourceSets (ex_state ex)) sid of
        None \<Rightarrow> (None, ex, w)
      | Some sset \<Rightarrow>
          if ss_settled sset then (None, ex, w)
          else if ss_failed sset then failSourceSet rt sid ex w
          else if ss_decided sset then releaseSourceSet rt sid (ss_selected sset) ex w
          else (case decide (rt_ord rt) sset of
              Inl e \<Rightarrow> (Some e, ex, w)
            | Inr decision \<Rightarrow>
                if \<not> sd_ready decision then (None, ex, w)
                else if sd_failed decision then failSourceSet rt sid ex w
                else releaseSourceSet rt sid (sd_selected decision) ex w))"

fun settleSourceSets :: "'w runtime \<Rightarrow> string list \<Rightarrow> execution \<Rightarrow> 'w \<Rightarrow> 'w outcome" where
  "settleSourceSets rt [] ex w = (None, ex, w)"
| "settleSourceSets rt (sid # sids) ex w =
     (case settleSourceSet rt sid ex w of
        (Some e, ex1, w1) \<Rightarrow> (Some e, ex1, w1)
      | (None, ex1, w1) \<Rightarrow> settleSourceSets rt sids ex1 w1)"

definition reconcileSourceSets :: "'w runtime \<Rightarrow> execution \<Rightarrow> 'w \<Rightarrow> 'w outcome" where
  "reconcileSourceSets rt ex w =
     settleSourceSets rt
       (filter (\<lambda>sid. \<not> ss_settled (the (fmlookup (rs_sourceSets (ex_state ex)) sid)))
         (sorted_keys (rs_sourceSets (ex_state ex)))) ex w"

section \<open>Pulling from iterators\<close>

definition hasOpenIterSource :: "runState \<Rightarrow> bool" where
  "hasOpenIterSource state \<longleftrightarrow>
     list_ex (\<lambda>iid. is_open (the (fmlookup (rs_iterSources state) iid))) (sorted_keys (rs_iterSources state))"

definition hasWork :: "runState \<Rightarrow> bool" where
  "hasWork state \<longleftrightarrow> rs_queue state \<noteq> [] \<or> hasOpenIterSource state"

definition open_iters :: "runState \<Rightarrow> string list" where
  "open_iters state =
     filter (\<lambda>iid. is_open (the (fmlookup (rs_iterSources state) iid))) (sorted_keys (rs_iterSources state))"

definition nextOpenIterSource :: "runState \<Rightarrow> iterSource option" where
  "nextOpenIterSource state =
     (case open_iters state of [] \<Rightarrow> None | iid # iids \<Rightarrow> fmlookup (rs_iterSources state) iid)"

definition live_pull :: "liveIterator \<Rightarrow> pulled \<times> liveIterator" where
  "live_pull live = (li_sequence live (li_position live), live\<lparr>li_position := li_position live + 1\<rparr>)"

definition iterSourceState :: "iterSource \<Rightarrow> runState \<Rightarrow> goerr + activation \<times> sourceSet" where
  "iterSourceState source state =
     (case fmlookup (rs_activations state) (is_sourceID source) of
        None \<Rightarrow> Inl (Msg ''workflow: iterator source activation is missing'')
      | Some r \<Rightarrow>
          (case fmlookup (rs_sourceSets state) (is_sourceSet source) of
             None \<Rightarrow> Inl (Msg ''workflow: iterator source set is missing'')
           | Some sset \<Rightarrow> Inr (ar_activation r, sset)))"

definition iter_event :: "iterSource \<Rightarrow> string \<Rightarrow> CorrelationKey \<Rightarrow> Event" where
  "iter_event source eventType correlation =
     zero_Event\<lparr>ev_Type := eventType, ev_Source := ''workflow.route'', ev_Summary := is_target source,
       ev_Payload := PIter \<lparr>ip_IteratorID = is_id source, ip_SourceActivation = is_sourceID source,
         ip_SourceSetID = is_sourceSet source, ip_Target = is_target source,
         ip_ItemIndex = is_pulled source, ip_Correlation = correlation\<rparr>\<rparr>"

text \<open>The cursor callback has no error result; a panic is an error.\<close>

definition captureCursor ::
  "(nat \<Rightarrow> govalue callback) option \<Rightarrow> nat \<Rightarrow> iterSource \<Rightarrow> goerr option \<times> iterSource" where
  "captureCursor checkpoint position source =
     (case checkpoint of
        None \<Rightarrow> (None, source)
      | Some f \<Rightarrow>
          (case f position of
             Return v \<Rightarrow> (None, source\<lparr>is_cursor := v, is_hasCursor := True\<rparr>)
           | _ \<Rightarrow> (Some (Msg ''workflow: iterator checkpoint panic''), source)))"

definition closeIterSource :: "'w runtime \<Rightarrow> iterSource \<Rightarrow> execution \<Rightarrow> 'w \<Rightarrow> 'w outcome" where
  "closeIterSource rt source ex w =
     (case iterSourceState source (ex_state ex) of
        Inl e \<Rightarrow> (Some e, ex, w)
      | Inr (item, sset) \<Rightarrow>
          (let s1 = stopIterSource source (ex_state ex) in
           case closeSource sset of
             Inl e \<Rightarrow> (Some e, with_state s1 ex, w)
           | Inr closed \<Rightarrow>
               (let ex2 = with_state (update_set (is_sourceSet source) (\<lambda>_. closed) s1) ex in
                case commit_preserved rt (iter_event source EventIterClosed (ac_correlation item))
                       (ex_step ex2) ex2 w of
                  (Some e, ex3, w3) \<Rightarrow> (Some e, ex3, w3)
                | (None, ex3, w3) \<Rightarrow> settleSourceSet rt (ss_id sset) ex3 w3)))"

definition failIterSource :: "'w runtime \<Rightarrow> iterSource \<Rightarrow> goerr \<Rightarrow> execution \<Rightarrow> 'w \<Rightarrow> 'w outcome" where
  "failIterSource rt source cause ex w =
     (case iterSourceState source (ex_state ex) of
        Inl e \<Rightarrow> (Some e, ex, w)
      | Inr (item, sset) \<Rightarrow>
          (let s1 = update_iter (is_id source) (\<lambda>i. i\<lparr>is_cause := Some cause\<rparr>) (ex_state ex);
               s2 = update_set (is_sourceSet source) (\<lambda>t. t\<lparr>ss_cause := Some cause, ss_failed := True\<rparr>) s1;
               ex3 = with_state (closeIterSources (ss_id sset) s2) ex in
           case commit_preserved rt (iter_event source EventIterFailed (ac_correlation item))
                  (ex_step ex3) ex3 w of
             (Some e, ex4, w4) \<Rightarrow> (Some e, ex4, w4)
           | (None, ex4, w4) \<Rightarrow> failSourceSet rt (ss_id sset) ex4 w4))"

definition pullIterSource :: "'w runtime \<Rightarrow> iterSource \<Rightarrow> execution \<Rightarrow> 'w \<Rightarrow> 'w outcome" where
  "pullIterSource rt source ex w =
     (case fmlookup (rs_liveIters (ex_state ex)) (is_id source) of
        None \<Rightarrow> (Some (Msg ''workflow: live iterator is missing''), ex, w)
      | Some live \<Rightarrow>
          (let (got, live1) = live_pull live;
               ex1 = with_state ((ex_state ex)\<lparr>rs_liveIters :=
                       fmupd (is_id source) live1 (rs_liveIters (ex_state ex))\<rparr>) ex in
           case got of
             PullEnd \<Rightarrow> closeIterSource rt source ex1 w
           | PullPanic t \<Rightarrow> failIterSource rt source (Msg (''workflow: iterator panic: '' @ t)) ex1 w
           | PullCause cause \<Rightarrow> failIterSource rt source cause ex1 w
           | PullValue v \<Rightarrow>
               (case iterSourceState source (ex_state ex1) of
                  Inl e \<Rightarrow> (Some e, ex1, w)
                | Inr (item, sset) \<Rightarrow>
                    (case (case fmlookup (co_nodes (ex_compiled ex1)) (is_target source) of
                             None \<Rightarrow> Some (Msg ''nil target node'')
                           | Some n \<Rightarrow> validateActivationPayload v n) of
                       Some e \<Rightarrow> failIterSource rt source e ex1 w
                     | None \<Rightarrow>
                         (let s2 = update_set (is_sourceSet source) addExpectedBranch (ex_state ex1);
                              (queued, s3) = enqueue
                                \<lparr>er_target = is_target source, er_input = v, er_sourceSet = is_sourceSet source,
                                 er_branchIndex = ss_expected sset,
                                 er_correlation = nextCorrelation (co_backEdges (ex_compiled ex1))
                                   (ac_correlation item) (ac_node item) (is_target source)\<rparr> s2;
                              (err, source1) = captureCursor (li_checkpoint live1) (li_position live1)
                                (source\<lparr>is_pulled := is_pulled source + 1\<rparr>);
                              ex4 = with_state (update_iter (is_id source) (\<lambda>_. source1) s3) ex1 in
                          case err of
                            Some e \<Rightarrow> failIterSource rt source1 e ex4 w
                          | None \<Rightarrow>
                              commit_preserved rt (iter_event source1 EventIterItemPulled (ac_correlation item))
                                (ex_step ex4) ex4 w)))))"

text \<open>
  The loop fills the queue up to the parallelism. Closing an iterator may release branches that
  open new iterators, so the loop is a partial function: None is a run that pulls for ever.
\<close>

partial_function (option) fillIterQueue ::
  "'w runtime \<Rightarrow> execution \<Rightarrow> 'w \<Rightarrow> 'w outcome option" where
  "fillIterQueue rt ex w =
     (if int (length (rs_queue (ex_state ex))) < co_maxParallelism (ex_compiled ex) \<and>
         hasOpenIterSource (ex_state ex)
      then (case pullIterSource rt (the (nextOpenIterSource (ex_state ex))) ex w of
          (err, ex1, w1) \<Rightarrow> if err = None then fillIterQueue rt ex1 w1 else Some (err, ex1, w1))
      else Some (None, ex, w))"

section \<open>Binding iterators after a restart\<close>

fun skipIterator :: "nat \<Rightarrow> liveIterator \<Rightarrow> goerr option \<times> liveIterator" where
  "skipIterator 0 live = (None, live)"
| "skipIterator (Suc n) live =
     (case live_pull live of
        (PullEnd, live1) \<Rightarrow> (Some (Msg ''workflow: iterator ended before restored cursor''), live1)
      | (PullCause e, live1) \<Rightarrow>
          (Some (Wrap ''workflow: iterator failed before restored cursor'' [e]), live1)
      | (PullPanic t, live1) \<Rightarrow>
          (Some (Wrap ''workflow: iterator failed before restored cursor''
             [Msg (''workflow: iterator panic: '' @ t)]), live1)
      | (PullValue v, live1) \<Rightarrow> skipIterator n live1)"

definition restoredSequence :: "iterSource \<Rightarrow> delivery \<Rightarrow> goerr + (nat \<Rightarrow> pulled)" where
  "restoredSequence source item =
     (if is_hasCursor source
      then (case dl_iterRestore item of
          None \<Rightarrow> Inl (Msg ''workflow: iterator restore function is missing'')
        | Some restore \<Rightarrow> callIterFactory ''restore'' (restore (is_cursor source)))
      else callIterFactory ''factory'' (the (dl_iter item)))"

definition bindIterSource :: "iterSource \<Rightarrow> execution \<Rightarrow> goerr option \<times> execution" where
  "bindIterSource source ex =
     (case fmlookup (rs_activations (ex_state ex)) (is_sourceID source) of
        None \<Rightarrow> (Some (Msg ''workflow: iterator source activation has no reusable output''), ex)
      | Some r \<Rightarrow>
          if \<not> ar_hasResult r
            then (Some (Msg ''workflow: iterator source activation has no reusable output''), ex)
          else (case fmlookup (co_nodes (ex_compiled ex)) (ac_node (ar_activation r)) of
              None \<Rightarrow> (Some (Msg ''nil node''), ex)
            | Some n \<Rightarrow>
                (let name = ac_node (ar_activation r); out = nr_output (ar_result r) in
                 case andthen (routeAny n out) (applyRouteMiddlewares (ex_compiled ex) n name out) of
                   Inl e \<Rightarrow> (Some e, ex)
                 | Inr dispatch \<Rightarrow>
                     (case validateSource dispatch name of
                        Some e \<Rightarrow> (Some e, ex)
                      | None \<Rightarrow>
                          if is_deliveryIndex source \<ge> int (length (dp_deliveries dispatch))
                            then (Some (Msg ''workflow: iterator delivery is missing after restore''), ex)
                          else (let item = dp_deliveries dispatch ! nat (is_deliveryIndex source) in
                            if dl_iter item = None \<or> dl_target item \<noteq> is_target source
                              then (Some (Msg ''workflow: iterator delivery changed after restore''), ex)
                            else (case validateIterReplay item of
                                Some e \<Rightarrow> (Some e, ex)
                              | None \<Rightarrow>
                                  if is_replay source \<noteq> (dl_iterRestore item \<noteq> None)
                                    then (Some (Msg ''workflow: iterator replay capability changed after restore''), ex)
                                  else (case restoredSequence source item of
                                      Inl e \<Rightarrow> (Some e, ex)
                                    | Inr f \<Rightarrow>
                                        (let s1 = bindLiveIterator (is_id source) f (dl_iterCheckpoint item) (ex_state ex) in
                                         if \<not> is_replay source \<and> is_pulled source > 0
                                         then (case skipIterator (nat (is_pulled source))
                                                 (the (fmlookup (rs_liveIters s1) (is_id source))) of
                                             (err, live) \<Rightarrow> (err, with_state (s1\<lparr>rs_liveIters :=
                                               fmupd (is_id source) live (rs_liveIters s1)\<rparr>) ex))
                                         else (None, with_state s1 ex)))))))))"

fun bind_iters :: "string list \<Rightarrow> execution \<Rightarrow> goerr option \<times> execution" where
  "bind_iters [] ex = (None, ex)"
| "bind_iters (iid # iids) ex =
     (case bindIterSource (the (fmlookup (rs_iterSources (ex_state ex)) iid)) ex of
        (Some e, ex1) \<Rightarrow> (Some e, ex1)
      | (None, ex1) \<Rightarrow> bind_iters iids ex1)"

definition bindIterSources :: "execution \<Rightarrow> goerr option \<times> execution" where
  "bindIterSources ex = bind_iters (open_iters (ex_state ex)) ex"

end
