(* ===== verification/Scheduler.thy ===== *)
theory Scheduler
  imports Settlement
begin

text \<open>
  The batches of a run (\<open>scheduler.go\<close> and the loop of \<open>invokeAll\<close>): the front of the queue starts
  together, its workers run concurrently, and their results are committed in queue order. What the workers
  return, and in which order they finish and are received, is an argument of a batch: every
  interleaving is one choice of it. The coordinator that cancels workers early is modelled by what it
  has cancelled after the results it received.
\<close>

section \<open>Batches\<close>

record batchActivation =
  ba_index :: nat
  ba_step :: int
  ba_activation :: activation
  ba_result :: nodeRunResult
  ba_err :: "goerr option"
  ba_completion :: int

text \<open>
  What the workers of one batch do: the events they emit, in the order of the lock, their results
  by index, and the orders in which they finish and are received.
\<close>

record batchRun =
  br_events :: "Event list"
  br_result :: "nat \<Rightarrow> nodeRunResult \<times> goerr option"
  br_finish :: "nat list"
  br_receive :: "nat list"

definition batch_size :: "execution \<Rightarrow> int \<Rightarrow> nat" where
  "batch_size ex remaining =
     nat (min (min (co_maxParallelism (ex_compiled ex)) (int (length (rs_queue (ex_state ex))))) remaining)"

definition nextBatch :: "execution \<Rightarrow> goerr + batchActivation list" where
  "nextBatch ex =
     (let remaining = co_maxSteps (ex_compiled ex) - ex_step ex + 1 in
      if remaining \<le> 0 then Inl (Msg ''workflow: exceeded max steps'')
      else Inr (map (\<lambda>(i, item).
             \<lparr>ba_index = i, ba_step = ex_step ex + int i, ba_activation = item,
              ba_result = zero_result, ba_err = None, ba_completion = 0\<rparr>)
           (enumerate 0 (take (batch_size ex remaining) (rs_queue (ex_state ex))))))"

fun emitBatchStarts :: "'w runtime \<Rightarrow> batchActivation list \<Rightarrow> execution \<Rightarrow> 'w \<Rightarrow> 'w outcome" where
  "emitBatchStarts rt [] ex w = (None, ex, w)"
| "emitBatchStarts rt (item # items) ex w =
     (case startActivation (ac_id (ba_activation item)) (ex_state ex) of
        Inl e \<Rightarrow> (Some e, ex, w)
      | Inr s1 \<Rightarrow>
          (case nodeEvent (ac_id (ba_activation item)) EventNodeStarted branchUnset s1 of
             Inl e \<Rightarrow> (Some e, with_state s1 ex, w)
           | Inr event \<Rightarrow>
               (case commitRunningEvent (rt_services rt) event (ex_step ex) (with_state s1 ex) w of
                  (Some e, ex2, w2) \<Rightarrow> (Some e, ex2, w2)
                | (None, ex2, w2) \<Rightarrow> emitBatchStarts rt items ex2 w2)))"

section \<open>Early cancellation\<close>

record batchGroup =
  bg_policy :: SettlePolicy
  bg_required :: int
  bg_successes :: int
  bg_sourceSet :: string
  bg_cancel :: "goerr option"

type_synonym batchCoordinator = "(string, batchGroup) fmap"

text \<open>The first cause given to a group stays.\<close>

definition group_cancel :: "goerr \<Rightarrow> batchGroup \<Rightarrow> batchGroup" where
  "group_cancel cause g = (if bg_cancel g = None then g\<lparr>bg_cancel := Some cause\<rparr> else g)"

definition zero_policy :: SettlePolicy where
  "zero_policy = \<lparr>sp_mode = [], sp_quorum = 0\<rparr>"

definition addGroup ::
  "string order \<Rightarrow> runState \<Rightarrow> string \<Rightarrow> batchCoordinator \<Rightarrow> batchCoordinator" where
  "addGroup ord state sid groups =
     (if fmlookup groups sid \<noteq> None then groups
      else fmupd sid (case fmlookup (rs_sourceSets state) sid of
          None \<Rightarrow> \<lparr>bg_policy = zero_policy, bg_required = 0, bg_successes = 0, bg_sourceSet = sid,
                   bg_cancel = None\<rparr>
        | Some sset \<Rightarrow>
            \<lparr>bg_policy = ss_policy sset,
             bg_required = (case threshold (ss_policy sset) of Inl e \<Rightarrow> 0 | Inr n \<Rightarrow> n),
             bg_successes = successCount ord sset, bg_sourceSet = sid, bg_cancel = None\<rparr>) groups)"

definition newBatchCoordinator ::
  "string order \<Rightarrow> runState \<Rightarrow> batchActivation list \<Rightarrow> batchCoordinator" where
  "newBatchCoordinator ord state batch =
     foldl (\<lambda>groups item. addGroup ord state (ac_sourceSet (ba_activation item)) groups) fmempty batch"

definition cancelAll :: "goerr \<Rightarrow> batchCoordinator \<Rightarrow> batchCoordinator" where
  "cancelAll cause groups = fmmap (group_cancel cause) groups"

definition update_group :: "string \<Rightarrow> (batchGroup \<Rightarrow> batchGroup) \<Rightarrow> batchCoordinator \<Rightarrow> batchCoordinator" where
  "update_group sid f groups =
     (case fmlookup groups sid of None \<Rightarrow> groups | Some g \<Rightarrow> fmupd sid (f g) groups)"

definition observeError :: "string \<Rightarrow> goerr \<Rightarrow> batchCoordinator \<Rightarrow> batchCoordinator" where
  "observeError sid err groups =
     (if as_interrupt err \<noteq> None then groups
      else if errors_is err ContextCanceled then groups
      else if sid = [] then cancelAll err groups
      else update_group sid (\<lambda>g. if is_all (bg_policy g) then group_cancel err g else g) groups)"

definition count_success :: "batchGroup \<Rightarrow> batchGroup" where
  "count_success g =
     (let g1 = g\<lparr>bg_successes := bg_successes g + 1\<rparr> in
      if \<not> is_all (bg_policy g1) \<and> bg_successes g1 \<ge> bg_required g1
      then group_cancel (Sentinel ErrSettleSatisfied) g1 else g1)"

definition batch_observe :: "batchActivation \<Rightarrow> batchCoordinator \<Rightarrow> batchCoordinator" where
  "batch_observe item groups =
     (let sid = ac_sourceSet (ba_activation item) in
      case ba_err item of
        Some err \<Rightarrow> observeError sid err groups
      | None \<Rightarrow>
          if nr_skipped (ba_result item) \<or> nr_retry (ba_result item) \<or> sid = [] then groups
          else update_group sid count_success groups)"

section \<open>Running a batch\<close>

fun index_of :: "nat \<Rightarrow> nat list \<Rightarrow> nat" where
  "index_of i [] = 0"
| "index_of i (j # js) = (if i = j then 0 else Suc (index_of i js))"

text \<open>The completion counter numbers the workers as they finish.\<close>

definition worked :: "batchRun \<Rightarrow> int \<Rightarrow> batchActivation \<Rightarrow> batchActivation" where
  "worked run base item = item
     \<lparr>ba_result := fst (br_result run (ba_index item)), ba_err := snd (br_result run (ba_index item)),
      ba_completion := base + int (index_of (ba_index item) (br_finish run)) + 1\<rparr>"

fun emit_all :: "'w runtime \<Rightarrow> Event list \<Rightarrow> execution \<Rightarrow> 'w \<Rightarrow> execution \<times> 'w" where
  "emit_all rt [] ex w = (ex, w)"
| "emit_all rt (event # events) ex w =
     (case emit_event (rt_services rt) event ex w of (err, ex1, w1) \<Rightarrow> emit_all rt events ex1 w1)"

definition executeBatch ::
  "'w runtime \<Rightarrow> batchRun \<Rightarrow> batchActivation list \<Rightarrow> execution \<Rightarrow> 'w
   \<Rightarrow> batchActivation list \<times> execution \<times> 'w" where
  "executeBatch rt run batch ex w =
     (let (ex1, w1) = emit_all rt (br_events run) ex w;
          base = rs_nextCompletion (ex_state ex1) in
      (map (worked run base) batch,
       with_state ((ex_state ex1)\<lparr>rs_nextCompletion := base + int (length batch)\<rparr>) ex1, w1))"

text \<open>What the coordinator has cancelled when the first \<open>n\<close> results have been received.\<close>

definition coordinator_after ::
  "string order \<Rightarrow> runState \<Rightarrow> batchRun \<Rightarrow> batchActivation list \<Rightarrow> nat \<Rightarrow> batchCoordinator" where
  "coordinator_after ord state run results n =
     foldl (\<lambda>groups i. batch_observe (results ! i) groups)
       (newBatchCoordinator ord state results) (take n (br_receive run))"

definition batchInterrupts :: "batchActivation list \<Rightarrow> batchActivation list" where
  "batchInterrupts results =
     filter (\<lambda>item. case ba_err item of None \<Rightarrow> False | Some e \<Rightarrow> as_interrupt e \<noteq> None) results"

text \<open>\<open>failedStandaloneActivation\<close>: the first failure, or the first cancellation when all are.\<close>

fun failed_standalone ::
  "batchActivation list \<Rightarrow> batchActivation option \<Rightarrow> batchActivation option" where
  "failed_standalone [] canceled = canceled"
| "failed_standalone (item # items) canceled =
     (case ba_err item of
        None \<Rightarrow> failed_standalone items canceled
      | Some e \<Rightarrow>
          if ac_sourceSet (ba_activation item) \<noteq> [] then failed_standalone items canceled
          else if errors_is e ContextCanceled
            then failed_standalone items (if canceled = None then Some item else canceled)
          else Some item)"

definition failedStandaloneActivation :: "batchActivation list \<Rightarrow> batchActivation option" where
  "failedStandaloneActivation results = failed_standalone results None"

section \<open>Committing results\<close>

definition commitActivation ::
  "'w runtime \<Rightarrow> activation \<Rightarrow> nodeRunResult \<Rightarrow> execution \<Rightarrow> 'w \<Rightarrow> 'w outcome" where
  "commitActivation rt current result ex w =
     (case removeReady (ac_id current) (ex_state ex) of
        Inl e \<Rightarrow> (Some e, ex, w)
      | Inr s1 \<Rightarrow>
          (let s2 = s1\<lparr>rs_completed := bump (ac_node current) (rs_completed s1)\<rparr> in
           case finishActivation (ac_id current) result None s2 of
             Inl e \<Rightarrow> (Some e, with_state s2 ex, w)
           | Inr s3 \<Rightarrow>
               if nr_skipped result
               then (case closeJoinExpectations (ex_compiled ex) current zero_Dispatch s3 of
                   (Some e, s4) \<Rightarrow> (Some e, with_state s4 ex, w)
                 | (None, s4) \<Rightarrow>
                     (case materializeReadyJoins (rt_bucketOrd rt) (ex_compiled ex) s4 of
                        (Some e, s5) \<Rightarrow> (Some e, with_state s5 ex, w)
                      | (None, s5) \<Rightarrow>
                          commit_node_event rt (ac_id current) EventNodeSkipped branchUnset (ex_step ex + 1)
                            (with_state s5 ex) w))
               else (case route_run rt current (nr_output result) True (with_state s3 ex) of
                   (Some e, ex1) \<Rightarrow> (Some e, ex1, w)
                 | (None, ex1) \<Rightarrow>
                     (case collectOutput rt (ac_node current) (nr_output result) ex1 w of
                        (Some e, ex2, w2) \<Rightarrow> (Some e, ex2, w2)
                      | (None, ex2, w2) \<Rightarrow>
                          (case commit_node_event rt (ac_id current) EventNodeCompleted branchUnset
                                  (ex_step ex2 + 1) ex2 w2 of
                             (Some e, ex3, w3) \<Rightarrow> (Some e, ex3, w3)
                           | (None, ex3, w3) \<Rightarrow> (case flushOutputs rt ex3 of (err, ex4) \<Rightarrow> (err, ex4, w3)))))))"

definition outcome_of :: "batchActivation \<Rightarrow> branchOutcome" where
  "outcome_of item =
     \<lparr>bo_activation = ba_activation item, bo_result = ba_result item, bo_cause = ba_err item,
      bo_phase = branchOutcomePhase (ba_result item) (ba_err item),
      bo_completion = ba_completion item, bo_committed = False\<rparr>"

definition commitBranch :: "'w runtime \<Rightarrow> batchActivation \<Rightarrow> execution \<Rightarrow> 'w \<Rightarrow> 'w outcome" where
  "commitBranch rt item ex w =
     (let current = ba_activation item; sid = ac_sourceSet current in
      if fmlookup (rs_sourceSets (ex_state ex)) sid = None
        then (Some (Msg ''workflow: source set is missing''), ex, w)
      else (case removeReady (ac_id current) (ex_state ex) of
          Inl e \<Rightarrow> (Some e, ex, w)
        | Inr s1 \<Rightarrow>
            (let s2 = s1\<lparr>rs_completed := bump (ac_node current) (rs_completed s1)\<rparr> in
             case finishActivation (ac_id current) (ba_result item) (ba_err item) s2 of
               Inl e \<Rightarrow> (Some e, with_state s2 ex, w)
             | Inr s3 \<Rightarrow>
                 (let out = outcome_of item;
                      s4 = put_outcome sid (ac_id current) out s3
                  in commit_node_event rt (ac_id current) (outcome_eventType out) (bo_phase out)
                       (ex_step ex + 1) (with_state s4 ex) w))))"

definition commitRetry ::
  "'w runtime \<Rightarrow> activation \<Rightarrow> nodeRunResult \<Rightarrow> execution \<Rightarrow> 'w \<Rightarrow> 'w outcome" where
  "commitRetry rt current result ex w =
     (case nodeEvent (ac_id current) EventNodeRetrying branchUnset (ex_state ex) of
        Inl e \<Rightarrow> (Some e, ex, w)
      | Inr event \<Rightarrow>
          (case retryActivation (ac_id current) (nr_retryInput result) (ex_state ex) of
             Inl e \<Rightarrow> (Some e, ex, w)
           | Inr s1 \<Rightarrow> commit_preserved rt event (ex_step ex + 1) (with_state s1 ex) w))"

text \<open>The id of the source set to settle ([] for none), or the error.\<close>

definition commitBatchItem ::
  "'w runtime \<Rightarrow> batchActivation \<Rightarrow> execution \<Rightarrow> 'w \<Rightarrow> (goerr + string) \<times> execution \<times> 'w" where
  "commitBatchItem rt item ex w =
     (let current = ba_activation item; result = ba_result item;
          done_as = (\<lambda>sid. \<lambda>(err, ex1, w1). (case err of None \<Rightarrow> Inr sid | Some e \<Rightarrow> Inl e, ex1, w1)) in
      if ba_err item = None \<and> nr_retry result
        then done_as [] (commitRetry rt current result ex w)
      else (case (if ba_err item = None \<and> nr_contextChanged result
                  then if ac_sourceSet current \<noteq> [] \<and> \<not> singleBranchSourceSet (ac_sourceSet current) (ex_state ex)
                    then Inl (Msg ''workflow: fan-out branch cannot update workflow context; use a merge node'')
                    else commitContext result (ex_state ex)
                  else Inr (ex_state ex)) of
          Inl e \<Rightarrow> (Inl e, ex, w)
        | Inr s1 \<Rightarrow>
            if ac_sourceSet current \<noteq> []
              then done_as (ac_sourceSet current) (commitBranch rt item (with_state s1 ex) w)
            else done_as [] (commitActivation rt current result (with_state s1 ex) w)))"

definition next_step :: "execution \<Rightarrow> execution" where
  "next_step ex = ex\<lparr>ex_step := ex_step ex + 1\<rparr>"

fun commit_items ::
  "'w runtime \<Rightarrow> batchActivation list \<Rightarrow> string list \<Rightarrow> execution \<Rightarrow> 'w
   \<Rightarrow> (goerr + string list) \<times> execution \<times> 'w" where
  "commit_items rt [] sids ex w = (Inr sids, ex, w)"
| "commit_items rt (item # items) sids ex w =
     (case commitBatchItem rt item ex w of
        (Inl e, ex1, w1) \<Rightarrow> (Inl e, ex1, w1)
      | (Inr sid, ex1, w1) \<Rightarrow>
          commit_items rt items (if sid \<noteq> [] then append_once sids sid else sids) (next_step ex1) w1)"

section \<open>Failures and interrupts\<close>

definition emitRejection :: "'w runtime \<Rightarrow> GuardRejection \<Rightarrow> execution \<Rightarrow> 'w \<Rightarrow> 'w outcome" where
  "emitRejection rt rejection =
     emit_event (rt_services rt) (zero_Event\<lparr>ev_Type := EventGuardRejected, ev_Source := ''workflow.guard'',
       ev_Summary := (if gr_Reason rejection = [] then gr_Message rejection else gr_Reason rejection),
       ev_Payload := PReject rejection\<rparr>)"

definition interrupt_one ::
  "'w runtime \<Rightarrow> activation \<Rightarrow> InterruptErrorRec \<Rightarrow> execution \<Rightarrow> 'w \<Rightarrow> 'w outcome" where
  "interrupt_one rt current i ex w =
     (if cp_ID (ex_checkpoint ex) = []
        then (Some (Wrap ''workflow: guard interrupt requires checkpointer'' [Interrupted i]), ex, w)
      else (let requests = interruptRequests i in
        finishInterrupt (rt_services rt) (prioritize current (ex_state ex))
          (checkpointInterruptsForActivation current i requests) i requests ex w))"

definition handleNodeError ::
  "'w runtime \<Rightarrow> activation \<Rightarrow> nodeRunResult \<Rightarrow> goerr \<Rightarrow> execution \<Rightarrow> 'w \<Rightarrow> 'w outcome" where
  "handleNodeError rt current result cause ex w =
     (case as_interrupt cause of
        Some i \<Rightarrow>
          (case interruptActivation (ac_id current) (ex_state ex) of
             Inl e \<Rightarrow> (Some e, ex, w)
           | Inr s1 \<Rightarrow> interrupt_one rt current i (with_state s1 ex) w)
      | None \<Rightarrow>
          (case finishActivation (ac_id current) result (Some cause) (ex_state ex) of
             Inl e \<Rightarrow> (Some e, ex, w)
           | Inr s1 \<Rightarrow>
               (case (case as_rejection cause of
                        None \<Rightarrow> (None, with_state s1 ex, w)
                      | Some r \<Rightarrow> emitRejection rt r (with_state s1 ex) w) of
                  (Some e, ex2, w2) \<Rightarrow> (Some e, ex2, w2)
                | (None, ex2, w2) \<Rightarrow>
                    (case nodeEvent (ac_id current) EventNodeFailed branchUnset (ex_state ex2) of
                       Inl e \<Rightarrow> (Some e, ex2, w2)
                     | Inr event \<Rightarrow>
                         (case emit_event (rt_services rt) event ex2 w2 of
                            (Some e, ex3, w3) \<Rightarrow> (Some e, ex3, w3)
                          | (None, ex3, w3) \<Rightarrow> (Some (Wrap ''workflow: node'' [cause]), ex3, w3))))))"

text \<open>It always returns an error, so the code that returns its result stops there.\<close>

lemma finishInterrupt_fails: "fst (finishInterrupt sv s waits i reqs ex w) \<noteq> None"
  by (simp add: finishInterrupt_def Let_def split: sum.split prod.split option.split)

lemma handleNodeError_fails: "fst (handleNodeError rt current result cause ex w) \<noteq> None"
  by (simp add: handleNodeError_def interrupt_one_def Let_def finishInterrupt_fails
      del: not_None_eq split: sum.split prod.split option.split)

fun interrupt_items ::
  "batchActivation list \<Rightarrow> runState \<Rightarrow> checkpointInterrupt list \<Rightarrow> InterruptRequest list
   \<Rightarrow> (goerr + checkpointInterrupt list \<times> InterruptRequest list) \<times> runState" where
  "interrupt_items [] state waits requests = (Inr (waits, requests), state)"
| "interrupt_items (item # items) state waits requests =
     (case (case ba_err item of None \<Rightarrow> None | Some e \<Rightarrow> as_interrupt e) of
        None \<Rightarrow> (Inl (Msg ''workflow: scheduler interrupt batch contains a non-interrupt error''), state)
      | Some i \<Rightarrow>
          (case interruptActivation (ac_id (ba_activation item)) state of
             Inl e \<Rightarrow> (Inl e, state)
           | Inr s1 \<Rightarrow>
               interrupt_items items s1
                 (waits @ checkpointInterruptsForActivation (ba_activation item) i (interruptRequests i))
                 (requests @ interruptRequests i)))"

definition first_interrupt :: "batchActivation list \<Rightarrow> InterruptErrorRec" where
  "first_interrupt items =
     (case items of
        [] \<Rightarrow> \<lparr>ie_Request = \<lparr>ir_ID = [], ir_Subject = [], ir_ResolutionSchemaRef = []\<rparr>, ie_Requests = [],
               ie_RunID = [], ie_CheckpointID = [], ie_GuardName = [], ie_Phase = GuardPhaseOther [],
               ie_candidateOutput = VNil, ie_hasCandidateOutput = False\<rparr>
      | item # _ \<Rightarrow> the (as_interrupt (the (ba_err item))))"

definition interruptBatch :: "'w runtime \<Rightarrow> batchActivation list \<Rightarrow> execution \<Rightarrow> 'w \<Rightarrow> 'w outcome" where
  "interruptBatch rt items ex w =
     (if cp_ID (ex_checkpoint ex) = []
        then (Some (Msg ''workflow: guard interrupt requires checkpointer''), ex, w)
      else (case interrupt_items items (ex_state ex) [] [] of
          (Inl e, s1) \<Rightarrow> (Some e, with_state s1 ex, w)
        | (Inr (waits, requests), s1) \<Rightarrow>
            finishInterrupt (rt_services rt) s1 waits (first_interrupt items) requests (with_state s1 ex) w))"

text \<open>The queue with the interrupted activations of the batch behind the finished ones.\<close>

definition reorderInterruptedBatch ::
  "batchActivation list \<Rightarrow> string list \<Rightarrow> runState \<Rightarrow> goerr + runState" where
  "reorderInterruptedBatch results interrupted state =
     (if length (rs_queue state) < length results
        then Inl (Msg ''workflow: scheduler batch exceeds ready queue'')
      else (let items = map ba_activation results; hit = (\<lambda>item. ac_id item \<in> set interrupted)
        in Inr (state\<lparr>rs_queue := filter (\<lambda>i. \<not> hit i) items @ filter hit items @
             drop (length results) (rs_queue state)\<rparr>)))"

fun commit_uninterrupted ::
  "'w runtime \<Rightarrow> string list \<Rightarrow> batchActivation list \<Rightarrow> string list \<Rightarrow> execution \<Rightarrow> 'w
   \<Rightarrow> (goerr + string list) \<times> execution \<times> 'w" where
  "commit_uninterrupted rt interrupted [] sids ex w = (Inr sids, ex, w)"
| "commit_uninterrupted rt interrupted (item # items) sids ex w =
     (if ac_id (ba_activation item) \<in> set interrupted
        then commit_uninterrupted rt interrupted items sids ex w
      else if ac_sourceSet (ba_activation item) = [] \<and> ba_err item \<noteq> None
        then (case handleNodeError rt (ba_activation item) (ba_result item) (the (ba_err item)) ex w of
            (err, ex1, w1) \<Rightarrow> (Inl (the err), ex1, w1))
      else (case commitBatchItem rt item ex w of
          (Inl e, ex1, w1) \<Rightarrow> (Inl e, ex1, w1)
        | (Inr sid, ex1, w1) \<Rightarrow>
            commit_uninterrupted rt interrupted items
              (if sid \<noteq> [] then append_once sids sid else sids) (next_step ex1) w1))"

definition handleBatchInterrupts ::
  "'w runtime \<Rightarrow> batchActivation list \<Rightarrow> batchActivation list \<Rightarrow> execution \<Rightarrow> 'w \<Rightarrow> 'w outcome" where
  "handleBatchInterrupts rt results interrupts ex w =
     (let interrupted = map (\<lambda>item. ac_id (ba_activation item)) interrupts in
      case reorderInterruptedBatch results interrupted (ex_state ex) of
        Inl e \<Rightarrow> (Some e, ex, w)
      | Inr s1 \<Rightarrow>
          (case commit_uninterrupted rt interrupted results [] (with_state s1 ex) w of
             (Inl e, ex2, w2) \<Rightarrow> (Some e, ex2, w2)
           | (Inr sids, ex2, w2) \<Rightarrow>
               (case settleSourceSets rt sids ex2 w2 of
                  (Some e, ex3, w3) \<Rightarrow> (Some e, ex3, w3)
                | (None, ex3, w3) \<Rightarrow> interruptBatch rt interrupts ex3 w3)))"

section \<open>The loop of a run\<close>

definition advanceBatch :: "'w runtime \<Rightarrow> batchRun \<Rightarrow> execution \<Rightarrow> 'w \<Rightarrow> 'w outcome" where
  "advanceBatch rt run ex w =
     (case nextBatch ex of
        Inl e \<Rightarrow> (Some e, ex, w)
      | Inr batch \<Rightarrow>
          (case emitBatchStarts rt batch ex w of
             (Some e, ex1, w1) \<Rightarrow> (Some (Preserved e), ex1, w1)
           | (None, ex1, w1) \<Rightarrow>
               (let (results, ex2, w2) = executeBatch rt run batch ex1 w1 in
                if ex_sinkFailure ex2 \<noteq> None then (preserveExecutionError (ex_sinkFailure ex2), ex2, w2)
                else if batchInterrupts results \<noteq> []
                  then handleBatchInterrupts rt results (batchInterrupts results) ex2 w2
                else (case failedStandaloneActivation results of
                    Some failed \<Rightarrow> handleNodeError rt (ba_activation failed) (ba_result failed)
                      (the (ba_err failed)) ex2 w2
                  | None \<Rightarrow>
                      (case commit_items rt results [] ex2 w2 of
                         (Inl e, ex3, w3) \<Rightarrow> (Some e, ex3, w3)
                       | (Inr sids, ex3, w3) \<Rightarrow> settleSourceSets rt sids ex3 w3)))))"

text \<open>
  The main loop, with what the workers do in the batches to come. None is a run that never
  ends: iterators may yield for ever.
\<close>

partial_function (option) run_loop ::
  "'w runtime \<Rightarrow> (nat \<Rightarrow> batchRun) \<Rightarrow> nat \<Rightarrow> execution \<Rightarrow> 'w \<Rightarrow> 'w outcome option" where
  "run_loop rt runs n ex w =
     (if \<not> hasWork (ex_state ex) then Some (None, ex, w)
      else (case fillIterQueue rt ex w of
          None \<Rightarrow> None
        | Some (err, ex1, w1) \<Rightarrow>
            if err \<noteq> None then Some (handleError (rt_services rt) (the err) ex1 w1)
            else if rs_queue (ex_state ex1) = [] then run_loop rt runs n ex1 w1
            else (case advanceBatch rt (runs n) ex1 w1 of
                (err2, ex2, w2) \<Rightarrow>
                  if err2 \<noteq> None then Some (handleError (rt_services rt) (the err2) ex2 w2)
                  else run_loop rt runs (Suc n) ex2 w2)))"

definition resumeRun ::
  "'w runtime \<Rightarrow> nat \<Rightarrow> execution \<Rightarrow> 'w \<Rightarrow> ((goerr + bool) \<times> execution \<times> 'w) option" where
  "resumeRun rt pages ex w =
     (case restore_run (rt_services rt) pages ex w of
        None \<Rightarrow> None
      | Some (Inl e, ex1, w1) \<Rightarrow> Some (Inl e, ex1, w1)
      | Some (Inr complete, ex1, w1) \<Rightarrow>
          (case (if complete then (None, ex1) else bindIterSources ex1) of
             (Some e, ex2) \<Rightarrow> Some (Inl e, ex2, w1)
           | (None, ex2) \<Rightarrow>
               (case flushOutputs rt ex2 of
                  (Some e, ex3) \<Rightarrow>
                    if complete then Some (Inl e, ex3, w1)
                    else (case handleError (rt_services rt) e ex3 w1 of
                        (err, ex4, w4) \<Rightarrow> Some (case err of None \<Rightarrow> Inr False | Some e2 \<Rightarrow> Inl e2, ex4, w4))
                | (None, ex3) \<Rightarrow> Some (Inr complete, ex3, w1))))"

text \<open>
  The deferred calls of \<open>invokeAll\<close>: after a failed emission the lease is given back, and what
  the heartbeat reports joins the error.
\<close>

definition deferred_release :: "'w runtime \<Rightarrow> goerr + 'a \<Rightarrow> execution \<Rightarrow> 'w \<Rightarrow> (goerr + 'a) \<times> execution \<times> 'w" where
  "deferred_release rt result ex w =
     (let (r1, ex1, w1) =
        (case result of
           Inl e \<Rightarrow>
             if ex_sinkFailure ex \<noteq> None
             then (case releaseCheckpointLease (rt_services rt) ex w of
                 (err, ex1, w1) \<Rightarrow> (Inl (the (errors_join [Some e, err])), ex1, w1))
             else (result, ex, w)
         | Inr v \<Rightarrow> (result, ex, w)) in
      (case errors_join [case r1 of Inl e \<Rightarrow> Some e | Inr v \<Rightarrow> None, stopCheckpointLeaseHeartbeat ex1] of
         None \<Rightarrow> r1 | Some e \<Rightarrow> Inl e, ex1, w1))"

text \<open>\<open>invokeAll\<close> from the prepared execution on: resume, start, reconcile, loop, finish.\<close>

definition invoke_body ::
  "'w runtime \<Rightarrow> nat \<Rightarrow> (nat \<Rightarrow> batchRun) \<Rightarrow> bool \<Rightarrow> execution \<Rightarrow> 'w
   \<Rightarrow> ((goerr + govalue list) \<times> execution \<times> 'w) option" where
  "invoke_body rt pages runs resume ex w =
     (case (if resume then resumeRun rt pages ex w else Some (Inr False, ex, w)) of
        None \<Rightarrow> None
      | Some (Inl e, ex1, w1) \<Rightarrow> Some (Inl e, ex1, w1)
      | Some (Inr complete, ex1, w1) \<Rightarrow>
          if complete then Some (Inr (ex_outputs ex1), ex1, w1)
          else (case startAttempt (rt_services rt) resume ex1 w1 of
              (Some e, ex2, w2) \<Rightarrow> Some (Inl e, ex2, w2)
            | (None, ex2, w2) \<Rightarrow>
                (case (if resume then reconcileSourceSets rt ex2 w2 else (None, ex2, w2)) of
                   (Some e, ex3, w3) \<Rightarrow>
                     (case handleError (rt_services rt) e ex3 w3 of
                        (err, ex4, w4) \<Rightarrow> Some (case err of None \<Rightarrow> Inr [] | Some e2 \<Rightarrow> Inl e2, ex4, w4))
                 | (None, ex3, w3) \<Rightarrow>
                     (case run_loop rt runs 0 ex3 w3 of
                        None \<Rightarrow> None
                      | Some (Some e, ex4, w4) \<Rightarrow> Some (Inl e, ex4, w4)
                      | Some (None, ex4, w4) \<Rightarrow>
                          (case finish_run (rt_services rt) ex4 w4 of
                             (Some e, ex5, w5) \<Rightarrow> Some (Inl e, ex5, w5)
                           | (None, ex5, w5) \<Rightarrow> Some (Inr (ex_outputs ex5), ex5, w5))))))"

definition invoke_prepared ::
  "'w runtime \<Rightarrow> nat \<Rightarrow> (nat \<Rightarrow> batchRun) \<Rightarrow> bool \<Rightarrow> execution \<Rightarrow> 'w
   \<Rightarrow> ((goerr + govalue list) \<times> execution \<times> 'w) option" where
  "invoke_prepared rt pages runs resume ex w =
     map_option (\<lambda>(result, ex1, w1). deferred_release rt result ex1 w1)
       (invoke_body rt pages runs resume ex w)"

end
