(* ===== verification/Branches.thy ===== *)
theory Branches
  imports Scheduler World
begin

text \<open>
  What happens to the branches of a source set and to the items of its iterators: losers leave
  the queue as numbered cancelled outcomes, a pulled item becomes exactly one branch, and an iterator
  that cannot replay continues after a restart where it stood.
\<close>

section \<open>A run to try it on\<close>

text \<open>A log that accepts every record, and a run without a checkpoint that uses it.\<close>

definition log_services :: "Record list services" where
  "log_services =
     \<lparr>sv_Create = (\<lambda>ctx r w. (None, w)), sv_Load = (\<lambda>ctx run w. (Inl (Msg ''no checkpoint''), w)),
      sv_Claim = (\<lambda>ctx r v w. (None, w)), sv_Save = (\<lambda>ctx r v w. (None, w)),
      sv_Finish = (\<lambda>ctx r v w. (None, w)), sv_Append = (\<lambda>ctx r w. (None, w @ [r])),
      sv_AppendFenced = (\<lambda>ctx r fence w. (None, w @ [r])), sv_List = (\<lambda>ctx q w. (Inr w, w)),
      sv_now = (\<lambda>w. (1 + int (length w), w)), sv_sinks = (\<lambda>a. []), sv_gob = (\<lambda>p. Some 1), sv_leaseDuration = 50\<rparr>"

definition log_runtime :: "Record list runtime" where
  "log_runtime = \<lparr>rt_services = log_services, rt_ord = (\<lambda>ks. ks), rt_bucketOrd = (\<lambda>ks. ks),
     rt_input = plain_value, rt_afterWorkflow = [], rt_outputSink = None\<rparr>"

definition plain_run :: "runState \<Rightarrow> execution" where
  "plain_run s = sample_run\<lparr>ex_checkpoint := sample_head\<lparr>cp_ID := []\<rparr>, ex_compiled := late_plan, ex_state := s\<rparr>"

lemma plain_run_simps [simp]:
  "ex_state (plain_run s) = s" "ex_compiled (plain_run s) = late_plan"
  "cp_ID (ex_checkpoint (plain_run s)) = []" "ex_sinkFailure (plain_run s) = None"
  by (simp_all add: plain_run_def sample_run_def)

lemma log_commit:
  assumes "cp_ID (ex_checkpoint ex) = []" "ex_sinkFailure ex = None"
  shows "\<exists>ex' w'. commit_preserved log_runtime event n ex w = (None, ex', w') \<and>
    cp_ID (ex_checkpoint ex') = [] \<and> ex_sinkFailure ex' = None \<and> same_plan ex ex'"
  using assms
  by (auto simp: commit_preserved_def commitRunningEvent_def emitLocked_def emitLockedWithContexts_def
      log_runtime_def log_services_def stamp_def observe_def Let_def
      preserveExecutionError_def same_plan_def split: prod.splits)

lemma log_commit_ok [simp]:
  "cp_ID (ex_checkpoint ex) = [] \<Longrightarrow> ex_sinkFailure ex = None \<Longrightarrow>
   fst (commit_preserved log_runtime event n ex w) = None"
  using log_commit [of ex event n w] by auto

section \<open>Cancelling the queued branches\<close>

declare cancelQueuedBranches.simps [simp del]

lemma update_set_lookup:
  "fmlookup (rs_sourceSets (update_set sid f s)) t =
     (if t = sid then map_option f (fmlookup (rs_sourceSets s) sid) else fmlookup (rs_sourceSets s) t)"
  by (auto simp: update_set_def split: option.split)

lemma update_set_simps [simp]:
  "rs_activations (update_set sid f s) = rs_activations s"
  "rs_nextCompletion (update_set sid f s) = rs_nextCompletion s"
  "rs_completed (update_set sid f s) = rs_completed s"
  "rs_iterSources (update_set sid f s) = rs_iterSources s"
  by (simp_all add: update_set_def split: option.split)

lemma with_state_simps [simp]:
  "ex_state (with_state s ex) = s" "ex_step (with_state s ex) = ex_step ex"
  "ex_compiled (with_state s ex) = ex_compiled ex" "ex_outputs (with_state s ex) = ex_outputs ex"
  by (simp_all add: with_state_def)

text \<open>The outcome a loser gets when it is the \<open>n\<close>-th to be cancelled.\<close>

definition canceled_outcome :: "activation \<Rightarrow> int \<Rightarrow> branchOutcome" where
  "canceled_outcome item n =
     \<lparr>bo_activation = item, bo_result = zero_result, bo_cause = Some (Sentinel ContextCanceled),
      bo_phase = branchCanceled, bo_completion = n, bo_committed = False\<rparr>"

definition outcomes_of :: "string \<Rightarrow> runState \<Rightarrow> (string, branchOutcome) fmap" where
  "outcomes_of sid s =
     (case fmlookup (rs_sourceSets s) sid of None \<Rightarrow> fmempty | Some sset \<Rightarrow> ss_outcomes sset)"

fun add_canceled :: "activation list \<Rightarrow> int \<Rightarrow> (string, branchOutcome) fmap \<Rightarrow> (string, branchOutcome) fmap" where
  "add_canceled [] n m = m"
| "add_canceled (item # items) n m =
     add_canceled items (n + 1) (fmupd (ac_id item) (canceled_outcome item (n + 1)) m)"

lemma cancelActivation_frame:
  "cancelActivation aid c s = Inr s' \<Longrightarrow> rs_queue s' = rs_queue s \<and> rs_sourceSets s' = rs_sourceSets s \<and>
     rs_nextCompletion s' = rs_nextCompletion s"
  by (auto simp: cancelActivation_def put_record_def split: if_splits)

lemma cancelNext_Some:
  assumes "cancelNextQueuedBranch sid selected s = (None, Some out, s')"
  obtains ys item zs where "rs_queue s = ys @ item # zs" "rs_queue s' = ys @ zs"
    "loses sid selected item" "\<forall>x \<in> set ys. \<not> loses sid selected x"
    "out = canceled_outcome item (rs_nextCompletion s + 1)"
    "rs_nextCompletion s' = rs_nextCompletion s + 1"
    "fmlookup (rs_sourceSets s) sid \<noteq> None \<Longrightarrow>
       outcomes_of sid s' = fmupd (ac_id item) out (outcomes_of sid s)"
    "fmlookup (rs_sourceSets s') sid = None \<longleftrightarrow> fmlookup (rs_sourceSets s) sid = None"
proof -
  from assms obtain ys item zs where q: "rs_queue s = ys @ item # zs"
    "loses sid selected item" "\<forall>x \<in> set ys. \<not> loses sid selected x"
    and sp: "split_first (loses sid selected) (rs_queue s) = Some (ys, item, zs)"
    by (auto simp: cancelNextQueuedBranch_def split_first_Some split: option.splits)
  let ?s1 = "s\<lparr>rs_queue := ys @ zs, rs_nextCompletion := rs_nextCompletion s + 1\<rparr>"
  from assms sp obtain s2 where c: "cancelActivation (ac_id item) (Some (Sentinel ContextCanceled)) ?s1 = Inr s2"
    by (auto simp: cancelNextQueuedBranch_def Let_def split: sum.splits)
  note f = cancelActivation_frame [OF c]
  have out: "out = canceled_outcome item (rs_nextCompletion s + 1)"
    and s': "s' = (update_set sid (\<lambda>sset. sset\<lparr>ss_outcomes := fmupd (ac_id item) out (ss_outcomes sset)\<rparr>) s2)
      \<lparr>rs_completed := bump (ac_node item) (rs_completed s2)\<rparr>"
    using assms sp c by (auto simp: cancelNextQueuedBranch_def Let_def canceled_outcome_def)
  show thesis
    by (rule that [OF q(1) _ q(2,3) out])
       (use f in \<open>auto simp: s' outcomes_of_def update_set_lookup split: option.split\<close>)
qed

lemma cancelQueued_spec:
  assumes "cancelQueuedBranches rt sid selected ex w = (None, ex', w')"
    "fmlookup (rs_sourceSets (ex_state ex)) sid \<noteq> None"
  shows "rs_queue (ex_state ex') = filter (\<lambda>i. \<not> loses sid selected i) (rs_queue (ex_state ex)) \<and>
    outcomes_of sid (ex_state ex') =
      add_canceled (filter (loses sid selected) (rs_queue (ex_state ex)))
        (rs_nextCompletion (ex_state ex)) (outcomes_of sid (ex_state ex)) \<and>
    rs_nextCompletion (ex_state ex') = rs_nextCompletion (ex_state ex) +
      int (length (filter (loses sid selected) (rs_queue (ex_state ex))))"
  using assms
proof (induction rt sid selected ex w rule: cancelQueuedBranches.induct)
  case (1 rt sid selected ex w)
  obtain err out s where n: "cancelNextQueuedBranch sid selected (ex_state ex) = (err, out, s)"
    using prod_cases3 by blast
  with "1.prems"(1) have err: "err = None"
    by (subst (asm) cancelQueuedBranches.simps) (auto split: option.splits)
  show ?case
  proof (cases out)
    case None
    with n err have "s = ex_state ex" "\<forall>x \<in> set (rs_queue (ex_state ex)). \<not> loses sid selected x"
      by (auto simp: cancelNextQueuedBranch_def Let_def split_first_None split: option.splits sum.splits)
    moreover from n err None "1.prems"(1) have "ex' = with_state s ex"
      by (subst (asm) cancelQueuedBranches.simps) simp
    ultimately show ?thesis by (simp add: filter_id_conv filter_empty_conv)
  next
    case (Some o')
    note n' = n [unfolded err Some]
    from n' obtain ys item zs where q: "rs_queue (ex_state ex) = ys @ item # zs" "rs_queue s = ys @ zs"
      "loses sid selected item" "\<forall>x \<in> set ys. \<not> loses sid selected x"
      "o' = canceled_outcome item (rs_nextCompletion (ex_state ex) + 1)"
      "rs_nextCompletion s = rs_nextCompletion (ex_state ex) + 1"
      "outcomes_of sid s = fmupd (ac_id item) o' (outcomes_of sid (ex_state ex))"
      "fmlookup (rs_sourceSets s) sid \<noteq> None"
      using "1.prems"(2) by (elim cancelNext_Some) auto
    obtain err1 ex1 w1 where c: "commit_node_event rt (ac_id (bo_activation o')) (outcome_eventType o')
        (bo_phase o') (ex_step ex) (with_state s ex) w = (err1, ex1, w1)" using prod_cases3 by blast
    from "1.prems"(1) n' c have err1: "err1 = None"
      by (subst (asm) cancelQueuedBranches.simps) (auto split: option.splits)
    have st: "ex_state ex1 = s" using commit_node_event_plan [OF c] by (simp add: same_plan_def)
    from "1.prems"(1) n' c err1 have r: "cancelQueuedBranches rt sid selected ex1 w1 = (None, ex', w')"
      by (subst (asm) cancelQueuedBranches.simps) simp
    have f: "filter (loses sid selected) ys = []" "filter (\<lambda>i. \<not> loses sid selected i) ys = ys"
      using q(4) by (simp_all add: filter_empty_conv filter_id_conv)
    show ?thesis
      using "1.IH" [OF n' [symmetric] refl refl refl c [symmetric] err1 refl r] q st f by simp
  qed
qed

lemma add_canceled_other: "aid \<notin> ac_id ` set items \<Longrightarrow> fmlookup (add_canceled items n m) aid = fmlookup m aid"
  by (induction items arbitrary: n m) auto

lemma add_canceled_nth:
  "distinct (map ac_id items) \<Longrightarrow> i < length items \<Longrightarrow>
   fmlookup (add_canceled items n m) (ac_id (items ! i)) = Some (canceled_outcome (items ! i) (n + int i + 1))"
proof (induction items arbitrary: n m i)
  case (Cons item items)
  then show ?case
    by (cases i) (auto simp: add_canceled_other)
qed simp

text \<open>
  Losers leave the queue. When a source set is released or fails, the queued branches that
  were not selected leave the queue and the other activations keep their order. The losers become
  cancelled outcomes, numbered as completions in queue order right after all earlier ones, and no
  other outcome of the set changes. The loop ends.
\<close>

theorem losers_leave_the_queue:
  assumes "cancelQueuedBranches rt sid selected ex w = (None, ex', w')"
    and "fmlookup (rs_sourceSets (ex_state ex)) sid \<noteq> None"
    and "losers = filter (loses sid selected) (rs_queue (ex_state ex))" "distinct (map ac_id losers)"
  shows "rs_queue (ex_state ex') = filter (\<lambda>item. \<not> loses sid selected item) (rs_queue (ex_state ex)) \<and>
    rs_nextCompletion (ex_state ex') = rs_nextCompletion (ex_state ex) + int (length losers) \<and>
    (\<forall>i < length losers. fmlookup (outcomes_of sid (ex_state ex')) (ac_id (losers ! i)) =
       Some (canceled_outcome (losers ! i) (rs_nextCompletion (ex_state ex) + int i + 1))) \<and>
    (\<forall>aid. aid \<notin> ac_id ` set losers \<longrightarrow>
       fmlookup (outcomes_of sid (ex_state ex')) aid = fmlookup (outcomes_of sid (ex_state ex)) aid)"
  using cancelQueued_spec [OF assms(1,2), folded assms(3)] add_canceled_nth [OF assms(4)]
    add_canceled_other [of _ losers] by simp

definition branch_activation :: "string \<Rightarrow> activation" where
  "branch_activation aid = (sample_activation aid)\<lparr>ac_sourceSet := ''s''\<rparr>"

definition open_set :: sourceSet where
  "open_set = (sample_set SettleAny)\<lparr>ss_outcomes := fmempty\<rparr>"

definition losing_state :: runState where
  "losing_state = trackActivation (branch_activation ''b'') (zero_state\<lparr>
     rs_queue := [branch_activation ''a'', branch_activation ''b'', sample_activation ''c''],
     rs_nextCompletion := 4, rs_sourceSets := fmupd ''s'' open_set fmempty\<rparr>)"

lemma losing_cancelled:
  "\<exists>ex' w'. cancelQueuedBranches log_runtime ''s'' [''a''] (plain_run losing_state) [] = (None, ex', w')"
proof -
  obtain out s1 where n: "cancelNextQueuedBranch ''s'' [''a''] losing_state = (None, Some out, s1)"
    and q: "rs_queue s1 = [branch_activation ''a'', sample_activation ''c'']"
    and r: "fmlookup (rs_activations s1) ''b'' \<noteq> None" and o': "ac_id (bo_activation out) = ''b''"
    by (simp add: cancelNextQueuedBranch_def losing_state_def branch_activation_def sample_activation_def
        loses_def cancelActivation_def trackActivation_def activation_record_def new_record_def
        andthen_def put_record_def update_set_def Let_def zero_state_def)
  have "cp_ID (ex_checkpoint (with_state s1 (plain_run losing_state))) = []"
    "ex_sinkFailure (with_state s1 (plain_run losing_state)) = None"
    by (simp_all add: with_state_def)
  from log_commit [OF this] r obtain ex1 w1 where
    c: "commit_node_event log_runtime (ac_id (bo_activation out)) (outcome_eventType out) (bo_phase out)
      (ex_step (plain_run losing_state)) (with_state s1 (plain_run losing_state)) [] = (None, ex1, w1)"
    and st: "same_plan (with_state s1 (plain_run losing_state)) ex1"
    by (fastforce simp: commit_node_event_def nodeEvent_def activation_record_def andthen_def o')
  have "cancelNextQueuedBranch ''s'' [''a''] s1 = (None, None, s1)"
    by (simp add: cancelNextQueuedBranch_def q loses_def branch_activation_def sample_activation_def)
  then have "cancelQueuedBranches log_runtime ''s'' [''a''] ex1 w1 = (None, with_state s1 ex1, w1)"
    using st by (subst cancelQueuedBranches.simps) (simp add: same_plan_def)
  then show ?thesis
    by (subst cancelQueuedBranches.simps) (simp add: n c)
qed

theorem losers_leave_the_queue_witness:
  "case cancelQueuedBranches log_runtime ''s'' [''a''] (plain_run losing_state) [] of
      (err, ex', w') \<Rightarrow> err = None \<and>
        rs_queue (ex_state ex') = [branch_activation ''a'', sample_activation ''c''] \<and>
        fmlookup (outcomes_of ''s'' (ex_state ex')) ''b'' = Some (canceled_outcome (branch_activation ''b'') 5)"
proof -
  from losing_cancelled obtain ex' w' where
    c: "cancelQueuedBranches log_runtime ''s'' [''a''] (plain_run losing_state) [] = (None, ex', w')" by blast
  have "filter (loses ''s'' [''a'']) (rs_queue (ex_state (plain_run losing_state))) = [branch_activation ''b'']"
    "rs_nextCompletion losing_state = 4" "rs_queue losing_state =
      [branch_activation ''a'', branch_activation ''b'', sample_activation ''c'']"
    "fmlookup (rs_sourceSets (ex_state (plain_run losing_state))) ''s'' \<noteq> None"
    by (simp_all add: losing_state_def loses_def branch_activation_def sample_activation_def
        trackActivation_def zero_state_def)
  with losers_leave_the_queue [OF c this(4) this(1) [symmetric]]
  have "rs_queue (ex_state ex') = [branch_activation ''a'', sample_activation ''c'']"
    "fmlookup (outcomes_of ''s'' (ex_state ex')) ''b'' = Some (canceled_outcome (branch_activation ''b'') 5)"
    by (simp_all add: loses_def) (simp_all add: branch_activation_def sample_activation_def)
  then show ?thesis by (simp add: c)
qed

section \<open>Pulling an item\<close>

lemma drop_losers_step: "failSourceSet rt sid ex w = (err, ex', w') \<Longrightarrow> err \<noteq> None"
  by (auto simp: failSourceSet_def Let_def split: prod.splits option.splits)

lemma failIterSource_fails: "failIterSource rt source cause ex w = (err, ex', w') \<Longrightarrow> err \<noteq> None"
  by (auto simp: failIterSource_def Let_def split: sum.splits prod.splits option.splits dest: drop_losers_step)

lemma enqueue_iterSources: "rs_iterSources (snd (enqueue req s)) = rs_iterSources s"
  by (simp add: enqueue_def Let_def trackActivation_def trackCorrelation_def split: option.split)

lemma captureCursor_keeps:
  "is_pulled (snd (captureCursor cp n src)) = is_pulled src" "is_open (snd (captureCursor cp n src)) = is_open src"
  by (simp_all add: captureCursor_def split: option.split callback.split)

text \<open>What a successful pull of a value does to the state.\<close>

definition item_request :: "execution \<Rightarrow> iterSource \<Rightarrow> activation \<Rightarrow> sourceSet \<Rightarrow> govalue \<Rightarrow> enqueueRequest" where
  "item_request ex source item sset v =
     \<lparr>er_target = is_target source, er_input = v, er_sourceSet = is_sourceSet source,
      er_branchIndex = ss_expected sset,
      er_correlation = nextCorrelation (co_backEdges (ex_compiled ex)) (ac_correlation item) (ac_node item) (is_target source)\<rparr>"

lemma pull_value:
  assumes "pullIterSource rt source ex w = (None, ex', w')"
    and live: "fmlookup (rs_liveIters (ex_state ex)) (is_id source) = Some live"
    and v: "li_sequence live (li_position live) = PullValue v"
  obtains item sset source1 where
    "fmlookup (rs_sourceSets (ex_state ex)) (is_sourceSet source) = Some sset"
    "captureCursor (li_checkpoint live) (li_position live + 1) (source\<lparr>is_pulled := is_pulled source + 1\<rparr>) = (None, source1)"
    "ex_state ex' = update_iter (is_id source) (\<lambda>_. source1) (snd (enqueue (item_request ex source item sset v)
       (update_set (is_sourceSet source) addExpectedBranch ((ex_state ex)\<lparr>rs_liveIters := fmupd (is_id source)
         (live\<lparr>li_position := li_position live + 1\<rparr>) (rs_liveIters (ex_state ex))\<rparr>))))"
    "ex_compiled ex' = ex_compiled ex"
proof -
  define live1 where "live1 = live\<lparr>li_position := li_position live + 1\<rparr>"
  define ex1 where "ex1 = with_state ((ex_state ex)\<lparr>rs_liveIters :=
    fmupd (is_id source) live1 (rs_liveIters (ex_state ex))\<rparr>) ex"
  from assms obtain item sset where it: "iterSourceState source (ex_state ex1) = Inr (item, sset)"
    by (auto simp: pullIterSource_def live_pull_def Let_def ex1_def live1_def split: sum.splits)
  then have look: "fmlookup (rs_sourceSets (ex_state ex)) (is_sourceSet source) = Some sset"
    by (auto simp: iterSourceState_def ex1_def split: option.splits)
  define s2 where "s2 = update_set (is_sourceSet source) addExpectedBranch (ex_state ex1)"
  obtain queued s3 where q: "enqueue (item_request ex1 source item sset v) s2 = (queued, s3)" by (metis surj_pair)
  obtain err source1 where c: "captureCursor (li_checkpoint live1) (li_position live1)
      (source\<lparr>is_pulled := is_pulled source + 1\<rparr>) = (err, source1)" by (metis surj_pair)
  define ex4 where "ex4 = with_state (update_iter (is_id source) (\<lambda>_. source1) s3) ex1"
  have p: "pullIterSource rt source ex w =
     (case (case fmlookup (co_nodes (ex_compiled ex1)) (is_target source) of
              None \<Rightarrow> Some (Msg ''nil target node'') | Some n \<Rightarrow> validateActivationPayload v n) of
        Some e \<Rightarrow> failIterSource rt source e ex1 w
      | None \<Rightarrow> (case err of
          Some e \<Rightarrow> failIterSource rt source1 e ex4 w
        | None \<Rightarrow> commit_preserved rt (iter_event source1 EventIterItemPulled (ac_correlation item)) (ex_step ex4) ex4 w))"
    by (simp only: pullIterSource_def live v live_pull_def Let_def option.case prod.case pulled.case
        live1_def [symmetric] ex1_def [symmetric] it sum.case s2_def [symmetric] item_request_def [symmetric] q c
        ex4_def [symmetric])
  have cm: "commit_preserved rt (iter_event source1 EventIterItemPulled (ac_correlation item)) (ex_step ex4) ex4 w = (None, ex', w')"
    and none: "err = None"
    using assms(1) p by (auto split: option.splits dest: failIterSource_fails)
  have "ex_state ex' = update_iter (is_id source) (\<lambda>_. source1) s3" "ex_compiled ex' = ex_compiled ex"
    using commit_preserved_plan [OF cm] by (simp_all add: same_plan_def ex4_def ex1_def)
  moreover have "s3 = snd (enqueue (item_request ex source item sset v) s2)"
    using q by (simp add: item_request_def ex1_def)
  ultimately show thesis
    using that [OF look, of source1 item] c none by (simp add: live1_def s2_def ex1_def)
qed

text \<open>
  One item, one branch. A successful pull of an item appends exactly one activation to the
  queue, for the iterator's target, with the item as its input; it joins the source set as its next
  branch, under the index that the set expected next, and the iterator counts one more item.
\<close>

theorem pulled_item_becomes_branch:
  assumes "pullIterSource rt source ex w = (None, ex', w')"
    and "fmlookup (rs_liveIters (ex_state ex)) (is_id source) = Some live"
    and "li_sequence live (li_position live) = PullValue v"
    and "fmlookup (rs_sourceSets (ex_state ex)) (is_sourceSet source) = Some sset"
    and "fmlookup (rs_iterSources (ex_state ex)) (is_id source) = Some source"
  shows "\<exists>item source1. rs_queue (ex_state ex') = rs_queue (ex_state ex) @ [item] \<and>
    ac_node item = is_target source \<and> ac_input item = v \<and> ac_sourceSet item = is_sourceSet source \<and>
    ac_branchIndex item = ss_expected sset \<and>
    fmlookup (rs_sourceSets (ex_state ex')) (is_sourceSet source) =
      Some (sset\<lparr>ss_expected := ss_expected sset + 1, ss_branches := ss_branches sset @ [ac_id item]\<rparr>) \<and>
    fmlookup (rs_iterSources (ex_state ex')) (is_id source) = Some source1 \<and>
    is_pulled source1 = is_pulled source + 1 \<and> is_open source1 = is_open source"
proof -
  from pull_value [OF assms(1-3)] obtain item sset' source1 where
    "fmlookup (rs_sourceSets (ex_state ex)) (is_sourceSet source) = Some sset'"
    and c: "captureCursor (li_checkpoint live) (li_position live + 1) (source\<lparr>is_pulled := is_pulled source + 1\<rparr>) = (None, source1)"
    and st0: "ex_state ex' = update_iter (is_id source) (\<lambda>_. source1) (snd (enqueue (item_request ex source item sset' v)
       (update_set (is_sourceSet source) addExpectedBranch ((ex_state ex)\<lparr>rs_liveIters := fmupd (is_id source)
         (live\<lparr>li_position := li_position live + 1\<rparr>) (rs_liveIters (ex_state ex))\<rparr>))))" by metis
  then have "sset' = sset" using assms(4) by simp
  note st0 = st0 [unfolded this]
  define s2 where "s2 = update_set (is_sourceSet source) addExpectedBranch ((ex_state ex)\<lparr>rs_liveIters :=
    fmupd (is_id source) (live\<lparr>li_position := li_position live + 1\<rparr>) (rs_liveIters (ex_state ex))\<rparr>)"
  obtain queued s3 where q: "enqueue (item_request ex source item sset v) s2 = (queued, s3)" by (metis surj_pair)
  have st: "ex_state ex' = update_iter (is_id source) (\<lambda>_. source1) s3"
    using st0 q by (simp add: s2_def)
  have pulled: "is_pulled source1 = is_pulled source + 1" "is_open source1 = is_open source"
    using captureCursor_keeps [of "li_checkpoint live" "li_position live + 1" "source\<lparr>is_pulled := is_pulled source + 1\<rparr>"]
    unfolding c by simp_all
  have sets: "fmlookup (rs_sourceSets s2) (is_sourceSet source) = Some (sset\<lparr>ss_expected := ss_expected sset + 1\<rparr>)"
    by (simp add: s2_def update_set_lookup assms(4) addExpectedBranch_def)
  have iters: "rs_iterSources s3 = rs_iterSources (ex_state ex)" "rs_queue s2 = rs_queue (ex_state ex)"
    using enqueue_iterSources [of "item_request ex source item sset v" s2, unfolded q] by (simp_all add: s2_def)
  have qs: "rs_queue s3 = rs_queue s2 @ [queued]" "ac_node queued = is_target source" "ac_input queued = v"
    "ac_sourceSet queued = is_sourceSet source" "ac_branchIndex queued = ss_expected sset"
    "ac_id queued = activation_id (rs_nextActSeq s2)"
    using enqueue_simps(2) [of "item_request ex source item sset v" s2, unfolded q] q
    by (auto simp: enqueue_def Let_def item_request_def)
  have ss: "rs_sourceSets s3 = fmupd (is_sourceSet source)
      (sset\<lparr>ss_expected := ss_expected sset + 1, ss_branches := ss_branches sset @ [ac_id queued]\<rparr>) (rs_sourceSets s2)"
    using enqueue_sourceSets [of "item_request ex source item sset v" s2, unfolded q] sets qs(6)
    by (simp add: item_request_def)
  show ?thesis
    using qs ss iters pulled st assms(5)
    by (intro exI [of _ queued] exI [of _ source1]) (simp add: update_iter_def)
qed

definition two_items :: "nat \<Rightarrow> pulled" where
  "two_items i = (if i < 2 then PullValue plain_value else PullEnd)"

definition item_source :: iterSource where
  "item_source = \<lparr>is_id = ''iter-1'', is_sourceID = ''act-1'', is_target = ''a'', is_sourceSet = ''s'',
     is_deliveryIndex = 0, is_pulled = 1, is_cursor = VNil, is_hasCursor = False, is_replay = False,
     is_open = True, is_cause = None\<rparr>"

definition pulling_state :: runState where
  "pulling_state = trackActivation (sample_activation ''act-1'') (zero_state\<lparr>
     rs_sourceSets := fmupd ''s'' open_set fmempty, rs_nextActSeq := 5,
     rs_iterSources := fmupd ''iter-1'' item_source fmempty,
     rs_liveIters := fmupd ''iter-1'' \<lparr>li_sequence = two_items, li_position = 1, li_checkpoint = None\<rparr> fmempty\<rparr>)"

lemma pulling_pulled:
  "\<exists>ex' w'. pullIterSource log_runtime item_source (plain_run pulling_state) [] = (None, ex', w')"
proof -
  have v: "validateActivationPayload plain_value (plain_node ''a'' False) = None"
    by (simp add: validateActivationPayload_def plain_node_def type_any_def assignable_to_def)
  have nodes: "fmlookup (co_nodes late_plan) ''a'' = Some (plain_node ''a'' False)"
    by (simp add: late_plan_def)
  have state: "fmlookup (rs_liveIters pulling_state) ''iter-1'' =
      Some \<lparr>li_sequence = two_items, li_position = 1, li_checkpoint = None\<rparr>"
    "fmlookup (rs_activations pulling_state) ''act-1'' = Some (new_record (sample_activation ''act-1''))"
    "fmlookup (rs_sourceSets pulling_state) ''s'' = Some open_set"
    by (simp_all add: pulling_state_def trackActivation_def zero_state_def sample_activation_def)
  have src: "is_id item_source = ''iter-1''" "is_sourceID item_source = ''act-1''"
    "is_sourceSet item_source = ''s''" "is_target item_source = ''a''"
    by (simp_all add: item_source_def)
  have "fst (pullIterSource log_runtime item_source (plain_run pulling_state) []) = None"
    by (simp add: pullIterSource_def src state live_pull_def two_items_def iterSourceState_def nodes v
        captureCursor_def Let_def with_state_def split: prod.split)
  then show ?thesis by (metis prod.collapse)
qed

theorem pulled_item_becomes_branch_witness:
  "case pullIterSource log_runtime item_source (plain_run pulling_state) [] of
     (err, ex', w') \<Rightarrow> err = None \<and>
       (\<exists>item. rs_queue (ex_state ex') = [item] \<and> ac_node item = ''a'' \<and> ac_input item = plain_value \<and>
          ac_branchIndex item = 3)"
proof -
  from pulling_pulled obtain ex' w' where
    c: "pullIterSource log_runtime item_source (plain_run pulling_state) [] = (None, ex', w')" by blast
  have state: "fmlookup (rs_liveIters (ex_state (plain_run pulling_state))) (is_id item_source) =
      Some \<lparr>li_sequence = two_items, li_position = 1, li_checkpoint = None\<rparr>"
    "fmlookup (rs_sourceSets (ex_state (plain_run pulling_state))) (is_sourceSet item_source) = Some open_set"
    "fmlookup (rs_iterSources (ex_state (plain_run pulling_state))) (is_id item_source) = Some item_source"
    "rs_queue pulling_state = []"
    by (simp_all add: pulling_state_def trackActivation_def zero_state_def sample_activation_def item_source_def)
  have "\<exists>item source1. rs_queue (ex_state ex') = [item] \<and> ac_node item = ''a'' \<and> ac_input item = plain_value \<and>
      ac_branchIndex item = 3"
    using pulled_item_becomes_branch [OF c state(1) _ state(2,3), of plain_value] state(4)
    by (auto simp: two_items_def item_source_def open_set_def sample_set_def)
  then show ?thesis by (simp add: c)
qed

section \<open>Restarting an iterator\<close>

lemma skipIterator_spec:
  "fst (skipIterator n live) = None \<longleftrightarrow> (\<forall>i < n. \<exists>v. li_sequence live (li_position live + i) = PullValue v)"
  "fst (skipIterator n live) = None \<Longrightarrow> snd (skipIterator n live) = live\<lparr>li_position := li_position live + n\<rparr>"
proof (induction n arbitrary: live)
  case (Suc n)
  case 1
  show ?case
    using Suc(1) [of "live\<lparr>li_position := li_position live + 1\<rparr>"]
    by (auto simp: live_pull_def less_Suc_eq_0_disj split: pulled.splits)
next
  case (Suc n)
  case 2
  then show ?case
    using Suc(2) [of "live\<lparr>li_position := li_position live + 1\<rparr>"]
    by (auto simp: live_pull_def split: pulled.splits)
qed simp_all

text \<open>
  Iterators resume in place. An iterator that cannot replay is bound again after a
  restart by calling its factory and skipping what it had yielded: when that succeeds, the live iterator
  stands right behind the items counted before the restart, every one of which the new sequence
  yields again as a value, and nothing else of the run changes.
\<close>

theorem iterator_resumes_in_place:
  assumes "bindIterSource source ex = (None, ex')" "\<not> is_replay source" "is_pulled source = int k"
  shows "\<exists>live. ex' = with_state ((ex_state ex)\<lparr>rs_liveIters :=
      fmupd (is_id source) live (rs_liveIters (ex_state ex))\<rparr>) ex \<and>
    li_position live = k \<and> (\<forall>i < k. \<exists>v. li_sequence live i = PullValue v)"
proof -
  from assms(1) obtain f cp s1 where
    s1: "s1 = bindLiveIterator (is_id source) f cp (ex_state ex)"
    and r: "(if \<not> is_replay source \<and> is_pulled source > 0
      then (case skipIterator (nat (is_pulled source)) (the (fmlookup (rs_liveIters s1) (is_id source))) of
          (err, live) \<Rightarrow> (err, with_state (s1\<lparr>rs_liveIters := fmupd (is_id source) live (rs_liveIters s1)\<rparr>) ex))
      else (None, with_state s1 ex)) = (None, ex')"
    unfolding bindIterSource_def Let_def
    by (auto split: option.splits if_splits sum.splits simp del: andthen_Inr_iff)
  define live0 where "live0 = \<lparr>li_sequence = f, li_position = 0, li_checkpoint = cp\<rparr>"
  have l: "fmlookup (rs_liveIters s1) (is_id source) = Some live0"
    by (simp add: s1 bindLiveIterator_def live0_def)
  show ?thesis
  proof (cases "k = 0")
    case True
    with r assms show ?thesis
      by (intro exI [of _ live0]) (simp add: s1 bindLiveIterator_def live0_def)
  next
    case False
    obtain err live where sk: "skipIterator k live0 = (err, live)" by (metis surj_pair)
    with False r assms l have "err = None" and
      ex': "ex' = with_state (s1\<lparr>rs_liveIters := fmupd (is_id source) live (rs_liveIters s1)\<rparr>) ex"
      by simp_all
    with skipIterator_spec [of k live0] sk have
      "\<forall>i < k. \<exists>v. li_sequence live0 i = PullValue v" "live = live0\<lparr>li_position := k\<rparr>"
      by (simp_all add: live0_def)
    with ex' show ?thesis
      by (intro exI [of _ live]) (simp add: s1 bindLiveIterator_def)
  qed
qed

definition item_node :: node where
  "item_node = (plain_node ''e'' False)\<lparr>nd_route := Some (\<lambda>out. Return (zero_Dispatch\<lparr>dp_deliveries :=
     [zero_delivery\<lparr>dl_target := ''a'', dl_iter := Some (Sequence two_items)\<rparr>]\<rparr>))\<rparr>"

definition rebinding_run :: execution where
  "rebinding_run = (plain_run (zero_state\<lparr>rs_activations := fmupd ''act-1''
      ((new_record ((sample_activation ''act-1'')\<lparr>ac_node := ''e''\<rparr>))\<lparr>ar_hasResult := True,
         ar_result := zero_result\<lparr>nr_output := plain_value\<rparr>\<rparr>) fmempty\<rparr>))
      \<lparr>ex_compiled := late_plan\<lparr>co_nodes := fmupd ''e'' item_node (co_nodes late_plan)\<rparr>\<rparr>"

lemma rebinding_binds: "\<exists>ex'. bindIterSource item_source rebinding_run = (None, ex')"
  by (simp add: bindIterSource_def rebinding_run_def plain_run_def item_source_def item_node_def plain_node_def
      new_record_def routeAny_def applyRouteMiddlewares_def late_plan_def validateSource_def zero_Dispatch_def
      zero_delivery_def validateIterReplay_def restoredSequence_def callIterFactory_def
      bindLiveIterator_def live_pull_def two_items_def sample_activation_def type_any_def has_type_def
      assignable_to_def invokeCallback_def andthen_def Let_def)

theorem iterator_resumes_in_place_witness:
  "case bindIterSource item_source rebinding_run of
     (err, ex') \<Rightarrow> err = None \<and> (\<exists>live. fmlookup (rs_liveIters (ex_state ex')) ''iter-1'' = Some live \<and> li_position live = 1)"
proof -
  from rebinding_binds obtain ex' where c: "bindIterSource item_source rebinding_run = (None, ex')" by blast
  have "\<not> is_replay item_source" "is_pulled item_source = int 1" "is_id item_source = ''iter-1''"
    by (simp_all add: item_source_def)
  from iterator_resumes_in_place [OF c this(1,2)] this(3) show ?thesis
    by (auto simp: c)
qed

end
