(* ===== verification/Course.thy ===== *)
theory Course
  imports Branches
begin

text \<open>
  What moves a run forward: only a committed batch moves its step counter, by the length of
  the batch, and no step changes its plan; hooks are assumed to emit events only.
\<close>

section \<open>The step counter\<close>

definition on_course :: "execution \<Rightarrow> execution \<Rightarrow> bool" where
  "on_course a b \<longleftrightarrow> ex_step b = ex_step a \<and> ex_compiled b = ex_compiled a"

lemma on_course_refl [simp]: "on_course a a"
  by (simp add: on_course_def)

lemma on_course_with_state [simp]:
  "on_course a (with_state s b) = on_course a b" "on_course (with_state s a) b = on_course a b"
  by (simp_all add: on_course_def)

lemma on_course_trans: "on_course a b \<Longrightarrow> on_course b c \<Longrightarrow> on_course a c"
  by (simp add: on_course_def)

lemma same_plan_course: "same_plan a b \<Longrightarrow> on_course a b"
  by (simp add: same_plan_def on_course_def)

lemmas commit_node_event_course = commit_node_event_plan [THEN same_plan_course]
  and commit_preserved_course = commit_preserved_plan [THEN same_plan_course]

text \<open>Hooks get a context and emit events; they do not reach the scheduler of their run.\<close>

definition emits_only :: "('c, execution \<times> 'w) LifecycleHook \<Rightarrow> bool" where
  "emits_only h \<longleftrightarrow> (\<forall>c xw. same_plan (fst xw) (fst (snd (the (lh_Fn h) c xw))))"

definition hooks_emit_only :: "'w runtime \<Rightarrow> bool" where
  "hooks_emit_only rt \<longleftrightarrow> (\<forall>h \<in> set (rt_afterWorkflow rt). emits_only h)"

lemma same_plan_trans: "same_plan a b \<Longrightarrow> same_plan b c \<Longrightarrow> same_plan a c"
  by (simp add: same_plan_def)

lemma same_plan_refl [simp]: "same_plan a a"
  by (simp add: same_plan_def)

lemma emit_event_plan: "emit_event sv e ex w = (err, ex', w') \<Longrightarrow> same_plan ex ex'"
  by (auto simp: emit_event_def emitLocked_def split: if_splits dest!: emitLockedWithContexts_plan)

lemmas emit_event_course = emit_event_plan [THEN same_plan_course]

lemma run_emitter_plan: "run_emitter rt ty summary xw = (err, xw') \<Longrightarrow> same_plan (fst xw) (fst xw')"
  by (cases xw') (auto simp: run_emitter_def Let_def split: prod.splits dest: emit_event_plan)

lemma hook_run_plan:
  assumes "hook_run (run_emitter rt) h c xw = (r, xw')" "emits_only h"
  shows "same_plan (fst xw) (fst xw')"
proof -
  obtain e1 x1 where a: "run_emitter rt EventLifecycleHookStarted (lh_Name h) xw = (e1, x1)" by (metis surj_pair)
  obtain r2 x2 where b: "the (lh_Fn h) c x1 = (r2, x2)" by (metis surj_pair)
  have "same_plan (fst x1) (fst x2)" using assms(2) b unfolding emits_only_def by (metis snd_conv)
  then show ?thesis
    using assms(1) run_emitter_plan [OF a]
    by (auto simp: hook_run_def a b Let_def split: option.splits sum.splits prod.splits
        dest!: run_emitter_plan intro: same_plan_trans)
qed

lemma hooks_plan:
  assumes "runLifecycleHooks (run_emitter rt) hooks c xw = (r, xw')" "\<forall>h \<in> set hooks. emits_only h"
  shows "same_plan (fst xw) (fst xw')"
  using assms
proof (induction hooks arbitrary: c xw)
  case (Cons h hs)
  obtain e1 c1 x1 where h: "hook_run (run_emitter rt) h c xw = ((e1, c1), x1)" by (metis surj_pair)
  have x1: "same_plan (fst xw) (fst x1)"
    by (rule hook_run_plan [OF h]) (use Cons.prems(2) in simp)
  show ?case
  proof (cases e1)
    case None
    with Cons.prems(1) h have "runLifecycleHooks (run_emitter rt) hs c1 x1 = (r, xw')" by simp
    from same_plan_trans [OF x1 Cons.IH [OF this]] Cons.prems(2) show ?thesis by simp
  qed (use Cons.prems(1) h x1 in auto)
qed simp

lemma collectOutput_keeps:
  assumes "collectOutput rt name out ex w = (err, ex', w')" "hooks_emit_only rt"
  shows "on_course ex ex'" "ex_state ex' = ex_state ex"
proof -
  obtain e1 c1 ex1 w1 where h: "runLifecycleHooks (run_emitter rt) (rt_afterWorkflow rt) (rt_input rt, out) (ex, w) =
      ((e1, c1), (ex1, w1))" by (metis surj_pair)
  have "same_plan ex ex1"
    using hooks_plan [OF h] assms(2) by (simp add: hooks_emit_only_def)
  then show "on_course ex ex'" "ex_state ex' = ex_state ex"
    using assms(1) by (auto simp: collectOutput_def h on_course_def same_plan_def split: if_splits option.splits)
qed

lemmas collectOutput_course = collectOutput_keeps(1)

lemma flushOutputs_course: "flushOutputs rt ex = (err, ex') \<Longrightarrow> on_course ex ex'"
  by (auto simp: flushOutputs_def on_course_def split: option.splits prod.splits bool.splits)

lemma route_run_course: "route_run rt a out m ex = (err, ex') \<Longrightarrow> on_course ex ex'"
  by (auto simp: route_run_def Let_def split: prod.splits)

text \<open>The steps of settling, releasing, failing and pulling leave the step counter alone.\<close>

lemma cancelQueued_course: "cancelQueuedBranches rt sid selected ex w = (err, ex', w') \<Longrightarrow> on_course ex ex'"
proof (induction rt sid selected ex w rule: cancelQueuedBranches.induct)
  case (1 rt sid selected ex w)
  obtain e out s where n: "cancelNextQueuedBranch sid selected (ex_state ex) = (e, out, s)"
    using prod_cases3 by blast
  show ?case
  proof (cases "e = None \<and> out \<noteq> None")
    case False
    with "1.prems" n show ?thesis
      by (subst (asm) cancelQueuedBranches.simps) (auto split: option.splits)
  next
    case True
    then obtain o' where n': "cancelNextQueuedBranch sid selected (ex_state ex) = (None, Some o', s)"
      using n by auto
    obtain e1 ex1 w1 where c: "commit_node_event rt (ac_id (bo_activation o')) (outcome_eventType o')
        (bo_phase o') (ex_step ex) (with_state s ex) w = (e1, ex1, w1)" using prod_cases3 by blast
    have ex1: "on_course ex ex1" using commit_node_event_course [OF c] by simp
    show ?thesis
    proof (cases e1)
      case None
      from "1.prems" n' c None have "cancelQueuedBranches rt sid selected ex1 w1 = (err, ex', w')"
        by (subst (asm) cancelQueuedBranches.simps) simp
      from on_course_trans [OF ex1 "1.IH" [OF n' [symmetric] refl refl refl c [symmetric] None refl this]]
      show ?thesis .
    next
      case (Some e2)
      with "1.prems" n' c ex1 show ?thesis by (subst (asm) cancelQueuedBranches.simps) simp
    qed
  qed
qed

lemma supersede_course: "supersedeBranches rt sid selected bids ex w = (err, ex', w') \<Longrightarrow> on_course ex ex'"
proof (induction bids arbitrary: ex w)
  case (Cons bid bids)
  then show ?case
    by (auto simp: Let_def split: if_splits prod.splits option.splits
        dest!: commit_node_event_course intro: on_course_trans)
qed simp

lemma drop_losers_course: "drop_losers rt sid selected ex w = (err, ex', w') \<Longrightarrow> on_course ex ex'"
  by (auto simp: drop_losers_def split: prod.splits option.splits
      dest!: cancelQueued_course supersede_course intro: on_course_trans)

lemma releaseBranch_course:
  "releaseBranch rt sid bid ex w = (err, ex', w') \<Longrightarrow> hooks_emit_only rt \<Longrightarrow> on_course ex ex'"
  by (auto simp: releaseBranch_def Let_def split: prod.splits option.splits if_splits
      dest!: route_run_course collectOutput_course commit_node_event_course flushOutputs_course
      intro: on_course_trans) (meson on_course_trans)

lemma release_branches_course:
  "release_branches rt sid bids ex w = (err, ex', w') \<Longrightarrow> hooks_emit_only rt \<Longrightarrow> on_course ex ex'"
proof (induction bids arbitrary: ex w)
  case (Cons bid bids)
  then show ?case
    by (auto split: prod.splits option.splits dest!: releaseBranch_course intro: on_course_trans)
qed simp

lemma releaseSourceSet_course:
  "releaseSourceSet rt sid selected ex w = (err, ex', w') \<Longrightarrow> hooks_emit_only rt \<Longrightarrow> on_course ex ex'"
  by (auto simp: releaseSourceSet_def Let_def split: prod.splits option.splits
      dest!: drop_losers_course release_branches_course intro: on_course_trans)

lemma failSourceSet_course: "failSourceSet rt sid ex w = (err, ex', w') \<Longrightarrow> on_course ex ex'"
  by (auto simp: failSourceSet_def Let_def split: prod.splits option.splits
      dest!: drop_losers_course intro: on_course_trans)

lemma settleSourceSet_course:
  "settleSourceSet rt sid ex w = (err, ex', w') \<Longrightarrow> hooks_emit_only rt \<Longrightarrow> on_course ex ex'"
  by (auto simp: settleSourceSet_def split: option.splits if_splits sum.splits
      dest!: failSourceSet_course releaseSourceSet_course)

lemma settleSourceSets_course:
  "settleSourceSets rt sids ex w = (err, ex', w') \<Longrightarrow> hooks_emit_only rt \<Longrightarrow> on_course ex ex'"
proof (induction sids arbitrary: ex w)
  case (Cons sid sids)
  then show ?case
    by (auto split: prod.splits option.splits dest!: settleSourceSet_course intro: on_course_trans)
qed simp

lemma failIterSource_course: "failIterSource rt source cause ex w = (err, ex', w') \<Longrightarrow> on_course ex ex'"
  by (auto simp: failIterSource_def Let_def split: sum.splits prod.splits option.splits
      dest!: commit_preserved_course failSourceSet_course intro: on_course_trans)

lemma closeIterSource_course:
  "closeIterSource rt source ex w = (err, ex', w') \<Longrightarrow> hooks_emit_only rt \<Longrightarrow> on_course ex ex'"
  by (auto simp: closeIterSource_def Let_def split: sum.splits prod.splits option.splits
      dest!: commit_preserved_course settleSourceSet_course intro: on_course_trans)

lemma pullIterSource_course:
  "pullIterSource rt source ex w = (err, ex', w') \<Longrightarrow> hooks_emit_only rt \<Longrightarrow> on_course ex ex'"
  by (auto simp: pullIterSource_def live_pull_def Let_def
      split: sum.splits prod.splits option.splits pulled.splits
      dest!: commit_preserved_course closeIterSource_course failIterSource_course)

lemma fillIterQueue_result:
  assumes "fillIterQueue rt ex w = Some r"
  shows "hooks_emit_only rt \<longrightarrow> on_course ex (fst (snd r)) \<and> (fst r = None \<longrightarrow>
    int (length (rs_queue (ex_state (fst (snd r))))) \<ge> co_maxParallelism (ex_compiled ex) \<or>
    \<not> hasOpenIterSource (ex_state (fst (snd r))))"
proof (rule fillIterQueue.raw_induct [OF _ assms], goal_cases)
  case (1 fill rt ex w r)
  show ?case
  proof (cases "int (length (rs_queue (ex_state ex))) < co_maxParallelism (ex_compiled ex) \<and>
      hasOpenIterSource (ex_state ex)")
    case True
    obtain err ex1 w1 where p: "pullIterSource rt (the (nextOpenIterSource (ex_state ex))) ex w = (err, ex1, w1)"
      using prod_cases3 by blast
    show ?thesis
    proof (cases err)
      case None
      with 1(2) True p have f: "fill rt ex1 w1 = Some r" by simp
      show ?thesis
      proof
        assume h: "hooks_emit_only rt"
        from pullIterSource_course [OF p h] have c: "on_course ex ex1" .
        with 1(1) [OF f] h show "on_course ex (fst (snd r)) \<and> (fst r = None \<longrightarrow>
            int (length (rs_queue (ex_state (fst (snd r))))) \<ge> co_maxParallelism (ex_compiled ex) \<or>
            \<not> hasOpenIterSource (ex_state (fst (snd r))))"
          by (auto simp: on_course_def)
      qed
    next
      case (Some e)
      with 1(2) True p have "r = (Some e, ex1, w1)" by simp
      then show ?thesis using pullIterSource_course [OF p] by simp
    qed
  next
    case False
    with 1(2) have "r = (None, ex, w)" by (auto split: if_splits)
    with False show ?thesis by auto
  qed
qed

lemma fillIterQueue_fills:
  assumes "fillIterQueue rt ex w = Some (err, ex', w')" "hooks_emit_only rt"
  shows "on_course ex ex'"
    "err = None \<Longrightarrow> co_maxParallelism (ex_compiled ex) \<ge> 1 \<Longrightarrow> rs_queue (ex_state ex') = [] \<Longrightarrow>
       \<not> hasWork (ex_state ex')"
  using fillIterQueue_result [OF assms(1)] assms(2) by (auto simp: hasWork_def)

section \<open>The batches\<close>

lemma emitBatchStarts_course: "emitBatchStarts rt batch ex w = (err, ex', w') \<Longrightarrow> on_course ex ex'"
proof (induction batch arbitrary: ex w)
  case (Cons item items)
  then show ?case
    by (auto split: sum.splits prod.splits option.splits
        dest!: commitRunningEvent_plan [THEN same_plan_course] intro: on_course_trans)
qed simp

lemma emit_all_course: "emit_all rt events ex w = (ex', w') \<Longrightarrow> on_course ex ex'"
proof (induction events arbitrary: ex w)
  case (Cons e es)
  then show ?case by (auto split: prod.splits dest!: emit_event_course intro: on_course_trans)
qed simp

lemma executeBatch_course:
  "executeBatch rt run batch ex w = (results, ex', w') \<Longrightarrow> on_course ex ex' \<and> length results = length batch"
  by (auto simp: executeBatch_def Let_def split: prod.splits dest!: emit_all_course)

lemma commitActivation_course:
  "commitActivation rt a r ex w = (err, ex', w') \<Longrightarrow> hooks_emit_only rt \<Longrightarrow> on_course ex ex'"
  by (auto simp: commitActivation_def Let_def split: sum.splits prod.splits option.splits if_splits
      dest!: route_run_course collectOutput_course commit_node_event_course flushOutputs_course
      intro: on_course_trans) (meson on_course_trans)+

lemma commitBranch_course: "commitBranch rt item ex w = (err, ex', w') \<Longrightarrow> on_course ex ex'"
  by (auto simp: commitBranch_def Let_def split: sum.splits if_splits dest!: commit_node_event_course)

lemma commitRetry_course: "commitRetry rt a r ex w = (err, ex', w') \<Longrightarrow> on_course ex ex'"
  by (auto simp: commitRetry_def split: sum.splits dest!: commit_preserved_course)

lemma commitBatchItem_course:
  "commitBatchItem rt item ex w = (r, ex', w') \<Longrightarrow> hooks_emit_only rt \<Longrightarrow> on_course ex ex'"
  by (auto simp: commitBatchItem_def Let_def split: sum.splits if_splits prod.splits option.splits
      dest!: commitRetry_course commitBranch_course commitActivation_course)

lemma commit_items_course:
  "commit_items rt items sids ex w = (Inr r, ex', w') \<Longrightarrow> hooks_emit_only rt \<Longrightarrow>
   ex_step ex' = ex_step ex + int (length items) \<and> ex_compiled ex' = ex_compiled ex"
proof (induction items arbitrary: sids ex w)
  case (Cons item items)
  obtain r1 ex1 w1 where c: "commitBatchItem rt item ex w = (r1, ex1, w1)" using prod_cases3 by blast
  from Cons.prems(1) c obtain sid where
    rest: "commit_items rt items (if sid \<noteq> [] then append_once sids sid else sids) (next_step ex1) w1 = (Inr r, ex', w')"
    by (auto split: sum.splits)
  show ?case
    using Cons.IH [OF rest Cons.prems(2)] commitBatchItem_course [OF c Cons.prems(2)]
    by (simp add: next_step_def on_course_def)
qed simp

lemma handleBatchInterrupts_fails: "fst (handleBatchInterrupts rt results items ex w) \<noteq> None"
  by (simp add: handleBatchInterrupts_def interruptBatch_def Let_def finishInterrupt_fails
      del: not_None_eq split: sum.split prod.split option.split)

text \<open>A batch that goes through moves the step counter by its length.\<close>

lemma advanceBatch_steps:
  assumes "advanceBatch rt run ex w = (None, ex', w')" "hooks_emit_only rt"
  shows "\<exists>batch. nextBatch ex = Inr batch \<and> ex_step ex' = ex_step ex + int (length batch) \<and>
    ex_compiled ex' = ex_compiled ex"
proof -
  from assms(1) obtain batch ex1 w1 results ex2 w2 where
    n: "nextBatch ex = Inr batch" and s: "emitBatchStarts rt batch ex w = (None, ex1, w1)"
    and x: "executeBatch rt run batch ex1 w1 = (results, ex2, w2)"
    by (auto simp: advanceBatch_def Let_def split: sum.splits prod.splits option.splits)
  have "handleBatchInterrupts rt results items ex2 w2 \<noteq> (None, ex', w')"
    "handleNodeError rt a r e ex2 w2 \<noteq> (None, ex', w')" for items a r e
    using handleBatchInterrupts_fails [of rt results items ex2 w2] handleNodeError_fails [of rt a r e ex2 w2]
    by auto
  moreover have p: "preserveExecutionError e = None \<longleftrightarrow> e = None" for e
    by (simp add: preserveExecutionError_def split: option.split)
  ultimately obtain sids ex3 w3 where
    c: "commit_items rt results [] ex2 w2 = (Inr sids, ex3, w3)" and t: "settleSourceSets rt sids ex3 w3 = (None, ex', w')"
    using assms(1) by (auto simp: advanceBatch_def n s x p Let_def split: sum.splits prod.splits option.splits if_splits)
  show ?thesis
    using n emitBatchStarts_course [OF s] executeBatch_course [OF x] commit_items_course [OF c assms(2)]
      settleSourceSets_course [OF t assms(2)]
    by (simp add: on_course_def)
qed

end
