(* ===== verification/Pulling.thy ===== *)
theory Pulling
  imports Course
begin

text \<open>
  Filling the queue from iterators always ends, also when iterators yield for ever: a pull either
  adds to the queue, which is limited, or closes an iterator; closing one settles at most one source
  set, and only the finitely many sets with committed outcomes can open new iterators.
\<close>

section \<open>Sets that may still act\<close>

definition unsettled_sets :: "runState \<Rightarrow> string set" where
  "unsettled_sets s = {k. \<exists>x. fmlookup (rs_sourceSets s) k = Some x \<and> \<not> ss_settled x}"

text \<open>Only a set with outcomes or a decision can release branches.\<close>

definition busy_sets :: "runState \<Rightarrow> string set" where
  "busy_sets s = {k. \<exists>x. fmlookup (rs_sourceSets s) k = Some x \<and> \<not> ss_settled x \<and>
     (ss_decided x \<or> ss_outcomes x \<noteq> fmempty)}"

lemma finite_sets [simp]: "finite (unsettled_sets s)" "finite (busy_sets s)"
proof -
  have "unsettled_sets s \<subseteq> fmdom' (rs_sourceSets s)" "busy_sets s \<subseteq> fmdom' (rs_sourceSets s)"
    by (auto simp: unsettled_sets_def busy_sets_def fmlookup_dom'_iff)
  then show "finite (unsettled_sets s)" "finite (busy_sets s)" by (auto intro: finite_subset)
qed

text \<open>Steps that settle nothing and touch the outcomes of one set only.\<close>

definition quiet :: "string \<Rightarrow> runState \<Rightarrow> runState \<Rightarrow> bool" where
  "quiet sid s s' \<longleftrightarrow> unsettled_sets s' = unsettled_sets s \<and> busy_sets s' - {sid} = busy_sets s - {sid}"

definition calm :: "string \<Rightarrow> runState \<Rightarrow> runState \<Rightarrow> bool" where
  "calm sid s s' \<longleftrightarrow> busy_sets s' - {sid} \<subseteq> busy_sets s - {sid}"

lemma quiet_refl [simp]: "quiet sid s s" "calm sid s s"
  by (simp_all add: quiet_def calm_def)

lemma quiet_trans: "quiet sid a b \<Longrightarrow> quiet sid b c \<Longrightarrow> quiet sid a c"
  by (simp add: quiet_def)

lemma calm_trans: "calm sid a b \<Longrightarrow> calm sid b c \<Longrightarrow> calm sid a c"
  by (auto simp: calm_def)

lemma quiet_calm: "quiet sid a b \<Longrightarrow> calm sid a b"
  by (simp add: quiet_def calm_def)

lemma quiet_same: "rs_sourceSets s' = rs_sourceSets s \<Longrightarrow> quiet sid s s'"
  by (simp add: quiet_def unsettled_sets_def busy_sets_def)

text \<open>Steps that leave the marks of every set alone.\<close>

definition still :: "runState \<Rightarrow> runState \<Rightarrow> bool" where
  "still s s' \<longleftrightarrow> unsettled_sets s' = unsettled_sets s \<and> busy_sets s' = busy_sets s"

lemma still_refl [simp]: "still s s"
  by (simp add: still_def)

lemma still_trans: "still a b \<Longrightarrow> still b c \<Longrightarrow> still a c"
  by (simp add: still_def)

lemma still_quiet: "still a b \<Longrightarrow> quiet sid a b"
  by (simp add: still_def quiet_def)

lemma still_calm: "still a b \<Longrightarrow> calm sid a b"
  by (simp add: still_def calm_def)

lemma still_same: "rs_sourceSets s' = rs_sourceSets s \<Longrightarrow> still s s'"
  by (simp add: still_def unsettled_sets_def busy_sets_def)

lemma still_update:
  assumes "rs_sourceSets s' = fmupd sid x' (rs_sourceSets s)" "fmlookup (rs_sourceSets s) sid = Some x"
    "ss_settled x' = ss_settled x" "ss_decided x' = ss_decided x" "ss_outcomes x' = ss_outcomes x"
  shows "still s s'"
  using assms by (auto simp: still_def unsettled_sets_def busy_sets_def split: if_splits)

lemma quiet_update:
  assumes "\<And>x. ss_settled (f x) = ss_settled x"
  shows "quiet sid s (update_set sid f s)"
proof -
  have "unsettled_sets (update_set sid f s) = unsettled_sets s"
    by (auto simp: unsettled_sets_def update_set_lookup assms)
  moreover have "busy_sets (update_set sid f s) - {sid} = busy_sets s - {sid}"
    by (auto simp: busy_sets_def update_set_lookup)
  ultimately show ?thesis by (simp add: quiet_def)
qed

section \<open>Scheduling\<close>

lemma enqueue_still: "still s (snd (enqueue req s))"
proof (cases "fmlookup (rs_sourceSets s) (er_sourceSet req)")
  case None
  then show ?thesis by (simp add: enqueue_sourceSets still_same)
next
  case (Some x)
  then show ?thesis
    by (intro still_update [where sid = "er_sourceSet req" and x = x and x' =
        "x\<lparr>ss_branches := ss_branches x @ [activation_id (rs_nextActSeq s)]\<rparr>"])
      (simp_all add: enqueue_sourceSets)
qed

lemma scheduleDelivery_still: "scheduleDelivery c req s = (err, s') \<Longrightarrow> still s s'"
  by (auto simp: scheduleDelivery_def scheduleIter_def scheduleJoin_def addContribution_def
      bindLiveIterator_def Let_def intro: enqueue_still still_same
      split: if_splits option.splits sum.splits prod.splits)

lemma schedule_loop_still: "schedule_loop c source out edges sset items i b s = (err, s') \<Longrightarrow> still s s'"
proof (induction items arbitrary: sset i b s)
  case (Cons item items)
  show ?case
    using Cons.prems
    by (auto simp: Let_def split: prod.splits option.splits if_splits
        dest!: scheduleDelivery_still) (blast intro: still_trans dest: Cons.IH)+
qed simp

lemma closeJoin_still: "closeJoinExpectations c source d s = (err, s') \<Longrightarrow> still s s'"
  using close_expectations_frame by (auto simp: closeJoinExpectations_def intro: still_same)

text \<open>A new source set has no outcomes and no decision.\<close>

lemma prepareSourceSet_calm: "prepareSourceSet c source d s = Inr (sid', s') \<Longrightarrow> calm sid s s'"
  by (auto simp: prepareSourceSet_def newSourceSet_def Let_def andthen_def calm_def busy_sets_def
      split: if_splits sum.splits prod.splits)

lemma scheduleNext_calm: "scheduleNext c source out d s = (err, s') \<Longrightarrow> calm sid s s'"
  by (auto simp: scheduleNext_def Let_def split: option.splits if_splits sum.splits prod.splits
      dest!: closeJoin_still schedule_loop_still prepareSourceSet_calm [of _ _ _ _ _ _ sid]
      intro: still_calm) (meson calm_trans still_calm)+

lemma materialize_keys_still: "materialize_keys c keys d s = (r, s') \<Longrightarrow> still s s'"
proof (induction keys arbitrary: d s)
  case (Cons key keys)
  have "still s s1" if "materializeJoin c key bucket s = Inr s1" for bucket s1
  proof -
    from that obtain req where "rs_sourceSets s1 = rs_sourceSets (snd (enqueue req s))"
      by (auto simp: materializeJoin_def Let_def)
    with enqueue_still [of s req] show ?thesis by (meson still_same still_trans)
  qed
  with Cons.prems show ?case
    by (auto split: option.splits if_splits sum.splits dest: Cons.IH) (meson Cons.IH still_trans)+
qed simp

lemma materialize_still: "materializeReadyJoins ord c s = (err, s') \<Longrightarrow> still s s'"
proof (induction ord c s rule: materializeReadyJoins.induct)
  case (1 ord c s)
  obtain e d s1 where p: "materializeJoinPass ord c s = ((e, d), s1)" by (metis prod.exhaust)
  then have s1: "still s s1" using materialize_keys_still by (simp add: materializeJoinPass_def)
  show ?case
  proof (cases "e = None \<and> d")
    case True
    with p "1.prems" have "materializeReadyJoins ord c s1 = (err, s')"
      by (subst (asm) materializeReadyJoins.simps) simp
    with "1.IH" [OF p [symmetric] _ refl] True s1 show ?thesis by (auto intro: still_trans)
  next
    case False
    with p "1.prems" s1 show ?thesis
      by (subst (asm) materializeReadyJoins.simps) (auto split: option.splits)
  qed
qed

lemma route_run_calm: "route_run rt a out m ex = (err, ex') \<Longrightarrow> calm sid (ex_state ex) (ex_state ex')"
  by (auto simp: route_run_def route_state_def Let_def split: prod.splits option.splits sum.splits if_splits
      dest!: scheduleNext_calm [of _ _ _ _ _ _ _ sid] materialize_still) (meson calm_trans still_calm)+

section \<open>Releasing a set\<close>

lemma commit_node_event_state: "commit_node_event rt aid ty b n ex w = (err, ex', w') \<Longrightarrow> ex_state ex' = ex_state ex"
  by (auto dest!: commit_node_event_plan simp: same_plan_def)

lemma quiet_completed [simp]: "quiet sid a (s\<lparr>rs_completed := c\<rparr>) = quiet sid a s"
  by (simp add: quiet_def unsettled_sets_def busy_sets_def)

lemma cancelNext_quiet:
  "cancelNextQueuedBranch sid selected s = (None, out, s') \<Longrightarrow> quiet sid s s'"
  by (auto simp: cancelNextQueuedBranch_def Let_def dest!: cancelActivation_frame
      split: option.splits prod.splits sum.splits)
     (rule quiet_trans [OF quiet_same quiet_update], simp_all)

lemma cancelQueued_quiet:
  "cancelQueuedBranches rt sid selected ex w = (None, ex', w') \<Longrightarrow> quiet sid (ex_state ex) (ex_state ex')"
proof (induction rt sid selected ex w rule: cancelQueuedBranches.induct)
  case (1 rt sid selected ex w)
  obtain e out s where n: "cancelNextQueuedBranch sid selected (ex_state ex) = (e, out, s)"
    using prod_cases3 by blast
  with "1.prems" have none: "e = None"
    by (subst (asm) cancelQueuedBranches.simps) (auto split: option.splits)
  note n' = n [unfolded none]
  show ?case
  proof (cases out)
    case None
    with n' "1.prems" cancelNext_quiet [OF n'] show ?thesis
      by (subst (asm) cancelQueuedBranches.simps) auto
  next
    case (Some o')
    note n2 = n' [unfolded Some]
    obtain e1 ex1 w1 where c: "commit_node_event rt (ac_id (bo_activation o')) (outcome_eventType o')
        (bo_phase o') (ex_step ex) (with_state s ex) w = (e1, ex1, w1)" using prod_cases3 by blast
    from "1.prems" n2 c have e1: "e1 = None"
      by (subst (asm) cancelQueuedBranches.simps) (auto split: option.splits)
    from "1.prems" n2 c e1 have r: "cancelQueuedBranches rt sid selected ex1 w1 = (None, ex', w')"
      by (subst (asm) cancelQueuedBranches.simps) simp
    from "1.IH" [OF n2 [symmetric] refl refl refl c [symmetric] e1 refl r] cancelNext_quiet [OF n2]
      commit_node_event_state [OF c]
    show ?thesis by (auto intro: quiet_trans)
  qed
qed

lemma put_outcome_quiet: "quiet sid s (put_outcome sid bid out s)"
  unfolding put_outcome_def by (rule quiet_update) simp

lemma supersede_quiet:
  "supersedeBranches rt sid selected bids ex w = (None, ex', w') \<Longrightarrow> quiet sid (ex_state ex) (ex_state ex')"
proof (induction bids arbitrary: ex w)
  case (Cons bid bids)
  then show ?case
    using put_outcome_quiet
    by (auto simp: Let_def split: if_splits prod.splits option.splits dest!: commit_node_event_state)
       (metis quiet_trans)
qed simp

lemma closeUnselected_still:
  "closeUnselectedBranchExpectations c sid selected bids s = (err, s') \<Longrightarrow> still s s'"
proof (induction bids arbitrary: s)
  case (Cons bid bids)
  then show ?case
    by (auto split: if_splits option.splits prod.splits dest!: closeJoin_still) (blast intro: still_trans)+
qed simp

lemma drop_losers_quiet:
  "drop_losers rt sid selected ex w = (None, ex', w') \<Longrightarrow> quiet sid (ex_state ex) (ex_state ex')"
  by (auto simp: drop_losers_def split: prod.splits option.splits
      dest!: cancelQueued_quiet supersede_quiet closeUnselected_still)
     (meson quiet_trans still_quiet)

lemma flushOutputs_state: "flushOutputs rt ex = (err, ex') \<Longrightarrow> ex_state ex' = ex_state ex"
  by (auto simp: flushOutputs_def split: option.splits prod.splits bool.splits)

lemma releaseBranch_calm:
  assumes "releaseBranch rt sid bid ex w = (err, ex', w')" "hooks_emit_only rt"
  shows "calm sid (ex_state ex) (ex_state ex')"
  using assms put_outcome_quiet [THEN quiet_calm]
  by (auto simp: releaseBranch_def Let_def split: prod.splits option.splits if_splits
      dest!: route_run_calm [of _ _ _ _ _ _ _ sid] collectOutput_keeps(2) commit_node_event_state flushOutputs_state)
    (metis calm_trans)+

lemma release_branches_calm:
  "release_branches rt sid bids ex w = (err, ex', w') \<Longrightarrow> hooks_emit_only rt \<Longrightarrow>
   calm sid (ex_state ex) (ex_state ex')"
proof (induction bids arbitrary: ex w)
  case (Cons bid bids)
  then show ?case
    by (auto split: prod.splits option.splits dest!: releaseBranch_calm) (blast intro: calm_trans)
qed simp

lemma closeIterSources_quiet: "quiet sid s (closeIterSources sid s)"
  unfolding closeIterSources_def Let_def
  by (rule quiet_trans [OF quiet_same quiet_update]) (simp_all add: closeAllSources_def)

text \<open>
  A release settles its set. If the set was busy, no other set has become busy; otherwise nothing
  was selected, so nothing was routed and no other set changed at all.
\<close>

lemma release_settles:
  assumes "releaseSourceSet rt sid selected ex w = (None, ex', w')" "hooks_emit_only rt"
    and "fmlookup (rs_sourceSets (ex_state ex)) sid = Some x" "\<not> ss_settled x"
    and "sid \<notin> busy_sets (ex_state ex) \<Longrightarrow> selected = []"
  shows "busy_sets (ex_state ex') \<subset> busy_sets (ex_state ex) \<or>
    busy_sets (ex_state ex') \<subseteq> busy_sets (ex_state ex) \<and> unsettled_sets (ex_state ex') \<subset> unsettled_sets (ex_state ex)"
proof -
  define f where "f = (\<lambda>sset :: sourceSet. if ss_decided sset then sset else sset\<lparr>ss_decided := True, ss_selected := selected\<rparr>)"
  define s1 where "s1 = update_set sid f (closeIterSources sid (ex_state ex))"
  define chosen where "chosen = (case fmlookup (rs_sourceSets s1) sid of None \<Rightarrow> [] | Some sset \<Rightarrow> ss_selected sset)"
  from assms(1) obtain ex2 w2 ex3 s4 where
    d: "drop_losers rt sid chosen (with_state s1 ex) w = (None, ex2, w2)"
    and r: "release_branches rt sid chosen ex2 w2 = (None, ex3, w')"
    and m: "materializeReadyJoins (rt_bucketOrd rt) (ex_compiled ex3) (ex_state ex3) = (None, s4)"
    and e: "ex_state ex' = update_set sid (\<lambda>sset. sset\<lparr>ss_settled := True\<rparr>) s4"
    by (auto simp: releaseSourceSet_def Let_def chosen_def s1_def f_def split: prod.splits option.splits)
  have s1: "quiet sid (ex_state ex) s1"
    unfolding s1_def by (rule quiet_trans [OF closeIterSources_quiet quiet_update]) (simp add: f_def)
  then have s2: "quiet sid (ex_state ex) (ex_state ex2)"
    using drop_losers_quiet [OF d] by (auto intro: quiet_trans)
  have s4: "still (ex_state ex3) s4" using materialize_still [OF m] .
  have "calm sid (ex_state ex) s4"
    using s2 release_branches_calm [OF r assms(2)] s4 by (meson calm_trans quiet_calm still_calm)
  then have b: "busy_sets (ex_state ex') \<subseteq> busy_sets (ex_state ex) - {sid}"
    by (auto simp: calm_def e busy_sets_def update_set_lookup split: if_splits)
  show ?thesis
  proof (cases "sid \<in> busy_sets (ex_state ex)")
    case True
    with b show ?thesis by blast
  next
    case False
    then have "selected = []" "\<not> ss_decided x"
      using assms(3-5) by (auto simp: busy_sets_def)
    moreover have "fmlookup (rs_sourceSets (closeIterSources sid (ex_state ex))) sid = Some (closeAllSources x)"
      by (simp add: closeIterSources_def update_set_lookup assms(3) Let_def)
    ultimately have "chosen = []"
      by (simp add: chosen_def s1_def update_set_lookup f_def closeAllSources_def)
    with r have "ex3 = ex2" by simp
    with s2 s4 have "unsettled_sets s4 = unsettled_sets (ex_state ex)"
      by (simp add: quiet_def still_def)
    moreover have "unsettled_sets (ex_state ex') = unsettled_sets s4 - {sid}"
      by (auto simp: e unsettled_sets_def update_set_lookup split: if_splits)
    moreover have "sid \<in> unsettled_sets (ex_state ex)"
      using assms(3,4) by (auto simp: unsettled_sets_def)
    ultimately show ?thesis using b by blast
  qed
qed

lemma successes_none:
  assumes "range_order ord" "ss_outcomes sset = fmempty"
  shows "successes ord sset = []"
proof -
  have "mset (range_keys ord (fmempty :: (string, branchOutcome) fmap)) = {#}"
    using assms(1) by (simp add: mset_range_keys sorted_keys_def sorted_list_of_fset.rep_eq)
  then show ?thesis
    by (simp add: successes_def successesInBranchOrder_def phase_of_def assms(2))
qed

lemma decide_nothing:
  assumes "range_order ord" "ss_outcomes sset = fmempty" "decide ord sset = Inr d"
  shows "sd_selected d = []"
  using assms(3) successes_none [OF assms(1,2)]
  by (auto simp: decide_def decideOpen_def decideAll_def no_decision_def andthen_def Let_def
      split: if_splits sum.splits)

lemma settle_progresses:
  assumes "settleSourceSet rt sid ex w = (None, ex', w')" "hooks_emit_only rt" "range_order (rt_ord rt)"
  shows "ex' = ex \<or> busy_sets (ex_state ex') \<subset> busy_sets (ex_state ex) \<or>
    busy_sets (ex_state ex') \<subseteq> busy_sets (ex_state ex) \<and> unsettled_sets (ex_state ex') \<subset> unsettled_sets (ex_state ex)"
proof (cases "fmlookup (rs_sourceSets (ex_state ex)) sid")
  case None
  with assms(1) show ?thesis by (simp add: settleSourceSet_def)
next
  case (Some x)
  have nf: "failSourceSet rt sid ex w \<noteq> (None, ex', w')"
    using drop_losers_step [of rt sid ex w None ex' w'] by auto
  consider "ex' = ex" | selected where "releaseSourceSet rt sid selected ex w = (None, ex', w')" "\<not> ss_settled x"
      "sid \<notin> busy_sets (ex_state ex) \<Longrightarrow> selected = []"
  proof (cases "ss_settled x \<or> ss_failed x")
    case True
    have "ss_settled x"
    proof (rule ccontr)
      assume "\<not> ss_settled x"
      with True Some have "settleSourceSet rt sid ex w = failSourceSet rt sid ex w"
        by (simp add: settleSourceSet_def)
      with assms(1) nf show False by simp
    qed
    with assms(1) Some have "ex' = ex" by (simp add: settleSourceSet_def)
    then show ?thesis by (rule that(1))
  next
    case False
    show ?thesis
    proof (cases "ss_decided x")
      case True
      with False assms(1) Some have "releaseSourceSet rt sid (ss_selected x) ex w = (None, ex', w')"
        by (simp add: settleSourceSet_def)
      moreover have "sid \<in> busy_sets (ex_state ex)" using Some False True by (simp add: busy_sets_def)
      ultimately show ?thesis using that(2) False by blast
    next
      case undecided: False
      obtain d where d: "decide (rt_ord rt) x = Inr d"
        using assms(1) Some False undecided by (auto simp: settleSourceSet_def split: sum.splits)
      show ?thesis
      proof (cases "sd_ready d")
        case True
        have "\<not> sd_failed d"
        proof
          assume "sd_failed d"
          with True Some False undecided d have "settleSourceSet rt sid ex w = failSourceSet rt sid ex w"
            by (simp add: settleSourceSet_def)
          with assms(1) nf show False by simp
        qed
        with True assms(1) Some False undecided d
        have r: "releaseSourceSet rt sid (sd_selected d) ex w = (None, ex', w')"
          by (simp add: settleSourceSet_def)
        have "sd_selected d = []" if "sid \<notin> busy_sets (ex_state ex)"
        proof -
          have "ss_outcomes x = fmempty" using that Some False by (auto simp: busy_sets_def)
          with decide_nothing [OF assms(3) _ d] show ?thesis by simp
        qed
        with r False that(2) show ?thesis by blast
      next
        case False
        with assms(1) Some \<open>\<not> (ss_settled x \<or> ss_failed x)\<close> undecided d have "ex' = ex"
          by (simp add: settleSourceSet_def)
        then show ?thesis by (rule that(1))
      qed
    qed
  qed
  then show ?thesis
    using release_settles [OF _ assms(2) Some] by cases blast+
qed

section \<open>Filling the queue ends\<close>

definition live_count :: "runState \<Rightarrow> nat" where
  "live_count s = card (fmdom' (rs_liveIters s))"

definition fill_rank :: "(execution \<times> execution) set" where
  "fill_rank = measures [\<lambda>ex. card (busy_sets (ex_state ex)), \<lambda>ex. card (unsettled_sets (ex_state ex)),
     \<lambda>ex. live_count (ex_state ex),
     \<lambda>ex. nat (co_maxParallelism (ex_compiled ex) - int (length (rs_queue (ex_state ex))))]"

lemma wf_fill_rank: "wf fill_rank"
  by (simp add: fill_rank_def)

lemma rank_settled:
  assumes "busy_sets (ex_state b) \<subset> busy_sets (ex_state a) \<or>
    busy_sets (ex_state b) \<subseteq> busy_sets (ex_state a) \<and> unsettled_sets (ex_state b) \<subset> unsettled_sets (ex_state a)"
  shows "(b, a) \<in> fill_rank"
proof -
  have "card (busy_sets (ex_state b)) < card (busy_sets (ex_state a)) \<or>
      card (busy_sets (ex_state b)) \<le> card (busy_sets (ex_state a)) \<and>
      card (unsettled_sets (ex_state b)) < card (unsettled_sets (ex_state a))"
    using assms by (meson card_mono finite_sets psubset_card_mono)
  then show ?thesis by (auto simp: fill_rank_def)
qed

lemma rank_still:
  assumes "still (ex_state a) (ex_state b)" "live_count (ex_state b) < live_count (ex_state a)"
  shows "(b, a) \<in> fill_rank"
  using assms by (simp add: fill_rank_def still_def)

lemma rank_pulled:
  assumes "still (ex_state a) (ex_state b)" "live_count (ex_state b) = live_count (ex_state a)"
    "ex_compiled b = ex_compiled a" "length (rs_queue (ex_state b)) = Suc (length (rs_queue (ex_state a)))"
    "int (length (rs_queue (ex_state a))) < co_maxParallelism (ex_compiled a)"
  shows "(b, a) \<in> fill_rank"
  using assms by (simp add: fill_rank_def still_def)

lemma enqueue_live: "rs_liveIters (snd (enqueue req s)) = rs_liveIters s"
  by (simp add: enqueue_def Let_def trackActivation_def trackCorrelation_def split: option.split)

lemma update_set_live [simp]: "rs_liveIters (update_set sid f s) = rs_liveIters s"
  by (simp add: update_set_def split: option.split)

lemma update_iter_simps [simp]:
  "rs_sourceSets (update_iter i f s) = rs_sourceSets s" "rs_liveIters (update_iter i f s) = rs_liveIters s"
  "rs_queue (update_iter i f s) = rs_queue s"
  by (simp_all add: update_iter_def split: option.split)

lemma still_update_set:
  assumes "\<And>x. ss_settled (f x) = ss_settled x \<and> ss_decided (f x) = ss_decided x \<and> ss_outcomes (f x) = ss_outcomes x"
  shows "still s (update_set sid f s)"
  using assms by (auto simp: still_def unsettled_sets_def busy_sets_def update_set_lookup)

lemma closed_pull:
  assumes "closeIterSource rt source ex w = (None, ex', w')" "is_open source"
    "is_id source \<in> fmdom' (rs_liveIters (ex_state ex))" "hooks_emit_only rt" "range_order (rt_ord rt)"
  shows "(ex', ex) \<in> fill_rank"
proof -
  from assms(1) obtain item sset closed ex3 w3 where i: "iterSourceState source (ex_state ex) = Inr (item, sset)"
    "closeSource sset = Inr closed"
    and c: "commit_preserved rt (iter_event source EventIterClosed (ac_correlation item)) (ex_step ex)
      (with_state (update_set (is_sourceSet source) (\<lambda>_. closed) (stopIterSource source (ex_state ex))) ex) w =
      (None, ex3, w3)"
    and s: "settleSourceSet rt (ss_id sset) ex3 w3 = (None, ex', w')"
    by (auto simp: closeIterSource_def Let_def split: sum.splits prod.splits option.splits)
  have st: "ex_state ex3 = update_set (is_sourceSet source) (\<lambda>_. closed) (stopIterSource source (ex_state ex))"
    using commit_preserved_plan [OF c] by (simp add: same_plan_def)
  have look: "fmlookup (rs_sourceSets (ex_state ex)) (is_sourceSet source) = Some sset"
    using i(1) by (auto simp: iterSourceState_def split: option.splits)
  have cl: "closed = sset\<lparr>ss_openSources := ss_openSources sset - 1\<rparr>"
    using i(2) by (auto simp: closeSource_def split: if_splits)
  have sets: "rs_sourceSets (stopIterSource source (ex_state ex)) = rs_sourceSets (ex_state ex)"
    by (simp add: stopIterSource_def Let_def)
  have "still (ex_state ex) (ex_state ex3)"
    by (rule still_update [where sid = "is_sourceSet source" and x = sset and x' = closed])
       (simp_all add: st update_set_def sets look cl)
  moreover have "fmdom' (rs_liveIters (ex_state ex3)) = fmdom' (rs_liveIters (ex_state ex)) - {is_id source}"
    by (simp add: st stopIterSource_def assms(2) Let_def)
  then have "live_count (ex_state ex3) < live_count (ex_state ex)"
    unfolding live_count_def using assms(3) by (metis card_Diff1_less finite_fmdom')
  ultimately have r: "(ex3, ex) \<in> fill_rank" "still (ex_state ex) (ex_state ex3)"
    by (auto intro: rank_still)
  from settle_progresses [OF s assms(4,5)] show ?thesis
  proof
    assume "ex' = ex3"
    with r show ?thesis by simp
  next
    assume "busy_sets (ex_state ex') \<subset> busy_sets (ex_state ex3) \<or>
      busy_sets (ex_state ex') \<subseteq> busy_sets (ex_state ex3) \<and> unsettled_sets (ex_state ex') \<subset> unsettled_sets (ex_state ex3)"
    with r(2) show ?thesis by (intro rank_settled) (simp add: still_def)
  qed
qed

lemma pull_ranks:
  assumes "pullIterSource rt source ex w = (None, ex', w')" "is_open source"
    "int (length (rs_queue (ex_state ex))) < co_maxParallelism (ex_compiled ex)"
    "hooks_emit_only rt" "range_order (rt_ord rt)"
  shows "(ex', ex) \<in> fill_rank"
proof -
  from assms(1) obtain live where live: "fmlookup (rs_liveIters (ex_state ex)) (is_id source) = Some live"
    by (auto simp: pullIterSource_def split: option.splits)
  define ex1 where "ex1 = with_state ((ex_state ex)\<lparr>rs_liveIters :=
      fmupd (is_id source) (live\<lparr>li_position := li_position live + 1\<rparr>) (rs_liveIters (ex_state ex))\<rparr>) ex"
  have same: "still (ex_state ex) (ex_state ex1)" "live_count (ex_state ex1) = live_count (ex_state ex)"
    "ex_compiled ex1 = ex_compiled ex" "rs_queue (ex_state ex1) = rs_queue (ex_state ex)"
    "is_id source \<in> fmdom' (rs_liveIters (ex_state ex1))"
    using live by (auto simp: ex1_def live_count_def insert_absorb intro: still_same)
  then have "(b, ex) \<in> fill_rank" if "(b, ex1) \<in> fill_rank" for b
    using that by (simp add: fill_rank_def still_def)
  moreover have "(ex', ex1) \<in> fill_rank"
  proof (cases "li_sequence live (li_position live)")
    case (PullValue v)
    from pull_value [OF assms(1) live PullValue] obtain req source1 where
      st: "ex_state ex' = update_iter (is_id source) (\<lambda>_. source1)
        (snd (enqueue req (update_set (is_sourceSet source) addExpectedBranch (ex_state ex1))))"
      "ex_compiled ex' = ex_compiled ex1"
      by (metis ex1_def with_state_simps(1,3))
    have "still (ex_state ex1) (ex_state ex')"
      unfolding st by (rule still_trans [OF still_trans [OF still_update_set enqueue_still] still_same])
        (simp_all add: addExpectedBranch_def)
    then show ?thesis
      by (rule rank_pulled) (simp_all add: st live_count_def enqueue_live assms(3) same)
  next
    case PullEnd
    with assms(1) live have c: "closeIterSource rt source ex1 w = (None, ex', w')"
      by (simp add: pullIterSource_def live_pull_def ex1_def)
    show ?thesis by (rule closed_pull [OF c assms(2) same(5) assms(4,5)])
  qed (use assms(1) live in \<open>auto simp: pullIterSource_def live_pull_def dest: failIterSource_fails\<close>)
  ultimately show ?thesis by blast
qed

lemma next_open:
  assumes "hasOpenIterSource s"
  shows "is_open (the (nextOpenIterSource s))"
  using assms
  by (auto simp: hasOpenIterSource_def nextOpenIterSource_def open_iters_def list_ex_iff filter_empty_conv
      fmlookup_dom'_iff split: list.splits dest!: filter_eq_ConsD)

lemma fillIterQueue_returns:
  assumes "hooks_emit_only rt" "range_order (rt_ord rt)"
  shows "\<exists>r. fillIterQueue rt ex w = Some r"
proof (induction ex arbitrary: w rule: wf_induct_rule [OF wf_fill_rank])
  case (1 ex)
  show ?case
  proof (cases "int (length (rs_queue (ex_state ex))) < co_maxParallelism (ex_compiled ex) \<and>
      hasOpenIterSource (ex_state ex)")
    case True
    obtain err ex1 w1 where p: "pullIterSource rt (the (nextOpenIterSource (ex_state ex))) ex w = (err, ex1, w1)"
      using prod_cases3 by blast
    show ?thesis
    proof (cases err)
      case None
      with pull_ranks [OF p [unfolded None] next_open _ assms] True have "(ex1, ex) \<in> fill_rank" by simp
      from 1 [OF this] True p None show ?thesis by (subst fillIterQueue.simps) simp
    qed (use True p in \<open>subst fillIterQueue.simps, simp\<close>)
  qed (subst fillIterQueue.simps, auto)
qed

text \<open>
  C21 (filling ends). Filling the queue from the iterators of a run always ends, also when
  they yield for ever, and what it leaves is a full queue, no open iterator, or an error.
\<close>

theorem filling_ends:
  assumes "hooks_emit_only rt" "range_order (rt_ord rt)"
  shows "\<exists>err ex' w'. fillIterQueue rt ex w = Some (err, ex', w') \<and>
    (err = None \<longrightarrow> int (length (rs_queue (ex_state ex'))) \<ge> co_maxParallelism (ex_compiled ex) \<or>
       \<not> hasOpenIterSource (ex_state ex'))"
proof -
  obtain err ex' w' where f: "fillIterQueue rt ex w = Some (err, ex', w')"
    using fillIterQueue_returns [OF assms] by (metis surj_pair)
  with fillIterQueue_result [OF f] assms(1) show ?thesis by auto
qed

lemma log_runtime_ok [simp]: "hooks_emit_only log_runtime" "range_order (rt_ord log_runtime)"
  by (simp_all add: hooks_emit_only_def log_runtime_def)

text \<open>An iterator that yields for ever.\<close>

definition endless_run :: execution where
  "endless_run = plain_run (pulling_state\<lparr>rs_liveIters := fmupd ''iter-1''
     \<lparr>li_sequence = (\<lambda>i. PullValue plain_value), li_position = 0, li_checkpoint = None\<rparr> fmempty\<rparr>)"

theorem filling_ends_witness:
  "\<exists>err ex' w'. fillIterQueue log_runtime endless_run [] = Some (err, ex', w') \<and>
    (err = None \<longrightarrow> int (length (rs_queue (ex_state ex'))) \<ge> 2 \<or> \<not> hasOpenIterSource (ex_state ex'))"
proof -
  have "co_maxParallelism (ex_compiled endless_run) = 2" by (simp add: endless_run_def late_plan_def)
  with filling_ends [OF log_runtime_ok, of endless_run "[]"] show ?thesis by simp
qed

end
