(* ===== verification/Coordination.thy ===== *)
theory Coordination
  imports Pulling
begin

text \<open>
  What the batches of a run keep: a batch is the front of the queue within the limits of the plan,
  a run is over after a bounded number of batches, and a coordinator cancels the rest of a
  source set only when the results it has seen decide the set.
\<close>

section \<open>Limits\<close>

lemma nextBatch_Inr:
  "nextBatch ex = Inr batch \<longleftrightarrow> ex_step ex \<le> co_maxSteps (ex_compiled ex) \<and>
     batch = map (\<lambda>(i, item). \<lparr>ba_index = i, ba_step = ex_step ex + int i, ba_activation = item,
              ba_result = zero_result, ba_err = None, ba_completion = 0\<rparr>)
       (enumerate 0 (take (batch_size ex (co_maxSteps (ex_compiled ex) - ex_step ex + 1)) (rs_queue (ex_state ex))))"
  by (auto simp: nextBatch_def Let_def)

lemma step_limit:
  assumes "nextBatch ex = Inr batch"
  shows "ex_step ex + int (length batch) \<le> co_maxSteps (ex_compiled ex) + 1"
    "rs_queue (ex_state ex) \<noteq> [] \<Longrightarrow> co_maxParallelism (ex_compiled ex) \<ge> 1 \<Longrightarrow> length batch > 0"
  using assms by (auto simp: nextBatch_Inr batch_size_def)

text \<open>
  A batch keeps the limits. A batch is the front of the queue in its order, each activation
  with its own index and step; it is never longer than the parallelism of the plan and never passes
  the step limit, and it is empty only if the queue is empty or the plan allows no parallelism.
\<close>

theorem batch_within_bounds:
  assumes "nextBatch ex = Inr batch"
  shows "map ba_activation batch = take (length batch) (rs_queue (ex_state ex)) \<and>
    map ba_index batch = [0..<length batch] \<and>
    (\<forall>i < length batch. ba_step (batch ! i) = ex_step ex + int i \<and>
       ba_step (batch ! i) \<le> co_maxSteps (ex_compiled ex)) \<and>
    int (length batch) \<le> max 0 (co_maxParallelism (ex_compiled ex)) \<and>
    (batch = [] \<longleftrightarrow> rs_queue (ex_state ex) = [] \<or> co_maxParallelism (ex_compiled ex) \<le> 0)"
proof -
  define remaining where "remaining = co_maxSteps (ex_compiled ex) - ex_step ex + 1"
  let ?n = "batch_size ex remaining" and ?q = "rs_queue (ex_state ex)"
  from assms have pos: "remaining \<ge> 1" and b: "batch = map (\<lambda>(i, item). \<lparr>ba_index = i,
      ba_step = ex_step ex + int i, ba_activation = item, ba_result = zero_result, ba_err = None,
      ba_completion = 0\<rparr>) (enumerate 0 (take ?n ?q))"
    by (auto simp: nextBatch_Inr remaining_def)
  have n: "int ?n = max 0 (min (min (co_maxParallelism (ex_compiled ex)) (int (length ?q))) remaining)"
    by (simp only: batch_size_def int_nat_eq max_def)
  then have le: "?n \<le> length ?q" by linarith
  then have len: "length batch = ?n" by (simp add: b)
  have "map ba_activation batch = take (length batch) ?q"
    unfolding len by (simp add: b comp_def case_prod_beta)
  moreover have "map ba_index batch = [0..<length batch]"
    using le by (simp add: b comp_def case_prod_beta)
  moreover have "ba_step (batch ! i) = ex_step ex + int i \<and> ba_step (batch ! i) \<le> co_maxSteps (ex_compiled ex)"
    if "i < length batch" for i
  proof -
    have "int i < remaining" using that n len by linarith
    then show ?thesis using that le by (simp add: b nth_enumerate_eq remaining_def)
  qed
  moreover have "int (length batch) \<le> max 0 (co_maxParallelism (ex_compiled ex))"
    using n len by linarith
  moreover have "batch = [] \<longleftrightarrow> int ?n = 0"
    using len by auto
  moreover have "int ?n = 0 \<longleftrightarrow> ?q = [] \<or> co_maxParallelism (ex_compiled ex) \<le> 0"
    unfolding n using pos by (auto simp: max_def min_def)
  ultimately show ?thesis by blast
qed

definition queued_run :: execution where
  "queued_run = plain_run (zero_state\<lparr>rs_queue := [sample_activation ''a'', sample_activation ''b'', sample_activation ''c'']\<rparr>)"

theorem batch_within_bounds_witness:
  "\<exists>batch. nextBatch queued_run = Inr batch \<and> map ba_activation batch = [sample_activation ''a'', sample_activation ''b'']"
proof -
  have f: "ex_step queued_run = 1" "co_maxSteps (ex_compiled queued_run) = 100"
    "co_maxParallelism (ex_compiled queued_run) = 2"
    "rs_queue (ex_state queued_run) = [sample_activation ''a'', sample_activation ''b'', sample_activation ''c'']"
    by (simp_all add: queued_run_def plain_run_def sample_run_def late_plan_def)
  then obtain batch where b: "nextBatch queued_run = Inr batch"
    by (simp add: nextBatch_def Let_def)
  then have "length batch = 2"
    by (auto simp: nextBatch_Inr batch_size_def f)
  with batch_within_bounds [OF b] b show ?thesis
    by (simp add: f numeral_2_eq_2)
qed

lemma handleError_fails: "fst (handleError sv cause ex w) \<noteq> None"
  by (simp add: handleError_def fail_run_def cancelRun_def commitTerminalError_def
      matchesCheckpointLeaseError_def del: not_None_eq split: prod.split option.split goerr.split)

lemma handleError_Some:
  obtains e' ex' w' where "handleError sv cause ex w = (Some e', ex', w')"
proof -
  obtain r ex' w' where h: "handleError sv cause ex w = (r, ex', w')" using prod_cases3 by blast
  with handleError_fails [of sv cause ex w] have "r \<noteq> None" by simp
  with h that show thesis by blast
qed

text \<open>One round of the loop ends the run, or commits a batch and goes on.\<close>

lemma run_loop_round:
  assumes par: "co_maxParallelism (ex_compiled ex) \<ge> 1" and env: "hooks_emit_only rt" "range_order (rt_ord rt)"
    and work: "hasWork (ex_state ex)"
  obtains (ends) err ex' w' where "run_loop rt runs n ex w = Some (err, ex', w')"
      "err = None \<Longrightarrow> \<not> hasWork (ex_state ex') \<and> ex_step ex' = ex_step ex"
    | (goes_on) ex2 w2 where "run_loop rt runs n ex w = run_loop rt runs (Suc n) ex2 w2" "ex_step ex < ex_step ex2"
      "ex_step ex2 \<le> co_maxSteps (ex_compiled ex) + 1" "ex_compiled ex2 = ex_compiled ex"
proof -
  obtain err ex1 w1 where f: "fillIterQueue rt ex w = Some (err, ex1, w1)"
    using fillIterQueue_returns [OF env] by (metis surj_pair)
  note fill = fillIterQueue_fills [OF f env(1)]
  consider (failed) e where "err = Some e" | (idle) "err = None" "rs_queue (ex_state ex1) = []"
    | (batch) "err = None" "rs_queue (ex_state ex1) \<noteq> []" by fastforce
  then show thesis
  proof cases
    case failed
    obtain e' ex' w' where "handleError (rt_services rt) e ex1 w1 = (Some e', ex', w')" by (rule handleError_Some)
    with work f failed have "run_loop rt runs n ex w = Some (Some e', ex', w')" by (subst run_loop.simps) simp
    then show thesis by (rule ends) simp
  next
    case idle
    with fill(2) par have "\<not> hasWork (ex_state ex1)" by simp
    then have "run_loop rt runs n ex1 w1 = Some (None, ex1, w1)" by (subst run_loop.simps) simp
    with work f idle have "run_loop rt runs n ex w = Some (None, ex1, w1)" by (subst run_loop.simps) simp
    then show thesis by (rule ends) (use \<open>\<not> hasWork (ex_state ex1)\<close> fill(1) in \<open>simp add: on_course_def\<close>)
  next
    case batch
    obtain err2 ex2 w2 where a: "advanceBatch rt (runs n) ex1 w1 = (err2, ex2, w2)" using prod_cases3 by blast
    show thesis
    proof (cases err2)
      case (Some e)
      obtain e' ex' w' where "handleError (rt_services rt) e ex2 w2 = (Some e', ex', w')" by (rule handleError_Some)
      with work f batch a Some have "run_loop rt runs n ex w = Some (Some e', ex', w')" by (subst run_loop.simps) simp
      then show thesis by (rule ends) simp
    next
      case None
      with work f batch a have r: "run_loop rt runs n ex w = run_loop rt runs (Suc n) ex2 w2" by (subst run_loop.simps) simp
      from advanceBatch_steps [OF a [unfolded None] env(1)] obtain items where
        n: "nextBatch ex1 = Inr items" "ex_step ex2 = ex_step ex1 + int (length items)" "ex_compiled ex2 = ex_compiled ex1"
        by blast
      then show thesis
        by (intro goes_on [OF r]) (use n fill(1) par batch step_limit [OF n(1)] in \<open>auto simp: on_course_def\<close>)
    qed
  qed
qed

text \<open>
  C4 (a run is bounded). With some parallelism allowed, the loop of a run always ends, whatever
  the workers return and although iterators may yield for ever; when it ends without an error no
  work is left and it has committed no more activations than the step limit allows.
\<close>

theorem run_is_bounded:
  assumes "co_maxParallelism (ex_compiled ex) \<ge> 1" "hooks_emit_only rt" "range_order (rt_ord rt)"
  shows "\<exists>err ex' w'. run_loop rt runs n ex w = Some (err, ex', w') \<and>
      (err = None \<longrightarrow> \<not> hasWork (ex_state ex') \<and> ex_step ex \<le> ex_step ex' \<and>
         ex_step ex' \<le> max (ex_step ex) (co_maxSteps (ex_compiled ex) + 1))"
  using assms(1)
proof (induction "nat (co_maxSteps (ex_compiled ex) + 1 - ex_step ex)" arbitrary: ex w n rule: less_induct)
  case less
  show ?case
  proof (cases "hasWork (ex_state ex)")
    case False
    then show ?thesis by (subst run_loop.simps) simp
  next
    case True
    from less.prems assms(2,3) True show ?thesis
    proof (cases rule: run_loop_round [where runs = runs and n = n and w = w])
      case (ends err ex' w')
      then show ?thesis by auto
    next
      case (goes_on ex2 w2)
      then show ?thesis using less.hyps [of ex2 "Suc n" w2] less.prems unfolding goes_on(1) by fastforce
    qed
  qed
qed

definition idle_batch :: batchRun where
  "idle_batch = \<lparr>br_events = [], br_result = (\<lambda>i. (zero_result, None)), br_finish = [], br_receive = []\<rparr>"

theorem run_is_bounded_witness:
  "\<exists>err ex' w'. run_loop log_runtime (\<lambda>n. idle_batch) 0 queued_run [] = Some (err, ex', w') \<and>
      (err = None \<longrightarrow> \<not> hasWork (ex_state ex') \<and> 1 \<le> ex_step ex' \<and> ex_step ex' \<le> 101)"
proof -
  have "ex_step queued_run = 1" "co_maxSteps (ex_compiled queued_run) = 100"
    "co_maxParallelism (ex_compiled queued_run) = 2"
    by (simp_all add: queued_run_def plain_run_def sample_run_def late_plan_def)
  with run_is_bounded [OF _ log_runtime_ok, of queued_run "\<lambda>n. idle_batch" 0 "[]"] show ?thesis by simp
qed

section \<open>Cancelling the rest of a source set\<close>

text \<open>The source set with the outcomes of a batch, as \<open>commitBatchItem\<close> records them.\<close>

definition is_outcome :: "string \<Rightarrow> batchActivation \<Rightarrow> bool" where
  "is_outcome sid item \<longleftrightarrow> ac_sourceSet (ba_activation item) = sid \<and> \<not> (ba_err item = None \<and> nr_retry (ba_result item))"

definition is_success :: "string \<Rightarrow> batchActivation \<Rightarrow> bool" where
  "is_success sid item \<longleftrightarrow> ac_sourceSet (ba_activation item) = sid \<and> ba_err item = None \<and>
     \<not> nr_skipped (ba_result item) \<and> \<not> nr_retry (ba_result item)"

definition record_outcome :: "string \<Rightarrow> (string, branchOutcome) fmap \<Rightarrow> batchActivation \<Rightarrow> (string, branchOutcome) fmap" where
  "record_outcome sid m item =
     (if is_outcome sid item then fmupd (ac_id (ba_activation item)) (outcome_of item) m else m)"

definition with_batch :: "string \<Rightarrow> batchActivation list \<Rightarrow> sourceSet \<Rightarrow> sourceSet" where
  "with_batch sid results sset = sset\<lparr>ss_outcomes := foldl (record_outcome sid) (ss_outcomes sset) results\<rparr>"

definition completed_keys :: "(string, branchOutcome) fmap \<Rightarrow> string set" where
  "completed_keys m = {k. \<exists>out. fmlookup m k = Some out \<and> bo_phase out = branchCompleted}"

lemma finite_completed_keys [simp]: "finite (completed_keys m)"
proof -
  have "completed_keys m \<subseteq> fmdom' m" by (auto simp: completed_keys_def fmlookup_dom'_iff)
  then show ?thesis by (rule finite_subset) simp
qed

lemma completed_keys_filter:
  "range_order ord \<Longrightarrow> completed_keys m =
     set (filter (\<lambda>k. bo_phase (the (fmlookup m k)) = branchCompleted) (range_keys ord m))"
  by (auto simp: completed_keys_def fmlookup_dom'_iff)

lemma card_completed_keys:
  assumes "range_order ord"
  shows "length (filter (\<lambda>k. bo_phase (the (fmlookup m k)) = branchCompleted) (range_keys ord m)) = card (completed_keys m)"
  using assms by (simp only: completed_keys_filter [OF assms] distinct_card [OF distinct_filter] distinct_range_keys)

lemma successCount_card: "range_order ord \<Longrightarrow> successCount ord sset = int (card (completed_keys (ss_outcomes sset)))"
  by (simp add: successCount_def card_completed_keys)

lemma length_completed_card: "length (completed_in (\<lambda>ks. ks) sset) = card (completed_keys (ss_outcomes sset))"
proof -
  have "length (completed_in (\<lambda>ks. ks) sset) =
      length (filter (\<lambda>k. bo_phase (the (fmlookup (ss_outcomes sset) k)) = branchCompleted)
        (range_keys (\<lambda>ks. ks) (ss_outcomes sset)))"
    by (simp add: completed_in_def outcomes_in_def filter_map comp_def)
  then show ?thesis by (simp add: card_completed_keys)
qed

lemma completed_keys_upd:
  "k \<notin> fmdom' m \<Longrightarrow> completed_keys (fmupd k out m) =
     (if bo_phase out = branchCompleted then insert k (completed_keys m) else completed_keys m)"
  by (auto simp: completed_keys_def fmlookup_dom'_iff)

lemma outcome_completed: "is_outcome sid item \<Longrightarrow> bo_phase (outcome_of item) = branchCompleted \<longleftrightarrow> is_success sid item"
  by (auto simp: is_outcome_def is_success_def outcome_of_def branchOutcomePhase_def split: option.splits)

lemma success_is_outcome: "is_success sid item \<Longrightarrow> is_outcome sid item"
  by (simp add: is_outcome_def is_success_def)

lemma card_recorded:
  assumes "distinct (map (\<lambda>item. ac_id (ba_activation item)) results)"
    "\<forall>item \<in> set results. ac_id (ba_activation item) \<notin> fmdom' m"
  shows "card (completed_keys (foldl (record_outcome sid) m results)) =
    card (completed_keys m) + length (filter (is_success sid) results)"
  using assms
proof (induction results arbitrary: m)
  case (Cons item items)
  let ?k = "ac_id (ba_activation item)" and ?m = "record_outcome sid m item"
  have k: "?k \<notin> fmdom' m" "?k \<notin> completed_keys m"
    using Cons.prems(2) by (auto simp: completed_keys_def fmlookup_dom'_iff)
  have "card (completed_keys ?m) = card (completed_keys m) + (if is_success sid item then 1 else 0)"
    using k success_is_outcome [of sid item]
    by (auto simp: record_outcome_def completed_keys_upd outcome_completed)
  moreover have "\<forall>i \<in> set items. ac_id (ba_activation i) \<notin> fmdom' ?m"
    using Cons.prems by (auto simp: record_outcome_def image_iff)
  ultimately show ?case using Cons.IH [of ?m] Cons.prems(1) by simp
qed simp

text \<open>What a group knows: the policy of its set and the successes seen so far.\<close>

definition group_knows :: "SettlePolicy \<Rightarrow> int \<Rightarrow> string \<Rightarrow> batchCoordinator \<Rightarrow> bool" where
  "group_knows policy seen sid groups \<longleftrightarrow>
     (\<forall>g. fmlookup groups sid = Some g \<longrightarrow> bg_policy g = policy \<and> bg_successes g = seen \<and>
        bg_required g = (case threshold policy of Inl e \<Rightarrow> 0 | Inr n \<Rightarrow> n))"

lemma group_cancel_keeps [simp]:
  "bg_policy (group_cancel e g) = bg_policy g" "bg_successes (group_cancel e g) = bg_successes g"
  "bg_required (group_cancel e g) = bg_required g"
  by (simp_all add: group_cancel_def)

lemma count_success_keeps [simp]:
  "bg_policy (count_success g) = bg_policy g" "bg_successes (count_success g) = bg_successes g + 1"
  "bg_required (count_success g) = bg_required g"
  by (simp_all add: count_success_def Let_def)

lemma update_group_lookup:
  "fmlookup (update_group k f groups) sid =
     (if sid = k then map_option f (fmlookup groups k) else fmlookup groups sid)"
  by (auto simp: update_group_def split: option.split)

lemma cancelAll_lookup: "fmlookup (cancelAll e groups) sid = map_option (group_cancel e) (fmlookup groups sid)"
  by (simp add: cancelAll_def)

lemma coordinator_knows:
  assumes "fmlookup (rs_sourceSets s) sid = Some sset"
  shows "group_knows (ss_policy sset) (successCount ord sset) sid (newBatchCoordinator ord s batch)"
proof -
  have "group_knows (ss_policy sset) (successCount ord sset) sid
      (foldl (\<lambda>groups item. addGroup ord s (ac_sourceSet (ba_activation item)) groups) groups batch)"
    if "group_knows (ss_policy sset) (successCount ord sset) sid groups" for groups
    using that
  proof (induction batch arbitrary: groups)
    case (Cons item items)
    have "group_knows (ss_policy sset) (successCount ord sset) sid (addGroup ord s k groups)" for k
      using Cons.prems assms by (auto simp: group_knows_def addGroup_def split: if_splits)
    from Cons.IH [OF this] show ?case by simp
  qed simp
  moreover have "group_knows (ss_policy sset) (successCount ord sset) sid fmempty"
    by (simp add: group_knows_def)
  ultimately show ?thesis by (simp add: newBatchCoordinator_def)
qed

lemma observe_knows:
  assumes "group_knows policy seen sid groups" "sid \<noteq> []"
  shows "group_knows policy (seen + (if is_success sid item then 1 else 0)) sid (batch_observe item groups)"
  using assms
  by (auto simp: group_knows_def batch_observe_def observeError_def is_success_def update_group_lookup
      cancelAll_lookup Let_def split: option.splits if_splits)

lemma observed_knows:
  assumes "group_knows policy seen sid groups" "sid \<noteq> []"
  shows "group_knows policy (seen + int (length (filter (\<lambda>i. is_success sid (results ! i)) js))) sid
    (foldl (\<lambda>groups i. batch_observe (results ! i) groups) groups js)"
  using assms(1)
proof (induction js arbitrary: seen groups)
  case (Cons i js)
  from Cons.IH [OF observe_knows [OF Cons.prems assms(2), of "results ! i"]] show ?case
    by (cases "is_success sid (results ! i)") (simp_all add: add.assoc)
qed simp

lemma seen_at_most_all:
  assumes "distinct js" "\<forall>i \<in> set js. i < length results"
  shows "length (filter (\<lambda>i. P (results ! i)) js) \<le> length (filter P results)"
proof -
  have "length (filter (\<lambda>i. P (results ! i)) js) = card (set (filter (\<lambda>i. P (results ! i)) js))"
    using assms(1) by (simp only: distinct_card [OF distinct_filter])
  also have "\<dots> \<le> card {i. i < length results \<and> P (results ! i)}"
    using assms(2) by (intro card_mono) auto
  finally show ?thesis by (simp add: length_filter_conv_card)
qed


definition race_results :: "batchActivation list" where
  "race_results = map (\<lambda>(i, aid, err). \<lparr>ba_index = i, ba_step = 1, ba_activation = branch_activation aid,
     ba_result = zero_result, ba_err = err, ba_completion = int i + 1\<rparr>)
     [(0, ''a'', None), (1, ''b'', Some (Sentinel ContextCanceled))]"

definition race_run :: batchRun where
  "race_run = idle_batch\<lparr>br_receive := [0, 1]\<rparr>"

lemma race_group:
  "\<exists>g. fmlookup (coordinator_after (\<lambda>ks. ks) losing_state race_run race_results 1) ''s'' = Some g \<and>
     bg_required g \<le> bg_successes g"
  by (simp add: coordinator_after_def newBatchCoordinator_def race_results_def race_run_def
      batch_observe_def addGroup_def branch_activation_def sample_activation_def zero_result_def
      update_group_lookup losing_state_def trackActivation_def zero_state_def open_set_def sample_set_def
      SettleAny_def threshold_def normalized_def successCount_def range_keys_def Let_def)


end
