(* ===== verification/History.thy ===== *)
theory History
  imports Codec Runlog
begin

text \<open>
  What can be read back of a run (\<open>workflow/runlog.go\<close>): the runs of a session with the life cycle
  that their events describe, the snapshot of a run with its stable checkpoints, and what a fork of a
  snapshot checks. The log and the checkpoint history are arguments that answer from a state.
\<close>

definition defaultHistoryRecordLimit :: int where "defaultHistoryRecordLimit = 10000"
definition historyPageSize :: int where "historyPageSize = 256"

lemmas history_limits = defaultHistoryRecordLimit_def historyPageSize_def

section \<open>The runs of a session\<close>

record RunSummary =
  su_SessionID :: string
  su_RunID :: string
  su_DefinitionID :: string
  su_DefinitionVersion :: string
  su_ParentRunID :: string
  su_Status :: CheckpointStatus
  su_StartedAt :: gotime
  su_UpdatedAt :: gotime
  su_EndedAt :: gotime

definition lifecycle_error :: goerr where
  "lifecycle_error = Msg ''workflow: inconsistent run lifecycle''"

definition summary_terminal :: "RunSummary \<Rightarrow> bool" where
  "summary_terminal s \<longleftrightarrow>
     su_Status s \<in> {CheckpointCompleted, CheckpointFailed, CheckpointCanceled, CheckpointTerminated}"

definition summary_start :: "RunSummary \<Rightarrow> goerr + RunSummary" where
  "summary_start s =
     (if su_Status s \<noteq> CheckpointUnset then Inl lifecycle_error
      else Inr (s\<lparr>su_Status := CheckpointRunning\<rparr>))"

definition summary_resume :: "RunSummary \<Rightarrow> goerr + RunSummary" where
  "summary_resume s =
     (if su_Status s \<noteq> CheckpointRunning \<and> su_Status s \<noteq> CheckpointInterrupted then Inl lifecycle_error
      else Inr (s\<lparr>su_Status := CheckpointRunning\<rparr>))"

definition summary_interrupt :: "RunSummary \<Rightarrow> goerr + RunSummary" where
  "summary_interrupt s =
     (if su_Status s \<noteq> CheckpointRunning then Inl lifecycle_error
      else Inr (s\<lparr>su_Status := CheckpointInterrupted, su_EndedAt := zero_time\<rparr>))"

definition summary_end :: "CheckpointStatus \<Rightarrow> gotime \<Rightarrow> RunSummary \<Rightarrow> goerr + RunSummary" where
  "summary_end status timestamp s =
     (if su_Status s \<noteq> CheckpointRunning \<and> su_Status s \<noteq> CheckpointInterrupted then Inl lifecycle_error
      else Inr (s\<lparr>su_Status := status, su_EndedAt := timestamp\<rparr>))"

definition applyLifecycle :: "Record \<Rightarrow> RunSummary \<Rightarrow> goerr + RunSummary" where
  "applyLifecycle r s =
     (if summary_terminal s then Inl lifecycle_error
      else if rl_EventType r \<in> {EventWorkflowStarted, EventWorkflowRetryStarted, EventWorkflowJumpStarted}
        then summary_start s
      else if rl_EventType r = EventWorkflowResumed then summary_resume s
      else if rl_EventType r = EventWorkflowInterrupted then summary_interrupt s
      else if rl_EventType r = EventWorkflowCompleted then summary_end CheckpointCompleted (rl_Timestamp r) s
      else if rl_EventType r = EventWorkflowFailed then summary_end CheckpointFailed (rl_Timestamp r) s
      else if rl_EventType r = EventWorkflowCanceled then summary_end CheckpointCanceled (rl_Timestamp r) s
      else if rl_EventType r = EventWorkflowTerminated then summary_end CheckpointTerminated (rl_Timestamp r) s
      else if su_Status s = CheckpointUnset then Inl lifecycle_error
      else Inr s)"

definition new_summary :: "Record \<Rightarrow> RunSummary" where
  "new_summary r =
     \<lparr>su_SessionID = rl_SessionID r, su_RunID = rl_RunID r, su_DefinitionID = rl_DefinitionID r,
      su_DefinitionVersion = rl_DefinitionVersion r, su_ParentRunID = rl_ParentRunID r,
      su_Status = CheckpointUnset, su_StartedAt = rl_Timestamp r, su_UpdatedAt = zero_time,
      su_EndedAt = zero_time\<rparr>"

definition summary_update :: "string \<Rightarrow> Record \<Rightarrow> RunSummary \<Rightarrow> goerr + RunSummary" where
  "summary_update session r s =
     (if rl_SessionID r \<noteq> session \<or> rl_SessionID r \<noteq> su_SessionID s \<or> rl_DefinitionID r \<noteq> su_DefinitionID s \<or>
         rl_DefinitionVersion r \<noteq> su_DefinitionVersion s \<or> rl_ParentRunID r \<noteq> su_ParentRunID s
        then Inl (Msg ''workflow: run contains inconsistent session, definition, or parent identity'')
      else (case applyLifecycle r s of
          Inl e \<Rightarrow> Inl (Wrap ''run event after status'' [e])
        | Inr s1 \<Rightarrow> Inr (s1\<lparr>su_UpdatedAt := rl_Timestamp r\<rparr>)))"

text \<open>The summaries in the order of their first record, and the index of each run.\<close>

fun session_loop ::
  "string \<Rightarrow> Record list \<Rightarrow> RunSummary list \<Rightarrow> (string \<rightharpoonup> nat) \<Rightarrow> goerr + RunSummary list" where
  "session_loop session [] summaries byRunID = Inr summaries"
| "session_loop session (r # rs) summaries byRunID =
     (let (index, summaries1, byRunID1) =
        (case byRunID (rl_RunID r) of
           Some i \<Rightarrow> (i, summaries, byRunID)
         | None \<Rightarrow> (length summaries, summaries @ [new_summary r], byRunID(rl_RunID r \<mapsto> length summaries)))
      in case summary_update session r (summaries1 ! index) of
           Inl e \<Rightarrow> Inl e
         | Inr s \<Rightarrow> session_loop session rs (summaries1[index := s]) byRunID1)"

text \<open>\<open>log.List\<close> as the code calls it (None for a nil log).\<close>

type_synonym 'w log_list = "Query \<Rightarrow> 'w \<Rightarrow> (goerr + Record list) \<times> 'w"

definition ListSessionRuns ::
  "'w log_list option \<Rightarrow> string \<Rightarrow> int \<Rightarrow> 'w \<Rightarrow> (goerr + RunSummary list) \<times> 'w" where
  "ListSessionRuns log session maxRecords w =
     (if session = [] then (Inl (Wrap ''session id is required'' [Sentinel ErrInvalidQuery]), w)
      else if maxRecords < 0 \<or> maxRecords > defaultHistoryRecordLimit
        then (Inl (Wrap ''max records must be between 0 and the limit'' [Sentinel ErrInvalidQuery]), w)
      else (case log of
          None \<Rightarrow> (Inl (Wrap ''workflow: list session runs'' [Sentinel ErrNilLog]), w)
        | Some list \<Rightarrow>
            (let limit = (if maxRecords = 0 then defaultHistoryRecordLimit else maxRecords) in
             case list \<lparr>q_SessionID = session, q_RunID = [], q_After = 0, q_Limit = limit + 1\<rparr> w of
               (Inl e, w1) \<Rightarrow> (Inl (Wrap ''workflow: list session runs'' [e]), w1)
             | (Inr records, w1) \<Rightarrow>
                 (if int (length records) > limit
                    then Inl (Wrap ''session exceeds records'' [Sentinel ErrHistoryLimitExceeded])
                  else session_loop session records [] Map.empty, w1))))"

text \<open>The reference: the life cycle of one run over its own records.\<close>

fun summarize :: "string \<Rightarrow> Record list \<Rightarrow> RunSummary option \<Rightarrow> goerr + RunSummary option" where
  "summarize session [] s = Inr s"
| "summarize session (r # rs) s =
     (case summary_update session r (case s of None \<Rightarrow> new_summary r | Some s1 \<Rightarrow> s1) of
        Inl e \<Rightarrow> Inl e
      | Inr s1 \<Rightarrow> summarize session rs (Some s1))"

definition of_run :: "string \<Rightarrow> Record list \<Rightarrow> Record list" where
  "of_run run rs = filter (\<lambda>r. rl_RunID r = run) rs"

fun run_order :: "string list \<Rightarrow> Record list \<Rightarrow> string list" where
  "run_order seen [] = seen"
| "run_order seen (r # rs) = run_order (append_once seen (rl_RunID r)) rs"

lemma set_run_order: "set (run_order seen rs) = set seen \<union> rl_RunID ` set rs"
  by (induction seen rs rule: run_order.induct) (auto simp: append_once_def)

lemma applyLifecycle_run: "applyLifecycle r s = Inr s' \<Longrightarrow> su_RunID s' = su_RunID s"
  by (auto simp: applyLifecycle_def summary_start_def summary_resume_def summary_interrupt_def summary_end_def
      split: if_splits)

lemma summary_update_run: "summary_update session r s = Inr s' \<Longrightarrow> su_RunID s' = su_RunID s"
  by (auto simp: summary_update_def split: if_splits sum.splits dest: applyLifecycle_run)

definition indexed :: "RunSummary list \<Rightarrow> (string \<rightharpoonup> nat) \<Rightarrow> bool" where
  "indexed summaries byRunID \<longleftrightarrow>
     (\<forall>run i. byRunID run = Some i \<longleftrightarrow> i < length summaries \<and> su_RunID (summaries ! i) = run)"

definition current_of :: "RunSummary list \<Rightarrow> (string \<rightharpoonup> nat) \<Rightarrow> string \<Rightarrow> RunSummary option" where
  "current_of summaries byRunID run = map_option (\<lambda>i. summaries ! i) (byRunID run)"

lemma indexed_known:
  "indexed summaries byRunID \<Longrightarrow> byRunID run \<noteq> None \<longleftrightarrow> run \<in> set (map su_RunID summaries)"
  by (auto simp: indexed_def in_set_conv_nth) force

lemma indexed_update:
  assumes "indexed summaries byRunID" "byRunID run = Some i" "su_RunID s = run"
  shows "indexed (summaries[i := s]) byRunID" "map su_RunID (summaries[i := s]) = map su_RunID summaries"
    "current_of (summaries[i := s]) byRunID = (current_of summaries byRunID)(run \<mapsto> s)"
proof -
  have i: "i < length summaries" "su_RunID (summaries ! i) = run" using assms(1,2) by (simp_all add: indexed_def)
  show "map su_RunID (summaries[i := s]) = map su_RunID summaries"
    using i assms(3) by (simp add: map_update list_update_same_conv)
  then have same: "su_RunID (summaries[i := s] ! j) = su_RunID (summaries ! j)" if "j < length summaries" for j
    using that by (metis length_list_update nth_map)
  show "indexed (summaries[i := s]) byRunID"
    using assms(1) same by (auto simp: indexed_def)
  show "current_of (summaries[i := s]) byRunID = (current_of summaries byRunID)(run \<mapsto> s)"
  proof
    fix k
    have "j \<noteq> i" if "k \<noteq> run" "byRunID k = Some j" for j
      using that assms(1,2) i by (auto simp: indexed_def)
    then show "current_of (summaries[i := s]) byRunID k = ((current_of summaries byRunID)(run \<mapsto> s)) k"
      using assms(2) i by (auto simp: current_of_def map_option_case split: option.split)
  qed
qed

lemma indexed_add:
  assumes "indexed summaries byRunID" "byRunID run = None" "su_RunID s = run"
  shows "indexed (summaries @ [s]) (byRunID(run \<mapsto> length summaries))"
    "current_of (summaries @ [s]) (byRunID(run \<mapsto> length summaries)) = (current_of summaries byRunID)(run \<mapsto> s)"
proof -
  have lt: "byRunID k = Some j \<Longrightarrow> j < length summaries" for k j
    using assms(1) by (simp add: indexed_def)
  have "su_RunID (summaries ! j) \<noteq> run" if "j < length summaries" for j
    using assms(1,2) that unfolding indexed_def by (metis option.distinct(1))
  then show "indexed (summaries @ [s]) (byRunID(run \<mapsto> length summaries))"
    using assms by (auto simp: indexed_def nth_append less_Suc_eq)
  show "current_of (summaries @ [s]) (byRunID(run \<mapsto> length summaries)) = (current_of summaries byRunID)(run \<mapsto> s)"
    using lt by (auto simp: current_of_def map_option_case nth_append fun_eq_iff split: option.split)
qed

text \<open>One step of the loop, whatever it found at the run of the record.\<close>

definition accepted_runs :: "string \<Rightarrow> (string \<rightharpoonup> RunSummary) \<Rightarrow> string list \<Rightarrow> Record list \<Rightarrow> RunSummary list \<Rightarrow> bool" where
  "accepted_runs session current runs rs result \<longleftrightarrow>
     list_all2 (\<lambda>run s. summarize session (of_run run rs) (current run) = Inr (Some s)) runs result"

lemma accepted_step:
  assumes "summary_update session r (case current (rl_RunID r) of None \<Rightarrow> new_summary r | Some s1 \<Rightarrow> s1) = Inr s"
  shows "accepted_runs session current runs (r # rs) = accepted_runs session (current(rl_RunID r \<mapsto> s)) runs rs"
proof -
  have "summarize session (of_run run (r # rs)) (current run) =
      summarize session (of_run run rs) ((current(rl_RunID r \<mapsto> s)) run)" for run
    using assms by (cases "run = rl_RunID r") (simp_all add: of_run_def)
  then show ?thesis by (simp add: accepted_runs_def fun_eq_iff)
qed

lemma accepted_error:
  assumes "summary_update session r (case current (rl_RunID r) of None \<Rightarrow> new_summary r | Some s1 \<Rightarrow> s1) = Inl e"
    "rl_RunID r \<in> set runs"
  shows "\<not> accepted_runs session current runs (r # rs) result"
proof
  assume "accepted_runs session current runs (r # rs) result"
  then obtain s where "summarize session (of_run (rl_RunID r) (r # rs)) (current (rl_RunID r)) = Inr (Some s)"
    using assms(2) by (auto simp: accepted_runs_def list_all2_conv_all_nth in_set_conv_nth)
  then show False using assms(1) by (simp add: of_run_def)
qed

lemma session_loop_accepts:
  assumes "indexed summaries byRunID"
  shows "session_loop session rs summaries byRunID = Inr result \<longleftrightarrow>
    accepted_runs session (current_of summaries byRunID) (run_order (map su_RunID summaries) rs) rs result"
  using assms
proof (induction rs arbitrary: summaries byRunID)
  case Nil
  have "current_of summaries byRunID (su_RunID (summaries ! i)) = Some (summaries ! i)" if "i < length summaries" for i
  proof -
    have "byRunID (su_RunID (summaries ! i)) = Some i" using Nil that by (simp add: indexed_def)
    then show ?thesis by (simp add: current_of_def)
  qed
  then show ?case
    by (auto simp: accepted_runs_def of_run_def list_all2_conv_all_nth list_eq_iff_nth_eq)
next
  case (Cons r rs)
  let ?run = "rl_RunID r" and ?cur = "current_of summaries byRunID"
  define s0 where "s0 = (case ?cur ?run of None \<Rightarrow> new_summary r | Some s1 \<Rightarrow> s1)"
  have in_order: "?run \<in> set (run_order (map su_RunID summaries) (r # rs))" by (simp add: set_run_order)
  show ?case
  proof (cases "byRunID ?run")
    case None
    then have s0: "s0 = new_summary r" "?run \<notin> set (map su_RunID summaries)"
      using indexed_known [OF Cons.prems, of ?run] by (simp_all add: s0_def current_of_def)
    show ?thesis
    proof (cases "summary_update session r s0")
      case (Inl e)
      with None s0 in_order show ?thesis
        using accepted_error [where current = ?cur, OF Inl [unfolded s0_def] in_order] by (simp add: Let_def)
    next
      case (Inr s)
      then have s: "su_RunID s = ?run" using summary_update_run s0 by (force simp: new_summary_def)
      have "session_loop session (r # rs) summaries byRunID =
          session_loop session rs (summaries @ [s]) (byRunID(?run \<mapsto> length summaries))"
        using None Inr s0 by (simp add: Let_def)
      moreover have "run_order (map su_RunID summaries) (r # rs) = run_order (map su_RunID (summaries @ [s])) rs"
        using s0(2) s by (simp add: append_once_def)
      ultimately show ?thesis
        unfolding accepted_step [where current = ?cur, OF Inr [unfolded s0_def]]
        using Cons.IH [OF indexed_add(1) [OF Cons.prems None s], unfolded indexed_add(2) [OF Cons.prems None s]]
        by (simp only:)
    qed
  next
    case (Some i)
    have s0: "s0 = summaries ! i" by (simp add: s0_def current_of_def Some)
    have known: "?run \<in> set (map su_RunID summaries)"
      using indexed_known [OF Cons.prems, of ?run] Some by simp
    have at: "su_RunID (summaries ! i) = ?run"
      using Cons.prems Some unfolding indexed_def by blast
    show ?thesis
    proof (cases "summary_update session r s0")
      case (Inl e)
      with Some s0 in_order show ?thesis
        using accepted_error [where current = ?cur, OF Inl [unfolded s0_def] in_order] by (simp add: Let_def)
    next
      case (Inr s)
      then have s: "su_RunID s = ?run" using summary_update_run s0 at by force
      note u = indexed_update [OF Cons.prems Some s]
      have "session_loop session (r # rs) summaries byRunID = session_loop session rs (summaries[i := s]) byRunID"
        using Some Inr s0 by (simp add: Let_def)
      moreover have "run_order (map su_RunID summaries) (r # rs) = run_order (map su_RunID summaries) rs"
        using known by (simp add: append_once_def)
      ultimately show ?thesis
        unfolding accepted_step [where current = ?cur, OF Inr [unfolded s0_def]]
        using Cons.IH [OF u(1), unfolded u(2,3)] by (simp only:)
    qed
  qed
qed


section \<open>Snapshots\<close>

record RunMeta =
  rm_SessionID :: string
  rm_RunID :: string
  rm_ParentRunID :: string
  rm_SourceRunID :: string
  rm_SourceEventSeq :: int
  rm_SourceRevisionID :: string

record CheckpointView =
  cv_ID :: string
  cv_Version :: int
  cv_EventSeq :: int
  cv_Status :: CheckpointStatus
  cv_SchemaVersion :: int
  cv_ReplayStatus :: ReplayStatus
  cv_Root :: bool

record MissingRef =
  mi_Kind :: string
  mi_Ref :: string

record Snapshot =
  sn_RunMeta :: RunMeta
  sn_WorkflowName :: string
  sn_TopologyVersion :: string
  sn_Timeline :: "Record list"
  sn_Checkpoints :: "CheckpointView list"
  sn_Missing :: "MissingRef list"

record SnapshotRequest =
  sr_RunID :: string
  sr_After :: int
  sr_Limit :: int

definition sameLineage :: "Snapshot \<Rightarrow> Record \<Rightarrow> bool" where
  "sameLineage sn r \<longleftrightarrow>
     rl_SessionID r = rm_SessionID (sn_RunMeta sn) \<and> rl_ParentRunID r = rm_ParentRunID (sn_RunMeta sn) \<and>
     rl_SourceRunID r = rm_SourceRunID (sn_RunMeta sn) \<and> rl_SourceEventSeq r = rm_SourceEventSeq (sn_RunMeta sn) \<and>
     rl_SourceRevisionID r = rm_SourceRevisionID (sn_RunMeta sn)"

fun projectTimeline :: "bool \<Rightarrow> Record list \<Rightarrow> Snapshot \<Rightarrow> goerr + Snapshot" where
  "projectTimeline first [] sn = Inr sn"
| "projectTimeline first (r # rs) sn =
     (if \<not> validSourceLineage (rl_SourceRunID r) (rl_SourceEventSeq r) (rl_SourceRevisionID r)
        then Inl (Wrap ''runlog record has invalid source lineage'' [Sentinel ErrCheckpointMismatch])
      else if rl_RunID r \<noteq> rm_RunID (sn_RunMeta sn) then Inl (Msg ''workflow: runlog returned record for another run'')
      else if \<not> first \<and> \<not> sameLineage sn r then Inl (Msg ''workflow: runlog contains inconsistent run lineage'')
      else (let sn1 = (if first then sn\<lparr>sn_RunMeta := (sn_RunMeta sn)\<lparr>rm_SessionID := rl_SessionID r,
                   rm_ParentRunID := rl_ParentRunID r, rm_SourceRunID := rl_SourceRunID r,
                   rm_SourceEventSeq := rl_SourceEventSeq r, rm_SourceRevisionID := rl_SourceRevisionID r\<rparr>\<rparr> else sn);
                sn2 = (if rl_PayloadRef r \<noteq> [] \<and> rl_Payload r = PEmpty
                       then sn1\<lparr>sn_Missing := sn_Missing sn1 @ [\<lparr>mi_Kind = ''event_payload'', mi_Ref = rl_PayloadRef r\<rparr>]\<rparr>
                       else sn1)
            in projectTimeline False rs sn2))"

definition workflowCheckpointView :: "'p CheckpointRecord \<Rightarrow> bool \<Rightarrow> CheckpointView" where
  "workflowCheckpointView r root =
     \<lparr>cv_ID = cp_ID r, cv_Version = cp_Version r, cv_EventSeq = cp_ConfirmedSequence r, cv_Status = cp_Status r,
      cv_SchemaVersion = cp_SchemaVersion r, cv_ReplayStatus = cp_ReplayStatus r, cv_Root = root\<rparr>"

definition snapshot_mismatch :: "string \<Rightarrow> goerr" where
  "snapshot_mismatch text = Wrap text [Sentinel ErrCheckpointMismatch]"

definition acceptCheckpointIdentity :: "'p CheckpointRecord \<Rightarrow> Snapshot \<Rightarrow> goerr + Snapshot" where
  "acceptCheckpointIdentity r sn =
     (let m = sn_RunMeta sn in
      if \<not> validSourceLineage (cp_SourceRunID r) (cp_SourceEventSeq r) (cp_SourceRevisionID r)
        then Inl (snapshot_mismatch ''snapshot checkpoint source lineage is invalid'')
      else if cp_RunID r \<noteq> rm_RunID m then Inl (snapshot_mismatch ''snapshot checkpoint run does not match'')
      else if cp_SessionID r = [] then Inl (snapshot_mismatch ''snapshot checkpoint session id is empty'')
      else if rm_SessionID m \<noteq> [] \<and> cp_SessionID r \<noteq> rm_SessionID m
        then Inl (snapshot_mismatch ''snapshot checkpoint session does not match'')
      else (let m1 = (if rm_SessionID m = [] then m\<lparr>rm_SessionID := cp_SessionID r, rm_SourceRunID := cp_SourceRunID r,
                        rm_SourceEventSeq := cp_SourceEventSeq r, rm_SourceRevisionID := cp_SourceRevisionID r\<rparr> else m);
                sn1 = sn\<lparr>sn_RunMeta := m1\<rparr> in
        if cp_SourceRunID r \<noteq> rm_SourceRunID m1 \<or> cp_SourceEventSeq r \<noteq> rm_SourceEventSeq m1 \<or>
           cp_SourceRevisionID r \<noteq> rm_SourceRevisionID m1
          then Inl (snapshot_mismatch ''snapshot checkpoint source lineage is inconsistent'')
        else if cp_SchemaVersion r \<noteq> checkpointSchemaVersion
          then Inl (snapshot_mismatch ''snapshot checkpoint schema is incompatible'')
        else if sn_WorkflowName sn1 = []
          then Inr (sn1\<lparr>sn_WorkflowName := cp_WorkflowName r, sn_TopologyVersion := cp_TopologyVersion r\<rparr>)
        else if cp_WorkflowName r \<noteq> sn_WorkflowName sn1 \<or> cp_TopologyVersion r \<noteq> sn_TopologyVersion sn1
          then Inl (snapshot_mismatch ''snapshot checkpoint identity is inconsistent'')
        else Inr sn1))"

record checkpointProjection =
  pj_snapshot :: Snapshot
  pj_latest :: "int \<rightharpoonup> CheckpointView"
  pj_afterVersion :: int
  pj_root :: int
  pj_total :: int

definition wanted_sequence :: "Snapshot \<Rightarrow> int \<Rightarrow> bool" where
  "wanted_sequence sn n \<longleftrightarrow> list_ex (\<lambda>r. rl_Sequence r = n) (sn_Timeline sn)"

fun projection_accept ::
  "'p CheckpointRecord list \<Rightarrow> checkpointProjection \<Rightarrow> goerr + checkpointProjection" where
  "projection_accept [] pj = Inr pj"
| "projection_accept (r # rs) pj =
     (if pj_total pj + 1 > defaultHistoryRecordLimit
        then Inl (Wrap ''run exceeds checkpoints'' [Sentinel ErrHistoryLimitExceeded])
      else if cp_Version r \<le> pj_afterVersion pj then Inl (snapshot_mismatch ''checkpoint history is not ordered'')
      else (case acceptCheckpointIdentity r (pj_snapshot pj) of
          Inl e \<Rightarrow> Inl e
        | Inr sn \<Rightarrow>
            (let pj1 = pj\<lparr>pj_total := pj_total pj + 1, pj_afterVersion := cp_Version r, pj_snapshot := sn\<rparr>;
                 seq = cp_ConfirmedSequence r in
             if seq \<le> 0 \<or> cp_PendingSequence r \<noteq> 0 then projection_accept rs pj1
             else (let pj2 = (if pj_root pj1 = 0 \<or> seq < pj_root pj1 then pj1\<lparr>pj_root := seq\<rparr> else pj1);
                       pj3 = (if wanted_sequence sn seq
                              then pj2\<lparr>pj_latest := (pj_latest pj2)(seq \<mapsto> workflowCheckpointView r False)\<rparr> else pj2)
                   in projection_accept rs pj3))))"

text \<open>\<open>ListCheckpoints\<close> as the code calls it.\<close>

type_synonym ('p, 'w) history_list =
  "CheckpointHistoryRequest \<Rightarrow> 'w \<Rightarrow> (goerr + 'p CheckpointRecord list) \<times> 'w"

definition page_limit :: "int \<Rightarrow> int" where
  "page_limit seen = min historyPageSize (defaultHistoryRecordLimit - seen + 1)"

lemma projection_accept_total:
  "projection_accept rs pj = Inr pj' \<Longrightarrow> pj_total pj' = pj_total pj + int (length rs) \<and>
     (rs \<noteq> [] \<longrightarrow> pj_total pj' \<le> defaultHistoryRecordLimit)"
  by (induction rs pj rule: projection_accept.induct)
     (force simp: Let_def split: if_splits sum.splits)+

text \<open>Every full page counts, so the loop over pages ends for any store.\<close>

function project_pages ::
  "('p, 'w) history_list \<Rightarrow> checkpointProjection \<Rightarrow> 'w \<Rightarrow> (goerr + checkpointProjection) \<times> 'w" where
  "project_pages list pj w =
     (let limit = page_limit (pj_total pj) in
      case list \<lparr>hr_RunID = rm_RunID (sn_RunMeta (pj_snapshot pj)), hr_AfterVersion = pj_afterVersion pj,
                 hr_Limit = limit\<rparr> w of
        (Inl e, w1) \<Rightarrow> (Inl e, w1)
      | (Inr records, w1) \<Rightarrow>
          if int (length records) > limit
            then (Inl (Msg ''workflow: checkpoint history returned more records than the limit''), w1)
          else if records = [] then (Inr pj, w1)
          else (case projection_accept records pj of
              Inl e \<Rightarrow> (Inl e, w1)
            | Inr pj1 \<Rightarrow> if int (length records) < limit then (Inr pj1, w1) else project_pages list pj1 w1))"
  by pat_completeness auto
termination
  by (relation "measure (\<lambda>(list, pj, w). nat (defaultHistoryRecordLimit + 1 - pj_total pj))")
     (auto dest!: projection_accept_total simp flip: length_greater_0_conv)

declare project_pages.simps [simp del]

definition view_timeline :: "checkpointProjection \<Rightarrow> Record list \<Rightarrow> CheckpointView list" where
  "view_timeline pj timeline =
     List.map_filter (\<lambda>r. map_option (\<lambda>v. v\<lparr>cv_Root := (rl_Sequence r = pj_root pj)\<rparr>) (pj_latest pj (rl_Sequence r)))
       timeline"

definition projectCheckpointHistory ::
  "('p, 'w) history_list \<Rightarrow> Snapshot \<Rightarrow> 'w \<Rightarrow> (goerr + Snapshot) \<times> 'w" where
  "projectCheckpointHistory list sn w =
     (case project_pages list \<lparr>pj_snapshot = sn, pj_latest = Map.empty, pj_afterVersion = 0, pj_root = 0,
             pj_total = 0\<rparr> w of
        (Inl e, w1) \<Rightarrow> (Inl e, w1)
      | (Inr pj, w1) \<Rightarrow>
          (Inr ((pj_snapshot pj)\<lparr>sn_Checkpoints := sn_Checkpoints (pj_snapshot pj) @
             view_timeline pj (sn_Timeline (pj_snapshot pj))\<rparr>), w1))"

definition empty_snapshot :: "string \<Rightarrow> Record list \<Rightarrow> Snapshot" where
  "empty_snapshot run records =
     \<lparr>sn_RunMeta = \<lparr>rm_SessionID = [], rm_RunID = run, rm_ParentRunID = [], rm_SourceRunID = [],
        rm_SourceEventSeq = 0, rm_SourceRevisionID = []\<rparr>,
      sn_WorkflowName = [], sn_TopologyVersion = [], sn_Timeline = map cloneRecord records,
      sn_Checkpoints = [], sn_Missing = []\<rparr>"

text \<open>\<open>RunLogSnapshotStore.Load\<close>; the store is its log and its history (None for a nil store).\<close>

definition snapshot_load ::
  "('w log_list \<times> ('p, 'w) history_list) option \<Rightarrow> SnapshotRequest \<Rightarrow> 'w \<Rightarrow> (goerr + Snapshot) \<times> 'w" where
  "snapshot_load store req w =
     (case store of
        None \<Rightarrow> (Inl (Msg ''workflow: snapshot store is nil''), w)
      | Some (log, history) \<Rightarrow>
          if sr_RunID req = [] then (Inl (Msg ''workflow: snapshot run id is required''), w)
          else (let boundedDefault = (sr_Limit req = 0);
                    queryLimit = (if boundedDefault then defaultHistoryRecordLimit + 1 else sr_Limit req) in
            case log \<lparr>q_SessionID = [], q_RunID = sr_RunID req, q_After = sr_After req, q_Limit = queryLimit\<rparr> w of
              (Inl e, w1) \<Rightarrow> (Inl e, w1)
            | (Inr records, w1) \<Rightarrow>
                if boundedDefault \<and> int (length records) > defaultHistoryRecordLimit
                  then (Inl (Wrap ''run exceeds timeline records'' [Sentinel ErrHistoryLimitExceeded]), w1)
                else (case projectTimeline True records (empty_snapshot (sr_RunID req) records) of
                    Inl e \<Rightarrow> (Inl e, w1)
                  | Inr sn \<Rightarrow> projectCheckpointHistory history sn w1)))"

section \<open>Forks\<close>

record ForkRequest =
  fo_SourceRunID :: string
  fo_FromEventSeq :: int
  fo_WorkflowInput :: "govalue option"

definition snapshot_checkpoint :: "Snapshot \<Rightarrow> int \<Rightarrow> CheckpointView option" where
  "snapshot_checkpoint sn sequence = List.find (\<lambda>v. cv_EventSeq v = sequence) (sn_Checkpoints sn)"

text \<open>
  What \<open>Fork\<close> checks before it invokes the target: the input, the session and the association
  of the new run. \<open>config\<close> is the run id of the resolved run options, or their error.
\<close>

definition fork_start ::
  "Snapshot \<Rightarrow> (goerr + compiled) option \<Rightarrow> ForkRequest \<Rightarrow> goerr + string \<Rightarrow> goerr + govalue \<times> string \<times> Association" where
  "fork_start sn target req config =
     (case target of
        None \<Rightarrow> Inl (Msg ''workflow: nil workflow'')
      | Some (Inl e) \<Rightarrow> Inl e
      | Some (Inr c) \<Rightarrow>
          if fo_SourceRunID req = [] \<or> fo_SourceRunID req \<noteq> rm_RunID (sn_RunMeta sn)
            then Inl (Msg ''workflow: fork source run id does not match snapshot run id'')
          else if sn_Timeline sn = [] then Inl (Msg ''workflow: fork snapshot has empty timeline'')
          else if fo_FromEventSeq req \<le> 0 then Inl (Msg ''workflow: fork event sequence must be positive'')
          else (case snapshot_checkpoint sn (fo_FromEventSeq req) of
              None \<Rightarrow> Inl (Msg ''workflow: fork event sequence is not a stable checkpoint boundary'')
            | Some v \<Rightarrow>
                if \<not> cv_Root v \<or> cv_ReplayStatus v \<noteq> ReplaySafe
                  then Inl (Msg ''workflow: generic fork requires a safe root checkpoint'')
                else if sn_WorkflowName sn \<noteq> co_name c \<or> sn_TopologyVersion sn \<noteq> co_topologyVersion c \<or>
                        cv_SchemaVersion v \<noteq> checkpointSchemaVersion
                  then Inl (snapshot_mismatch ''fork target does not match snapshot topology'')
                else (case fo_WorkflowInput req of
                    None \<Rightarrow> Inl (Msg ''workflow: fork workflow input patch is required'')
                  | Some input \<Rightarrow>
                      if \<not> has_type input (co_inputType c) then Inl (Msg ''workflow: fork workflow input has another type'')
                      else andthen config (\<lambda>runID.
                        if runID = rm_RunID (sn_RunMeta sn) then Inl (Msg ''workflow: fork cannot reuse source run id'')
                        else Inr (input, rm_SessionID (sn_RunMeta sn),
                               \<lparr>as_SourceRunID = fo_SourceRunID req, as_SourceEventSeq = fo_FromEventSeq req\<rparr>)))))"

end
