(* ===== verification/Control.thy ===== *)
theory Control
  imports History Journal Settlement
begin

text \<open>
  Control of runs from outside (\<open>control.go\<close>): the registry of active runs with termination, and
  what a retry or a jump makes of a failed run: the search for the source record and its stable
  checkpoint, and the payload the new run starts from.
\<close>

section \<open>Active runs\<close>

text \<open>The registered runs, each with the cause it was cancelled with so far.\<close>

type_synonym activeRuns = "(string, goerr option) fmap"

definition registerRun :: "string \<Rightarrow> activeRuns \<Rightarrow> goerr option \<times> activeRuns" where
  "registerRun runID active =
     (if fmlookup active runID \<noteq> None then (Some (Sentinel ErrRunActive), active)
      else (None, fmupd runID None active))"

definition unregisterRun :: "string \<Rightarrow> activeRuns \<Rightarrow> activeRuns" where
  "unregisterRun runID active = fmdrop runID active"

definition terminate_run :: "string \<Rightarrow> activeRuns \<Rightarrow> goerr option \<times> activeRuns" where
  "terminate_run runID active =
     (if runID = [] then (Some (Msg ''workflow: cancel run id is required''), active)
      else (case fmlookup active runID of
          None \<Rightarrow> (Some (Sentinel ErrRunNotActive), active)
        | Some cause \<Rightarrow>
            (None, fmupd runID (if cause = None
               then Some (Joined [Sentinel ContextCanceled, Sentinel ErrRunTerminated]) else cause) active)))"

section \<open>Searching the log\<close>

record runLogSearch =
  fs_runID :: string
  fs_match :: "Record \<Rightarrow> bool"
  fs_after :: int
  fs_total :: int

fun search_accept :: "Record list \<Rightarrow> runLogSearch \<Rightarrow> goerr + Record option \<times> runLogSearch" where
  "search_accept [] search = Inr (None, search)"
| "search_accept (r # rs) search =
     (if fs_total search + 1 > defaultHistoryRecordLimit
        then Inl (Wrap ''run exceeds records'' [Sentinel ErrHistoryLimitExceeded])
      else if rl_RunID r \<noteq> fs_runID search \<or> rl_Sequence r \<noteq> fs_after search + 1
        then Inl (Msg ''workflow: runlog history is not contiguous'')
      else (let search1 = search\<lparr>fs_total := fs_total search + 1, fs_after := rl_Sequence r\<rparr> in
        if fs_match search r then Inr (Some r, search1) else search_accept rs search1))"

lemma search_accept_total:
  "search_accept rs search = Inr (None, search') \<Longrightarrow> fs_total search' = fs_total search + int (length rs) \<and>
     (rs \<noteq> [] \<longrightarrow> fs_total search' \<le> defaultHistoryRecordLimit)"
  by (induction rs search rule: search_accept.induct) (force simp: Let_def split: if_splits)+

function find_pages :: "'w log_list \<Rightarrow> runLogSearch \<Rightarrow> 'w \<Rightarrow> (goerr + Record option) \<times> 'w" where
  "find_pages list search w =
     (let limit = page_limit (fs_total search) in
      case list \<lparr>q_SessionID = [], q_RunID = fs_runID search, q_After = fs_after search, q_Limit = limit\<rparr> w of
        (Inl e, w1) \<Rightarrow> (Inl e, w1)
      | (Inr records, w1) \<Rightarrow>
          if int (length records) > limit
            then (Inl (Msg ''workflow: runlog returned more records than the limit''), w1)
          else if records = [] then (Inr None, w1)
          else (case search_accept records search of
              Inl e \<Rightarrow> (Inl e, w1)
            | Inr (Some r, search1) \<Rightarrow> (Inr (Some r), w1)
            | Inr (None, search1) \<Rightarrow>
                if int (length records) < limit then (Inr None, w1) else find_pages list search1 w1))"
  by pat_completeness auto
termination
  by (relation "measure (\<lambda>(list, search, w). nat (defaultHistoryRecordLimit + 1 - fs_total search))")
     (auto dest!: search_accept_total [OF sym] search_accept_total simp flip: length_greater_0_conv)

declare find_pages.simps [simp del]

text \<open>None is a nil log.\<close>

definition findRunLogRecord ::
  "'w log_list option \<Rightarrow> string \<Rightarrow> (Record \<Rightarrow> bool) \<Rightarrow> 'w \<Rightarrow> (goerr + Record option) \<times> 'w" where
  "findRunLogRecord log runID matcher w =
     (case log of
        None \<Rightarrow> (Inl (Sentinel ErrNilLog), w)
      | Some list \<Rightarrow>
          find_pages list \<lparr>fs_runID = runID, fs_match = matcher, fs_after = 0, fs_total = 0\<rparr> w)"

record RetryRequest =
  rt_RunID :: string
  rt_NodeID :: string
  rt_NodeExecutionVersion :: int

record JumpRequest =
  jr_RunID :: string
  jr_FromRevisionID :: string
  jr_ContextPatch :: govalue

definition controlSource :: "'w log_list \<Rightarrow> string \<Rightarrow> string \<Rightarrow> 'w \<Rightarrow> (goerr + Record) \<times> 'w" where
  "controlSource log runID revisionID w =
     (case findRunLogRecord (Some log) runID (\<lambda>r. rl_RevisionID r = revisionID) w of
        (Inl e, w1) \<Rightarrow> (Inl e, w1)
      | (Inr (Some r), w1) \<Rightarrow> (Inr r, w1)
      | (Inr None, w1) \<Rightarrow> (Inl (Msg ''workflow: source revision was not found''), w1))"

definition retry_match :: "RetryRequest \<Rightarrow> Record \<Rightarrow> bool" where
  "retry_match req r \<longleftrightarrow> rl_EventType r = EventNodeStarted \<and> rl_NodeID r = rt_NodeID req \<and>
     rl_NodeExecutionVersion r = rt_NodeExecutionVersion req"

definition retrySource :: "'w log_list \<Rightarrow> RetryRequest \<Rightarrow> 'w \<Rightarrow> (goerr + Record) \<times> 'w" where
  "retrySource log req w =
     (case findRunLogRecord (Some log) (rt_RunID req) (retry_match req) w of
        (Inl e, w1) \<Rightarrow> (Inl e, w1)
      | (Inr (Some r), w1) \<Rightarrow> (Inr r, w1)
      | (Inr None, w1) \<Rightarrow> (Inl (Msg ''workflow: retry source node execution was not found''), w1))"

section \<open>Searching the checkpoints\<close>

text \<open>\<open>cs_selected\<close> is None for the zero record, whose id is empty.\<close>

record 'p checkpointSearch =
  cs_runID :: string
  cs_sequence :: int
  cs_afterVersion :: int
  cs_total :: int
  cs_selected :: "'p CheckpointRecord option"

definition stable_at :: "int \<Rightarrow> 'p CheckpointRecord \<Rightarrow> bool" where
  "stable_at sequence r \<longleftrightarrow> cp_ConfirmedSequence r = sequence \<and> cp_PendingSequence r = 0"

fun checkpoint_accept ::
  "'p CheckpointRecord list \<Rightarrow> 'p checkpointSearch \<Rightarrow> goerr + 'p checkpointSearch" where
  "checkpoint_accept [] search = Inr search"
| "checkpoint_accept (r # rs) search =
     (if cs_total search + 1 > defaultHistoryRecordLimit
        then Inl (Wrap ''run exceeds checkpoints'' [Sentinel ErrHistoryLimitExceeded])
      else if cp_RunID r \<noteq> cs_runID search \<or> cp_Version r \<le> cs_afterVersion search
        then Inl (snapshot_mismatch ''checkpoint history is not ordered'')
      else checkpoint_accept rs (search\<lparr>cs_total := cs_total search + 1, cs_afterVersion := cp_Version r,
             cs_selected := (if stable_at (cs_sequence search) r then Some r else cs_selected search)\<rparr>))"

lemma checkpoint_accept_total:
  "checkpoint_accept rs search = Inr search' \<Longrightarrow> cs_total search' = cs_total search + int (length rs) \<and>
     (rs \<noteq> [] \<longrightarrow> cs_total search' \<le> defaultHistoryRecordLimit)"
  by (induction rs search rule: checkpoint_accept.induct) (force split: if_splits)+

definition search_result :: "'p checkpointSearch \<Rightarrow> 'p CheckpointRecord option" where
  "search_result search =
     (case cs_selected search of None \<Rightarrow> None | Some r \<Rightarrow> if cp_ID r \<noteq> [] then Some r else None)"

function checkpoint_pages ::
  "('p, 'w) history_list \<Rightarrow> 'p checkpointSearch \<Rightarrow> 'w \<Rightarrow> (goerr + 'p CheckpointRecord option) \<times> 'w" where
  "checkpoint_pages list search w =
     (let limit = page_limit (cs_total search) in
      case list \<lparr>hr_RunID = cs_runID search, hr_AfterVersion = cs_afterVersion search, hr_Limit = limit\<rparr> w of
        (Inl e, w1) \<Rightarrow> (Inl e, w1)
      | (Inr records, w1) \<Rightarrow>
          if int (length records) > limit
            then (Inl (Msg ''workflow: checkpoint history returned more records than the limit''), w1)
          else if records = [] then (Inr (search_result search), w1)
          else (case checkpoint_accept records search of
              Inl e \<Rightarrow> (Inl e, w1)
            | Inr search1 \<Rightarrow>
                if int (length records) < limit then (Inr (search_result search1), w1)
                else checkpoint_pages list search1 w1))"
  by pat_completeness auto
termination
  by (relation "measure (\<lambda>(list, search, w). nat (defaultHistoryRecordLimit + 1 - cs_total search))")
     (auto dest!: checkpoint_accept_total simp flip: length_greater_0_conv)

declare checkpoint_pages.simps [simp del]

definition checkpointAtSequence ::
  "('p, 'w) history_list \<Rightarrow> string \<Rightarrow> int \<Rightarrow> 'w \<Rightarrow> (goerr + 'p CheckpointRecord option) \<times> 'w" where
  "checkpointAtSequence history runID sequence w =
     checkpoint_pages history \<lparr>cs_runID = runID, cs_sequence = sequence, cs_afterVersion = 0, cs_total = 0,
       cs_selected = None\<rparr> w"

section \<open>What the new run starts from\<close>

text \<open>The versions of the head are merged first; \<open>resetControlAttempts\<close> drops them again.\<close>

definition merge_versions :: "(string, int) fmap \<Rightarrow> (string, int) fmap \<Rightarrow> (string, int) fmap" where
  "merge_versions versions head =
     foldl (\<lambda>m k. fmupd k (max (count_of m k) (count_of head k)) m) versions (sorted_keys head)"

definition mergeRetryHead :: "runState \<Rightarrow> runState \<Rightarrow> runState" where
  "mergeRetryHead head state = state
     \<lparr>rs_nextActSeq := max (rs_nextActSeq state) (rs_nextActSeq head),
      rs_nextSetSeq := max (rs_nextSetSeq state) (rs_nextSetSeq head),
      rs_nextIterSeq := max (rs_nextIterSeq state) (rs_nextIterSeq head),
      rs_nextCompletion := max (rs_nextCompletion state) (rs_nextCompletion head),
      rs_contextRevision := max (rs_contextRevision state) (rs_contextRevision head),
      rs_nodeVersions := merge_versions (rs_nodeVersions state) (rs_nodeVersions head)\<rparr>"

definition resetControlAttempts :: "runState \<Rightarrow> runState" where
  "resetControlAttempts state = state
     \<lparr>rs_nodeVersions := fmempty,
      rs_activations := fmmap (\<lambda>r. r\<lparr>ar_attempt := 0, ar_nodeExecutionVersion := 0\<rparr>) (rs_activations state)\<rparr>"

definition isolatedRetrySource :: "runState \<Rightarrow> activation \<Rightarrow> bool" where
  "isolatedRetrySource state source \<longleftrightarrow>
     (case rs_queue state of [item] \<Rightarrow> ac_id item = ac_id source | _ \<Rightarrow> False) \<and>
     \<not> hasOpenIterSource state \<and>
     list_all (\<lambda>aid. aid = ac_id source \<or> ar_phase (the (fmlookup (rs_activations state) aid)) \<in>
         {activationCompleted, activationFailed, activationCanceled, activationSkipped})
       (sorted_keys (rs_activations state)) \<and>
     list_all (\<lambda>sid. sid = ac_sourceSet source \<or> ss_settled (the (fmlookup (rs_sourceSets state) sid)))
       (sorted_keys (rs_sourceSets state))"

definition control_meta :: "string \<Rightarrow> Record \<Rightarrow> checkpointPayloadMeta \<Rightarrow> checkpointPayloadMeta" where
  "control_meta origin source meta = meta
     \<lparr>pm_OwnerID := [], pm_LeaseExpiresAt := zero_time, pm_EventCursor := 0, pm_PendingEvent := None,
      pm_PendingTerm := None, pm_PendingInterrupts := [], pm_ResolvedInterrupts := [],
      pm_ExecutionEpoch := 1, pm_ControlOrigin := origin, pm_SourceRevisionID := rl_RevisionID source,
      pm_SourceRunID := rl_RunID source, pm_SourceEventSeq := rl_Sequence source\<rparr>"

text \<open>The decoded payloads of the source checkpoint and of the head, with matching identities.\<close>

definition control_payloads ::
  "compiled \<Rightarrow> cprecord \<Rightarrow> cprecord \<Rightarrow> goerr + checkpointPayload \<times> checkpointPayload" where
  "control_payloads c checkpoint head =
     andthen (decodeCheckpointPayload (cp_Payload checkpoint)) (\<lambda>sourcePayload.
     andthen (decodeCheckpointPayload (cp_Payload head)) (\<lambda>headPayload.
       case validateCheckpointIdentity c (pl_Meta sourcePayload) of
         Some e \<Rightarrow> Inl e
       | None \<Rightarrow>
           (case validateCheckpointIdentity c (pl_Meta headPayload) of
              Some e \<Rightarrow> Inl e
            | None \<Rightarrow> Inr (sourcePayload, headPayload))))"

definition retry_state :: "Record \<Rightarrow> string \<Rightarrow> runState \<Rightarrow> runState \<Rightarrow> goerr + runState" where
  "retry_state source aid state headState =
     (case fmlookup (rs_activations state) aid of
        None \<Rightarrow> Inl (Msg ''workflow: retry source activation is missing'')
      | Some r \<Rightarrow>
          if ac_node (ar_activation r) \<noteq> rl_NodeID source
            then Inl (Msg ''workflow: retry source activation is missing'')
          else if ac_sourceSet (ar_activation r) \<noteq> [] \<and>
                  (\<not> singleBranchSourceSet (ac_sourceSet (ar_activation r)) state \<or>
                   \<not> isolatedRetrySource state (ar_activation r))
            then Inl (Msg ''workflow: retry of a fan-out branch is not supported'')
          else (let ready = r\<lparr>ar_phase := activationReady, ar_origin := ''external_retry'',
                      ar_result := zero_result, ar_hasResult := False, ar_cause := None\<rparr>;
                    s1 = state\<lparr>rs_activations := fmupd aid ready (rs_activations headState),
                      rs_queue := [ar_activation r]\<rparr>;
                    s2 = resetControlAttempts (mergeRetryHead headState s1)
                in Inr (s2\<lparr>rs_contextRevision := rs_contextRevision s2 + 1\<rparr>)))"

text \<open>\<open>unmarshal\<close> is \<open>json.Unmarshal\<close> into the facts of a node event.\<close>

definition retryPayload ::
  "gob_size \<Rightarrow> (payload \<Rightarrow> goerr + NodeEventPayload) \<Rightarrow> compiled \<Rightarrow> Record \<Rightarrow> cprecord \<Rightarrow> cprecord
   \<Rightarrow> goerr + checkpointPayload gobbytes" where
  "retryPayload gob unmarshal c source checkpoint head =
     (case unmarshal (rl_Payload source) of
        Inl e \<Rightarrow> Inl (Wrap ''workflow: decode retry source facts'' [e])
      | Inr nodeFacts \<Rightarrow>
          andthen (control_payloads c checkpoint head) (\<lambda>(sourcePayload, headPayload).
          andthen (retry_state source (ne_ActivationID nodeFacts) (payload_state sourcePayload)
                     (payload_state headPayload)) (\<lambda>state.
            encodeCheckpointPayloadWithMeta gob state (pl_Outputs sourcePayload) 1
              (control_meta ''external_retry'' source (pl_Meta headPayload)))))"

definition patchJumpContext :: "compiled \<Rightarrow> govalue \<Rightarrow> runState \<Rightarrow> goerr + runState" where
  "patchJumpContext c patch state =
     (case dyn_type patch of
        None \<Rightarrow> Inr state
      | Some t \<Rightarrow>
          (let expected = (case co_contextType c of None \<Rightarrow> co_inputType c | Some ct \<Rightarrow> ct) in
           if assignable_to t expected then Inr (state\<lparr>rs_workflowContext := patch, rs_hasContext := True\<rparr>)
           else Inl (Msg ''workflow: jump context type does not match'')))"

definition jump_state ::
  "compiled \<Rightarrow> Record \<Rightarrow> string \<Rightarrow> govalue \<Rightarrow> govalue \<Rightarrow> runState \<Rightarrow> runState \<Rightarrow> goerr + runState" where
  "jump_state c source target input patch state headState =
     andthen (patchJumpContext c patch (mergeRetryHead headState state)) (\<lambda>s1.
       let s2 = s1\<lparr>rs_contextRevision := rs_contextRevision s1 + 1, rs_queue := [],
             rs_activations := rs_activations headState, rs_scheduled := fmempty, rs_completed := fmempty,
             rs_buckets := fmempty, rs_correlations := fmempty, rs_sourceSets := fmempty,
             rs_iterSources := fmempty, rs_liveIters := fmempty\<rparr>;
           (item, s3) = enqueue \<lparr>er_target = target, er_input = input, er_sourceSet = [], er_branchIndex = 0,
             er_correlation = CorrelationKey (rl_RunID source) 1\<rparr> (resetControlAttempts s2)
       in Inr (put_record (ac_id item)
            ((the (fmlookup (rs_activations s3) (ac_id item)))\<lparr>ar_origin := ''external_jump''\<rparr>) s3))"

record jumpPayloadRequest =
  jq_source :: Record
  jq_checkpoint :: cprecord
  jq_head :: cprecord
  jq_target :: string
  jq_input :: govalue
  jq_contextPatch :: govalue

definition jumpPayload ::
  "gob_size \<Rightarrow> compiled \<Rightarrow> jumpPayloadRequest \<Rightarrow> goerr + checkpointPayload gobbytes" where
  "jumpPayload gob c req =
     andthen (control_payloads c (jq_checkpoint req) (jq_head req)) (\<lambda>(sourcePayload, headPayload).
     andthen (jump_state c (jq_source req) (jq_target req) (jq_input req) (jq_contextPatch req)
                (payload_state sourcePayload) (payload_state headPayload)) (\<lambda>state.
       encodeCheckpointPayloadWithMeta gob state [] 1
         (control_meta ''external_jump'' (jq_source req) (pl_Meta headPayload))))"

record controlStart =
  ct_payload :: "checkpointPayload gobbytes"
  ct_sessionID :: string
  ct_association :: Association

text \<open>What \<open>prepareRetry\<close> and \<open>prepareJump\<close> share: the source, its checkpoint, and the failed head;
  \<open>verb\<close> is what the messages call the control.\<close>

definition control_start ::
  "string \<Rightarrow> 'w services \<Rightarrow> (checkpointPayload, 'w) history_list \<Rightarrow> string \<Rightarrow> ('w \<Rightarrow> (goerr + Record) \<times> 'w)
   \<Rightarrow> (Record \<Rightarrow> cprecord \<Rightarrow> cprecord \<Rightarrow> goerr + checkpointPayload gobbytes) \<Rightarrow> 'w
   \<Rightarrow> (goerr + controlStart) \<times> 'w" where
  "control_start verb sv history runID find_source build w =
     (case find_source w of
        (Inl e, w1) \<Rightarrow> (Inl e, w1)
      | (Inr source, w1) \<Rightarrow>
          (case checkpointAtSequence history runID (rl_Sequence source) w1 of
             (Inl e, w2) \<Rightarrow> (Inl e, w2)
           | (Inr None, w2) \<Rightarrow> (Inl (Msg (''workflow: '' @ verb @ '' source revision has no stable checkpoint'')), w2)
           | (Inr (Some checkpoint), w2) \<Rightarrow>
               (case sv_Load sv None runID w2 of
                  (Inl e, w3) \<Rightarrow> (Inl e, w3)
                | (Inr head, w3) \<Rightarrow>
                    (if cp_Status head \<noteq> CheckpointFailed
                       then Inl (Msg (''workflow: '' @ verb @ '' requires a failed run''))
                     else andthen (build source checkpoint head) (\<lambda>payload.
                       Inr \<lparr>ct_payload = payload, ct_sessionID = cp_SessionID head,
                            ct_association = \<lparr>as_SourceRunID = runID, as_SourceEventSeq = rl_Sequence source\<rparr>\<rparr>), w3))))"

definition prepareRetry ::
  "'w services \<Rightarrow> (checkpointPayload, 'w) history_list \<Rightarrow> (payload \<Rightarrow> goerr + NodeEventPayload) \<Rightarrow> compiled
   \<Rightarrow> RetryRequest \<Rightarrow> 'w \<Rightarrow> (goerr + controlStart) \<times> 'w" where
  "prepareRetry sv history unmarshal c req w =
     (if rt_RunID req = [] \<or> rt_NodeID req = [] \<or> rt_NodeExecutionVersion req \<le> 0
        then (Inl (Msg ''workflow: retry requires run id, node id, and positive node execution version''), w)
      else control_start ''retry'' sv history (rt_RunID req) (retrySource (sv_List sv None) req)
        (retryPayload (sv_gob sv) unmarshal c) w)"

definition prepareJump ::
  "'w services \<Rightarrow> (checkpointPayload, 'w) history_list \<Rightarrow> compiled \<Rightarrow> string \<Rightarrow> govalue \<Rightarrow> JumpRequest \<Rightarrow> 'w
   \<Rightarrow> (goerr + controlStart) \<times> 'w" where
  "prepareJump sv history c target input req w =
     (if jr_RunID req = [] \<or> jr_FromRevisionID req = []
        then (Inl (Msg ''workflow: jump requires run id and source revision id''), w)
      else control_start ''jump'' sv history (jr_RunID req)
        (controlSource (sv_List sv None) (jr_RunID req) (jr_FromRevisionID req))
        (\<lambda>source checkpoint head. jumpPayload (sv_gob sv) c \<lparr>jq_source = source, jq_checkpoint = checkpoint,
           jq_head = head, jq_target = target, jq_input = input, jq_contextPatch = jr_ContextPatch req\<rparr>) w)"

section \<open>What the searches find\<close>

lemma page_limit_bounds: "0 \<le> k \<Longrightarrow> k \<le> 10000 \<Longrightarrow> 1 \<le> page_limit k \<and> page_limit k \<le> 10001 - k"
  by (simp add: page_limit_def history_limits)

text \<open>A page is the next piece of a list; a short page is the last one.\<close>

lemma page_split:
  assumes "length es \<le> 10000" "k \<le> length es" "m = nat (page_limit (int k))"
  shows "0 < m" "page_limit (int k) = int m"
    "length (take m (drop k es)) < m \<Longrightarrow> take m (drop k es) = drop k es"
    "length (take m (drop k es)) \<noteq> m \<or> drop k es = take m (drop k es) @ drop (k + m) es \<and> k + m \<le> length es"
proof -
  show "0 < m" "page_limit (int k) = int m"
    using page_limit_bounds [of "int k"] assms by auto
  show "length (take m (drop k es)) < m \<Longrightarrow> take m (drop k es) = drop k es" by simp
  have "drop (k + m) es = drop m (drop k es)" by (simp add: add.commute)
  then have "drop k es = take m (drop k es) @ drop (k + m) es" by (metis append_take_drop_id)
  moreover have "length (take m (drop k es)) = m \<Longrightarrow> k + m \<le> length es"
    using assms(2) by (auto simp: min_def split: if_splits)
  ultimately show "length (take m (drop k es)) \<noteq> m \<or> drop k es = take m (drop k es) @ drop (k + m) es \<and> k + m \<le> length es"
    by blast
qed

lemma find_append:
  "List.find P (xs @ ys) = (case List.find P xs of None \<Rightarrow> List.find P ys | Some x \<Rightarrow> Some x)"
  by (induction xs) simp_all

definition log_search :: "string \<Rightarrow> (Record \<Rightarrow> bool) \<Rightarrow> nat \<Rightarrow> runLogSearch" where
  "log_search run P k = \<lparr>fs_runID = run, fs_match = P, fs_after = int k, fs_total = int k\<rparr>"

lemma log_search_simps [simp]:
  "fs_runID (log_search run P k) = run" "fs_match (log_search run P k) = P"
  "fs_after (log_search run P k) = int k" "fs_total (log_search run P k) = int k"
  by (simp_all add: log_search_def)

lemma search_accept_find:
  assumes "map rl_Sequence xs = [int k + 1..int k + int (length xs)]" "list_all (\<lambda>r. rl_RunID r = run) xs"
    "k + length xs \<le> 10000"
  shows "\<exists>search'. search_accept xs (log_search run P k) = Inr (List.find P xs, search') \<and>
    (List.find P xs = None \<longrightarrow> search' = log_search run P (k + length xs))"
  using assms
proof (induction xs arbitrary: k)
  case (Cons x xs)
  have "[int k + 1..int k + int (length (x # xs))] = (int k + 1) # [int k + 2..int k + int (length (x # xs))]"
    using upto_rec1 [of "int k + 1" "int k + int (length (x # xs))"] by (simp add: add.commute add.left_commute)
  moreover have "int k + 2 = int (Suc k) + 1" "int k + int (length (x # xs)) = int (Suc k) + int (length xs)"
    by simp_all
  ultimately have x: "rl_Sequence x = int k + 1"
    and xs: "map rl_Sequence xs = [int (Suc k) + 1..int (Suc k) + int (length xs)]"
    using Cons.prems(1) by (metis list.inject list.simps(9))+
  have move: "(log_search run P k)\<lparr>fs_total := int k + 1, fs_after := int k + 1\<rparr> = log_search run P (Suc k)"
    by (simp add: log_search_def)
  have "search_accept (x # xs) (log_search run P k) =
      (if P x then Inr (Some x, log_search run P (Suc k)) else search_accept xs (log_search run P (Suc k)))"
    using Cons.prems(2,3) x by (simp add: history_limits Let_def move)
  then show ?case
    using Cons.IH [OF xs] Cons.prems(2,3) by simp
qed simp

context run_log
begin

text \<open>The loop over the pages of a contiguous run finds its first matching record.\<close>

lemma find_pages_first:
  assumes "inv l" "contiguous run l" "run \<noteq> []" "length (run_entries run l) \<le> 10000" "k \<le> length (run_entries run l)"
  shows "fst (find_pages (\<lambda>q w. (list_records q w, w)) (log_search run P k) l) =
    Inr (List.find P (drop k (run_entries run l)))"
  using assms(5)
proof (induction "length (run_entries run l) - k" arbitrary: k rule: less_induct)
  case less
  define es where "es = run_entries run l"
  define m where "m = nat (page_limit (int k))"
  note s = page_split [OF assms(4) less.prems m_def, folded es_def]
  define pg where "pg = take m (drop k es)"
  have p: "list_records \<lparr>q_SessionID = [], q_RunID = run, q_After = int k, q_Limit = int m\<rparr> l = Inr pg"
    unfolding pg_def es_def by (rule page [OF assms(1-3) s(1)])
  have seq: "map rl_Sequence pg = [int k + 1..int k + int (length pg)]"
  proof -
    have "map rl_Sequence es = [1..int (length es)]" using assms(2) by (simp add: contiguous_def es_def)
    then have "map rl_Sequence pg = take m (drop k [1..int (length es)])" by (simp add: pg_def flip: take_map drop_map)
    also have "\<dots> = [int k + 1..int k + int (length pg)]"
      using less.prems by (intro nth_equalityI) (auto simp: pg_def es_def)
    finally show ?thesis .
  qed
  have run: "list_all (\<lambda>r. rl_RunID r = run) pg"
    by (auto simp: pg_def es_def run_entries_def list_all_iff dest!: in_set_takeD in_set_dropD)
  have len: "k + length pg \<le> 10000" using assms(4) less.prems by (simp add: pg_def es_def)
  from search_accept_find [OF seq run len] obtain search' where
    a: "search_accept pg (log_search run P k) = Inr (List.find P pg, search')"
    and s': "List.find P pg = None \<Longrightarrow> search' = log_search run P (k + length pg)" by blast
  have lep: "length pg \<le> m" by (simp add: pg_def)
  have u: "find_pages (\<lambda>q w. (list_records q w, w)) (log_search run P k) l =
      (if pg = [] then (Inr None, l) else case List.find P pg of Some r \<Rightarrow> (Inr (Some r), l)
       | None \<Rightarrow> if length pg < m then (Inr None, l)
           else find_pages (\<lambda>q w. (list_records q w, w)) search' l)"
    using lep by (subst find_pages.simps) (simp add: log_search_def s(2) p a [unfolded log_search_def] split: option.split)
  show ?case
  proof (cases "length pg = m")
    case False
    then have "pg = drop k es" using s(3) by (fastforce simp: pg_def)
    moreover have "length pg < m" using False lep by simp
    ultimately show ?thesis by (auto simp: u simp flip: es_def split: option.split)
  next
    case True
    with s(1,4) have d: "drop k es = pg @ drop (k + m) es" "k + m \<le> length es" "pg \<noteq> []"
      by (auto simp: pg_def)
    show ?thesis
    proof (cases "List.find P pg")
      case None
      then have "fst (find_pages (\<lambda>q w. (list_records q w, w)) search' l) = Inr (List.find P (drop (k + m) es))"
        using less.hyps [of "k + m"] d(2) s(1) s' True by (simp add: es_def)
      moreover have "List.find P (drop k es) = List.find P (drop (k + m) es)"
        using None d(1) by (simp add: find_append)
      ultimately show ?thesis using d(3) None True by (simp add: u es_def)
    next
      case (Some r)
      moreover have "List.find P (drop k es) = Some r" using Some d(1) by (simp add: find_append)
      ultimately show ?thesis using d(3) by (simp add: u es_def)
    qed
  qed
qed

end

definition checkpoint_search :: "string \<Rightarrow> int \<Rightarrow> nat \<Rightarrow> 'p CheckpointRecord option \<Rightarrow> 'p checkpointSearch" where
  "checkpoint_search run n k sel =
     \<lparr>cs_runID = run, cs_sequence = n, cs_afterVersion = int k, cs_total = int k, cs_selected = sel\<rparr>"

lemma checkpoint_search_simps [simp]:
  "cs_runID (checkpoint_search run n k sel) = run" "cs_sequence (checkpoint_search run n k sel) = n"
  "cs_afterVersion (checkpoint_search run n k sel) = int k" "cs_total (checkpoint_search run n k sel) = int k"
  "cs_selected (checkpoint_search run n k sel) = sel"
  by (simp_all add: checkpoint_search_def)

text \<open>The last version of a history that is stable at an event.\<close>

definition latest_stable :: "int \<Rightarrow> 'p CheckpointRecord option \<Rightarrow> 'p CheckpointRecord list \<Rightarrow> 'p CheckpointRecord option" where
  "latest_stable n sel h = foldl (\<lambda>sel r. if stable_at n r then Some r else sel) sel h"

lemma latest_stable_last:
  "latest_stable n None h = (let rs = filter (stable_at n) h in if rs = [] then None else Some (last rs))"
  by (induction h rule: rev_induct) (simp_all add: latest_stable_def Let_def)

lemma checkpoint_accept_latest:
  assumes "\<forall>i < length xs. cp_Version (xs ! i) = int k + int i + 1" "list_all (\<lambda>r. cp_RunID r = run) xs"
    "k + length xs \<le> 10000"
  shows "checkpoint_accept xs (checkpoint_search run n k sel) =
    Inr (checkpoint_search run n (k + length xs) (latest_stable n sel xs))"
  using assms
proof (induction xs arbitrary: k sel)
  case (Cons x xs)
  have x: "cp_Version x = int k + 1" using Cons.prems(1) by force
  have xs: "\<forall>i < length xs. cp_Version (xs ! i) = int (Suc k) + int i + 1"
  proof (intro allI impI)
    fix i assume "i < length xs"
    then show "cp_Version (xs ! i) = int (Suc k) + int i + 1"
      using Cons.prems(1) [rule_format, of "Suc i"] by simp
  qed
  let ?sel = "if stable_at n x then Some x else sel"
  have move: "(checkpoint_search run n k sel)\<lparr>cs_total := int k + 1, cs_afterVersion := int k + 1,
      cs_selected := c\<rparr> = checkpoint_search run n (Suc k) c" for c
    by (simp add: checkpoint_search_def)
  have "checkpoint_accept (x # xs) (checkpoint_search run n k sel) =
      checkpoint_accept xs (checkpoint_search run n (Suc k) ?sel)"
    using Cons.prems(2,3) x by (simp add: history_limits move)
  then show ?case
    using Cons.IH [OF xs, of ?sel] Cons.prems(2,3) by (simp add: latest_stable_def)
qed (simp add: latest_stable_def)

context checkpoint_history
begin

lemma checkpoint_pages_latest:
  assumes "good s" "versions s run = Some h" "run \<noteq> []" "length h \<le> 10000" "k \<le> length h"
  shows "fst (checkpoint_pages (\<lambda>q w. (list_checkpoints q w, w)) (checkpoint_search run n k sel) s) =
    Inr (search_result (checkpoint_search run n (length h) (latest_stable n sel (drop k h))))"
  using assms(5)
proof (induction "length h - k" arbitrary: k sel rule: less_induct)
  case less
  define m where "m = nat (page_limit (int k))"
  note s = page_split [OF assms(4) less.prems m_def]
  define pg where "pg = take m (drop k h)"
  have p: "list_checkpoints \<lparr>hr_RunID = run, hr_AfterVersion = int k, hr_Limit = int m\<rparr> s = Inr pg"
    unfolding pg_def by (rule history_page [OF assms(1-3) s(1)])
  have lep: "length pg \<le> m" by (simp add: pg_def)
  have ver: "\<forall>i < length pg. cp_Version (pg ! i) = int k + int i + 1"
    using version_nth [OF assms(1,2)] less.prems by (auto simp: pg_def)
  have run: "list_all (\<lambda>r. cp_RunID r = run) pg"
    using versions_ok [OF assms(1,2)] by (auto simp: pg_def list_all_iff dest!: in_set_takeD in_set_dropD)
  have len: "k + length pg \<le> 10000" using assms(4) less.prems by (simp add: pg_def)
  note a = checkpoint_accept_latest [OF ver run len]
  let ?next = "checkpoint_search run n (k + length pg) (latest_stable n sel pg)"
  have u: "checkpoint_pages (\<lambda>q w. (list_checkpoints q w, w)) (checkpoint_search run n k sel) s =
      (if pg = [] then (Inr (search_result (checkpoint_search run n k sel)), s)
       else if length pg < m then (Inr (search_result ?next), s)
       else checkpoint_pages (\<lambda>q w. (list_checkpoints q w, w)) ?next s)"
    using lep by (subst checkpoint_pages.simps) (simp add: s(2) p a)
  have res: "search_result (checkpoint_search run n i x) = search_result (checkpoint_search run n j x)" for i j x
    by (simp add: search_result_def)
  show ?case
  proof (cases "length pg = m")
    case False
    then have d: "pg = drop k h" "length pg < m" using s(3) lep by (fastforce simp: pg_def)+
    show ?thesis
    proof (cases "pg = []")
      case True
      with d(1) show ?thesis using res by (simp add: u latest_stable_def)
    next
      case False
      with d show ?thesis using res by (simp add: u)
    qed
  next
    case True
    with s(1,4) have d: "drop k h = pg @ drop (k + m) h" "k + m \<le> length h" "pg \<noteq> []"
      by (auto simp: pg_def)
    moreover have "length h - (k + m) < length h - k" using d s(1) by simp
    ultimately show ?thesis
      using less.hyps [of "k + m" "latest_stable n sel pg"] True s(1)
      by (simp add: u latest_stable_def)
  qed
qed

end

text \<open>
  The source of a retry or jump. On the memory store the paged searches find exactly what they
  name: the first record of the run that matches, and the last version of the run that is
  stable at the event of that record.
\<close>

theorem control_sources:
  assumes "log_inv l" "es = filter (\<lambda>r. rl_RunID r = run) (ml_records l)" "length es \<le> 10000"
    and "map rl_Sequence es = [1..int (length es)]"
    and "checkpointer_inv s" "mc_history s run = Some h" "length h \<le> 10000" "run \<noteq> []"
    and "list_all (\<lambda>r. cp_ID r \<noteq> []) h"
  shows "fst (findRunLogRecord (Some (\<lambda>q w. (MemoryLog_List None q w, w))) run P l) = Inr (List.find P es) \<and>
    fst (checkpointAtSequence (\<lambda>q w. (ListCheckpoints None q w, w)) run n s) =
      Inr (let rs = filter (\<lambda>r. cp_ConfirmedSequence r = n \<and> cp_PendingSequence r = 0) h in
           if rs = [] then None else Some (last rs))"
proof -
  have e: "memory_log.run_entries run l = es" by (simp add: memory_log.run_entries_def assms(2))
  have c: "memory_log.contiguous run l" using assms(4) by (simp add: memory_log.contiguous_def e)
  have "fst (findRunLogRecord (Some (\<lambda>q w. (MemoryLog_List None q w, w))) run P l) = Inr (List.find P es)"
    using memory_log.find_pages_first [OF assms(1) c assms(8), of 0 P] assms(3)
    by (simp add: e findRunLogRecord_def log_search_def)
  moreover have "fst (checkpointAtSequence (\<lambda>q w. (ListCheckpoints None q w, w)) run n s) =
      Inr (search_result (checkpoint_search run n (length h) (latest_stable n None h)))"
    using memory_history.checkpoint_pages_latest [OF assms(5,6,8,7), of 0 n None]
    by (simp add: checkpointAtSequence_def checkpoint_search_def)
  moreover have "search_result (checkpoint_search run n (length h) (latest_stable n None h)) =
      (let rs = filter (stable_at n) h in if rs = [] then None else Some (last rs))"
  proof (cases "filter (stable_at n) h = []")
    case False
    then have "last (filter (stable_at n) h) \<in> set h" using last_in_set [OF False] by simp
    with False assms(9) show ?thesis
      by (simp add: latest_stable_last search_result_def Let_def list_all_iff)
  qed (simp add: latest_stable_last search_result_def Let_def)
  ultimately show ?thesis by (simp add: stable_at_def [abs_def])
qed

definition control_log :: MemoryLog where
  "control_log = append_all [(None, sample_record 1), (None, sample_record 2)] NewMemoryLog"

theorem control_sources_witness:
  "fst (findRunLogRecord (Some (\<lambda>q w. (MemoryLog_List None q w, w))) ''r'' (\<lambda>r. rl_Sequence r = 2) control_log) =
      Inr (Some (sample_record 2)) \<and>
   fst (checkpointAtSequence (\<lambda>q w. (ListCheckpoints None q w, w)) ''r'' 7 (ms_checkpointer sample_created)) = Inr None"
proof -
  have l: "ml_records control_log = [sample_record 1, sample_record 2]"
    by (simp add: control_log_def append_all_simps NewMemoryLog_def MemoryLog_Append_def sample_record_valid
        record_key_def Let_def)
  have li: "log_inv control_log" unfolding control_log_def by (intro append_all_inv log_inv_New)
  obtain r where h: "mc_history (ms_checkpointer sample_created) ''r'' = Some [r]"
    and r: "cp_ID r \<noteq> []" "cp_ConfirmedSequence r \<noteq> 7"
    by (simp add: sample_store_defs)
  have "checkpointer_inv (ms_checkpointer sample_created)"
    using reachable_inv [OF sample_reachable(1)] .
  from control_sources [OF li refl _ _ this h, of "\<lambda>r. rl_Sequence r = 2" 7] r show ?thesis
    by (simp add: l upto.simps)
qed

section \<open>The start of a new run\<close>

definition ids_below :: "runState \<Rightarrow> bool" where
  "ids_below s \<longleftrightarrow> (\<forall>aid \<in> fmdom' (rs_activations s). \<exists>i < rs_nextActSeq s. aid = activation_id i)"

lemma fresh_id: "ids_below s \<Longrightarrow> rs_nextActSeq s \<le> n \<Longrightarrow> activation_id n \<notin> fmdom' (rs_activations s)"
  by (auto simp: ids_below_def activation_id_def)

lemma ids_below_weaken:
  assumes "ids_below s" "aid \<in> fmdom' (rs_activations s)" "rs_nextActSeq s \<le> n"
  shows "\<exists>i < n. aid = activation_id i"
  using assms unfolding ids_below_def by (meson order_less_le_trans)

lemma enqueue_fresh:
  assumes "enqueue req s = (item, s')" "fmlookup (rs_activations s) (activation_id (rs_nextActSeq s)) = None"
  shows "rs_activations s' = fmupd (ac_id item) (new_record item) (rs_activations s)" "rs_queue s' = rs_queue s @ [item]"
    "rs_nextActSeq s' = rs_nextActSeq s + 1" "ac_id item = activation_id (rs_nextActSeq s)"
    "ac_node item = er_target req" "ac_input item = er_input req"
  using assms by (auto simp: enqueue_def Let_def trackActivation_def trackCorrelation_def split: option.splits)

definition reset_attempts :: "activationRecord \<Rightarrow> activationRecord" where
  "reset_attempts r = r\<lparr>ar_attempt := 0, ar_nodeExecutionVersion := 0\<rparr>"

lemma retry_state_starts:
  assumes "retry_state source aid state head = Inr s" "ids_below state" "ids_below head"
    and "\<And>k r. fmlookup (rs_activations state) k = Some r \<Longrightarrow> ac_id (ar_activation r) = k"
  obtains item r where "rs_queue s = [item]" "ac_id item = aid" "ac_node item = rl_NodeID source"
    "fmlookup (rs_activations s) aid = Some r" "ar_activation r = item" "ar_phase r = activationReady"
    "ar_attempt r = 0" "\<not> ar_hasResult r"
    "\<And>k. k \<noteq> aid \<Longrightarrow> fmlookup (rs_activations s) k = map_option reset_attempts (fmlookup (rs_activations head) k)"
    "ids_below s"
proof -
  from assms(1) obtain r where r: "fmlookup (rs_activations state) aid = Some r" "ac_node (ar_activation r) = rl_NodeID source"
    and s: "s = (resetControlAttempts (mergeRetryHead head (state\<lparr>rs_activations := fmupd aid (r\<lparr>ar_phase := activationReady,
        ar_origin := ''external_retry'', ar_result := zero_result, ar_hasResult := False, ar_cause := None\<rparr>)
        (rs_activations head), rs_queue := [ar_activation r]\<rparr>)))\<lparr>rs_contextRevision :=
        max (rs_contextRevision state) (rs_contextRevision head) + 1\<rparr>"
    by (auto simp: retry_state_def Let_def resetControlAttempts_def mergeRetryHead_def split: option.splits if_splits)
  have "\<exists>i < rs_nextActSeq s. k = activation_id i" if "k \<in> fmdom' (rs_activations s)" for k
  proof (cases "k = aid")
    case True
    with r(1) have "k \<in> fmdom' (rs_activations state)" by auto
    from ids_below_weaken [OF assms(2) this] show ?thesis
      by (simp add: s resetControlAttempts_def mergeRetryHead_def)
  next
    case False
    with that have "k \<in> fmdom' (rs_activations head)"
      by (auto simp: s resetControlAttempts_def mergeRetryHead_def fmlookup_dom'_iff)
    from ids_below_weaken [OF assms(3) this] show ?thesis
      by (simp add: s resetControlAttempts_def mergeRetryHead_def)
  qed
  then have "ids_below s" by (simp add: ids_below_def)
  then show thesis
    by (rule that [of "ar_activation r" "r\<lparr>ar_phase := activationReady, ar_origin := ''external_retry'',
        ar_result := zero_result, ar_hasResult := False, ar_cause := None, ar_attempt := 0,
        ar_nodeExecutionVersion := 0\<rparr>", rotated -1])
       (use r assms(4) [OF r(1)] in \<open>auto simp: s resetControlAttempts_def mergeRetryHead_def reset_attempts_def
         map_option_case split: option.split\<close>)
qed

lemma patchJumpContext_ids:
  "patchJumpContext c patch state = Inr s1 \<Longrightarrow> rs_nextActSeq s1 = rs_nextActSeq state"
  by (auto simp: patchJumpContext_def split: option.splits if_splits)

lemma jump_state_starts:
  assumes "jump_state c source target input patch state head = Inr s" "ids_below head"
  obtains item r where "rs_queue s = [item]" "ac_node item = target" "ac_input item = input"
    "ac_id item \<notin> fmdom' (rs_activations head)"
    "fmlookup (rs_activations s) (ac_id item) = Some r" "ar_activation r = item" "ar_phase r = activationReady"
    "ar_attempt r = 0" "\<not> ar_hasResult r"
    "\<And>k. k \<noteq> ac_id item \<Longrightarrow> fmlookup (rs_activations s) k = map_option reset_attempts (fmlookup (rs_activations head) k)"
    "ids_below s"
proof -
  define req where "req = \<lparr>er_target = target, er_input = input, er_sourceSet = [], er_branchIndex = 0,
    er_correlation = CorrelationKey (rl_RunID source) 1\<rparr>"
  obtain s1 where s1: "patchJumpContext c patch (mergeRetryHead head state) = Inr s1"
    using assms(1) by (cases "patchJumpContext c patch (mergeRetryHead head state)") (auto simp: jump_state_def)
  define s2 where "s2 = resetControlAttempts (s1\<lparr>rs_contextRevision := rs_contextRevision s1 + 1, rs_queue := [],
    rs_activations := rs_activations head, rs_scheduled := fmempty, rs_completed := fmempty,
    rs_buckets := fmempty, rs_correlations := fmempty, rs_sourceSets := fmempty,
    rs_iterSources := fmempty, rs_liveIters := fmempty\<rparr>)"
  obtain item s3 where e: "enqueue req s2 = (item, s3)" by (metis surj_pair)
  have s: "s = put_record (ac_id item) ((the (fmlookup (rs_activations s3) (ac_id item)))\<lparr>ar_origin := ''external_jump''\<rparr>) s3"
    using assms(1) s1 e by (simp add: jump_state_def req_def [symmetric] Let_def s2_def)
  have s2: "rs_activations s2 = fmmap reset_attempts (rs_activations head)" "rs_queue s2 = []"
      "rs_nextActSeq head \<le> rs_nextActSeq s2"
    using patchJumpContext_ids [OF s1]
    by (simp_all add: s2_def resetControlAttempts_def mergeRetryHead_def reset_attempts_def [abs_def])
  have fresh: "activation_id (rs_nextActSeq s2) \<notin> fmdom' (rs_activations head)"
    using fresh_id [OF assms(2) s2(3)] .
  then have none: "fmlookup (rs_activations s2) (activation_id (rs_nextActSeq s2)) = None"
    by (simp add: s2(1) fmdom'_notI fmlookup_dom'_iff)
  note q = enqueue_fresh [OF e(1) none]
  have "\<exists>i < rs_nextActSeq s. k = activation_id i" if "k \<in> fmdom' (rs_activations s)" for k
  proof (cases "k = ac_id item")
    case True
    then show ?thesis by (auto simp: s put_record_def q)
  next
    case False
    with that have "k \<in> fmdom' (rs_activations head)"
      by (auto simp: s put_record_def q s2(1) fmlookup_dom'_iff split: if_splits)
    from ids_below_weaken [OF assms(2) this s2(3)] obtain i where "i < rs_nextActSeq s2" "k = activation_id i"
      by blast
    then show ?thesis by (intro exI [of _ i]) (simp add: s put_record_def q)
  qed
  then have "ids_below s" by (simp add: ids_below_def)
  then show thesis
    by (rule that [of item "(new_record item)\<lparr>ar_origin := ''external_jump''\<rparr>", rotated -1])
       (use fresh in \<open>auto simp: s put_record_def q s2(1,2) req_def new_record_def\<close>)
qed

text \<open>
  C23 (retry and jump start clean). A run made by a retry or a jump starts with exactly one ready
  activation without a result, in its first attempt: the historical one for a retry, a new one for a
  jump. All other activations are those of the failed head with their attempts reset, and every
  activation id in the new state is below its counter, so the new run never reuses an id of the
  failed one.
\<close>

theorem control_starts_clean:
  assumes "retry_state source aid state head = Inr s \<or> jump_state c source target input patch state head = Inr s"
    and "ids_below state" "ids_below head"
    and "\<And>k r. fmlookup (rs_activations state) k = Some r \<Longrightarrow> ac_id (ar_activation r) = k"
  shows "\<exists>item r. rs_queue s = [item] \<and> (ac_id item = aid \<or> ac_id item \<notin> fmdom' (rs_activations head)) \<and>
    fmlookup (rs_activations s) (ac_id item) = Some r \<and> ar_activation r = item \<and>
    ar_phase r = activationReady \<and> ar_attempt r = 0 \<and> \<not> ar_hasResult r \<and>
    (\<forall>k. k \<noteq> ac_id item \<longrightarrow>
       fmlookup (rs_activations s) k = map_option reset_attempts (fmlookup (rs_activations head) k)) \<and>
    (\<forall>k \<in> fmdom' (rs_activations s). \<exists>i < rs_nextActSeq s. k = activation_id i)"
  using assms(1)
proof
  assume "retry_state source aid state head = Inr s"
  then show ?thesis
  proof (rule retry_state_starts [OF _ assms(2-4)])
    fix item r
    assume 1: "rs_queue s = [item]" "ac_id item = aid" "fmlookup (rs_activations s) aid = Some r" "ar_activation r = item"
      "ar_phase r = activationReady" "ar_attempt r = 0" "\<not> ar_hasResult r"
      "\<And>k. k \<noteq> aid \<Longrightarrow> fmlookup (rs_activations s) k = map_option reset_attempts (fmlookup (rs_activations head) k)"
    assume "ids_below s"
    with 1 show ?thesis unfolding ids_below_def by blast
  qed
next
  assume "jump_state c source target input patch state head = Inr s"
  then show ?thesis
  proof (rule jump_state_starts [OF _ assms(3)])
    fix item r
    assume 1: "rs_queue s = [item]" "ac_id item \<notin> fmdom' (rs_activations head)"
      "fmlookup (rs_activations s) (ac_id item) = Some r" "ar_activation r = item"
      "ar_phase r = activationReady" "ar_attempt r = 0" "\<not> ar_hasResult r"
      "\<And>k. k \<noteq> ac_id item \<Longrightarrow> fmlookup (rs_activations s) k = map_option reset_attempts (fmlookup (rs_activations head) k)"
    assume "ids_below s"
    with 1 show ?thesis unfolding ids_below_def by blast
  qed
qed

definition failed_source :: runState where
  "failed_source = zero_state\<lparr>rs_nextActSeq := 2, rs_queue := [sample_activation (activation_id 1)],
     rs_activations := fmupd (activation_id 1)
       ((new_record (sample_activation (activation_id 1)))\<lparr>ar_phase := activationFailed, ar_attempt := 3\<rparr>) fmempty\<rparr>"

theorem control_starts_clean_witness:
  "\<exists>s. retry_state ((sample_record 1)\<lparr>rl_NodeID := ''n''\<rparr>) (activation_id 1) failed_source failed_source = Inr s \<and>
     (\<exists>item. rs_queue s = [item])"
proof -
  have ids: "ids_below failed_source"
    by (auto simp: ids_below_def failed_source_def intro!: exI [of _ 1])
  have key: "ac_id (ar_activation r) = k" if "fmlookup (rs_activations failed_source) k = Some r" for k r
    using that by (auto simp: failed_source_def sample_activation_def new_record_def split: if_splits)
  obtain s where s: "retry_state ((sample_record 1)\<lparr>rl_NodeID := ''n''\<rparr>) (activation_id 1) failed_source failed_source = Inr s"
    by (simp add: retry_state_def failed_source_def sample_activation_def new_record_def Let_def)
  from control_starts_clean [OF disjI1 [OF s] ids ids key] s show ?thesis by blast
qed

end
