(* ===== verification/Config.thy ===== *)
theory Config
  imports Control
begin

text \<open>
  The configuration of one invocation (\<open>runtime.go\<close>): the run options and what they fix, the
  extensions that carry a resume, a control start or a source association
  (\<open>WithResume\<close>, \<open>workflowResumeRequest\<close>, \<open>workflowControlStart\<close>,
  \<open>workflowSourceAssociation\<close>), and the generated identities (\<open>generateID\<close>).
\<close>

section \<open>Event sinks of a configuration\<close>

text \<open>
  A configured sink may also implement \<open>runlog.AssociatingSink\<close>. \<open>strictEventSink\<close> embeds the
  interface \<open>EventSink\<close>; it forwards model and tool events, but \<open>Associate\<close> is not promoted.
\<close>

record 'w ConfiguredSink =
  sk_sink :: "('w, unit) EventSink"
  sk_associate :: "(Association \<Rightarrow> ('w, unit) EventSink) option"

definition strictEventSink :: "'w ConfiguredSink \<Rightarrow> 'w ConfiguredSink" where
  "strictEventSink sink = \<lparr>sk_sink = (sk_sink sink)\<lparr>es_strict := True\<rparr>, sk_associate = None\<rparr>"

definition EventSinkFunc :: "(Event \<Rightarrow> 'w \<Rightarrow> unit callback \<times> 'w) option \<Rightarrow> 'w ConfiguredSink" where
  "EventSinkFunc f =
     \<lparr>sk_sink = \<lparr>es_Emit = (case f of None \<Rightarrow> (\<lambda>event w. (Return (), w)) | Some g \<Rightarrow> g),
                es_strict = False, es_EmitComponent = None\<rparr>,
      sk_associate = None\<rparr>"

definition associateEventSinks :: "'w ConfiguredSink list \<Rightarrow> Association option \<Rightarrow> ('w, unit) EventSink list" where
  "associateEventSinks sinks association =
     map (\<lambda>s. case (association, sk_associate s) of (Some a, Some f) \<Rightarrow> f a | _ \<Rightarrow> sk_sink s) sinks"

section \<open>Run options\<close>

record RunLineage =
  ln_ParentRunID :: string
  ln_Depth :: int

type_synonym 'w IDGenerator = "'w \<Rightarrow> (goerr + string) \<times> 'w"

text \<open>What the workflow package puts under its three extension keys; other packages may add more.\<close>

datatype extension =
    ExtResume ResumeRequest
  | ExtConflict
  | ExtControl controlStart
  | ExtAssociation Association
  | ExtForeign

record 'w RunConfig =
  rc_SessionID :: string
  rc_RunID :: string
  rc_Lineage :: RunLineage
  rc_EventSinks :: "'w ConfiguredSink list"
  rc_Extensions :: "(string, extension) fmap"
  rc_idGenerators :: "string \<rightharpoonup> 'w IDGenerator"
  rc_idGeneratorErr :: "goerr option"
  rc_sessionIDSet :: bool
  rc_sessionIDError :: "goerr option"
  rc_runIDSet :: bool
  rc_runIDError :: "goerr option"
  rc_lineageSet :: bool
  rc_lineageError :: "goerr option"

definition zero_lineage :: RunLineage where
  "zero_lineage = \<lparr>ln_ParentRunID = [], ln_Depth = 0\<rparr>"

definition zero_config :: "'w RunConfig" where
  "zero_config =
     \<lparr>rc_SessionID = [], rc_RunID = [], rc_Lineage = zero_lineage, rc_EventSinks = [], rc_Extensions = fmempty,
      rc_idGenerators = Map.empty, rc_idGeneratorErr = None, rc_sessionIDSet = False, rc_sessionIDError = None,
      rc_runIDSet = False, rc_runIDError = None, rc_lineageSet = False, rc_lineageError = None\<rparr>"

definition RunConfigError :: "'w RunConfig \<Rightarrow> goerr option" where
  "RunConfigError c =
     (case errors_join [rc_sessionIDError c, rc_runIDError c, rc_lineageError c, rc_idGeneratorErr c] of
        None \<Rightarrow> None
      | Some err \<Rightarrow> errors_join [Some (Sentinel ErrRunConfig), Some err])"

definition ConstrainIDGenerator :: "string \<Rightarrow> 'w IDGenerator option \<Rightarrow> 'w RunConfig \<Rightarrow> 'w RunConfig" where
  "ConstrainIDGenerator kind generator c =
     (if kind = [] then c\<lparr>rc_idGeneratorErr :=
        errors_join [rc_idGeneratorErr c, Some (Msg ''gopact: id kind is required'')]\<rparr>
      else (case generator of
          None \<Rightarrow> c\<lparr>rc_idGeneratorErr :=
            errors_join [rc_idGeneratorErr c, Some (Msg ''gopact: id generator is required'')]\<rparr>
        | Some g \<Rightarrow> c\<lparr>rc_idGenerators := (rc_idGenerators c)(kind \<mapsto> g)\<rparr>))"

definition ConstrainSessionID :: "string \<Rightarrow> 'w RunConfig \<Rightarrow> 'w RunConfig" where
  "ConstrainSessionID sessionID c =
     (if sessionID = [] then c\<lparr>rc_sessionIDError :=
        errors_join [rc_sessionIDError c, Some (Msg ''gopact: session id is required'')]\<rparr>
      else if rc_sessionIDSet c \<and> rc_SessionID c \<noteq> sessionID then c\<lparr>rc_sessionIDError :=
        errors_join [rc_sessionIDError c, Some (Msg ''gopact: conflicting session id'')]\<rparr>
      else c\<lparr>rc_SessionID := sessionID, rc_sessionIDSet := True\<rparr>)"

definition ConstrainRunID :: "string \<Rightarrow> 'w RunConfig \<Rightarrow> 'w RunConfig" where
  "ConstrainRunID runID c =
     (if runID = [] then c\<lparr>rc_runIDError :=
        errors_join [rc_runIDError c, Some (Msg ''gopact: run id is required'')]\<rparr>
      else if rc_runIDSet c \<and> rc_RunID c \<noteq> runID then c\<lparr>rc_runIDError :=
        errors_join [rc_runIDError c, Some (Msg ''gopact: conflicting run id'')]\<rparr>
      else c\<lparr>rc_RunID := runID, rc_runIDSet := True\<rparr>)"

definition ConstrainRunLineage :: "RunLineage \<Rightarrow> 'w RunConfig \<Rightarrow> 'w RunConfig" where
  "ConstrainRunLineage lineage c =
     (if ln_ParentRunID lineage = [] \<or> ln_Depth lineage \<le> 1 then c\<lparr>rc_lineageError :=
        errors_join [rc_lineageError c, Some (Msg ''gopact: invalid run lineage'')]\<rparr>
      else if rc_lineageSet c \<and> rc_Lineage c \<noteq> lineage then c\<lparr>rc_lineageError :=
        errors_join [rc_lineageError c, Some (Msg ''gopact: conflicting run lineage'')]\<rparr>
      else c\<lparr>rc_Lineage := lineage, rc_lineageSet := True\<rparr>)"

definition resumeExtensionKey :: string where "resumeExtensionKey = ''gopact.workflow.resume''"
definition controlStartExtensionKey :: string where "controlStartExtensionKey = ''gopact.workflow.control_start''"
definition sourceAssociationExtensionKey :: string where
  "sourceAssociationExtensionKey = ''gopact.workflow.source_association''"

text \<open>A second resume must be the same request; a conflict stays one.\<close>

definition resume_option :: "ResumeRequest \<Rightarrow> 'w RunConfig \<Rightarrow> 'w RunConfig" where
  "resume_option req c0 =
     (let c = ConstrainRunID (rq_RunID req) c0;
          put = (\<lambda>e. c\<lparr>rc_Extensions := fmupd resumeExtensionKey e (rc_Extensions c)\<rparr>) in
      case fmlookup (rc_Extensions c) resumeExtensionKey of
        None \<Rightarrow> put (ExtResume req)
      | Some existing \<Rightarrow> if existing = ExtResume req then c else put ExtConflict)"

definition controlStartOption :: "controlStart \<Rightarrow> 'w RunConfig \<Rightarrow> 'w RunConfig" where
  "controlStartOption start c = c\<lparr>rc_Extensions :=
     fmupd sourceAssociationExtensionKey (ExtAssociation (ct_association start))
       (fmupd controlStartExtensionKey (ExtControl start) (rc_Extensions c))\<rparr>"

definition forkAssociationOption :: "Association \<Rightarrow> 'w RunConfig \<Rightarrow> 'w RunConfig" where
  "forkAssociationOption association c = c\<lparr>rc_Extensions :=
     fmupd sourceAssociationExtensionKey (ExtAssociation association) (rc_Extensions c)\<rparr>"

text \<open>The options of the library by their constructors; \<open>CustomOption\<close> is any other one.\<close>

datatype 'w RunOption =
    WithSessionID string
  | WithRunID string
  | WithRunLineage RunLineage
  | WithIDGenerator string "'w IDGenerator option"
  | WithEventSink "'w ConfiguredSink option"
  | WithStrictEventSink "'w ConfiguredSink option"
  | WithResume ResumeRequest
  | WithControlStart controlStart
  | WithForkAssociation Association
  | CustomOption "'w RunConfig \<Rightarrow> 'w RunConfig"

fun ApplyRunOption :: "'w RunOption \<Rightarrow> 'w RunConfig \<Rightarrow> 'w RunConfig" where
  "ApplyRunOption (WithSessionID s) c = ConstrainSessionID s c"
| "ApplyRunOption (WithRunID r) c = ConstrainRunID r c"
| "ApplyRunOption (WithRunLineage l) c = ConstrainRunLineage l c"
| "ApplyRunOption (WithIDGenerator k g) c = ConstrainIDGenerator k g c"
| "ApplyRunOption (WithEventSink sink) c =
     (case sink of None \<Rightarrow> c | Some s \<Rightarrow> c\<lparr>rc_EventSinks := rc_EventSinks c @ [s]\<rparr>)"
| "ApplyRunOption (WithStrictEventSink sink) c =
     (case sink of None \<Rightarrow> c | Some s \<Rightarrow> c\<lparr>rc_EventSinks := rc_EventSinks c @ [strictEventSink s]\<rparr>)"
| "ApplyRunOption (WithResume req) c = resume_option req c"
| "ApplyRunOption (WithControlStart start) c = controlStartOption start c"
| "ApplyRunOption (WithForkAssociation a) c = forkAssociationOption a c"
| "ApplyRunOption (CustomOption f) c = f c"

text \<open>A nil option is None.\<close>

definition ResolveRunOptions :: "'w RunOption option list \<Rightarrow> 'w RunConfig" where
  "ResolveRunOptions opts =
     foldl (\<lambda>c opt. case opt of None \<Rightarrow> c | Some f \<Rightarrow> ApplyRunOption f c) zero_config opts"

section \<open>Reading the extensions\<close>

definition known_extensions :: "string list" where
  "known_extensions = [resumeExtensionKey, controlStartExtensionKey, sourceAssociationExtensionKey]"

definition workflowResumeRequest :: "'w RunConfig \<Rightarrow> goerr + ResumeRequest option" where
  "workflowResumeRequest c =
     (if \<not> list_all (List.member known_extensions) (sorted_keys (rc_Extensions c))
        then Inl (Msg ''workflow: unknown run extension'')
      else (case fmlookup (rc_Extensions c) resumeExtensionKey of
          None \<Rightarrow> Inr None
        | Some (ExtResume req) \<Rightarrow> Inr (Some req)
        | Some other \<Rightarrow> Inl (Msg ''workflow: conflicting resume options'')))"

definition workflowSourceAssociation :: "'w RunConfig \<Rightarrow> goerr + Association option" where
  "workflowSourceAssociation c =
     (case fmlookup (rc_Extensions c) sourceAssociationExtensionKey of
        None \<Rightarrow> Inr None
      | Some e \<Rightarrow>
          (case e of
             ExtAssociation a \<Rightarrow>
               if as_SourceRunID a = [] \<or> as_SourceEventSeq a \<le> 0
                 then Inl (Msg ''workflow: invalid source association'') else Inr (Some a)
           | _ \<Rightarrow> Inl (Msg ''workflow: invalid source association'')))"

definition workflowControlStart :: "'w RunConfig \<Rightarrow> goerr + controlStart option" where
  "workflowControlStart c =
     (case fmlookup (rc_Extensions c) controlStartExtensionKey of
        None \<Rightarrow> Inr None
      | Some e \<Rightarrow>
          (case e of
             ExtControl start \<Rightarrow>
               if blen (ct_payload start) = 0 \<or> ct_sessionID start = [] \<or>
                  as_SourceRunID (ct_association start) = [] \<or> as_SourceEventSeq (ct_association start) \<le> 0
                 then Inl (Msg ''workflow: invalid control start'') else Inr (Some start)
           | _ \<Rightarrow> Inl (Msg ''workflow: invalid control start'')))"

section \<open>Generated identities\<close>

text \<open>\<open>utf8.ValidString\<close> on the bytes of a string: no overlong form, surrogate or value above 0x10FFFF.\<close>

definition byte_in :: "nat \<Rightarrow> nat \<Rightarrow> char \<Rightarrow> bool" where
  "byte_in lo hi c \<longleftrightarrow> lo \<le> of_char c \<and> of_char c \<le> hi"

definition continuation :: "char \<Rightarrow> bool" where
  "continuation c \<longleftrightarrow> byte_in 0x80 0xBF c"

text \<open>The ranges of the bytes that may follow a first byte; None for a byte that starts nothing.\<close>

definition utf8_rest :: "char \<Rightarrow> (char \<Rightarrow> bool) list option" where
  "utf8_rest c =
     (if byte_in 0 0x7F c then Some []
      else if byte_in 0xC2 0xDF c then Some [continuation]
      else if byte_in 0xE0 0xE0 c then Some [byte_in 0xA0 0xBF, continuation]
      else if byte_in 0xED 0xED c then Some [byte_in 0x80 0x9F, continuation]
      else if byte_in 0xE1 0xEF c then Some [continuation, continuation]
      else if byte_in 0xF0 0xF0 c then Some [byte_in 0x90 0xBF, continuation, continuation]
      else if byte_in 0xF1 0xF3 c then Some [continuation, continuation, continuation]
      else if byte_in 0xF4 0xF4 c then Some [byte_in 0x80 0x8F, continuation, continuation]
      else None)"

function utf8_valid :: "string \<Rightarrow> bool" where
  "utf8_valid [] = True"
| "utf8_valid (c # cs) =
     (case utf8_rest c of
        None \<Rightarrow> False
      | Some tests \<Rightarrow> length tests \<le> length cs \<and> list_all2 (\<lambda>p x. p x) tests (take (length tests) cs) \<and>
          utf8_valid (drop (length tests) cs))"
  by pat_completeness auto
termination by (relation "measure length") auto

definition maxGeneratedIDBytes :: nat where "maxGeneratedIDBytes = 191"

definition IDKindSession :: string where "IDKindSession = ''session''"
definition IDKindRun :: string where "IDKindRun = ''run''"
definition IDKindOwner :: string where "IDKindOwner = ''owner''"

definition generated_id_error :: "string \<Rightarrow> goerr option" where
  "generated_id_error i =
     (if i = [] then Some (Msg ''id is required'')
      else if length i > maxGeneratedIDBytes then Some (Msg ''id exceeds bytes'')
      else if \<not> utf8_valid i then Some (Msg ''id must be valid UTF-8'')
      else if CHR 0x00 \<in> set i then Some (Msg ''id must not contain NUL'')
      else if last i = CHR '' '' then Some (Msg ''id must not end with a space'')
      else None)"

definition generateID :: "'w IDGenerator \<Rightarrow> 'w \<Rightarrow> (goerr + string) \<times> 'w" where
  "generateID generator w =
     (case generator w of
        (Inl err, w1) \<Rightarrow> (Inl (Wrap ''workflow: generate id'' [err]), w1)
      | (Inr i, w1) \<Rightarrow>
          (case generated_id_error i of
             Some err \<Rightarrow> Inl (Wrap ''workflow: generate id'' [err])
           | None \<Rightarrow> Inr i, w1))"

text \<open>\<open>uuid\<close> is the UUID library.\<close>

definition defaultIDGenerator :: "('w \<Rightarrow> string \<times> 'w) \<Rightarrow> string \<Rightarrow> 'w IDGenerator" where
  "defaultIDGenerator uuid kind w =
     (if kind = IDKindSession then (let (u, w1) = uuid w in (Inr (''session-'' @ u), w1))
      else if kind = IDKindRun then (let (u, w1) = uuid w in (Inr (''workflow-'' @ u), w1))
      else if kind = IDKindOwner then (let (u, w1) = uuid w in (Inr (''workflow-owner-'' @ u), w1))
      else (Inl (Msg ''unknown id kind''), w))"

text \<open>The generator of the call, else that of the workflow, else the default.\<close>

definition idGenerator ::
  "('w \<Rightarrow> string \<times> 'w) \<Rightarrow> (string \<rightharpoonup> 'w IDGenerator) \<Rightarrow> 'w RunConfig \<Rightarrow> string \<Rightarrow> 'w IDGenerator" where
  "idGenerator uuid compiledGenerators c kind =
     (case rc_idGenerators c kind of
        Some g \<Rightarrow> g
      | None \<Rightarrow> (case compiledGenerators kind of Some g \<Rightarrow> g | None \<Rightarrow> defaultIDGenerator uuid kind))"

section \<open>Options that agree\<close>

text \<open>What the options ask for, by identity.\<close>

fun option_sessions :: "'w RunOption \<Rightarrow> string list" where
  "option_sessions (WithSessionID s) = [s]"
| "option_sessions _ = []"

fun option_runs :: "'w RunOption \<Rightarrow> string list" where
  "option_runs (WithRunID r) = [r]"
| "option_runs (WithResume req) = [rq_RunID req]"
| "option_runs _ = []"

fun option_lineages :: "'w RunOption \<Rightarrow> RunLineage list" where
  "option_lineages (WithRunLineage l) = [l]"
| "option_lineages _ = []"

fun option_generators :: "'w RunOption \<Rightarrow> (string \<times> 'w IDGenerator option) list" where
  "option_generators (WithIDGenerator k g) = [(k, g)]"
| "option_generators _ = []"

fun is_custom :: "'w RunOption \<Rightarrow> bool" where
  "is_custom (CustomOption f) = True"
| "is_custom _ = False"

definition asked :: "('w RunOption \<Rightarrow> 'a list) \<Rightarrow> 'w RunOption option list \<Rightarrow> 'a list" where
  "asked f opts = concat (map (\<lambda>opt. case opt of None \<Rightarrow> [] | Some o1 \<Rightarrow> f o1) opts)"

lemma asked_simps [simp]:
  "asked f [] = []" "asked f (xs @ ys) = asked f xs @ asked f ys" "asked f [None] = []" "asked f [Some p] = f p"
  by (simp_all add: asked_def)

text \<open>An identity that is set is the first one asked for, and every other one is an error.\<close>

definition fixed_by :: "'a list \<Rightarrow> ('a \<Rightarrow> bool) \<Rightarrow> 'a \<Rightarrow> 'a \<Rightarrow> bool \<Rightarrow> goerr option \<Rightarrow> bool" where
  "fixed_by wanted ok unset value is_set err \<longleftrightarrow>
     (is_set \<longrightarrow> ok value \<and> value \<in> set wanted) \<and> (\<not> is_set \<longrightarrow> value = unset \<and> (\<forall>x \<in> set wanted. \<not> ok x)) \<and>
     (err = None \<longleftrightarrow> (\<forall>x \<in> set wanted. ok x \<and> x = value))"

definition config_fixed :: "'w RunOption option list \<Rightarrow> 'w RunConfig \<Rightarrow> bool" where
  "config_fixed opts c \<longleftrightarrow>
     fixed_by (asked option_sessions opts) (\<lambda>s. s \<noteq> []) [] (rc_SessionID c) (rc_sessionIDSet c) (rc_sessionIDError c) \<and>
     fixed_by (asked option_runs opts) (\<lambda>s. s \<noteq> []) [] (rc_RunID c) (rc_runIDSet c) (rc_runIDError c) \<and>
     fixed_by (asked option_lineages opts) (\<lambda>l. ln_ParentRunID l \<noteq> [] \<and> 1 < ln_Depth l) zero_lineage
       (rc_Lineage c) (rc_lineageSet c) (rc_lineageError c) \<and>
     (rc_idGeneratorErr c = None \<longleftrightarrow> (\<forall>(k, g) \<in> set (asked option_generators opts). k \<noteq> [] \<and> g \<noteq> None))"

lemma errors_join_Some: "errors_join [e, Some m] \<noteq> None" "errors_join (e1 # es) = Some y \<Longrightarrow> \<exists>e \<in> set (e1 # es). e \<noteq> None"
proof -
  show "errors_join [e, Some m] \<noteq> None" by simp
  assume s: "errors_join (e1 # es) = Some y"
  show "\<exists>e \<in> set (e1 # es). e \<noteq> None"
  proof (rule ccontr)
    assume "\<not> (\<exists>e \<in> set (e1 # es). e \<noteq> None)"
    then have "errors_join (e1 # es) = None" unfolding errors_join_None by blast
    with trans [OF sym [OF s] this] show False by (simp only: option.distinct)
  qed
qed

lemma fixed_by_error:
  assumes "fixed_by ws ok u v s e" "\<not> ok x \<or> s \<and> v \<noteq> x" "e' \<noteq> None"
  shows "fixed_by (ws @ [x]) ok u v s e'"
  using assms by (auto simp: fixed_by_def)

lemma fixed_by_refuse:
  assumes "fixed_by ws ok u v s e" "\<not> ok x \<or> s \<and> v \<noteq> x" "s' = s"
  shows "fixed_by (ws @ [x]) ok u v s' (errors_join [e1, Some m])"
  unfolding assms(3) by (rule fixed_by_error [OF assms(1,2) errors_join_Some(1)])

lemma fixed_by_accept:
  assumes "fixed_by ws ok u v s e" "ok x" "\<not> (s \<and> v \<noteq> x)" "s'"
  shows "fixed_by (ws @ [x]) ok u x s' e"
  using assms unfolding fixed_by_def by auto

lemmas constrain_defs = ConstrainSessionID_def ConstrainRunID_def ConstrainRunLineage_def ConstrainIDGenerator_def
  controlStartOption_def forkAssociationOption_def

lemma session_fixed:
  assumes "fixed_by ws (\<lambda>s. s \<noteq> []) [] (rc_SessionID c) (rc_sessionIDSet c) (rc_sessionIDError c)"
  shows "fixed_by (ws @ [x]) (\<lambda>s. s \<noteq> []) [] (rc_SessionID (ConstrainSessionID x c)) (rc_sessionIDSet (ConstrainSessionID x c)) (rc_sessionIDError (ConstrainSessionID x c))"
  by (simp add: ConstrainSessionID_def fixed_by_refuse [OF assms] fixed_by_accept [OF assms] del: errors_join_None)

lemma run_fixed:
  assumes "fixed_by ws (\<lambda>s. s \<noteq> []) [] (rc_RunID c) (rc_runIDSet c) (rc_runIDError c)"
  shows "fixed_by (ws @ [x]) (\<lambda>s. s \<noteq> []) [] (rc_RunID (ConstrainRunID x c)) (rc_runIDSet (ConstrainRunID x c)) (rc_runIDError (ConstrainRunID x c))"
  by (simp add: ConstrainRunID_def fixed_by_refuse [OF assms] fixed_by_accept [OF assms] del: errors_join_None)

lemma lineage_fixed:
  assumes "fixed_by ws (\<lambda>l. ln_ParentRunID l \<noteq> [] \<and> 1 < ln_Depth l) zero_lineage
    (rc_Lineage c) (rc_lineageSet c) (rc_lineageError c)"
  shows "fixed_by (ws @ [x]) (\<lambda>l. ln_ParentRunID l \<noteq> [] \<and> 1 < ln_Depth l) zero_lineage
    (rc_Lineage (ConstrainRunLineage x c)) (rc_lineageSet (ConstrainRunLineage x c)) (rc_lineageError (ConstrainRunLineage x c))"
  by (simp add: ConstrainRunLineage_def fixed_by_refuse [OF assms] fixed_by_accept [OF assms] del: errors_join_None)

text \<open>Each option changes only what it names.\<close>

lemma constrain_frames [simp]:
  "rc_RunID (ConstrainSessionID x c) = rc_RunID c" "rc_runIDSet (ConstrainSessionID x c) = rc_runIDSet c"
  "rc_runIDError (ConstrainSessionID x c) = rc_runIDError c" "rc_Lineage (ConstrainSessionID x c) = rc_Lineage c"
  "rc_lineageSet (ConstrainSessionID x c) = rc_lineageSet c" "rc_lineageError (ConstrainSessionID x c) = rc_lineageError c"
  "rc_idGeneratorErr (ConstrainSessionID x c) = rc_idGeneratorErr c"
  "rc_SessionID (ConstrainRunID x c) = rc_SessionID c" "rc_sessionIDSet (ConstrainRunID x c) = rc_sessionIDSet c"
  "rc_sessionIDError (ConstrainRunID x c) = rc_sessionIDError c" "rc_Lineage (ConstrainRunID x c) = rc_Lineage c"
  "rc_lineageSet (ConstrainRunID x c) = rc_lineageSet c" "rc_lineageError (ConstrainRunID x c) = rc_lineageError c"
  "rc_idGeneratorErr (ConstrainRunID x c) = rc_idGeneratorErr c"
  "rc_SessionID (ConstrainRunLineage l c) = rc_SessionID c" "rc_sessionIDSet (ConstrainRunLineage l c) = rc_sessionIDSet c"
  "rc_sessionIDError (ConstrainRunLineage l c) = rc_sessionIDError c" "rc_RunID (ConstrainRunLineage l c) = rc_RunID c"
  "rc_runIDSet (ConstrainRunLineage l c) = rc_runIDSet c" "rc_runIDError (ConstrainRunLineage l c) = rc_runIDError c"
  "rc_idGeneratorErr (ConstrainRunLineage l c) = rc_idGeneratorErr c"
  by (simp_all add: constrain_defs)

lemma generator_frames [simp]:
  "rc_SessionID (ConstrainIDGenerator k g c) = rc_SessionID c" "rc_sessionIDSet (ConstrainIDGenerator k g c) = rc_sessionIDSet c"
  "rc_sessionIDError (ConstrainIDGenerator k g c) = rc_sessionIDError c" "rc_RunID (ConstrainIDGenerator k g c) = rc_RunID c"
  "rc_runIDSet (ConstrainIDGenerator k g c) = rc_runIDSet c" "rc_runIDError (ConstrainIDGenerator k g c) = rc_runIDError c"
  "rc_Lineage (ConstrainIDGenerator k g c) = rc_Lineage c" "rc_lineageSet (ConstrainIDGenerator k g c) = rc_lineageSet c"
  "rc_lineageError (ConstrainIDGenerator k g c) = rc_lineageError c"
  "rc_idGeneratorErr (ConstrainIDGenerator k g c) = None \<longleftrightarrow> rc_idGeneratorErr c = None \<and> k \<noteq> [] \<and> g \<noteq> None"
  by (auto simp: ConstrainIDGenerator_def split: option.split)

lemma resume_frames [simp]:
  "rc_SessionID (resume_option q c) = rc_SessionID c" "rc_sessionIDSet (resume_option q c) = rc_sessionIDSet c"
  "rc_sessionIDError (resume_option q c) = rc_sessionIDError c"
  "rc_RunID (resume_option q c) = rc_RunID (ConstrainRunID (rq_RunID q) c)"
  "rc_runIDSet (resume_option q c) = rc_runIDSet (ConstrainRunID (rq_RunID q) c)"
  "rc_runIDError (resume_option q c) = rc_runIDError (ConstrainRunID (rq_RunID q) c)"
  "rc_Lineage (resume_option q c) = rc_Lineage c" "rc_lineageSet (resume_option q c) = rc_lineageSet c"
  "rc_lineageError (resume_option q c) = rc_lineageError c" "rc_idGeneratorErr (resume_option q c) = rc_idGeneratorErr c"
  by (auto simp: resume_option_def Let_def split: option.split)

lemma apply_fixed:
  assumes "config_fixed opts c" "\<not> is_custom opt"
  shows "config_fixed (opts @ [Some opt]) (ApplyRunOption opt c)"
  using assms
  by (cases opt) (auto simp: config_fixed_def controlStartOption_def forkAssociationOption_def split: option.split
    intro: session_fixed run_fixed lineage_fixed)

lemma resolve_fixed:
  assumes "list_all (\<lambda>opt. case opt of None \<Rightarrow> True | Some p \<Rightarrow> \<not> is_custom p) opts"
  shows "config_fixed opts (ResolveRunOptions opts)"
  using assms
proof (induction opts rule: rev_induct)
  case Nil
  then show ?case
    by (simp add: config_fixed_def fixed_by_def ResolveRunOptions_def zero_config_def)
next
  case (snoc opt opts)
  then have "config_fixed opts (ResolveRunOptions opts)" by simp
  then show ?case
  proof (cases opt)
    case None
    with \<open>config_fixed opts (ResolveRunOptions opts)\<close> show ?thesis
      by (simp add: config_fixed_def ResolveRunOptions_def)
  next
    case (Some p)
    with snoc.prems apply_fixed [OF \<open>config_fixed opts (ResolveRunOptions opts)\<close>, of p] show ?thesis
      by (simp add: ResolveRunOptions_def)
  qed
qed

lemma RunConfigError_None: "RunConfigError c = None \<longleftrightarrow> rc_sessionIDError c = None \<and> rc_runIDError c = None \<and>
    rc_lineageError c = None \<and> rc_idGeneratorErr c = None"
proof (cases "errors_join [rc_sessionIDError c, rc_runIDError c, rc_lineageError c, rc_idGeneratorErr c]")
  case None
  then have "rc_sessionIDError c = None \<and> rc_runIDError c = None \<and> rc_lineageError c = None \<and> rc_idGeneratorErr c = None"
    by (simp only: errors_join_None list.set insert_subset singleton_iff)
  with None show ?thesis unfolding RunConfigError_def by (metis option.case(1))
next
  case (Some e)
  then show ?thesis using errors_join_Some(2) [OF Some] by (auto simp: RunConfigError_def simp del: not_None_eq)
qed

lemma RunConfigError_ok:
  "rc_sessionIDError c = None \<Longrightarrow> rc_runIDError c = None \<Longrightarrow> rc_lineageError c = None \<Longrightarrow>
     rc_idGeneratorErr c = None \<Longrightarrow> RunConfigError c = None"
  by (simp add: RunConfigError_None)

lemma fixed_by_err: "fixed_by ws ok u v s e \<Longrightarrow> e = None \<longleftrightarrow> (\<forall>x \<in> set ws. ok x \<and> x = v)"
  by (simp add: fixed_by_def)



text \<open>
  A strict sink no longer implements \<open>AssociatingSink\<close>, so the source of a fork, retry or jump does not
  reach a run log that is attached strictly.
\<close>

lemma strict_sink_not_associated:
  "associateEventSinks [strictEventSink s] (Some a) = associateEventSinks [strictEventSink s] None"
  by (simp add: associateEventSinks_def strictEventSink_def)

end
