(* ===== verification/Invocation.thy ===== *)
theory Invocation
  imports Config Coordination
begin

text \<open>
  One invocation of a compiled workflow from its options to its result (\<open>invokeAll\<close>, \<open>Invoke\<close>,
  \<open>InvokeStream\<close>): the identities and the mode of the run, its registration, the hooks before it,
  its first state, its checkpoint, and then the loop of the scheduler. \<open>Retry\<close>, \<open>JumpTo\<close> and
  \<open>Fork\<close> are invocations with the options they prepare; so are nested runs
  (\<open>childOptions\<close>).
\<close>

section \<open>What is invoked\<close>

text \<open>
  A compiled workflow with what it calls: its plan, the store and clock, generators, hooks, the context
  initializer and the wrappers of its plugins. \<open>dp_caller\<close> is the cause with which the caller has
  cancelled its context, \<open>dp_heartbeat\<close> what the heartbeat of the lease reports in the end.
\<close>

record 'w deployment =
  dp_compiled :: compiled
  dp_services :: "'w services"
  dp_uuid :: "'w \<Rightarrow> string \<times> 'w"
  dp_idGenerators :: "string \<rightharpoonup> 'w IDGenerator"
  dp_beforeWorkflow :: "(govalue \<times> govalue, execution \<times> 'w) LifecycleHook list"
  dp_afterWorkflow :: "(govalue \<times> govalue, execution \<times> 'w) LifecycleHook list"
  dp_contextInit :: "(govalue \<Rightarrow> govalue callback) option"
  dp_wrappers :: "(('w, unit) EventSink \<Rightarrow> ('w, unit) EventSink) list"
  dp_ord :: "string order"
  dp_bucketOrd :: "joinBucketKey order"
  dp_caller :: "goerr option"
  dp_heartbeat :: "goerr option"

record invocation =
  in_resume :: "ResumeRequest option"
  in_control :: "controlStart option"
  in_association :: "Association option"
  in_sessionID :: string
  in_runID :: string
  in_ownerID :: string
  in_parentRunID :: string
  in_depth :: int

section \<open>Identities and mode\<close>

definition generate_for :: "'w deployment \<Rightarrow> 'w RunConfig \<Rightarrow> string \<Rightarrow> 'w \<Rightarrow> (goerr + string) \<times> 'w" where
  "generate_for dp cfg kind = generateID (idGenerator (dp_uuid dp) (dp_idGenerators dp) cfg kind)"

text \<open>Given identities are kept, the others generated, the owner always.\<close>

definition invocation_ids ::
  "'w deployment \<Rightarrow> 'w RunConfig \<Rightarrow> bool \<Rightarrow> Association option \<Rightarrow> 'w \<Rightarrow> (goerr + string \<times> string \<times> string) \<times> 'w" where
  "invocation_ids dp cfg resume association w =
     (case (if \<not> resume \<and> rc_SessionID cfg = [] then generate_for dp cfg IDKindSession w
            else (Inr (rc_SessionID cfg), w)) of
        (Inl e, w1) \<Rightarrow> (Inl e, w1)
      | (Inr sessionID, w1) \<Rightarrow>
          (case (if rc_RunID cfg = [] then generate_for dp cfg IDKindRun w1 else (Inr (rc_RunID cfg), w1)) of
             (Inl e, w2) \<Rightarrow> (Inl e, w2)
           | (Inr runID, w2) \<Rightarrow>
               if (case association of None \<Rightarrow> False | Some a \<Rightarrow> runID = as_SourceRunID a)
                 then (Inl (Msg ''workflow: control cannot reuse source run id''), w2)
               else (case generate_for dp cfg IDKindOwner w2 of
                   (Inl e, w3) \<Rightarrow> (Inl e, w3)
                 | (Inr ownerID, w3) \<Rightarrow> (Inr (sessionID, runID, ownerID), w3))))"

definition resolve_invocation ::
  "'w deployment \<Rightarrow> 'w RunConfig \<Rightarrow> 'w \<Rightarrow> (goerr + invocation) \<times> 'w" where
  "resolve_invocation dp cfg w =
     (case RunConfigError cfg of
        Some e \<Rightarrow> (Inl e, w)
      | None \<Rightarrow>
     (case workflowResumeRequest cfg of
        Inl e \<Rightarrow> (Inl e, w)
      | Inr resume \<Rightarrow>
     (case workflowControlStart cfg of
        Inl e \<Rightarrow> (Inl e, w)
      | Inr control \<Rightarrow>
          if resume \<noteq> None \<and> control \<noteq> None
            then (Inl (Msg ''workflow: resume and control start are mutually exclusive''), w)
          else (case workflowSourceAssociation cfg of
              Inl e \<Rightarrow> (Inl e, w)
            | Inr association \<Rightarrow>
                if (case resume of None \<Rightarrow> False | Some req \<Rightarrow> rq_RunID req = [])
                  then (Inl (Msg ''workflow: resume run id is required''), w)
                else (case invocation_ids dp cfg (resume \<noteq> None) association w of
                    (Inl e, w1) \<Rightarrow> (Inl e, w1)
                  | (Inr (sessionID, runID, ownerID), w1) \<Rightarrow>
                      (Inr \<lparr>in_resume = resume, in_control = control, in_association = association,
                         in_sessionID = sessionID, in_runID = runID, in_ownerID = ownerID,
                         in_parentRunID = (if rc_Lineage cfg \<noteq> zero_lineage then ln_ParentRunID (rc_Lineage cfg) else []),
                         in_depth = (if rc_Lineage cfg \<noteq> zero_lineage then ln_Depth (rc_Lineage cfg) else 1)\<rparr>, w1))))))"

section \<open>The first state\<close>

text \<open>The zero \<open>CheckpointRecord\<close> of an execution before its checkpoint is made.\<close>

definition no_checkpoint :: cprecord where
  "no_checkpoint =
     \<lparr>cp_ID = [], cp_SessionID = [], cp_RunID = [], cp_SourceRunID = [], cp_SourceEventSeq = 0,
      cp_SourceRevisionID = [], cp_WorkflowName = [], cp_TopologyVersion = [], cp_SchemaVersion = 0,
      cp_Version = 0, cp_Status = CheckpointUnset, cp_Payload = Gob 0 None, cp_ConfirmedSequence = 0,
      cp_PendingSequence = 0, cp_ReplayStatus = ReplayStatusOther [], cp_OwnerID = [],
      cp_LeaseExpiresAt = zero_time, cp_LeaseDuration = 0, cp_ClaimSequence = 0,
      cp_CreatedAt = zero_time, cp_UpdatedAt = zero_time\<rparr>"

definition new_execution :: "'w deployment \<Rightarrow> invocation \<Rightarrow> execution" where
  "new_execution dp iv =
     \<lparr>ex_compiled = dp_compiled dp, ex_sessionID = in_sessionID iv, ex_runID = in_runID iv,
      ex_parentRunID = in_parentRunID iv, ex_ownerID = in_ownerID iv, ex_associated = in_association iv,
      ex_sequence = 0, ex_eventCursor = 0, ex_replayStatus = ReplayUnknown, ex_executionEpoch = 1,
      ex_controlOrigin = ''natural'', ex_sourceRevision = [], ex_sourceRunID = [], ex_sourceEventSeq = 0,
      ex_state = zero_state, ex_outputs = [], ex_outputIndex = 0, ex_step = 1, ex_checkpoint = no_checkpoint,
      ex_cause = dp_caller dp, ex_leaseCause = None, ex_heartbeat = None, ex_sinkFailure = None,
      ex_interrupts = [], ex_interruptProgress = None, ex_resolved = []\<rparr>"

definition initialActivationSequence :: int where "initialActivationSequence = 2"
definition initialCorrelationEpoch :: int where "initialCorrelationEpoch = 1"

definition first_activation :: "compiled \<Rightarrow> string \<Rightarrow> govalue \<Rightarrow> activation" where
  "first_activation c runID input =
     \<lparr>ac_id = ''act-1'', ac_node = co_entry c, ac_input = input, ac_sourceSet = [], ac_branchIndex = 0,
      ac_correlation = CorrelationKey runID initialCorrelationEpoch\<rparr>"

definition initial_state :: "compiled \<Rightarrow> string \<Rightarrow> govalue \<Rightarrow> govalue \<Rightarrow> bool \<Rightarrow> runState" where
  "initial_state c runID input contextValue hasContext =
     (let first = first_activation c runID input in
      trackActivation first (zero_state
        \<lparr>rs_queue := [first], rs_nextActSeq := initialActivationSequence,
         rs_scheduled := fmupd (co_entry c) 1 fmempty,
         rs_correlations := fmupd (ac_correlation first) (fmupd (co_entry c) 1 fmempty) fmempty,
         rs_nextSetSeq := 1, rs_nextIterSeq := 1, rs_workflowContext := contextValue,
         rs_hasContext := hasContext, rs_contextRevision := 1\<rparr>))"

definition initialContext :: "'w deployment \<Rightarrow> govalue \<Rightarrow> goerr + govalue" where
  "initialContext dp input =
     (case dp_contextInit dp of
        None \<Rightarrow> Inr input
      | Some init \<Rightarrow> invokeCallback ''context initializer'' [] (init input))"

text \<open>A control start replaces the first state by that of its payload.\<close>

definition control_execution :: "compiled \<Rightarrow> controlStart option \<Rightarrow> execution \<Rightarrow> goerr + execution" where
  "control_execution c control ex =
     (case control of
        None \<Rightarrow> Inr ex
      | Some start \<Rightarrow>
          andthen (decodeCheckpointPayload (ct_payload start)) (\<lambda>payload.
            case validateCheckpointIdentity c (pl_Meta payload) of
              Some e \<Rightarrow> Inl e
            | None \<Rightarrow> Inr (ex\<lparr>ex_state := payload_state payload, ex_outputs := pl_Outputs payload,
                ex_step := (if pl_NextStep payload \<le> 0 then 1 else pl_NextStep payload),
                ex_controlOrigin := pm_ControlOrigin (pl_Meta payload),
                ex_sourceRevision := pm_SourceRevisionID (pl_Meta payload)\<rparr>)))"

definition associate_execution :: "Association option \<Rightarrow> execution \<Rightarrow> execution" where
  "associate_execution association ex =
     (case association of
        None \<Rightarrow> ex
      | Some a \<Rightarrow> ex\<lparr>ex_sourceRunID := as_SourceRunID a, ex_sourceEventSeq := as_SourceEventSeq a\<rparr>)"

definition no_resume :: ResumeRequest where
  "no_resume = \<lparr>rq_RunID = [], rq_CheckpointID = [], rq_Resolutions = []\<rparr>"

definition prepare_request :: "invocation \<Rightarrow> execution \<Rightarrow> checkpointPrepareRequest" where
  "prepare_request iv ex =
     \<lparr>pq_SessionID = in_sessionID iv, pq_RunID = in_runID iv, pq_OwnerID = ex_ownerID ex,
      pq_Resume = (case in_resume iv of None \<Rightarrow> no_resume | Some req \<Rightarrow> req),
      pq_IsResume = (in_resume iv \<noteq> None), pq_State = ex_state ex, pq_Outputs = ex_outputs ex,
      pq_NextStep = ex_step ex, pq_ControlOrigin = ex_controlOrigin ex,
      pq_SourceRevisionID = ex_sourceRevision ex, pq_Association = in_association iv\<rparr>"

section \<open>Running\<close>

definition invocation_services :: "'w deployment \<Rightarrow> 'w RunConfig \<Rightarrow> 'w services" where
  "invocation_services dp cfg = (dp_services dp)
     \<lparr>sv_sinks := (\<lambda>association. map Some
        (applyEventSinkWrappers (associateEventSinks (rc_EventSinks cfg) association) (dp_wrappers dp)))\<rparr>"

definition invocation_runtime ::
  "'w deployment \<Rightarrow> 'w RunConfig \<Rightarrow> govalue \<Rightarrow> (int \<Rightarrow> govalue \<Rightarrow> bool) option \<Rightarrow> 'w runtime" where
  "invocation_runtime dp cfg input sink =
     \<lparr>rt_services = invocation_services dp cfg, rt_ord = dp_ord dp, rt_bucketOrd = dp_bucketOrd dp,
      rt_input = input, rt_afterWorkflow = dp_afterWorkflow dp, rt_outputSink = sink\<rparr>"

text \<open>The hooks before a new run may rewrite its input; a resume or control start has none.\<close>

definition before_workflow ::
  "'w deployment \<Rightarrow> 'w runtime \<Rightarrow> invocation \<Rightarrow> govalue \<Rightarrow> execution \<Rightarrow> 'w \<Rightarrow> (goerr + govalue) \<times> execution \<times> 'w" where
  "before_workflow dp rt iv input ex w =
     (if in_resume iv \<noteq> None \<or> in_control iv \<noteq> None then (Inr input, ex, w)
      else (case runLifecycleHooks (run_emitter rt) (dp_beforeWorkflow dp)
                   (input, zero_value (co_outputType (dp_compiled dp))) (ex, w) of
          ((Some e, c), ex1, w1) \<Rightarrow> (Inl (Wrap ''workflow: before workflow'' [e]), ex1, w1)
        | ((None, c), ex1, w1) \<Rightarrow> (Inr (fst c), ex1, w1)))"

definition start_execution ::
  "'w deployment \<Rightarrow> invocation \<Rightarrow> govalue \<Rightarrow> execution \<Rightarrow> goerr + execution" where
  "start_execution dp iv input ex =
     andthen (if in_resume iv \<noteq> None \<or> in_control iv \<noteq> None then Inr VNil else initialContext dp input) (\<lambda>contextValue.
     andthen (control_execution (dp_compiled dp) (in_control iv)
       (ex\<lparr>ex_state := initial_state (dp_compiled dp) (in_runID iv) input contextValue (in_resume iv = None)\<rparr>)) (\<lambda>ex1.
       Inr (associate_execution (in_association iv) ex1)))"

text \<open>The heartbeat only runs for a claimed, running checkpoint.\<close>

definition startCheckpointLeaseHeartbeat :: "goerr option \<Rightarrow> execution \<Rightarrow> execution" where
  "startCheckpointLeaseHeartbeat report ex =
     (let r = ex_checkpoint ex in
      if cp_ID r = [] \<or> cp_Status r \<noteq> CheckpointRunning \<or> cp_OwnerID r = [] \<or> cp_ClaimSequence r \<le> 0
        then ex else ex\<lparr>ex_heartbeat := report\<rparr>)"

definition invoke_registered ::
  "'w deployment \<Rightarrow> 'w RunConfig \<Rightarrow> nat \<Rightarrow> (nat \<Rightarrow> batchRun) \<Rightarrow> invocation \<Rightarrow> govalue
   \<Rightarrow> (int \<Rightarrow> govalue \<Rightarrow> bool) option \<Rightarrow> 'w \<Rightarrow> ((goerr + govalue list) \<times> 'w) option" where
  "invoke_registered dp cfg pages runs iv input sink w =
     (let rt0 = invocation_runtime dp cfg input sink in
      case before_workflow dp rt0 iv input (new_execution dp iv) w of
        (Inl e, ex1, w1) \<Rightarrow> Some (Inl e, w1)
      | (Inr input1, ex1, w1) \<Rightarrow>
          (case start_execution dp iv input1 ex1 of
             Inl e \<Rightarrow> Some (Inl e, w1)
           | Inr ex2 \<Rightarrow>
               (case prepareCheckpoint (rt_services rt0) (run_ctx ex2) (dp_compiled dp) (prepare_request iv ex2) w1 of
                  (Inl e, w2) \<Rightarrow> Some (Inl e, w2)
                | (Inr checkpoint, w2) \<Rightarrow>
                    (let ex3 = ex2\<lparr>ex_sessionID := (if in_resume iv \<noteq> None then cp_SessionID checkpoint
                                                  else ex_sessionID ex2), ex_checkpoint := checkpoint\<rparr> in
                     map_option (\<lambda>(result, ex4, w4). (result, w4))
                       (invoke_prepared (rt0\<lparr>rt_input := input1\<rparr>) pages runs (in_resume iv \<noteq> None)
                          (startCheckpointLeaseHeartbeat (dp_heartbeat dp) ex3) w2)))))"

text \<open>
  \<open>invokeAll\<close>: the run is registered while it is executed. The registry of active runs is passed
  along; None is a run that never ends.
\<close>

definition invokeAll ::
  "'w deployment \<Rightarrow> nat \<Rightarrow> (nat \<Rightarrow> batchRun) \<Rightarrow> govalue \<Rightarrow> (int \<Rightarrow> govalue \<Rightarrow> bool) option
   \<Rightarrow> 'w RunOption option list \<Rightarrow> activeRuns \<Rightarrow> 'w \<Rightarrow> ((goerr + govalue list) \<times> activeRuns \<times> 'w) option" where
  "invokeAll dp pages runs input sink opts active w =
     (let cfg = ResolveRunOptions opts in
      case resolve_invocation dp cfg w of
        (Inl e, w1) \<Rightarrow> Some (Inl e, active, w1)
      | (Inr iv, w1) \<Rightarrow>
          (case registerRun (in_runID iv) active of
             (Some e, active1) \<Rightarrow> Some (Inl e, active1, w1)
           | (None, active1) \<Rightarrow>
               map_option (\<lambda>(result, w2). (result, unregisterRun (in_runID iv) active1, w2))
                 (invoke_registered dp cfg pages runs iv input sink w1)))"

text \<open>\<open>Invoke\<close> takes the first output.\<close>

definition Invoke ::
  "'w deployment \<Rightarrow> nat \<Rightarrow> (nat \<Rightarrow> batchRun) \<Rightarrow> govalue \<Rightarrow> 'w RunOption option list \<Rightarrow> activeRuns \<Rightarrow> 'w
   \<Rightarrow> ((goerr + govalue) \<times> activeRuns \<times> 'w) option" where
  "Invoke dp pages runs input opts active w =
     map_option (\<lambda>(result, active1, w1).
       (andthen result (\<lambda>outputs. case outputs of
          [out] \<Rightarrow> Inr out
        | _ \<Rightarrow> Inl (Msg ''workflow: invoke committed another number of outputs than 1'')), active1, w1))
       (invokeAll dp pages runs input None opts active w)"

section \<open>Control commands as invocations\<close>

definition controlOptions :: "'w RunOption option list \<Rightarrow> controlStart \<Rightarrow> 'w RunOption option list" where
  "controlOptions options start = options @ [Some (WithSessionID (ct_sessionID start)), Some (WithControlStart start)]"

definition invoke_control ::
  "'w deployment \<Rightarrow> nat \<Rightarrow> (nat \<Rightarrow> batchRun) \<Rightarrow> 'w RunOption option list \<Rightarrow> activeRuns
   \<Rightarrow> (goerr + controlStart) \<times> 'w \<Rightarrow> ((goerr + govalue) \<times> activeRuns \<times> 'w) option" where
  "invoke_control dp pages runs opts active prepared =
     (case prepared of
        (Inl e, w1) \<Rightarrow> Some (Inl e, active, w1)
      | (Inr start, w1) \<Rightarrow>
          Invoke dp pages runs (zero_value (co_inputType (dp_compiled dp))) (controlOptions opts start) active w1)"

definition Retry ::
  "'w deployment \<Rightarrow> (checkpointPayload, 'w) history_list \<Rightarrow> (payload \<Rightarrow> goerr + NodeEventPayload)
   \<Rightarrow> nat \<Rightarrow> (nat \<Rightarrow> batchRun) \<Rightarrow> RetryRequest \<Rightarrow> 'w RunOption option list \<Rightarrow> activeRuns \<Rightarrow> 'w
   \<Rightarrow> ((goerr + govalue) \<times> activeRuns \<times> 'w) option" where
  "Retry dp history unmarshal pages runs req opts active w =
     invoke_control dp pages runs opts active
       (prepareRetry (dp_services dp) history unmarshal (dp_compiled dp) req w)"

text \<open>\<open>target\<close> is the name of the target node, None for one of another workflow.\<close>

definition JumpTo ::
  "'w deployment \<Rightarrow> (checkpointPayload, 'w) history_list \<Rightarrow> nat \<Rightarrow> (nat \<Rightarrow> batchRun) \<Rightarrow> string option
   \<Rightarrow> JumpRequest \<Rightarrow> govalue \<Rightarrow> 'w RunOption option list \<Rightarrow> activeRuns \<Rightarrow> 'w
   \<Rightarrow> ((goerr + govalue) \<times> activeRuns \<times> 'w) option" where
  "JumpTo dp history pages runs target req input opts active w =
     (case target of
        None \<Rightarrow> Some (Inl (Msg ''workflow: jump target does not belong to this workflow''), active, w)
      | Some name \<Rightarrow> invoke_control dp pages runs opts active
          (prepareJump (dp_services dp) history (dp_compiled dp) name input req w))"

definition Fork ::
  "'w deployment \<Rightarrow> nat \<Rightarrow> (nat \<Rightarrow> batchRun) \<Rightarrow> Snapshot \<Rightarrow> ForkRequest \<Rightarrow> 'w RunOption option list \<Rightarrow> activeRuns
   \<Rightarrow> 'w \<Rightarrow> ((goerr + govalue) \<times> activeRuns \<times> 'w) option" where
  "Fork dp pages runs sn req opts active w =
     (let cfg = ResolveRunOptions opts in
      case fork_start sn (Some (Inr (dp_compiled dp))) req
             (case RunConfigError cfg of None \<Rightarrow> Inr (rc_RunID cfg) | Some e \<Rightarrow> Inl e) of
        Inl e \<Rightarrow> Some (Inl e, active, w)
      | Inr (input, sessionID, association) \<Rightarrow>
          Invoke dp pages runs input
            (opts @ [Some (WithSessionID sessionID), Some (WithForkAssociation association)]) active w)"

section \<open>Nested runs\<close>

record RunInfo =
  info_SessionID :: string
  info_RunID :: string
  info_ParentRunID :: string
  info_Depth :: int
  info_NodeID :: string
  info_ActivationID :: string
  info_Attempt :: int

definition node_attempt :: "execution \<Rightarrow> string \<Rightarrow> int" where
  "node_attempt ex aid =
     (case fmlookup (rs_activations (ex_state ex)) aid of None \<Rightarrow> 0 | Some r \<Rightarrow> ar_attempt r)"

definition run_info :: "execution \<Rightarrow> int \<Rightarrow> activation \<Rightarrow> RunInfo" where
  "run_info ex depth current =
     \<lparr>info_SessionID = ex_sessionID ex, info_RunID = ex_runID ex, info_ParentRunID = ex_parentRunID ex,
      info_Depth = depth, info_NodeID = ac_node current, info_ActivationID = ac_id current,
      info_Attempt = node_attempt ex (ac_id current)\<rparr>"

definition child_run_id :: "string \<Rightarrow> string \<Rightarrow> int \<Rightarrow> int \<Rightarrow> string" where
  "child_run_id run aid step ordinal =
     run @ ''-child-'' @ aid @ ''-'' @ int_string step @ ''-'' @ int_string ordinal"

text \<open>
  The resolutions of the child run that interrupted the node, when there is one. The generators and sinks
  of the run are passed on; \<open>range\<close> of the generators is in the order \<open>kinds\<close>.
\<close>

definition child_resume :: "activation \<Rightarrow> resumedInterrupt list \<Rightarrow> ResumeRequest option" where
  "child_resume current resolved =
     (case resolved of
        [] \<Rightarrow> None
      | r # rs \<Rightarrow>
          if ri_nodeName r = ac_node current \<and> ri_activationID r = ac_id current \<and> ri_childRunID r \<noteq> []
          then Some \<lparr>rq_RunID = ri_childRunID r, rq_CheckpointID = ri_childCheckpointID r,
            rq_Resolutions = map (\<lambda>i. \<lparr>rn_InterruptID = ri_id i, rn_PayloadRef = ri_payloadRef i\<rparr>) resolved\<rparr>
          else None)"

definition childOptions ::
  "execution \<Rightarrow> int \<Rightarrow> string list \<Rightarrow> 'w RunConfig \<Rightarrow> resumedInterrupt list \<Rightarrow> activation \<Rightarrow> int \<Rightarrow> int
   \<Rightarrow> 'w RunOption option list" where
  "childOptions ex depth kinds cfg resolved current step ordinal =
     (let resume = child_resume current resolved;
          childRunID = (case resume of None \<Rightarrow> child_run_id (ex_runID ex) (ac_id current) step ordinal
                        | Some req \<Rightarrow> rq_RunID req) in
      [Some (WithSessionID (ex_sessionID ex)), Some (WithRunID childRunID),
       Some (WithRunLineage \<lparr>ln_ParentRunID = ex_runID ex, ln_Depth = depth + 1\<rparr>)] @
      (case resume of None \<Rightarrow> [] | Some req \<Rightarrow> [Some (WithResume req)]) @
      map (\<lambda>kind. Some (WithIDGenerator kind (rc_idGenerators cfg kind))) kinds @
      map (\<lambda>sink. Some (WithEventSink (Some sink))) (rc_EventSinks cfg))"

section \<open>One execution of a run at a time\<close>

lemma registerRun_cases:
  "registerRun run active = (if fmlookup active run \<noteq> None then (Some (Sentinel ErrRunActive), active)
     else (None, fmupd run None active))"
  by (simp add: registerRun_def)

lemma unregister_register: "fmlookup active run = None \<Longrightarrow> unregisterRun run (fmupd run None active) = active"
  by (rule fmap_ext) (simp add: unregisterRun_def)

text \<open>
  C25 (runs are exclusive in a process). An invocation whose run is already active is refused before it
  calls anything but the id generators; every invocation that ends leaves the registry of active runs
  as it was.
\<close>

theorem invocation_exclusive:
  assumes "invokeAll dp pages runs input sink opts active w = Some (result, active', w')"
  shows "active' = active \<and>
    (\<forall>iv w1. resolve_invocation dp (ResolveRunOptions opts) w = (Inr iv, w1) \<and> fmlookup active (in_runID iv) \<noteq> None \<longrightarrow>
       result = Inl (Sentinel ErrRunActive) \<and> w' = w1)"
proof (cases "resolve_invocation dp (ResolveRunOptions opts) w")
  case (Pair r w1)
  show ?thesis
  proof (cases r)
    case (Inl e)
    with Pair assms show ?thesis by (simp add: invokeAll_def Let_def)
  next
    case (Inr iv)
    show ?thesis
    proof (cases "fmlookup active (in_runID iv) = None")
      case True
      with assms Pair Inr show ?thesis
        by (auto simp: invokeAll_def Let_def registerRun_cases unregister_register)
    next
      case False
      with assms Pair Inr show ?thesis
        by (auto simp: invokeAll_def Let_def registerRun_cases)
    qed
  qed
qed

section \<open>A fresh run\<close>

lemma initial_state_ok: "checkpoint_ok (initial_state c run input contextValue has)"
  by (simp add: checkpoint_ok_def initial_state_def trackActivation_def zero_state_def first_activation_def
      initialActivationSequence_def new_record_def versions_ok_def versions_tight_def Let_def fmpred_iff)

lemma initial_state_queue [simp]:
  "rs_queue (initial_state c run input contextValue has) = [first_activation c run input]"
  by (simp add: initial_state_def trackActivation_def zero_state_def Let_def)

lemma initial_state_activations:
  "rs_activations (initial_state c run input contextValue has) =
     fmupd ''act-1'' (new_record (first_activation c run input)) fmempty"
  by (simp add: initial_state_def trackActivation_def zero_state_def first_activation_def Let_def)

lemma forget_record_first: "forget_record (new_record a) = new_record a"
  by (simp add: forget_record_def new_record_def zero_result_def forget_cause_def cause_runtime_def cause_text_def)


section \<open>Control commands start new runs\<close>


section \<open>Nested runs have identities of their own\<close>

lemma split_at_char:
  "c \<notin> set a \<Longrightarrow> c \<notin> set a' \<Longrightarrow> a @ c # b = a' @ c # b' \<longleftrightarrow> a = a' \<and> b = b'"
proof (induction a arbitrary: a')
  case Nil
  then show ?case by (cases a') auto
next
  case (Cons x xs)
  then show ?case by (cases a') auto
qed

lemma int_string_no_minus: "0 \<le> i \<Longrightarrow> CHR ''-'' \<notin> set (int_string i)"
  using nat_string_no_char [of "CHR ''-''"] by (simp add: int_string_def)

lemma child_run_id_inject:
  assumes "0 \<le> i" "0 \<le> j" "0 \<le> step" "0 \<le> step'"
  shows "child_run_id run (activation_id i) step n = child_run_id run (activation_id j) step' m \<longleftrightarrow>
     i = j \<and> step = step' \<and> n = m"
  using assms by (auto simp: child_run_id_def activation_id_def split_at_char int_string_no_minus)

lemma child_resume_run: "child_resume current resolved = Some req \<Longrightarrow> rq_RunID req \<noteq> []"
  by (auto simp: child_resume_def split: list.splits if_splits)

abbreviation apply_options :: "'w RunConfig \<Rightarrow> 'w RunOption option list \<Rightarrow> 'w RunConfig" where
  "apply_options \<equiv> foldl (\<lambda>c opt. case opt of None \<Rightarrow> c | Some f \<Rightarrow> ApplyRunOption f c)"

lemma apply_generators:
  "\<forall>k \<in> set kinds. k \<noteq> [] \<and> gens k \<noteq> None \<Longrightarrow>
     \<exists>m. apply_options c (map (\<lambda>kind. Some (WithIDGenerator kind (gens kind))) kinds) = c\<lparr>rc_idGenerators := m\<rparr>"
proof (induction kinds arbitrary: c)
  case Nil
  show ?case by (intro exI [of _ "rc_idGenerators c"]) simp
next
  case (Cons k ks)
  then obtain g where g: "gens k = Some g" "k \<noteq> []" by auto
  let ?c = "c\<lparr>rc_idGenerators := (rc_idGenerators c)(k \<mapsto> g)\<rparr>"
  have k: "ConstrainIDGenerator k (gens k) c = ?c"
    using g by (simp add: ConstrainIDGenerator_def)
  from Cons.IH [of ?c] Cons.prems obtain m
    where "apply_options ?c (map (\<lambda>kind. Some (WithIDGenerator kind (gens kind))) ks) = ?c\<lparr>rc_idGenerators := m\<rparr>" by auto
  then show ?case by (intro exI [of _ m]) (simp add: k)
qed

lemma apply_sinks:
  "apply_options c (map (\<lambda>sink. Some (WithEventSink (Some sink))) sinks) = c\<lparr>rc_EventSinks := rc_EventSinks c @ sinks\<rparr>"
  by (induction sinks arbitrary: c) simp_all


section \<open>Invocations to try it on\<close>

definition plain_deployment :: "Record list deployment" where
  "plain_deployment =
     \<lparr>dp_compiled = late_plan, dp_services = log_services, dp_uuid = (\<lambda>w. (''u'', w)), dp_idGenerators = Map.empty,
      dp_beforeWorkflow = [], dp_afterWorkflow = [], dp_contextInit = None, dp_wrappers = [],
      dp_ord = (\<lambda>ks. ks), dp_bucketOrd = (\<lambda>ks. ks), dp_caller = None, dp_heartbeat = None\<rparr>"

definition plain_options :: "Record list RunOption option list" where
  "plain_options = [Some (WithSessionID ''s''), Some (WithRunID ''r''), Some (WithIDGenerator ''owner'' (Some (\<lambda>w. (Inr ''o'', w))))]"

lemmas plain_invocation_defs = plain_deployment_def plain_options_def ResolveRunOptions_def zero_config_def
  ConstrainSessionID_def ConstrainRunID_def ConstrainIDGenerator_def controlStartOption_def controlOptions_def
  resolve_invocation_def RunConfigError_ok workflowResumeRequest_def workflowControlStart_def workflowSourceAssociation_def
  invocation_ids_def generate_for_def idGenerator_def generateID_def generated_id_error_def maxGeneratedIDBytes_def
  IDKindOwner_def IDKindSession_def IDKindRun_def utf8_rest_def byte_in_def zero_lineage_def
  resumeExtensionKey_def controlStartExtensionKey_def sourceAssociationExtensionKey_def known_extensions_def

lemma plain_resolves:
  "resolve_invocation plain_deployment (ResolveRunOptions plain_options) w =
     (Inr \<lparr>in_resume = None, in_control = None, in_association = None, in_sessionID = ''s'', in_runID = ''r'',
        in_ownerID = ''o'', in_parentRunID = [], in_depth = 1\<rparr>, w)"
  by (simp add: plain_invocation_defs)

theorem invocation_exclusive_witness:
  "invokeAll plain_deployment 1 (\<lambda>n. idle_batch) plain_value None plain_options (fmupd ''r'' None fmempty) [] =
     Some (Inl (Sentinel ErrRunActive), fmupd ''r'' None fmempty, [])"
proof -
  let ?active = "fmupd ''r'' None fmempty"
  have "\<exists>result active' w'. invokeAll plain_deployment 1 (\<lambda>n. idle_batch) plain_value None plain_options ?active [] =
      Some (result, active', w')"
    by (simp add: invokeAll_def plain_resolves registerRun_cases)
  then obtain result active' w' where r: "invokeAll plain_deployment 1 (\<lambda>n. idle_batch) plain_value None plain_options
      ?active [] = Some (result, active', w')" by blast
  from invocation_exclusive [OF r] plain_resolves [of "[]"] r show ?thesis by simp
qed


definition plain_start :: controlStart where
  "plain_start = \<lparr>ct_payload = Gob 1 None, ct_sessionID = ''s'',
     ct_association = \<lparr>as_SourceRunID = ''old'', as_SourceEventSeq = 3\<rparr>\<rparr>"



end
