(* ===== verification/Plugins.thy ===== *)
theory Plugins
  imports Guards
begin

text \<open>
  Plugins (\<open>plugin.go\<close>): the staging registry of one compilation, the registrations it accepts and refuses,
  and the set-up of the configured plugins in order. A plugin is the script of the
  registrations it makes; it sees the error of each and returns its own.
\<close>

section \<open>The registry\<close>

type_synonym 'w EventSinkWrapper = "('w, unit) EventSink \<Rightarrow> ('w, unit) EventSink"

record 'w Registry =
  rg_eventTypes :: "(string, EventTypeValidator) fmap"
  rg_nodeMiddlewares :: "erasedNodeMiddleware list"
  rg_routeMiddlewares :: "erasedRouteMiddleware list"
  rg_joinMiddlewares :: "erasedJoinMiddleware list"
  rg_eventSinkWrappers :: "'w EventSinkWrapper list"
  rg_names :: "string fset"
  rg_topologyNames :: "string list"

definition new_registry :: "'w Registry" where
  "new_registry =
     \<lparr>rg_eventTypes = fmempty, rg_nodeMiddlewares = [], rg_routeMiddlewares = [], rg_joinMiddlewares = [],
      rg_eventSinkWrappers = [], rg_names = {||}, rg_topologyNames = []\<rparr>"

definition registry_key :: "string \<Rightarrow> string \<Rightarrow> string" where
  "registry_key kind name = kind @ CHR 0x00 # name"

text \<open>A name is taken even when the registration then fails on a nil value.\<close>

definition reserveName :: "string \<Rightarrow> string \<Rightarrow> 'w Registry \<Rightarrow> goerr option \<times> 'w Registry" where
  "reserveName kind name r =
     (if name = [] then (Some (Msg (''workflow: '' @ kind @ '' name is required'')), r)
      else if registry_key kind name |\<in>| rg_names r then (Some (Msg (''workflow: duplicate '' @ kind)), r)
      else (None, r\<lparr>rg_names := finsert (registry_key kind name) (rg_names r),
                    rg_topologyNames := rg_topologyNames r @ [registry_key kind name]\<rparr>))"

text \<open>The registrations, with None for a nil function; a middleware is registered erased.\<close>

datatype 'w registration =
    RegisterEventType string "EventTypeValidator option"
  | RegisterNodeMiddleware string "erasedNodeMiddleware option"
  | RegisterRouteMiddleware string "erasedRouteMiddleware option"
  | RegisterJoinMiddleware string "erasedJoinMiddleware option"
  | RegisterEventSinkWrapper string "'w EventSinkWrapper option"

definition register_value ::
  "string \<Rightarrow> string \<Rightarrow> 'a option \<Rightarrow> ('a \<Rightarrow> 'w Registry \<Rightarrow> 'w Registry) \<Rightarrow> 'w Registry \<Rightarrow> goerr option \<times> 'w Registry" where
  "register_value kind name value put r =
     (case reserveName kind name r of
        (Some err, r1) \<Rightarrow> (Some err, r1)
      | (None, r1) \<Rightarrow>
          (case value of
             None \<Rightarrow> (Some (Msg (''workflow: '' @ kind @ '' is nil'')), r1)
           | Some v \<Rightarrow> (None, put v r1)))"

fun register :: "'w registration \<Rightarrow> 'w Registry \<Rightarrow> goerr option \<times> 'w Registry" where
  "register (RegisterEventType name validator) r =
     (if isRuntimeEventType name then (Some (Msg ''workflow: event type is reserved for the runtime''), r)
      else register_value ''event type'' name validator
        (\<lambda>v r. r\<lparr>rg_eventTypes := fmupd name v (rg_eventTypes r)\<rparr>) r)"
| "register (RegisterNodeMiddleware name mw) r =
     register_value ''node middleware'' name mw
       (\<lambda>m r. r\<lparr>rg_nodeMiddlewares := rg_nodeMiddlewares r @ [m\<lparr>em_name := name\<rparr>]\<rparr>) r"
| "register (RegisterRouteMiddleware name mw) r =
     register_value ''route middleware'' name mw
       (\<lambda>m r. r\<lparr>rg_routeMiddlewares := rg_routeMiddlewares r @ [m\<lparr>rm_name := name\<rparr>]\<rparr>) r"
| "register (RegisterJoinMiddleware name mw) r =
     register_value ''join middleware'' name mw
       (\<lambda>m r. r\<lparr>rg_joinMiddlewares := rg_joinMiddlewares r @ [m\<lparr>jm_name := name\<rparr>]\<rparr>) r"
| "register (RegisterEventSinkWrapper name wrapper) r =
     register_value ''event sink wrapper'' name wrapper
       (\<lambda>f r. r\<lparr>rg_eventSinkWrappers := rg_eventSinkWrappers r @ [f]\<rparr>) r"

section \<open>Plugins\<close>

datatype 'w plugin_script =
    PluginReturn "goerr option"
  | PluginRegister "'w registration" "goerr option \<Rightarrow> 'w plugin_script"

primrec run_setup :: "'w plugin_script \<Rightarrow> 'w Registry \<Rightarrow> goerr option \<times> 'w Registry" where
  "run_setup (PluginReturn err) r = (err, r)"
| "run_setup (PluginRegister entry k) r = (let (err, r1) = register entry r in run_setup (k err) r1)"

record 'w Plugin =
  pg_Name :: string
  pg_Setup :: "'w plugin_script"

fun setup_loop :: "'w Plugin option list \<Rightarrow> string list \<Rightarrow> 'w Registry \<Rightarrow> goerr + 'w Registry" where
  "setup_loop [] seen r = Inr r"
| "setup_loop (None # plugins) seen r = Inl (Msg ''workflow: plugin is nil'')"
| "setup_loop (Some p # plugins) seen r =
     (if pg_Name p = [] then Inl (Msg ''workflow: plugin name is required'')
      else if pg_Name p \<in> set seen then Inl (Msg ''workflow: duplicate plugin'')
      else (case run_setup (pg_Setup p) r of
          (Some err, r1) \<Rightarrow> Inl (Wrap ''workflow: setup plugin'' [err])
        | (None, r1) \<Rightarrow> setup_loop plugins (pg_Name p # seen) r1))"

definition setupPlugins :: "'w Plugin option list \<Rightarrow> goerr + 'w Registry" where
  "setupPlugins plugins = setup_loop plugins [] new_registry"

section \<open>What a registry holds\<close>

text \<open>
  A sound registry: the reserved names are listed once, in order; every middleware, wrapper and event
  type holds one of them; no event type is one of the runtime.
\<close>

definition names_of_kind :: "string \<Rightarrow> 'w Registry \<Rightarrow> string set" where
  "names_of_kind kind r = {n. registry_key kind n \<in> set (rg_topologyNames r)}"

definition registry_inv :: "'w Registry \<Rightarrow> bool" where
  "registry_inv r \<longleftrightarrow>
     distinct (rg_topologyNames r) \<and> fset (rg_names r) = set (rg_topologyNames r) \<and>
     distinct (map em_name (rg_nodeMiddlewares r)) \<and>
     set (map em_name (rg_nodeMiddlewares r)) \<subseteq> names_of_kind ''node middleware'' r \<and>
     distinct (map rm_name (rg_routeMiddlewares r)) \<and>
     set (map rm_name (rg_routeMiddlewares r)) \<subseteq> names_of_kind ''route middleware'' r \<and>
     distinct (map jm_name (rg_joinMiddlewares r)) \<and>
     set (map jm_name (rg_joinMiddlewares r)) \<subseteq> names_of_kind ''join middleware'' r \<and>
     fmdom' (rg_eventTypes r) \<subseteq> names_of_kind ''event type'' r \<and>
     (\<forall>t \<in> fmdom' (rg_eventTypes r). t \<noteq> [] \<and> \<not> isRuntimeEventType t)"

lemma names_of_kind_grow:
  "names_of_kind k (r\<lparr>rg_names := a, rg_topologyNames := rg_topologyNames r @ [x]\<rparr>) =
     names_of_kind k r \<union> {n. registry_key k n = x}"
  by (auto simp: names_of_kind_def)

text \<open>The parts that a registration does not name stay as they are.\<close>

lemma names_of_kind_frame [simp]:
  "names_of_kind k (r\<lparr>rg_eventTypes := a\<rparr>) = names_of_kind k r"
  "names_of_kind k (r\<lparr>rg_nodeMiddlewares := b\<rparr>) = names_of_kind k r"
  "names_of_kind k (r\<lparr>rg_routeMiddlewares := c\<rparr>) = names_of_kind k r"
  "names_of_kind k (r\<lparr>rg_joinMiddlewares := d\<rparr>) = names_of_kind k r"
  "names_of_kind k (r\<lparr>rg_eventSinkWrappers := e\<rparr>) = names_of_kind k r"
  by (simp_all add: names_of_kind_def)

lemma reserve_None:
  assumes "reserveName kind name r = (None, r1)"
  shows "r1 = r\<lparr>rg_names := finsert (registry_key kind name) (rg_names r),
      rg_topologyNames := rg_topologyNames r @ [registry_key kind name]\<rparr>"
    "name \<noteq> []" "registry_key kind name |\<notin>| rg_names r"
  using assms by (simp_all add: reserveName_def split: if_splits)

lemma reserve_inv:
  assumes "registry_inv r" "reserveName kind name r = (err, r1)"
  shows "registry_inv r1"
proof (cases err)
  case None
  note s = reserve_None [OF assms(2) [unfolded None]]
  have grow: "names_of_kind k r \<subseteq> names_of_kind k r1" for k unfolding s(1) names_of_kind_grow by blast
  have "distinct (rg_topologyNames r1) \<and> fset (rg_names r1) = set (rg_topologyNames r1)"
    using assms(1) s(3) by (simp add: s(1) registry_inv_def)
  with assms(1) grow show ?thesis
    unfolding registry_inv_def by (simp add: s(1)) (meson subset_trans)
next
  case (Some e)
  with assms show ?thesis by (simp add: reserveName_def split: if_splits)
qed

lemma reserve_fresh:
  assumes "registry_inv r" "reserveName kind name r = (None, r1)"
  shows "name \<notin> names_of_kind kind r" "name \<in> names_of_kind kind r1" "name \<noteq> []"
    "rg_nodeMiddlewares r1 = rg_nodeMiddlewares r" "rg_routeMiddlewares r1 = rg_routeMiddlewares r"
    "rg_joinMiddlewares r1 = rg_joinMiddlewares r" "rg_eventTypes r1 = rg_eventTypes r"
  using assms(1) reserve_None [OF assms(2)] by (auto simp: registry_inv_def names_of_kind_def)

lemma register_value_inv:
  assumes "registry_inv r" "register_value kind name v put r = (err, r1)"
    and "\<And>x r2. reserveName kind name r = (None, r2) \<Longrightarrow> registry_inv r2 \<Longrightarrow> registry_inv (put x r2)"
  shows "registry_inv r1"
proof (cases "reserveName kind name r")
  case (Pair e r2)
  note r2 = reserve_inv [OF assms(1) Pair]
  show ?thesis
  proof (cases e)
    case None
    with assms(2) Pair r2 assms(3) show ?thesis by (auto simp: register_value_def split: option.splits)
  next
    case (Some e1)
    with assms(2) Pair r2 show ?thesis by (simp add: register_value_def)
  qed
qed

lemma register_inv:
  assumes "registry_inv r" "register entry r = (err, r1)"
  shows "registry_inv r1"
proof (cases entry)
  case (RegisterEventType name v)
  show ?thesis
  proof (cases "isRuntimeEventType name")
    case True
    with assms RegisterEventType show ?thesis by simp
  next
    case False
    with assms(2) have "register_value ''event type'' name v
        (\<lambda>v r. r\<lparr>rg_eventTypes := fmupd name v (rg_eventTypes r)\<rparr>) r = (err, r1)"
      by (simp add: RegisterEventType)
    then show ?thesis
    proof (rule register_value_inv [OF assms(1)])
      fix x :: EventTypeValidator and r2
      assume "reserveName ''event type'' name r = (None, r2)" "registry_inv r2"
      then show "registry_inv (r2\<lparr>rg_eventTypes := fmupd name x (rg_eventTypes r2)\<rparr>)"
        using reserve_fresh [OF assms(1)] False by (simp add: registry_inv_def)
    qed
  qed
next
  case (RegisterNodeMiddleware name v)
  with assms(2) have "register_value ''node middleware'' name v
      (\<lambda>m r. r\<lparr>rg_nodeMiddlewares := rg_nodeMiddlewares r @ [m\<lparr>em_name := name\<rparr>]\<rparr>) r = (err, r1)" by simp
  then show ?thesis
  proof (rule register_value_inv [OF assms(1)])
    fix x r2 assume n: "reserveName ''node middleware'' name r = (None, r2)" "registry_inv r2"
    have "name \<notin> set (map em_name (rg_nodeMiddlewares r2))"
      using reserve_fresh(1,4) [OF assms(1) n(1)] assms(1) by (auto simp: registry_inv_def)
    with n(2) reserve_fresh(2) [OF assms(1) n(1)]
    show "registry_inv (r2\<lparr>rg_nodeMiddlewares := rg_nodeMiddlewares r2 @ [x\<lparr>em_name := name\<rparr>]\<rparr>)"
      by (simp add: registry_inv_def)
  qed
next
  case (RegisterRouteMiddleware name v)
  with assms(2) have "register_value ''route middleware'' name v
      (\<lambda>m r. r\<lparr>rg_routeMiddlewares := rg_routeMiddlewares r @ [m\<lparr>rm_name := name\<rparr>]\<rparr>) r = (err, r1)" by simp
  then show ?thesis
  proof (rule register_value_inv [OF assms(1)])
    fix x r2 assume n: "reserveName ''route middleware'' name r = (None, r2)" "registry_inv r2"
    have "name \<notin> set (map rm_name (rg_routeMiddlewares r2))"
      using reserve_fresh(1,5) [OF assms(1) n(1)] assms(1) by (auto simp: registry_inv_def)
    with n(2) reserve_fresh(2) [OF assms(1) n(1)]
    show "registry_inv (r2\<lparr>rg_routeMiddlewares := rg_routeMiddlewares r2 @ [x\<lparr>rm_name := name\<rparr>]\<rparr>)"
      by (simp add: registry_inv_def)
  qed
next
  case (RegisterJoinMiddleware name v)
  with assms(2) have "register_value ''join middleware'' name v
      (\<lambda>m r. r\<lparr>rg_joinMiddlewares := rg_joinMiddlewares r @ [m\<lparr>jm_name := name\<rparr>]\<rparr>) r = (err, r1)" by simp
  then show ?thesis
  proof (rule register_value_inv [OF assms(1)])
    fix x r2 assume n: "reserveName ''join middleware'' name r = (None, r2)" "registry_inv r2"
    have "name \<notin> set (map jm_name (rg_joinMiddlewares r2))"
      using reserve_fresh(1,6) [OF assms(1) n(1)] assms(1) by (auto simp: registry_inv_def)
    with n(2) reserve_fresh(2) [OF assms(1) n(1)]
    show "registry_inv (r2\<lparr>rg_joinMiddlewares := rg_joinMiddlewares r2 @ [x\<lparr>jm_name := name\<rparr>]\<rparr>)"
      by (simp add: registry_inv_def)
  qed
next
  case (RegisterEventSinkWrapper name v)
  with assms(2) have "register_value ''event sink wrapper'' name v
      (\<lambda>f r. r\<lparr>rg_eventSinkWrappers := rg_eventSinkWrappers r @ [f]\<rparr>) r = (err, r1)" by simp
  then show ?thesis
    by (rule register_value_inv [OF assms(1)]) (simp add: registry_inv_def)
qed

lemma run_setup_inv: "registry_inv r \<Longrightarrow> registry_inv (snd (run_setup script r))"
proof (induction script arbitrary: r)
  case (PluginRegister entry k)
  obtain e r1 where r1: "register entry r = (e, r1)" by (metis surj_pair)
  from PluginRegister.IH [OF _ register_inv [OF PluginRegister.prems r1]] show ?case by (simp add: r1)
qed simp

lemma setup_loop_inv: "registry_inv r \<Longrightarrow> setup_loop plugins seen r = Inr r1 \<Longrightarrow>
   registry_inv r1 \<and> list_all (\<lambda>p. p \<noteq> None) plugins \<and> distinct (map (\<lambda>p. pg_Name (the p)) plugins) \<and>
   set (map (\<lambda>p. pg_Name (the p)) plugins) \<inter> set seen = {}"
proof (induction plugins seen r rule: setup_loop.induct)
  case (3 p plugins seen r)
  then show ?case
    using run_setup_inv [OF "3.prems"(1), of "pg_Setup p"] by (auto split: if_splits prod.splits option.splits)
qed auto

text \<open>
  Plugins do not clash. When the set-up of the configured plugins succeeds, every plugin has a name
  of its own and so has every middleware of a kind, in whatever way the plugins reacted to
  refused registrations; no registered event type is empty or one of the runtime.
\<close>

theorem plugins_do_not_clash:
  assumes "setupPlugins plugins = Inr r"
  shows "distinct (map (\<lambda>p. pg_Name (the p)) plugins) \<and> None \<notin> set plugins \<and>
    distinct (map em_name (rg_nodeMiddlewares r)) \<and> distinct (map rm_name (rg_routeMiddlewares r)) \<and>
    distinct (map jm_name (rg_joinMiddlewares r)) \<and> distinct (rg_topologyNames r) \<and>
    (\<forall>t \<in> fmdom' (rg_eventTypes r). t \<noteq> [] \<and> \<not> isRuntimeEventType t)"
proof -
  have "registry_inv (new_registry :: 'a Registry)"
    by (simp add: registry_inv_def new_registry_def)
  from setup_loop_inv [OF this assms [unfolded setupPlugins_def]] show ?thesis
    by (auto simp: registry_inv_def list_all_iff)
qed

theorem plugins_do_not_clash_witness:
  "\<exists>r. setupPlugins [Some \<lparr>pg_Name = ''p'', pg_Setup = PluginRegister (RegisterEventType ''custom'' (Some (\<lambda>e. None)))
     (\<lambda>e1. PluginRegister (RegisterEventType ''custom'' (Some (\<lambda>e. None))) (\<lambda>e2. PluginReturn None))\<rparr>] =
       Inr (r :: unit Registry) \<and> distinct (rg_topologyNames r)"
proof -
  let ?ps = "[Some \<lparr>pg_Name = ''p'', pg_Setup = PluginRegister (RegisterEventType ''custom'' (Some (\<lambda>e. None)))
     (\<lambda>e1. PluginRegister (RegisterEventType ''custom'' (Some (\<lambda>e. None))) (\<lambda>e2. PluginReturn None))\<rparr>] :: unit Plugin option list"
  obtain r where r: "setupPlugins ?ps = Inr r"
    by (simp add: setupPlugins_def register_value_def reserveName_def new_registry_def registry_key_def
        isRuntimeEventType_iff runtime_event_types_def)
  from plugins_do_not_clash [OF r] r show ?thesis by blast
qed

end
