(* ===== verification/CheckpointTypes.thy ===== *)
theory CheckpointTypes
  imports Values
begin

text \<open>
  The registry of the concrete types that checkpoints may hold (\<open>checkpoint_types.go\<close>): the process-wide
  tables by wire name and by base type, the check of a batch of types before any of them is
  registered, and the registration itself.
\<close>

section \<open>Types as reflection shows them\<close>

text \<open>
  A named type has a package path and a name; what it is defined as stands in a table, so that a
  named pointer type may refer to itself. \<open>ROther\<close> is any other unnamed type by its text.
\<close>

datatype rtype =
    RNamed string string
  | RPointer rtype
  | RSlice rtype
  | RArray nat rtype
  | RMap rtype rtype
  | ROther string

datatype named_kind = NamedInterface | NamedPointer rtype | NamedOther

type_synonym type_table = "(string \<times> string, named_kind) fmap"

fun type_name :: "rtype \<Rightarrow> string" where
  "type_name (RNamed pkg name) = name"
| "type_name _ = []"

fun type_pkgPath :: "rtype \<Rightarrow> string" where
  "type_pkgPath (RNamed pkg name) = pkg"
| "type_pkgPath _ = []"

fun is_interface_kind :: "type_table \<Rightarrow> rtype \<Rightarrow> bool" where
  "is_interface_kind tt (RNamed pkg name) = (fmlookup tt (pkg, name) = Some NamedInterface)"
| "is_interface_kind tt _ = False"

text \<open>\<open>Elem\<close> of a type of pointer kind.\<close>

fun pointer_elem :: "type_table \<Rightarrow> rtype \<Rightarrow> rtype option" where
  "pointer_elem tt (RPointer t) = Some t"
| "pointer_elem tt (RNamed pkg name) =
     (case fmlookup tt (pkg, name) of Some (NamedPointer t) \<Rightarrow> Some t | _ \<Rightarrow> None)"
| "pointer_elem tt _ = None"

text \<open>\<open>String\<close> qualifies a name with the last element of its package path only.\<close>

definition path_base :: "string \<Rightarrow> string" where
  "path_base path = rev (takeWhile (\<lambda>c. c \<noteq> CHR ''/'') (rev path))"

fun type_string :: "rtype \<Rightarrow> string" where
  "type_string (RNamed pkg name) = (if pkg = [] then name else path_base pkg @ ''.'' @ name)"
| "type_string (RPointer t) = ''*'' @ type_string t"
| "type_string (RSlice t) = ''[]'' @ type_string t"
| "type_string (RArray n t) = ''['' @ nat_string n @ '']'' @ type_string t"
| "type_string (RMap k t) = ''map['' @ type_string k @ '']'' @ type_string t"
| "type_string (ROther s) = s"

section \<open>Names\<close>

text \<open>\<open>encoding/gob\<close>'s name of a type: the star is only ever put before a name, which a pointer lacks.\<close>

definition checkpointGobName :: "rtype \<Rightarrow> string" where
  "checkpointGobName t =
     (let star = (if type_name t = [] then (case t of RPointer e \<Rightarrow> ''*'' | _ \<Rightarrow> []) else []) in
      if type_name t = [] then type_string t
      else if type_pkgPath t = [] then star @ type_name t
      else star @ type_pkgPath t @ ''.'' @ type_name t)"

fun checkpointTypeIdentity :: "rtype \<Rightarrow> string" where
  "checkpointTypeIdentity (RNamed pkg name) = (if pkg \<noteq> [] then pkg @ ''.'' @ name else name)"
| "checkpointTypeIdentity (RPointer t) = ''*'' @ checkpointTypeIdentity t"
| "checkpointTypeIdentity (RSlice t) = ''[]'' @ checkpointTypeIdentity t"
| "checkpointTypeIdentity (RArray n t) = ''['' @ nat_string n @ '']'' @ checkpointTypeIdentity t"
| "checkpointTypeIdentity (RMap k t) = ''map['' @ checkpointTypeIdentity k @ '']'' @ checkpointTypeIdentity t"
| "checkpointTypeIdentity (ROther s) = s"

text \<open>Pointers are followed to their base; a type that was visited before ends the walk with an error.\<close>

function base_type :: "type_table \<Rightarrow> rtype list \<Rightarrow> rtype \<Rightarrow> goerr + rtype" where
  "base_type tt visited t =
     (case pointer_elem tt t of
        None \<Rightarrow> Inr t
      | Some e \<Rightarrow>
          if t \<in> set visited then Inl (Wrap ''recursive pointer type'' [Sentinel ErrCheckpointTypeConflict])
          else base_type tt (t # visited) e)"
  by pat_completeness auto

text \<open>A step goes into a pointer or uses up a name of the table.\<close>

definition names_left :: "type_table \<Rightarrow> rtype list \<Rightarrow> nat" where
  "names_left tt visited = card {k \<in> fmdom' tt. RNamed (fst k) (snd k) \<notin> set visited}"

lemma names_left_pointer: "names_left tt (RPointer t # visited) = names_left tt visited"
  by (simp add: names_left_def)

lemma names_left_named:
  assumes "RNamed pkg name \<notin> set visited" "fmlookup tt (pkg, name) = Some d"
  shows "names_left tt (RNamed pkg name # visited) < names_left tt visited"
proof -
  let ?A = "{k \<in> fmdom' tt. RNamed (fst k) (snd k) \<notin> set visited}"
  have "(pkg, name) \<in> ?A" using assms(1) fmdom'I [OF assms(2)] by simp
  moreover have "finite ?A" by (rule finite_subset [of _ "fmdom' tt"]) auto
  ultimately have "card (?A - {(pkg, name)}) < card ?A" by (rule card_Diff1_less [rotated])
  moreover have "{k \<in> fmdom' tt. RNamed (fst k) (snd k) \<notin> set (RNamed pkg name # visited)} = ?A - {(pkg, name)}"
    by (rule set_eqI) (simp add: split_paired_all, metis fst_conv prod.collapse snd_conv)
  ultimately show ?thesis unfolding names_left_def by simp
qed

termination base_type
proof (relation "measures [\<lambda>(tt, visited, t). names_left tt visited, \<lambda>(tt, visited, t). size t]")
  fix tt t e visited
  assume "pointer_elem tt t = Some e" "t \<notin> set visited"
  then show "((tt, t # visited, e), (tt, visited, t)) \<in>
      measures [\<lambda>(tt, visited, t). names_left tt visited, \<lambda>(tt, visited, t). size t]"
    by (cases t) (simp_all add: names_left_pointer names_left_named split: option.splits named_kind.splits)
qed simp

declare base_type.simps [simp del]

definition checkpointBaseType :: "type_table \<Rightarrow> rtype \<Rightarrow> goerr + rtype" where
  "checkpointBaseType tt t = base_type tt [] t"

section \<open>The registry\<close>

record checkpointTypeRegistration =
  ctr_typ :: rtype
  ctr_wireName :: string

record checkpointTypePlan = checkpointTypeRegistration +
  ctr_base :: rtype

record type_registry =
  tr_byName :: "(string, rtype) fmap"
  tr_byBase :: "(rtype, rtype \<times> string) fmap"

definition conflict :: "string \<Rightarrow> goerr" where
  "conflict text = Wrap text [Sentinel ErrCheckpointTypeConflict]"

definition recordCheckpointType :: "checkpointTypePlan \<Rightarrow> type_registry \<Rightarrow> type_registry" where
  "recordCheckpointType p r = r
     \<lparr>tr_byName := fmupd (ctr_wireName p) (ctr_typ p) (tr_byName r),
      tr_byBase := fmupd (ctr_base p) (ctr_typ p, ctr_wireName p) (tr_byBase r)\<rparr>"

text \<open>The check works on copies of both tables, which it extends as it goes.\<close>

fun preflightCheckpointTypes ::
  "type_table \<Rightarrow> rtype list \<Rightarrow> type_registry \<Rightarrow> goerr + checkpointTypePlan list" where
  "preflightCheckpointTypes tt [] r = Inr []"
| "preflightCheckpointTypes tt (t # ts) r =
     (if (case fmlookup (tr_byName r) (checkpointGobName t) of None \<Rightarrow> False | Some old \<Rightarrow> old \<noteq> t)
        then Inl (conflict ''wire name maps to different concrete types'')
      else andthen (checkpointBaseType tt t) (\<lambda>base.
        if (case fmlookup (tr_byBase r) base of None \<Rightarrow> False | Some old \<Rightarrow> old \<noteq> (t, checkpointGobName t))
          then Inl (conflict ''base type cannot use both'')
        else (let p = \<lparr>ctr_typ = t, ctr_wireName = checkpointGobName t, ctr_base = base\<rparr> in
          andthen (preflightCheckpointTypes tt ts (recordCheckpointType p r)) (\<lambda>plan. Inr (p # plan)))))"

text \<open>\<open>gob_register\<close> says for which types \<open>gob.Register\<close> panics.\<close>

fun register_plan ::
  "(rtype \<Rightarrow> bool) \<Rightarrow> checkpointTypePlan list \<Rightarrow> type_registry \<Rightarrow> goerr option \<times> type_registry" where
  "register_plan panics [] r = (None, r)"
| "register_plan panics (p # ps) r =
     (if panics (ctr_typ p) then (Some (conflict ''register checkpoint type''), r)
      else register_plan panics ps (recordCheckpointType p r))"

definition registerWorkflowCheckpointTypes ::
  "type_table \<Rightarrow> (rtype \<Rightarrow> bool) \<Rightarrow> rtype list \<Rightarrow> type_registry \<Rightarrow> goerr option \<times> type_registry" where
  "registerWorkflowCheckpointTypes tt panics types r =
     (case preflightCheckpointTypes tt types r of
        Inl e \<Rightarrow> (Some e, r)
      | Inr plan \<Rightarrow> register_plan panics plan r)"

section \<open>The types of a workflow\<close>

text \<open>
  The declared types that are no interfaces, each once, and the extra types, which must be
  concrete; \<open>range\<close> over the set of types is in the order \<open>ord\<close> before they are sorted by identity.
\<close>

definition workflowCheckpointTypes ::
  "type_table \<Rightarrow> rtype order \<Rightarrow> rtype list \<Rightarrow> rtype list \<Rightarrow> goerr + rtype list" where
  "workflowCheckpointTypes tt ord declared extra =
     (if list_ex (is_interface_kind tt) extra then Inl (Msg ''workflow: checkpoint type must be concrete'')
      else Inr (sort_key checkpointTypeIdentity
        (ord (remdups (filter (\<lambda>t. \<not> is_interface_kind tt t) (declared @ extra))))))"

section \<open>Names stay bound\<close>

text \<open>Everything recorded is kept.\<close>

definition extends :: "type_registry \<Rightarrow> type_registry \<Rightarrow> bool" where
  "extends r r' \<longleftrightarrow> fmlookup (tr_byName r) \<subseteq>\<^sub>m fmlookup (tr_byName r') \<and> fmlookup (tr_byBase r) \<subseteq>\<^sub>m fmlookup (tr_byBase r')"

lemma extends_refl [simp]: "extends r r"
  by (simp add: extends_def)

lemma extends_trans: "extends a b \<Longrightarrow> extends b c \<Longrightarrow> extends a c"
  by (auto simp: extends_def intro: map_le_trans)

lemma extends_record:
  assumes "fmlookup (tr_byName r) (ctr_wireName p) \<in> {None, Some (ctr_typ p)}"
    and "fmlookup (tr_byBase r) (ctr_base p) \<in> {None, Some (ctr_typ p, ctr_wireName p)}"
  shows "extends r (recordCheckpointType p r)"
  using assms by (auto simp: extends_def recordCheckpointType_def map_le_def dom_def)

lemma preflight_registers:
  assumes "preflightCheckpointTypes tt types r = Inr plan"
  shows "extends r (snd (register_plan panics plan r)) \<and>
    (fst (register_plan panics plan r) = None \<longrightarrow> map ctr_typ plan = types \<and>
       (\<forall>p \<in> set plan. fmlookup (tr_byName (snd (register_plan panics plan r))) (checkpointGobName (ctr_typ p)) = Some (ctr_typ p) \<and>
          checkpointBaseType tt (ctr_typ p) = Inr (ctr_base p) \<and>
          fmlookup (tr_byBase (snd (register_plan panics plan r))) (ctr_base p) = Some (ctr_typ p, checkpointGobName (ctr_typ p))))"
  using assms
proof (induction tt types r arbitrary: plan rule: preflightCheckpointTypes.induct)
  case (2 tt t ts r)
  let ?name = "checkpointGobName t"
  obtain base where base: "checkpointBaseType tt t = Inr base"
    using "2.prems" by (cases "checkpointBaseType tt t") (auto split: if_splits)
  let ?p = "\<lparr>ctr_typ = t, ctr_wireName = ?name, ctr_base = base\<rparr>"
  have ok: "fmlookup (tr_byName r) ?name \<in> {None, Some t}" "fmlookup (tr_byBase r) base \<in> {None, Some (t, ?name)}"
    using "2.prems" base by (auto split: if_splits option.splits)
  have c1: "\<not> (case fmlookup (tr_byName r) ?name of None \<Rightarrow> False | Some old \<Rightarrow> old \<noteq> t)"
    and c2: "\<not> (case fmlookup (tr_byBase r) base of None \<Rightarrow> False | Some old \<Rightarrow> old \<noteq> (t, ?name))"
    using ok by auto
  obtain rest where rest: "preflightCheckpointTypes tt ts (recordCheckpointType ?p r) = Inr rest" "plan = ?p # rest"
    using "2.prems" base c1 c2 by (cases "preflightCheckpointTypes tt ts (recordCheckpointType ?p r)") (simp_all add: Let_def)
  have one: "extends r (recordCheckpointType ?p r)" by (rule extends_record) (use ok in simp_all)
  show ?case
  proof (cases "panics t")
    case True
    then show ?thesis by (simp add: rest(2))
  next
    case False
    define r' where "r' = snd (register_plan panics rest (recordCheckpointType ?p r))"
    have IH: "extends (recordCheckpointType ?p r) r' \<and>
      (fst (register_plan panics rest (recordCheckpointType ?p r)) = None \<longrightarrow> map ctr_typ rest = ts \<and>
       (\<forall>p \<in> set rest. fmlookup (tr_byName r') (checkpointGobName (ctr_typ p)) = Some (ctr_typ p) \<and>
          checkpointBaseType tt (ctr_typ p) = Inr (ctr_base p) \<and>
          fmlookup (tr_byBase r') (ctr_base p) = Some (ctr_typ p, checkpointGobName (ctr_typ p))))"
      unfolding r'_def by (rule "2.IH" [OF c1 c2 refl rest(1)])
    then have "fmlookup (tr_byName r') ?name = Some t" "fmlookup (tr_byBase r') base = Some (t, ?name)"
      by (auto simp: extends_def map_le_def recordCheckpointType_def dom_def)
    with IH extends_trans [OF one] False base show ?thesis
      by (simp add: rest(2) r'_def [symmetric])
  qed
qed simp

text \<open>
  Names stay bound. Registering the types of a workflow never rebinds a wire name or a base type that
  an earlier workflow has taken, even when it fails half-way; when it succeeds every type is bound
  to its own wire name and base, so different types of one workflow never share either.
\<close>

theorem checkpoint_types_stay_bound:
  assumes "registerWorkflowCheckpointTypes tt panics types r = (err, r')"
  shows "(\<forall>n t. fmlookup (tr_byName r) n = Some t \<longrightarrow> fmlookup (tr_byName r') n = Some t) \<and>
    (\<forall>b x. fmlookup (tr_byBase r) b = Some x \<longrightarrow> fmlookup (tr_byBase r') b = Some x) \<and>
    (err = None \<longrightarrow> inj_on checkpointGobName (set types) \<and>
       (\<forall>t \<in> set types. fmlookup (tr_byName r') (checkpointGobName t) = Some t \<and>
          (\<exists>base. checkpointBaseType tt t = Inr base \<and>
             fmlookup (tr_byBase r') base = Some (t, checkpointGobName t))))"
proof (cases "preflightCheckpointTypes tt types r")
  case (Inl e)
  with assms show ?thesis by (auto simp: registerWorkflowCheckpointTypes_def)
next
  case (Inr plan)
  with assms have r': "register_plan panics plan r = (err, r')" by (simp add: registerWorkflowCheckpointTypes_def)
  note p = preflight_registers [OF Inr, of panics, unfolded r' fst_conv snd_conv]
  have old: "(\<forall>n t. fmlookup (tr_byName r) n = Some t \<longrightarrow> fmlookup (tr_byName r') n = Some t) \<and>
      (\<forall>b x. fmlookup (tr_byBase r) b = Some x \<longrightarrow> fmlookup (tr_byBase r') b = Some x)"
    using p by (auto simp: extends_def map_le_def dom_def)
  show ?thesis
  proof (cases err)
    case None
    with p have types: "types = map ctr_typ plan" by simp
    have bound: "\<forall>t \<in> set types. fmlookup (tr_byName r') (checkpointGobName t) = Some t \<and>
        (\<exists>base. checkpointBaseType tt t = Inr base \<and> fmlookup (tr_byBase r') base = Some (t, checkpointGobName t))"
      using p None unfolding types by auto
    then have "inj_on checkpointGobName (set types)" by (metis inj_onI option.inject)
    with old bound show ?thesis by blast
  qed (use old in simp)
qed

theorem checkpoint_types_stay_bound_witness:
  "\<exists>r'. registerWorkflowCheckpointTypes fmempty (\<lambda>t. False) [RNamed [] ''int'', RPointer (RNamed ''a/b'' ''T'')]
     \<lparr>tr_byName = fmempty, tr_byBase = fmempty\<rparr> = (None, r') \<and>
   fmlookup (tr_byName r') ''*b.T'' = Some (RPointer (RNamed ''a/b'' ''T''))"
proof -
  let ?types = "[RNamed [] ''int'', RPointer (RNamed ''a/b'' ''T'')]"
  obtain r' where r: "registerWorkflowCheckpointTypes fmempty (\<lambda>t. False) ?types
      \<lparr>tr_byName = fmempty, tr_byBase = fmempty\<rparr> = (None, r')"
    by (simp add: registerWorkflowCheckpointTypes_def checkpointBaseType_def base_type.simps checkpointGobName_def
        recordCheckpointType_def path_base_def Let_def)
  have "checkpointGobName (RPointer (RNamed ''a/b'' ''T'')) = ''*b.T''"
    by (simp add: checkpointGobName_def path_base_def)
  with checkpoint_types_stay_bound [OF r] r show ?thesis by simp
qed

end
