(* ===== verification/Builder.thy ===== *)
theory Builder
  imports Plugins CheckpointTypes Control
begin

text \<open>
  Building and compiling a workflow (\<open>New\<close>, the methods of \<open>Workflow\<close> and \<open>Node\<close>, \<open>compile\<close>). Nodes are
  shared objects that a program keeps configuring after it has registered them, so the builder is a heap
  of nodes by address and the workflow that points into it. Compilation validates the whole, sets up
  the plugins, freezes the nodes and fixes the plan.
\<close>

section \<open>Nodes and workflows under construction\<close>

record 's Node =
  no_name :: string
  no_inputType :: gotype
  no_outputType :: gotype
  no_run :: "'s invoker option"
  no_join :: "(Inputs \<Rightarrow> govalue callback) option"
  no_route :: "(govalue \<Rightarrow> Dispatch callback) option"
  no_guards :: "'s GuardBinding list"
  no_before :: "(govalue \<times> govalue, 's) LifecycleHook list"
  no_after :: "(govalue \<times> govalue, 's) LifecycleHook list"
  no_joinTwice :: bool
  no_routeTwice :: bool
  no_frozen :: bool
  no_merge :: bool
  no_invokable :: bool

text \<open>The scheduler's view of a node, and what runs its body.\<close>

definition node_plan :: "'s Node \<Rightarrow> node" where
  "node_plan n =
     \<lparr>nd_name = no_name n, nd_inputType = no_inputType n, nd_outputType = no_outputType n,
      nd_join = no_join n, nd_route = no_route n, nd_merge = no_merge n\<rparr>"

definition node_body :: "'s Node \<Rightarrow> 's nodeBody" where
  "node_body n =
     \<lparr>nb_name = no_name n, nb_inputType = no_inputType n, nb_outputType = no_outputType n,
      nb_guards = no_guards n, nb_before = no_before n, nb_after = no_after n, nb_run = no_run n,
      nb_invokable = no_invokable n, nb_merge = no_merge n, nb_join = (no_join n \<noteq> None),
      nb_joinTwice = no_joinTwice n, nb_routeTwice = no_routeTwice n\<rparr>"

text \<open>
  A workflow of input type \<open>wf_inputType\<close> and output type \<open>wf_outputType\<close>. \<open>wf_storeNil\<close> is what
  \<open>isNilStore\<close> finds, \<open>wf_idGenerators\<close> holds None for a nil generator.
\<close>

record ('s, 'w) Workflow =
  wf_name :: string
  wf_inputType :: gotype
  wf_outputType :: gotype
  wf_nodes :: "(string, nat) fmap"
  wf_edges :: edge_map
  wf_predecessors :: edge_map
  wf_entry :: string
  wf_exits :: "string fset"
  wf_duplicateNodes :: "string fset"
  wf_storeNil :: bool
  wf_maxSteps :: int
  wf_maxParallelism :: int
  wf_leaseDuration :: duration
  wf_leaseRenewEvery :: duration
  wf_idGenerators :: "(string, ('w \<Rightarrow> (goerr + string) \<times> 'w) option) fmap"
  wf_beforeWorkflow :: "(govalue \<times> govalue, 's) LifecycleHook list"
  wf_afterWorkflow :: "(govalue \<times> govalue, 's) LifecycleHook list"
  wf_plugins :: "'w Plugin option list"
  wf_topologyVersion :: string
  wf_topologySet :: bool
  wf_contextType :: "gotype option"
  wf_contextInit :: "(govalue \<Rightarrow> govalue callback) option"
  wf_contextSet :: bool
  wf_contextTwice :: bool
  wf_checkpointTypes :: "gotype list"
  wf_checkpointTypeErr :: "goerr option"

text \<open>The heap, the next free address, the workflow, and its compiled plan once there is one.\<close>

record ('s, 'w) Builder =
  bu_heap :: "(nat, 's Node) fmap"
  bu_next :: nat
  bu_workflow :: "('s, 'w) Workflow"
  bu_compiled :: "(compiled \<times> 'w Registry) option"

section \<open>Build options\<close>

datatype 'w BuildOption =
    WithBuildIDGenerator string "('w \<Rightarrow> (goerr + string) \<times> 'w) option"
  | WithMaxSteps int
  | WithMaxParallelism int
  | WithCheckpointLease duration duration
  | WithStore bool
  | WithTopologyVersion string
  | WithCheckpointTypes "gotype option list"
  | WithPlugins "'w Plugin option list"

definition defaultMaxSteps :: int where "defaultMaxSteps = 1024"
definition defaultMaxParallelism :: int where "defaultMaxParallelism = 1"

text \<open>One second is 1000000000 nanoseconds.\<close>

definition defaultCheckpointLeaseDuration :: duration where "defaultCheckpointLeaseDuration = 60 * 1000000000"
definition defaultCheckpointLeaseRenewEvery :: duration where "defaultCheckpointLeaseRenewEvery = 20 * 1000000000"

definition checkpoint_type :: "gotype option \<Rightarrow> ('s, 'w) Workflow \<Rightarrow> ('s, 'w) Workflow" where
  "checkpoint_type value flow =
     (case value of
        None \<Rightarrow> flow\<lparr>wf_checkpointTypeErr := Some (Msg ''workflow: checkpoint type is nil'')\<rparr>
      | Some t \<Rightarrow> flow\<lparr>wf_checkpointTypes := wf_checkpointTypes flow @ [t]\<rparr>)"

text \<open>\<open>WithStore\<close> says whether the store is nil; a workflow without the option gets a memory store.\<close>

fun applyBuildOption :: "'w BuildOption \<Rightarrow> ('s, 'w) Workflow \<Rightarrow> ('s, 'w) Workflow" where
  "applyBuildOption (WithBuildIDGenerator kind g) flow = flow\<lparr>wf_idGenerators := fmupd kind g (wf_idGenerators flow)\<rparr>"
| "applyBuildOption (WithMaxSteps n) flow = flow\<lparr>wf_maxSteps := n\<rparr>"
| "applyBuildOption (WithMaxParallelism n) flow = flow\<lparr>wf_maxParallelism := n\<rparr>"
| "applyBuildOption (WithCheckpointLease d r) flow = flow\<lparr>wf_leaseDuration := d, wf_leaseRenewEvery := r\<rparr>"
| "applyBuildOption (WithStore isNil) flow = flow\<lparr>wf_storeNil := isNil\<rparr>"
| "applyBuildOption (WithTopologyVersion v) flow = flow\<lparr>wf_topologyVersion := v, wf_topologySet := True\<rparr>"
| "applyBuildOption (WithCheckpointTypes values) flow = foldl (\<lambda>flow v. checkpoint_type v flow) flow values"
| "applyBuildOption (WithPlugins ps) flow = flow\<lparr>wf_plugins := wf_plugins flow @ ps\<rparr>"

definition New :: "gotype \<Rightarrow> gotype \<Rightarrow> string \<Rightarrow> 'w BuildOption option list \<Rightarrow> ('s, 'w) Builder" where
  "New inputType outputType name opts =
     \<lparr>bu_heap = fmempty, bu_next = 0,
      bu_workflow = foldl (\<lambda>flow opt. case opt of None \<Rightarrow> flow | Some f \<Rightarrow> applyBuildOption f flow)
        \<lparr>wf_name = name, wf_inputType = inputType, wf_outputType = outputType, wf_nodes = fmempty,
         wf_edges = fmempty, wf_predecessors = fmempty, wf_entry = [], wf_exits = {||}, wf_duplicateNodes = {||},
         wf_storeNil = False, wf_maxSteps = defaultMaxSteps, wf_maxParallelism = defaultMaxParallelism,
         wf_leaseDuration = defaultCheckpointLeaseDuration, wf_leaseRenewEvery = defaultCheckpointLeaseRenewEvery,
         wf_idGenerators = fmempty, wf_beforeWorkflow = [], wf_afterWorkflow = [], wf_plugins = [],
         wf_topologyVersion = [], wf_topologySet = False, wf_contextType = None, wf_contextInit = None,
         wf_contextSet = False, wf_contextTwice = False, wf_checkpointTypes = [], wf_checkpointTypeErr = None\<rparr> opts,
      bu_compiled = None\<rparr>"

section \<open>Building\<close>

text \<open>A change after the compilation panics; None is that panic.\<close>

definition on_workflow ::
  "(('s, 'w) Workflow \<Rightarrow> ('s, 'w) Workflow) \<Rightarrow> ('s, 'w) Builder \<Rightarrow> ('s, 'w) Builder option" where
  "on_workflow f b = (if bu_compiled b \<noteq> None then None else Some (b\<lparr>bu_workflow := f (bu_workflow b)\<rparr>))"

text \<open>A nil node is ignored.\<close>

definition on_node :: "nat option \<Rightarrow> ('s Node \<Rightarrow> 's Node) \<Rightarrow> ('s, 'w) Builder \<Rightarrow> ('s, 'w) Builder option" where
  "on_node p f b =
     (case Option.bind p (fmlookup (bu_heap b)) of
        None \<Rightarrow> Some b
      | Some n \<Rightarrow>
          if no_frozen n then None else Some (b\<lparr>bu_heap := fmupd (the p) (f n) (bu_heap b)\<rparr>))"

definition registerNode :: "string \<Rightarrow> nat \<Rightarrow> ('s, 'w) Workflow \<Rightarrow> ('s, 'w) Workflow" where
  "registerNode name p flow = flow
     \<lparr>wf_duplicateNodes := (if fmlookup (wf_nodes flow) name \<noteq> None
        then finsert name (wf_duplicateNodes flow) else wf_duplicateNodes flow),
      wf_nodes := fmupd name p (wf_nodes flow)\<rparr>"

definition new_node :: "'s Node \<Rightarrow> ('s, 'w) Builder \<Rightarrow> (nat \<times> ('s, 'w) Builder) option" where
  "new_node n b =
     (let p = bu_next b in
      map_option (\<lambda>b1. (p, b1))
        (on_workflow (registerNode (no_name n) p) (b\<lparr>bu_heap := fmupd p n (bu_heap b), bu_next := p + 1\<rparr>)))"

definition blank_node :: "string \<Rightarrow> gotype \<Rightarrow> gotype \<Rightarrow> 's invoker option \<Rightarrow> 's Node" where
  "blank_node name inputType outputType f =
     \<lparr>no_name = name, no_inputType = inputType, no_outputType = outputType, no_run = f, no_join = None,
      no_route = None, no_guards = [], no_before = [], no_after = [], no_joinTwice = False,
      no_routeTwice = False, no_frozen = False, no_merge = False, no_invokable = False\<rparr>"

definition Workflow_Node ::
  "string \<Rightarrow> gotype \<Rightarrow> gotype \<Rightarrow> 's invoker option \<Rightarrow> ('s, 'w) Builder \<Rightarrow> (nat \<times> ('s, 'w) Builder) option" where
  "Workflow_Node name inputType outputType f = new_node (blank_node name inputType outputType f)"

definition AddInvokable ::
  "string \<Rightarrow> gotype \<Rightarrow> gotype \<Rightarrow> 's invoker option \<Rightarrow> ('s, 'w) Builder \<Rightarrow> (nat \<times> ('s, 'w) Builder) option" where
  "AddInvokable name inputType outputType f =
     new_node ((blank_node name inputType outputType f)\<lparr>no_invokable := True\<rparr>)"

definition Merge ::
  "string \<Rightarrow> gotype \<Rightarrow> 's invoker option \<Rightarrow> ('s, 'w) Builder \<Rightarrow> (nat \<times> ('s, 'w) Builder) option" where
  "Merge name outputType f = new_node ((blank_node name type_Inputs outputType f)\<lparr>no_merge := True\<rparr>)"

definition Node_Join ::
  "nat option \<Rightarrow> (Inputs \<Rightarrow> govalue callback) option \<Rightarrow> ('s, 'w) Builder \<Rightarrow> ('s, 'w) Builder option" where
  "Node_Join p f = on_node p (\<lambda>n. n\<lparr>no_joinTwice := no_joinTwice n \<or> no_join n \<noteq> None, no_join := f\<rparr>)"

definition Node_Route ::
  "nat option \<Rightarrow> (govalue \<Rightarrow> Dispatch callback) option \<Rightarrow> ('s, 'w) Builder \<Rightarrow> ('s, 'w) Builder option" where
  "Node_Route p f = on_node p (\<lambda>n. n\<lparr>no_routeTwice := no_routeTwice n \<or> no_route n \<noteq> None, no_route := f\<rparr>)"

definition Node_Guard :: "nat option \<Rightarrow> 's GuardBinding list \<Rightarrow> ('s, 'w) Builder \<Rightarrow> ('s, 'w) Builder option" where
  "Node_Guard p bindings = on_node p (\<lambda>n. n\<lparr>no_guards := no_guards n @ bindings\<rparr>)"

definition Node_Before ::
  "nat option \<Rightarrow> (govalue \<times> govalue, 's) LifecycleHook list \<Rightarrow> ('s, 'w) Builder \<Rightarrow> ('s, 'w) Builder option" where
  "Node_Before p hooks = on_node p (\<lambda>n. n\<lparr>no_before := no_before n @ hooks\<rparr>)"

definition Node_After ::
  "nat option \<Rightarrow> (govalue \<times> govalue, 's) LifecycleHook list \<Rightarrow> ('s, 'w) Builder \<Rightarrow> ('s, 'w) Builder option" where
  "Node_After p hooks = on_node p (\<lambda>n. n\<lparr>no_after := no_after n @ hooks\<rparr>)"

definition BeforeWorkflow ::
  "(govalue \<times> govalue, 's) LifecycleHook list \<Rightarrow> ('s, 'w) Builder \<Rightarrow> ('s, 'w) Builder option" where
  "BeforeWorkflow hooks = on_workflow (\<lambda>flow. flow\<lparr>wf_beforeWorkflow := wf_beforeWorkflow flow @ hooks\<rparr>)"

definition AfterWorkflow ::
  "(govalue \<times> govalue, 's) LifecycleHook list \<Rightarrow> ('s, 'w) Builder \<Rightarrow> ('s, 'w) Builder option" where
  "AfterWorkflow hooks = on_workflow (\<lambda>flow. flow\<lparr>wf_afterWorkflow := wf_afterWorkflow flow @ hooks\<rparr>)"

text \<open>An initializer checks the dynamic type of the input it is given; a nil one leaves an earlier one.\<close>

definition context_initializer :: "gotype \<Rightarrow> (govalue \<Rightarrow> govalue callback) \<Rightarrow> govalue \<Rightarrow> govalue callback" where
  "context_initializer inputType init input =
     (if \<not> has_type input inputType then Fails (Msg ''workflow: context input type does not match'') else init input)"

definition define_context ::
  "gotype \<Rightarrow> (govalue \<Rightarrow> govalue callback) option \<Rightarrow> ('s, 'w) Builder \<Rightarrow> ('s, 'w) Builder option" where
  "define_context contextType init = on_workflow (\<lambda>flow. flow
     \<lparr>wf_contextTwice := wf_contextTwice flow \<or> wf_contextSet flow, wf_contextType := Some contextType, wf_contextSet := True,
      wf_contextInit := (case init of None \<Rightarrow> wf_contextInit flow
        | Some f \<Rightarrow> Some (context_initializer (wf_inputType flow) f))\<rparr>)"

text \<open>
  Endpoints are addressed by the name of the node. A nil node is a non-nil endpoint whose name is
  empty, so it is not ignored here; the compilation then finds the empty name.
\<close>

definition endpointName :: "nat option \<Rightarrow> ('s, 'w) Builder \<Rightarrow> string" where
  "endpointName p b = (case Option.bind p (fmlookup (bu_heap b)) of None \<Rightarrow> [] | Some n \<Rightarrow> no_name n)"

definition setEntry :: "nat option \<Rightarrow> ('s, 'w) Builder \<Rightarrow> ('s, 'w) Builder option" where
  "setEntry p b = on_workflow (\<lambda>flow. flow\<lparr>wf_entry := endpointName p b\<rparr>) b"

definition add_edge :: "string \<Rightarrow> string \<Rightarrow> edge_map \<Rightarrow> edge_map" where
  "add_edge source target edges = fmupd source (append_once (targets edges source) target) edges"

definition connect :: "nat option \<Rightarrow> nat option \<Rightarrow> ('s, 'w) Builder \<Rightarrow> ('s, 'w) Builder option" where
  "connect p q b = on_workflow (\<lambda>flow. flow
     \<lparr>wf_edges := add_edge (endpointName p b) (endpointName q b) (wf_edges flow),
      wf_predecessors := add_edge (endpointName q b) (endpointName p b) (wf_predecessors flow)\<rparr>) b"

definition addExit :: "nat option \<Rightarrow> ('s, 'w) Builder \<Rightarrow> ('s, 'w) Builder option" where
  "addExit p b = on_workflow (\<lambda>flow. flow\<lparr>wf_exits := finsert (endpointName p b) (wf_exits flow)\<rparr>) b"

section \<open>Validation\<close>

definition check :: "bool \<Rightarrow> string \<Rightarrow> goerr option" where
  "check bad text = (if bad then Some (Msg text) else None)"

definition node_at :: "('s, 'w) Builder \<Rightarrow> string \<Rightarrow> 's Node option" where
  "node_at b name = Option.bind (fmlookup (wf_nodes (bu_workflow b)) name) (fmlookup (bu_heap b))"

definition validateNode :: "('s, 'w) Builder \<Rightarrow> string \<Rightarrow> goerr option" where
  "validateNode b name =
     (let flow = bu_workflow b; n = the (node_at b name); ps = targets (wf_predecessors flow) name in
      first_some
        [validateBindings (node_body n), validateGuards (node_body n), validateLifecycle (node_body n),
         check (no_merge n \<and> name = wf_entry flow) ''workflow: merge node cannot be entry'',
         check (no_merge n \<and> ps = []) ''workflow: merge node requires at least one input edge'',
         check (length ps > 1 \<and> no_join n = None \<and> \<not> no_merge n) ''workflow: multi-input node requires join or merge''])"

definition validateExit :: "('s, 'w) Builder \<Rightarrow> string \<Rightarrow> goerr option" where
  "validateExit b exit =
     (case node_at b exit of
        None \<Rightarrow> Some (Msg ''workflow: exit node is missing'')
      | Some n \<Rightarrow> check (\<not> assignable_to (no_outputType n) (wf_outputType (bu_workflow b)))
          ''workflow: exit node output is not assignable to workflow output'')"

definition edge_fits :: "'s Node \<Rightarrow> 's Node \<Rightarrow> bool" where
  "edge_fits source target \<longleftrightarrow> no_join target \<noteq> None \<or> no_inputType target = type_Inputs \<or> no_route source \<noteq> None \<or>
     assignable_to (no_outputType source) (no_inputType target)"

definition validateEdge :: "('s, 'w) Builder \<Rightarrow> 's Node \<Rightarrow> string \<Rightarrow> goerr option" where
  "validateEdge b sourceNode target =
     (case node_at b target of
        None \<Rightarrow> Some (Msg ''workflow: target node is missing'')
      | Some n \<Rightarrow> check (\<not> edge_fits sourceNode n) ''workflow: edge output is not assignable to input'')"

definition validateEdges :: "('s, 'w) Builder \<Rightarrow> string \<Rightarrow> goerr option" where
  "validateEdges b source =
     (case node_at b source of
        None \<Rightarrow> Some (Msg ''workflow: source node is missing'')
      | Some n \<Rightarrow> first_some (map (validateEdge b n) (targets (wf_edges (bu_workflow b)) source)))"

definition validate_generator :: "string \<times> ('w \<Rightarrow> (goerr + string) \<times> 'w) option \<Rightarrow> goerr option" where
  "validate_generator kg =
     first_some [check (fst kg = []) ''workflow: id kind is empty'', check (snd kg = None) ''workflow: id generator is nil'']"

text \<open>
  The checks of \<open>compile\<close> before it touches anything, in the order of the code; the first error
  is reported. The maps are ranged over in the order \<open>ord\<close>.
\<close>

definition compile_checks :: "string order \<Rightarrow> ('s, 'w) Builder \<Rightarrow> goerr option" where
  "compile_checks ord b =
     (let flow = bu_workflow b in
      first_some (
        [check (wf_name flow = []) ''workflow: name is required'',
         check (wf_maxSteps flow \<le> 0) ''workflow: max steps must be positive'',
         check (wf_maxParallelism flow \<le> 0) ''workflow: max parallelism must be positive'',
         check (wf_leaseDuration flow \<le> 0) ''workflow: checkpoint lease must be positive'',
         check (wf_leaseRenewEvery flow \<le> 0 \<or> wf_leaseRenewEvery flow \<ge> wf_leaseDuration flow)
           ''workflow: checkpoint lease renewal must be positive and less than lease''] @
        map (\<lambda>k. validate_generator (k, the (fmlookup (wf_idGenerators flow) k))) (range_keys ord (wf_idGenerators flow)) @
        [check (wf_storeNil flow) ''workflow: store is nil'',
         check (wf_topologySet flow \<and> wf_topologyVersion flow = []) ''workflow: topology version is empty'',
         check (wf_contextTwice flow) ''workflow: context is defined more than once'',
         check (wf_contextSet flow \<and> wf_contextInit flow = None) ''workflow: context initializer is nil'',
         wf_checkpointTypeErr flow,
         check (wf_duplicateNodes flow \<noteq> {||}) ''workflow: duplicate node'',
         validateLifecycleHooks (wf_beforeWorkflow flow),
         validateLifecycleHooks (wf_afterWorkflow flow),
         check (wf_entry flow = []) ''workflow: entry is required'',
         check (wf_exits flow = {||}) ''workflow: exit is required'',
         check (fmlookup (wf_nodes flow) (wf_entry flow) = None) ''workflow: entry node is missing''] @
        map (validateNode b) (range_keys ord (wf_nodes flow)) @
        map (validateExit b) (ord (sorted_list_of_fset (wf_exits flow))) @
        [check (\<not> assignable_to (wf_inputType flow) (no_inputType (the (node_at b (wf_entry flow)))))
           ''workflow: input is not assignable to entry input''] @
        map (validateEdges b) (range_keys ord (wf_edges flow))))"

section \<open>The identity of a topology\<close>

text \<open>
  The version of a plan is a hash of the facts that make it up. A fact is a list of strings and
  numbers; \<open>writeTopologyFact\<close> writes each as its type and text up to a NUL, then a line feed.
\<close>

datatype topology_value = TString string | TInt int

fun value_text :: "topology_value \<Rightarrow> string" where
  "value_text (TString s) = ''string:'' @ s @ [CHR 0x00]"
| "value_text (TInt i) = ''int:'' @ int_string i @ [CHR 0x00]"

definition writeTopologyFact :: "topology_value list \<Rightarrow> string" where
  "writeTopologyFact values = concat (map value_text values) @ [CHR 0x0A]"

definition typeIdentity :: "rtype option \<Rightarrow> string" where
  "typeIdentity t = (case t of None \<Rightarrow> ''<nil>'' | Some r \<Rightarrow> type_pkgPath r @ '':'' @ type_string r)"

fun bool_text :: "bool \<Rightarrow> string" where
  "bool_text True = ''true''"
| "bool_text False = ''false''"

definition topologyFacts :: "(gotype \<Rightarrow> rtype) \<Rightarrow> 's Node \<Rightarrow> string list" where
  "topologyFacts rtype_of n =
     [typeIdentity (Some (rtype_of (no_inputType n))), typeIdentity (Some (rtype_of (no_outputType n))),
      bool_text (no_run n \<noteq> None), bool_text (no_join n \<noteq> None), bool_text (no_route n \<noteq> None),
      bool_text (no_merge n), bool_text (no_invokable n)] @
     map (\<lambda>g. ''guard:'' @ phase_string (gb_phase g) @ '':'' @ gb_name g) (no_guards n) @
     map (\<lambda>h. ''before:'' @ lh_Name h) (no_before n) @
     map (\<lambda>h. ''after:'' @ lh_Name h) (no_after n)"

abbreviation fact :: "string \<Rightarrow> string list \<Rightarrow> topology_value list" where
  "fact tag values \<equiv> TString tag # map TString values"

definition plugin_facts :: "'w Plugin option list \<Rightarrow> 'w Registry \<Rightarrow> topology_value list list" where
  "plugin_facts configured plugins =
     map (\<lambda>p. fact ''plugin'' [pg_Name (the p)]) configured @
     map (\<lambda>m. fact ''node-middleware'' [em_name m]) (rg_nodeMiddlewares plugins) @
     map (\<lambda>m. fact ''route-middleware'' [rm_name m]) (rg_routeMiddlewares plugins) @
     map (\<lambda>m. fact ''join-middleware'' [jm_name m]) (rg_joinMiddlewares plugins) @
     map (\<lambda>t. fact ''event-type'' [t]) (sorted_keys (rg_eventTypes plugins)) @
     map (\<lambda>n. fact ''registry'' [n]) (rg_topologyNames plugins)"

definition topology_facts :: "(gotype \<Rightarrow> rtype) \<Rightarrow> 'w Registry \<Rightarrow> ('s, 'w) Builder \<Rightarrow> topology_value list list" where
  "topology_facts rtype_of plugins b =
     (let flow = bu_workflow b in
      [[TString ''workflow'', TString (wf_name flow), TString (wf_topologyVersion flow), TString (wf_entry flow),
        TInt (wf_maxSteps flow), TInt (wf_maxParallelism flow)]] @
      (if wf_contextSet flow then [fact ''context'' [typeIdentity (map_option rtype_of (wf_contextType flow))]] else []) @
      concat (map (\<lambda>name. fact ''node'' [name] #
        map (\<lambda>x. fact ''node-fact'' [x]) (topologyFacts rtype_of (the (node_at b name)))) (sorted_keys (wf_nodes flow))) @
      concat (map (\<lambda>source. map (\<lambda>target. fact ''edge'' [source, target]) (sort (targets (wf_edges flow) source)))
        (sorted_keys (wf_edges flow))) @
      map (\<lambda>exit. fact ''exit'' [exit]) (sorted_list_of_fset (wf_exits flow)) @
      plugin_facts (wf_plugins flow) plugins @
      map (\<lambda>h. fact ''before-workflow'' [lh_Name h]) (wf_beforeWorkflow flow) @
      map (\<lambda>h. fact ''after-workflow'' [lh_Name h]) (wf_afterWorkflow flow))"

definition topology_text :: "(gotype \<Rightarrow> rtype) \<Rightarrow> 'w Registry \<Rightarrow> ('s, 'w) Builder \<Rightarrow> string" where
  "topology_text rtype_of plugins b = concat (map writeTopologyFact (topology_facts rtype_of plugins b))"

text \<open>\<open>sha256\<close> is the digest in hexadecimal.\<close>

definition compiledTopologyVersion ::
  "(string \<Rightarrow> string) \<Rightarrow> (gotype \<Rightarrow> rtype) \<Rightarrow> 'w Registry \<Rightarrow> ('s, 'w) Builder \<Rightarrow> string" where
  "compiledTopologyVersion sha256 rtype_of plugins b = ''sha256:'' @ sha256 (topology_text rtype_of plugins b)"

section \<open>Compiling\<close>

text \<open>What the compilation uses besides the builder: reflection, the digest, the orders of ranges.\<close>

record compile_env =
  ce_types :: type_table
  ce_rtype :: "gotype \<Rightarrow> rtype"
  ce_panics :: "rtype \<Rightarrow> bool"
  ce_sha256 :: "string \<Rightarrow> string"
  ce_ord :: "string order"
  ce_typeOrd :: "rtype order"

definition declared_types :: "compile_env \<Rightarrow> ('s, 'w) Builder \<Rightarrow> rtype list" where
  "declared_types env b =
     (let flow = bu_workflow b in
      map (ce_rtype env)
        ([wf_inputType flow, wf_outputType flow] @
         (case wf_contextType flow of None \<Rightarrow> [] | Some t \<Rightarrow> [t]) @
         concat (map (\<lambda>name. let n = the (node_at b name) in [no_inputType n, no_outputType n])
           (range_keys (ce_ord env) (wf_nodes flow)))))"

definition compiled_plan :: "compile_env \<Rightarrow> 'w Registry \<Rightarrow> ('s, 'w) Builder \<Rightarrow> compiled" where
  "compiled_plan env plugins b =
     (let flow = bu_workflow b in
      \<lparr>co_name = wf_name flow,
       co_nodes = fmmap (\<lambda>p. node_plan (the (fmlookup (bu_heap b) p))) (wf_nodes flow),
       co_edges = wf_edges flow, co_predecessors = wf_predecessors flow, co_entry = wf_entry flow,
       co_exits = wf_exits flow, co_maxSteps = wf_maxSteps flow, co_maxParallelism = wf_maxParallelism flow,
       co_routeMiddlewares = rg_routeMiddlewares plugins, co_joinMiddlewares = rg_joinMiddlewares plugins,
       co_topologyVersion = compiledTopologyVersion (ce_sha256 env) (ce_rtype env) plugins b,
       co_backEdges = findTopologyBackEdges (wf_entry flow) (wf_edges flow),
       co_contextType = wf_contextType flow, co_inputType = wf_inputType flow,
       co_outputType = wf_outputType flow\<rparr>)"

definition freeze_nodes :: "('s, 'w) Builder \<Rightarrow> ('s, 'w) Builder" where
  "freeze_nodes b = b\<lparr>bu_heap := fmmap_keys (\<lambda>p n.
     if p \<in> fmran' (wf_nodes (bu_workflow b)) then n\<lparr>no_frozen := True\<rparr> else n) (bu_heap b)\<rparr>"

definition compile ::
  "compile_env \<Rightarrow> type_registry \<Rightarrow> ('s, 'w) Builder
   \<Rightarrow> (goerr + compiled \<times> 'w Registry) \<times> type_registry \<times> ('s, 'w) Builder" where
  "compile env tr b =
     (case bu_compiled b of
        Some c \<Rightarrow> (Inr c, tr, b)
      | None \<Rightarrow>
     (case compile_checks (ce_ord env) b of
        Some e \<Rightarrow> (Inl e, tr, b)
      | None \<Rightarrow>
     (case workflowCheckpointTypes (ce_types env) (ce_typeOrd env) (declared_types env b)
            (map (ce_rtype env) (wf_checkpointTypes (bu_workflow b))) of
        Inl e \<Rightarrow> (Inl e, tr, b)
      | Inr types \<Rightarrow>
     (case registerWorkflowCheckpointTypes (ce_types env) (ce_panics env) types tr of
        (Some e, tr1) \<Rightarrow> (Inl e, tr1, b)
      | (None, tr1) \<Rightarrow>
     (case setupPlugins (wf_plugins (bu_workflow b)) of
        Inl e \<Rightarrow> (Inl e, tr1, b)
      | Inr plugins \<Rightarrow>
          (let c = (compiled_plan env plugins b, plugins) in
           (Inr c, tr1, (freeze_nodes b)\<lparr>bu_compiled := Some c\<rparr>)))))))"

end
