(* ===== verification/Compilation.thy ===== *)
theory Compilation
  imports Builder
begin

text \<open>
  What a compiled workflow guarantees: whatever program built it, its plan is well formed, and the
  plan is fixed by the compilation. The hash input of its version determines its shape.
\<close>

section \<open>Programs that build\<close>

inductive build_step :: "('s, 'w) Builder \<Rightarrow> ('s, 'w) Builder \<Rightarrow> bool" where
  bs_node: "Workflow_Node name i t f b = Some (p, b') \<Longrightarrow> build_step b b'"
| bs_invokable: "AddInvokable name i t f b = Some (p, b') \<Longrightarrow> build_step b b'"
| bs_merge: "Merge name t f b = Some (p, b') \<Longrightarrow> build_step b b'"
| bs_join: "Node_Join q j b = Some b' \<Longrightarrow> build_step b b'"
| bs_route: "Node_Route q r b = Some b' \<Longrightarrow> build_step b b'"
| bs_guard: "Node_Guard q gs b = Some b' \<Longrightarrow> build_step b b'"
| bs_before: "Node_Before q hs b = Some b' \<Longrightarrow> build_step b b'"
| bs_after: "Node_After q hs b = Some b' \<Longrightarrow> build_step b b'"
| bs_beforeWorkflow: "BeforeWorkflow hs b = Some b' \<Longrightarrow> build_step b b'"
| bs_afterWorkflow: "AfterWorkflow hs b = Some b' \<Longrightarrow> build_step b b'"
| bs_context: "define_context t init b = Some b' \<Longrightarrow> build_step b b'"
| bs_entry: "setEntry q b = Some b' \<Longrightarrow> build_step b b'"
| bs_connect: "connect q q' b = Some b' \<Longrightarrow> build_step b b'"
| bs_exit: "addExit q b = Some b' \<Longrightarrow> build_step b b'"

text \<open>Four shapes of change.\<close>

definition keeps_graph :: "(('s, 'w) Workflow \<Rightarrow> ('s, 'w) Workflow) \<Rightarrow> bool" where
  "keeps_graph g \<longleftrightarrow> (\<forall>flow. wf_nodes (g flow) = wf_nodes flow \<and> wf_duplicateNodes (g flow) = wf_duplicateNodes flow \<and>
     wf_edges (g flow) = wf_edges flow \<and> wf_predecessors (g flow) = wf_predecessors flow)"

definition keeps_identity :: "('s Node \<Rightarrow> 's Node) \<Rightarrow> bool" where
  "keeps_identity f \<longleftrightarrow> (\<forall>n. no_name (f n) = no_name n \<and> no_frozen (f n) = no_frozen n)"

lemma build_step_shape:
  assumes "build_step b b'"
  obtains (new) n p where "new_node n b = Some (p, b')" "\<not> no_frozen n"
  | (node) p f where "on_node p f b = Some b'" "keeps_identity f"
  | (flow) g where "on_workflow g b = Some b'" "keeps_graph g"
  | (edge) p q where "connect p q b = Some b'"
  using assms
proof cases
  case (bs_node name i t f p)
  then show ?thesis using new by (simp add: Workflow_Node_def blank_node_def)
next
  case (bs_invokable name i t f p)
  then show ?thesis using new by (simp add: AddInvokable_def blank_node_def)
next
  case (bs_merge name t f p)
  then show ?thesis using new by (simp add: Merge_def blank_node_def)
next
  case (bs_join q j)
  then show ?thesis using node by (simp add: Node_Join_def keeps_identity_def)
next
  case (bs_route q r)
  then show ?thesis using node by (simp add: Node_Route_def keeps_identity_def)
next
  case (bs_guard q gs)
  then show ?thesis using node by (simp add: Node_Guard_def keeps_identity_def)
next
  case (bs_before q hs)
  then show ?thesis using node by (simp add: Node_Before_def keeps_identity_def)
next
  case (bs_after q hs)
  then show ?thesis using node by (simp add: Node_After_def keeps_identity_def)
next
  case (bs_beforeWorkflow hs)
  then show ?thesis using flow by (simp add: BeforeWorkflow_def keeps_graph_def)
next
  case (bs_afterWorkflow hs)
  then show ?thesis using flow by (simp add: AfterWorkflow_def keeps_graph_def)
next
  case (bs_context t init)
  then show ?thesis using flow by (simp add: define_context_def keeps_graph_def)
next
  case (bs_entry q)
  then show ?thesis using flow by (simp add: setEntry_def keeps_graph_def)
next
  case (bs_connect q q')
  then show ?thesis using edge by simp
next
  case (bs_exit q)
  then show ?thesis using flow by (simp add: addExit_def keeps_graph_def)
qed

section \<open>The invariant of a builder\<close>

definition nodes_inv :: "('s, 'w) Builder \<Rightarrow> bool" where
  "nodes_inv b \<longleftrightarrow>
     (\<forall>name p. fmlookup (wf_nodes (bu_workflow b)) name = Some p \<longrightarrow>
        (\<exists>n. fmlookup (bu_heap b) p = Some n \<and> no_name n = name)) \<and>
     (\<forall>p n. fmlookup (bu_heap b) p = Some n \<longrightarrow> p < bu_next b \<and>
        (wf_duplicateNodes (bu_workflow b) = {||} \<longrightarrow> fmlookup (wf_nodes (bu_workflow b)) (no_name n) = Some p))"

definition edges_inv :: "('s, 'w) Workflow \<Rightarrow> bool" where
  "edges_inv flow \<longleftrightarrow>
     (\<forall>s t. t \<in> set (targets (wf_edges flow) s) \<longleftrightarrow> s \<in> set (targets (wf_predecessors flow) t)) \<and>
     (\<forall>t. distinct (targets (wf_predecessors flow) t)) \<and> (\<forall>s. distinct (targets (wf_edges flow) s))"

lemma targets_add_edge: "targets (add_edge s t edges) x = (if x = s then append_once (targets edges s) t else targets edges x)"
  by (simp add: add_edge_def targets_def)

lemma edges_inv_add:
  "edges_inv flow \<Longrightarrow> edges_inv (flow\<lparr>wf_edges := add_edge s t (wf_edges flow), wf_predecessors := add_edge t s (wf_predecessors flow)\<rparr>)"
  by (auto simp: edges_inv_def targets_add_edge)

lemma build_step_inv:
  assumes "build_step b b'" "nodes_inv b" "edges_inv (bu_workflow b)"
  shows "nodes_inv b' \<and> edges_inv (bu_workflow b')"
  using assms(1)
proof (cases rule: build_step_shape)
  case (new n p)
  then have p: "p = bu_next b" and b': "b' = b\<lparr>bu_heap := fmupd p n (bu_heap b), bu_next := p + 1,
      bu_workflow := registerNode (no_name n) p (bu_workflow b)\<rparr>"
    by (auto simp: new_node_def on_workflow_def Let_def split: if_splits)
  have "fmlookup (bu_heap b) p = None"
    using assms(2) p unfolding nodes_inv_def by (metis less_irrefl not_None_eq)
  then have "nodes_inv b'"
    using assms(2) unfolding b' nodes_inv_def registerNode_def p
    by (auto simp: less_Suc_eq split: if_splits)
  moreover have "edges_inv (bu_workflow b')"
    using assms(3) by (simp add: b' registerNode_def edges_inv_def)
  ultimately show ?thesis ..
next
  case (node p f)
  show ?thesis
  proof (cases "Option.bind p (fmlookup (bu_heap b))")
    case None
    with node assms(2,3) show ?thesis by (simp add: on_node_def)
  next
    case (Some n)
    with node(1) have b': "b' = b\<lparr>bu_heap := fmupd (the p) (f n) (bu_heap b)\<rparr>"
      by (simp add: on_node_def split: if_splits)
    have "fmlookup (bu_heap b) (the p) = Some n" using Some by (cases p) auto
    then have old: "fmlookup (bu_heap b) (the p) = Some n" .
    have same: "no_name (f n) = no_name n" using node(2) by (simp add: keeps_identity_def)
    have "nodes_inv b'"
      unfolding nodes_inv_def
    proof (intro conjI allI impI)
      fix name q assume "fmlookup (wf_nodes (bu_workflow b')) name = Some q"
      then obtain m where m: "fmlookup (bu_heap b) q = Some m" "no_name m = name"
        using assms(2) unfolding b' nodes_inv_def by auto
      then show "\<exists>n. fmlookup (bu_heap b') q = Some n \<and> no_name n = name"
        using old same by (cases "q = the p") (auto simp: b')
    next
      fix q m assume "fmlookup (bu_heap b') q = Some m"
      then obtain m' where m': "fmlookup (bu_heap b) q = Some m'" "no_name m' = no_name m"
        using old same by (cases "q = the p") (auto simp: b')
      show "q < bu_next b'" using assms(2) m' unfolding b' nodes_inv_def by auto
      assume "wf_duplicateNodes (bu_workflow b') = {||}"
      then have "fmlookup (wf_nodes (bu_workflow b)) (no_name m') = Some q"
        using assms(2) m'(1) unfolding b' nodes_inv_def by auto
      then show "fmlookup (wf_nodes (bu_workflow b')) (no_name m) = Some q" using m'(2) by (simp add: b')
    qed
    with assms(3) show ?thesis by (simp add: b')
  qed
next
  case (flow g)
  then show ?thesis
    using assms(2,3) by (auto simp: on_workflow_def nodes_inv_def edges_inv_def keeps_graph_def split: if_splits)
next
  case (edge p q)
  then show ?thesis
    using assms(2) edges_inv_add [OF assms(3)]
    by (auto simp: connect_def on_workflow_def nodes_inv_def split: if_splits)
qed

lemma keeps_graph_foldl:
  assumes "\<And>x. keeps_graph (g x)"
  shows "keeps_graph (\<lambda>flow. foldl (\<lambda>flow x. g x flow) flow xs)"
proof (induction xs)
  case Nil
  show ?case by (simp add: keeps_graph_def)
next
  case (Cons x xs)
  have "keeps_graph (\<lambda>flow. (\<lambda>flow. foldl (\<lambda>flow x. g x flow) flow xs) (g x flow))"
    using Cons.IH assms [of x] unfolding keeps_graph_def by metis
  then show ?case by simp
qed

lemma keeps_graph_option: "keeps_graph (applyBuildOption opt)"
proof (cases opt)
  case (WithCheckpointTypes vs)
  have "keeps_graph (checkpoint_type v)" for v :: "gotype option"
    by (cases v) (simp_all add: keeps_graph_def checkpoint_type_def)
  from keeps_graph_foldl [of checkpoint_type, OF this] show ?thesis
    unfolding WithCheckpointTypes keeps_graph_def by simp
qed (simp_all add: keeps_graph_def)

lemma keeps_graph_nil_option:
  "keeps_graph (\<lambda>flow. case opt of None \<Rightarrow> flow | Some f \<Rightarrow> applyBuildOption f flow)"
  using keeps_graph_option by (cases opt) (auto simp: keeps_graph_def)

lemma keeps_graphD:
  assumes "keeps_graph g"
  shows "wf_nodes (g flow) = wf_nodes flow" "wf_edges (g flow) = wf_edges flow"
    "wf_predecessors (g flow) = wf_predecessors flow"
  using assms by (simp_all add: keeps_graph_def)

lemmas New_keeps_graph = keeps_graph_foldl [OF keeps_graph_nil_option, THEN keeps_graphD(1)]
  keeps_graph_foldl [OF keeps_graph_nil_option, THEN keeps_graphD(2)]
  keeps_graph_foldl [OF keeps_graph_nil_option, THEN keeps_graphD(3)]

lemma built_inv:
  assumes "build_step\<^sup>*\<^sup>* (New i t name opts) b"
  shows "nodes_inv b \<and> edges_inv (bu_workflow b)"
  using assms
proof induction
  case base
  show ?case
    by (simp add: New_def nodes_inv_def edges_inv_def New_keeps_graph targets_def)
next
  case (step b b')
  then show ?case using build_step_inv by blast
qed

lemma built_open:
  assumes "build_step\<^sup>*\<^sup>* (New i t name opts) b"
  shows "bu_compiled b = None"
  using assms
proof induction
  case base
  show ?case by (simp add: New_def)
next
  case (step b b')
  from step(2) step.IH show ?case
    by (cases rule: build_step_shape)
      (auto simp: new_node_def on_node_def on_workflow_def connect_def Let_def split: option.splits if_splits)
qed

section \<open>What validation establishes\<close>

lemma first_some_None: "first_some xs = None \<longleftrightarrow> (\<forall>x \<in> set xs. x = None)"
  by (induction xs rule: first_some.induct) auto

lemma first_some_parts:
  "first_some [] = None"
  "first_some (x # xs) = None \<longleftrightarrow> x = None \<and> first_some xs = None"
  "first_some (xs @ ys) = None \<longleftrightarrow> first_some xs = None \<and> first_some ys = None"
  "first_some (map f zs) = None \<longleftrightarrow> (\<forall>z \<in> set zs. f z = None)"
  by (auto simp: first_some_None)

lemma check_None [simp]: "check bad text = None \<longleftrightarrow> \<not> bad"
  by (simp add: check_def)

lemma compile_success:
  assumes "compile env tr b = (Inr (c, plugins), tr', b')" "bu_compiled b = None"
  shows "compile_checks (ce_ord env) b = None" "setupPlugins (wf_plugins (bu_workflow b)) = Inr plugins"
    "c = compiled_plan env plugins b" "b' = (freeze_nodes b)\<lparr>bu_compiled := Some (c, plugins)\<rparr>"
  using assms by (auto simp: compile_def Let_def split: option.splits sum.splits prod.splits)

text \<open>A node of the plan is the heap's node of that name.\<close>

lemma plan_node:
  assumes "nodes_inv b"
  shows "fmlookup (co_nodes (compiled_plan env plugins b)) name = map_option node_plan (node_at b name)"
    and "node_at b name = Some n \<Longrightarrow> no_name n = name"
    and "node_at b name = None \<longleftrightarrow> fmlookup (wf_nodes (bu_workflow b)) name = None"
proof -
  have heap: "\<exists>n. fmlookup (bu_heap b) p = Some n \<and> no_name n = name" if "fmlookup (wf_nodes (bu_workflow b)) name = Some p" for p
    using assms that unfolding nodes_inv_def by blast
  show "fmlookup (co_nodes (compiled_plan env plugins b)) name = map_option node_plan (node_at b name)"
    by (cases "fmlookup (wf_nodes (bu_workflow b)) name") (use heap in \<open>auto simp: compiled_plan_def node_at_def Let_def\<close>)
  show "node_at b name = Some n \<Longrightarrow> no_name n = name"
    by (cases "fmlookup (wf_nodes (bu_workflow b)) name") (use heap in \<open>auto simp: node_at_def\<close>)
  show "node_at b name = None \<longleftrightarrow> fmlookup (wf_nodes (bu_workflow b)) name = None"
    by (cases "fmlookup (wf_nodes (bu_workflow b)) name") (use heap in \<open>auto simp: node_at_def\<close>)
qed

text \<open>An edge of a plan fits: a join or an input set takes any value, a route chooses for itself.\<close>

definition plan_edge_fits :: "node \<Rightarrow> node \<Rightarrow> bool" where
  "plan_edge_fits source target \<longleftrightarrow> hasJoin target \<or> nd_inputType target = type_Inputs \<or> hasRoute source \<or>
     assignable_to (nd_outputType source) (nd_inputType target)"

definition plan_node_ok :: "compiled \<Rightarrow> string \<Rightarrow> node \<Rightarrow> bool" where
  "plan_node_ok c name n \<longleftrightarrow> nd_name n = name \<and>
     (hasMerge n \<longrightarrow> name \<noteq> co_entry c \<and> targets (co_predecessors c) name \<noteq> []) \<and>
     (length (targets (co_predecessors c) name) > 1 \<longrightarrow> isJoinTarget c name)"

definition well_formed_plan :: "compiled \<Rightarrow> bool" where
  "well_formed_plan c \<longleftrightarrow> co_name c \<noteq> [] \<and> 0 < co_maxSteps c \<and> 0 < co_maxParallelism c \<and>
     (\<forall>name n. fmlookup (co_nodes c) name = Some n \<longrightarrow> plan_node_ok c name n) \<and>
     (\<exists>n. fmlookup (co_nodes c) (co_entry c) = Some n \<and> assignable_to (co_inputType c) (nd_inputType n)) \<and>
     co_exits c \<noteq> {||} \<and>
     (\<forall>x. x |\<in>| co_exits c \<longrightarrow> (\<exists>n. fmlookup (co_nodes c) x = Some n \<and> assignable_to (nd_outputType n) (co_outputType c))) \<and>
     (\<forall>s t. t \<in> set (targets (co_edges c) s) \<longrightarrow>
        (\<exists>m n. fmlookup (co_nodes c) s = Some m \<and> fmlookup (co_nodes c) t = Some n \<and> plan_edge_fits m n)) \<and>
     (\<forall>s t. t \<in> set (targets (co_edges c) s) \<longleftrightarrow> s \<in> set (targets (co_predecessors c) t))"

lemma checked_edges:
  assumes "compile_checks ord b = None" "range_order ord" "t \<in> set (targets (wf_edges (bu_workflow b)) s)"
  shows "\<exists>m n. node_at b s = Some m \<and> node_at b t = Some n \<and> edge_fits m n"
proof -
  have "s \<in> fmdom' (wf_edges (bu_workflow b))"
    using assms(3) by (cases "fmlookup (wf_edges (bu_workflow b)) s") (auto simp: targets_def fmdom'I)
  with assms(1,2) have "validateEdges b s = None"
    unfolding compile_checks_def Let_def first_some_parts by simp
  with assms(3) show ?thesis
    by (auto simp: validateEdges_def validateEdge_def first_some_None split: option.splits)
qed

lemma checked_nodes:
  assumes "compile_checks ord b = None" "range_order ord" "fmlookup (wf_nodes (bu_workflow b)) name \<noteq> None"
  shows "validateNode b name = None"
  using assms unfolding compile_checks_def Let_def first_some_parts by (auto simp: fmdom'I)

lemma checked_exits:
  assumes "compile_checks ord b = None" "range_order ord" "x |\<in>| wf_exits (bu_workflow b)"
  shows "validateExit b x = None"
proof -
  have "set (ord (sorted_list_of_fset (wf_exits (bu_workflow b)))) = fset (wf_exits (bu_workflow b))"
    using assms(2) by (metis mset_eq_setD range_order_def sorted_list_of_fset_simps(1))
  with assms show ?thesis unfolding compile_checks_def Let_def first_some_parts by auto
qed

lemma plan_well_formed:
  assumes "build_step\<^sup>*\<^sup>* (New i t name opts) b" "range_order (ce_ord env)"
    and "compile env tr b = (Inr (c, plugins), tr', b')"
  shows "well_formed_plan c"
proof -
  note inv = built_inv [OF assms(1)]
  note ok = compile_success [OF assms(3) built_open [OF assms(1)]]
  let ?w = "bu_workflow b"
  note nodes = plan_node(1) [where env = env and plugins = plugins and b = b, folded ok(3)] plan_node(2,3) [where b = b]
  have plan: "co_name c = wf_name ?w" "co_maxSteps c = wf_maxSteps ?w" "co_maxParallelism c = wf_maxParallelism ?w"
    "co_edges c = wf_edges ?w" "co_predecessors c = wf_predecessors ?w" "co_entry c = wf_entry ?w"
    "co_exits c = wf_exits ?w" "co_inputType c = wf_inputType ?w" "co_outputType c = wf_outputType ?w"
    by (simp_all add: ok(3) compiled_plan_def Let_def)
  have checks: "wf_name ?w \<noteq> []" "0 < wf_maxSteps ?w" "0 < wf_maxParallelism ?w" "wf_exits ?w \<noteq> {||}"
    "fmlookup (wf_nodes ?w) (wf_entry ?w) \<noteq> None"
    "assignable_to (wf_inputType ?w) (no_inputType (the (node_at b (wf_entry ?w))))"
    using ok(1) unfolding compile_checks_def Let_def first_some_parts by auto
  have node: "plan_node_ok c name n" if "fmlookup (co_nodes c) name = Some n" for name n
  proof -
    from that inv obtain m where m: "node_at b name = Some m" "n = node_plan m" by (auto simp: nodes)
    with inv checked_nodes [OF ok(1) assms(2), of name] have "validateNode b name = None" by (metis nodes(3) option.distinct(1))
    with m inv that show ?thesis
      by (auto simp: plan_node_ok_def validateNode_def Let_def first_some_None plan nodes(2) node_plan_def isJoinTarget_def
          hasJoin_def hasMerge_def)
  qed
  have exit: "\<exists>n. fmlookup (co_nodes c) x = Some n \<and> assignable_to (nd_outputType n) (co_outputType c)"
    if "x |\<in>| co_exits c" for x
    using checked_exits [OF ok(1) assms(2), of x] that inv
    by (auto simp: validateExit_def nodes plan node_plan_def split: option.splits)
  have edge: "\<exists>m n. fmlookup (co_nodes c) s = Some m \<and> fmlookup (co_nodes c) t = Some n \<and> plan_edge_fits m n"
    if "t \<in> set (targets (co_edges c) s)" for s t
    using checked_edges [OF ok(1) assms(2), of t s] that inv
    by (auto simp: nodes plan edge_fits_def plan_edge_fits_def node_plan_def hasJoin_def hasRoute_def)
  obtain e where "node_at b (wf_entry ?w) = Some e"
    using checks(5) inv nodes(3) [of "wf_entry ?w"] by (cases "node_at b (wf_entry ?w)") auto
  then have "\<exists>n. fmlookup (co_nodes c) (co_entry c) = Some n \<and> assignable_to (co_inputType c) (nd_inputType n)"
    using checks(6) inv by (simp add: nodes plan node_plan_def)
  with checks node exit edge inv show ?thesis
    unfolding well_formed_plan_def by (auto simp: plan edges_inv_def)
qed

text \<open>
  C29 (compiled plans are well formed). Whatever program built a workflow, a plan that compilation returns has a
  name and positive limits; its entry and its exits are nodes whose types fit those of the workflow; every edge joins
  two nodes of the plan and its output fits the input; the predecessors are exactly the converse
  of the edges; every node is stored under its own name, a node of several inputs joins or merges them, and a merge
  node is not the entry and has an input.
\<close>

theorem compile_well_formed:
  assumes "build_step\<^sup>*\<^sup>* (New i t name opts) b" "range_order (ce_ord env)"
    and "compile env tr b = (Inr (c, plugins), tr', b')"
  shows "well_formed_plan c"
  by (rule plan_well_formed [OF assms])

text \<open>A small program: two nodes, an edge, an entry, an exit; the type of the second node's input is left open.\<close>

definition int_type :: gotype where "int_type = TConcrete ''int'' []"

definition sample_env :: compile_env where
  "sample_env =
     \<lparr>ce_types = fmempty, ce_rtype = (\<lambda>t. RNamed [] ''int''), ce_panics = (\<lambda>t. False), ce_sha256 = (\<lambda>s. ''digest''),
      ce_ord = (\<lambda>ks. ks), ce_typeOrd = (\<lambda>ks. ks)\<rparr>"

definition sample_body :: "unit invoker option" where
  "sample_body = Some (\<lambda>v s. (Return v, s))"

definition empty_registry :: type_registry where
  "empty_registry = \<lparr>tr_byName = fmempty, tr_byBase = fmempty\<rparr>"

definition sample_program :: "gotype \<Rightarrow> (unit, unit) Builder option" where
  "sample_program target =
     Option.bind (Workflow_Node ''a'' int_type int_type sample_body (New int_type int_type ''w'' [])) (\<lambda>(p, b1).
     Option.bind (Workflow_Node ''b'' target int_type sample_body b1) (\<lambda>(q, b2).
     Option.bind (connect (Some p) (Some q) b2) (\<lambda>b3.
     Option.bind (setEntry (Some p) b3) (addExit (Some q)))))"

lemma sample_program_builds:
  assumes "sample_program target = Some b"
  shows "build_step\<^sup>*\<^sup>* (New int_type int_type ''w'' []) b"
proof -
  obtain p b1 q b2 b3 b4 where steps:
    "Workflow_Node ''a'' int_type int_type sample_body (New int_type int_type ''w'' []) = Some (p, b1)"
    "Workflow_Node ''b'' target int_type sample_body b1 = Some (q, b2)" "connect (Some p) (Some q) b2 = Some b3"
    "setEntry (Some p) b3 = Some b4" "addExit (Some q) b4 = Some b"
    using assms by (auto simp: sample_program_def bind_eq_Some_conv)
  have "build_step\<^sup>*\<^sup>* b4 b" by (rule r_into_rtranclp, rule bs_exit, rule steps(5))
  then have "build_step\<^sup>*\<^sup>* b3 b" by (rule converse_rtranclp_into_rtranclp [of build_step, OF bs_entry [OF steps(4)]])
  then have "build_step\<^sup>*\<^sup>* b2 b" by (rule converse_rtranclp_into_rtranclp [of build_step, OF bs_connect [OF steps(3)]])
  then have "build_step\<^sup>*\<^sup>* b1 b" by (rule converse_rtranclp_into_rtranclp [of build_step, OF bs_node [OF steps(2)]])
  then show ?thesis by (rule converse_rtranclp_into_rtranclp [of build_step, OF bs_node [OF steps(1)]])
qed

lemmas building_defs = sample_program_def Workflow_Node_def new_node_def blank_node_def New_def on_workflow_def
  registerNode_def connect_def setEntry_def addExit_def endpointName_def add_edge_def targets_def append_once_def Let_def

lemma sample_program_returns: "\<exists>b. sample_program target = Some b"
  by (simp add: building_defs)

lemmas checking_defs = compile_checks_def first_some_parts range_keys_def sample_env_def sample_body_def
  validateNode_def validateExit_def validateEdges_def validateEdge_def node_at_def edge_fits_def node_body_def
  validateBindings_def validateGuards_def validateLifecycle_def validateLifecycleHooks_def
  defaultMaxSteps_def defaultMaxParallelism_def defaultCheckpointLeaseDuration_def defaultCheckpointLeaseRenewEvery_def

lemma remdups_replicate: "0 < n \<Longrightarrow> remdups (replicate n x) = [x]"
  by (induction n) auto

lemma sample_program_compiles:
  assumes "sample_program target = Some b" "target \<in> {int_type, type_Inputs}"
  shows "\<exists>c plugins tr b'. compile sample_env empty_registry b = (Inr (c, plugins), tr, b')"
proof -
  have b: "b = the (sample_program target)" by (simp add: assms)
  have 1: "compile_checks (ce_ord sample_env) b = None"
    unfolding b using assms(2) by (auto simp: building_defs checking_defs)
  have 2: "bu_compiled b = None" "wf_plugins (bu_workflow b) = []" "wf_checkpointTypes (bu_workflow b) = []"
    unfolding b by (simp_all add: building_defs)
  have "declared_types sample_env b \<noteq> []" "\<forall>t \<in> set (declared_types sample_env b). t = RNamed [] ''int''"
    by (auto simp: declared_types_def Let_def sample_env_def)
  then obtain n where 3: "declared_types sample_env b = replicate n (RNamed [] ''int'')" "0 < n"
    by (metis replicate_length_same length_greater_0_conv)
  have 4: "workflowCheckpointTypes fmempty (\<lambda>ks. ks) (replicate n (RNamed [] ''int'')) [] = Inr [RNamed [] ''int'']"
    using 3(2) by (simp add: workflowCheckpointTypes_def remdups_replicate)
  have 5: "registerWorkflowCheckpointTypes fmempty (\<lambda>t. False) [RNamed [] ''int''] empty_registry =
      (None, \<lparr>tr_byName = fmupd ''int'' (RNamed [] ''int'') fmempty,
         tr_byBase = fmupd (RNamed [] ''int'') (RNamed [] ''int'', ''int'') fmempty\<rparr>)"
    by (simp add: registerWorkflowCheckpointTypes_def checkpointBaseType_def base_type.simps checkpointGobName_def
        recordCheckpointType_def path_base_def Let_def empty_registry_def)
  have env: "ce_types sample_env = fmempty" "ce_typeOrd sample_env = (\<lambda>ks. ks)" "ce_panics sample_env = (\<lambda>t. False)"
    by (simp_all add: sample_env_def)
  show ?thesis
    by (simp add: compile_def 1 2 3 4 5 env Let_def setupPlugins_def)
qed

section \<open>A compiled workflow is final\<close>

text \<open>
  C30 (compilation is final). Once a workflow that a program has built is compiled, every later builder call either
  panics or leaves everything as it was, and compiling again returns the same plan and registry.
\<close>

theorem compiled_is_final:
  assumes "build_step\<^sup>*\<^sup>* (New i t name opts) b" "compile env tr b = (Inr r, tr', b')"
  shows "(\<forall>b''. build_step b' b'' \<longrightarrow> b'' = b') \<and> compile env2 tr2 b' = (Inr r, tr2, b')"
proof -
  note inv = built_inv [OF assms(1)]
  obtain c plugins where r: "r = (c, plugins)" by (metis surj_pair)
  note ok = compile_success [OF assms(2) [unfolded r] built_open [OF assms(1)]]
  have no_dup: "wf_duplicateNodes (bu_workflow b) = {||}"
    using ok(1) unfolding compile_checks_def Let_def first_some_parts by auto
  have frozen: "no_frozen n" if "fmlookup (bu_heap b') p = Some n" for p n
  proof -
    from that obtain m where "fmlookup (bu_heap b) p = Some m"
      "n = (if p \<in> fmran' (wf_nodes (bu_workflow b)) then m\<lparr>no_frozen := True\<rparr> else m)"
      by (auto simp: ok(4) freeze_nodes_def)
    moreover from this(1) inv no_dup have "fmlookup (wf_nodes (bu_workflow b)) (no_name m) = Some p"
      by (auto simp: nodes_inv_def)
    then have "p \<in> fmran' (wf_nodes (bu_workflow b))" by (rule fmran'I)
    ultimately show ?thesis by simp
  qed
  have fixed: "bu_compiled b' = Some r" by (simp add: ok(4) r)
  have "b'' = b'" if "build_step b' b''" for b''
    using that
  proof (cases rule: build_step_shape)
    case (node p f)
    then show ?thesis
      using frozen by (cases p) (auto simp: on_node_def split: option.splits if_splits)
  qed (use fixed in \<open>simp_all add: new_node_def on_workflow_def connect_def Let_def\<close>)
  with fixed show ?thesis by (simp add: compile_def)
qed

section \<open>Default deliveries\<close>

text \<open>A value that implements an interface implements whatever that interface implements.\<close>

definition method_sets :: "gotype \<Rightarrow> gotype \<Rightarrow> bool" where
  "method_sets d t \<longleftrightarrow> (assignable_to d t \<and> is_interface t \<longrightarrow> set (timplements t) \<subseteq> set (timplements d))"

lemma assignable_trans: "method_sets d t \<Longrightarrow> assignable_to d t \<Longrightarrow> assignable_to t u \<Longrightarrow> assignable_to d u"
  by (auto simp: method_sets_def assignable_to_def)

text \<open>The delivery of a value from an activation along an edge that no route chose.\<close>

definition default_delivery :: "compiled \<Rightarrow> activation \<Rightarrow> govalue \<Rightarrow> deliveryRequest \<Rightarrow> bool" where
  "default_delivery c a v req \<longleftrightarrow> dr_source req = a \<and> dr_output req = v \<and> dr_edges req = targets (co_edges c) (ac_node a) \<and>
     dr_item req \<in> set (dp_deliveries (with_default_deliveries c a zero_Dispatch))"

lemma default_delivery_item:
  assumes "default_delivery c a v req"
  shows "dl_target (dr_item req) \<in> set (targets (co_edges c) (ac_node a))" "dr_edges req = targets (co_edges c) (ac_node a)"
    "dl_iter (dr_item req) = None" "dl_useSourceOutput (dr_item req)" "dr_output req = v" "dr_source req = a"
  using assms by (auto simp: default_delivery_def with_default_deliveries_def zero_Dispatch_def zero_delivery_def)


lemma plan_of_sample:
  assumes "sample_program target = Some b" "compile sample_env empty_registry b = (Inr (c, plugins), tr, b')"
  shows "fmlookup (co_nodes c) ''a'' = Some \<lparr>nd_name = ''a'', nd_inputType = int_type, nd_outputType = int_type,
      nd_join = None, nd_route = None, nd_merge = False\<rparr>"
    and "fmlookup (co_nodes c) ''b'' = Some \<lparr>nd_name = ''b'', nd_inputType = target, nd_outputType = int_type,
      nd_join = None, nd_route = None, nd_merge = False\<rparr>"
    and "targets (co_edges c) ''a'' = [''b'']"
proof -
  have b: "b = the (sample_program target)" by (simp add: assms(1))
  have "c = compiled_plan sample_env plugins b"
    by (rule compile_success(3) [OF assms(2) built_open [OF sample_program_builds [OF assms(1)]]])
  then show "fmlookup (co_nodes c) ''a'' = Some \<lparr>nd_name = ''a'', nd_inputType = int_type, nd_outputType = int_type,
      nd_join = None, nd_route = None, nd_merge = False\<rparr>"
    and "fmlookup (co_nodes c) ''b'' = Some \<lparr>nd_name = ''b'', nd_inputType = target, nd_outputType = int_type,
      nd_join = None, nd_route = None, nd_merge = False\<rparr>"
    and "targets (co_edges c) ''a'' = [''b'']"
    unfolding b by (simp_all add: compiled_plan_def node_plan_def building_defs)
qed

definition entry_of_sample :: activation where
  "entry_of_sample =
     \<lparr>ac_id = ''act-1'', ac_node = ''a'', ac_input = VData int_type ''1'', ac_sourceSet = [], ac_branchIndex = 0,
      ac_correlation = CorrelationKey ''run-1'' 1\<rparr>"

definition sample_delivery :: "govalue \<Rightarrow> deliveryRequest" where
  "sample_delivery v =
     \<lparr>dr_source = entry_of_sample, dr_output = v, dr_edges = [''b''],
      dr_item = zero_delivery\<lparr>dl_target := ''b'', dl_useSourceOutput := True\<rparr>,
      dr_sourceSet = ''set-1'', dr_branchIndex = 0, dr_deliveryIndex = 0\<rparr>"

lemma sample_delivery_is_default:
  assumes "sample_program target = Some b" "compile sample_env empty_registry b = (Inr (c, plugins), tr, b')"
  shows "default_delivery c entry_of_sample v (sample_delivery v)"
  by (simp add: default_delivery_def sample_delivery_def entry_of_sample_def with_default_deliveries_def
      plan_of_sample(3) [OF assms] zero_Dispatch_def)

theorem compile_well_formed_witness:
  "\<exists>b c plugins tr b'. sample_program int_type = Some b \<and>
     compile sample_env empty_registry b = (Inr (c, plugins), tr, b') \<and> well_formed_plan c"
proof -
  obtain b where b: "sample_program int_type = Some b" using sample_program_returns by blast
  obtain c plugins tr b' where c: "compile sample_env empty_registry b = (Inr (c, plugins), tr, b')"
    using sample_program_compiles [OF b] by auto
  have "range_order (ce_ord sample_env)" by (simp add: sample_env_def)
  from b c compile_well_formed [OF sample_program_builds [OF b] this c] show ?thesis by blast
qed

theorem compiled_is_final_witness:
  "\<exists>b r tr b'. sample_program int_type = Some b \<and> compile sample_env empty_registry b = (Inr r, tr, b') \<and>
     compile sample_env empty_registry b' = (Inr r, empty_registry, b')"
proof -
  obtain b where b: "sample_program int_type = Some b" using sample_program_returns by blast
  obtain c plugins tr b' where c: "compile sample_env empty_registry b = (Inr (c, plugins), tr, b')"
    using sample_program_compiles [OF b] by auto
  with b compiled_is_final [OF sample_program_builds [OF b] c] show ?thesis by blast
qed


text \<open>
  The exception is real. Compilation takes any edge into a node whose input is an input set, even where the node neither joins nor
  merges; no value of the type that its source returns can then be delivered.
\<close>

lemma inputs_node_rejects_deliveries:
  "\<exists>b c plugins tr b'. sample_program type_Inputs = Some b \<and>
     compile sample_env empty_registry b = (Inr (c, plugins), tr, b') \<and>
     (\<forall>v state. dyn_type v = Some int_type \<longrightarrow> default_delivery c entry_of_sample v (sample_delivery v) \<and>
        fst (scheduleDelivery c (sample_delivery v) state) \<noteq> None)"
proof -
  obtain b where b: "sample_program type_Inputs = Some b" using sample_program_returns by blast
  obtain c plugins tr b' where c: "compile sample_env empty_registry b = (Inr (c, plugins), tr, b')"
    using sample_program_compiles [OF b] by auto
  note plan = plan_of_sample [OF b c]
  have "fst (scheduleDelivery c (sample_delivery v) state) \<noteq> None" if "dyn_type v = Some int_type" for v state
    using that plan(2)
    by (simp add: scheduleDelivery_def sample_delivery_def zero_delivery_def isJoinTarget_def hasJoin_def hasMerge_def
        validateActivationPayload_def assignable_to_def int_type_def type_Inputs_def)
  then show ?thesis
    using b c sample_delivery_is_default [OF b c] by (intro exI conjI allI impI)
qed

end
