(* ===== verification/Versions.thy ===== *)
theory Versions
  imports Compilation "HOL-Library.Sublist"
begin

text \<open>
  The version of a plan (\<open>compiledTopologyVersion\<close>, \<open>topology.go\<close>) is a digest of a text. The text can be read back
  into its facts, hence two plans of one text have the same shape, as long as no name contains a NUL that
  looks like the end of a value.
\<close>

section \<open>Reading a text back\<close>

text \<open>What follows the NUL at the end of a value: the next value, or the end of the fact.\<close>

definition boundary :: "string \<Rightarrow> bool" where
  "boundary x \<longleftrightarrow> prefix [CHR 0x0A] x \<or> prefix ''string:'' x \<or> prefix ''int:'' x"

fun tame :: "string \<Rightarrow> bool" where
  "tame [] = True"
| "tame (c # s) \<longleftrightarrow> (c = CHR 0x00 \<longrightarrow> \<not> boundary s) \<and> tame s"

lemma tame_no_NUL: "CHR 0x00 \<notin> set s \<Longrightarrow> tame s"
  by (induction s) auto

lemma prefix_before_NUL: "prefix p (s @ CHR 0x00 # r) \<Longrightarrow> CHR 0x00 \<notin> set p \<Longrightarrow> prefix p s"
proof (induction p arbitrary: s)
  case (Cons c p)
  show ?case
  proof (cases s)
    case Nil
    with Cons.prems show ?thesis by (simp add: prefix_def)
  next
    case (Cons d s')
    with Cons.prems Cons.IH [of s'] show ?thesis by simp
  qed
qed simp

lemma boundary_before_NUL: "boundary (s @ CHR 0x00 # r) \<Longrightarrow> boundary s"
  unfolding boundary_def by (auto dest: prefix_before_NUL)

lemma tame_end:
  assumes "s @ CHR 0x00 # r = s' @ CHR 0x00 # r'" "tame s" "tame s'" "boundary r" "boundary r'"
  shows "s = s' \<and> r = r'"
  using assms
proof (induction s arbitrary: s')
  case Nil
  then show ?case
    by (cases s') (auto dest: boundary_before_NUL)
next
  case (Cons c s)
  show ?case
  proof (cases s')
    case Nil
    with Cons.prems show ?thesis by (auto dest: boundary_before_NUL)
  next
    case (Cons c' s'')
    with Cons.prems Cons.IH show ?thesis by auto
  qed
qed

fun tame_value :: "topology_value \<Rightarrow> bool" where
  "tame_value (TString s) = tame s"
| "tame_value (TInt i) = True"

lemma boundary_values: "boundary (concat (map value_text vs) @ CHR 0x0A # r)"
proof (cases vs)
  case (Cons v vs')
  then show ?thesis by (cases v) (simp_all add: boundary_def)
qed (simp add: boundary_def)

lemma same_value:
  assumes "value_text v @ r = value_text w @ r'" "tame_value v" "tame_value w" "boundary r" "boundary r'"
  shows "v = w \<and> r = r'"
proof -
  have digits: "tame (int_string i)" for i by (rule tame_no_NUL, rule int_string_no_char) (auto simp: digit_def)
  from assms show ?thesis
    by (cases v; cases w) (auto dest: tame_end [OF _ _ _ assms(4,5)] simp: digits)
qed

lemma same_fact:
  assumes "writeTopologyFact vs @ r = writeTopologyFact ws @ r'" "list_all tame_value vs" "list_all tame_value ws"
  shows "vs = ws \<and> r = r'"
  using assms
proof (induction vs arbitrary: ws)
  case Nil
  then show ?case
  proof (cases ws)
    case (Cons w ws')
    with Nil show ?thesis by (cases w) (simp_all add: writeTopologyFact_def)
  qed (simp add: writeTopologyFact_def)
next
  case (Cons v vs)
  show ?case
  proof (cases ws)
    case Nil
    with Cons.prems show ?thesis by (cases v) (simp_all add: writeTopologyFact_def)
  next
    case ws: (Cons w ws')
    have "value_text v @ (concat (map value_text vs) @ CHR 0x0A # r) = value_text w @ (concat (map value_text ws') @ CHR 0x0A # r')"
      using Cons.prems(1) by (simp add: ws writeTopologyFact_def)
    from same_value [OF this _ _ boundary_values boundary_values] Cons.prems ws
    have "v = w" "concat (map value_text vs) @ CHR 0x0A # r = concat (map value_text ws') @ CHR 0x0A # r'" by auto
    moreover from this(2) Cons.IH [of ws'] Cons.prems ws have "vs = ws' \<and> r = r'" by (simp add: writeTopologyFact_def)
    ultimately show ?thesis by (simp add: ws)
  qed
qed

lemma same_facts:
  assumes "concat (map writeTopologyFact fs) = concat (map writeTopologyFact gs)"
    and "list_all (list_all tame_value) fs" "list_all (list_all tame_value) gs"
  shows "fs = gs"
  using assms
proof (induction fs arbitrary: gs)
  case Nil
  then show ?case by (cases gs) (simp_all add: writeTopologyFact_def)
next
  case (Cons f fs)
  then show ?case
  proof (cases gs)
    case Nil
    with Cons.prems show ?thesis by (simp add: writeTopologyFact_def)
  next
    case gs: (Cons g gs')
    have "writeTopologyFact f @ concat (map writeTopologyFact fs) = writeTopologyFact g @ concat (map writeTopologyFact gs')"
      using Cons.prems(1) by (simp add: gs)
    with Cons.prems gs have "f = g \<and> concat (map writeTopologyFact fs) = concat (map writeTopologyFact gs')"
      by (intro same_fact) auto
    with Cons.IH [of gs'] Cons.prems gs show ?thesis by simp
  qed
qed

section \<open>What a version determines\<close>

definition tame_topology :: "(gotype \<Rightarrow> rtype) \<Rightarrow> 'w Registry \<Rightarrow> ('s, 'w) Builder \<Rightarrow> bool" where
  "tame_topology rtype_of plugins b = list_all (list_all tame_value) (topology_facts rtype_of plugins b)"

lemma node_in_facts:
  "name |\<in>| fmdom (wf_nodes (bu_workflow b)) \<longleftrightarrow> fact ''node'' [name] \<in> set (topology_facts rtype_of plugins b)"
  by (auto simp: topology_facts_def plugin_facts_def Let_def fmdom'_alt_def)

lemma edge_in_facts:
  "t \<in> set (targets (wf_edges (bu_workflow b)) s) \<longleftrightarrow> fact ''edge'' [s, t] \<in> set (topology_facts rtype_of plugins b)"
proof
  let ?m = "wf_edges (bu_workflow b)"
  assume "t \<in> set (targets ?m s)"
  moreover from this have "s \<in> fmdom' ?m" by (cases "fmlookup ?m s") (auto simp: targets_def fmdom'I)
  ultimately have "fact ''edge'' [s, t] \<in>
      set (concat (map (\<lambda>source. map (\<lambda>target. fact ''edge'' [source, target]) (sort (targets ?m source))) (sorted_keys ?m)))"
    by auto
  then show "fact ''edge'' [s, t] \<in> set (topology_facts rtype_of plugins b)"
    unfolding topology_facts_def Let_def set_append by blast
qed (auto simp: topology_facts_def plugin_facts_def Let_def)

lemma exit_in_facts:
  "x |\<in>| wf_exits (bu_workflow b) \<longleftrightarrow> fact ''exit'' [x] \<in> set (topology_facts rtype_of plugins b)"
  by (auto simp: topology_facts_def plugin_facts_def Let_def)

lemma head_of_facts:
  "hd (topology_facts rtype_of plugins b) =
     [TString ''workflow'', TString (wf_name (bu_workflow b)), TString (wf_topologyVersion (bu_workflow b)),
      TString (wf_entry (bu_workflow b)), TInt (wf_maxSteps (bu_workflow b)), TInt (wf_maxParallelism (bu_workflow b))]"
  by (simp add: topology_facts_def Let_def)

text \<open>
  C32 (a version determines its plan). Where no name holds a NUL that looks like the end of a value, two workflows
  that hash the same text have the same facts, and so the same name, entry, limits, nodes, edges and
  exits.
\<close>

theorem topology_text_determines_plan:
  assumes "topology_text rt p b = topology_text rt' p' b'" "tame_topology rt p b" "tame_topology rt' p' b'"
  shows "topology_facts rt p b = topology_facts rt' p' b' \<and>
    co_name (compiled_plan env p b) = co_name (compiled_plan env p' b') \<and>
    co_entry (compiled_plan env p b) = co_entry (compiled_plan env p' b') \<and>
    co_maxSteps (compiled_plan env p b) = co_maxSteps (compiled_plan env p' b') \<and>
    co_maxParallelism (compiled_plan env p b) = co_maxParallelism (compiled_plan env p' b') \<and>
    fmdom (co_nodes (compiled_plan env p b)) = fmdom (co_nodes (compiled_plan env p' b')) \<and>
    set (targets (co_edges (compiled_plan env p b)) s) = set (targets (co_edges (compiled_plan env p' b')) s) \<and>
    co_exits (compiled_plan env p b) = co_exits (compiled_plan env p' b')"
proof -
  have same: "topology_facts rt p b = topology_facts rt' p' b'"
    using assms unfolding topology_text_def tame_topology_def by (rule same_facts)
  from head_of_facts [of rt p b] head_of_facts [of rt' p' b'] same
  have head: "wf_name (bu_workflow b) = wf_name (bu_workflow b')" "wf_entry (bu_workflow b) = wf_entry (bu_workflow b')"
    "wf_maxSteps (bu_workflow b) = wf_maxSteps (bu_workflow b')"
    "wf_maxParallelism (bu_workflow b) = wf_maxParallelism (bu_workflow b')"
    by simp_all
  have "fmdom (wf_nodes (bu_workflow b)) = fmdom (wf_nodes (bu_workflow b'))"
    by (rule fset_eqI) (simp only: node_in_facts [of _ b rt p] node_in_facts [of _ b' rt' p'] same)
  moreover have "set (targets (wf_edges (bu_workflow b)) s) = set (targets (wf_edges (bu_workflow b')) s)"
    by (rule set_eqI) (simp only: edge_in_facts [of _ b _ rt p] edge_in_facts [of _ b' _ rt' p'] same)
  moreover have "wf_exits (bu_workflow b) = wf_exits (bu_workflow b')"
    by (rule fset_eqI) (simp only: exit_in_facts [of _ b rt p] exit_in_facts [of _ b' rt' p'] same)
  ultimately show ?thesis using same head by (simp add: compiled_plan_def Let_def)
qed

lemma sample_program_facts:
  assumes "sample_program target = Some b"
  shows "topology_facts (\<lambda>t. RNamed [] ''int'') new_registry b =
    [[TString ''workflow'', TString ''w'', TString [], TString ''a'', TInt 1024, TInt 1]] @
    concat (map (\<lambda>name. fact ''node'' [name] # map (\<lambda>x. fact ''node-fact'' [x])
      ['':int'', '':int'', ''true'', ''false'', ''false'', ''false'', ''false'']) [''a'', ''b'']) @
    [fact ''edge'' [''a'', ''b''], fact ''exit'' [''b'']]"
proof -
  have b: "b = the (sample_program target)" by (simp add: assms)
  have "sorted_keys (wf_nodes (bu_workflow b)) = [''a'', ''b'']" "sorted_keys (wf_edges (bu_workflow b)) = [''a'']"
    unfolding b by (simp_all add: building_defs go_eval fmdrop_fmupd)
  then show ?thesis
    unfolding b by (simp add: topology_facts_def building_defs node_at_def topologyFacts_def typeIdentity_def plugin_facts_def
        new_registry_def sample_body_def defaultMaxSteps_def defaultMaxParallelism_def sorted_list_of_fset.rep_eq)
qed

theorem topology_text_determines_plan_witness:
  "\<exists>b b'. sample_program int_type = Some b \<and> sample_program type_Inputs = Some b' \<and>
     co_exits (compiled_plan sample_env new_registry b) = co_exits (compiled_plan sample_env new_registry b')"
proof -
  obtain b where b: "sample_program int_type = Some b" using sample_program_returns by blast
  obtain b' where b': "sample_program type_Inputs = Some b'" using sample_program_returns by blast
  let ?rt = "\<lambda>t. RNamed [] ''int''"
  have "topology_text ?rt new_registry b = topology_text ?rt new_registry b'"
    by (simp add: topology_text_def sample_program_facts [OF b] sample_program_facts [OF b'])
  moreover have "tame_topology ?rt new_registry b" "tame_topology ?rt new_registry b'"
    by (simp_all add: tame_topology_def sample_program_facts [OF b] sample_program_facts [OF b'])
  ultimately show ?thesis
    using b b' topology_text_determines_plan [of ?rt new_registry b ?rt new_registry b' sample_env] by blast
qed

text \<open>Without that proviso the text is ambiguous: one name can spell two.\<close>

lemma fact_text_ambiguous:
  "writeTopologyFact [TString ''exit'', TString (''a'' @ CHR 0x00 # ''string:b'')] =
   writeTopologyFact [TString ''exit'', TString ''a'', TString ''b'']"
  "writeTopologyFact (fact ''exit'' [''a'' @ [CHR 0x00, CHR 0x0A] @ ''string:exit'' @ CHR 0x00 # ''string:b'']) =
   writeTopologyFact (fact ''exit'' [''a'']) @ writeTopologyFact (fact ''exit'' [''b''])"
  by (simp_all add: writeTopologyFact_def)

end
