(* ===== verification/Heartbeat.thy ===== *)
theory Heartbeat
  imports Invocation Builder
begin

text \<open>
  The heartbeat of a lease (\<open>startCheckpointLeaseHeartbeat\<close> and the functions it starts): it renews the lease on every tick
  until it is stopped, and ends the run when a renewal fails. The ticks, and what happens to the store between
  them, are a list of events.
\<close>

section \<open>Renewing\<close>

definition heartbeat_lease :: "duration \<Rightarrow> 'p CheckpointRecord \<Rightarrow> CheckpointLease" where
  "heartbeat_lease d r =
     \<lparr>cl_RunID = cp_RunID r, cl_OwnerID = cp_OwnerID r, cl_ClaimSequence = cp_ClaimSequence r,
      cl_ExpiresAt = zero_time, cl_Duration = d\<rparr>"

text \<open>The cause of a lost lease names the claim that lost it; only the fields that identify it are set.\<close>

definition lease_record :: "CheckpointLease \<Rightarrow> cprecord" where
  "lease_record lease = no_checkpoint
     \<lparr>cp_RunID := cl_RunID lease, cp_OwnerID := cl_OwnerID lease, cp_ClaimSequence := cl_ClaimSequence lease\<rparr>"

text \<open>
  \<open>now\<close> is the clock of the run, \<open>stopped\<close> says whether the heartbeat was stopped during the renewal, whose answer \<open>renew\<close>
  is the store's.
\<close>

definition renewCheckpointLease ::
  "duration \<Rightarrow> (CheckpointLease \<Rightarrow> 'w \<Rightarrow> goerr option \<times> 'w) \<Rightarrow> gotime \<Rightarrow> bool \<Rightarrow> CheckpointLease \<Rightarrow> execution \<Rightarrow> 'w
   \<Rightarrow> goerr option \<times> CheckpointLease \<times> execution \<times> 'w" where
  "renewCheckpointLease d renew now stopped lease0 ex w =
     (let lease = lease0\<lparr>cl_Duration := d, cl_ExpiresAt := now + d\<rparr> in
      case renew lease w of
        (None, w1) \<Rightarrow> (None, lease, ex, w1)
      | (Some err, w1) \<Rightarrow>
          if stopped then (None, lease, ex, w1)
          else (let cause = markCheckpointLeaseError
                  (Wrap ''renew checkpoint lease'' [Sentinel ErrCheckpointLeaseLost, err]) (lease_record lease) in
                (Some cause, lease,
                 (cancel_run (Joined [Sentinel ContextCanceled, cause]) ex)\<lparr>ex_leaseCause := Some cause\<rparr>, w1)))"

text \<open>
  A tick: the clock of the run, that of the store when it is asked, the error of the renewal's context, and whether the
  heartbeat was stopped meanwhile. Between two ticks anything may happen to the store.
\<close>

datatype 'w hb_event =
    HbTick gotime gotime "goerr option" bool
  | HbOther "'w \<Rightarrow> 'w"

fun runCheckpointLeaseHeartbeat ::
  "duration \<Rightarrow> (goerr option \<Rightarrow> gotime \<Rightarrow> CheckpointLease \<Rightarrow> 'w \<Rightarrow> goerr option \<times> 'w) \<Rightarrow> 'w hb_event list \<Rightarrow> CheckpointLease
   \<Rightarrow> execution \<Rightarrow> 'w \<Rightarrow> goerr option \<times> execution \<times> 'w" where
  "runCheckpointLeaseHeartbeat d renew [] lease ex w = (None, ex, w)"
| "runCheckpointLeaseHeartbeat d renew (HbTick now storeNow ctxErr stopped # es) lease ex w =
     (case renewCheckpointLease d (renew ctxErr storeNow) now stopped lease ex w of
        (Some err, lease1, ex1, w1) \<Rightarrow> (Some err, ex1, w1)
      | (None, lease1, ex1, w1) \<Rightarrow> runCheckpointLeaseHeartbeat d renew es lease1 ex1 w1)"
| "runCheckpointLeaseHeartbeat d renew (HbOther f # es) lease ex w =
     runCheckpointLeaseHeartbeat d renew es lease ex (f w)"

text \<open>How long a finalization may write: what a lease has left after a renewal is due.\<close>

definition authorityWriteTimeout :: "duration \<Rightarrow> duration \<Rightarrow> duration" where
  "authorityWriteTimeout d renewEvery =
     (if d \<le> renewEvery then defaultCheckpointLeaseDuration - defaultCheckpointLeaseRenewEvery
      else d - renewEvery)"

section \<open>Calls of other clients\<close>

datatype 'p store_call =
    CallCreate "goerr option" gotime "'p CheckpointRecord"
  | CallClaim "goerr option" gotime "'p CheckpointRecord" int
  | CallWrite "goerr option" gotime "'p CheckpointRecord" int bool
  | CallRenew "goerr option" gotime CheckpointLease

fun run_call :: "'p store_call \<Rightarrow> 'p MemoryCheckpointer \<Rightarrow> 'p MemoryCheckpointer" where
  "run_call (CallCreate c now r) k = snd (Create c now r k)"
| "run_call (CallClaim c now r v) k = snd (Claim c now r v k)"
| "run_call (CallWrite c now r v terminal) k = snd (store_write c now r v terminal k)"
| "run_call (CallRenew c now lease) k = snd (RenewLease c now lease k)"

text \<open>
  \<open>e\<close> is a time before which the lease is known to run. A claim of the run comes before \<open>e\<close>; a write to it carries
  another claim sequence, or is a save by the owner.
\<close>

fun call_allowed :: "string \<Rightarrow> string \<Rightarrow> int \<Rightarrow> gotime \<Rightarrow> 'p store_call \<Rightarrow> bool" where
  "call_allowed run own claim e (CallCreate c now r) = True"
| "call_allowed run own claim e (CallClaim c now r v) = (cp_RunID r = run \<longrightarrow> now < e)"
| "call_allowed run own claim e (CallWrite c now r v terminal) =
     (cp_RunID r = run \<longrightarrow> cp_ClaimSequence r \<noteq> claim \<or> cp_OwnerID r = own \<and> cp_Status r = CheckpointRunning)"
| "call_allowed run own claim e (CallRenew c now lease) = True"

datatype 'p hb_step =
    Renewal gotime gotime bool
  | Call "'p store_call"

fun step_event :: "'p hb_step \<Rightarrow> 'p MemoryCheckpointer hb_event" where
  "step_event (Renewal now storeNow stopped) = HbTick now storeNow None stopped"
| "step_event (Call c) = HbOther (run_call c)"

text \<open>Every renewal reaches the store before the lease that the previous one bought has run out.\<close>

fun on_schedule :: "duration \<Rightarrow> string \<Rightarrow> string \<Rightarrow> int \<Rightarrow> gotime \<Rightarrow> 'p hb_step list \<Rightarrow> bool" where
  "on_schedule d run own claim e [] \<longleftrightarrow> True"
| "on_schedule d run own claim e (Renewal now storeNow stopped # steps) \<longleftrightarrow>
     storeNow < e \<and> on_schedule d run own claim (max e (storeNow + d)) steps"
| "on_schedule d run own claim e (Call c # steps) \<longleftrightarrow>
     call_allowed run own claim e c \<and> on_schedule d run own claim e steps"

fun horizon :: "duration \<Rightarrow> gotime \<Rightarrow> 'p hb_step list \<Rightarrow> gotime" where
  "horizon d e [] = e"
| "horizon d e (Renewal now storeNow stopped # steps) = horizon d (max e (storeNow + d)) steps"
| "horizon d e (Call c # steps) = horizon d e steps"

text \<open>The head of the run is held: running, owned under the claim, its lease good until \<open>e\<close> at least.\<close>

definition held :: "string \<Rightarrow> string \<Rightarrow> int \<Rightarrow> gotime \<Rightarrow> 'p MemoryCheckpointer \<Rightarrow> bool" where
  "held run own claim e k \<longleftrightarrow>
     (case mc_records k run of
        None \<Rightarrow> False
      | Some r \<Rightarrow> cp_Status r = CheckpointRunning \<and> cp_OwnerID r = own \<and> cp_ClaimSequence r = claim \<and>
                  e \<le> cp_LeaseExpiresAt r)"

lemma heldE:
  assumes "held run own claim e k"
  obtains r where "mc_records k run = Some r" "cp_Status r = CheckpointRunning" "cp_OwnerID r = own"
    "cp_ClaimSequence r = claim" "e \<le> cp_LeaseExpiresAt r"
  using assms by (auto simp: held_def split: option.splits)

lemma heldI:
  "\<lbrakk>mc_records k run = Some r; cp_Status r = CheckpointRunning; cp_OwnerID r = own; cp_ClaimSequence r = claim;
    e \<le> cp_LeaseExpiresAt r\<rbrakk> \<Longrightarrow> held run own claim e k"
  by (simp add: held_def)

lemma held_pushed:
  assumes "pushed r' k k'" "cp_RunID r' \<noteq> run"
  shows "held run own claim e k' = held run own claim e k"
  using assms by (simp add: pushed_def held_def)

lemma held_renew:
  assumes "held run own claim e k" "RenewLease c now lease k = (err, k')"
  shows "held run own claim e k'"
proof (cases err)
  case (Some x)
  with assms failed_unchanged(3) show ?thesis by blast
next
  case None
  with assms(2) have "RenewLease c now lease k = (None, k')" by simp
  then show ?thesis
  proof (cases rule: RenewLease_success)
    case stale
    with assms(1) show ?thesis by simp
  next
    case (renewed current t)
    show ?thesis
    proof (cases "cl_RunID lease = run")
      case True
      with assms(1) renewed show ?thesis by (simp add: held_def)
    next
      case False
      with assms(1) renewed(7) show ?thesis by (simp add: held_def)
    qed
  qed
qed

lemma held_call:
  assumes h: "held run own claim e k" and c: "call_allowed run own claim e c" and own: "own \<noteq> []"
  shows "held run own claim e (run_call c k)"
proof (cases c)
  case (CallCreate x now r)
  obtain err k' where k': "Create x now r k = (err, k')" by force
  show ?thesis
  proof (cases err)
    case None
    with k' have "Create x now r k = (None, k')" by simp
    then obtain r' where "stored_as r r'" "pushed r' k k'" "mc_records k (cp_RunID r) = None"
      by (rule Create_success)
    moreover from this h have "cp_RunID r' \<noteq> run" by (auto simp: stored_as_simps held_def)
    ultimately show ?thesis using h k' CallCreate by (simp add: held_pushed)
  qed (use h k' CallCreate failed_unchanged(1) in fastforce)
next
  case (CallClaim x now r v)
  obtain err k' where k': "Claim x now r v k = (err, k')" by force
  show ?thesis
  proof (cases err)
    case None
    with k' have "Claim x now r v k = (None, k')" by simp
    then obtain r' current where s: "stored_as r r'" "pushed r' k k'" "mc_records k (cp_RunID r) = Some current"
      "cp_LeaseExpiresAt current \<le> now"
      by (rule Claim_success)
    have "cp_RunID r' \<noteq> run"
    proof
      assume "cp_RunID r' = run"
      with s(1) have "cp_RunID r = run" by (simp add: stored_as_simps)
      moreover from this c CallClaim have "now < e" by simp
      ultimately show False using h s(3,4) by (auto simp: held_def)
    qed
    with s(2) h k' CallClaim show ?thesis by (simp add: held_pushed)
  qed (use h k' CallClaim failed_unchanged(2) in fastforce)
next
  case (CallWrite x now r v terminal)
  obtain err k' where k': "store_write x now r v terminal k = (err, k')" by force
  show ?thesis
  proof (cases err)
    case None
    with k' have "store_write x now r v terminal k = (None, k')" by simp
    then obtain r' current where s: "stored_as r r'" "pushed r' k k'" "mc_records k (cp_RunID r) = Some current"
      "cp_ClaimSequence r = cp_ClaimSequence current"
      "cp_OwnerID r \<noteq> [] \<Longrightarrow> cp_LeaseExpiresAt current \<le> cp_LeaseExpiresAt r'"
      by (rule store_write_success) blast
    show ?thesis
    proof (cases "cp_RunID r = run")
      case True
      with h s(3,4) c CallWrite have "cp_OwnerID r = own" "cp_Status r = CheckpointRunning"
        "e \<le> cp_LeaseExpiresAt current" "cp_ClaimSequence r = claim"
        by (auto simp: held_def)
      with own s True have "held run own claim e k'"
        by (intro heldI [of k' run r']) (auto simp: pushed_def stored_as_simps)
      with k' CallWrite show ?thesis by simp
    next
      case False
      with s(1,2) h k' CallWrite show ?thesis by (simp add: held_pushed stored_as_simps)
    qed
  qed (use h k' CallWrite failed_unchanged(4) in fastforce)
next
  case (CallRenew x now lease)
  with held_renew [OF h prod.collapse [symmetric]] show ?thesis by simp
qed

section \<open>While renewals are in time\<close>

lemma held_mono: "held run own claim e k \<Longrightarrow> e' \<le> e \<Longrightarrow> held run own claim e' k"
  by (auto simp: held_def split: option.splits)

lemma renew_in_time:
  assumes h: "held (cl_RunID lease) (cl_OwnerID lease) (cl_ClaimSequence lease) e k"
    and ids: "cl_RunID lease \<noteq> []" "cl_OwnerID lease \<noteq> []" "0 < cl_ClaimSequence lease"
    and d: "0 < cl_Duration lease" and now: "now < e"
  obtains k' where "RenewLease None now lease k = (None, k')"
    "held (cl_RunID lease) (cl_OwnerID lease) (cl_ClaimSequence lease) (max e (now + cl_Duration lease)) k'"
proof -
  obtain r where r: "mc_records k (cl_RunID lease) = Some r" "cp_Status r = CheckpointRunning"
    "cp_OwnerID r = cl_OwnerID lease" "cp_ClaimSequence r = cl_ClaimSequence lease" "e \<le> cp_LeaseExpiresAt r"
    using h by (rule heldE)
  show thesis
  proof (cases "now + cl_Duration lease > cp_LeaseExpiresAt r")
    case True
    let ?r = "cloneCheckpointRecord (r\<lparr>cp_LeaseExpiresAt := now + cl_Duration lease\<rparr>)"
    have "RenewLease None now lease k = (None, k\<lparr>mc_records := (mc_records k)(cl_RunID lease \<mapsto> ?r)\<rparr>)"
      using r ids d now True by (simp add: RenewLease_def leaseExpiry_def Let_def)
    then show thesis
      by (rule that) (use r True in \<open>simp add: held_def\<close>)
  next
    case False
    have "RenewLease None now lease k = (None, k)"
      using r ids d now False by (simp add: RenewLease_def leaseExpiry_def Let_def)
    then show thesis
      by (rule that) (use r False in \<open>simp add: held_def\<close>)
  qed
qed

lemma heartbeat_held:
  assumes "held (cl_RunID lease) (cl_OwnerID lease) (cl_ClaimSequence lease) e k"
    and "cl_RunID lease \<noteq> []" "cl_OwnerID lease \<noteq> []" "0 < cl_ClaimSequence lease" "0 < d"
    and "on_schedule d (cl_RunID lease) (cl_OwnerID lease) (cl_ClaimSequence lease) e steps"
  shows "\<exists>k'. runCheckpointLeaseHeartbeat d RenewLease (map step_event steps) lease ex k = (None, ex, k') \<and>
    held (cl_RunID lease) (cl_OwnerID lease) (cl_ClaimSequence lease) (horizon d e steps) k'"
  using assms
proof (induction steps arbitrary: e k lease)
  case (Cons step steps)
  show ?case
  proof (cases step)
    case (Renewal now storeNow stopped)
    let ?l = "lease\<lparr>cl_Duration := d, cl_ExpiresAt := now + d\<rparr>"
    from Cons.prems Renewal have "held (cl_RunID ?l) (cl_OwnerID ?l) (cl_ClaimSequence ?l) e k" "storeNow < e"
      by simp_all
    then obtain k' where "RenewLease None storeNow ?l k = (None, k')"
      and h: "held (cl_RunID ?l) (cl_OwnerID ?l) (cl_ClaimSequence ?l) (max e (storeNow + d)) k'"
      using Cons.prems renew_in_time [of ?l e k storeNow] by force
    moreover have "\<exists>k''. runCheckpointLeaseHeartbeat d RenewLease (map step_event steps) ?l ex k' = (None, ex, k'') \<and>
        held (cl_RunID ?l) (cl_OwnerID ?l) (cl_ClaimSequence ?l) (horizon d (max e (storeNow + d)) steps) k''"
      by (rule Cons.IH [OF h]) (use Cons.prems Renewal in simp_all)
    ultimately show ?thesis using Renewal by (simp add: renewCheckpointLease_def Let_def)
  next
    case (Call c)
    from Cons.prems Call
    have h: "held (cl_RunID lease) (cl_OwnerID lease) (cl_ClaimSequence lease) e (run_call c k)"
      by (intro held_call) simp_all
    show ?thesis
      using Cons.IH [OF h] Cons.prems Call by simp
  qed
qed simp

lemma held_not_claimable:
  assumes "held run own claim e k" "cp_RunID q = run" "now < e"
  shows "fst (Claim c now q v k) \<noteq> None"
proof
  assume "fst (Claim c now q v k) = None"
  then have "Claim c now q v k = (None, snd (Claim c now q v k))" by (simp add: prod_eq_iff)
  then show False by (rule Claim_success) (use assms in \<open>auto simp: held_def\<close>)
qed

section \<open>When a renewal fails\<close>

lemma cancel_run_simps [simp]:
  "ex_runID (cancel_run e ex) = ex_runID ex" "ex_checkpoint (cancel_run e ex) = ex_checkpoint ex"
  "ex_cause (cancel_run e ex) = Some (case ex_cause ex of None \<Rightarrow> e | Some c \<Rightarrow> c)"
  by (simp_all add: cancel_run_def split: option.split)

lemma renew_not_held:
  assumes "\<not> held (cl_RunID lease) (cl_OwnerID lease) (cl_ClaimSequence lease) (now + 1) k"
  obtains err where "RenewLease c now lease k = (Some err, k)"
proof -
  obtain err k' where k': "RenewLease c now lease k = (err, k')" by force
  show thesis
  proof (cases err)
    case None
    with k' assms have False by (auto simp: RenewLease_def held_def Let_def split: option.splits if_splits)
    then show thesis ..
  next
    case (Some e)
    with k' that failed_unchanged(3) show thesis by blast
  qed
qed

lemma failed_renewal:
  assumes "renew c storeNow (lease\<lparr>cl_Duration := d, cl_ExpiresAt := now + d\<rparr>) w = (Some err, w1)"
  obtains cause ex' where
    "runCheckpointLeaseHeartbeat d renew (HbTick now storeNow c False # es) lease ex w = (Some cause, ex', w1)"
    "errors_is cause ErrCheckpointLeaseLost"
    "as_lease_error cause = Some (cl_RunID lease, cl_OwnerID lease, cl_ClaimSequence lease)"
    "ex' = (cancel_run (Joined [Sentinel ContextCanceled, cause]) ex)\<lparr>ex_leaseCause := Some cause\<rparr>"
  by (rule that [of "LeaseError (Wrap ''renew checkpoint lease'' [Sentinel ErrCheckpointLeaseLost, err])
        (cl_RunID lease) (cl_OwnerID lease) (cl_ClaimSequence lease)"])
     (use assms in \<open>simp_all add: renewCheckpointLease_def markCheckpointLeaseError_def lease_record_def Let_def\<close>)

section \<open>Properties\<close>

text \<open>
  C37 (the heartbeat keeps the lease). As long as every renewal reaches the store before the lease that the previous
  ones bought has run out, the heartbeat of a claimed run reports nothing and the run stays running under its owner and
  claim, whatever calls other clients interleave, and no one can claim it before a duration after the last renewal.
\<close>

theorem heartbeat_keeps_lease:
  assumes head: "mc_records k (cp_RunID r) = Some r" "cp_Status r = CheckpointRunning"
    and ids: "cp_RunID r \<noteq> []" "cp_OwnerID r \<noteq> []" "0 < cp_ClaimSequence r" "0 < d"
    and sched: "on_schedule d (cp_RunID r) (cp_OwnerID r) (cp_ClaimSequence r) (cp_LeaseExpiresAt r) steps"
  shows "\<exists>k'. runCheckpointLeaseHeartbeat d RenewLease (map step_event steps) (heartbeat_lease d r) ex k = (None, ex, k') \<and>
    held (cp_RunID r) (cp_OwnerID r) (cp_ClaimSequence r) (horizon d (cp_LeaseExpiresAt r) steps) k' \<and>
    (\<forall>c now q v. cp_RunID q = cp_RunID r \<and> now < horizon d (cp_LeaseExpiresAt r) steps \<longrightarrow>
       fst (Claim c now q v k') \<noteq> None)"
proof -
  let ?l = "heartbeat_lease d r"
  from head have "held (cl_RunID ?l) (cl_OwnerID ?l) (cl_ClaimSequence ?l) (cp_LeaseExpiresAt r) k"
    by (simp add: heartbeat_lease_def held_def)
  then have "\<exists>k'. runCheckpointLeaseHeartbeat d RenewLease (map step_event steps) ?l ex k = (None, ex, k') \<and>
    held (cl_RunID ?l) (cl_OwnerID ?l) (cl_ClaimSequence ?l) (horizon d (cp_LeaseExpiresAt r) steps) k'"
    by (rule heartbeat_held) (use ids sched in \<open>simp_all add: heartbeat_lease_def\<close>)
  then obtain k' where "runCheckpointLeaseHeartbeat d RenewLease (map step_event steps) ?l ex k = (None, ex, k')"
    "held (cp_RunID r) (cp_OwnerID r) (cp_ClaimSequence r) (horizon d (cp_LeaseExpiresAt r) steps) k'"
    by (auto simp: heartbeat_lease_def)
  with held_not_claimable show ?thesis by blast
qed

text \<open>A run whose lease lasts until 25, renewed at 24; another owner tries in vain at 22 and, after the renewal, at 28.\<close>

definition sample_schedule :: "unit hb_step list" where
  "sample_schedule =
     [Call (CallClaim None 22 (sample_checkpoint ''o3'' 3 2) 2), Renewal 24 24 False,
      Call (CallClaim None 28 (sample_checkpoint ''o3'' 3 2) 2)]"

theorem heartbeat_keeps_lease_witness:
  "\<exists>k'. runCheckpointLeaseHeartbeat 5 RenewLease (map step_event sample_schedule)
      (heartbeat_lease 5 ((sample_checkpoint ''o2'' 2 2)\<lparr>cp_LeaseExpiresAt := 25, cp_LeaseDuration := 0\<rparr>)) sample_run
      (ms_checkpointer sample_claimed) = (None, sample_run, k') \<and>
    held ''r'' ''o2'' 2 29 k'"
  using heartbeat_keeps_lease [of "ms_checkpointer sample_claimed"
      "(sample_checkpoint ''o2'' 2 2)\<lparr>cp_LeaseExpiresAt := 25, cp_LeaseDuration := 0\<rparr>" 5 sample_schedule sample_run]
  by (auto simp: sample_heads sample_schedule_def sample_checkpoint_def)

text \<open>
  C38 (a lost lease stops the run). When the head of the run is no longer the lease's (gone, not running, claimed by
  another, or expired at the store's clock), the next renewal reports a lease error of exactly this claim; the run
  context and the context of the final writes are cancelled, and a run that was not cancelled before ends with that cause
  without any further write, whatever error its body then returns.
\<close>

theorem heartbeat_reports_loss:
  assumes lost: "\<not> held (cl_RunID lease) (cl_OwnerID lease) (cl_ClaimSequence lease) (storeNow + 1) k"
    and mine: "cl_RunID lease = ex_runID ex" "cl_OwnerID lease = cp_OwnerID (ex_checkpoint ex)"
      "cl_ClaimSequence lease = cp_ClaimSequence (ex_checkpoint ex)"
  shows "\<exists>cause ex'. runCheckpointLeaseHeartbeat d RenewLease (HbTick now storeNow c False # es) lease ex k =
      (Some cause, ex', k) \<and>
    errors_is cause ErrCheckpointLeaseLost \<and> matchesCheckpointLeaseError ex' (Some cause) \<and>
    run_ctx ex' = Some (Sentinel ContextCanceled) \<and> final_ctx ex' = Some (Sentinel ContextCanceled) \<and>
    (ex_cause ex = None \<longrightarrow> (\<forall>(sv :: 'w services) err w. handleError sv err ex' w = (ex_cause ex', ex', w)))"
proof -
  let ?l = "lease\<lparr>cl_Duration := d, cl_ExpiresAt := now + d\<rparr>"
  obtain err where "RenewLease c storeNow ?l k = (Some err, k)"
    by (rule renew_not_held [of ?l storeNow k c]) (use lost in simp_all)
  then obtain cause ex' where hb:
    "runCheckpointLeaseHeartbeat d RenewLease (HbTick now storeNow c False # es) lease ex k = (Some cause, ex', k)"
    "errors_is cause ErrCheckpointLeaseLost"
    "as_lease_error cause = Some (cl_RunID lease, cl_OwnerID lease, cl_ClaimSequence lease)"
    "ex' = (cancel_run (Joined [Sentinel ContextCanceled, cause]) ex)\<lparr>ex_leaseCause := Some cause\<rparr>"
    by (rule failed_renewal)
  have "matchesCheckpointLeaseError ex' (Some cause)"
    using hb(3,4) mine by (simp add: matchesCheckpointLeaseError_def)
  moreover have "ex_cause ex = None \<Longrightarrow> matchesCheckpointLeaseError ex' (ex_cause ex')"
    using hb(3,4) mine by (simp add: matchesCheckpointLeaseError_def)
  moreover have "run_ctx ex' = Some (Sentinel ContextCanceled)" "final_ctx ex' = Some (Sentinel ContextCanceled)"
    using hb(4) by (simp_all add: run_ctx_def final_ctx_def)
  ultimately show ?thesis
    using hb(1,2) by (auto simp: handleError_def)
qed

text \<open>At 100 the lease of the sample run has expired.\<close>

theorem heartbeat_reports_loss_witness:
  "\<exists>cause ex'. runCheckpointLeaseHeartbeat 5 RenewLease [HbTick 99 100 None False] (heartbeat_lease 5 sample_head) sample_run
      (restore_record sample_head NewMemoryCheckpointer) =
      (Some cause, ex', restore_record sample_head NewMemoryCheckpointer) \<and> errors_is cause ErrCheckpointLeaseLost \<and>
      (\<forall>(sv :: unit services) err w. handleError sv err ex' w = (ex_cause ex', ex', w))"
proof -
  let ?k = "restore_record sample_head NewMemoryCheckpointer"
  have "\<not> held (cl_RunID (heartbeat_lease 5 sample_head)) (cl_OwnerID (heartbeat_lease 5 sample_head))
      (cl_ClaimSequence (heartbeat_lease 5 sample_head)) (100 + 1) ?k"
    by (simp add: heartbeat_lease_def held_def sample_head_def)
  moreover have "ex_cause sample_run = None" "cl_RunID (heartbeat_lease 5 sample_head) = ex_runID sample_run"
    "cl_OwnerID (heartbeat_lease 5 sample_head) = cp_OwnerID (ex_checkpoint sample_run)"
    "cl_ClaimSequence (heartbeat_lease 5 sample_head) = cp_ClaimSequence (ex_checkpoint sample_run)"
    by (simp_all add: heartbeat_lease_def sample_run_def sample_head_def)
  ultimately show ?thesis
    using heartbeat_reports_loss [of "heartbeat_lease 5 sample_head" 100 ?k sample_run 5 99 None "[]",
      where ?'w = unit] by fast
qed

end
