(* ===== verification/Messages.thy ===== *)
theory Messages
  imports Config
begin

text \<open>
  The provider-neutral protocol of package \<open>gopact\<close> (\<open>model.go\<close>): messages, tools, outcomes, requests, responses
  and the options of one model call. An enumeration of strings is open in the code, so it is a string
  here; Go's nil and empty slices are both the empty list. Raw JSON and bytes are strings.
\<close>

section \<open>Messages\<close>

record ArtifactRef =
  af_URI :: string
  af_Kind :: string
  af_Digest :: string

record MessagePart =
  mp_Type :: string
  mp_Text :: string
  mp_Ref :: "ArtifactRef option"

record ToolCall =
  tc_ID :: string
  tc_Name :: string
  tc_Arguments :: string
  tc_ArgumentsRef :: string
  tc_SourceRef :: string

record Message =
  ms_Role :: string
  ms_Parts :: "MessagePart list"
  ms_ToolCalls :: "ToolCall list"
  ms_ToolCallID :: string

definition MessageRoleSystem :: string where "MessageRoleSystem = ''system''"
definition MessageRoleUser :: string where "MessageRoleUser = ''user''"
definition MessageRoleAssistant :: string where "MessageRoleAssistant = ''assistant''"
definition MessageRoleTool :: string where "MessageRoleTool = ''tool''"

definition MessagePartTypeText :: string where "MessagePartTypeText = ''text''"
definition MessagePartTypeArtifact :: string where "MessagePartTypeArtifact = ''artifact''"

definition text_part :: "string \<Rightarrow> MessagePart" where
  "text_part text = \<lparr>mp_Type = MessagePartTypeText, mp_Text = text, mp_Ref = None\<rparr>"

definition artifact_part :: "ArtifactRef \<Rightarrow> MessagePart" where
  "artifact_part ref = \<lparr>mp_Type = MessagePartTypeArtifact, mp_Text = [], mp_Ref = Some ref\<rparr>"

definition UserMessage :: "string \<Rightarrow> Message" where
  "UserMessage text = \<lparr>ms_Role = MessageRoleUser, ms_Parts = [text_part text], ms_ToolCalls = [], ms_ToolCallID = []\<rparr>"

section \<open>Tools\<close>

record ToolSpec =
  ts_Name :: string
  ts_Description :: string
  ts_Schema :: string
  ts_Metadata :: "(string, string) fmap"

record ToolResult =
  tr_DataRef :: string
  tr_ArtifactRefs :: "ArtifactRef list"
  tr_EffectRefs :: "ArtifactRef list"
  tr_Preview :: string

record ToolRejection =
  tj_Reason :: string
  tj_Message :: string
  tj_RetryHint :: "RetryHint option"
  tj_Ref :: string

record ToolError =
  te_Kind :: string
  te_Message :: string
  te_RetryableForModel :: bool
  te_Feedback :: string
  te_RawRef :: string
  te_PartialRefs :: "ArtifactRef list"

record ToolInterrupt =
  ti_InterruptID :: string
  ti_Reason :: string
  ti_ResolutionSchemaRef :: string
  ti_PayloadRef :: string
  ti_RunID :: string
  ti_CheckpointID :: string

text \<open>The closed set of outcomes, each with the id and the name of its call.\<close>

datatype ToolOutcome =
    ToolResultOutcome (ToolCallID: string) (ToolName: string) ToolResult
  | ToolRejectedOutcome (ToolCallID: string) (ToolName: string) ToolRejection
  | ToolErrorOutcome (ToolCallID: string) (ToolName: string) ToolError
  | ToolInterruptOutcome (ToolCallID: string) (ToolName: string) ToolInterrupt

text \<open>
  A value of the interface: nil, an outcome or a pointer to one, a nil pointer of a result, rejection or error, a
  nil pointer of an interrupt, or a foreign type that embeds the interface.
\<close>

datatype outcome_pointer = ResultPointer | RejectedPointer | ErrorPointer | InterruptPointer

datatype any_outcome =
    NilOutcome
  | Outcome ToolOutcome
  | OutcomePointer ToolOutcome
  | NilPointer outcome_pointer
  | ForeignOutcome

section \<open>Requests and responses\<close>

record ToolChoice =
  tch_Mode :: string
  tch_Name :: string

record SchemaRef =
  sr_Value :: string
  sr_URI :: string

record ReasoningConfig =
  rg_Effort :: string

text \<open>Numbers of floating point (\<open>'f\<close>), output protocols (\<open>'p\<close>) and extensions (\<open>'x\<close>) are opaque.\<close>

record ('f, 'p, 'x) ModelRequest =
  mr_Model :: string
  mr_Messages :: "Message list"
  mr_Tools :: "ToolSpec list"
  mr_ToolChoice :: ToolChoice
  mr_ResponseSchema :: SchemaRef
  mr_Modalities :: "string list"
  mr_Temperature :: "'f option"
  mr_TopP :: "'f option"
  mr_MaxOutputTokens :: int
  mr_Reasoning :: ReasoningConfig
  mr_Stop :: "string list"
  mr_Seed :: "int option"
  mr_OutputProtocols :: "'p list"
  mr_Metadata :: "(string, string) fmap"
  mr_Extensions :: "(string, 'x) fmap"

definition WithTools :: "ToolSpec list \<Rightarrow> ('f, 'p, 'x) ModelRequest \<Rightarrow> ('f, 'p, 'x) ModelRequest" where
  "WithTools tools r = r\<lparr>mr_Tools := tools\<rparr>"

definition WithTemperature :: "'f \<Rightarrow> ('f, 'p, 'x) ModelRequest \<Rightarrow> ('f, 'p, 'x) ModelRequest" where
  "WithTemperature value r = r\<lparr>mr_Temperature := Some value\<rparr>"

definition WithReasoning :: "ReasoningConfig \<Rightarrow> ('f, 'p, 'x) ModelRequest \<Rightarrow> ('f, 'p, 'x) ModelRequest" where
  "WithReasoning cfg r = r\<lparr>mr_Reasoning := cfg\<rparr>"

record Refusal =
  rf_Reason :: string
  rf_Message :: Message
  rf_Ref :: string

record RepairRequest =
  rp_Reason :: string
  rp_Message :: Message
  rp_Ref :: string

datatype ModelIntent = FinalIntent | ToolCallIntent | RefusalIntent Refusal | RepairIntent RepairRequest

definition ModelIntentFinal :: string where "ModelIntentFinal = ''final''"
definition ModelIntentToolCall :: string where "ModelIntentToolCall = ''tool_call''"
definition ModelIntentRefusal :: string where "ModelIntentRefusal = ''refusal''"
definition ModelIntentRepair :: string where "ModelIntentRepair = ''repair''"

fun IntentType :: "ModelIntent \<Rightarrow> string" where
  "IntentType FinalIntent = ModelIntentFinal"
| "IntentType ToolCallIntent = ModelIntentToolCall"
| "IntentType (RefusalIntent r) = ModelIntentRefusal"
| "IntentType (RepairIntent r) = ModelIntentRepair"

record Usage =
  us_InputTokens :: int
  us_OutputTokens :: int
  us_TotalTokens :: int

record 'x ModelResponse =
  mo_Message :: Message
  mo_Intent :: "ModelIntent option"
  mo_Usage :: Usage
  mo_FinishReason :: string
  mo_ProviderMetadata :: "(string, 'x) fmap"

section \<open>Options of one call\<close>

text \<open>An option of another package is any function on the configuration.\<close>

record ('k, 'x) ModelCallConfig =
  mc_ModelEventSinks :: "'k list"
  mc_Extensions :: "(string, 'x) fmap"

datatype ('k, 'x) ModelCallOption =
    WithModelEventSink "'k option"
  | ForeignCallOption "('k, 'x) ModelCallConfig \<Rightarrow> ('k, 'x) ModelCallConfig"

fun ApplyModelCallOption :: "('k, 'x) ModelCallOption \<Rightarrow> ('k, 'x) ModelCallConfig \<Rightarrow> ('k, 'x) ModelCallConfig" where
  "ApplyModelCallOption (WithModelEventSink sink) cfg =
     (case sink of None \<Rightarrow> cfg | Some k \<Rightarrow> cfg\<lparr>mc_ModelEventSinks := mc_ModelEventSinks cfg @ [k]\<rparr>)"
| "ApplyModelCallOption (ForeignCallOption f) cfg = f cfg"

definition ResolveModelCallOptions :: "('k, 'x) ModelCallOption option list \<Rightarrow> ('k, 'x) ModelCallConfig" where
  "ResolveModelCallOptions opts =
     foldl (\<lambda>cfg opt. case opt of None \<Rightarrow> cfg | Some f \<Rightarrow> ApplyModelCallOption f cfg)
       \<lparr>mc_ModelEventSinks = [], mc_Extensions = fmempty\<rparr> opts"

text \<open>The sinks are called in the order of their options.\<close>

lemma call_sinks_in_order:
  assumes "\<And>f. Some (ForeignCallOption f) \<notin> set opts"
  shows "mc_ModelEventSinks (ResolveModelCallOptions opts) =
    concat (map (\<lambda>opt. case opt of Some (WithModelEventSink (Some k)) \<Rightarrow> [k] | _ \<Rightarrow> []) opts)"
  using assms
proof (induction opts rule: rev_induct)
  case (snoc opt opts)
  then have IH: "mc_ModelEventSinks (ResolveModelCallOptions opts) =
      concat (map (\<lambda>opt. case opt of Some (WithModelEventSink (Some k)) \<Rightarrow> [k] | _ \<Rightarrow> []) opts)" by simp
  from snoc.prems have "opt \<noteq> Some (ForeignCallOption f)" for f by auto
  with IH show ?case
    by (auto simp: ResolveModelCallOptions_def split: option.splits ModelCallOption.splits)
qed (simp add: ResolveModelCallOptions_def)

end
