(* ===== verification/Agents.thy ===== *)
theory Agents
  imports Messages
begin

text \<open>
  Package \<open>agent\<close>: the requests, responses and chunks of agents (\<open>agent.go\<close>) and the observations that are fed back into
  an agent loop (\<open>observation.go\<close>). Cloned values are the values themselves.
\<close>

section \<open>Identities, requests and responses\<close>

record Identity =
  ai_Name :: string
  ai_Description :: string
  ai_Version :: string

record Request =
  aq_Messages :: "Message list"
  aq_Artifacts :: "ArtifactRef list"
  aq_Metadata :: "(string, string) fmap"

record Response =
  ap_Message :: Message
  ap_Artifacts :: "ArtifactRef list"
  ap_Metadata :: "(string, string) fmap"

record Chunk =
  ch_Text :: string
  ch_Parts :: "MessagePart list"

section \<open>Observations\<close>

datatype ObservationKind =
    ObservationToolResult | ObservationToolRejected | ObservationToolError | ObservationGuardRejected
  | ObservationModelFeedback

datatype ObservationSourceKind =
    ObservationSourceToolOutcome | ObservationSourceGuardRejection | ObservationSourceModelFeedback

record ObservationSource =
  os_Kind :: ObservationSourceKind
  os_ID :: string

record ObservationSubject =
  oj_ToolCallID :: string
  oj_ToolName :: string
  oj_GuardName :: string
  oj_SubjectRef :: string

record Observation =
  ob_ID :: string
  ob_Kind :: ObservationKind
  ob_Source :: ObservationSource
  ob_Subject :: ObservationSubject
  ob_Message :: Message
  ob_Summary :: string
  ob_Refs :: "ArtifactRef list"
  ob_RetryHint :: "RetryHint option"

definition maxObservationSummaryRunes :: nat where "maxObservationSummaryRunes = 512"
definition maxObservationRefs :: nat where "maxObservationRefs = 64"

text \<open>
  \<open>[]rune(s)\<close>, each rune by the bytes that encode it: a byte that starts no sequence becomes the
  replacement character.
\<close>

definition replacement :: string where
  "replacement = [char_of (0xEF :: nat), char_of (0xBF :: nat), char_of (0xBD :: nat)]"

function runes :: "string \<Rightarrow> string list" where
  "runes [] = []"
| "runes (c # cs) =
     (case utf8_rest c of
        None \<Rightarrow> replacement # runes cs
      | Some tests \<Rightarrow>
          if length tests \<le> length cs \<and> list_all2 (\<lambda>p x. p x) tests (take (length tests) cs)
          then (c # take (length tests) cs) # runes (drop (length tests) cs)
          else replacement # runes cs)"
  by pat_completeness auto
termination by (relation "measure length") auto

definition boundedSummary :: "string \<Rightarrow> string" where
  "boundedSummary s =
     (if length (runes s) \<le> maxObservationSummaryRunes then s
      else concat (take maxObservationSummaryRunes (runes s)))"

text \<open>\<open>appendRefs\<close> loops over the groups with what it has so far.\<close>

fun append_groups :: "ArtifactRef list \<Rightarrow> ArtifactRef list list \<Rightarrow> ArtifactRef list" where
  "append_groups refs [] = refs"
| "append_groups refs (refs' # groups) =
     (let remaining = int maxObservationRefs - int (length refs) in
      if remaining \<le> 0 then refs
      else append_groups (refs @ (if int (length refs') > remaining then take (nat remaining) refs' else refs')) groups)"

definition appendRefs :: "ArtifactRef list list \<Rightarrow> ArtifactRef list" where
  "appendRefs groups = append_groups [] groups"

definition boundedRefs :: "ArtifactRef list \<Rightarrow> ArtifactRef list" where
  "boundedRefs values = (if length values > maxObservationRefs then take maxObservationRefs values else values)"

definition feedbackMessage :: "string \<Rightarrow> string \<Rightarrow> Message" where
  "feedbackMessage role text = \<lparr>ms_Role = role, ms_Parts = [text_part text], ms_ToolCalls = [], ms_ToolCallID = []\<rparr>"

record toolObservationRequest =
  to_callID :: string
  to_name :: string
  to_kind :: ObservationKind
  to_text :: string
  to_refs :: "ArtifactRef list"
  to_retry :: "RetryHint option"

definition build_observation :: "toolObservationRequest \<Rightarrow> Observation" where
  "build_observation q =
     \<lparr>ob_ID = to_callID q, ob_Kind = to_kind q,
      ob_Source = \<lparr>os_Kind = ObservationSourceToolOutcome, os_ID = to_callID q\<rparr>,
      ob_Subject = \<lparr>oj_ToolCallID = to_callID q, oj_ToolName = to_name q, oj_GuardName = [], oj_SubjectRef = []\<rparr>,
      ob_Message = \<lparr>ms_Role = MessageRoleTool, ms_Parts = [text_part (to_text q)], ms_ToolCalls = [],
                    ms_ToolCallID = to_callID q\<rparr>,
      ob_Summary = boundedSummary (to_text q), ob_Refs = boundedRefs (to_refs q), ob_RetryHint = to_retry q\<rparr>"

definition invalid_observation :: "string \<Rightarrow> goerr" where
  "invalid_observation text = Wrap text [Sentinel ErrInvalidObservation]"

definition validateToolIdentity :: "string \<Rightarrow> string \<Rightarrow> goerr option" where
  "validateToolIdentity callID name =
     (if callID = [] \<or> name = [] then Some (invalid_observation ''tool call id and name are required'') else None)"

definition observeToolResult :: "string \<Rightarrow> string \<Rightarrow> ToolResult \<Rightarrow> goerr + Observation" where
  "observeToolResult callID name r =
     (case validateToolIdentity callID name of
        Some e \<Rightarrow> Inl e
      | None \<Rightarrow> Inr (build_observation
          \<lparr>to_callID = callID, to_name = name, to_kind = ObservationToolResult,
           to_text = (if tr_Preview r = [] then ''tool '' @ name @ '' completed'' else tr_Preview r),
           to_refs = appendRefs [tr_ArtifactRefs r, tr_EffectRefs r], to_retry = None\<rparr>))"

definition observeToolRejection :: "string \<Rightarrow> string \<Rightarrow> ToolRejection \<Rightarrow> goerr + Observation" where
  "observeToolRejection callID name r =
     (case validateToolIdentity callID name of
        Some e \<Rightarrow> Inl e
      | None \<Rightarrow>
          (let text = (if tj_Message r = [] then tj_Reason r else tj_Message r) in
           if text = [] then Inl (invalid_observation ''tool rejection feedback is required'')
           else Inr (build_observation
             \<lparr>to_callID = callID, to_name = name, to_kind = ObservationToolRejected, to_text = text,
              to_refs = [], to_retry = tj_RetryHint r\<rparr>)))"

definition observeToolError :: "string \<Rightarrow> string \<Rightarrow> ToolError \<Rightarrow> goerr + Observation" where
  "observeToolError callID name r =
     (case validateToolIdentity callID name of
        Some e \<Rightarrow> Inl e
      | None \<Rightarrow>
          if \<not> te_RetryableForModel r \<and> te_Feedback r = []
            then Inl (Wrap (te_Kind r) [Sentinel ErrToolOutcomeNotObservable])
          else (let text = (if te_Feedback r = [] then te_Message r else te_Feedback r) in
            if text = [] then Inl (invalid_observation ''tool error feedback is required'')
            else Inr (build_observation
              \<lparr>to_callID = callID, to_name = name, to_kind = ObservationToolError, to_text = text,
               to_refs = te_PartialRefs r,
               to_retry = Some \<lparr>rh_Retryable = te_RetryableForModel r, rh_Message = text\<rparr>\<rparr>)))"

fun observe_outcome :: "ToolOutcome \<Rightarrow> goerr + Observation" where
  "observe_outcome (ToolResultOutcome i n r) = observeToolResult i n r"
| "observe_outcome (ToolRejectedOutcome i n r) = observeToolRejection i n r"
| "observe_outcome (ToolErrorOutcome i n r) = observeToolError i n r"
| "observe_outcome (ToolInterruptOutcome i n r) = Inl (Wrap ''tool interrupt'' [Sentinel ErrToolOutcomeNotObservable])"

fun ObserveToolOutcome :: "any_outcome \<Rightarrow> goerr + Observation" where
  "ObserveToolOutcome (Outcome o') = observe_outcome o'"
| "ObserveToolOutcome (OutcomePointer o') = observe_outcome o'"
| "ObserveToolOutcome (NilPointer p) =
     (case p of
        ResultPointer \<Rightarrow> Inl (invalid_observation ''nil tool result'')
      | RejectedPointer \<Rightarrow> Inl (invalid_observation ''nil tool rejection'')
      | ErrorPointer \<Rightarrow> Inl (invalid_observation ''nil tool error'')
      | InterruptPointer \<Rightarrow> Inl (Wrap ''tool interrupt'' [Sentinel ErrToolOutcomeNotObservable]))"
| "ObserveToolOutcome NilOutcome = Inl (invalid_observation ''nil tool outcome'')"
| "ObserveToolOutcome ForeignOutcome = Inl (invalid_observation ''unsupported tool outcome'')"

definition ObserveGuardRejection :: "GuardRejection \<Rightarrow> goerr + Observation" where
  "ObserveGuardRejection r =
     (if gr_ID r = [] \<or> gr_GuardName r = [] then Inl (invalid_observation ''guard rejection identity is required'')
      else (let text = (if gr_Message r = [] then gr_Reason r else gr_Message r) in
        if text = [] then Inl (invalid_observation ''guard rejection feedback is required'')
        else Inr
          \<lparr>ob_ID = gr_ID r, ob_Kind = ObservationGuardRejected,
           ob_Source = \<lparr>os_Kind = ObservationSourceGuardRejection, os_ID = gr_ID r\<rparr>,
           ob_Subject = \<lparr>oj_ToolCallID = [], oj_ToolName = [], oj_GuardName = gr_GuardName r,
                         oj_SubjectRef = gr_SubjectRef r\<rparr>,
           ob_Message = feedbackMessage MessageRoleSystem text, ob_Summary = boundedSummary text,
           ob_Refs = [], ob_RetryHint = gr_RetryHint r\<rparr>))"

definition ObserveRepairRequest :: "string \<Rightarrow> RepairRequest \<Rightarrow> goerr + Observation" where
  "ObserveRepairRequest i r =
     (if i = [] then Inl (invalid_observation ''repair observation id is required'')
      else if ms_Parts (rp_Message r) = [] \<and> rp_Reason r = []
        then Inl (invalid_observation ''repair feedback is required'')
      else Inr
        \<lparr>ob_ID = i, ob_Kind = ObservationModelFeedback,
         ob_Source = \<lparr>os_Kind = ObservationSourceModelFeedback, os_ID = i\<rparr>,
         ob_Subject = \<lparr>oj_ToolCallID = [], oj_ToolName = [], oj_GuardName = [], oj_SubjectRef = rp_Ref r\<rparr>,
         ob_Message = (if ms_Parts (rp_Message r) = [] then feedbackMessage MessageRoleSystem (rp_Reason r)
                       else rp_Message r),
         ob_Summary = boundedSummary (rp_Reason r), ob_Refs = [], ob_RetryHint = None\<rparr>)"

section \<open>Bounds of observations\<close>

text \<open>The bytes of one rune.\<close>

definition rune :: "string \<Rightarrow> bool" where
  "rune r \<longleftrightarrow> (\<exists>c cs tests. r = c # cs \<and> utf8_rest c = Some tests \<and> length tests = length cs \<and> list_all2 (\<lambda>p x. p x) tests cs)"

lemma rune_replacement: "rune replacement"
proof -
  have "utf8_rest (char_of (0xEF :: nat)) = Some [continuation, continuation]"
    by (simp add: utf8_rest_def byte_in_def)
  then show ?thesis
    by (auto simp: rune_def replacement_def continuation_def byte_in_def)
qed

lemma runes_append:
  assumes "rune r"
  shows "runes (r @ s) = r # runes s" "utf8_valid (r @ s) \<longleftrightarrow> utf8_valid s"
proof -
  obtain c cs tests where "r = c # cs" "utf8_rest c = Some tests" "length tests = length cs"
    "list_all2 (\<lambda>p x. p x) tests cs"
    using assms by (auto simp: rune_def)
  then show "runes (r @ s) = r # runes s" "utf8_valid (r @ s) \<longleftrightarrow> utf8_valid s" by simp_all
qed

lemma runes_are_runes: "list_all rune (runes s)"
proof (induction s rule: runes.induct)
  case (2 c cs)
  show ?case
  proof (cases "utf8_rest c")
    case None
    with 2 show ?thesis by (simp add: rune_replacement)
  next
    case (Some tests)
    show ?thesis
    proof (cases "length tests \<le> length cs \<and> list_all2 (\<lambda>p x. p x) tests (take (length tests) cs)")
      case True
      then have "rune (c # take (length tests) cs)" using Some by (auto simp: rune_def)
      with 2 Some True show ?thesis by simp
    next
      case False
      with 2 Some show ?thesis by (auto simp: rune_replacement)
    qed
  qed
qed simp

lemma runes_concat: "list_all rune rs \<Longrightarrow> runes (concat rs) = rs \<and> utf8_valid (concat rs)"
  by (induction rs) (simp_all add: runes_append)

lemma runes_of_take: "runes (concat (take n (runes s))) = take n (runes s) \<and> utf8_valid (concat (take n (runes s)))"
proof (rule runes_concat)
  have "\<forall>r \<in> set (runes s). rune r" using runes_are_runes by (rule list_all_iff [THEN iffD1])
  then show "list_all rune (take n (runes s))" unfolding list_all_iff by (blast dest: in_set_takeD)
qed

lemma concat_runes: "utf8_valid s \<Longrightarrow> concat (runes s) = s"
proof (induction s rule: runes.induct)
  case (2 c cs)
  have "utf8_rest c \<noteq> None"
  proof
    assume none: "utf8_rest c = None"
    from "2.prems" show False unfolding utf8_valid.simps none option.case .
  qed
  then obtain tests where tests: "utf8_rest c = Some tests" by blast
  have all: "length tests \<le> length cs \<and> list_all2 (\<lambda>p x. p x) tests (take (length tests) cs) \<and>
      utf8_valid (drop (length tests) cs)"
    using "2.prems" unfolding utf8_valid.simps tests option.case .
  note ok = all [THEN conjunct1] all [THEN conjunct2, THEN conjunct1] and rest = all [THEN conjunct2, THEN conjunct2]
  have "concat (runes (drop (length tests) cs)) = drop (length tests) cs"
    by (rule "2.IH"(2) [OF tests conjI [OF ok] rest])
  moreover have "runes (c # cs) = (c # take (length tests) cs) # runes (drop (length tests) cs)"
    by (subst runes.simps, subst tests, subst option.case, rule if_P, rule conjI [OF ok])
  ultimately show ?case by (simp only: concat.simps append_Cons append_take_drop_id)
qed simp

declare runes.simps(2) [simp del]

lemma boundedSummary_short: "length (runes (boundedSummary s)) \<le> maxObservationSummaryRunes"
  by (simp add: boundedSummary_def runes_of_take)

lemma boundedSummary_valid:
  assumes "utf8_valid s"
  shows "utf8_valid (boundedSummary s) \<and> runes (boundedSummary s) = take maxObservationSummaryRunes (runes s)"
  using assms runes_of_take by (simp add: boundedSummary_def)

lemma append_groups_take:
  "length refs \<le> maxObservationRefs \<Longrightarrow> append_groups refs gs = take maxObservationRefs (refs @ concat gs)"
proof (induction gs arbitrary: refs)
  case (Cons g gs)
  show ?case
  proof (cases "length refs = maxObservationRefs")
    case False
    with Cons.prems have room: "int maxObservationRefs - int (length refs) > 0" by simp
    define more where "more = take (maxObservationRefs - length refs) g"
    have "append_groups refs (g # gs) = append_groups (refs @ more) gs"
      using room by (auto simp: more_def Let_def nat_diff_distrib)
    moreover have "length (refs @ more) \<le> maxObservationRefs" using Cons.prems by (simp add: more_def)
    ultimately have "append_groups refs (g # gs) = take maxObservationRefs ((refs @ more) @ concat gs)"
      using Cons.IH [of "refs @ more"] by simp
    also have "\<dots> = take maxObservationRefs (refs @ concat (g # gs))"
      using Cons.prems by (cases "length g \<le> maxObservationRefs - length refs") (simp_all add: more_def)
    finally show ?thesis .
  qed (simp add: Let_def)
qed simp

lemma appendRefs_take: "appendRefs gs = take maxObservationRefs (concat gs)"
  by (simp add: appendRefs_def append_groups_take)

lemma boundedRefs_take: "boundedRefs refs = take maxObservationRefs refs"
  by (simp add: boundedRefs_def)

text \<open>What the three functions of the package produce.\<close>

definition observed :: "Observation \<Rightarrow> bool" where
  "observed ob \<longleftrightarrow> (\<exists>v. ObserveToolOutcome v = Inr ob) \<or> (\<exists>r. ObserveGuardRejection r = Inr ob) \<or>
     (\<exists>i r. ObserveRepairRequest i r = Inr ob)"

lemma observe_outcome_result:
  assumes "observe_outcome v = Inr ob"
  obtains q where "ob = build_observation q" "to_callID q = ToolCallID v" "to_name q = ToolName v" "to_text q \<noteq> []"
    "ToolCallID v \<noteq> []" "ToolName v \<noteq> []"
  using assms
  by (cases v)
    (auto simp: observeToolResult_def observeToolRejection_def observeToolError_def validateToolIdentity_def Let_def
      split: if_splits)

lemma observed_cases:
  assumes "observed ob"
  shows "ob_ID ob \<noteq> [] \<and> os_ID (ob_Source ob) = ob_ID ob \<and> ms_Parts (ob_Message ob) \<noteq> [] \<and>
    (\<exists>text. ob_Summary ob = boundedSummary text) \<and> (\<exists>refs. ob_Refs ob = boundedRefs refs)"
proof -
  have tool: ?thesis if "observe_outcome v = Inr ob" for v
    using that by (rule observe_outcome_result) (auto simp: build_observation_def)
  have none: "\<exists>refs. [] = boundedRefs refs" by (intro exI [of _ "[]"]) (simp add: boundedRefs_def)
  from assms show ?thesis
    unfolding observed_def
  proof (elim disjE exE)
    fix v assume "ObserveToolOutcome v = Inr ob"
    then show ?thesis by (cases v) (auto intro!: tool split: outcome_pointer.splits)
  next
    fix r assume "ObserveGuardRejection r = Inr ob"
    with none show ?thesis
      by (auto simp: ObserveGuardRejection_def feedbackMessage_def Let_def split: if_splits)
  next
    fix i r assume "ObserveRepairRequest i r = Inr ob"
    with none show ?thesis
      by (auto simp: ObserveRepairRequest_def feedbackMessage_def split: if_splits)
  qed
qed


definition long_result :: ToolOutcome where
  "long_result = ToolResultOutcome ''call-1'' ''grep''
     \<lparr>tr_DataRef = [], tr_ArtifactRefs = replicate 40 \<lparr>af_URI = ''u'', af_Kind = [], af_Digest = []\<rparr>,
      tr_EffectRefs = replicate 40 \<lparr>af_URI = ''v'', af_Kind = [], af_Digest = []\<rparr>, tr_Preview = replicate 600 CHR ''x''\<rparr>"


end
