(* ===== verification/Directories.thy ===== *)
theory Directories
  imports Agents Invocation
begin

text \<open>
  The directory of agents (\<open>catalog.go\<close>): a builder that agents and adapted invokables are added to, what it
  compiles to, the run options that pass an adapter's boundary (\<open>foreignRunOptions\<close>), and the chunks of a workflow agent (\<open>agent/workflow.go\<close>).
\<close>

section \<open>Agents\<close>

text \<open>An agent is its identity and its \<open>Invoke\<close>, which answers with a response even where it fails.\<close>

type_synonym 'w invoke_agent = "Request \<Rightarrow> 'w RunOption option list \<Rightarrow> 'w \<Rightarrow> (goerr option \<times> Response) \<times> 'w"

record 'w Agent =
  ag_identity :: Identity
  ag_invoke :: "'w invoke_agent"

definition zero_Response :: Response where
  "zero_Response = \<lparr>ap_Message = \<lparr>ms_Role = [], ms_Parts = [], ms_ToolCalls = [], ms_ToolCallID = []\<rparr>,
     ap_Artifacts = [], ap_Metadata = fmempty\<rparr>"

definition validateCatalogIdentity :: "Identity \<Rightarrow> goerr option" where
  "validateCatalogIdentity i =
     (if ai_Name i = [] \<or> ai_Description i = [] \<or> ai_Version i = []
      then Some (Wrap ''name, description, and version are required'' [Sentinel ErrInvalidIdentity]) else None)"

section \<open>The boundary of an adapter\<close>

text \<open>
  Only identities, lineage, generators and sinks pass; extensions of the workflow package do not. The
  generators are ranged over in the order \<open>kinds\<close>.
\<close>

definition foreignRunOptions :: "string list \<Rightarrow> 'w RunOption option list \<Rightarrow> goerr + 'w RunOption option list" where
  "foreignRunOptions kinds options =
     (let config = ResolveRunOptions options in
      case RunConfigError config of
        Some e \<Rightarrow> Inl e
      | None \<Rightarrow> Inr (
          (if rc_SessionID config \<noteq> [] then [Some (WithSessionID (rc_SessionID config))] else []) @
          (if rc_RunID config \<noteq> [] then [Some (WithRunID (rc_RunID config))] else []) @
          (if rc_Lineage config \<noteq> zero_lineage then [Some (WithRunLineage (rc_Lineage config))] else []) @
          map (\<lambda>kind. Some (WithIDGenerator kind (rc_idGenerators config kind))) kinds @
          map (\<lambda>sink. Some (WithEventSink (Some sink))) (rc_EventSinks config)))"

text \<open>\<open>Adapter\<close> and the invokable behind it, of input type \<open>'i\<close> and output type \<open>'o\<close>.\<close>

record ('i, 'o, 'w) Adapter =
  ad_Input :: "(Request \<Rightarrow> 'w \<Rightarrow> (goerr + 'i) \<times> 'w) option"
  ad_Output :: "('o \<Rightarrow> 'w \<Rightarrow> (goerr + Response) \<times> 'w) option"

type_synonym ('i, 'o, 'w) Invokable = "'i \<Rightarrow> 'w RunOption option list \<Rightarrow> 'w \<Rightarrow> (goerr + 'o) \<times> 'w"

definition failed_response :: "goerr \<Rightarrow> goerr option \<times> Response" where
  "failed_response e = (Some e, zero_Response)"

definition adapted_invoke ::
  "(('w RunOption option list) \<Rightarrow> string list) \<Rightarrow> (Request \<Rightarrow> 'w \<Rightarrow> (goerr + 'i) \<times> 'w) \<Rightarrow> ('i, 'o, 'w) Invokable
   \<Rightarrow> ('o \<Rightarrow> 'w \<Rightarrow> (goerr + Response) \<times> 'w) \<Rightarrow> 'w invoke_agent" where
  "adapted_invoke kinds adaptInput target adaptOutput request options w =
     (case foreignRunOptions (kinds options) options of
        Inl e \<Rightarrow> (failed_response e, w)
      | Inr foreignOptions \<Rightarrow>
     (case adaptInput request w of
        (Inl e, w1) \<Rightarrow> (failed_response (Wrap ''agent: adapt input'' [e]), w1)
      | (Inr input, w1) \<Rightarrow>
     (case target input foreignOptions w1 of
        (Inl e, w2) \<Rightarrow> (failed_response (Wrap ''agent: invoke'' [e]), w2)
      | (Inr out, w2) \<Rightarrow>
     (case adaptOutput out w2 of
        (Inl e, w3) \<Rightarrow> (failed_response (Wrap ''agent: adapt output'' [e]), w3)
      | (Inr response, w3) \<Rightarrow> ((None, response), w3)))))"

section \<open>The catalog\<close>

record 'w Directory =
  di_bindings :: "string \<rightharpoonup> 'w Agent"
  di_identities :: "Identity list"

record 'w Catalog =
  ca_bindings :: "string \<rightharpoonup> 'w Agent"
  ca_order :: "string list"
  ca_compiled :: "'w Directory option"
  ca_frozen :: bool

definition NewCatalog :: "'w Catalog" where
  "NewCatalog = \<lparr>ca_bindings = Map.empty, ca_order = [], ca_compiled = None, ca_frozen = False\<rparr>"

text \<open>Adding to a compiled catalog panics; None is that panic.\<close>

definition catalog_add :: "'w Agent \<Rightarrow> 'w Catalog \<Rightarrow> (goerr option \<times> 'w Catalog) option" where
  "catalog_add binding c =
     (let name = ai_Name (ag_identity binding) in
      if ca_frozen c then None
      else if ca_bindings c name \<noteq> None then Some (Some (Wrap name [Sentinel ErrDuplicateAgent]), c)
      else Some (None, c\<lparr>ca_bindings := (ca_bindings c)(name \<mapsto> binding), ca_order := ca_order c @ [name]\<rparr>))"

text \<open>\<open>Add\<close>; None is a nil target.\<close>

definition Catalog_Add :: "'w Agent option \<Rightarrow> 'w Catalog \<Rightarrow> (goerr option \<times> 'w Catalog) option" where
  "Catalog_Add target c =
     (case target of
        None \<Rightarrow> Some (Some (Msg ''agent: catalog target is nil''), c)
      | Some a \<Rightarrow>
          (case validateCatalogIdentity (ag_identity a) of
             Some e \<Rightarrow> Some (Some e, c)
           | None \<Rightarrow> catalog_add a c))"

definition Catalog_AddInvokable ::
  "(('w RunOption option list) \<Rightarrow> string list) \<Rightarrow> Identity \<Rightarrow> ('i, 'o, 'w) Invokable option \<Rightarrow> ('i, 'o, 'w) Adapter
   \<Rightarrow> 'w Catalog \<Rightarrow> (goerr option \<times> 'w Catalog) option" where
  "Catalog_AddInvokable kinds i target adapter c =
     (case validateCatalogIdentity i of
        Some e \<Rightarrow> Some (Some e, c)
      | None \<Rightarrow>
          (case (target, ad_Input adapter, ad_Output adapter) of
             (None, _, _) \<Rightarrow> Some (Some (Msg ''agent: catalog target is nil''), c)
           | (Some f, Some adaptInput, Some adaptOutput) \<Rightarrow>
               catalog_add \<lparr>ag_identity = i, ag_invoke = adapted_invoke kinds adaptInput f adaptOutput\<rparr> c
           | (Some f, _, _) \<Rightarrow> Some (Some (Msg ''agent: catalog adapter input and output are required''), c)))"

definition Catalog_Compile :: "'w Catalog \<Rightarrow> 'w Directory \<times> 'w Catalog" where
  "Catalog_Compile c =
     (case ca_compiled c of
        Some d \<Rightarrow> (d, c)
      | None \<Rightarrow>
          (let d = \<lparr>di_bindings = (\<lambda>name. if name \<in> set (ca_order c) then ca_bindings c name else None),
                    di_identities = map (\<lambda>name. ag_identity (the (ca_bindings c name))) (ca_order c)\<rparr> in
           (d, c\<lparr>ca_frozen := True, ca_compiled := Some d\<rparr>)))"

definition Lookup :: "'w Directory \<Rightarrow> string \<Rightarrow> 'w Agent option" where
  "Lookup d name = (if name = [] then None else di_bindings d name)"

definition List_identities :: "'w Directory \<Rightarrow> Identity list" where
  "List_identities d = di_identities d"

section \<open>What passes a boundary\<close>

text \<open>What the options of the library make of a configuration that reports no error.\<close>

definition sound_config :: "'w RunConfig \<Rightarrow> bool" where
  "sound_config c \<longleftrightarrow>
     (rc_SessionID c \<noteq> [] \<longleftrightarrow> rc_sessionIDSet c) \<and> (rc_RunID c \<noteq> [] \<longleftrightarrow> rc_runIDSet c) \<and>
     (rc_Lineage c \<noteq> zero_lineage \<longleftrightarrow> rc_lineageSet c) \<and>
     (rc_lineageSet c \<longrightarrow> ln_ParentRunID (rc_Lineage c) \<noteq> [] \<and> 1 < ln_Depth (rc_Lineage c)) \<and>
     [] \<notin> dom (rc_idGenerators c)"

lemma sound_option:
  assumes "sound_config c" "\<not> is_custom f"
  shows "sound_config (ApplyRunOption f c)"
  using assms
  by (cases f)
    (auto simp: sound_config_def ConstrainSessionID_def ConstrainRunID_def ConstrainRunLineage_def
      ConstrainIDGenerator_def resume_option_def controlStartOption_def forkAssociationOption_def zero_lineage_def Let_def
      split: option.splits)

lemma sound_options:
  assumes "\<forall>f. Some f \<in> set options \<longrightarrow> \<not> is_custom f"
  shows "sound_config (ResolveRunOptions options)"
  using assms
proof (induction options rule: rev_induct)
  case Nil
  show ?case by (simp add: ResolveRunOptions_def sound_config_def zero_config_def)
next
  case (snoc opt options)
  then have "sound_config (ResolveRunOptions options)" by simp
  with snoc.prems show ?case
    by (cases opt) (simp_all add: ResolveRunOptions_def sound_option)
qed

lemma apply_generators_map:
  assumes "\<forall>k \<in> set kinds. k \<noteq> [] \<and> gens k \<noteq> None"
  shows "apply_options c (map (\<lambda>kind. Some (WithIDGenerator kind (gens kind))) kinds) =
    c\<lparr>rc_idGenerators := (\<lambda>k. if k \<in> set kinds then gens k else rc_idGenerators c k)\<rparr>"
  using assms
proof (induction kinds arbitrary: c)
  case Nil
  show ?case by simp
next
  case (Cons k ks)
  then obtain g where g: "gens k = Some g" "k \<noteq> []" by auto
  let ?c = "c\<lparr>rc_idGenerators := (rc_idGenerators c)(k \<mapsto> g)\<rparr>"
  have k: "ConstrainIDGenerator k (gens k) c = ?c"
    using g by (simp add: ConstrainIDGenerator_def)
  have "apply_options ?c (map (\<lambda>kind. Some (WithIDGenerator kind (gens kind))) ks) =
      ?c\<lparr>rc_idGenerators := (\<lambda>j. if j \<in> set ks then gens j else rc_idGenerators ?c j)\<rparr>"
    using Cons.IH [of ?c] Cons.prems by simp
  moreover have "(\<lambda>j. if j \<in> set ks then gens j else rc_idGenerators ?c j) =
      (\<lambda>j. if j \<in> set (k # ks) then gens j else rc_idGenerators c j)"
    using g by (rule_tac ext) simp
  ultimately show ?case by (simp add: k)
qed

lemma apply_identities:
  assumes "sound_config c"
  shows "apply_options zero_config
      ((if rc_SessionID c \<noteq> [] then [Some (WithSessionID (rc_SessionID c))] else []) @
       (if rc_RunID c \<noteq> [] then [Some (WithRunID (rc_RunID c))] else []) @
       (if rc_Lineage c \<noteq> zero_lineage then [Some (WithRunLineage (rc_Lineage c))] else [])) =
    zero_config\<lparr>rc_SessionID := rc_SessionID c, rc_sessionIDSet := rc_sessionIDSet c, rc_RunID := rc_RunID c,
      rc_runIDSet := rc_runIDSet c, rc_Lineage := rc_Lineage c, rc_lineageSet := rc_lineageSet c\<rparr>"
  using assms
  by (cases "rc_SessionID c = []"; cases "rc_RunID c = []"; cases "rc_Lineage c = zero_lineage")
    (simp_all add: sound_config_def zero_config_def ConstrainSessionID_def ConstrainRunID_def ConstrainRunLineage_def not_le)

text \<open>
  C34 (an adapter's boundary). The options that pass the boundary of an adapter are accepted and resolve to the
  configuration of the caller: same session, run, lineage, generators and sinks, and no extension, so a resume or control
  start never reaches the invokable behind an adapter.
\<close>

theorem foreign_options_faithful:
  assumes "\<forall>f. Some f \<in> set options \<longrightarrow> \<not> is_custom f"
    and "set kinds = dom (rc_idGenerators (ResolveRunOptions options))"
    and "foreignRunOptions kinds options = Inr passed"
  shows "RunConfigError (ResolveRunOptions passed) = None \<and>
    ResolveRunOptions passed = (ResolveRunOptions options)\<lparr>rc_Extensions := fmempty\<rparr>"
proof -
  define c where "c = ResolveRunOptions options"
  have sound: "sound_config c" unfolding c_def by (rule sound_options [OF assms(1)])
  have ok: "RunConfigError c = None"
    using assms(3) unfolding foreignRunOptions_def c_def [symmetric] Let_def by (cases "RunConfigError c") auto
  then have no_err: "rc_sessionIDError c = None" "rc_runIDError c = None" "rc_lineageError c = None" "rc_idGeneratorErr c = None"
    by (simp_all add: RunConfigError_None)
  define ids :: "'a RunOption option list" where "ids = (if rc_SessionID c \<noteq> [] then [Some (WithSessionID (rc_SessionID c))] else []) @
       (if rc_RunID c \<noteq> [] then [Some (WithRunID (rc_RunID c))] else []) @
       (if rc_Lineage c \<noteq> zero_lineage then [Some (WithRunLineage (rc_Lineage c))] else [])"
  define d where "d = (zero_config :: 'a RunConfig)\<lparr>rc_SessionID := rc_SessionID c, rc_sessionIDSet := rc_sessionIDSet c, rc_RunID := rc_RunID c,
      rc_runIDSet := rc_runIDSet c, rc_Lineage := rc_Lineage c, rc_lineageSet := rc_lineageSet c\<rparr>"
  have passed: "passed = ids @ map (\<lambda>kind. Some (WithIDGenerator kind (rc_idGenerators c kind))) kinds @
      map (\<lambda>sink. Some (WithEventSink (Some sink))) (rc_EventSinks c)"
    using assms(3) unfolding foreignRunOptions_def c_def [symmetric] Let_def ok option.case ids_def append_assoc by (simp only: sum.inject)
  have kinds: "\<forall>k \<in> set kinds. k \<noteq> [] \<and> rc_idGenerators c k \<noteq> None"
    using assms(2) sound unfolding c_def [symmetric] sound_config_def by auto
  have gens: "(\<lambda>k. if k \<in> set kinds then rc_idGenerators c k else rc_idGenerators d k) = rc_idGenerators c"
    using assms(2) unfolding c_def [symmetric] by (rule_tac ext) (auto simp: d_def zero_config_def)
  have "ResolveRunOptions passed = apply_options (apply_options (apply_options zero_config ids)
      (map (\<lambda>kind. Some (WithIDGenerator kind (rc_idGenerators c kind))) kinds))
      (map (\<lambda>sink. Some (WithEventSink (Some sink))) (rc_EventSinks c))"
    unfolding ResolveRunOptions_def passed by (simp only: foldl_append)
  also have "\<dots> = d\<lparr>rc_idGenerators := rc_idGenerators c, rc_EventSinks := rc_EventSinks c\<rparr>"
    unfolding ids_def apply_identities [OF sound] d_def [symmetric] apply_generators_map [OF kinds] apply_sinks gens
    by (simp add: d_def zero_config_def)
  also have "\<dots> = c\<lparr>rc_Extensions := fmempty\<rparr>"
    by (rule RunConfig.equality) (simp_all add: no_err d_def zero_config_def)
  finally show ?thesis
    unfolding c_def [symmetric] using no_err by (simp add: RunConfigError_None)
qed

theorem foreign_options_faithful_witness:
  "\<exists>passed. foreignRunOptions [] [Some (WithSessionID ''s''), Some (WithResume (no_resume\<lparr>rq_RunID := ''r''\<rparr>))] = Inr passed \<and>
     rc_RunID (ResolveRunOptions passed) = ''r'' \<and> rc_Extensions (ResolveRunOptions (passed :: unit RunOption option list)) = fmempty"
proof -
  let ?options = "[Some (WithSessionID ''s''), Some (WithResume (no_resume\<lparr>rq_RunID := ''r''\<rparr>))] :: unit RunOption option list"
  have c: "ResolveRunOptions ?options = zero_config\<lparr>rc_SessionID := ''s'', rc_sessionIDSet := True, rc_RunID := ''r'', rc_runIDSet := True,
      rc_Extensions := fmupd resumeExtensionKey (ExtResume (no_resume\<lparr>rq_RunID := ''r''\<rparr>)) fmempty\<rparr>"
    by (simp add: ResolveRunOptions_def ConstrainSessionID_def ConstrainRunID_def resume_option_def zero_config_def no_resume_def Let_def)
  have "RunConfigError (ResolveRunOptions ?options) = None"
    by (simp only: c RunConfigError_None) (simp add: zero_config_def)
  then obtain passed where passed: "foreignRunOptions [] ?options = Inr passed"
    unfolding foreignRunOptions_def Let_def by simp
  have "set [] = dom (rc_idGenerators (ResolveRunOptions ?options))" by (simp add: c zero_config_def)
  from foreign_options_faithful [OF _ this passed] passed show ?thesis by (auto simp: c)
qed

section \<open>What a directory holds\<close>

inductive catalog_reach :: "'w Catalog \<Rightarrow> bool" where
  cr_new: "catalog_reach NewCatalog"
| cr_add: "catalog_reach c \<Longrightarrow> Catalog_Add target c = Some (err, c') \<Longrightarrow> catalog_reach c'"
| cr_compile: "catalog_reach c \<Longrightarrow> Catalog_Compile c = (d, c') \<Longrightarrow> catalog_reach c'"

text \<open>Adding an adapted invokable is adding an agent, or refusing.\<close>

lemma AddInvokable_adds:
  assumes "Catalog_AddInvokable kinds i target adapter c = r"
  shows "(\<exists>err. r = Some (Some err, c)) \<or> (\<exists>a. ag_identity a = i \<and> r = Catalog_Add (Some a) c)"
proof (cases "\<exists>f g h. target = Some f \<and> ad_Input adapter = Some g \<and> ad_Output adapter = Some h")
  case True
  then obtain f g h where "target = Some f" "ad_Input adapter = Some g" "ad_Output adapter = Some h" by blast
  with assms show ?thesis
    by (intro disjI2 exI [of _ "\<lparr>ag_identity = i, ag_invoke = adapted_invoke kinds g f h\<rparr>"])
      (cases "validateCatalogIdentity i"; simp add: Catalog_AddInvokable_def Catalog_Add_def)
next
  case False
  with assms show ?thesis
    by (intro disjI1) (auto simp: Catalog_AddInvokable_def split: option.splits)
qed

definition directory_of :: "'w Catalog \<Rightarrow> 'w Directory" where
  "directory_of c = \<lparr>di_bindings = (\<lambda>name. if name \<in> set (ca_order c) then ca_bindings c name else None),
     di_identities = map (\<lambda>name. ag_identity (the (ca_bindings c name))) (ca_order c)\<rparr>"

definition catalog_inv :: "'w Catalog \<Rightarrow> bool" where
  "catalog_inv c \<longleftrightarrow> distinct (ca_order c) \<and> set (ca_order c) = dom (ca_bindings c) \<and>
     (\<forall>name a. ca_bindings c name = Some a \<longrightarrow> ai_Name (ag_identity a) = name \<and> name \<noteq> []) \<and>
     (\<forall>d. ca_compiled c = Some d \<longrightarrow> d = directory_of c) \<and> (ca_compiled c = None \<longleftrightarrow> \<not> ca_frozen c)"

lemma directory_of_frozen: "directory_of (c\<lparr>ca_frozen := x, ca_compiled := y\<rparr>) = directory_of c"
  by (simp add: directory_of_def cong: if_cong)

lemma Catalog_Compile_cases:
  "Catalog_Compile c = (case ca_compiled c of Some d \<Rightarrow> (d, c)
     | None \<Rightarrow> (directory_of c, c\<lparr>ca_frozen := True, ca_compiled := Some (directory_of c)\<rparr>))"
  by (simp add: Catalog_Compile_def directory_of_def Let_def split: option.split)

lemma catalog_reach_inv: "catalog_reach c \<Longrightarrow> catalog_inv c"
proof (induction rule: catalog_reach.induct)
  case cr_new
  show ?case by (simp add: catalog_inv_def NewCatalog_def)
next
  case (cr_add c target err c')
  show ?case
  proof (cases "c' = c")
    case False
    with cr_add.hyps(2) obtain a where a: "target = Some a" "ai_Name (ag_identity a) \<noteq> []" "catalog_add a c = Some (err, c')"
      by (auto simp: Catalog_Add_def validateCatalogIdentity_def split: option.splits if_splits)
    with False have "ca_bindings c (ai_Name (ag_identity a)) = None" "\<not> ca_frozen c"
      "c' = c\<lparr>ca_bindings := (ca_bindings c)(ai_Name (ag_identity a) \<mapsto> a), ca_order := ca_order c @ [ai_Name (ag_identity a)]\<rparr>"
      by (auto simp: catalog_add_def Let_def split: if_splits)
    with cr_add.IH a(2) show ?thesis by (auto simp: catalog_inv_def)
  qed (use cr_add.IH in simp)
next
  case (cr_compile c d c')
  show ?case
  proof (cases "ca_compiled c")
    case None
    with cr_compile.hyps(2) have "c' = c\<lparr>ca_frozen := True, ca_compiled := Some (directory_of c)\<rparr>"
      by (auto simp: Catalog_Compile_cases)
    with cr_compile.IH show ?thesis unfolding catalog_inv_def by (simp add: directory_of_frozen)
  next
    case (Some d')
    with cr_compile show ?thesis by (simp add: Catalog_Compile_cases)
  qed
qed

text \<open>
  Directories. A directory lists its agents once each in the order of their addition and finds exactly
  the listed ones by name; after the compilation the catalog panics on any further addition and compiles to
  the same directory.
\<close>

theorem directory_complete:
  assumes "catalog_reach c" "Catalog_Compile c = (d, c')"
  shows "map ai_Name (List_identities d) = ca_order c \<and> distinct (ca_order c) \<and>
    (\<forall>name a. Lookup d name = Some a \<longrightarrow> ai_Name (ag_identity a) = name) \<and>
    set (List_identities d) = {ag_identity a | name a. Lookup d name = Some a} \<and>
    Catalog_Compile c' = (d, c') \<and> (\<forall>a. catalog_add a c' = None)"
proof -
  have inv: "catalog_inv c" by (rule catalog_reach_inv [OF assms(1)])
  have compiled: "d = directory_of c \<and> ca_frozen c' \<and> ca_compiled c' = Some d"
    using inv assms(2) by (cases "ca_compiled c") (auto simp: Catalog_Compile_cases catalog_inv_def)
  have named: "ai_Name (ag_identity a) = name" "name \<noteq> []" "name \<in> set (ca_order c)"
    if "ca_bindings c name = Some a" for name a
    using inv that unfolding catalog_inv_def by auto
  have bound: "\<exists>a. ca_bindings c name = Some a" if "name \<in> set (ca_order c)" for name
    using inv that unfolding catalog_inv_def by auto
  have lookup: "Lookup d name = ca_bindings c name" for name
  proof (cases "ca_bindings c name")
    case None
    with bound show ?thesis by (simp add: Lookup_def compiled directory_of_def)
  next
    case (Some a)
    with named show ?thesis by (simp add: Lookup_def compiled directory_of_def)
  qed
  have listed: "List_identities d = map (\<lambda>name. ag_identity (the (ca_bindings c name))) (ca_order c)"
    by (simp add: List_identities_def compiled directory_of_def)
  have "map ai_Name (List_identities d) = ca_order c"
    unfolding listed map_map by (rule map_idI) (use named(1) bound in force)
  moreover have "set (List_identities d) = {ag_identity a | name a. Lookup d name = Some a}"
  proof (intro set_eqI iffI)
    fix i assume "i \<in> set (List_identities d)"
    then obtain name where "name \<in> set (ca_order c)" "i = ag_identity (the (ca_bindings c name))"
      unfolding listed by auto
    then show "i \<in> {ag_identity a | name a. Lookup d name = Some a}" using bound [of name] unfolding lookup by force
  next
    fix i assume "i \<in> {ag_identity a | name a. Lookup d name = Some a}"
    then obtain name a where a: "i = ag_identity a" "ca_bindings c name = Some a" unfolding lookup by blast
    then have "i = ag_identity (the (ca_bindings c name))" by simp
    with named(3) [OF a(2)] show "i \<in> set (List_identities d)" unfolding listed by auto
  qed
  moreover have "Catalog_Compile c' = (d, c')" using compiled by (simp add: Catalog_Compile_cases)
  moreover have "catalog_add a c' = None" for a using compiled by (simp add: catalog_add_def)
  moreover have "distinct (ca_order c)" using inv by (simp add: catalog_inv_def)
  ultimately show ?thesis using named(1) unfolding lookup by blast
qed

definition sample_agent :: "string \<Rightarrow> unit Agent" where
  "sample_agent name = \<lparr>ag_identity = \<lparr>ai_Name = name, ai_Description = ''d'', ai_Version = ''1''\<rparr>,
     ag_invoke = (\<lambda>request options w. ((None, zero_Response), w))\<rparr>"

theorem directory_complete_witness:
  "\<exists>c d c'. catalog_reach c \<and> Catalog_Compile c = (d, c') \<and> map ai_Name (List_identities d) = [''b'', ''a''] \<and>
     catalog_add (sample_agent ''z'') c' = None"
proof -
  obtain c1 where 1: "Catalog_Add (Some (sample_agent ''b'')) NewCatalog = Some (None, c1)" "ca_order c1 = [''b'']"
    "ca_bindings c1 ''a'' = None" "\<not> ca_frozen c1"
    by (simp add: Catalog_Add_def sample_agent_def validateCatalogIdentity_def catalog_add_def NewCatalog_def Let_def)
  then obtain c2 where 2: "Catalog_Add (Some (sample_agent ''a'')) c1 = Some (None, c2)" "ca_order c2 = [''b'', ''a'']"
    by (simp add: Catalog_Add_def sample_agent_def validateCatalogIdentity_def catalog_add_def Let_def)
  obtain d c' where d: "Catalog_Compile c2 = (d, c')" by (metis surj_pair)
  have "catalog_reach c2" by (rule cr_add [OF cr_add [OF cr_new 1(1)] 2(1)])
  from directory_complete [OF this d] this d 2(2) show ?thesis by auto
qed

section \<open>Chunks of a workflow agent\<close>

text \<open>The artifacts follow the parts of the message; the text is that of the text parts.\<close>

definition responseChunk :: "Response \<Rightarrow> Chunk" where
  "responseChunk r =
     (let parts = ms_Parts (ap_Message r) @ map artifact_part (ap_Artifacts r) in
      \<lparr>ch_Text = concat (map mp_Text (filter (\<lambda>p. mp_Type p = MessagePartTypeText) parts)), ch_Parts = parts\<rparr>)"

lemma chunk_text_from_message:
  "ch_Text (responseChunk r) =
     concat (map mp_Text (filter (\<lambda>p. mp_Type p = MessagePartTypeText) (ms_Parts (ap_Message r))))"
  by (simp add: responseChunk_def artifact_part_def MessagePartTypeText_def MessagePartTypeArtifact_def o_def)

end
