(* ===== verification/Acp.thy ===== *)
theory Acp
  imports Directories
begin

text \<open>
  Package \<open>acp\<close>: an agent behind a connection of the Agent Client Protocol (\<open>acp.go\<close>). The library that reads the wire and calls
  the handler is not part of the repository: the constructors of its content blocks and the sending of an
  update are arguments. Calls of the handler run concurrently, so they are the steps of a relation.
\<close>

section \<open>Content\<close>

text \<open>The fields of a content block that the code reads.\<close>

record ContentBlock =
  cb_Type :: string
  cb_Text :: string
  cb_Name :: string
  cb_URI :: "string option"

record protocol_names =
  pn_text :: string
  pn_resourceLink :: string
  pn_version :: int

definition protocol_error :: "string \<Rightarrow> string \<Rightarrow> goerr" where
  "protocol_error code message = Wrap code [Msg message]"

definition resourceLinkPart :: "ContentBlock \<Rightarrow> goerr + MessagePart \<times> ArtifactRef list" where
  "resourceLinkPart block =
     (case cb_URI block of
        None \<Rightarrow> Inl (protocol_error ''invalid params'' ''Resource link URI is required'')
      | Some uri \<Rightarrow>
          (let ref = \<lparr>af_URI = uri, af_Kind = cb_Name block, af_Digest = []\<rparr> in Inr (artifact_part ref, [ref])))"

definition promptPart :: "protocol_names \<Rightarrow> ContentBlock \<Rightarrow> goerr + MessagePart \<times> ArtifactRef list" where
  "promptPart names block =
     (if cb_Type block = pn_text names then Inr (text_part (cb_Text block), [])
      else if cb_Type block = pn_resourceLink names then resourceLinkPart block
      else Inl (protocol_error ''invalid params'' ''Unsupported prompt content''))"

text \<open>The loop of \<open>promptRequest\<close> over the blocks, with the parts and artifacts so far.\<close>

fun prompt_blocks ::
  "protocol_names \<Rightarrow> ContentBlock list \<Rightarrow> MessagePart list \<Rightarrow> ArtifactRef list \<Rightarrow> goerr + MessagePart list \<times> ArtifactRef list" where
  "prompt_blocks names [] parts artifacts = Inr (parts, artifacts)"
| "prompt_blocks names (block # blocks) parts artifacts =
     andthen (promptPart names block) (\<lambda>(part, refs). prompt_blocks names blocks (parts @ [part]) (artifacts @ refs))"

definition promptRequest :: "protocol_names \<Rightarrow> ContentBlock list \<Rightarrow> goerr + Request" where
  "promptRequest names blocks =
     andthen (prompt_blocks names blocks [] []) (\<lambda>(parts, artifacts). Inr
       \<lparr>aq_Messages = [\<lparr>ms_Role = MessageRoleUser, ms_Parts = parts, ms_ToolCalls = [], ms_ToolCallID = []\<rparr>],
        aq_Artifacts = artifacts, aq_Metadata = fmempty\<rparr>)"

text \<open>The connection: how blocks are made, and the call that sends one to the client.\<close>

record 'w connection =
  cn_textBlock :: "string \<Rightarrow> ContentBlock"
  cn_linkBlock :: "string \<Rightarrow> string \<Rightarrow> ContentBlock"
  cn_update :: "string \<Rightarrow> ContentBlock \<Rightarrow> 'w \<Rightarrow> goerr option \<times> 'w"

definition artifact_block :: "'w connection \<Rightarrow> ArtifactRef \<Rightarrow> ContentBlock" where
  "artifact_block cn artifact =
     cn_linkBlock cn (if af_Kind artifact = [] then af_URI artifact else af_Kind artifact) (af_URI artifact)"

definition sendArtifact :: "'w connection \<Rightarrow> string \<Rightarrow> ArtifactRef \<Rightarrow> 'w \<Rightarrow> goerr option \<times> 'w" where
  "sendArtifact cn sid artifact = cn_update cn sid (artifact_block cn artifact)"

definition sendPart :: "'w connection \<Rightarrow> string \<Rightarrow> MessagePart \<Rightarrow> 'w \<Rightarrow> goerr option \<times> 'w" where
  "sendPart cn sid part w =
     (if mp_Type part = MessagePartTypeText \<and> mp_Ref part = None then cn_update cn sid (cn_textBlock cn (mp_Text part)) w
      else (case (mp_Type part = MessagePartTypeArtifact, mp_Ref part) of
          (True, Some ref) \<Rightarrow> sendArtifact cn sid ref w
        | _ \<Rightarrow> (Some (protocol_error ''internal error'' ''Unsupported response message part''), w)))"

text \<open>Sending stops at the first failure.\<close>

fun send_each :: "('a \<Rightarrow> 'w \<Rightarrow> goerr option \<times> 'w) \<Rightarrow> 'a list \<Rightarrow> 'w \<Rightarrow> goerr option \<times> 'w" where
  "send_each send [] w = (None, w)"
| "send_each send (x # xs) w =
     (case send x w of
        (Some e, w1) \<Rightarrow> (Some e, w1)
      | (None, w1) \<Rightarrow> send_each send xs w1)"

definition sendParts :: "'w connection \<Rightarrow> string \<Rightarrow> MessagePart list \<Rightarrow> 'w \<Rightarrow> goerr option \<times> 'w" where
  "sendParts cn sid = send_each (sendPart cn sid)"

definition sendResponse :: "'w connection \<Rightarrow> string \<Rightarrow> Response \<Rightarrow> 'w \<Rightarrow> goerr option \<times> 'w" where
  "sendResponse cn sid response w =
     (case sendParts cn sid (ms_Parts (ap_Message response)) w of
        (Some e, w1) \<Rightarrow> (Some e, w1)
      | (None, w1) \<Rightarrow> send_each (sendArtifact cn sid) (ap_Artifacts response) w1)"

definition chunkParts :: "Chunk \<Rightarrow> MessagePart list" where
  "chunkParts chunk = (if ch_Parts chunk = [] \<and> ch_Text chunk \<noteq> [] then [text_part (ch_Text chunk)] else ch_Parts chunk)"

text \<open>What a streaming agent yields, chunk by chunk, up to its error.\<close>

definition stream_item :: "'w connection \<Rightarrow> string \<Rightarrow> goerr + Chunk \<Rightarrow> 'w \<Rightarrow> goerr option \<times> 'w" where
  "stream_item cn sid item w =
     (case item of Inl e \<Rightarrow> (Some e, w) | Inr chunk \<Rightarrow> sendParts cn sid (chunkParts chunk) w)"

definition acp_stream :: "'w connection \<Rightarrow> string \<Rightarrow> (goerr + Chunk) list \<Rightarrow> 'w \<Rightarrow> goerr option \<times> 'w" where
  "acp_stream cn sid = send_each (stream_item cn sid)"

section \<open>Sessions\<close>

text \<open>
  A prompt is known by its number; \<open>hd_canceled\<close> are those whose flag \<open>Cancel\<close> has set. A session holds its
  active prompt, if any.
\<close>

record handler =
  hd_ready :: bool
  hd_sessions :: "string \<rightharpoonup> nat option"
  hd_canceled :: "nat set"

definition new_handler :: handler where
  "new_handler = \<lparr>hd_ready = False, hd_sessions = Map.empty, hd_canceled = {}\<rparr>"

definition acp_Initialize :: "protocol_names \<Rightarrow> int \<Rightarrow> handler \<Rightarrow> goerr option \<times> handler" where
  "acp_Initialize names version h =
     (if version \<noteq> pn_version names then (Some (protocol_error ''invalid params'' ''Unsupported protocol version''), h)
      else (None, h\<lparr>hd_ready := True\<rparr>))"

text \<open>Random texts are drawn until the session is new; the argument is what is drawn. None runs out of them.\<close>

fun fresh_session :: "handler \<Rightarrow> string list \<Rightarrow> string option" where
  "fresh_session h [] = None"
| "fresh_session h (r # rs) =
     (let sid = ''session-'' @ r in if hd_sessions h sid = None then Some sid else fresh_session h rs)"

definition NewSession :: "string list \<Rightarrow> handler \<Rightarrow> ((goerr + string) \<times> handler) option" where
  "NewSession random h =
     (if \<not> hd_ready h then Some (Inl (protocol_error ''invalid request'' ''Agent is not initialized''), h)
      else (case fresh_session h random of
          None \<Rightarrow> None
        | Some sid \<Rightarrow> Some (Inr sid, h\<lparr>hd_sessions := (hd_sessions h)(sid \<mapsto> None)\<rparr>)))"

definition startPrompt :: "string \<Rightarrow> nat \<Rightarrow> handler \<Rightarrow> goerr option \<times> handler" where
  "startPrompt sid active h =
     (case hd_sessions h sid of
        None \<Rightarrow> (Some (protocol_error ''resource not found'' ''Session not found''), h)
      | Some (Some current) \<Rightarrow> (Some (protocol_error ''invalid request'' ''Session prompt already active''), h)
      | Some None \<Rightarrow> (None, h\<lparr>hd_sessions := (hd_sessions h)(sid \<mapsto> Some active)\<rparr>))"

definition finishPrompt :: "string \<Rightarrow> nat \<Rightarrow> handler \<Rightarrow> handler" where
  "finishPrompt sid active h =
     (if hd_sessions h sid = Some (Some active) then h\<lparr>hd_sessions := (hd_sessions h)(sid \<mapsto> None)\<rparr> else h)"

definition acp_Cancel :: "string \<Rightarrow> handler \<Rightarrow> handler" where
  "acp_Cancel sid h =
     (case hd_sessions h sid of
        Some (Some active) \<Rightarrow> h\<lparr>hd_canceled := insert active (hd_canceled h)\<rparr>
      | _ \<Rightarrow> h)"

datatype StopReason = StopReasonCanceled | StopReasonEndTurn

definition promptError :: "bool \<Rightarrow> goerr option \<Rightarrow> goerr option \<times> StopReason option" where
  "promptError canceled err = (if canceled then (None, Some StopReasonCanceled) else (err, None))"

definition promptResult :: "bool \<Rightarrow> goerr option \<Rightarrow> goerr option \<times> StopReason option" where
  "promptResult canceled err =
     (if err \<noteq> None \<or> canceled then promptError canceled err else (None, Some StopReasonEndTurn))"

text \<open>
  The target is an agent or a streaming one. \<open>prompt_run\<close> is a prompt between its start and its end: the error
  it ends with, where the code hands it to \<open>promptError\<close> or \<open>promptResult\<close>, and whether the request was
  refused before the target was called.
\<close>

datatype 'w acp_target =
    PlainAgent "'w invoke_agent"
  | StreamingTarget "Request \<Rightarrow> 'w RunOption option list \<Rightarrow> (goerr + Chunk) list"

datatype prompt_outcome = PromptRefused goerr | PromptRan "goerr option"

definition prompt_run ::
  "protocol_names \<Rightarrow> 'w connection \<Rightarrow> 'w acp_target \<Rightarrow> string \<Rightarrow> ContentBlock list \<Rightarrow> 'w \<Rightarrow> prompt_outcome \<times> 'w" where
  "prompt_run names cn target sid blocks w =
     (case promptRequest names blocks of
        Inl e \<Rightarrow> (PromptRefused e, w)
      | Inr input \<Rightarrow>
          (let options = [Some (WithSessionID sid)] in
           case target of
             StreamingTarget f \<Rightarrow> (let (err, w1) = acp_stream cn sid (f input options) w in (PromptRan err, w1))
           | PlainAgent f \<Rightarrow>
               (case f input options w of
                  ((Some e, response), w1) \<Rightarrow> (PromptRan (Some e), w1)
                | ((None, response), w1) \<Rightarrow>
                    (let (err, w2) = sendResponse cn sid response w1 in (PromptRan err, w2)))))"

fun prompt_end :: "bool \<Rightarrow> prompt_outcome \<Rightarrow> goerr option \<times> StopReason option" where
  "prompt_end canceled (PromptRefused e) = (Some e, None)"
| "prompt_end canceled (PromptRan err) = promptResult canceled err"

text \<open>\<open>Prompt\<close> without interference, with what \<open>Cancel\<close> did meanwhile as an argument.\<close>

definition Prompt ::
  "protocol_names \<Rightarrow> 'w connection \<Rightarrow> 'w acp_target \<Rightarrow> string \<Rightarrow> ContentBlock list \<Rightarrow> nat \<Rightarrow> bool \<Rightarrow> handler \<Rightarrow> 'w
   \<Rightarrow> (goerr option \<times> StopReason option) \<times> handler \<times> 'w" where
  "Prompt names cn target sid blocks active canceled h w =
     (case startPrompt sid active h of
        (Some e, h1) \<Rightarrow> ((Some e, None), h1, w)
      | (None, h1) \<Rightarrow>
          (let (out, w1) = prompt_run names cn target sid blocks w;
               h2 = (if canceled then acp_Cancel sid h1 else h1) in
           (prompt_end (active \<in> hd_canceled h2) out, finishPrompt sid active h2, w1)))"

section \<open>Concurrent calls\<close>

text \<open>
  A call of \<open>Prompt\<close> runs until it has evaluated its result and then returns through its deferred
  \<open>finishPrompt\<close>. A step is one critical section of the handler; numbers of prompts are never reused.
\<close>

datatype call_phase = CallRunning | CallReturning "goerr option \<times> StopReason option"

record acp_state =
  at_handler :: handler
  at_calls :: "nat \<rightharpoonup> string \<times> call_phase"
  at_next :: nat

datatype acp_event =
    EvInitialize int "goerr option"
  | EvNewSession "goerr + string"
  | EvRefused string goerr
  | EvStarted string nat
  | EvCancel string
  | EvEnded nat prompt_outcome "goerr option \<times> StopReason option"
  | EvReturned nat

definition acp_start :: acp_state where
  "acp_start = \<lparr>at_handler = new_handler, at_calls = Map.empty, at_next = 0\<rparr>"

inductive acp_step :: "protocol_names \<Rightarrow> acp_state \<Rightarrow> acp_event \<Rightarrow> acp_state \<Rightarrow> bool" for names where
  acp_initialize: "acp_Initialize names version (at_handler s) = (err, h) \<Longrightarrow>
    acp_step names s (EvInitialize version err) (s\<lparr>at_handler := h\<rparr>)"
| acp_new: "NewSession random (at_handler s) = Some (r, h) \<Longrightarrow> acp_step names s (EvNewSession r) (s\<lparr>at_handler := h\<rparr>)"
| acp_refuse: "startPrompt sid (at_next s) (at_handler s) = (Some e, h) \<Longrightarrow>
    acp_step names s (EvRefused sid e) (s\<lparr>at_handler := h\<rparr>)"
| acp_begin: "startPrompt sid (at_next s) (at_handler s) = (None, h) \<Longrightarrow>
    acp_step names s (EvStarted sid (at_next s))
      (s\<lparr>at_handler := h, at_calls := (at_calls s)(at_next s \<mapsto> (sid, CallRunning)), at_next := at_next s + 1\<rparr>)"
| acp_cancel: "acp_step names s (EvCancel sid) (s\<lparr>at_handler := acp_Cancel sid (at_handler s)\<rparr>)"
| acp_ended: "at_calls s p = Some (sid, CallRunning) \<Longrightarrow> r = prompt_end (p \<in> hd_canceled (at_handler s)) out \<Longrightarrow>
    acp_step names s (EvEnded p out r) (s\<lparr>at_calls := (at_calls s)(p \<mapsto> (sid, CallReturning r))\<rparr>)"
| acp_return: "at_calls s p = Some (sid, CallReturning r) \<Longrightarrow>
    acp_step names s (EvReturned p)
      (s\<lparr>at_handler := finishPrompt sid p (at_handler s), at_calls := (at_calls s)(p := None)\<rparr>)"

inductive acp_steps :: "protocol_names \<Rightarrow> acp_state \<Rightarrow> acp_event list \<Rightarrow> acp_state \<Rightarrow> bool" for names where
  acp_steps_nil: "acp_steps names s [] s"
| acp_steps_snoc: "acp_steps names s es s' \<Longrightarrow> acp_step names s' e s'' \<Longrightarrow> acp_steps names s (es @ [e]) s''"

definition acp_inv :: "acp_state \<Rightarrow> bool" where
  "acp_inv s \<longleftrightarrow>
     (\<forall>p sid ph. at_calls s p = Some (sid, ph) \<longrightarrow> hd_sessions (at_handler s) sid = Some (Some p) \<and> p < at_next s) \<and>
     (\<forall>sid p. hd_sessions (at_handler s) sid = Some (Some p) \<longrightarrow> (\<exists>ph. at_calls s p = Some (sid, ph))) \<and>
     (\<forall>p \<in> hd_canceled (at_handler s). p < at_next s)"

lemma fresh_session_new: "fresh_session h random = Some sid \<Longrightarrow> hd_sessions h sid = None"
  by (induction random) (auto simp: Let_def split: if_splits)

lemma acp_invI:
  assumes "\<And>p sid ph. at_calls s p = Some (sid, ph) \<Longrightarrow> hd_sessions (at_handler s) sid = Some (Some p)"
    and "\<And>p sid ph. at_calls s p = Some (sid, ph) \<Longrightarrow> p < at_next s"
    and "\<And>sid p. hd_sessions (at_handler s) sid = Some (Some p) \<Longrightarrow> \<exists>ph. at_calls s p = Some (sid, ph)"
    and "\<And>p. p \<in> hd_canceled (at_handler s) \<Longrightarrow> p < at_next s"
  shows "acp_inv s"
  using assms unfolding acp_inv_def by blast

lemma acp_invD:
  assumes "acp_inv s"
  shows "at_calls s p = Some (sid, ph) \<Longrightarrow> hd_sessions (at_handler s) sid = Some (Some p)"
    and "at_calls s p = Some (sid, ph) \<Longrightarrow> p < at_next s"
    and "hd_sessions (at_handler s) sid = Some (Some p) \<Longrightarrow> \<exists>ph. at_calls s p = Some (sid, ph)"
    and "p \<in> hd_canceled (at_handler s) \<Longrightarrow> p < at_next s"
  using assms unfolding acp_inv_def by blast+

text \<open>A change of the handler that keeps who is active and who is cancelled.\<close>

lemma acp_inv_handler:
  assumes "acp_inv s" "hd_canceled h = hd_canceled (at_handler s)"
    and "\<And>sid p. hd_sessions h sid = Some (Some p) \<longleftrightarrow> hd_sessions (at_handler s) sid = Some (Some p)"
  shows "acp_inv (s\<lparr>at_handler := h\<rparr>)"
proof (rule acp_invI)
  have parts: "at_calls (s\<lparr>at_handler := h\<rparr>) = at_calls s" "at_handler (s\<lparr>at_handler := h\<rparr>) = h"
    "at_next (s\<lparr>at_handler := h\<rparr>) = at_next s" by simp_all
  note inv = acp_invD [OF assms(1)]
  show "hd_sessions (at_handler (s\<lparr>at_handler := h\<rparr>)) sid = Some (Some p)" "p < at_next (s\<lparr>at_handler := h\<rparr>)"
    if "at_calls (s\<lparr>at_handler := h\<rparr>) p = Some (sid, ph)" for p sid ph
    using that inv(1,2) unfolding parts assms(3) by blast+
  show "\<exists>ph. at_calls (s\<lparr>at_handler := h\<rparr>) p = Some (sid, ph)"
    if "hd_sessions (at_handler (s\<lparr>at_handler := h\<rparr>)) sid = Some (Some p)" for sid p
    using that inv(3) unfolding parts assms(3) by blast
  show "p < at_next (s\<lparr>at_handler := h\<rparr>)" if "p \<in> hd_canceled (at_handler (s\<lparr>at_handler := h\<rparr>))" for p
    using that inv(4) unfolding parts assms(2) by blast
qed

lemma acp_step_inv:
  assumes "acp_step names s e s'" "acp_inv s"
  shows "acp_inv s'"
  using assms(1)
proof (cases rule: acp_step.cases)
  case (acp_initialize version err h)
  then have "hd_sessions h = hd_sessions (at_handler s)" "hd_canceled h = hd_canceled (at_handler s)"
    by (auto simp: acp_Initialize_def split: if_splits)
  then show ?thesis unfolding acp_initialize(2) using assms(2) by (intro acp_inv_handler) simp_all
next
  case (acp_new random r h)
  have "hd_canceled h = hd_canceled (at_handler s) \<and>
      (\<forall>sid p. hd_sessions h sid = Some (Some p) \<longleftrightarrow> hd_sessions (at_handler s) sid = Some (Some p))"
    using acp_new(3) fresh_session_new by (auto simp: NewSession_def split: if_splits option.splits)
  then show ?thesis unfolding acp_new(2) using assms(2) by (intro acp_inv_handler) blast+
next
  case (acp_refuse sid err h)
  then have "h = at_handler s" by (auto simp: startPrompt_def split: option.splits)
  then show ?thesis unfolding acp_refuse(2) using assms(2) by simp
next
  case (acp_begin sid h)
  then have free: "hd_sessions (at_handler s) sid = Some None"
    and h: "h = (at_handler s)\<lparr>hd_sessions := (hd_sessions (at_handler s))(sid \<mapsto> Some (at_next s))\<rparr>"
    by (auto simp: startPrompt_def split: option.splits)
  note inv = acp_invD [OF assms(2)]
  have new: "at_calls s (at_next s) = None" using inv(2) by (metis less_irrefl option.exhaust surj_pair)
  show ?thesis
    unfolding acp_begin(2) h
  proof (rule acp_invI, goal_cases)
    case (1 p sid' ph)
    then show ?case using inv(1) [of p sid' ph] free by (auto split: if_splits)
  next
    case (2 p sid' ph)
    then show ?case using inv(2) [of p sid' ph] by (auto split: if_splits)
  next
    case (3 sid' p)
    then show ?case using inv(3) [of sid' p] new by (auto split: if_splits)
  next
    case (4 p)
    then show ?case using inv(4) [of p] by simp
  qed
next
  case (acp_cancel sid)
  note inv = acp_invD [OF assms(2)]
  have "hd_sessions (acp_Cancel sid (at_handler s)) = hd_sessions (at_handler s)"
    by (simp add: acp_Cancel_def split: option.split)
  moreover have "p < at_next s" if "p \<in> hd_canceled (acp_Cancel sid (at_handler s))" for p
  proof (cases "hd_sessions (at_handler s) sid = Some (Some p)")
    case True
    from inv(3) [OF True] inv(2) show ?thesis by blast
  next
    case False
    with that have "p \<in> hd_canceled (at_handler s)" by (auto simp: acp_Cancel_def split: option.splits)
    then show ?thesis by (rule inv(4))
  qed
  ultimately show ?thesis
    unfolding acp_cancel(2) using inv by (intro acp_invI) auto
next
  case (acp_ended p sid r out)
  note inv = acp_invD [OF assms(2)]
  show ?thesis
    unfolding acp_ended(2)
  proof (rule acp_invI, goal_cases)
    case (1 q sid' ph)
    then show ?case using inv(1) [of q] acp_ended(3) by (auto split: if_splits)
  next
    case (2 q sid' ph)
    then show ?case using inv(2) [of q] acp_ended(3) by (auto split: if_splits)
  next
    case (3 sid' q)
    then show ?case using inv(3) [of sid' q] acp_ended(3) by (auto split: if_splits)
  next
    case (4 q)
    then show ?case using inv(4) [of q] by simp
  qed
next
  case (acp_return p sid r)
  note inv = acp_invD [OF assms(2)]
  have slot: "hd_sessions (at_handler s) sid = Some (Some p)" using acp_return(3) by (rule inv(1))
  then have h: "finishPrompt sid p (at_handler s) = (at_handler s)\<lparr>hd_sessions := (hd_sessions (at_handler s))(sid \<mapsto> None)\<rparr>"
    by (simp add: finishPrompt_def)
  show ?thesis
    unfolding acp_return(2) h
  proof (rule acp_invI, goal_cases)
    case (1 q sid' ph)
    then show ?case using inv(1) [of q sid' ph] slot by (auto split: if_splits)
  next
    case (2 q sid' ph)
    then show ?case using inv(2) [of q sid' ph] by (auto split: if_splits)
  next
    case (3 sid' q)
    then show ?case using inv(3) [of sid' q] acp_return(3) by (auto split: if_splits)
  next
    case (4 q)
    then show ?case using inv(4) [of q] by simp
  qed
qed

lemma acp_steps_inv: "acp_steps names s es s' \<Longrightarrow> acp_inv s \<Longrightarrow> acp_inv s'"
  by (induction rule: acp_steps.induct) (auto intro: acp_step_inv)

lemma acp_start_inv: "acp_inv acp_start"
  by (rule acp_invI) (simp_all add: acp_start_def new_handler_def)

text \<open>The sessions a trace has made.\<close>

fun made :: "acp_event \<Rightarrow> string list" where
  "made (EvNewSession (Inr sid)) = [sid]"
| "made _ = []"

lemma made_step:
  assumes "acp_step names s e s'"
  shows "dom (hd_sessions (at_handler s')) = dom (hd_sessions (at_handler s)) \<union> set (made e) \<and>
    set (made e) \<inter> dom (hd_sessions (at_handler s)) = {} \<and> distinct (made e)"
  using assms
proof (cases rule: acp_step.cases)
  case (acp_initialize version err h)
  then show ?thesis by (auto simp: acp_Initialize_def split: if_splits)
next
  case (acp_new random r h)
  then show ?thesis using fresh_session_new by (auto simp: NewSession_def split: if_splits option.splits)
next
  case (acp_refuse sid err h)
  then show ?thesis by (auto simp: startPrompt_def split: option.splits)
next
  case (acp_begin sid h)
  then have "hd_sessions (at_handler s) sid = Some None"
    and h: "h = (at_handler s)\<lparr>hd_sessions := (hd_sessions (at_handler s))(sid \<mapsto> Some (at_next s))\<rparr>"
    by (auto simp: startPrompt_def split: option.splits)
  then have "dom (hd_sessions h) = dom (hd_sessions (at_handler s))" by auto
  with acp_begin show ?thesis by simp
next
  case (acp_cancel sid)
  then show ?thesis by (auto simp: acp_Cancel_def split: option.splits)
next
  case (acp_ended p sid r out)
  then show ?thesis by simp
next
  case (acp_return p sid r)
  then show ?thesis by (auto simp: finishPrompt_def)
qed

lemma made_steps:
  assumes "acp_steps names acp_start es s"
  shows "distinct (concat (map made es)) \<and> set (concat (map made es)) = dom (hd_sessions (at_handler s))"
  using assms
proof (induction acp_start es s rule: acp_steps.induct)
  case acp_steps_nil
  show ?case by (simp add: acp_start_def new_handler_def)
next
  case (acp_steps_snoc es s' e s'')
  from made_step [OF acp_steps_snoc.hyps(3)] acp_steps_snoc.hyps(2) show ?case by auto
qed


lemma running_step:
  assumes "acp_step names s e s'" "acp_inv s" "p < at_next s" "at_calls s' p = Some (sid, CallRunning)"
  shows "at_calls s p = Some (sid, CallRunning) \<and> p < at_next s' \<and>
    (p \<in> hd_canceled (at_handler s') \<longleftrightarrow> p \<in> hd_canceled (at_handler s) \<or> e = EvCancel sid)"
  using assms(1)
proof (cases rule: acp_step.cases)
  case (acp_initialize version err h)
  then show ?thesis using assms(3,4) by (auto simp: acp_Initialize_def split: if_splits)
next
  case (acp_new random r h)
  then show ?thesis using assms(3,4) by (auto simp: NewSession_def split: if_splits option.splits)
next
  case (acp_refuse sid' err h)
  then show ?thesis using assms(3,4) by (auto simp: startPrompt_def split: option.splits)
next
  case (acp_begin sid' h)
  then have "h = (at_handler s)\<lparr>hd_sessions := (hd_sessions (at_handler s))(sid' \<mapsto> Some (at_next s))\<rparr>"
    by (auto simp: startPrompt_def split: option.splits)
  with acp_begin show ?thesis using assms(3,4) by (auto split: if_splits)
next
  case (acp_cancel sid')
  with assms(4) have run: "at_calls s p = Some (sid, CallRunning)" by simp
  note inv = acp_invD [OF assms(2)]
  have "hd_sessions (at_handler s) sid = Some (Some p)" by (rule inv(1) [OF run])
  moreover have "sid' = sid" if "hd_sessions (at_handler s) sid' = Some (Some p)"
    using inv(3) [OF that] run by auto
  ultimately show ?thesis
    using acp_cancel run assms(3) by (auto simp: acp_Cancel_def split: option.splits)
next
  case (acp_ended q sid' r out)
  then show ?thesis using assms(3,4) by (auto split: if_splits)
next
  case (acp_return q sid' r)
  then show ?thesis using assms(3,4) by (auto simp: finishPrompt_def split: if_splits)
qed

lemma acp_next_mono: "acp_steps names s es s' \<Longrightarrow> at_next s \<le> at_next s'"
  by (induction rule: acp_steps.induct) (auto elim!: acp_step.cases)

lemma running_steps:
  assumes "acp_steps names s es s'" "acp_inv s" "p < at_next s" "at_calls s' p = Some (sid, CallRunning)"
  shows "at_calls s p = Some (sid, CallRunning) \<and>
    (p \<in> hd_canceled (at_handler s') \<longleftrightarrow> p \<in> hd_canceled (at_handler s) \<or> EvCancel sid \<in> set es)"
  using assms
proof (induction rule: acp_steps.induct)
  case (acp_steps_snoc s es s' e s'')
  have inv: "acp_inv s'" by (rule acp_steps_inv [OF acp_steps_snoc.hyps(1) acp_steps_snoc.prems(1)])
  have "p < at_next s'" using acp_next_mono [OF acp_steps_snoc.hyps(1)] acp_steps_snoc.prems(2) by simp
  from running_step [OF acp_steps_snoc.hyps(2) inv this acp_steps_snoc.prems(3)] acp_steps_snoc.IH acp_steps_snoc.prems
  show ?case by auto
qed simp

text \<open>
  C36 (cancellation reaches its prompt). A prompt that has run reports cancellation exactly when a cancel notification for its
  session came between its start and its end, whatever else happened on the connection; otherwise it reports the error of its run, or the end
  of the turn.
\<close>

theorem prompt_cancellation:
  assumes "acp_steps names acp_start es0 s" "acp_step names s (EvStarted sid p) s1"
    and "acp_steps names s1 es s2" "acp_step names s2 (EvEnded p (PromptRan err) r) s3"
  shows "r = (if EvCancel sid \<in> set es then (None, Some StopReasonCanceled)
    else if err = None then (None, Some StopReasonEndTurn) else (err, None))"
proof -
  have inv: "acp_inv s" by (rule acp_steps_inv [OF assms(1) acp_start_inv])
  have inv1: "acp_inv s1" by (rule acp_step_inv [OF assms(2) inv])
  from assms(2) obtain h where start: "p = at_next s" "startPrompt sid p (at_handler s) = (None, h)"
    "s1 = s\<lparr>at_handler := h, at_calls := (at_calls s)(p \<mapsto> (sid, CallRunning)), at_next := p + 1\<rparr>"
    by (auto elim: acp_step.cases)
  then have "h = (at_handler s)\<lparr>hd_sessions := (hd_sessions (at_handler s))(sid \<mapsto> Some p)\<rparr>"
    by (auto simp: startPrompt_def split: option.splits)
  moreover have "p \<notin> hd_canceled (at_handler s)" using acp_invD(4) [OF inv, of p] start(1) by auto
  ultimately have clean: "p \<notin> hd_canceled (at_handler s1)" by (simp add: start(3))
  from assms(4) obtain sid' where ended: "at_calls s2 p = Some (sid', CallRunning)"
    "r = promptResult (p \<in> hd_canceled (at_handler s2)) err"
    by (auto elim: acp_step.cases)
  have "p < at_next s1" by (simp add: start(3))
  from running_steps [OF assms(3) inv1 this ended(1)] clean start(3)
  have "p \<in> hd_canceled (at_handler s2) \<longleftrightarrow> EvCancel sid \<in> set es" by auto
  with ended(2) show ?thesis by (simp add: promptResult_def promptError_def)
qed

text \<open>A connection on which two sessions are prompted and one is cancelled.\<close>

definition acp_names :: protocol_names where
  "acp_names = \<lparr>pn_text = ''text'', pn_resourceLink = ''resource_link'', pn_version = 1\<rparr>"

lemma acp_sample:
  "\<exists>s1 s2 s3. acp_steps acp_names acp_start [EvInitialize 1 None, EvNewSession (Inr ''session-a'')] s1 \<and>
     acp_step acp_names s1 (EvStarted ''session-a'' 0) s2 \<and>
     acp_steps acp_names s2 [EvCancel ''session-a''] s3 \<and> at_calls s3 0 = Some (''session-a'', CallRunning) \<and>
     0 \<in> hd_canceled (at_handler s3)"
proof -
  let ?h1 = "new_handler\<lparr>hd_ready := True\<rparr>"
  let ?h2 = "?h1\<lparr>hd_sessions := [''session-a'' \<mapsto> None]\<rparr>"
  let ?h3 = "?h1\<lparr>hd_sessions := [''session-a'' \<mapsto> Some 0]\<rparr>"
  let ?s1 = "acp_start\<lparr>at_handler := ?h1\<rparr>"
  let ?s2 = "?s1\<lparr>at_handler := ?h2\<rparr>"
  let ?s3 = "?s2\<lparr>at_handler := ?h3, at_calls := (at_calls ?s2)(at_next ?s2 \<mapsto> (''session-a'', CallRunning)), at_next := at_next ?s2 + 1\<rparr>"
  have 1: "acp_step acp_names acp_start (EvInitialize 1 None) ?s1"
    by (rule acp_initialize) (simp add: acp_Initialize_def acp_names_def acp_start_def)
  have 2: "acp_step acp_names ?s1 (EvNewSession (Inr ''session-a'')) ?s2"
    by (rule acp_new [of "[''a'']"]) (simp add: NewSession_def new_handler_def)
  have 3: "acp_step acp_names ?s2 (EvStarted ''session-a'' (at_next ?s2)) ?s3"
    by (rule acp_begin) (simp add: startPrompt_def acp_start_def new_handler_def)
  have "acp_steps acp_names acp_start ([] @ [EvInitialize 1 None]) ?s1" by (rule acp_steps_snoc [OF acp_steps_nil 1])
  then have "acp_steps acp_names acp_start (([] @ [EvInitialize 1 None]) @ [EvNewSession (Inr ''session-a'')]) ?s2"
    by (rule acp_steps_snoc [OF _ 2])
  moreover have "acp_steps acp_names ?s3 ([] @ [EvCancel ''session-a'']) (?s3\<lparr>at_handler := acp_Cancel ''session-a'' (at_handler ?s3)\<rparr>)"
    by (rule acp_steps_snoc [OF acp_steps_nil acp_cancel])
  moreover have "at_next ?s2 = 0" by (simp add: acp_start_def)
  ultimately show ?thesis
    using 3 by (intro exI [of _ ?s2] exI [of _ ?s3] exI [of _ "?s3\<lparr>at_handler := acp_Cancel ''session-a'' (at_handler ?s3)\<rparr>"])
      (simp add: acp_Cancel_def)
qed


theorem prompt_cancellation_witness:
  "\<exists>s s'. acp_step acp_names s (EvEnded 0 (PromptRan (Some (Msg ''boom''))) (None, Some StopReasonCanceled)) s'"
proof -
  obtain s1 s2 s3 where s: "acp_steps acp_names acp_start [EvInitialize 1 None, EvNewSession (Inr ''session-a'')] s1"
    "acp_step acp_names s1 (EvStarted ''session-a'' 0) s2" "acp_steps acp_names s2 [EvCancel ''session-a''] s3"
    "at_calls s3 0 = Some (''session-a'', CallRunning)"
    using acp_sample by blast
  obtain r s4 where 4: "acp_step acp_names s3 (EvEnded 0 (PromptRan (Some (Msg ''boom''))) r) s4"
    using acp_ended [OF s(4) refl] by blast
  from prompt_cancellation [OF s(1-3) 4] 4 show ?thesis by auto
qed

section \<open>Content survives\<close>

text \<open>What the protocol documents of its constructors, and the blocks they make.\<close>

definition block_laws :: "protocol_names \<Rightarrow> 'w connection \<Rightarrow> bool" where
  "block_laws names cn \<longleftrightarrow> pn_text names \<noteq> pn_resourceLink names \<and>
     (\<forall>t. cb_Type (cn_textBlock cn t) = pn_text names \<and> cb_Text (cn_textBlock cn t) = t) \<and>
     (\<forall>n u. cb_Type (cn_linkBlock cn n u) = pn_resourceLink names \<and> cb_Name (cn_linkBlock cn n u) = n \<and>
        cb_URI (cn_linkBlock cn n u) = Some u)"

inductive client_block :: "'w connection \<Rightarrow> ContentBlock \<Rightarrow> bool" for cn where
  cb_text: "client_block cn (cn_textBlock cn t)"
| cb_link: "n \<noteq> [] \<Longrightarrow> client_block cn (cn_linkBlock cn n u)"

lemma echo_block:
  assumes "block_laws names cn" "client_block cn block"
  shows "\<exists>part refs. promptPart names block = Inr (part, refs) \<and> sendPart cn sid part = cn_update cn sid block"
  using assms(2)
proof cases
  case (cb_text t)
  with assms(1) show ?thesis
    by (intro exI [of _ "text_part t"] exI [of _ "[]"] conjI ext)
      (simp_all add: block_laws_def promptPart_def sendPart_def text_part_def)
next
  case (cb_link n u)
  moreover from assms(1) have "pn_resourceLink names \<noteq> pn_text names" unfolding block_laws_def by (metis (no_types))
  ultimately show ?thesis using assms(1)
    by (intro exI [of _ "artifact_part \<lparr>af_URI = u, af_Kind = n, af_Digest = []\<rparr>"]
        exI [of _ "[\<lparr>af_URI = u, af_Kind = n, af_Digest = []\<rparr>]"] conjI ext)
      (simp_all add: block_laws_def promptPart_def resourceLinkPart_def sendPart_def artifact_part_def sendArtifact_def
        artifact_block_def MessagePartTypeText_def MessagePartTypeArtifact_def Let_def)
qed

lemma echo_blocks:
  assumes "block_laws names cn" "list_all (client_block cn) blocks"
  shows "\<exists>more refs'. prompt_blocks names blocks parts refs = Inr (parts @ more, refs') \<and>
    send_each (sendPart cn sid) more = send_each (cn_update cn sid) blocks"
  using assms(2)
proof (induction blocks arbitrary: parts refs)
  case Nil
  show ?case by (intro exI [of _ "[]"] exI [of _ refs]) (simp add: fun_eq_iff)
next
  case (Cons block blocks)
  then obtain part new where part: "promptPart names block = Inr (part, new)" "sendPart cn sid part = cn_update cn sid block"
    using echo_block [OF assms(1), of block sid] by auto
  from Cons obtain more refs' where "prompt_blocks names blocks (parts @ [part]) (refs @ new) = Inr ((parts @ [part]) @ more, refs')"
    "send_each (sendPart cn sid) more = send_each (cn_update cn sid) blocks" by fastforce
  with part show ?case
    by (intro exI [of _ "part # more"] exI [of _ refs']) (simp add: fun_eq_iff split: prod.split option.split)
qed

text \<open>
  Content survives. The message that a prompt of text and named links is turned into, sent back part by part, makes exactly the blocks of the
  prompt, in order and with the same failures of the connection.
\<close>

theorem prompt_echo:
  assumes "block_laws names cn" "list_all (client_block cn) blocks"
  shows "\<exists>request message. promptRequest names blocks = Inr request \<and> aq_Messages request = [message] \<and>
    ms_Role message = MessageRoleUser \<and> sendParts cn sid (ms_Parts message) w = send_each (cn_update cn sid) blocks w"
proof -
  obtain parts refs where "prompt_blocks names blocks [] [] = Inr (parts, refs)"
    "send_each (sendPart cn sid) parts = send_each (cn_update cn sid) blocks"
    using echo_blocks [OF assms, of "[]" "[]" sid] by auto
  then show ?thesis by (simp add: promptRequest_def sendParts_def)
qed

definition log_connection :: "(string \<times> ContentBlock) list connection" where
  "log_connection = \<lparr>cn_textBlock = (\<lambda>t. \<lparr>cb_Type = ''text'', cb_Text = t, cb_Name = [], cb_URI = None\<rparr>),
     cn_linkBlock = (\<lambda>n u. \<lparr>cb_Type = ''resource_link'', cb_Text = [], cb_Name = n, cb_URI = Some u\<rparr>),
     cn_update = (\<lambda>sid block w. (None, w @ [(sid, block)]))\<rparr>"

theorem prompt_echo_witness:
  "let blocks = [cn_textBlock log_connection ''see'', cn_linkBlock log_connection ''spec'' ''file:///spec''] in
   \<exists>request message. promptRequest acp_names blocks = Inr request \<and> aq_Messages request = [message] \<and>
     sendParts log_connection ''s'' (ms_Parts message) [] = (None, map (Pair ''s'') blocks)"
proof -
  have "block_laws acp_names log_connection" by (simp add: block_laws_def acp_names_def log_connection_def)
  moreover have "list_all (client_block log_connection)
      [cn_textBlock log_connection ''see'', cn_linkBlock log_connection ''spec'' ''file:///spec'']"
    by (simp add: cb_text cb_link)
  ultimately show ?thesis
    using prompt_echo [of acp_names log_connection
        "[cn_textBlock log_connection ''see'', cn_linkBlock log_connection ''spec'' ''file:///spec'']" "''s''" "[]"]
    by (auto simp: Let_def log_connection_def)
qed

end
