(* ===== verification/Api.thy ===== *)
theory Api
  imports Compilation Directories
begin

text \<open>
  The generic methods that a program calls, over the untyped core: iterator dispatches and their
  options (\<open>workflow_api.go\<close>, \<open>workflow.go\<close>), typed reads of join inputs, bindings of guards and hooks, the calls of a workflow, which
  compile it first, and workflow agents (\<open>agent/workflow.go\<close>). A type parameter is an argument of type \<open>gotype\<close>.
\<close>

section \<open>Iterator dispatches\<close>

record iterConfig =
  ic_checkpoint :: "(nat \<Rightarrow> govalue callback) option"
  ic_restore :: "(govalue \<Rightarrow> factory_result) option"
  ic_err :: "goerr option"

text \<open>\<open>WithIterReplay\<close> of a cursor type, a checkpoint and a restore function, each of which may be nil.\<close>

datatype IterOption = WithIterReplay gotype "(nat \<Rightarrow> govalue callback) option" "(govalue \<Rightarrow> factory_result) option"

definition failedIter :: "goerr \<Rightarrow> nat \<Rightarrow> pulled" where
  "failedIter cause n = (if n = 0 then PullCause cause else PullEnd)"

definition cursor_error :: goerr where
  "cursor_error = Msg ''workflow: iterator cursor type does not match''"

fun applyIterOption :: "IterOption \<Rightarrow> iterConfig \<Rightarrow> iterConfig" where
  "applyIterOption (WithIterReplay cursorType checkpoint restore) cfg =
     (case (checkpoint, restore) of
        (Some save, Some resume) \<Rightarrow>
          cfg\<lparr>ic_checkpoint := Some save,
              ic_restore := Some (\<lambda>cursor. if has_type cursor cursorType then resume cursor
                                            else Sequence (failedIter cursor_error))\<rparr>
      | _ \<Rightarrow> cfg\<lparr>ic_err := Some (Msg ''workflow: iterator checkpoint and restore are required'')\<rparr>)"

definition iter_config :: "IterOption option list \<Rightarrow> iterConfig" where
  "iter_config opts =
     foldl (\<lambda>cfg opt. case opt of None \<Rightarrow> cfg | Some f \<Rightarrow> applyIterOption f cfg)
       \<lparr>ic_checkpoint = None, ic_restore = None, ic_err = None\<rparr> opts"

text \<open>
  The iterator is what calling its function does, None for a nil function, which yields a nil sequence. \<open>eraseIter\<close> and
  \<open>eraseIterRestore\<close> only convert static types.
\<close>

definition EachIter :: "string option \<Rightarrow> string option \<Rightarrow> factory_result option \<Rightarrow> IterOption option list \<Rightarrow> Dispatch" where
  "EachIter source target iterFn opts =
     (case target of
        None \<Rightarrow> newDispatch source
      | Some name \<Rightarrow>
          (let cfg = iter_config opts in
           (newDispatch source)\<lparr>dp_deliveries :=
              [zero_delivery\<lparr>dl_target := name, dl_iterCheckpoint := ic_checkpoint cfg, dl_iterErr := ic_err cfg,
                 dl_iter := Some (case iterFn of None \<Rightarrow> NilSequence | Some r \<Rightarrow> r), dl_iterRestore := ic_restore cfg\<rparr>]\<rparr>))"

text \<open>Options are refused exactly when one of them lacks a function.\<close>

definition complete_option :: "IterOption option \<Rightarrow> bool" where
  "complete_option opt \<longleftrightarrow> (case opt of Some (WithIterReplay t save resume) \<Rightarrow> save \<noteq> None \<and> resume \<noteq> None | None \<Rightarrow> True)"

lemma iter_config_snoc:
  "iter_config (opts @ [opt]) = (case opt of None \<Rightarrow> iter_config opts | Some f \<Rightarrow> applyIterOption f (iter_config opts))"
  by (simp add: iter_config_def split: option.split)

lemma iter_config_ok:
  "(ic_err (iter_config opts) = None \<longleftrightarrow> list_all complete_option opts) \<and>
   (ic_checkpoint (iter_config opts) = None \<longleftrightarrow> ic_restore (iter_config opts) = None)"
proof (induction opts rule: rev_induct)
  case Nil
  show ?case by (simp add: iter_config_def)
next
  case (snoc opt opts)
  show ?case
  proof (cases opt)
    case (Some f)
    then show ?thesis
      using snoc by (cases f) (auto simp: iter_config_snoc complete_option_def split: option.splits)
  qed (use snoc in \<open>simp add: iter_config_snoc complete_option_def\<close>)
qed

lemma each_iter_valid:
  "\<exists>item. dp_deliveries (EachIter source (Some name) iterFn opts) = [item] \<and> dl_target item = name \<and> dl_iter item \<noteq> None \<and>
     (validateIterReplay item = None \<longleftrightarrow> list_all complete_option opts)"
  using iter_config_ok [of opts]
  by (simp add: EachIter_def Let_def validateIterReplay_def zero_delivery_def newDispatch_def zero_Dispatch_def)

text \<open>
  A replayable iterator continues behind the item its cursor was taken at, and a cursor of another type is
  an error of the first pull.
\<close>

lemma replay_continues:
  assumes "dp_deliveries (EachIter src (Some name) iterFn [Some (WithIterReplay t (Some save) (Some resume))]) = [item]"
    and "is_hasCursor source"
  shows "has_type (is_cursor source) t \<Longrightarrow> resume (is_cursor source) = Sequence (\<lambda>i. f (k + i)) \<Longrightarrow>
      restoredSequence source item = Inr (\<lambda>i. f (k + i))"
    and "\<not> has_type (is_cursor source) t \<Longrightarrow> \<exists>g. restoredSequence source item = Inr g \<and> g 0 = PullCause cursor_error"
  using assms
  by (auto simp: EachIter_def iter_config_def Let_def restoredSequence_def callIterFactory_def newDispatch_def zero_Dispatch_def
      zero_delivery_def failedIter_def split: option.splits)

section \<open>Typed inputs\<close>

definition input_type_error :: goerr where
  "input_type_error = Msg ''workflow: input has another type''"

definition Inputs_One :: "gotype \<Rightarrow> Inputs \<Rightarrow> string option \<Rightarrow> goerr + govalue" where
  "Inputs_One t inputs source =
     andthen (one_input inputs source) (\<lambda>v. if has_type v t then Inr v else Inl input_type_error)"

fun typed_values :: "gotype \<Rightarrow> govalue list \<Rightarrow> govalue list \<Rightarrow> goerr + govalue list" where
  "typed_values t [] out = Inr out"
| "typed_values t (v # vs) out = (if has_type v t then typed_values t vs (out @ [v]) else Inl input_type_error)"

definition Inputs_All :: "gotype \<Rightarrow> Inputs \<Rightarrow> string option \<Rightarrow> goerr + govalue list" where
  "Inputs_All t inputs source = andthen (all_inputs inputs source) (\<lambda>values. typed_values t values [])"

text \<open>An optional contribution is None where the code answers \<open>false\<close>.\<close>

definition Inputs_Lookup :: "gotype \<Rightarrow> Inputs \<Rightarrow> string option \<Rightarrow> goerr + govalue option" where
  "Inputs_Lookup t inputs source =
     andthen (lookup_input inputs source) (\<lambda>found. case found of
        None \<Rightarrow> Inr None
      | Some v \<Rightarrow> if has_type v t then Inr (Some v) else Inl input_type_error)"

definition Inputs_LookupAll :: "gotype \<Rightarrow> Inputs \<Rightarrow> string option \<Rightarrow> goerr + govalue list option" where
  "Inputs_LookupAll t inputs source =
     andthen (lookupAll inputs source) (\<lambda>found. case found of
        None \<Rightarrow> Inr None
      | Some values \<Rightarrow> andthen (typed_values t values []) (\<lambda>out. Inr (Some out)))"

lemma typed_values_Inr: "typed_values t vs out = Inr r \<longleftrightarrow> r = out @ vs \<and> list_all (\<lambda>v. has_type v t) vs"
  by (induction vs arbitrary: out) auto

lemma Inputs_One_Inr: "Inputs_One t inputs source = Inr v \<longleftrightarrow>
    (\<exists>name. source = Some name \<and> fmlookup inputs name = Some [v]) \<and> has_type v t"
  by (auto simp: Inputs_One_def one_input_def lookup_input_def lookupAll_def length_Suc_conv split: option.splits if_splits)

lemma Inputs_All_Inr: "Inputs_All t inputs source = Inr vs \<longleftrightarrow>
    (\<exists>name. source = Some name \<and> fmlookup inputs name = Some vs) \<and> vs \<noteq> [] \<and> list_all (\<lambda>v. has_type v t) vs"
  by (auto simp: Inputs_All_def all_inputs_def lookupAll_def typed_values_Inr split: option.splits if_splits)

lemma Inputs_LookupAll_Inr: "Inputs_LookupAll t inputs (Some name) = Inr found \<longleftrightarrow>
    (case fmlookup inputs name of
       None \<Rightarrow> found = None
     | Some vs \<Rightarrow> if vs = [] then found = None else found = Some vs \<and> list_all (\<lambda>v. has_type v t) vs)"
  by (auto simp: Inputs_LookupAll_def lookupAll_def typed_values_Inr split: option.splits if_splits)

section \<open>Bindings of guards and hooks\<close>

definition BeforeRun :: "string \<Rightarrow> (GuardContext \<Rightarrow> 's \<Rightarrow> GuardDecision callback \<times> 's) option \<Rightarrow> 's GuardBinding" where
  "BeforeRun name evaluator = \<lparr>gb_phase = GuardBeforeRun, gb_name = name, gb_evaluator = evaluator\<rparr>"

definition BeforeCommit :: "string \<Rightarrow> (GuardContext \<Rightarrow> 's \<Rightarrow> GuardDecision callback \<times> 's) option \<Rightarrow> 's GuardBinding" where
  "BeforeCommit name evaluator = \<lparr>gb_phase = GuardBeforeCommit, gb_name = name, gb_evaluator = evaluator\<rparr>"

text \<open>A nil invokable makes an evaluator that fails, not a nil evaluator.\<close>

definition GuardInvokable ::
  "(GuardContext \<Rightarrow> 's \<Rightarrow> GuardDecision callback \<times> 's) option \<Rightarrow> (GuardContext \<Rightarrow> 's \<Rightarrow> GuardDecision callback \<times> 's) option" where
  "GuardInvokable invokable =
     Some (\<lambda>gc s. case invokable of None \<Rightarrow> (Fails (Msg ''workflow: guard invokable is nil''), s) | Some f \<Rightarrow> f gc s)"

definition Hook :: "string \<Rightarrow> ('c \<Rightarrow> 's \<Rightarrow> 'c callback \<times> 's) option \<Rightarrow> ('c, 's) LifecycleHook" where
  "Hook name f = \<lparr>lh_Name = name, lh_Fn = f\<rparr>"

section \<open>Calls of a workflow\<close>

definition Workflow_Validate ::
  "compile_env \<Rightarrow> type_registry \<Rightarrow> ('s, 'w) Builder \<Rightarrow> goerr option \<times> type_registry \<times> ('s, 'w) Builder" where
  "Workflow_Validate env tr b =
     (case compile env tr b of (Inl e, tr1, b1) \<Rightarrow> (Some e, tr1, b1) | (Inr c, tr1, b1) \<Rightarrow> (None, tr1, b1))"

text \<open>
  A call compiles the workflow, which changes nothing when it has been compiled before, and runs on the deployment of the
  plan: \<open>deploy\<close> binds it to its store, clock and callbacks. The active runs are those of the compiled workflow.
\<close>

definition on_compiled ::
  "compile_env \<Rightarrow> (compiled \<times> 'w Registry \<Rightarrow> 'd) \<Rightarrow> ('d \<Rightarrow> activeRuns \<Rightarrow> 'w \<Rightarrow> ((goerr + 'r) \<times> activeRuns \<times> 'w) option)
   \<Rightarrow> type_registry \<Rightarrow> ('s, 'w) Builder \<Rightarrow> activeRuns \<Rightarrow> 'w
   \<Rightarrow> ((goerr + 'r) \<times> activeRuns \<times> 'w) option \<times> type_registry \<times> ('s, 'w) Builder" where
  "on_compiled env deploy call tr b active w =
     (case compile env tr b of
        (Inl e, tr1, b1) \<Rightarrow> (Some (Inl e, active, w), tr1, b1)
      | (Inr c, tr1, b1) \<Rightarrow> (call (deploy c) active w, tr1, b1))"

definition Workflow_Invoke where
  "Workflow_Invoke env deploy pages runs input opts =
     on_compiled env deploy (\<lambda>dp. Invoke dp pages runs input opts)"

definition Workflow_Retry where
  "Workflow_Retry env deploy history unmarshal pages runs request opts =
     on_compiled env deploy (\<lambda>dp. Retry dp history unmarshal pages runs request opts)"

definition Workflow_JumpTo where
  "Workflow_JumpTo env deploy history pages runs target request input opts =
     on_compiled env deploy (\<lambda>dp. JumpTo dp history pages runs target request input opts)"

definition Workflow_Terminate ::
  "compile_env \<Rightarrow> string \<Rightarrow> type_registry \<Rightarrow> ('s, 'w) Builder \<Rightarrow> activeRuns
   \<Rightarrow> (goerr option \<times> activeRuns) \<times> type_registry \<times> ('s, 'w) Builder" where
  "Workflow_Terminate env runID tr b active =
     (case compile env tr b of
        (Inl e, tr1, b1) \<Rightarrow> ((Some e, active), tr1, b1)
      | (Inr c, tr1, b1) \<Rightarrow> (terminate_run runID active, tr1, b1))"

text \<open>What a compilation leaves: its plan, or a workflow that is not compiled.\<close>

lemma compile_result:
  "compile env tr b = (r, tr1, b1) \<Longrightarrow>
     (case r of Inl e \<Rightarrow> bu_compiled b = None \<and> b1 = b | Inr c \<Rightarrow> bu_compiled b1 = Some c)"
  by (auto simp: compile_def Let_def split: option.splits sum.splits prod.splits)

lemma on_compiled_again:
  assumes "compile env tr b = (Inr c, tr1, b1)"
  shows "on_compiled env2 deploy call tr2 b1 active w = (call (deploy c) active w, tr2, b1)"
  using compile_result [OF assms] by (simp add: on_compiled_def compile_def)

lemma on_compiled_fails:
  assumes "Workflow_Validate env tr b = (Some e, tr1, b1)"
  shows "on_compiled env deploy call tr b active w = (Some (Inl e, active, w), tr1, b1) \<and> b1 = b"
  using assms compile_result [of env tr b]
  by (auto simp: Workflow_Validate_def on_compiled_def split: prod.splits sum.splits)

section \<open>Workflow agents\<close>

record ('s, 'w) WorkflowAgent =
  wa_identity :: Identity
  wa_workflow :: "('s, 'w) Builder"

text \<open>The workflow is shared with the caller: the agent keeps it as validation leaves it.\<close>

definition NewWorkflowAgent ::
  "compile_env \<Rightarrow> Identity \<Rightarrow> ('s, 'w) Builder option \<Rightarrow> type_registry
   \<Rightarrow> (goerr + ('s, 'w) WorkflowAgent) \<times> type_registry" where
  "NewWorkflowAgent env identity workflow tr =
     (case validateCatalogIdentity identity of
        Some e \<Rightarrow> (Inl e, tr)
      | None \<Rightarrow>
          (case workflow of
             None \<Rightarrow> (Inl (Msg ''agent: workflow is nil''), tr)
           | Some b \<Rightarrow>
               (case Workflow_Validate env tr b of
                  (Some e, tr1, b1) \<Rightarrow> (Inl e, tr1)
                | (None, tr1, b1) \<Rightarrow> (Inr \<lparr>wa_identity = identity, wa_workflow = b1\<rparr>, tr1))))"

text \<open>\<open>request_value\<close> is the request as a dynamic value.\<close>

definition WorkflowAgent_Invoke where
  "WorkflowAgent_Invoke env deploy request_value pages runs request options tr a =
     Workflow_Invoke env deploy pages runs (request_value request) options tr (wa_workflow a)"

lemma workflow_agent_ready:
  assumes "NewWorkflowAgent env identity (Some b) tr = (Inr a, tr1)"
  obtains c b1 where "compile env tr b = (Inr c, tr1, b1)" "wa_workflow a = b1" "wa_identity a = identity"
    "validateCatalogIdentity identity = None"
    "\<And>env2 deploy pages runs q opts tr2 active w. WorkflowAgent_Invoke env2 deploy rv pages runs q opts tr2 a active w =
       (Invoke (deploy c) pages runs (rv q) opts active w, tr2, b1)"
proof -
  from assms obtain c b1 where c: "compile env tr b = (Inr c, tr1, b1)" "wa_workflow a = b1" "wa_identity a = identity"
    "validateCatalogIdentity identity = None"
    by (auto simp: NewWorkflowAgent_def Workflow_Validate_def split: option.splits prod.splits sum.splits)
  show thesis
    by (rule that [OF c]) (simp add: WorkflowAgent_Invoke_def Workflow_Invoke_def c(2) on_compiled_again [OF c(1)])
qed

end
