(* ===== verification/Conformance.thy ===== *)
theory Conformance
  imports World Agents
begin

text \<open>
  The conformance suite for stores and for the events of an agent (package \<open>gopacttest\<close>). A test is a
  function of the store under test and of the world its calls act on; it ends with the first failure, or with none.
  The memory store is shown to pass the suite at every clock.
\<close>

section \<open>Tests\<close>

text \<open>The services of a run and the renewal of leases; every call reads and advances the world.\<close>

record 'w store_under_test = "'w services" +
  sv_RenewLease :: "goerr option \<Rightarrow> CheckpointLease \<Rightarrow> 'w \<Rightarrow> goerr option \<times> 'w"

type_synonym 'w test = "'w \<Rightarrow> string option"

definition passed :: "'w test" where
  "passed w = None"

text \<open>\<open>t.Fatalf\<close> ends a test with its message.\<close>

definition expect :: "string \<Rightarrow> bool \<Rightarrow> 'w test \<Rightarrow> 'w test" where
  "expect fatal ok rest w = (if ok then rest w else Some fatal)"

definition expect_call :: "string \<Rightarrow> ('w \<Rightarrow> goerr option \<times> 'w) \<Rightarrow> 'w test \<Rightarrow> 'w test" where
  "expect_call fatal call rest w =
     (case call w of (None, w1) \<Rightarrow> rest w1 | (Some e, w1) \<Rightarrow> Some fatal)"

definition expect_error :: "string \<Rightarrow> sentinel \<Rightarrow> ('w \<Rightarrow> goerr option \<times> 'w) \<Rightarrow> 'w test \<Rightarrow> 'w test" where
  "expect_error fatal want call rest w =
     (case call w of (Some e, w1) \<Rightarrow> if errors_is e want then rest w1 else Some fatal | (None, w1) \<Rightarrow> Some fatal)"

definition expect_value :: "string \<Rightarrow> ('w \<Rightarrow> (goerr + 'a) \<times> 'w) \<Rightarrow> ('a \<Rightarrow> 'w test) \<Rightarrow> 'w test" where
  "expect_value fatal call rest w =
     (case call w of (Inr x, w1) \<Rightarrow> rest x w1 | (Inl e, w1) \<Rightarrow> Some fatal)"

definition expect_no_value :: "string \<Rightarrow> sentinel \<Rightarrow> ('w \<Rightarrow> (goerr + 'a) \<times> 'w) \<Rightarrow> 'w test \<Rightarrow> 'w test" where
  "expect_no_value fatal want call rest w =
     (case call w of (Inl e, w1) \<Rightarrow> if errors_is e want then rest w1 else Some fatal | (Inr x, w1) \<Rightarrow> Some fatal)"

definition read_time :: "'w store_under_test \<Rightarrow> (gotime \<Rightarrow> 'w test) \<Rightarrow> 'w test" where
  "read_time st rest w = (case sv_now st w of (now, w1) \<Rightarrow> rest now w1)"

section \<open>The store suite\<close>

definition hour :: duration where "hour = 3600 * 1000000000"

definition conformanceCheckpointSchema :: int where "conformanceCheckpointSchema = 2"
definition conformanceSecondEventSequence :: int where "conformanceSecondEventSequence = 2"

text \<open>The payloads of the suite are JSON texts, which no checkpoint of a workflow decodes to.\<close>

definition running_payload :: "checkpointPayload gobbytes" where "running_payload = Gob 19 None"
definition saved_payload :: "checkpointPayload gobbytes" where "saved_payload = Gob 17 None"
definition cancelled_payload :: "checkpointPayload gobbytes" where "cancelled_payload = Gob 27 None"

definition storeConformanceCheckpoint :: "string \<Rightarrow> gotime \<Rightarrow> cprecord" where
  "storeConformanceCheckpoint runID now =
     \<lparr>cp_ID = ''checkpoint:'' @ runID, cp_SessionID = ''store-conformance-session'', cp_RunID = runID,
      cp_SourceRunID = [], cp_SourceEventSeq = 0, cp_SourceRevisionID = [],
      cp_WorkflowName = ''store-conformance'', cp_TopologyVersion = ''v1'', cp_SchemaVersion = conformanceCheckpointSchema,
      cp_Version = 1, cp_Status = CheckpointRunning, cp_Payload = running_payload, cp_ConfirmedSequence = 0,
      cp_PendingSequence = 0, cp_ReplayStatus = ReplayUnknown, cp_OwnerID = ''store-conformance-owner'',
      cp_LeaseExpiresAt = now + hour, cp_LeaseDuration = 0, cp_ClaimSequence = 1, cp_CreatedAt = now, cp_UpdatedAt = now\<rparr>"

definition storeConformanceRunLogRecord :: "string \<Rightarrow> int \<Rightarrow> Record" where
  "storeConformanceRunLogRecord runID seq =
     (RecordFromEvent zero_Event)\<lparr>rl_SessionID := ''store-conformance-session'', rl_RunID := runID, rl_Sequence := seq,
        rl_EventType := ''conformance.event'', rl_Source := ''gopacttest'', rl_Timestamp := 1000000000\<rparr>"

definition renewal :: "cprecord \<Rightarrow> int \<Rightarrow> CheckpointLease" where
  "renewal r claim =
     \<lparr>cl_RunID = cp_RunID r, cl_OwnerID = cp_OwnerID r, cl_ClaimSequence = claim,
      cl_ExpiresAt = cp_LeaseExpiresAt r + hour, cl_Duration = 0\<rparr>"

definition lease_fencing_claims :: "'w store_under_test \<Rightarrow> 'w test" where
  "lease_fencing_claims st =
     read_time st (\<lambda>t1. read_time st (\<lambda>t2.
     (let expired = (storeConformanceCheckpoint ''store-conformance-claim'' t1)\<lparr>cp_LeaseExpiresAt := t2 - hour\<rparr> in
     expect_call ''Create(expired claim)'' (sv_Create st None expired) (
     read_time st (\<lambda>t3.
     (let candidate = expired\<lparr>cp_OwnerID := ''store-conformance-new-owner'',
            cp_ClaimSequence := cp_ClaimSequence expired + 1, cp_LeaseExpiresAt := t3 + hour\<rparr>;
          staleClaim = expired\<lparr>cp_Version := cp_Version expired + 1\<rparr> in
     expect_call ''Claim()'' (sv_Claim st None candidate (cp_Version expired)) (
     expect_error ''Save(stale claim)'' ErrCheckpointLeaseLost (sv_Save st None staleClaim (cp_Version staleClaim))
       passed)))))))"

definition lease_fencing :: "'w store_under_test \<Rightarrow> 'w test" where
  "lease_fencing st =
     read_time st (\<lambda>t0. (let run = ''store-conformance-lease''; r = storeConformanceCheckpoint run t0 in
     expect_call ''Create()'' (sv_Create st None r) (
     expect_value ''Load()'' (sv_Load st None run) (\<lambda>created.
     expect_call ''RenewLease()'' (sv_RenewLease st None (renewal created (cp_ClaimSequence created))) (
     expect_value ''Load() after renewal'' (sv_Load st None run) (\<lambda>renewed.
     expect ''renewed expiry'' (cp_LeaseExpiresAt renewed > cp_LeaseExpiresAt created) (
     expect_call ''Save()'' (sv_Save st None (created\<lparr>cp_Payload := saved_payload\<rparr>) (cp_Version created)) (
     expect_value ''Load() after Save'' (sv_Load st None run) (\<lambda>saved.
     expect ''Save() changed renewed expiry'' (cp_LeaseExpiresAt saved = cp_LeaseExpiresAt renewed) (
     (let staleOwner = saved\<lparr>cp_OwnerID := ''stale-owner'', cp_Version := cp_Version saved + 1\<rparr>;
          staleVersion = saved\<lparr>cp_Version := cp_Version saved + 1\<rparr> in
     expect_error ''Save(stale owner and version)'' ErrCheckpointLeaseLost
       (sv_Save st None staleOwner (cp_Version staleOwner)) (
     expect_error ''Save(stale version)'' ErrCheckpointConflict
       (sv_Save st None staleVersion (cp_Version staleVersion)) (
     expect_error ''RenewLease(stale claim)'' ErrCheckpointLeaseLost
       (sv_RenewLease st None (renewal saved (cp_ClaimSequence saved + 1)))
       (lease_fencing_claims st))))))))))))))"

definition query_run :: "string \<Rightarrow> Query" where
  "query_run run = \<lparr>q_SessionID = [], q_RunID = run, q_After = 0, q_Limit = 0\<rparr>"

definition run_log_idempotence :: "'w store_under_test \<Rightarrow> 'w test" where
  "run_log_idempotence st =
     (let r = storeConformanceRunLogRecord ''store-conformance-log'' 1 in
     expect_call ''Append()'' (sv_Append st None r) (
     expect_call ''idempotent Append()'' (sv_Append st None r) (
     expect_error ''conflicting Append()'' ErrConflict (sv_Append st None (r\<lparr>rl_Summary := ''different''\<rparr>)) (
     expect_value ''List()'' (sv_List st None (query_run (rl_RunID r))) (\<lambda>records.
     expect ''List()'' (length records = 1 \<and> rl_Summary (records ! 0) = rl_Summary r) passed)))))"

fun stale_fences :: "'w store_under_test \<Rightarrow> Record \<Rightarrow> Fence list \<Rightarrow> 'w test \<Rightarrow> 'w test" where
  "stale_fences st r [] rest = rest"
| "stale_fences st r (stale # fences) rest =
     expect_error ''AppendFenced(stale fence)'' ErrCheckpointLeaseLost (sv_AppendFenced st None r stale)
       (stale_fences st r fences rest)"

definition fenced_expired :: "'w store_under_test \<Rightarrow> 'w test \<Rightarrow> 'w test" where
  "fenced_expired st rest =
     read_time st (\<lambda>t1. read_time st (\<lambda>t2.
     (let expired = (storeConformanceCheckpoint ''store-conformance-expired-log'' t1)\<lparr>cp_LeaseExpiresAt := t2 - hour\<rparr>;
          expiredRecord = storeConformanceRunLogRecord (cp_RunID expired) 1;
          expiredFence = \<lparr>fn_OwnerID = cp_OwnerID expired, fn_ClaimSequence = cp_ClaimSequence expired\<rparr> in
     expect_call ''Create(expired fence)'' (sv_Create st None expired) (
     expect_error ''AppendFenced(expired fence)'' ErrCheckpointLeaseLost
       (sv_AppendFenced st None expiredRecord expiredFence) (
     expect_value ''List(expired fence)'' (sv_List st None (query_run (cp_RunID expired))) (\<lambda>records.
     expect ''List(expired fence)'' (records = []) rest))))))"

definition fenced_run_log :: "'w store_under_test \<Rightarrow> 'w test" where
  "fenced_run_log st =
     read_time st (\<lambda>t0. (let checkpoint = storeConformanceCheckpoint ''store-conformance-fenced-log'' t0 in
     expect_call ''Create()'' (sv_Create st None checkpoint) (
     expect_value ''Load()'' (sv_Load st None (cp_RunID checkpoint)) (\<lambda>current.
     (let fence = \<lparr>fn_OwnerID = cp_OwnerID current, fn_ClaimSequence = cp_ClaimSequence current\<rparr>;
          r = storeConformanceRunLogRecord (cp_RunID current) 1;
          later = storeConformanceRunLogRecord (cp_RunID current) conformanceSecondEventSequence in
     expect_call ''AppendFenced()'' (sv_AppendFenced st None r fence) (
     expect_call ''idempotent AppendFenced()'' (sv_AppendFenced st None r fence) (
     expect_error ''conflicting AppendFenced()'' ErrConflict
       (sv_AppendFenced st None (r\<lparr>rl_Summary := ''different''\<rparr>) fence) (
     stale_fences st later
       [\<lparr>fn_OwnerID = ''stale-owner'', fn_ClaimSequence = cp_ClaimSequence current\<rparr>,
        \<lparr>fn_OwnerID = cp_OwnerID current, fn_ClaimSequence = cp_ClaimSequence current + 1\<rparr>] (
     fenced_expired st (
     expect_call ''Finish()''
       (sv_Finish st None (current\<lparr>cp_Status := CheckpointCompleted, cp_OwnerID := [], cp_LeaseExpiresAt := zero_time\<rparr>)
         (cp_Version current)) (
     expect_error ''AppendFenced(after Finish)'' ErrCheckpointLeaseLost (sv_AppendFenced st None later fence) (
     expect_value ''List()'' (sv_List st None (query_run (cp_RunID current))) (\<lambda>records.
     expect ''List()'' (length records = 1 \<and> rl_Sequence (records ! 0) = rl_Sequence r \<and>
         rl_Summary (records ! 0) = rl_Summary r) passed)))))))))))))"

text \<open>Every write under a context that is over fails with the error of the context and changes nothing.\<close>

fun refused_writes :: "(string \<times> (goerr option \<Rightarrow> 'w \<Rightarrow> goerr option \<times> 'w)) list \<Rightarrow> sentinel \<Rightarrow> 'w test \<Rightarrow> 'w test" where
  "refused_writes [] want rest = rest"
| "refused_writes ((name, call) # calls) want rest =
     expect_error name want (call (Some (Sentinel want))) (refused_writes calls want rest)"

definition conformance_writes ::
  "'w store_under_test \<Rightarrow> cprecord \<Rightarrow> cprecord \<Rightarrow> gotime \<Rightarrow> (string \<times> (goerr option \<Rightarrow> 'w \<Rightarrow> goerr option \<times> 'w)) list" where
  "conformance_writes st live created now =
     (let claimed = live\<lparr>cp_OwnerID := ''store-conformance-cancel-owner'', cp_ClaimSequence := cp_ClaimSequence live + 1,
            cp_LeaseExpiresAt := now + hour\<rparr>;
          saved = live\<lparr>cp_Payload := cancelled_payload\<rparr>;
          finished = live\<lparr>cp_Status := CheckpointCompleted, cp_OwnerID := [], cp_LeaseExpiresAt := zero_time\<rparr>;
          fence = \<lparr>fn_OwnerID = cp_OwnerID live, fn_ClaimSequence = cp_ClaimSequence live\<rparr>;
          logRecord = storeConformanceRunLogRecord (cp_RunID live) 1 in
      [(''Create'', \<lambda>ctx. sv_Create st ctx created),
       (''Claim'', \<lambda>ctx. sv_Claim st ctx claimed (cp_Version live)),
       (''Save'', \<lambda>ctx. sv_Save st ctx saved (cp_Version live)),
       (''Finish'', \<lambda>ctx. sv_Finish st ctx finished (cp_Version live)),
       (''RenewLease'', \<lambda>ctx. sv_RenewLease st ctx (renewal live (cp_ClaimSequence live))),
       (''Append'', \<lambda>ctx. sv_Append st ctx logRecord),
       (''AppendFenced'', \<lambda>ctx. sv_AppendFenced st ctx logRecord fence)])"

definition cancelled_writes :: "'w store_under_test \<Rightarrow> 'w test" where
  "cancelled_writes st =
     read_time st (\<lambda>t0. (let seed = storeConformanceCheckpoint ''store-conformance-cancel'' t0 in
     expect_call ''Create() setup'' (sv_Create st None seed) (
     expect_value ''Load() setup'' (sv_Load st None (cp_RunID seed)) (\<lambda>live.
     read_time st (\<lambda>t1. read_time st (\<lambda>t2.
     (let created = storeConformanceCheckpoint ''store-conformance-cancel-create'' t1;
          writes = conformance_writes st live created t2 in
     refused_writes writes ContextCanceled (
     refused_writes writes DeadlineExceeded (
     expect_value ''Load() after refused writes'' (sv_Load st None (cp_RunID live)) (\<lambda>after.
     expect ''checkpoint after refused writes''
       (cp_Version after = cp_Version live \<and> cp_Status after = CheckpointRunning \<and> cp_OwnerID after = cp_OwnerID live \<and>
        cp_ClaimSequence after = cp_ClaimSequence live \<and> cp_LeaseExpiresAt after = cp_LeaseExpiresAt live) (
     expect_no_value ''Load(refused Create)'' ErrCheckpointNotFound (sv_Load st None (cp_RunID created)) (
     expect_value ''List() after refused writes'' (sv_List st None (query_run (cp_RunID live))) (\<lambda>records.
     expect ''run log after refused writes'' (records = []) passed)))))))))))))"

text \<open>
  \<open>RequireStoreConformance\<close> but for its first test, which runs a whole workflow. Each test gets a fresh store.
\<close>

definition RequireStoreConformance :: "'w store_under_test \<Rightarrow> (nat \<Rightarrow> 'w) \<Rightarrow> string option list" where
  "RequireStoreConformance st newStore =
     [lease_fencing st (newStore 0), run_log_idempotence st (newStore 1), fenced_run_log st (newStore 2),
      cancelled_writes st (newStore 3)]"

section \<open>The memory store\<close>

definition memory_under_test :: "(nat \<Rightarrow> nat) \<Rightarrow> world store_under_test" where
  "memory_under_test clock =
     services.extend (memory_services clock (\<lambda>n. None) (\<lambda>p. Some 1) 0 [])
       \<lparr>sv_RenewLease = (\<lambda>ctx lease w. on_checkpoints
          (RenewLease (call_error (\<lambda>n. None) ctx w) (read_clock clock w) lease) w)\<rparr>"

definition fresh_world :: "nat \<Rightarrow> world" where
  "fresh_world calls = \<lparr>wd_store = NewMemoryStore, wd_calls = calls, wd_seen = []\<rparr>"


lemmas test_defs = expect_def expect_call_def expect_error_def expect_value_def expect_no_value_def passed_def read_time_def

lemma hour_pos [simp]: "0 < hour"
  by (simp add: hour_def)

lemma memory_under_test_simps [simp]:
  "sv_now (memory_under_test clock) w = (read_clock clock w, tick w)"
  "sv_Create (memory_under_test clock) ctx r w = on_checkpoints (Create ctx (read_clock clock w) r) w"
  "sv_Load (memory_under_test clock) ctx run w = (Load ctx run (ms_checkpointer (wd_store w)), tick w)"
  "sv_Claim (memory_under_test clock) ctx r v w = on_checkpoints (Claim ctx (read_clock clock w) r v) w"
  "sv_Save (memory_under_test clock) ctx r v w = on_checkpoints (Save ctx (read_clock clock w) r v) w"
  "sv_Finish (memory_under_test clock) ctx r v w = on_checkpoints (Finish ctx (read_clock clock w) r v) w"
  "sv_Append (memory_under_test clock) ctx rec w = on_log (MemoryLog_Append ctx rec) w"
  "sv_List (memory_under_test clock) ctx q w = (MemoryLog_List ctx q (ms_log (wd_store w)), tick w)"
  "sv_RenewLease (memory_under_test clock) ctx lease w = on_checkpoints (RenewLease ctx (read_clock clock w) lease) w"
  "sv_AppendFenced (memory_under_test clock) ctx rec fence w =
     (let (err, s) = AppendFenced ctx (read_clock clock w) rec fence (wd_store w) in (err, tick (w\<lparr>wd_store := s\<rparr>)))"
  by (simp_all add: memory_under_test_def memory_services_def services.defs call_error_def)

text \<open>A run of the suite takes less than an hour.\<close>

definition within_the_hour :: "(nat \<Rightarrow> nat) \<Rightarrow> bool" where
  "within_the_hour clock \<longleftrightarrow> (\<forall>m n. int (clock m) < int (clock n) + hour)"

lemma clock_bounds:
  assumes "within_the_hour clock"
  shows "int (clock m) < int (clock n) + hour" "int (clock m) < 2 * hour + int (clock n)"
    "\<not> int (clock m) < int (clock n) - hour" "1 \<le> hour"
proof -
  show a: "int (clock m) < int (clock n) + hour" for m n using assms by (simp add: within_the_hour_def)
  show "int (clock m) < 2 * hour + int (clock n)" "\<not> int (clock m) < int (clock n) - hour" "1 \<le> hour"
    using a [of m n] a [of n m] hour_pos by linarith+
qed

lemma later_than_zero [simp]:
  "int a + 1 + hour \<noteq> 0" "numeral k * hour + (int a + 1) \<noteq> 0" "\<not> numeral k * hour + (int a + 1) < 0"
proof -
  have "0 \<le> numeral k * hour" by (simp add: hour_def)
  then show "numeral k * hour + (int a + 1) \<noteq> 0" "\<not> numeral k * hour + (int a + 1) < 0" by linarith+
  show "int a + 1 + hour \<noteq> 0" using hour_pos by linarith
qed

lemmas conformance_defs = test_defs fresh_world_def Let_def on_checkpoints_def on_log_def tick_def read_clock_def
  storeConformanceCheckpoint_def storeConformanceRunLogRecord_def NewMemoryStore_def NewMemoryCheckpointer_def NewMemoryLog_def
  Create_def Load_def RenewLease_def Save_def Finish_def Claim_def store_write_def leaseExpiry_def restore_record_def
  cloneCheckpointRecord_def validateCheckpointRecord_def validSourceLineage_def checkpointSchemaVersion_def
  conformanceCheckpointSchema_def conformanceSecondEventSequence_def maxWorkflowCheckpointPayloadBytes_def
  running_payload_def saved_payload_def renewal_def sameCheckpointIdentity_def checkpointTerminal_def query_run_def
  RecordFromEvent_def zero_Event_def MemoryLog_Append_def MemoryLog_List_def validateRecord_def AppendFenced_def record_key_def query_error_def cloneRecord_eq

lemma passes_lease_fencing:
  assumes "within_the_hour clock"
  shows "lease_fencing (memory_under_test clock) (fresh_world n) = None"
  by (simp add: lease_fencing_def lease_fencing_claims_def conformance_defs clock_bounds [OF assms])

lemma passes_run_log: "run_log_idempotence (memory_under_test clock) (fresh_world n) = None"
  by (simp add: run_log_idempotence_def conformance_defs)

lemma passes_fenced:
  assumes "within_the_hour clock"
  shows "fenced_run_log (memory_under_test clock) (fresh_world n) = None"
  by (simp add: fenced_run_log_def fenced_expired_def conformance_defs clock_bounds [OF assms])

text \<open>Under a context that is over a write is one call without an effect.\<close>

definition calls_later :: "nat \<Rightarrow> world \<Rightarrow> world" where
  "calls_later n w = w\<lparr>wd_calls := wd_calls w + n\<rparr>"

lemma refused_writes_pass:
  "refused_writes (conformance_writes (memory_under_test clock) live created now) want rest w = rest (calls_later 7 w)"
  by (simp add: conformance_writes_def expect_error_def Let_def on_checkpoints_def on_log_def tick_def calls_later_def
    Create_def Claim_def Save_def Finish_def store_write_def RenewLease_def MemoryLog_Append_def AppendFenced_def
    eval_nat_numeral)

lemma passes_cancelled: "cancelled_writes (memory_under_test clock) (fresh_world n) = None"
  by (simp add: cancelled_writes_def conformance_defs refused_writes_pass calls_later_def del: refused_writes.simps)

section \<open>The events of an agent\<close>

definition conformanceSessionID :: string where "conformanceSessionID = ''conformance-session''"
definition minimumRunEventCount :: nat where "minimumRunEventCount = 2"

record runFacts =
  fa_sessionID :: string
  fa_parentRunID :: string
  fa_source :: string
  fa_definitionID :: string
  fa_sequence :: int
  fa_terminal :: bool

definition isAgentTerminalEvent :: "string \<Rightarrow> bool" where
  "isAgentTerminalEvent t \<longleftrightarrow>
     t \<in> {EventWorkflowInterrupted, EventWorkflowCompleted, EventWorkflowFailed, EventWorkflowCanceled, EventWorkflowTerminated}"

definition isAgentStartEvent :: "string \<Rightarrow> bool" where
  "isAgentStartEvent t \<longleftrightarrow> t = EventWorkflowStarted"

definition isAgentCompletedEvent :: "string \<Rightarrow> bool" where
  "isAgentCompletedEvent t \<longleftrightarrow> t = EventWorkflowCompleted"

definition requireRootAgentEvent :: "Identity \<Rightarrow> Event \<Rightarrow> bool" where
  "requireRootAgentEvent identity e \<longleftrightarrow>
     ev_SessionID e = conformanceSessionID \<and> ev_ParentRunID e = [] \<and> ev_DefinitionID e = ai_Name identity \<and> ev_Source e \<noteq> []"

text \<open>The facts that an event is checked against: those of its run, or its own when it is the first.\<close>

definition facts_before :: "(string \<rightharpoonup> runFacts) \<Rightarrow> Event \<Rightarrow> runFacts" where
  "facts_before runs e =
     (case runs (ev_RunID e) of
        Some facts \<Rightarrow> facts
      | None \<Rightarrow> \<lparr>fa_sessionID = ev_SessionID e, fa_parentRunID = ev_ParentRunID e, fa_source = ev_Source e,
                 fa_definitionID = ev_DefinitionID e, fa_sequence = 0, fa_terminal = False\<rparr>)"

definition agent_event ::
  "Identity \<Rightarrow> string \<Rightarrow> Event \<Rightarrow> (string \<rightharpoonup> runFacts) \<times> Event list \<Rightarrow> string + (string \<rightharpoonup> runFacts) \<times> Event list" where
  "agent_event identity runID e = (\<lambda>(runs, rootEvents).
     if ev_SessionID e \<noteq> conformanceSessionID \<or> ev_RunID e = [] \<or> ev_Sequence e \<le> 0 \<or> ev_Source e = [] \<or>
        is_zero_time (ev_Timestamp e) then Inl ''want complete event identity''
     else (let facts = facts_before runs e in
       if fa_terminal facts \<or> ev_SessionID e \<noteq> fa_sessionID facts \<or> ev_ParentRunID e \<noteq> fa_parentRunID facts \<or>
          (fa_definitionID facts = [] \<and> ev_Source e \<noteq> fa_source facts) \<or>
          (fa_definitionID facts \<noteq> [] \<and> ev_DefinitionID e \<noteq> fa_definitionID facts) \<or>
          ev_Sequence e \<noteq> fa_sequence facts + 1 then Inl ''want stable per-run lineage and sequence''
       else (let runs1 = runs(ev_RunID e \<mapsto>
                 facts\<lparr>fa_sequence := ev_Sequence e, fa_terminal := isAgentTerminalEvent (ev_Type e)\<rparr>) in
         if ev_RunID e = runID
         then if requireRootAgentEvent identity e then Inr (runs1, rootEvents @ [e]) else Inl ''want accurate root envelope''
         else if ev_ParentRunID e = [] then Inl ''want nested lineage under root''
         else Inr (runs1, rootEvents))))"

fun agent_events ::
  "Identity \<Rightarrow> string \<Rightarrow> Event list \<Rightarrow> (string \<rightharpoonup> runFacts) \<times> Event list \<Rightarrow> string + (string \<rightharpoonup> runFacts) \<times> Event list" where
  "agent_events identity runID [] state = Inr state"
| "agent_events identity runID (e # events) state =
     (case agent_event identity runID e state of
        Inl fatal \<Rightarrow> Inl fatal
      | Inr state1 \<Rightarrow> agent_events identity runID events state1)"

definition requireAgentEvents :: "Identity \<Rightarrow> string \<Rightarrow> Event list \<Rightarrow> string option" where
  "requireAgentEvents identity runID events =
     (if length events < minimumRunEventCount then Some ''want started and terminal''
      else (case agent_events identity runID events (Map.empty, []) of
          Inl fatal \<Rightarrow> Some fatal
        | Inr (runs, rootEvents) \<Rightarrow>
            if length rootEvents < minimumRunEventCount \<or> \<not> isAgentStartEvent (ev_Type (rootEvents ! 0)) \<or>
               \<not> isAgentCompletedEvent (ev_Type (rootEvents ! (length rootEvents - 1))) \<or>
               ev_RunID (events ! (length events - 1)) \<noteq> runID \<or>
               \<not> isAgentCompletedEvent (ev_Type (events ! (length events - 1)))
              then Some ''want one completed terminal'' else None))"

text \<open>
  What is asked of the events of one run: numbered from one without gaps, one parent, one definition (one
  source, when the first event names no definition), and nothing after a terminal event.
\<close>

definition same_line :: "Event \<Rightarrow> Event \<Rightarrow> bool" where
  "same_line first e \<longleftrightarrow>
     ev_ParentRunID e = ev_ParentRunID first \<and>
     (if ev_DefinitionID first = [] then ev_Source e = ev_Source first else ev_DefinitionID e = ev_DefinitionID first)"

definition run_history :: "Event list \<Rightarrow> bool" where
  "run_history rs \<longleftrightarrow>
     map ev_Sequence rs = [1..int (length rs)] \<and>
     (\<forall>e \<in> set rs. same_line (hd rs) e) \<and>
     (\<forall>e \<in> set (butlast rs). \<not> isAgentTerminalEvent (ev_Type e))"

definition run_events :: "string \<Rightarrow> Event list \<Rightarrow> Event list" where
  "run_events run es = filter (\<lambda>e. ev_RunID e = run) es"

definition complete_event :: "Identity \<Rightarrow> string \<Rightarrow> Event \<Rightarrow> bool" where
  "complete_event identity runID e \<longleftrightarrow>
     ev_SessionID e = conformanceSessionID \<and> ev_RunID e \<noteq> [] \<and> ev_Source e \<noteq> [] \<and> \<not> is_zero_time (ev_Timestamp e) \<and>
     (if ev_RunID e = runID then ev_ParentRunID e = [] \<and> ev_DefinitionID e = ai_Name identity else ev_ParentRunID e \<noteq> [])"

definition events_sound :: "Identity \<Rightarrow> string \<Rightarrow> Event list \<Rightarrow> bool" where
  "events_sound identity runID es \<longleftrightarrow>
     (\<forall>e \<in> set es. complete_event identity runID e) \<and> (\<forall>run. run_history (run_events run es))"

lemma run_events_simps [simp]:
  "run_events run [] = []"
  "run_events run (es @ [e]) = run_events run es @ (if ev_RunID e = run then [e] else [])"
  by (simp_all add: run_events_def)

lemma run_history_Nil [simp]: "run_history []"
  by (simp add: run_history_def)

lemma upto_snoc: "[1..int (Suc n)] = [1..int n] @ [int n + 1]"
  by (simp add: upto_rec2)

lemma run_history_snoc:
  "run_history (rs @ [e]) \<longleftrightarrow> run_history rs \<and> ev_Sequence e = int (length rs) + 1 \<and>
     (rs \<noteq> [] \<longrightarrow> \<not> isAgentTerminalEvent (ev_Type (last rs)) \<and> same_line (hd rs) e)"
proof -
  have "map ev_Sequence (rs @ [e]) = [1..int (length (rs @ [e]))] \<longleftrightarrow>
      map ev_Sequence rs = [1..int (length rs)] \<and> ev_Sequence e = int (length rs) + 1"
    by (simp add: upto_snoc del: of_nat_Suc upto.simps)
  moreover have "(\<forall>x \<in> set (butlast (rs @ [e])). \<not> isAgentTerminalEvent (ev_Type x)) \<longleftrightarrow>
      (\<forall>x \<in> set (butlast rs). \<not> isAgentTerminalEvent (ev_Type x)) \<and>
      (rs \<noteq> [] \<longrightarrow> \<not> isAgentTerminalEvent (ev_Type (last rs)))"
    by (cases rs rule: rev_cases) (auto simp: butlast_append)
  moreover have "(\<forall>x \<in> set (rs @ [e]). same_line (hd (rs @ [e])) x) \<longleftrightarrow>
      (\<forall>x \<in> set rs. same_line (hd rs) x) \<and> (rs \<noteq> [] \<longrightarrow> same_line (hd rs) e)"
    by (cases rs) (auto simp: same_line_def)
  ultimately show ?thesis unfolding run_history_def by blast
qed

text \<open>The facts that the loop keeps of a run.\<close>

definition facts_of :: "Event list \<Rightarrow> string \<Rightarrow> runFacts option" where
  "facts_of es run =
     (let rs = run_events run es in
      if rs = [] then None
      else Some \<lparr>fa_sessionID = conformanceSessionID, fa_parentRunID = ev_ParentRunID (hd rs), fa_source = ev_Source (hd rs),
                 fa_definitionID = ev_DefinitionID (hd rs), fa_sequence = int (length rs),
                 fa_terminal = isAgentTerminalEvent (ev_Type (last rs))\<rparr>)"

lemma agent_events_append:
  "agent_events i r (xs @ ys) st = (case agent_events i r xs st of Inl f \<Rightarrow> Inl f | Inr st1 \<Rightarrow> agent_events i r ys st1)"
  by (induction xs arbitrary: st) (auto split: sum.split)

lemma events_sound_snoc:
  "events_sound i r (es @ [e]) \<longleftrightarrow>
     events_sound i r es \<and> complete_event i r e \<and> run_history (run_events (ev_RunID e) es @ [e])"
proof -
  have "run_history (rs @ [e]) \<Longrightarrow> run_history rs" for rs by (simp add: run_history_snoc)
  then show ?thesis by (auto simp: events_sound_def)
qed

lemma facts_of_snoc:
  "facts_of (es @ [e]) = (facts_of es)(ev_RunID e \<mapsto>
     \<lparr>fa_sessionID = conformanceSessionID, fa_parentRunID = ev_ParentRunID (hd (run_events (ev_RunID e) es @ [e])),
      fa_source = ev_Source (hd (run_events (ev_RunID e) es @ [e])),
      fa_definitionID = ev_DefinitionID (hd (run_events (ev_RunID e) es @ [e])),
      fa_sequence = int (length (run_events (ev_RunID e) es)) + 1, fa_terminal = isAgentTerminalEvent (ev_Type e)\<rparr>)"
  by (rule ext) (simp add: facts_of_def Let_def)

lemma agent_event_sound:
  assumes "events_sound i r es"
  shows "agent_event i r e (facts_of es, run_events r es) = Inr st \<longleftrightarrow>
    events_sound i r (es @ [e]) \<and> st = (facts_of (es @ [e]), run_events r (es @ [e]))"
proof (cases "run_events (ev_RunID e) es")
  case Nil
  have "run_history [e] \<longleftrightarrow> ev_Sequence e = 1" by (simp add: run_history_def same_line_def)
  with Nil assms show ?thesis
    by (auto simp: agent_event_def facts_before_def facts_of_def [of es] Let_def events_sound_snoc complete_event_def
      requireRootAgentEvent_def facts_of_snoc split: if_splits)
next
  case (Cons x xs)
  note snoc = run_history_snoc [of "x # xs" e]
  have "run_history (x # xs)" using assms Cons unfolding events_sound_def by metis
  with Cons assms show ?thesis
    by (auto simp: agent_event_def facts_before_def facts_of_def [of es] Let_def events_sound_snoc complete_event_def
      requireRootAgentEvent_def facts_of_snoc snoc same_line_def simp del: append_Cons split: if_splits)
qed

lemma agent_events_sound:
  "agent_events i r es (Map.empty, []) = Inr st \<longleftrightarrow> events_sound i r es \<and> st = (facts_of es, run_events r es)"
proof (induction es arbitrary: st rule: rev_induct)
  case Nil
  show ?case by (auto simp: events_sound_def facts_of_def)
next
  case (snoc e es)
  show ?case
  proof (cases "agent_events i r es (Map.empty, [])")
    case (Inl f)
    with snoc.IH have "\<not> events_sound i r es" by (metis sum.distinct(1))
    with Inl show ?thesis by (simp add: agent_events_append events_sound_snoc)
  next
    case (Inr st0)
    with snoc.IH have "events_sound i r es" "st0 = (facts_of es, run_events r es)" by blast+
    with Inr have "agent_events i r (es @ [e]) (Map.empty, []) = agent_event i r e (facts_of es, run_events r es)"
      by (simp add: agent_events_append split: sum.split)
    with agent_event_sound [OF \<open>events_sound i r es\<close>] show ?thesis by simp
  qed
qed

section \<open>Properties\<close>

text \<open>
  C39 (the memory store conforms). At every clock that moves less than an hour during the suite, the memory store
  passes its tests: leases and claims, the idempotent log, the fenced log, and writes under contexts that are
  over.
\<close>

theorem memory_store_conforms:
  assumes "within_the_hour clock"
  shows "RequireStoreConformance (memory_under_test clock) (\<lambda>i. fresh_world (calls i)) = [None, None, None, None]"
  by (simp add: RequireStoreConformance_def passes_lease_fencing [OF assms] passes_run_log passes_fenced [OF assms]
    passes_cancelled)

theorem memory_store_conforms_witness:
  "RequireStoreConformance (memory_under_test (\<lambda>n. 1000 + n mod 100)) (\<lambda>i. fresh_world 0) = [None, None, None, None]"
proof -
  have "within_the_hour (\<lambda>n. 1000 + n mod 100)"
    unfolding within_the_hour_def hour_def by (auto intro: le_less_trans [of _ 1099])
  from memory_store_conforms [OF this, of "\<lambda>i. 0"] show ?thesis .
qed

text \<open>The suite finds a store that ignores the fence of an append.\<close>

lemma suite_rejects_unfenced:
  "fenced_run_log ((memory_under_test clock)\<lparr>sv_AppendFenced := \<lambda>ctx r f. sv_Append (memory_under_test clock) ctx r\<rparr>)
     (fresh_world n) = Some ''AppendFenced(stale fence)''"
  by (simp add: fenced_run_log_def conformance_defs)


text \<open>A root with a nested run between its start and its end is accepted; when the root is reopened after its end, it is not.\<close>

definition sample_agent_event :: "string \<Rightarrow> string \<Rightarrow> int \<Rightarrow> string \<Rightarrow> Event" where
  "sample_agent_event run parent seq t =
     zero_Event\<lparr>ev_SessionID := conformanceSessionID, ev_RunID := run, ev_ParentRunID := parent, ev_Sequence := seq,
       ev_Type := t, ev_Source := ''workflow'', ev_DefinitionID := ''echo'', ev_Timestamp := 1\<rparr>"

lemma sample_agent_events:
  "requireAgentEvents \<lparr>ai_Name = ''echo'', ai_Description = ''d'', ai_Version = ''1''\<rparr> ''r''
     [sample_agent_event ''r'' [] 1 EventWorkflowStarted, sample_agent_event ''c'' ''r'' 1 EventWorkflowStarted,
      sample_agent_event ''c'' ''r'' 2 EventWorkflowFailed, sample_agent_event ''r'' [] 2 EventWorkflowCompleted] = None"
  "requireAgentEvents \<lparr>ai_Name = ''echo'', ai_Description = ''d'', ai_Version = ''1''\<rparr> ''r''
     [sample_agent_event ''r'' [] 1 EventWorkflowStarted, sample_agent_event ''r'' [] 2 EventWorkflowFailed,
      sample_agent_event ''r'' [] 3 EventWorkflowCompleted] = Some ''want stable per-run lineage and sequence''"
  by (simp_all add: requireAgentEvents_def minimumRunEventCount_def sample_agent_event_def agent_event_def facts_before_def
    isAgentTerminalEvent_def isAgentStartEvent_def isAgentCompletedEvent_def requireRootAgentEvent_def zero_Event_def Let_def
    conformanceSessionID_def)

end
