(* ===== verification/Spec2Isabelle.thy ===== *)
theory Spec2Isabelle
  imports Prelude Values Events Runlog Store Topology RunState Settle Schedule Codec Interrupts Execution Journal Durability World
    Guards Settlement Scheduler Branches Course Pulling Coordination
    History Control
    Config Invocation Plugins CheckpointTypes Builder Compilation Versions Heartbeat
    Messages Agents Directories Acp Api Conformance
begin

text \<open>
  A verification development for gopact, a workflow engine in Go: programs build a graph of typed nodes,
  compile it, and run it durably. A run can be interrupted, resumed by another process, retried from a
  failed activation, forked, nested and terminated; its events are appended to a log and its state is kept in
  checkpoints under a lease. The development models this core as executable functions
  and proves what makes each part, and the parts together, correct.

  \<^bold>\<open>The program and its model.\<close>

  \<^item> \<open>Prelude\<close>, \<open>Values\<close>: results of fallible functions (\<open>goerr + 'a\<close>; a \<open>goerr option\<close> next to the state
    where an operation may fail after it has changed something), error trees with \<open>errors.Is\<close> and \<open>errors.Join\<close>,
    dynamically typed values with their types and assignability, correlation keys (\<open>correlation.go\<close>), callbacks that
    return, fail or panic. A Go map that the code ranges over is a finite map, and the unspecified order is
    an argument \<open>ord\<close> with \<open>range_order ord\<close>; a sorted iteration is \<open>sorted_keys\<close>.
  \<^item> \<open>Events\<close> (\<open>runtime.go\<close>, \<open>event_emission.go\<close>), \<open>Runlog\<close> (package \<open>runlog\<close>): events, their validation and delivery to
    sinks; the append-only log, its page queries and its sink. The locale \<open>run_log\<close> states the
    contract of a log, \<open>memory_log\<close> interprets it on \<open>MemoryLog\<close>.
  \<^item> \<open>Store\<close> (\<open>checkpoint_store.go\<close>): the memory store with versions, leases, claim sequences, fenced appends
    and history. The locale \<open>checkpoint_history\<close> is what readers of a history rely on, \<open>memory_history\<close> its interpretation.
  \<^item> \<open>Config\<close> (\<open>runtime.go\<close>), \<open>Plugins\<close> (\<open>plugin.go\<close>), \<open>CheckpointTypes\<close> (\<open>checkpoint_types.go\<close>), \<open>Builder\<close>
    (\<open>workflow.go\<close>, \<open>workflow_api.go\<close>), \<open>Compilation\<close>, \<open>Topology\<close> and \<open>Versions\<close> (\<open>topology.go\<close>): run options and what they
    resolve to, plugins, the registry of concrete types, builder methods on a heap of nodes, \<open>compile\<close> with all its checks,
    back edges and the version of a plan.
  \<^item> \<open>RunState\<close> (\<open>workflow.go\<close>), \<open>Schedule\<close> (\<open>workflow.go\<close>, \<open>join_expectation.go\<close>), \<open>Settle\<close> and \<open>Settlement\<close>
    (\<open>settle.go\<close>, \<open>iter_source.go\<close>), \<open>Branches\<close>: the life of an activation, dispatches and joins, the policies of source sets and
    what their decisions do to the queue, iterators as sources of branches.
  \<^item> \<open>Guards\<close> (\<open>guard.go\<close>, \<open>lifecycle.go\<close>, \<open>middleware.go\<close>): what happens inside one activation. Guards, hooks and
    middlewares are scripts of what they do, so theorems range over all of them.
  \<^item> \<open>Scheduler\<close>, \<open>Course\<close>, \<open>Pulling\<close>, \<open>Coordination\<close> (\<open>scheduler.go\<close>, the loop of \<open>invokeAll\<close>): batches,
    the order in which their results arrive (an argument), cancellation of the rest of a batch, and the whole run.
  \<^item> \<open>Codec\<close> (\<open>activation_checkpoint.go\<close>, \<open>settle_checkpoint.go\<close>, \<open>correlation_checkpoint.go\<close>), \<open>Interrupts\<close>: what a
    checkpoint keeps of a run, and how the resolutions of a resume request meet the pending interrupts.
  \<^item> \<open>Execution\<close>, \<open>Journal\<close>, \<open>Durability\<close>, \<open>World\<close> (\<open>workflow.go\<close>): the services of a run, the three writes that
    commit an event, claims, resumes and the replay of the journal. The locale \<open>durable_store\<close> is the contract between
    the protocol and a store; \<open>mem\<close> interprets it on the memory store in a world in which every call may fail.
  \<^item> \<open>Invocation\<close> (\<open>invokeAll\<close>, \<open>Invoke\<close>, \<open>Retry\<close>, \<open>JumpTo\<close>, \<open>Fork\<close>, \<open>childOptions\<close>), \<open>Control\<close> (\<open>control.go\<close>),
    \<open>History\<close> (\<open>workflow/runlog.go\<close>): one call from its options to its result, control commands, and the read models of runs.
  \<^item> \<open>Heartbeat\<close> (\<open>workflow.go\<close>): the renewals of a lease while a run is executed, with the calls of other clients between them, and
    how a lost lease ends the run.
  \<^item> \<open>Messages\<close> (\<open>model.go\<close>), \<open>Agents\<close> (\<open>agent/agent.go\<close>, \<open>agent/observation.go\<close>), \<open>Directories\<close> (\<open>agent/catalog.go\<close>): the
    protocol of models and tools, observations fed back to a model, the directory of agents and the options that pass an adapter.
    \<open>Acp\<close> (\<open>acp/acp.go\<close>): an agent behind a connection, whose concurrent calls are a step relation.
  \<^item> \<open>Api\<close> (\<open>workflow_api.go\<close>, \<open>guard.go\<close>, \<open>control.go\<close>, \<open>agent/workflow.go\<close>): the public methods over this core: iterator dispatches, typed
    inputs, calls that compile first, workflow agents. \<open>Conformance\<close> (package \<open>gopacttest\<close>): the suite for stores, run on the
    memory store, and the check of an agent's events.

  \<^bold>\<open>What the lemmas show.\<close> Durability: under any failures an event is committed, announced and recoverable
  exactly once or not at all, and a run ends in one announced status (\<open>World\<close>). Store: fencing, compare and swap, exclusiveness
  under a lease, gapless histories (\<open>Store\<close>). Scheduling: deliveries become exactly the expected activations, joins fire
  once, a settled set selects what its policy promises, a run ends within its limits (\<open>Schedule\<close>, \<open>Settle\<close>, \<open>Pulling\<close>,
  \<open>Coordination\<close>). Activations: at most one body per activation, typed results, nothing repeated after an
  interrupt (\<open>Guards\<close>). Restarts: checkpoints decode to what was encoded (\<open>Codec\<close>), resolutions match interrupts one to one
  (\<open>Interrupts\<close>). Building: plans are well formed and final, and their edges carry the values that nodes return
  (\<open>Compilation\<close>). Calls: options agree or fail, one active run per id, new runs for control commands (\<open>Config\<close>, \<open>Invocation\<close>,
  \<open>Control\<close>). Leases: renewals in time keep a run, a late one ends it without another write (\<open>Heartbeat\<close>). Agents:
  observations are bounded, adapters pass the options of the caller and nothing else, a session has one prompt (\<open>Agents\<close>, \<open>Directories\<close>,
  \<open>Acp\<close>). Properties are the lemmas whose text carries an identifier \<open>C\<close>\<open>n\<close>; a property with hypotheses is followed by a
  witness that applies it at a concrete input.

  \<^bold>\<open>Loops.\<close> Structural recursion or \<open>function\<close> with a measure throughout, except \<open>fillIterQueue\<close> and the run
  loop, which are \<open>partial_function (option)\<close>: iterators may yield for ever, so that they end is proved (\<open>Pulling\<close>,
  \<open>Coordination\<close>), not assumed. Loops over pages count the full pages they have read against a limit of the code, so they
  end for any store; only the replay of the journal has no such limit and stops after \<open>pages\<close> pages, an argument.

  \<^bold>\<open>Environment.\<close> Not under \<open>src/\<close>, hence arguments: the clock, context errors, UUIDs, SHA-256, \<open>encoding/gob\<close> (a
  payload of type \<open>gobbytes\<close> with its length), \<open>json.Unmarshal\<close>, reflection of types, callbacks, and the order in
  which goroutines report.

  \<^bold>\<open>Not modelled.\<close> Mutexes and goroutines (a batch is the sequence of its reports; a run sees of its heartbeat what it reports), deep copies
  (values are immutable), nil receivers, \<open>InvokeStream\<close>'s \<open>yield\<close> beyond the output sink, the texts of messages beyond their constant
  parts, the interfaces that other packages implement (models, embedders, output protocols), and of \<open>gopacttest\<close> the suites
  that call user code and the style checks of Go sources.
\<close>

end
